(* ===== verification/Prelude.thy ===== *)
theory Prelude
  imports Main "HOL-Library.Char_ord" "HOL-Library.List_Lexorder" "HOL-Library.Product_Lexorder"
    "HOL-Library.Word"
begin

text \<open>
  The shared prelude: Go call results (a value, a returned \<open>error\<close>, or a panic), the
  world-passing computations the handlers are written in, and the generic lemmas on them.

  A Go function that returns \<open>(T, error)\<close> and may panic is a value of \<open>('e, 'm, 'a) res\<close>:
  \<open>Ok\<close> when the error is nil, \<open>Err\<close> when it is not, \<open>Panic\<close> when the call does not
  return. A function that talks to something outside the program (the Coder deployment, the
  Kubernetes API, the clock) is a function from the world to a result and the next world.
  The type of worlds is a type variable throughout: nothing is assumed of the services
  behind it except what a theorem names as a hypothesis.
\<close>

section \<open>Results\<close>

datatype ('e, 'm, 'a) res = Ok 'a | Err 'e | Panic 'm

definition is_ok :: "('e, 'm, 'a) res \<Rightarrow> bool" where
  "is_ok r = (case r of Ok _ \<Rightarrow> True | _ \<Rightarrow> False)"

definition is_panic :: "('e, 'm, 'a) res \<Rightarrow> bool" where
  "is_panic r = (case r of Panic _ \<Rightarrow> True | _ \<Rightarrow> False)"

definition rbind :: "('e, 'm, 'a) res \<Rightarrow> ('a \<Rightarrow> ('e, 'm, 'b) res) \<Rightarrow> ('e, 'm, 'b) res" where
  "rbind r f = (case r of Ok a \<Rightarrow> f a | Err e \<Rightarrow> Err e | Panic m \<Rightarrow> Panic m)"

definition rmap_err :: "('e \<Rightarrow> 'f) \<Rightarrow> ('e, 'm, 'a) res \<Rightarrow> ('f, 'm, 'a) res" where
  "rmap_err g r = (case r of Ok a \<Rightarrow> Ok a | Err e \<Rightarrow> Err (g e) | Panic m \<Rightarrow> Panic m)"

section \<open>World-passing computations\<close>

type_synonym ('w, 'e, 'm, 'a) io = "'w \<Rightarrow> ('e, 'm, 'a) res \<times> 'w"

definition ret :: "'a \<Rightarrow> ('w, 'e, 'm, 'a) io" where
  "ret a = (\<lambda>w. (Ok a, w))"

definition fail :: "'e \<Rightarrow> ('w, 'e, 'm, 'a) io" where
  "fail e = (\<lambda>w. (Err e, w))"

definition panic :: "'m \<Rightarrow> ('w, 'e, 'm, 'a) io" where
  "panic m = (\<lambda>w. (Panic m, w))"

definition lift :: "('e, 'm, 'a) res \<Rightarrow> ('w, 'e, 'm, 'a) io" where
  "lift r = (\<lambda>w. (r, w))"

definition asks :: "('w \<Rightarrow> ('e, 'm, 'a) res) \<Rightarrow> ('w, 'e, 'm, 'a) io" where
  "asks f = (\<lambda>w. (f w, w))"

definition bind :: "('w, 'e, 'm, 'a) io \<Rightarrow> ('a \<Rightarrow> ('w, 'e, 'm, 'b) io) \<Rightarrow> ('w, 'e, 'm, 'b) io" where
  "bind m f = (\<lambda>w. case m w of
      (Ok a, w') \<Rightarrow> f a w'
    | (Err e, w') \<Rightarrow> (Err e, w')
    | (Panic p, w') \<Rightarrow> (Panic p, w'))"

text \<open>\<open>if err != nil { return g(err) }\<close>: the error of a call is mapped before it is returned.\<close>

definition map_err :: "('e \<Rightarrow> 'f) \<Rightarrow> ('w, 'e, 'm, 'a) io \<Rightarrow> ('w, 'f, 'm, 'a) io" where
  "map_err g m = (\<lambda>w. case m w of (r, w') \<Rightarrow> (rmap_err g r, w'))"

text \<open>\<open>if err := call(); err != nil \<dots> else \<dots>\<close>: both outcomes are handled, a panic is not.\<close>

definition handle :: "('w, 'e, 'm, 'a) io \<Rightarrow> ('e \<Rightarrow> ('w, 'f, 'm, 'b) io)
    \<Rightarrow> ('a \<Rightarrow> ('w, 'f, 'm, 'b) io) \<Rightarrow> ('w, 'f, 'm, 'b) io" where
  "handle m h f = (\<lambda>w. case m w of
      (Ok a, w') \<Rightarrow> f a w'
    | (Err e, w') \<Rightarrow> h e w'
    | (Panic p, w') \<Rightarrow> (Panic p, w'))"

text \<open>\<open>if !cond { return e }\<close> followed by the rest of the function.\<close>

definition guard :: "bool \<Rightarrow> 'e \<Rightarrow> ('w, 'e, 'm, 'a) io \<Rightarrow> ('w, 'e, 'm, 'a) io" where
  "guard b e m = (if b then m else fail e)"

text \<open>A call that sees only one component of the world: run it there and put the component back.\<close>

definition zoom :: "('w \<Rightarrow> 'v) \<Rightarrow> ('v \<Rightarrow> 'w \<Rightarrow> 'w) \<Rightarrow> ('v, 'e, 'm, 'a) io \<Rightarrow> ('w, 'e, 'm, 'a) io" where
  "zoom get put m = (\<lambda>w. case m (get w) of (r, v) \<Rightarrow> (r, put v w))"

section \<open>Properties of computations\<close>

definition preserves :: "('w \<Rightarrow> bool) \<Rightarrow> ('w, 'e, 'm, 'a) io \<Rightarrow> bool" where
  "preserves I m \<longleftrightarrow> (\<forall>w. I w \<longrightarrow> I (snd (m w)))"

text \<open>From a world with \<open>P\<close> the computation does not panic, and it ends in a world with \<open>P\<close>.\<close>

definition safe :: "('w \<Rightarrow> bool) \<Rightarrow> ('w, 'e, 'm, 'a) io \<Rightarrow> bool" where
  "safe P m \<longleftrightarrow> (\<forall>w. P w \<longrightarrow> \<not> is_panic (fst (m w)) \<and> P (snd (m w)))"

named_theorems res_simps \<open>evaluation of results\<close>
named_theorems io_simps \<open>evaluation of world-passing computations at a world\<close>
named_theorems pres_rules \<open>invariants of the world kept by a computation\<close>
named_theorems safe_rules \<open>computations that do not panic\<close>

section \<open>Lemmas on results and computations\<close>

lemma is_ok_simps [simp, res_simps]: "is_ok (Ok a)" "\<not> is_ok (Err e)" "\<not> is_ok (Panic p)"
  by (simp_all add: is_ok_def)

lemma is_ok_iff: "is_ok r \<longleftrightarrow> (\<exists>a. r = Ok a)"
  by (cases r) auto

lemma is_panic_simps [simp, res_simps]: "\<not> is_panic (Ok a)" "\<not> is_panic (Err e)" "is_panic (Panic p)"
  by (simp_all add: is_panic_def)

lemma rbind_simps [simp, res_simps]:
  "rbind (Ok a) f = f a" "rbind (Err e) f = Err e" "rbind (Panic p) f = Panic p"
  by (simp_all add: rbind_def)

lemma rmap_err_simps [simp, res_simps]:
  "rmap_err g (Ok a) = Ok a" "rmap_err g (Err e) = Err (g e)" "rmap_err g (Panic p) = Panic p"
  by (simp_all add: rmap_err_def)

lemma rbind_eq_Ok: "rbind r f = Ok b \<longleftrightarrow> (\<exists>a. r = Ok a \<and> f a = Ok b)"
  by (cases r) auto

lemma rmap_err_eq_Ok [simp]: "rmap_err g r = Ok a \<longleftrightarrow> r = Ok a"
  by (cases r) auto

lemma is_panic_rmap_err [simp]: "is_panic (rmap_err g r) = is_panic r"
  by (cases r) auto

lemma is_panic_rbind: "is_panic (rbind r f) \<longleftrightarrow> is_panic r \<or> (\<exists>a. r = Ok a \<and> is_panic (f a))"
  by (cases r) auto

lemma basic_run [simp, io_simps]:
  "ret a w = (Ok a, w)" "fail e w = (Err e, w)" "panic p w = (Panic p, w)"
  "lift r w = (r, w)" "asks g w = (g w, w)"
  by (simp_all add: ret_def fail_def panic_def lift_def asks_def)

lemma bind_run [io_simps]:
  "bind m f w = (case m w of (Ok a, w') \<Rightarrow> f a w' | (Err e, w') \<Rightarrow> (Err e, w')
      | (Panic p, w') \<Rightarrow> (Panic p, w'))"
  by (simp add: bind_def)

lemma bind_Ok: "m w = (Ok a, w') \<Longrightarrow> bind m f w = f a w'"
  by (simp add: bind_def)

lemma bind_Err: "m w = (Err e, w') \<Longrightarrow> bind m f w = (Err e, w')"
  by (simp add: bind_def)

lemma bind_Panic: "m w = (Panic p, w') \<Longrightarrow> bind m f w = (Panic p, w')"
  by (simp add: bind_def)

lemma bind_lift_simps [simp, io_simps]:
  "bind (ret a) f = f a" "bind (fail e) f = fail e" "bind (panic p) f = panic p"
  by (simp_all add: bind_def fun_eq_iff)

lemma bind_assoc: "bind (bind m f) g = bind m (\<lambda>a. bind (f a) g)"
  by (auto simp: bind_def fun_eq_iff split: prod.splits res.splits)

lemma map_err_run [io_simps]: "map_err g m w = (rmap_err g (fst (m w)), snd (m w))"
  by (simp add: map_err_def split: prod.splits)

lemma guard_simps [simp, io_simps]: "guard True e m = m" "guard False e m = fail e"
  by (simp_all add: guard_def)

lemma guard_run [io_simps]: "guard b e m w = (if b then m w else (Err e, w))"
  by (simp add: guard_def)

lemma bind_eq_Ok:
  "bind m f w = (Ok b, w'') \<longleftrightarrow> (\<exists>a w'. m w = (Ok a, w') \<and> f a w' = (Ok b, w''))"
  by (auto simp: bind_def split: prod.splits res.splits)

lemma bind_failed: "\<exists>e. m w = (Err e, w') \<Longrightarrow> \<exists>e. bind m f w = (Err e, w')"
  by (auto simp: bind_run)

lemma map_err_eq_Ok: "map_err g m w = (Ok a, w') \<longleftrightarrow> m w = (Ok a, w')"
  by (auto simp: map_err_run prod_eq_iff)

lemma guard_eq_Ok: "guard b e m w = (Ok a, w') \<longleftrightarrow> b \<and> m w = (Ok a, w')"
  by (simp add: guard_run)

lemma handle_eq_Ok:
  "handle m h f w = (Ok b, w'') \<longleftrightarrow>
     (\<exists>a w'. m w = (Ok a, w') \<and> f a w' = (Ok b, w'')) \<or> (\<exists>e w'. m w = (Err e, w') \<and> h e w' = (Ok b, w''))"
  by (auto simp: handle_def split: prod.splits res.splits)

lemma lift_eq_Ok: "lift r w = (Ok a, w') \<longleftrightarrow> r = Ok a \<and> w' = w"
  by auto

lemma asks_eq_Ok: "asks g w = (Ok a, w') \<longleftrightarrow> g w = Ok a \<and> w' = w"
  by auto

lemma zoom_eq_Ok: "zoom get put m w = (Ok a, w') \<longleftrightarrow> (\<exists>v. m (get w) = (Ok a, v) \<and> w' = put v w)"
  by (auto simp: zoom_def split: prod.splits)

lemmas ok_simps = bind_eq_Ok map_err_eq_Ok guard_eq_Ok handle_eq_Ok lift_eq_Ok asks_eq_Ok zoom_eq_Ok

section \<open>Preserved predicates and panics\<close>

lemma preservesD: "preserves I m \<Longrightarrow> I w \<Longrightarrow> m w = (r, w') \<Longrightarrow> I w'"
  unfolding preserves_def by (metis snd_conv)

lemma preserves_basic [pres_rules, intro!, simp]:
  "preserves I (ret a)" "preserves I (fail e)" "preserves I (panic p)"
  "preserves I (lift r)" "preserves I (asks g)"
  by (simp_all add: preserves_def)

lemma preserves_bind [pres_rules]:
  assumes "preserves I m" "\<And>a. preserves I (f a)"
  shows "preserves I (bind m f)"
  using assms unfolding preserves_def bind_def
  by (auto split: prod.split res.split)

lemma preserves_map_err [pres_rules]: "preserves I m \<Longrightarrow> preserves I (map_err g m)"
  by (simp add: preserves_def map_err_run)

lemma preserves_guard [pres_rules]: "preserves I m \<Longrightarrow> preserves I (guard b e m)"
  by (simp add: guard_def)

lemma preserves_handle [pres_rules]:
  assumes "preserves I m" "\<And>a. preserves I (f a)" "\<And>e. preserves I (h e)"
  shows "preserves I (handle m h f)"
  using assms unfolding preserves_def handle_def
  by (auto split: prod.split res.split)

lemma preserves_if [pres_rules]:
  "preserves I m \<Longrightarrow> preserves I m' \<Longrightarrow> preserves I (if b then m else m')"
  by simp

lemma preserves_case_option [pres_rules]:
  "preserves I m \<Longrightarrow> (\<And>x. preserves I (f x)) \<Longrightarrow> preserves I (case x of None \<Rightarrow> m | Some y \<Rightarrow> f y)"
  by (cases x) auto

lemma safeD: "safe P m \<Longrightarrow> P w \<Longrightarrow> \<not> is_panic (fst (m w))"
  by (simp add: safe_def)

lemma safe_basic [safe_rules, intro!, simp]: "safe P (ret a)" "safe P (fail e)"
  by (simp_all add: safe_def)

lemma safe_lift [safe_rules]: "\<not> is_panic r \<Longrightarrow> safe P (lift r)"
  by (simp add: safe_def)

lemma safe_asks [safe_rules]: "(\<And>w. \<not> is_panic (g w)) \<Longrightarrow> safe P (asks g)"
  by (simp add: safe_def)

lemma safe_run: "safe P m \<Longrightarrow> P w \<Longrightarrow> \<not> is_panic (fst (m w)) \<and> P (snd (m w))"
  by (simp add: safe_def)

lemma safe_handle_err:
  assumes m: "safe P m" and f: "\<And>w a w'. P w \<Longrightarrow> m w = (Ok a, w') \<Longrightarrow> safe P (f a)"
    and h: "\<And>w e w'. P w \<Longrightarrow> m w = (Err e, w') \<Longrightarrow> safe P (h e)"
  shows "safe P (handle m h f)"
  unfolding safe_def
proof (intro allI impI)
  fix w
  assume w: "P w"
  obtain r w' where run: "m w = (r, w')" by force
  from m w have "\<not> is_panic (fst (m w)) \<and> P (snd (m w))" unfolding safe_def by blast
  then have r: "\<not> is_panic r" and w': "P w'" by (simp_all add: run)
  show "\<not> is_panic (fst (handle m h f w)) \<and> P (snd (handle m h f w))"
  proof (cases r)
    case (Ok a)
    then show ?thesis using safe_run [OF f [OF w, of a w'] w'] run by (simp add: handle_def)
  next
    case (Err e)
    then show ?thesis using safe_run [OF h [OF w, of e w'] w'] run by (simp add: handle_def)
  next
    case (Panic p)
    with r show ?thesis by simp
  qed
qed

lemma safe_handle [safe_rules]:
  assumes "safe P m" "\<And>w a w'. P w \<Longrightarrow> m w = (Ok a, w') \<Longrightarrow> safe P (f a)" "\<And>e. safe P (h e)"
  shows "safe P (handle m h f)"
  using assms by (rule safe_handle_err)

lemma bind_handle: "bind m f = handle m fail f"
  by (simp add: bind_def handle_def fun_eq_iff cong: res.case_cong)

lemma safe_bind [safe_rules]:
  assumes "safe P m" "\<And>w a w'. P w \<Longrightarrow> m w = (Ok a, w') \<Longrightarrow> safe P (f a)"
  shows "safe P (bind m f)"
  unfolding bind_handle by (rule safe_handle_err [OF assms]) auto

lemma safe_map_err [safe_rules]: "safe P m \<Longrightarrow> safe P (map_err g m)"
  by (simp add: safe_def map_err_run)

lemma safe_guard [safe_rules]: "(b \<Longrightarrow> safe P m) \<Longrightarrow> safe P (guard b e m)"
  by (simp add: guard_def)

lemma safe_if [safe_rules]:
  "(b \<Longrightarrow> safe P m) \<Longrightarrow> (\<not> b \<Longrightarrow> safe P m') \<Longrightarrow> safe P (if b then m else m')"
  by simp

lemma safe_case_option [safe_rules]:
  "(x = None \<Longrightarrow> safe P m) \<Longrightarrow> (\<And>y. x = Some y \<Longrightarrow> safe P (f y))
     \<Longrightarrow> safe P (case x of None \<Rightarrow> m | Some y \<Rightarrow> f y)"
  by (cases x) auto

lemma safe_case_prod [safe_rules]:
  "(\<And>a b. p = (a, b) \<Longrightarrow> safe P (f a b)) \<Longrightarrow> safe P (case p of (a, b) \<Rightarrow> f a b)"
  by (cases p) auto

lemma preserves_case_prod [pres_rules]:
  "(\<And>a b. preserves I (f a b)) \<Longrightarrow> preserves I (case p of (a, b) \<Rightarrow> f a b)"
  by (cases p) auto

end
