(* ===== verification/Go_Std.thy ===== *)
theory Go_Std
  imports Prelude
begin

text \<open>
  The parts of the Go standard library (and of the UUID package) the sources call: byte
  strings, \<open>path.Clean\<close>, UTF-8 validity, 64-bit integers, time stamps, UUIDs. A Go string
  is a \<open>string\<close> (a list of bytes); string order is the lexicographic order of bytes.
  A \<open>time.Time\<close> is the number of nanoseconds since Go's zero time (1 January of year 1),
  so that \<open>IsZero\<close> is equality with 0.
\<close>

section \<open>Definitions\<close>

subsection \<open>Package strings\<close>

definition strings_HasPrefix :: "string \<Rightarrow> string \<Rightarrow> bool" where
  "strings_HasPrefix s p = (take (length p) s = p)"

fun strings_Contains :: "string \<Rightarrow> string \<Rightarrow> bool" where
  "strings_Contains [] sub = (sub = [])"
| "strings_Contains (c # s) sub = (strings_HasPrefix (c # s) sub \<or> strings_Contains s sub)"

text \<open>\<open>strings.Count\<close>, \<open>strings.Split\<close> and \<open>strings.Join\<close> at a separator of one byte.\<close>

definition strings_Count :: "string \<Rightarrow> char \<Rightarrow> nat" where
  "strings_Count s c = length (filter (\<lambda>x. x = c) s)"

fun strings_Split :: "string \<Rightarrow> char \<Rightarrow> string list" where
  "strings_Split [] c = [[]]"
| "strings_Split (x # xs) c =
     (if x = c then [] # strings_Split xs c
      else (case strings_Split xs c of [] \<Rightarrow> [[x]] | p # ps \<Rightarrow> (x # p) # ps))"

fun strings_Join :: "string list \<Rightarrow> char \<Rightarrow> string" where
  "strings_Join [] c = []"
| "strings_Join [p] c = p"
| "strings_Join (p # q # ps) c = p @ [c] @ strings_Join (q # ps) c"

text \<open>
  \<open>strings.TrimSpace\<close>: the UTF-8 encodings of the code points with \<open>unicode.IsSpace\<close>,
  removed from both ends.
\<close>

definition space_encodings :: "string list" where
  "space_encodings =
     map (\<lambda>n. [char_of (n::nat)]) [9, 10, 11, 12, 13, 32]
   @ map (map char_of) ([[0xC2, 0x85], [0xC2, 0xA0], [0xE1, 0x9A, 0x80]] :: nat list list)
   @ map (\<lambda>n. map char_of [0xE2, 0x80, n::nat])
       ([0x80, 0x81, 0x82, 0x83, 0x84, 0x85, 0x86, 0x87, 0x88, 0x89, 0x8A, 0xA8, 0xA9, 0xAF] :: nat list)
   @ map (map char_of) ([[0xE2, 0x81, 0x9F], [0xE3, 0x80, 0x80]] :: nat list list)"

function trim_prefixes :: "string list \<Rightarrow> string \<Rightarrow> string" where
  "trim_prefixes encs s =
     (case find (\<lambda>e. e \<noteq> [] \<and> strings_HasPrefix s e) encs of
        None \<Rightarrow> s
      | Some e \<Rightarrow> trim_prefixes encs (drop (length e) s))"
  by pat_completeness auto
termination
proof (relation "measure (\<lambda>(encs, s). length s)")
  fix encs :: "string list" and s e :: string
  assume "find (\<lambda>e. e \<noteq> [] \<and> strings_HasPrefix s e) encs = Some e"
  then have "e \<noteq> []" "strings_HasPrefix s e"
    by (auto simp: find_Some_iff)
  then have "s \<noteq> []" by (auto simp: strings_HasPrefix_def)
  with \<open>e \<noteq> []\<close> show "((encs, drop (length e) s), encs, s) \<in> measure (\<lambda>(encs, s). length s)"
    by auto
qed simp

declare trim_prefixes.simps [simp del]

definition strings_TrimSpace :: "string \<Rightarrow> string" where
  "strings_TrimSpace s =
     rev (trim_prefixes (map rev space_encodings) (rev (trim_prefixes space_encodings s)))"

text \<open>
  \<open>strings.ToLower\<close>, as far as a search for an ASCII word can observe it: the ASCII
  letters, and the two code points beyond ASCII whose lower case is an ASCII letter
  (U+0130 and U+212A). Other bytes are kept.
\<close>

definition lower_byte :: "char \<Rightarrow> char" where
  "lower_byte c = (let n = (of_char c :: nat) in if 65 \<le> n \<and> n \<le> 90 then char_of (n + 32) else c)"

fun strings_ToLower :: "string \<Rightarrow> string" where
  "strings_ToLower [] = []"
| "strings_ToLower (a # s) =
     (if strings_HasPrefix (a # s) (map char_of [0xC4, 0xB0 :: nat])
        then CHR ''i'' # strings_ToLower (drop 1 s)
      else if strings_HasPrefix (a # s) (map char_of [0xE2, 0x84, 0xAA :: nat])
        then CHR ''k'' # strings_ToLower (drop 2 s)
      else lower_byte a # strings_ToLower s)"

subsection \<open>Package path\<close>

text \<open>
  \<open>path.Clean\<close>: the components are processed left to right over a stack (kept with the
  last component first); empty components and \<open>.\<close> are dropped, \<open>..\<close> removes the
  component before it, is kept at the start of a relative path and dropped at the root.
\<close>

fun clean_push :: "bool \<Rightarrow> string list \<Rightarrow> string \<Rightarrow> string list" where
  "clean_push rooted st seg =
     (if seg = [] \<or> seg = ''.'' then st
      else if seg = ''..'' then
        (case st of
           [] \<Rightarrow> if rooted then [] else [''..'']
         | prev # rest \<Rightarrow> if prev = ''..'' then ''..'' # st else rest)
      else seg # st)"

definition path_Clean :: "string \<Rightarrow> string" where
  "path_Clean p =
     (let rooted = strings_HasPrefix p ''/'';
          st = rev (foldl (clean_push rooted) [] (strings_Split p CHR ''/''));
          out = (if rooted then ''/'' else []) @ strings_Join st CHR ''/''
      in if out = [] then ''.'' else out)"

subsection \<open>Package utf8\<close>

definition byte :: "char \<Rightarrow> nat" where
  "byte c = of_char c"

definition in_range :: "nat \<Rightarrow> nat \<Rightarrow> char \<Rightarrow> bool" where
  "in_range lo hi c = (lo \<le> byte c \<and> byte c \<le> hi)"

fun utf8_Valid :: "string \<Rightarrow> bool" where
  "utf8_Valid [] = True"
| "utf8_Valid (a # s) =
     (if byte a < 0x80 then utf8_Valid s
      else case s of [] \<Rightarrow> False | b # s2 \<Rightarrow>
        if in_range 0xC2 0xDF a then in_range 0x80 0xBF b \<and> utf8_Valid s2
        else case s2 of [] \<Rightarrow> False | c # s3 \<Rightarrow>
          if in_range 0xE0 0xEF a then
            (if byte a = 0xE0 then in_range 0xA0 0xBF b
             else if byte a = 0xED then in_range 0x80 0x9F b else in_range 0x80 0xBF b)
            \<and> in_range 0x80 0xBF c \<and> utf8_Valid s3
          else case s3 of [] \<Rightarrow> False | d # s4 \<Rightarrow>
            in_range 0xF0 0xF4 a
            \<and> (if byte a = 0xF0 then in_range 0x90 0xBF b
               else if byte a = 0xF4 then in_range 0x80 0x8F b else in_range 0x80 0xBF b)
            \<and> in_range 0x80 0xBF c \<and> in_range 0x80 0xBF d \<and> utf8_Valid s4)"

subsection \<open>64-bit integers, strconv, time\<close>

definition wrap64 :: "int \<Rightarrow> int" where
  "wrap64 x = (x + 2 ^ 63) mod 2 ^ 64 - 2 ^ 63"

definition is_int64 :: "int \<Rightarrow> bool" where
  "is_int64 x = (- (2 ^ 63) \<le> x \<and> x < 2 ^ 63)"

fun format_nat :: "nat \<Rightarrow> string" where
  "format_nat n = (if n < 10 then [char_of (48 + n)]
                   else format_nat (n div 10) @ [char_of (48 + n mod 10)])"

declare format_nat.simps [simp del]

definition strconv_FormatInt :: "int \<Rightarrow> string" where
  "strconv_FormatInt i = (if i < 0 then CHR ''-'' # format_nat (nat (- i)) else format_nat (nat i))"

type_synonym duration = int
type_synonym gotime = int

definition time_Second :: duration where "time_Second = 1000000000"
definition time_Minute :: duration where "time_Minute = 60 * time_Second"

definition time_IsZero :: "gotime \<Rightarrow> bool" where
  "time_IsZero t = (t = 0)"

definition unix_epoch :: gotime where
  "unix_epoch = 62135596800 * 1000000000"

definition time_UnixNano :: "gotime \<Rightarrow> int" where
  "time_UnixNano t = wrap64 (t - unix_epoch)"

text \<open>\<open>Time.Sub\<close> saturates.\<close>

definition time_Sub :: "gotime \<Rightarrow> gotime \<Rightarrow> duration" where
  "time_Sub t u = max (- (2 ^ 63)) (min (2 ^ 63 - 1) (t - u))"

subsection \<open>Package uuid\<close>

type_synonym uuid = "128 word"

datatype uuid_error = InvalidURNPrefix string | InvalidUUIDFormat | InvalidLength nat

definition uuid_Nil :: uuid where "uuid_Nil = 0"

definition hex_digit :: "nat \<Rightarrow> char" where
  "hex_digit n = ''0123456789abcdef'' ! (n mod 16)"

definition uuid_nibble :: "uuid \<Rightarrow> nat \<Rightarrow> nat" where
  "uuid_nibble u i = unat (drop_bit (4 * (31 - i)) u) mod 16"

definition uuid_hex :: "uuid \<Rightarrow> nat \<Rightarrow> nat \<Rightarrow> string" where
  "uuid_hex u lo hi = map (\<lambda>i. hex_digit (uuid_nibble u i)) [lo..<hi]"

definition uuid_String :: "uuid \<Rightarrow> string" where
  "uuid_String u = uuid_hex u 0 8 @ ''-'' @ uuid_hex u 8 12 @ ''-'' @ uuid_hex u 12 16 @ ''-''
     @ uuid_hex u 16 20 @ ''-'' @ uuid_hex u 20 32"

definition hex_value :: "char \<Rightarrow> nat option" where
  "hex_value c = (let n = byte c in
     if 48 \<le> n \<and> n \<le> 57 then Some (n - 48)
     else if 97 \<le> n \<and> n \<le> 102 then Some (n - 87)
     else if 65 \<le> n \<and> n \<le> 70 then Some (n - 55)
     else None)"

fun uuid_from_hex :: "string \<Rightarrow> uuid \<Rightarrow> uuid_error + uuid" where
  "uuid_from_hex [] acc = Inr acc"
| "uuid_from_hex (c # cs) acc =
     (case hex_value c of None \<Rightarrow> Inl InvalidUUIDFormat | Some d \<Rightarrow> uuid_from_hex cs (16 * acc + of_nat d))"

definition uuid_parse36 :: "string \<Rightarrow> uuid_error + uuid" where
  "uuid_parse36 s =
     (if s ! 8 \<noteq> CHR ''-'' \<or> s ! 13 \<noteq> CHR ''-'' \<or> s ! 18 \<noteq> CHR ''-'' \<or> s ! 23 \<noteq> CHR ''-''
      then Inl InvalidUUIDFormat
      else uuid_from_hex (take 8 s @ take 4 (drop 9 s) @ take 4 (drop 14 s) @ take 4 (drop 19 s)
             @ take 12 (drop 24 s)) 0)"

definition uuid_Parse :: "string \<Rightarrow> uuid_error + uuid" where
  "uuid_Parse s =
     (if length s = 36 then uuid_parse36 s
      else if length s = 45 then
        (if map lower_byte (take 9 s) \<noteq> ''urn:uuid:'' then Inl (InvalidURNPrefix (take 9 s))
         else uuid_parse36 (drop 9 s))
      else if length s = 38 then uuid_parse36 (drop 1 s)
      else if length s = 32 then uuid_from_hex s 0
      else Inl (InvalidLength (length s)))"

section \<open>Lemmas\<close>

subsection \<open>Strings\<close>

lemma HasPrefix_iff: "strings_HasPrefix s p \<longleftrightarrow> (\<exists>r. s = p @ r)"
  unfolding strings_HasPrefix_def by (metis append_eq_conv_conj append_take_drop_id)

lemma HasPrefix_simps [simp]:
  "strings_HasPrefix s []" "strings_HasPrefix [] (c # p) = False"
  "strings_HasPrefix (a # s) (c # p) = (a = c \<and> strings_HasPrefix s p)"
  by (auto simp: strings_HasPrefix_def)

lemma Contains_single: "strings_Contains s [c] \<longleftrightarrow> c \<in> set s"
  by (induction s) auto

lemma Split_not_Nil [simp]: "strings_Split s c \<noteq> []"
  by (induction s) (auto split: list.splits)

lemma Split_no_sep: "p \<in> set (strings_Split s c) \<Longrightarrow> c \<notin> set p"
  by (induction s arbitrary: p) (auto split: list.splits if_splits)

lemma length_Split: "length (strings_Split s c) = Suc (strings_Count s c)"
  by (induction s) (auto simp: strings_Count_def split: list.splits)

lemma Join_Cons: "ps \<noteq> [] \<Longrightarrow> strings_Join (p # ps) c = p @ [c] @ strings_Join ps c"
  by (cases ps) auto

lemma Join_Cons_Cons_char: "strings_Join ((x # p) # ps) c = x # strings_Join (p # ps) c"
  by (cases ps) auto

lemma Join_Split: "strings_Join (strings_Split s c) c = s"
proof (induction s)
  case (Cons x s)
  then show ?case
    by (cases "strings_Split s c") (auto simp: Join_Cons Join_Cons_Cons_char)
qed simp

lemma Split_sepfree: "c \<notin> set p \<Longrightarrow> strings_Split p c = [p]"
  by (induction p) auto

lemma Split_append: "c \<notin> set p \<Longrightarrow> strings_Split (p @ c # s) c = p # strings_Split s c"
  by (induction p) auto

lemma Split_Join:
  "ps \<noteq> [] \<Longrightarrow> (\<And>p. p \<in> set ps \<Longrightarrow> c \<notin> set p) \<Longrightarrow> strings_Split (strings_Join ps c) c = ps"
proof (induction ps)
  case (Cons p ps)
  then show ?case
    by (cases "ps = []") (simp_all add: Split_sepfree Join_Cons Split_append)
qed simp

lemma in_Split_eq: "strings_Split s c = [p] \<longleftrightarrow> s = p \<and> c \<notin> set p"
  by (metis Join_Split Split_no_sep Split_sepfree list.set_intros(1) strings_Join.simps(2))

lemma set_Join: "set (strings_Join ps c) \<subseteq> \<Union>(set ` set ps) \<union> {c}"
  by (induction ps c rule: strings_Join.induct) auto

lemma set_Split: "p \<in> set (strings_Split s c) \<Longrightarrow> set p \<subseteq> set s"
  by (induction s arbitrary: p) (fastforce split: list.splits if_splits)+

subsection \<open>Trimming\<close>

definition plain :: "char \<Rightarrow> bool" where
  "plain c = (33 \<le> byte c \<and> byte c \<le> 126)"

lemma trim_prefixes_none:
  "(\<And>e. e \<in> set encs \<Longrightarrow> \<not> strings_HasPrefix s e) \<Longrightarrow> trim_prefixes encs s = s"
  by (subst trim_prefixes.simps) (auto simp: find_None_iff split: option.split dest!: iffD1 [OF find_Some_iff])

lemma encodings_not_plain:
  "e \<in> set space_encodings \<Longrightarrow> e \<noteq> [] \<and> \<not> plain (hd e) \<and> \<not> plain (last e)"
  by (auto simp: space_encodings_def plain_def byte_def)

lemma HasPrefix_hd: "strings_HasPrefix s e \<Longrightarrow> e \<noteq> [] \<Longrightarrow> hd s = hd e"
  by (auto simp: HasPrefix_iff)

text \<open>A string that starts and ends with a visible ASCII byte has nothing to trim.\<close>

lemma TrimSpace_plain:
  assumes "s \<noteq> []" "plain (hd s)" "plain (last s)"
  shows "strings_TrimSpace s = s"
proof -
  have "trim_prefixes space_encodings s = s"
    using assms encodings_not_plain HasPrefix_hd by (intro trim_prefixes_none) metis
  moreover have "trim_prefixes (map rev space_encodings) (rev s) = rev s"
  proof (rule trim_prefixes_none, rule notI)
    fix e
    assume e: "e \<in> set (map rev space_encodings)" "strings_HasPrefix (rev s) e"
    then obtain d where d: "e = rev d" "d \<in> set space_encodings" by auto
    with encodings_not_plain [OF d(2)] HasPrefix_hd [OF e(2)] assms show False
      by (simp add: hd_rev)
  qed
  ultimately show ?thesis by (simp add: strings_TrimSpace_def)
qed

lemma TrimSpace_Nil [simp]: "strings_TrimSpace [] = []"
proof -
  have "strings_HasPrefix [] e = (e = [])" for e by (cases e) auto
  then have *: "trim_prefixes encs [] = []" if "[] \<notin> set encs" for encs
    using that by (intro trim_prefixes_none) auto
  have "[] \<notin> set space_encodings" using encodings_not_plain by blast
  then have "trim_prefixes space_encodings [] = []" "trim_prefixes (map rev space_encodings) [] = []"
    by (intro *; auto)+
  then show ?thesis by (simp add: strings_TrimSpace_def)
qed

lemma trim_prefixes_done: "e \<in> set encs \<Longrightarrow> e \<noteq> [] \<Longrightarrow> \<not> strings_HasPrefix (trim_prefixes encs s) e"
proof (induction encs s rule: trim_prefixes.induct)
  case (1 encs s)
  then show ?case
    by (subst trim_prefixes.simps) (auto simp: find_None_iff split: option.split)
qed

lemma trim_prefixes_suffix: "\<exists>p. s = p @ trim_prefixes encs s"
proof (induction encs s rule: trim_prefixes.induct)
  case (1 encs s)
  show ?case
  proof (cases "find (\<lambda>e. e \<noteq> [] \<and> strings_HasPrefix s e) encs")
    case (Some e)
    then obtain p where p: "drop (length e) s = p @ trim_prefixes encs (drop (length e) s)" using 1 by blast
    have "trim_prefixes encs s = trim_prefixes encs (drop (length e) s)"
      by (subst trim_prefixes.simps) (simp add: Some)
    then have "s = (take (length e) s @ p) @ trim_prefixes encs s"
      using p append_take_drop_id [of "length e" s] by (metis append.assoc)
    then show ?thesis by blast
  qed (subst trim_prefixes.simps, simp)
qed

text \<open>Trimming on the right leaves a prefix, so nothing to trim appears on the left.\<close>

lemma TrimSpace_idem [simp]: "strings_TrimSpace (strings_TrimSpace s) = strings_TrimSpace s"
proof -
  let ?r = "map rev space_encodings"
  define l where "l = trim_prefixes space_encodings s"
  define t where "t = trim_prefixes ?r (rev l)"
  have out: "strings_TrimSpace s = rev t" by (simp add: strings_TrimSpace_def l_def t_def)
  have ne: "[] \<notin> set space_encodings" using encodings_not_plain by blast
  obtain p where "rev l = p @ t" unfolding t_def using trim_prefixes_suffix by blast
  then have l: "l = rev t @ rev p" by (metis rev_append rev_rev_ident)
  have "\<not> strings_HasPrefix (rev t) e" if "e \<in> set space_encodings" for e
  proof -
    have "e \<noteq> []" using that ne by auto
    then show ?thesis using trim_prefixes_done [OF that, of s] l unfolding l_def [symmetric] by (auto simp: HasPrefix_iff)
  qed
  then have "trim_prefixes space_encodings (rev t) = rev t" by (rule trim_prefixes_none)
  moreover have "trim_prefixes ?r t = t"
    using trim_prefixes_done [of _ ?r "rev l"] ne unfolding t_def [symmetric] by (intro trim_prefixes_none) auto
  ultimately show ?thesis by (simp add: out) (simp add: strings_TrimSpace_def)
qed

lemma TrimSpace_code [code]:
  "strings_TrimSpace s = (if s = [] then [] else if plain (hd s) \<and> plain (last s) then s
     else rev (trim_prefixes (map rev space_encodings) (rev (trim_prefixes space_encodings s))))"
  by (auto simp: TrimSpace_plain strings_TrimSpace_def [symmetric])

subsection \<open>Integers in decimal\<close>

definition digit_val :: "char \<Rightarrow> nat" where
  "digit_val c = of_char c - 48"

lemma digit_val_char_of [simp]: "n < 10 \<Longrightarrow> digit_val (char_of (48 + n)) = n"
  by (simp add: digit_val_def)

lemma foldl_format_nat: "foldl (\<lambda>a c. 10 * a + digit_val c) 0 (format_nat n) = n"
proof (induction n rule: format_nat.induct)
  case (1 n)
  then show ?case
    by (cases "n < 10") (simp_all add: format_nat.simps [of n])
qed

lemma format_nat_inj: "format_nat m = format_nat n \<Longrightarrow> m = n"
  by (metis foldl_format_nat)

lemma format_nat_digits: "c \<in> set (format_nat n) \<Longrightarrow> 48 \<le> byte c \<and> byte c \<le> 57"
proof (induction n rule: format_nat.induct)
  case (1 n)
  then show ?case
    by (cases "n < 10") (auto simp: format_nat.simps [of n] byte_def)
qed

lemma format_nat_not_Nil [simp]: "format_nat n \<noteq> []"
  by (subst format_nat.simps) simp

lemma FormatInt_not_Nil [simp]: "strconv_FormatInt i \<noteq> []"
  by (simp add: strconv_FormatInt_def)

lemma FormatInt_inj: "strconv_FormatInt i = strconv_FormatInt j \<longleftrightarrow> i = j"
proof
  have minus: "CHR ''-'' \<notin> set (format_nat n)" for n
    using format_nat_digits [of "CHR ''-''" n] by (auto simp: byte_def)
  assume eq: "strconv_FormatInt i = strconv_FormatInt j"
  have "(i < 0) = (j < 0)"
    using eq minus unfolding strconv_FormatInt_def
    by (auto split: if_splits) (metis list.set_intros(1))+
  with eq show "i = j"
    by (auto simp: strconv_FormatInt_def split: if_splits dest!: format_nat_inj)
qed simp

lemma wrap64_id: "is_int64 x \<Longrightarrow> wrap64 x = x"
  by (auto simp: wrap64_def is_int64_def)

lemma is_int64_wrap64: "is_int64 (wrap64 x)"
proof -
  have "0 \<le> (x + 2 ^ 63) mod 2 ^ 64" "(x + 2 ^ 63) mod 2 ^ 64 < (2 ^ 64 :: int)"
    by simp_all
  then show ?thesis unfolding is_int64_def wrap64_def by simp
qed

subsection \<open>UUIDs\<close>

lemma hex_value_hex_digit [simp]: "n < 16 \<Longrightarrow> hex_value (hex_digit n) = Some n"
proof -
  assume "n < 16"
  then have "n \<in> set [0..<16]" by simp
  then show ?thesis
    by (auto simp: hex_value_def hex_digit_def byte_def upt_rec Let_def)
qed

lemma uuid_from_hex_nibbles:
  "(\<And>d. d \<in> set ds \<Longrightarrow> d < 16) \<Longrightarrow>
     uuid_from_hex (map hex_digit ds) acc = Inr (foldl (\<lambda>a d. 16 * a + of_nat d) acc ds)"
  by (induction ds arbitrary: acc) auto

lemma word_div_mod_16: "16 * drop_bit 4 v + of_nat (unat v mod 16) = (v :: uuid)"
proof -
  have "unat (drop_bit 4 v) = unat v div 16"
    by (simp add: drop_bit_eq_div unat_div)
  moreover have "of_nat (unat (drop_bit 4 v)) = drop_bit 4 v"
    by (simp del: unat_drop_bit_eq)
  ultimately have "drop_bit 4 v = of_nat (unat v div 16)"
    by argo
  then have "16 * drop_bit 4 v + of_nat (unat v mod 16) = of_nat (16 * (unat v div 16) + unat v mod 16)"
    by (simp only: of_nat_add of_nat_mult of_nat_numeral)
  also have "\<dots> = v"
    by (simp only: mult_div_mod_eq) simp
  finally show ?thesis .
qed

lemma nibbles_fold:
  "k \<le> 32 \<Longrightarrow> foldl (\<lambda>a d. 16 * a + of_nat d) 0 (map (uuid_nibble u) [0..<k]) = drop_bit (4 * (32 - k)) u"
proof (induction k)
  case 0
  have "drop_bit 128 u = 0"
    by (rule bit_word_eqI) (auto simp: bit_drop_bit_eq dest: bit_imp_le_length)
  then show ?case by simp
next
  case (Suc k)
  let ?v = "drop_bit (4 * (31 - k)) u"
  have "drop_bit (4 * (32 - k)) u = drop_bit 4 ?v"
    using Suc.prems by (simp add: Suc_diff_le algebra_simps)
  with Suc show ?case
    using word_div_mod_16 [of ?v] by (simp add: uuid_nibble_def)
qed

lemma uuid_nibble_less [simp]: "uuid_nibble u i < 16"
  by (simp add: uuid_nibble_def)

lemma length_uuid_hex [simp]: "length (uuid_hex u lo hi) = hi - lo"
  by (simp add: uuid_hex_def)

lemma length_uuid_String [simp]: "length (uuid_String u) = 36"
  by (simp add: uuid_String_def)

lemma uuid_String_not_Nil [simp]: "uuid_String u \<noteq> []"
  by (simp add: uuid_String_def)

lemma uuid_hex_append: "lo \<le> mid \<Longrightarrow> mid \<le> hi \<Longrightarrow> uuid_hex u lo mid @ uuid_hex u mid hi = uuid_hex u lo hi"
  unfolding uuid_hex_def map_append [symmetric] by (metis le_add_diff_inverse upt_add_eq_append)

lemma uuid_from_hex_all: "uuid_from_hex (uuid_hex u 0 32) 0 = Inr u"
proof -
  let ?ds = "map (uuid_nibble u) [0..<32]"
  have "uuid_hex u 0 32 = map hex_digit ?ds"
    by (simp add: uuid_hex_def del: upt_rec_numeral)
  also have "uuid_from_hex \<dots> 0 = Inr (foldl (\<lambda>a d. 16 * a + of_nat d) 0 ?ds)"
    by (rule uuid_from_hex_nibbles) auto
  also have "foldl (\<lambda>a d. 16 * a + of_nat d) 0 ?ds = u"
    using nibbles_fold [of 32 u] by simp
  finally show ?thesis .
qed

theorem uuid_Parse_String: "uuid_Parse (uuid_String u) = Inr u"
proof -
  let ?h = "uuid_hex u"
  have "take 8 (uuid_String u) @ take 4 (drop 9 (uuid_String u)) @ take 4 (drop 14 (uuid_String u))
      @ take 4 (drop 19 (uuid_String u)) @ take 12 (drop 24 (uuid_String u))
      = ?h 0 8 @ ?h 8 12 @ ?h 12 16 @ ?h 16 20 @ ?h 20 32"
    by (simp add: uuid_String_def)
  also have "\<dots> = ?h 0 32"
    by (simp add: uuid_hex_append)
  finally show ?thesis
    by (simp add: uuid_Parse_def uuid_parse36_def uuid_from_hex_all)
       (simp add: uuid_String_def nth_append)
qed

lemma uuid_String_inject [simp]: "uuid_String u = uuid_String v \<longleftrightarrow> u = v"
  by (metis uuid_Parse_String sum.inject(2))

end
