(* ===== verification/Api_Errors.thy ===== *)
theory Api_Errors
  imports Go_Std
begin

text \<open>
  Errors of the program: Go error values with their wrapping structure, the Kubernetes API
  status errors, the Coder SDK error, and the two error mappings of the aggregated API
  server (\<open>coder.MapCoderError\<close> and \<open>storage.wrapClientError\<close>).

  A formatted message keeps its format string and its arguments (\<open>Fmt\<close>) instead of the
  rendered text: nothing in the program reads a rendered message back, and what it does
  read back (the type of a wrapped error, its status code, the message of a Coder error) is
  kept structurally. \<open>ArgV\<close> is an error printed with \<open>%v\<close>, which, unlike \<open>%w\<close>,
  does not wrap it. A Coder error carries its detail (\<open>CoderErrorDetail\<close>) or has none.
\<close>

section \<open>Definitions\<close>

record GroupResource =
  gr_group :: string
  gr_resource :: string

text \<open>The status errors are named after the constructors of the package \<open>apierrors\<close>.\<close>

datatype msg = Lit string | Fmt string "arg list"
and arg = ArgS string | ArgD int | ArgV error
and api_status =
    NewNotFound GroupResource string
  | NewForbidden GroupResource string error
  | NewAlreadyExists GroupResource string
  | NewConflict GroupResource string error
  | NewBadRequest msg
  | NewUnauthorized msg
  | NewTooManyRequests msg int
  | NewInternalError error
  | NewServiceUnavailable msg
  | NewTimeoutError msg int
and error =
    ErrorString msg
  | WrapError string "arg list" error
  | StatusError api_status
  | CoderError int string
  | CoderErrorDetail int string string
  | UUIDError uuid_error
  | ContextDeadlineExceeded
  | ContextCanceled
  | WaitTimeoutExceeded
  | BuildTerminalError uuid string string
  | BuildWaitTimeoutError uuid duration string string error
  | SecretValueMissing
  | SecretValueEmpty
  | NoMatchError
  | OtherError string

type_synonym 'a result = "(error, msg, 'a) res"
type_synonym ('w, 'a) op = "('w, error, msg, 'a) io"

abbreviation errorf :: "string \<Rightarrow> error" where
  "errorf s \<equiv> ErrorString (Lit s)"

abbreviation assertion :: "string \<Rightarrow> error" where
  "assertion s \<equiv> ErrorString (Lit (''assertion failed: '' @ s))"

abbreviation bad_request :: "msg \<Rightarrow> error" where
  "bad_request m \<equiv> StatusError (NewBadRequest m)"

text \<open>\<open>if x == nil { return fmt.Errorf(\<dots>) }\<close> followed by the rest of the function.\<close>

definition non_nil :: "'a option \<Rightarrow> error \<Rightarrow> ('a \<Rightarrow> ('w, 'b) op) \<Rightarrow> ('w, 'b) op" where
  "non_nil x e f = (case x of None \<Rightarrow> fail e | Some a \<Rightarrow> f a)"

text \<open>HTTP status and the \<open>errors.As\<close> searches along the chain of wrapped errors.\<close>

fun status_code :: "api_status \<Rightarrow> int" where
  "status_code (NewNotFound _ _) = 404"
| "status_code (NewForbidden _ _ _) = 403"
| "status_code (NewAlreadyExists _ _) = 409"
| "status_code (NewConflict _ _ _) = 409"
| "status_code (NewBadRequest _) = 400"
| "status_code (NewUnauthorized _) = 401"
| "status_code (NewTooManyRequests _ _) = 429"
| "status_code (NewInternalError _) = 500"
| "status_code (NewServiceUnavailable _) = 503"
| "status_code (NewTimeoutError _ _) = 504"

fun as_coder_error :: "error \<Rightarrow> (int \<times> string) option" where
  "as_coder_error (CoderError c m) = Some (c, m)"
| "as_coder_error (CoderErrorDetail c m _) = Some (c, m)"
| "as_coder_error (WrapError _ _ e) = as_coder_error e"
| "as_coder_error _ = None"

fun as_status_error :: "error \<Rightarrow> api_status option" where
  "as_status_error (StatusError s) = Some s"
| "as_status_error (WrapError _ _ e) = as_status_error e"
| "as_status_error _ = None"

definition IsNotFound :: "error \<Rightarrow> bool" where
  "IsNotFound e = (case as_status_error e of Some (NewNotFound _ _) \<Rightarrow> True | _ \<Rightarrow> False)"

definition IsConflict :: "error \<Rightarrow> bool" where
  "IsConflict e = (case as_status_error e of Some (NewConflict _ _ _) \<Rightarrow> True | _ \<Rightarrow> False)"

text \<open>The detail of the Coder error in the chain, and \<open>errors.Is\<close> for an error without arguments.\<close>

fun coder_error_detail :: "error \<Rightarrow> string" where
  "coder_error_detail (CoderErrorDetail _ _ d) = d"
| "coder_error_detail (WrapError _ _ e) = coder_error_detail e"
| "coder_error_detail _ = []"

fun errors_Is :: "error \<Rightarrow> error \<Rightarrow> bool" where
  "errors_Is (WrapError f args e) target \<longleftrightarrow> WrapError f args e = target \<or> errors_Is e target"
| "errors_Is e target \<longleftrightarrow> e = target"

definition GroupResource_Empty :: "GroupResource \<Rightarrow> bool" where
  "GroupResource_Empty r = (gr_group r = [] \<and> gr_resource r = [])"

text \<open>Package \<open>internal/aggregated/coder\<close>, file errors.go.\<close>

definition coderErrorMessage :: "int \<times> string \<Rightarrow> error \<Rightarrow> msg" where
  "coderErrorMessage coderErr fallback =
     (let message = strings_TrimSpace (snd coderErr)
      in if message \<noteq> [] then Lit message else Fmt ''%v'' [ArgV fallback])"

definition isAlreadyExistsConflict :: "int \<times> string \<Rightarrow> bool" where
  "isAlreadyExistsConflict coderErr =
     strings_Contains (strings_ToLower (snd coderErr)) ''already exists''"

definition MapCoderError :: "error \<Rightarrow> GroupResource \<Rightarrow> string \<Rightarrow> error" where
  "MapCoderError err resource name =
     (if GroupResource_Empty resource then assertion ''resource must not be empty''
      else if name = [] then assertion ''resource name must not be empty''
      else case as_coder_error err of
        None \<Rightarrow> StatusError (NewInternalError err)
      | Some coderErr \<Rightarrow>
          (let statusCode = fst coderErr; message = coderErrorMessage coderErr err in
           if statusCode = 404 then StatusError (NewNotFound resource name)
           else if statusCode = 403 then StatusError (NewForbidden resource name err)
           else if statusCode = 409 then
             (if isAlreadyExistsConflict coderErr then StatusError (NewAlreadyExists resource name)
              else StatusError (NewConflict resource name err))
           else if statusCode = 400 \<or> statusCode = 422 then StatusError (NewBadRequest message)
           else if statusCode = 401 then StatusError (NewUnauthorized message)
           else if statusCode = 429 then StatusError (NewTooManyRequests message 0)
           else if statusCode \<ge> 400 \<and> statusCode < 500 then StatusError (NewBadRequest message)
           else StatusError (NewInternalError err)))"

text \<open>Package \<open>internal/aggregated/storage\<close>, file errors.go; the nil case is the caller's.\<close>

definition wrapClientError :: "error \<Rightarrow> error" where
  "wrapClientError err =
     (case as_status_error err of
        Some statusErr \<Rightarrow> StatusError statusErr
      | None \<Rightarrow> StatusError (NewInternalError err))"

definition coderworkspaces :: GroupResource where
  "coderworkspaces = \<lparr>gr_group = ''aggregation.coder.com'', gr_resource = ''coderworkspaces''\<rparr>"

definition codertemplates :: GroupResource where
  "codertemplates = \<lparr>gr_group = ''aggregation.coder.com'', gr_resource = ''codertemplates''\<rparr>"

section \<open>Lemmas\<close>

lemma non_nil_simps [simp, io_simps]: "non_nil None e f = fail e" "non_nil (Some a) e f = f a"
  by (simp_all add: non_nil_def)

lemma non_nil_eq_Ok: "non_nil x e f w = (Ok b, w') \<longleftrightarrow> (\<exists>a. x = Some a \<and> f a w = (Ok b, w'))"
  by (cases x) auto

lemma preserves_non_nil [pres_rules]: "(\<And>a. preserves I (f a)) \<Longrightarrow> preserves I (non_nil x e f)"
  by (cases x) auto

lemma safe_non_nil [safe_rules]: "(\<And>a. x = Some a \<Longrightarrow> safe P (f a)) \<Longrightarrow> safe P (non_nil x e f)"
  by (cases x) auto

lemma resource_not_empty [simp]:
  "\<not> GroupResource_Empty coderworkspaces" "\<not> GroupResource_Empty codertemplates"
  by (simp_all add: GroupResource_Empty_def coderworkspaces_def codertemplates_def)

lemma IsNotFound_StatusError [simp]:
  "IsNotFound (StatusError s) \<longleftrightarrow> (\<exists>r n. s = NewNotFound r n)"
  by (cases s) (auto simp: IsNotFound_def)

lemma MapCoderError_is_status:
  "\<not> GroupResource_Empty r \<Longrightarrow> n \<noteq> [] \<Longrightarrow> \<exists>s. MapCoderError e r n = StatusError s"
  by (simp add: MapCoderError_def Let_def split: option.split)

lemma MapCoderError_NotFound_iff:
  "\<not> GroupResource_Empty r \<Longrightarrow> n \<noteq> [] \<Longrightarrow>
     IsNotFound (MapCoderError e r n) \<longleftrightarrow> (\<exists>m. as_coder_error e = Some (404, m))"
  by (auto simp: MapCoderError_def Let_def split: option.split)

lemma wrapClientError_is_status: "\<exists>s. wrapClientError e = StatusError s"
  by (simp add: wrapClientError_def split: option.split)

text \<open>
  The class of the reported status: a client error of the Coder deployment (4xx) is always
  reported as a client error, everything else as a server error.
\<close>

lemma MapCoderError_class:
  assumes "\<not> GroupResource_Empty r" "n \<noteq> []" "MapCoderError e r n = StatusError s"
  shows "400 \<le> status_code s \<and> status_code s < 500
           \<longleftrightarrow> (\<exists>c m. as_coder_error e = Some (c, m) \<and> 400 \<le> c \<and> c < 500)"
  using assms by (auto simp: MapCoderError_def Let_def split: option.splits if_splits)

lemma MapCoderError_code:
  assumes "\<not> GroupResource_Empty r" "n \<noteq> []" "as_coder_error e = Some (c, m)"
    "c \<in> {400, 401, 403, 404, 409, 429}"
  shows "\<exists>s. MapCoderError e r n = StatusError s \<and> status_code s = c"
  using assms by (auto simp: MapCoderError_def Let_def)

end
