(* ===== verification/Names.thy ===== *)
theory Names
  imports Api_Errors
begin

text \<open>
  Object names of the aggregated API (internal/aggregated/coder/names.go): a template is
  \<open><org>.<template>\<close>, a workspace \<open><org>.<user>.<workspace>\<close>. The locale \<open>name_codec\<close> is
  the contract the storages rely on: the builder and the parser are inverse to each other
  on the well-formed names, the parser never panics, and the builder panics exactly on
  segments that are empty or contain the separator.
\<close>

section \<open>Definitions\<close>

definition nameSeparator :: char where "nameSeparator = CHR ''.''"

fun checkSegments :: "string \<Rightarrow> string \<Rightarrow> nat \<Rightarrow> string list \<Rightarrow> unit result" where
  "checkSegments objectType name segmentIndex [] = Ok ()"
| "checkSegments objectType name segmentIndex (segment # segments) =
     (if segment = [] then
        Err (ErrorString (Fmt ''invalid %s name %q: segment %d must not be empty''
               [ArgS objectType, ArgS name, ArgD (int segmentIndex)]))
      else checkSegments objectType name (Suc segmentIndex) segments)"

definition parseNameSegments :: "string \<Rightarrow> nat \<Rightarrow> string \<Rightarrow> string list result" where
  "parseNameSegments name expectedSegments objectType =
     (if name = [] then
        Err (ErrorString (Fmt ''invalid %s name: name must not be empty'' [ArgS objectType]))
      else
        let expectedSeparatorCount = int expectedSegments - 1 in
        if int (strings_Count name nameSeparator) \<noteq> expectedSeparatorCount then
          Err (ErrorString (Fmt ''invalid %s name %q: expected %d separators (%q)''
                 [ArgS objectType, ArgS name, ArgD expectedSeparatorCount, ArgS [nameSeparator]]))
        else
          let segments = strings_Split name nameSeparator in
          if length segments \<noteq> expectedSegments then
            Err (ErrorString (Fmt ''assertion failed: parsed %s name %q into %d segments; expected %d''
                   [ArgS objectType, ArgS name, ArgD (int (length segments)), ArgD (int expectedSegments)]))
          else rbind (checkSegments objectType name 0 segments) (\<lambda>_. Ok segments))"

definition ParseTemplateName :: "string \<Rightarrow> (string \<times> string) result" where
  "ParseTemplateName name =
     rbind (parseNameSegments name 2 ''template'') (\<lambda>segments.
       case segments of s0 # s1 # _ \<Rightarrow> Ok (s0, s1) | _ \<Rightarrow> Panic (Lit ''index out of range''))"

definition ParseWorkspaceName :: "string \<Rightarrow> (string \<times> string \<times> string) result" where
  "ParseWorkspaceName name =
     rbind (parseNameSegments name 3 ''workspace'') (\<lambda>segments.
       case segments of s0 # s1 # s2 # _ \<Rightarrow> Ok (s0, s1, s2) | _ \<Rightarrow> Panic (Lit ''index out of range''))"

definition assertNameSegment :: "string \<Rightarrow> string \<Rightarrow> unit result" where
  "assertNameSegment segmentType value =
     (if value = [] then Panic (Fmt ''assertion failed: %s must not be empty'' [ArgS segmentType])
      else if strings_Contains value [nameSeparator] then
        Panic (Fmt ''assertion failed: %s must not contain %q'' [ArgS segmentType, ArgS [nameSeparator]])
      else Ok ())"

definition BuildTemplateName :: "string \<Rightarrow> string \<Rightarrow> string result" where
  "BuildTemplateName org template =
     rbind (assertNameSegment ''organization'' org) (\<lambda>_.
     rbind (assertNameSegment ''template'' template) (\<lambda>_.
       Ok (org @ [nameSeparator] @ template)))"

definition BuildWorkspaceName :: "string \<Rightarrow> string \<Rightarrow> string \<Rightarrow> string result" where
  "BuildWorkspaceName org user workspace =
     rbind (assertNameSegment ''organization'' org) (\<lambda>_.
     rbind (assertNameSegment ''user'' user) (\<lambda>_.
     rbind (assertNameSegment ''workspace'' workspace) (\<lambda>_.
       Ok (org @ [nameSeparator] @ user @ [nameSeparator] @ workspace))))"

text \<open>A segment the builder accepts.\<close>

definition segment_ok :: "string \<Rightarrow> bool" where
  "segment_ok s = (s \<noteq> [] \<and> nameSeparator \<notin> set s)"

section \<open>The contract of a name codec\<close>

locale name_codec =
  fixes parse :: "string \<Rightarrow> 'n result"
    and build :: "'n \<Rightarrow> string result"
    and wf :: "'n \<Rightarrow> bool"
  assumes parse_build: "build n = Ok s \<Longrightarrow> parse s = Ok n"
    and build_parse: "parse s = Ok n \<Longrightarrow> build n = Ok s"
    and build_wf: "wf n \<Longrightarrow> is_ok (build n)"
    and build_not_wf: "\<not> wf n \<Longrightarrow> is_panic (build n)"
    and parse_no_panic: "\<not> is_panic (parse s)"
begin

lemma build_cases: "(wf n \<and> (\<exists>s. build n = Ok s)) \<or> (\<not> wf n \<and> (\<exists>p. build n = Panic p))"
  using build_wf [of n] build_not_wf [of n] by (cases "build n") auto

lemma build_inj: "build m = Ok s \<Longrightarrow> build n = Ok s \<Longrightarrow> m = n"
  using parse_build [of m s] parse_build [of n s] by simp

lemma parse_inj: "parse s = Ok n \<Longrightarrow> parse t = Ok n \<Longrightarrow> s = t"
  using build_parse [of s n] build_parse [of t n] by simp

lemma parse_Ok_iff: "parse s = Ok n \<longleftrightarrow> build n = Ok s"
  using parse_build build_parse by blast

lemma parse_wf: "parse s = Ok n \<Longrightarrow> wf n"
  using build_parse build_not_wf by (metis is_panic_simps(1))

end

section \<open>Both codecs fulfil it\<close>

lemma checkSegments_Ok: "checkSegments t n i segs = Ok u \<longleftrightarrow> [] \<notin> set segs"
  by (induction segs arbitrary: i) auto

lemma checkSegments_no_panic [simp]: "\<not> is_panic (checkSegments t n i segs)"
  by (induction segs arbitrary: i) auto

lemma parseNameSegments_Ok:
  assumes "0 < k"
  shows "parseNameSegments s k t = Ok segs \<longleftrightarrow>
     segs = strings_Split s nameSeparator \<and> length segs = k \<and> [] \<notin> set segs"
proof -
  have "length (strings_Split s nameSeparator) = Suc (strings_Count s nameSeparator)"
    by (rule length_Split)
  moreover have "s = [] \<Longrightarrow> strings_Split s nameSeparator = [[]]" by simp
  ultimately show ?thesis
    using assms unfolding parseNameSegments_def Let_def
    by (auto simp: rbind_eq_Ok checkSegments_Ok)
qed

lemma parseNameSegments_no_panic [simp]: "\<not> is_panic (parseNameSegments s k t)"
  by (auto simp: parseNameSegments_def Let_def is_panic_rbind)

lemma assertNameSegment_eq:
  "assertNameSegment t s = Ok () \<longleftrightarrow> segment_ok s"
  "is_panic (assertNameSegment t s) \<longleftrightarrow> \<not> segment_ok s"
  by (auto simp: assertNameSegment_def segment_ok_def Contains_single)

lemma BuildTemplateName_Ok:
  "BuildTemplateName a b = Ok s \<longleftrightarrow>
     segment_ok a \<and> segment_ok b \<and> s = strings_Join [a, b] nameSeparator"
  by (auto simp: BuildTemplateName_def rbind_eq_Ok assertNameSegment_eq)

lemma BuildWorkspaceName_Ok:
  "BuildWorkspaceName a b c = Ok s \<longleftrightarrow>
     segment_ok a \<and> segment_ok b \<and> segment_ok c \<and> s = strings_Join [a, b, c] nameSeparator"
  by (auto simp: BuildWorkspaceName_def rbind_eq_Ok assertNameSegment_eq)

lemma Split_eq_iff:
  assumes "ps \<noteq> []"
  shows "strings_Split s c = ps \<longleftrightarrow> s = strings_Join ps c \<and> (\<forall>p \<in> set ps. c \<notin> set p)"
  using assms by (metis Join_Split Split_Join Split_no_sep)

lemma ParseTemplateName_Ok:
  "ParseTemplateName s = Ok (a, b) \<longleftrightarrow> segment_ok a \<and> segment_ok b \<and> s = strings_Join [a, b] nameSeparator"
proof -
  have "ParseTemplateName s = Ok (a, b) \<longleftrightarrow> parseNameSegments s 2 ''template'' = Ok [a, b]"
    by (auto simp: ParseTemplateName_def rbind_eq_Ok parseNameSegments_Ok numeral_2_eq_2
        length_Suc_conv split: list.splits)
  also have "\<dots> \<longleftrightarrow> strings_Split s nameSeparator = [a, b] \<and> a \<noteq> [] \<and> b \<noteq> []"
    by (auto simp: parseNameSegments_Ok)
  finally show ?thesis
    by (auto simp: Split_eq_iff segment_ok_def)
qed

lemma ParseWorkspaceName_Ok:
  "ParseWorkspaceName s = Ok (a, b, c) \<longleftrightarrow>
     segment_ok a \<and> segment_ok b \<and> segment_ok c \<and> s = strings_Join [a, b, c] nameSeparator"
proof -
  have "ParseWorkspaceName s = Ok (a, b, c) \<longleftrightarrow> parseNameSegments s 3 ''workspace'' = Ok [a, b, c]"
    by (auto simp: ParseWorkspaceName_def rbind_eq_Ok parseNameSegments_Ok numeral_3_eq_3
        length_Suc_conv split: list.splits)
  also have "\<dots> \<longleftrightarrow> strings_Split s nameSeparator = [a, b, c] \<and> a \<noteq> [] \<and> b \<noteq> [] \<and> c \<noteq> []"
    by (auto simp: parseNameSegments_Ok)
  finally show ?thesis
    by (auto simp: Split_eq_iff segment_ok_def)
qed

lemma ParseTemplateName_no_panic: "\<not> is_panic (ParseTemplateName s)"
  by (auto simp: ParseTemplateName_def is_panic_rbind parseNameSegments_Ok numeral_2_eq_2
      length_Suc_conv split: list.splits)

lemma ParseWorkspaceName_no_panic: "\<not> is_panic (ParseWorkspaceName s)"
  by (auto simp: ParseWorkspaceName_def is_panic_rbind parseNameSegments_Ok numeral_3_eq_3
      length_Suc_conv split: list.splits)

lemma rbind_assert_panic:
  "is_panic (rbind (assertNameSegment t s) f) \<longleftrightarrow> \<not> segment_ok s \<or> is_panic (f ())"
  by (auto simp: is_panic_rbind assertNameSegment_eq)

lemma Build_panics:
  "is_panic (BuildTemplateName a b) \<longleftrightarrow> \<not> (segment_ok a \<and> segment_ok b)"
  "is_panic (BuildWorkspaceName a b c) \<longleftrightarrow> \<not> (segment_ok a \<and> segment_ok b \<and> segment_ok c)"
  by (auto simp: BuildTemplateName_def BuildWorkspaceName_def rbind_assert_panic)

interpretation template_names: name_codec ParseTemplateName
  "\<lambda>(org, template). BuildTemplateName org template"
  "\<lambda>(org, template). segment_ok org \<and> segment_ok template"
  by unfold_locales
     (auto simp: BuildTemplateName_Ok ParseTemplateName_Ok Build_panics ParseTemplateName_no_panic
        is_ok_iff)

interpretation workspace_names: name_codec ParseWorkspaceName
  "\<lambda>(org, user, workspace). BuildWorkspaceName org user workspace"
  "\<lambda>(org, user, workspace). segment_ok org \<and> segment_ok user \<and> segment_ok workspace"
  by unfold_locales
     (auto simp: BuildWorkspaceName_Ok ParseWorkspaceName_Ok Build_panics ParseWorkspaceName_no_panic
        is_ok_iff)

end
