(* ===== verification/Api_Types.thy ===== *)
theory Api_Types
  imports Names
begin

text \<open>
  Data types: the aggregated API objects (api/aggregation/v1alpha1/types.go), and the models
  and calls of the Coder SDK the server uses. The SDK and the Coder deployment behind it are
  not part of the program: a client is described by its configuration, and its calls are a
  record of functions over an arbitrary deployment state \<open>'b\<close>, each of which may fail and
  may change that state. A Go map iterated by the code is an association list in the
  iteration order of the run; a nil pointer or a nil map is \<open>None\<close>.
\<close>

section \<open>Definitions\<close>

subsection \<open>Kubernetes metadata and the aggregated API types\<close>

record TypeMeta =
  Kind :: string
  APIVersion :: string

record ObjectMeta =
  Name :: string
  Namespace :: string
  UID :: string
  ResourceVersion :: string
  CreationTimestamp :: gotime
  Labels :: "(string \<times> string) list"

record CoderWorkspaceSpec =
  wsp_Organization :: string
  wsp_TemplateName :: string
  wsp_TemplateVersionID :: string
  wsp_Running :: bool
  wsp_TTLMillis :: "int option"
  wsp_AutostartSchedule :: "string option"

record CoderWorkspaceStatus =
  wst_ID :: string
  wst_OwnerName :: string
  wst_OrganizationName :: string
  wst_TemplateName :: string
  wst_LatestBuildID :: string
  wst_LatestBuildStatus :: string
  wst_AutoShutdown :: "gotime option"
  wst_LastUsedAt :: "gotime option"

record CoderWorkspace =
  cw_type :: TypeMeta
  cw_meta :: ObjectMeta
  cw_spec :: CoderWorkspaceSpec
  cw_status :: CoderWorkspaceStatus

record CoderWorkspaceList =
  cwl_type :: TypeMeta
  cwl_Items :: "CoderWorkspace list"

record CoderTemplateSpec =
  tsp_Organization :: string
  tsp_VersionID :: string
  tsp_DisplayName :: string
  tsp_Description :: string
  tsp_Icon :: string
  tsp_Files :: "(string \<times> string) list option"
  tsp_Running :: bool

record CoderTemplateStatus =
  tst_ID :: string
  tst_OrganizationName :: string
  tst_ActiveVersionID :: string
  tst_Deprecated :: bool
  tst_UpdatedAt :: "gotime option"
  tst_AutoShutdown :: "gotime option"

record CoderTemplate =
  ct_type :: TypeMeta
  ct_meta :: ObjectMeta
  ct_spec :: CoderTemplateSpec
  ct_status :: CoderTemplateStatus

record CoderTemplateList =
  ctl_type :: TypeMeta
  ctl_Items :: "CoderTemplate list"

datatype runtime_Object = ObjWorkspace CoderWorkspace | ObjTemplate CoderTemplate | ObjOther string

text \<open>The type a value prints with under \<open>%T\<close>.\<close>

fun object_type :: "runtime_Object option \<Rightarrow> string" where
  "object_type None = ''<nil>''"
| "object_type (Some (ObjWorkspace _)) = ''*v1alpha1.CoderWorkspace''"
| "object_type (Some (ObjTemplate _)) = ''*v1alpha1.CoderTemplate''"
| "object_type (Some (ObjOther t)) = t"

text \<open>The type assertions \<open>x.( *CoderWorkspace)\<close> and \<open>x.( *CoderTemplate)\<close>, with the error of a failed one.\<close>

definition as_workspace ::
    "runtime_Object option \<Rightarrow> (string \<Rightarrow> error) \<Rightarrow> (CoderWorkspace \<Rightarrow> ('w, 'a) op) \<Rightarrow> ('w, 'a) op" where
  "as_workspace x e f = (case x of Some (ObjWorkspace obj) \<Rightarrow> f obj | _ \<Rightarrow> fail (e (object_type x)))"

definition as_template ::
    "runtime_Object option \<Rightarrow> (string \<Rightarrow> error) \<Rightarrow> (CoderTemplate \<Rightarrow> ('w, 'a) op) \<Rightarrow> ('w, 'a) op" where
  "as_template x e f = (case x of Some (ObjTemplate obj) \<Rightarrow> f obj | _ \<Rightarrow> fail (e (object_type x)))"

definition SchemeGroupVersion :: string where
  "SchemeGroupVersion = ''aggregation.coder.com/v1alpha1''"

definition zero_meta :: ObjectMeta where
  "zero_meta = \<lparr>Name = [], Namespace = [], UID = [], ResourceVersion = [], CreationTimestamp = 0, Labels = []\<rparr>"

definition zero_workspace :: CoderWorkspace where
  "zero_workspace =
     \<lparr>cw_type = \<lparr>Kind = [], APIVersion = []\<rparr>, cw_meta = zero_meta,
      cw_spec = \<lparr>wsp_Organization = [], wsp_TemplateName = [], wsp_TemplateVersionID = [],
                 wsp_Running = False, wsp_TTLMillis = None, wsp_AutostartSchedule = None\<rparr>,
      cw_status = \<lparr>wst_ID = [], wst_OwnerName = [], wst_OrganizationName = [], wst_TemplateName = [],
                   wst_LatestBuildID = [], wst_LatestBuildStatus = [], wst_AutoShutdown = None,
                   wst_LastUsedAt = None\<rparr>\<rparr>"

definition zero_template :: CoderTemplate where
  "zero_template =
     \<lparr>ct_type = \<lparr>Kind = [], APIVersion = []\<rparr>, ct_meta = zero_meta,
      ct_spec = \<lparr>tsp_Organization = [], tsp_VersionID = [], tsp_DisplayName = [], tsp_Description = [],
                 tsp_Icon = [], tsp_Files = None, tsp_Running = False\<rparr>,
      ct_status = \<lparr>tst_ID = [], tst_OrganizationName = [], tst_ActiveVersionID = [],
                   tst_Deprecated = False, tst_UpdatedAt = None, tst_AutoShutdown = None\<rparr>\<rparr>"

subsection \<open>SDK models\<close>

record WorkspaceBuild =
  b_ID :: uuid
  b_TemplateVersionID :: uuid
  b_Transition :: string
  b_Status :: string
  b_Deadline_Valid :: bool
  b_Deadline_Time :: gotime
  b_UpdatedAt :: gotime

record Workspace =
  w_ID :: uuid
  w_Name :: string
  w_OwnerName :: string
  w_OrganizationName :: string
  w_TemplateName :: string
  w_CreatedAt :: gotime
  w_UpdatedAt :: gotime
  w_LastUsedAt :: gotime
  w_TTLMillis :: "int option"
  w_AutostartSchedule :: "string option"
  w_LatestBuild :: WorkspaceBuild

record Template =
  t_ID :: uuid
  t_Name :: string
  t_OrganizationName :: string
  t_DisplayName :: string
  t_Description :: string
  t_Icon :: string
  t_ActiveVersionID :: uuid
  t_Deprecated :: bool
  t_CreatedAt :: gotime
  t_UpdatedAt :: gotime

record ProvisionerJob =
  job_FileID :: uuid
  job_Status :: string
  job_Error :: string

record TemplateVersion =
  tv_ID :: uuid
  tv_TemplateID :: "uuid option"
  tv_Job :: ProvisionerJob

record CreateWorkspaceRequest =
  cwr_Name :: string
  cwr_TemplateID :: uuid
  cwr_TemplateVersionID :: uuid
  cwr_TTLMillis :: "int option"
  cwr_AutostartSchedule :: "string option"

record CreateTemplateRequest =
  ctr_Name :: string
  ctr_VersionID :: uuid
  ctr_DisplayName :: string
  ctr_Description :: string
  ctr_Icon :: string

record UpdateTemplateMetaRequest =
  utm_DisplayName :: "string option"
  utm_Description :: "string option"
  utm_Icon :: "string option"

record CreateTemplateVersionRequest =
  ctv_TemplateID :: uuid
  ctv_StorageMethod :: string
  ctv_FileID :: uuid
  ctv_Provisioner :: string

record HttpResponse =
  resp_StatusCode :: int
  resp_Body :: string
  resp_ReadErr :: "error option"
  resp_CloseErr :: "error option"
  resp_BodyAsError :: error

subsection \<open>Shared types of the coder.com API\<close>

record SecretKeySelector =
  sks_Name :: string
  sks_Key :: string

definition DefaultTokenSecretKey :: string where "DefaultTokenSecretKey = ''token''"

subsection \<open>SDK clients and calls\<close>

record SDKClient =
  cl_URL :: string
  cl_SessionToken :: string
  cl_Timeout :: duration

text \<open>A request context: the request namespace and the deadline, if the request has one.\<close>

record Context =
  ctx_Namespace :: string
  ctx_Deadline :: "gotime option"

type_synonym ('b, 'a) call = "'b \<Rightarrow> (error + 'a) \<times> 'b"

record 'b codersdk =
  sdk_OrganizationByName :: "string \<Rightarrow> ('b, uuid) call"
  sdk_TemplateByName :: "uuid \<Rightarrow> string \<Rightarrow> ('b, Template) call"
  sdk_Template :: "uuid \<Rightarrow> ('b, Template) call"
  sdk_Templates :: "('b, Template list) call"
  sdk_TemplateVersion :: "uuid \<Rightarrow> ('b, TemplateVersion) call"
  sdk_CreateTemplate :: "uuid \<Rightarrow> CreateTemplateRequest \<Rightarrow> ('b, Template) call"
  sdk_CreateTemplateVersion :: "uuid \<Rightarrow> CreateTemplateVersionRequest \<Rightarrow> ('b, TemplateVersion) call"
  sdk_UpdateTemplateMeta :: "uuid \<Rightarrow> UpdateTemplateMetaRequest \<Rightarrow> ('b, Template) call"
  sdk_UpdateActiveTemplateVersion :: "uuid \<Rightarrow> uuid \<Rightarrow> ('b, unit) call"
  sdk_DeleteTemplate :: "uuid \<Rightarrow> ('b, unit) call"
  sdk_Upload :: "string \<Rightarrow> ('b, uuid) call"
  sdk_RequestFile :: "uuid \<Rightarrow> ('b, HttpResponse) call"
  sdk_WorkspaceByOwnerAndName :: "string \<Rightarrow> string \<Rightarrow> ('b, Workspace) call"
  sdk_Workspaces :: "('b, Workspace list) call"
  sdk_CreateUserWorkspace :: "string \<Rightarrow> CreateWorkspaceRequest \<Rightarrow> ('b, Workspace) call"
  sdk_CreateWorkspaceBuild :: "uuid \<Rightarrow> string \<Rightarrow> ('b, WorkspaceBuild) call"

definition call :: "('b, 'a) call \<Rightarrow> ('b, 'a) op" where
  "call c = (\<lambda>b. case c b of (Inl e, b') \<Rightarrow> (Err e, b') | (Inr a, b') \<Rightarrow> (Ok a, b'))"

text \<open>The SDK's enumerations are strings.\<close>

definition WorkspaceTransitionStart :: string where "WorkspaceTransitionStart = ''start''"
definition WorkspaceTransitionStop :: string where "WorkspaceTransitionStop = ''stop''"
definition WorkspaceTransitionDelete :: string where "WorkspaceTransitionDelete = ''delete''"

section \<open>Lemmas\<close>

lemma transitions_distinct [simp]:
  "WorkspaceTransitionStart \<noteq> WorkspaceTransitionStop"
  "WorkspaceTransitionStop \<noteq> WorkspaceTransitionStart"
  "WorkspaceTransitionDelete \<noteq> WorkspaceTransitionStart"
  "WorkspaceTransitionStart \<noteq> WorkspaceTransitionDelete"
  "WorkspaceTransitionDelete \<noteq> WorkspaceTransitionStop"
  "WorkspaceTransitionStop \<noteq> WorkspaceTransitionDelete"
  by (simp_all add: WorkspaceTransitionStart_def WorkspaceTransitionStop_def WorkspaceTransitionDelete_def)

lemma as_workspace_simps [simp]: "as_workspace (Some (ObjWorkspace obj)) e f = f obj"
  by (simp add: as_workspace_def)

lemma as_template_simps [simp]: "as_template (Some (ObjTemplate obj)) e f = f obj"
  by (simp add: as_template_def)

lemma as_object_eq_Ok:
  "as_workspace x e f w = (Ok a, w') \<longleftrightarrow> (\<exists>ob. x = Some (ObjWorkspace ob) \<and> f ob w = (Ok a, w'))"
  "as_template x e g w = (Ok a, w') \<longleftrightarrow> (\<exists>ob. x = Some (ObjTemplate ob) \<and> g ob w = (Ok a, w'))"
  by (auto simp: as_workspace_def as_template_def split: option.split runtime_Object.split)

lemma as_object_preserves [pres_rules]:
  "(\<And>ob. preserves I (f ob)) \<Longrightarrow> preserves I (as_workspace x e f)"
  "(\<And>ob. preserves I (g ob)) \<Longrightarrow> preserves I (as_template x e g)"
  by (auto simp: as_workspace_def as_template_def split: option.split runtime_Object.split)

lemma as_object_safe [safe_rules]:
  "(\<And>ob. x = Some (ObjWorkspace ob) \<Longrightarrow> safe P (f ob)) \<Longrightarrow> safe P (as_workspace x e f)"
  "(\<And>ob. x = Some (ObjTemplate ob) \<Longrightarrow> safe P (g ob)) \<Longrightarrow> safe P (as_template x e g)"
  by (auto simp: as_workspace_def as_template_def split: option.split runtime_Object.split)

lemma call_eq_Ok: "call c b = (Ok a, b') \<longleftrightarrow> c b = (Inr a, b')"
  by (auto simp: call_def split: prod.splits sum.splits)

lemma call_eq_Err: "call c b = (Err e, b') \<longleftrightarrow> c b = (Inl e, b')"
  by (auto simp: call_def split: prod.splits sum.splits)

lemma call_run [io_simps]: "c b = (Inr a, b') \<Longrightarrow> call c b = (Ok a, b')"
    "c b = (Inl e, b') \<Longrightarrow> call c b = (Err e, b')"
  by (simp_all add: call_def)

end
