(* ===== verification/Convert.thy ===== *)
theory Convert
  imports Api_Types
begin

text \<open>
  Conversions between SDK models and aggregated API objects (internal/aggregated/convert):
  every exported conversion, with its panics. The lemmas show that a converted object has
  the name its parser reads back to the same organization, owner and name, and that the
  resource version determines the update time of the backend object.
\<close>

section \<open>Definitions\<close>

definition meta_of :: "string \<Rightarrow> string \<Rightarrow> uuid \<Rightarrow> gotime \<Rightarrow> gotime \<Rightarrow> ObjectMeta" where
  "meta_of name ns i updatedAt createdAt =
     \<lparr>Name = name, Namespace = ns, UID = uuid_String i,
      ResourceVersion = strconv_FormatInt (time_UnixNano updatedAt),
      CreationTimestamp = createdAt, Labels = []\<rparr>"

definition TemplateToK8s :: "string \<Rightarrow> Template \<Rightarrow> CoderTemplate result" where
  "TemplateToK8s ns t =
     (if ns = [] then Panic (Lit ''assertion failed: namespace must not be empty'')
      else rbind (BuildTemplateName (t_OrganizationName t) (t_Name t)) (\<lambda>name. Ok
        \<lparr>ct_type = \<lparr>Kind = ''CoderTemplate'', APIVersion = SchemeGroupVersion\<rparr>,
         ct_meta = meta_of name ns (t_ID t) (t_UpdatedAt t) (t_CreatedAt t),
         ct_spec = \<lparr>tsp_Organization = t_OrganizationName t, tsp_VersionID = uuid_String (t_ActiveVersionID t),
                    tsp_DisplayName = t_DisplayName t, tsp_Description = t_Description t,
                    tsp_Icon = t_Icon t, tsp_Files = None, tsp_Running = False\<rparr>,
         ct_status = \<lparr>tst_ID = uuid_String (t_ID t), tst_OrganizationName = t_OrganizationName t,
                      tst_ActiveVersionID = uuid_String (t_ActiveVersionID t),
                      tst_Deprecated = t_Deprecated t, tst_UpdatedAt = Some (t_UpdatedAt t),
                      tst_AutoShutdown = None\<rparr>\<rparr>))"

definition TemplateCreateRequestFromK8s ::
    "CoderTemplate option \<Rightarrow> string \<Rightarrow> CreateTemplateRequest result" where
  "TemplateCreateRequestFromK8s obj templateName =
     (case obj of None \<Rightarrow> Err (assertion ''template object must not be nil'')
      | Some obj \<Rightarrow>
        if templateName = [] then Err (assertion ''template name must not be empty'')
        else case uuid_Parse (tsp_VersionID (ct_spec obj)) of
          Inl e \<Rightarrow> Err (WrapError ''parse template spec.versionID %q: %w''
                          [ArgS (tsp_VersionID (ct_spec obj))] (UUIDError e))
        | Inr versionID \<Rightarrow> Ok
            \<lparr>ctr_Name = templateName, ctr_VersionID = versionID,
             ctr_DisplayName = tsp_DisplayName (ct_spec obj),
             ctr_Description = tsp_Description (ct_spec obj), ctr_Icon = tsp_Icon (ct_spec obj)\<rparr>)"

definition TemplateUpdateMetaRequestFromK8s :: "CoderTemplate \<Rightarrow> UpdateTemplateMetaRequest" where
  "TemplateUpdateMetaRequestFromK8s obj =
     \<lparr>utm_DisplayName = Some (tsp_DisplayName (ct_spec obj)),
      utm_Description = Some (tsp_Description (ct_spec obj)),
      utm_Icon = Some (tsp_Icon (ct_spec obj))\<rparr>"

definition workspaceRunning :: "Workspace \<Rightarrow> bool" where
  "workspaceRunning w =
     (if b_Transition (w_LatestBuild w) \<noteq> WorkspaceTransitionStart then False
      else b_Status (w_LatestBuild w) \<in> {''pending'', ''starting'', ''running''})"

definition WorkspaceToK8s :: "string \<Rightarrow> Workspace \<Rightarrow> CoderWorkspace result" where
  "WorkspaceToK8s ns w =
     (if ns = [] then Panic (Lit ''assertion failed: namespace must not be empty'')
      else
        let autoShutdown =
              (if b_Deadline_Valid (w_LatestBuild w) \<and> \<not> time_IsZero (b_Deadline_Time (w_LatestBuild w))
               then Some (b_Deadline_Time (w_LatestBuild w)) else None)
        in rbind (BuildWorkspaceName (w_OrganizationName w) (w_OwnerName w) (w_Name w)) (\<lambda>name. Ok
        \<lparr>cw_type = \<lparr>Kind = ''CoderWorkspace'', APIVersion = SchemeGroupVersion\<rparr>,
         cw_meta = meta_of name ns (w_ID w) (w_UpdatedAt w) (w_CreatedAt w),
         cw_spec = \<lparr>wsp_Organization = w_OrganizationName w, wsp_TemplateName = w_TemplateName w,
                    wsp_TemplateVersionID = uuid_String (b_TemplateVersionID (w_LatestBuild w)),
                    wsp_Running = workspaceRunning w, wsp_TTLMillis = w_TTLMillis w,
                    wsp_AutostartSchedule = w_AutostartSchedule w\<rparr>,
         cw_status = \<lparr>wst_ID = uuid_String (w_ID w), wst_OwnerName = w_OwnerName w,
                      wst_OrganizationName = w_OrganizationName w, wst_TemplateName = w_TemplateName w,
                      wst_LatestBuildID = uuid_String (b_ID (w_LatestBuild w)),
                      wst_LatestBuildStatus = b_Status (w_LatestBuild w),
                      wst_AutoShutdown = autoShutdown, wst_LastUsedAt = Some (w_LastUsedAt w)\<rparr>\<rparr>))"

definition WorkspaceCreateRequestFromK8s ::
    "CoderWorkspace option \<Rightarrow> string \<Rightarrow> uuid \<Rightarrow> CreateWorkspaceRequest result" where
  "WorkspaceCreateRequestFromK8s obj workspaceName templateID =
     (case obj of None \<Rightarrow> Panic (Lit ''assertion failed: workspace object must not be nil'')
      | Some obj \<Rightarrow>
        if workspaceName = [] then Panic (Lit ''assertion failed: workspace name must not be empty'')
        else if templateID = uuid_Nil then Panic (Lit ''assertion failed: template ID must not be nil'')
        else
          let request = \<lparr>cwr_Name = workspaceName, cwr_TemplateID = uuid_Nil,
                cwr_TemplateVersionID = uuid_Nil, cwr_TTLMillis = wsp_TTLMillis (cw_spec obj),
                cwr_AutostartSchedule = wsp_AutostartSchedule (cw_spec obj)\<rparr>
          in if wsp_TemplateVersionID (cw_spec obj) = [] then Ok (request\<lparr>cwr_TemplateID := templateID\<rparr>)
             else case uuid_Parse (wsp_TemplateVersionID (cw_spec obj)) of
               Inl e \<Rightarrow> Err (WrapError ''invalid templateVersionID %q: %w''
                               [ArgS (wsp_TemplateVersionID (cw_spec obj))] (UUIDError e))
             | Inr templateVersionID \<Rightarrow> Ok (request\<lparr>cwr_TemplateVersionID := templateVersionID\<rparr>))"

text \<open>Names the SDK may return: those of which an aggregated object name can be built.\<close>

definition template_name_ok :: "Template \<Rightarrow> bool" where
  "template_name_ok t = (segment_ok (t_OrganizationName t) \<and> segment_ok (t_Name t))"

definition workspace_name_ok :: "Workspace \<Rightarrow> bool" where
  "workspace_name_ok w =
     (segment_ok (w_OrganizationName w) \<and> segment_ok (w_OwnerName w) \<and> segment_ok (w_Name w))"

section \<open>Lemmas\<close>

lemma WorkspaceToK8s_Ok:
  assumes "WorkspaceToK8s ns w = Ok obj"
  shows "ns \<noteq> []" "workspace_name_ok w" "Namespace (cw_meta obj) = ns"
    "BuildWorkspaceName (w_OrganizationName w) (w_OwnerName w) (w_Name w) = Ok (Name (cw_meta obj))"
    "ResourceVersion (cw_meta obj) = strconv_FormatInt (time_UnixNano (w_UpdatedAt w))"
    "wsp_Running (cw_spec obj) = workspaceRunning w"
    "wst_ID (cw_status obj) = uuid_String (w_ID w)"
    "wsp_Organization (cw_spec obj) = w_OrganizationName w"
    "wsp_TemplateName (cw_spec obj) = w_TemplateName w"
    "wsp_TemplateVersionID (cw_spec obj) = uuid_String (b_TemplateVersionID (w_LatestBuild w))"
    "wsp_TTLMillis (cw_spec obj) = w_TTLMillis w"
    "wsp_AutostartSchedule (cw_spec obj) = w_AutostartSchedule w"
  using assms
  by (auto simp: WorkspaceToK8s_def meta_of_def rbind_eq_Ok BuildWorkspaceName_Ok workspace_name_ok_def
      Let_def split: if_splits)

lemma TemplateToK8s_Ok:
  assumes "TemplateToK8s ns t = Ok obj"
  shows "ns \<noteq> []" "template_name_ok t" "Namespace (ct_meta obj) = ns"
    "BuildTemplateName (t_OrganizationName t) (t_Name t) = Ok (Name (ct_meta obj))"
    "ResourceVersion (ct_meta obj) = strconv_FormatInt (time_UnixNano (t_UpdatedAt t))"
    "tst_ID (ct_status obj) = uuid_String (t_ID t)"
    "tst_ActiveVersionID (ct_status obj) = uuid_String (t_ActiveVersionID t)"
    "tsp_Organization (ct_spec obj) = t_OrganizationName t"
    "tsp_VersionID (ct_spec obj) = uuid_String (t_ActiveVersionID t)"
    "tsp_Files (ct_spec obj) = None"
    "tsp_DisplayName (ct_spec obj) = t_DisplayName t" "tsp_Description (ct_spec obj) = t_Description t"
    "tsp_Icon (ct_spec obj) = t_Icon t"
  using assms
  by (auto simp: TemplateToK8s_def meta_of_def rbind_eq_Ok BuildTemplateName_Ok template_name_ok_def
      split: if_splits)

lemma WorkspaceToK8s_cases:
  "(\<exists>obj. WorkspaceToK8s ns w = Ok obj) \<or> (\<exists>p. WorkspaceToK8s ns w = Panic p)"
  using workspace_names.build_cases [of "(w_OrganizationName w, w_OwnerName w, w_Name w)"]
  by (auto simp: WorkspaceToK8s_def Let_def)

lemma TemplateToK8s_cases:
  "(\<exists>obj. TemplateToK8s ns t = Ok obj) \<or> (\<exists>p. TemplateToK8s ns t = Panic p)"
  using template_names.build_cases [of "(t_OrganizationName t, t_Name t)"]
  by (auto simp: TemplateToK8s_def)

lemma ToK8s_panic_iff:
  "is_panic (WorkspaceToK8s ns w) \<longleftrightarrow> ns = [] \<or> \<not> workspace_name_ok w"
  "is_panic (TemplateToK8s ns t) \<longleftrightarrow> ns = [] \<or> \<not> template_name_ok t"
  by (auto simp: WorkspaceToK8s_def TemplateToK8s_def Let_def is_panic_rbind Build_panics
      workspace_name_ok_def template_name_ok_def)

lemma WorkspaceToK8s_total: "ns \<noteq> [] \<Longrightarrow> workspace_name_ok w \<Longrightarrow> \<exists>obj. WorkspaceToK8s ns w = Ok obj"
  using WorkspaceToK8s_cases ToK8s_panic_iff(1) by (metis is_panic_simps(3))

lemma TemplateToK8s_total: "ns \<noteq> [] \<Longrightarrow> template_name_ok t \<Longrightarrow> \<exists>obj. TemplateToK8s ns t = Ok obj"
  using TemplateToK8s_cases ToK8s_panic_iff(2) by (metis is_panic_simps(3))

text \<open>The name of a converted object is parsed back to where the object came from.\<close>

lemma WorkspaceToK8s_name_parses:
  "WorkspaceToK8s ns w = Ok obj \<Longrightarrow>
     ParseWorkspaceName (Name (cw_meta obj)) = Ok (w_OrganizationName w, w_OwnerName w, w_Name w)"
  using WorkspaceToK8s_Ok(4) by (simp add: workspace_names.parse_build)

lemma TemplateToK8s_name_parses:
  "TemplateToK8s ns t = Ok obj \<Longrightarrow>
     ParseTemplateName (Name (ct_meta obj)) = Ok (t_OrganizationName t, t_Name t)"
  using TemplateToK8s_Ok(4) by (simp add: template_names.parse_build)

lemma UnixNano_inj:
  assumes "is_int64 (s - unix_epoch)" "is_int64 (t - unix_epoch)"
  shows "strconv_FormatInt (time_UnixNano s) = strconv_FormatInt (time_UnixNano t) \<longleftrightarrow> s = t"
  using assms by (simp add: FormatInt_inj time_UnixNano_def wrap64_id)

lemma TemplateCreateRequest_Ok:
  "TemplateCreateRequestFromK8s (Some obj) n = Ok r \<longleftrightarrow>
     n \<noteq> [] \<and> (\<exists>v. uuid_Parse (tsp_VersionID (ct_spec obj)) = Inr v \<and>
       r = \<lparr>ctr_Name = n, ctr_VersionID = v, ctr_DisplayName = tsp_DisplayName (ct_spec obj),
            ctr_Description = tsp_Description (ct_spec obj), ctr_Icon = tsp_Icon (ct_spec obj)\<rparr>)"
  by (auto simp: TemplateCreateRequestFromK8s_def split: sum.splits)

lemma TemplateCreateRequest_no_panic [simp]: "\<not> is_panic (TemplateCreateRequestFromK8s obj n)"
  by (auto simp: TemplateCreateRequestFromK8s_def split: sum.splits option.splits)

end
