(* ===== verification/Provider.thy ===== *)
theory Provider
  imports Convert
begin

text \<open>
  Client resolution (internal/aggregated/coder/config.go, provider.go and
  controlplane_provider.go): the SDK client constructor, the provider pinned to one
  namespace, and the provider that finds the eligible \<open>CoderControlPlane\<close> of a namespace.
  The Kubernetes readers and \<open>url.Parse\<close> are arguments. The locale \<open>namespace_provider\<close>
  is the contract the storages rely on, and both providers are interpreted in it.
\<close>

section \<open>Definitions\<close>

subsection \<open>SDK client construction\<close>

record Config =
  cfg_CoderURL :: "string option"
  cfg_SessionToken :: string
  cfg_RequestTimeout :: duration

definition defaultRequestTimeout :: duration where
  "defaultRequestTimeout = 30 * time_Second"

definition NewSDKClient :: "Config \<Rightarrow> SDKClient option result" where
  "NewSDKClient cfg =
     (case cfg_CoderURL cfg of
        None \<Rightarrow> Err (assertion ''coder URL must not be nil'')
      | Some coderURL \<Rightarrow>
        if cfg_SessionToken cfg = [] then Err (assertion ''session token must not be empty'')
        else if cfg_RequestTimeout cfg < 0 then Err (assertion ''request timeout must not be negative'')
        else
          let requestTimeout = (if cfg_RequestTimeout cfg = 0 then defaultRequestTimeout
                                else cfg_RequestTimeout cfg);
              client = \<lparr>cl_URL = coderURL, cl_SessionToken = cfg_SessionToken cfg, cl_Timeout = requestTimeout\<rparr>
          in if cl_SessionToken client = []
             then Err (assertion ''coder SDK session token is empty after successful configuration'')
             else Ok (Some client))"

subsection \<open>The provider interfaces and the static provider\<close>

record 'w ClientProvider =
  prov_ClientForNamespace :: "Context option \<Rightarrow> string \<Rightarrow> 'w \<Rightarrow> SDKClient option result"
  prov_NamespaceResolver :: "(Context option \<Rightarrow> 'w \<Rightarrow> string result) option"
  prov_NamespaceLister :: "(Context option \<Rightarrow> 'w \<Rightarrow> string list result) option"

record StaticClientProvider =
  scp_Client :: "SDKClient option"
  scp_Namespace :: string

definition Static_ClientForNamespace ::
    "StaticClientProvider option \<Rightarrow> Context option \<Rightarrow> string \<Rightarrow> SDKClient option result" where
  "Static_ClientForNamespace p ctx ns =
     (case p of None \<Rightarrow> Err (assertion ''static client provider must not be nil'') | Some p \<Rightarrow>
      if ctx = None then Err (assertion ''context must not be nil'')
      else if scp_Client p = None then Err (assertion ''static client provider client must not be nil'')
      else if scp_Namespace p = [] then Err (StatusError (NewServiceUnavailable
        (Lit ''static coder client provider is not namespace-pinned; configure --coder-namespace'')))
      else
        let ns' = (if ns = [] then scp_Namespace p else ns) in
        if ns' \<noteq> scp_Namespace p then Err (bad_request
          (Fmt ''namespace %q is not served by this aggregated API server (configured for %q)''
             [ArgS ns', ArgS (scp_Namespace p)]))
        else Ok (scp_Client p))"

definition Static_DefaultNamespace :: "StaticClientProvider option \<Rightarrow> string result" where
  "Static_DefaultNamespace p =
     (case p of None \<Rightarrow> Err (assertion ''static client provider must not be nil'') | Some p \<Rightarrow>
      if scp_Namespace p = [] then
        Err (StatusError (NewServiceUnavailable (Lit ''static provider has no default namespace'')))
      else Ok (scp_Namespace p))"

definition Static_EligibleNamespaces :: "StaticClientProvider option \<Rightarrow> string list result" where
  "Static_EligibleNamespaces p =
     (case p of None \<Rightarrow> Err (assertion ''static client provider must not be nil'') | Some p \<Rightarrow>
      if scp_Namespace p = [] then
        Err (StatusError (NewServiceUnavailable (Lit ''static provider has no default namespace'')))
      else Ok [scp_Namespace p])"

definition NewStaticClientProvider :: "Config \<Rightarrow> string \<Rightarrow> StaticClientProvider result" where
  "NewStaticClientProvider cfg ns =
     rbind (rmap_err (WrapError ''new SDK client: %w'' []) (NewSDKClient cfg)) (\<lambda>client.
       let provider = \<lparr>scp_Client = client, scp_Namespace = ns\<rparr> in
       if scp_Client provider = None
       then Err (assertion ''static client provider client is nil after successful construction'')
       else Ok provider)"

definition static_provider :: "StaticClientProvider option \<Rightarrow> 'w ClientProvider" where
  "static_provider p =
     \<lparr>prov_ClientForNamespace = (\<lambda>ctx ns w. Static_ClientForNamespace p ctx ns),
      prov_NamespaceResolver = Some (\<lambda>ctx w. Static_DefaultNamespace p),
      prov_NamespaceLister = Some (\<lambda>ctx w. Static_EligibleNamespaces p)\<rparr>"

subsection \<open>The provider backed by CoderControlPlane resources\<close>

record CoderControlPlane =
  cp_Name :: string
  cp_Namespace :: string
  cp_OperatorAccess_Disabled :: bool
  cp_OperatorAccessReady :: bool
  cp_OperatorTokenSecretRef :: "SecretKeySelector option"
  cp_URL :: string

type_synonym secret_data = "string \<Rightarrow> string option"

record 'w ControlPlaneClientProvider =
  ccp_cpReader :: "(string option \<Rightarrow> 'w \<Rightarrow> error + CoderControlPlane list) option"
  ccp_secretReader :: "(string \<Rightarrow> string \<Rightarrow> 'w \<Rightarrow> error + secret_data) option"
  ccp_requestTimeout :: duration

definition NewControlPlaneClientProvider ::
    "(string option \<Rightarrow> 'w \<Rightarrow> error + CoderControlPlane list) option
     \<Rightarrow> (string \<Rightarrow> string \<Rightarrow> 'w \<Rightarrow> error + secret_data) option
     \<Rightarrow> duration \<Rightarrow> 'w ControlPlaneClientProvider result" where
  "NewControlPlaneClientProvider cpReader secretReader requestTimeout =
     (case cpReader of None \<Rightarrow> Err (assertion ''control plane reader must not be nil'') | Some cpr \<Rightarrow>
      case secretReader of None \<Rightarrow> Err (assertion ''secret reader must not be nil'') | Some sr \<Rightarrow>
      if requestTimeout < 0 then Err (assertion ''request timeout must not be negative'')
      else Ok \<lparr>ccp_cpReader = cpReader, ccp_secretReader = secretReader, ccp_requestTimeout = requestTimeout\<rparr>)"

definition noEligibleControlPlaneMessage :: "string \<Rightarrow> msg" where
  "noEligibleControlPlaneMessage ns =
     (if ns = [] then Lit ''no eligible CoderControlPlane instances found across all namespaces''
      else Fmt ''no eligible CoderControlPlane instances found in namespace %q'' [ArgS ns])"

definition multipleEligibleControlPlaneMessage :: "string \<Rightarrow> msg" where
  "multipleEligibleControlPlaneMessage ns =
     (if ns = [] then
        Lit ''multiple eligible CoderControlPlane instances across namespaces; multi-instance support is planned''
      else Fmt ''multiple eligible CoderControlPlane instances in namespace %q; multi-instance support is planned''
             [ArgS ns])"

text \<open>The loop body of \<open>findEligibleControlPlanes\<close>: the control planes it does not skip.\<close>

definition cp_eligible :: "CoderControlPlane \<Rightarrow> bool" where
  "cp_eligible cp =
     (if strings_Contains (cp_Name cp) ''.'' then False
      else if cp_OperatorAccess_Disabled cp then False
      else if \<not> cp_OperatorAccessReady cp then False
      else if cp_OperatorTokenSecretRef cp = None then False
      else if strings_TrimSpace (cp_URL cp) = [] then False
      else True)"

definition findEligibleControlPlanes ::
    "'w ControlPlaneClientProvider option \<Rightarrow> Context option \<Rightarrow> string \<Rightarrow> 'w
       \<Rightarrow> CoderControlPlane list result" where
  "findEligibleControlPlanes p ctx ns w =
     (case p of None \<Rightarrow> Err (assertion ''control plane client provider must not be nil'') | Some p \<Rightarrow>
      if ctx = None then Err (assertion ''context must not be nil'')
      else case ccp_cpReader p of None \<Rightarrow> Err (assertion ''control plane reader must not be nil'')
      | Some cpReader \<Rightarrow>
        (case cpReader (if ns \<noteq> [] then Some ns else None) w of
           Inl err \<Rightarrow>
             if ns = [] then
               Err (WrapError ''list CoderControlPlane resources across all namespaces: %w'' [] err)
             else Err (WrapError ''list CoderControlPlane resources in namespace %q: %w'' [ArgS ns] err)
         | Inr items \<Rightarrow> Ok (filter cp_eligible items)))"

text \<open>The second half of \<open>ClientForNamespace\<close>: the client of the one eligible control plane.\<close>

definition CP_clientForControlPlane ::
    "(string \<Rightarrow> error + string) \<Rightarrow> duration \<Rightarrow> (string \<Rightarrow> string \<Rightarrow> 'w \<Rightarrow> error + secret_data)
       \<Rightarrow> CoderControlPlane \<Rightarrow> 'w \<Rightarrow> SDKClient option result" where
  "CP_clientForControlPlane url_Parse requestTimeout secretReader controlPlane w =
     (let cpNs = cp_Namespace controlPlane; cpName = cp_Name controlPlane in
      case cp_OperatorTokenSecretRef controlPlane of
        None \<Rightarrow> Err (assertion ''eligible CoderControlPlane is missing status.operatorTokenSecretRef'')
      | Some ref \<Rightarrow>
        let secretName = strings_TrimSpace (sks_Name ref) in
        if secretName = [] then Err (StatusError (NewServiceUnavailable
          (Fmt ''eligible CoderControlPlane %s/%s is missing status.operatorTokenSecretRef.name''
             [ArgS cpNs, ArgS cpName])))
        else
        let trimmedKey = strings_TrimSpace (sks_Key ref);
            secretKey = (if trimmedKey = [] then DefaultTokenSecretKey else trimmedKey) in
        case secretReader cpNs secretName w of
          Inl err \<Rightarrow> Err (WrapError ''read operator token secret %s/%s for CoderControlPlane %s/%s: %w''
                      [ArgS cpNs, ArgS secretName, ArgS cpNs, ArgS cpName] err)
        | Inr data \<Rightarrow>
        (case data secretKey of
           None \<Rightarrow> Err (StatusError (NewServiceUnavailable
             (Fmt ''operator token secret %s/%s for CoderControlPlane %s/%s does not contain key %q''
                [ArgS cpNs, ArgS secretName, ArgS cpNs, ArgS cpName, ArgS secretKey])))
         | Some sessionToken \<Rightarrow>
           if sessionToken = [] then Err (StatusError (NewServiceUnavailable
             (Fmt ''operator token secret %s/%s for CoderControlPlane %s/%s contains an empty value for key %q''
                [ArgS cpNs, ArgS secretName, ArgS cpNs, ArgS cpName, ArgS secretKey])))
           else
           let coderURL = strings_TrimSpace (cp_URL controlPlane) in
           (case url_Parse coderURL of
              Inl err \<Rightarrow> Err (WrapError ''parse CoderControlPlane URL %q for %s/%s: %w''
                          [ArgS coderURL, ArgS cpNs, ArgS cpName] err)
            | Inr parsedCoderURL \<Rightarrow>
              rbind (rmap_err (WrapError ''construct Coder SDK client for CoderControlPlane %s/%s: %w''
                                 [ArgS cpNs, ArgS cpName])
                (NewSDKClient \<lparr>cfg_CoderURL = Some parsedCoderURL, cfg_SessionToken = sessionToken,
                               cfg_RequestTimeout = requestTimeout\<rparr>)) (\<lambda>sdkClient.
              if sdkClient = None
              then Err (assertion ''Coder SDK client is nil after successful construction'')
              else Ok sdkClient))))"

definition CP_ClientForNamespace ::
    "(string \<Rightarrow> error + string) \<Rightarrow> 'w ControlPlaneClientProvider option \<Rightarrow> Context option
       \<Rightarrow> string \<Rightarrow> 'w \<Rightarrow> SDKClient option result" where
  "CP_ClientForNamespace url_Parse p ctx ns w =
     (case p of None \<Rightarrow> Err (assertion ''control plane client provider must not be nil'') | Some prov \<Rightarrow>
      if ctx = None then Err (assertion ''context must not be nil'')
      else case ccp_secretReader prov of None \<Rightarrow> Err (assertion ''secret reader must not be nil'')
      | Some secretReader \<Rightarrow>
        rbind (findEligibleControlPlanes p ctx ns w) (\<lambda>eligible.
        case eligible of
          [] \<Rightarrow> Err (StatusError (NewServiceUnavailable (noEligibleControlPlaneMessage ns)))
        | [controlPlane] \<Rightarrow>
            CP_clientForControlPlane url_Parse (ccp_requestTimeout prov) secretReader controlPlane w
        | _ # _ # _ \<Rightarrow> Err (bad_request (multipleEligibleControlPlaneMessage ns))))"

definition CP_DefaultNamespace ::
    "'w ControlPlaneClientProvider option \<Rightarrow> Context option \<Rightarrow> 'w \<Rightarrow> string result" where
  "CP_DefaultNamespace p ctx w =
     rbind (findEligibleControlPlanes p ctx [] w) (\<lambda>eligible.
       case eligible of
         [] \<Rightarrow> Err (StatusError (NewServiceUnavailable (noEligibleControlPlaneMessage [])))
       | [cp] \<Rightarrow>
           (let resolvedNamespace = strings_TrimSpace (cp_Namespace cp) in
            if resolvedNamespace = []
            then Err (assertion ''eligible CoderControlPlane namespace must not be empty'')
            else Ok resolvedNamespace)
       | _ \<Rightarrow> Err (bad_request (multipleEligibleControlPlaneMessage [])))"

text \<open>
  \<open>byNamespace[namespace]++\<close>: the counts, in the order of first occurrence. The iteration
  order of the Go map only selects which of several duplicated namespaces the error names.
\<close>

fun count_namespace :: "string \<Rightarrow> (string \<times> nat) list \<Rightarrow> (string \<times> nat) list" where
  "count_namespace n [] = [(n, 1)]"
| "count_namespace n ((m, k) # rest) = (if n = m then (m, Suc k) # rest else (m, k) # count_namespace n rest)"

fun count_namespaces :: "CoderControlPlane list \<Rightarrow> (string \<times> nat) list \<Rightarrow> (string \<times> nat) list result" where
  "count_namespaces [] byNamespace = Ok byNamespace"
| "count_namespaces (cp # cps) byNamespace =
     (let ns = strings_TrimSpace (cp_Namespace cp) in
      if ns = [] then Err (assertion ''eligible CoderControlPlane namespace must not be empty'')
      else count_namespaces cps (count_namespace ns byNamespace))"

fun collect_namespaces :: "(string \<times> nat) list \<Rightarrow> string list \<Rightarrow> string list result" where
  "collect_namespaces [] acc = Ok acc"
| "collect_namespaces ((ns, count) # rest) acc =
     (if count > 1 then Err (bad_request (multipleEligibleControlPlaneMessage ns))
      else collect_namespaces rest (acc @ [ns]))"

definition CP_EligibleNamespaces ::
    "'w ControlPlaneClientProvider option \<Rightarrow> Context option \<Rightarrow> 'w \<Rightarrow> string list result" where
  "CP_EligibleNamespaces p ctx w =
     (if p = None then Err (assertion ''control plane client provider must not be nil'')
      else if ctx = None then Err (assertion ''context must not be nil'')
      else rbind (findEligibleControlPlanes p ctx [] w) (\<lambda>eligible.
        if eligible = [] then Err (StatusError (NewServiceUnavailable (noEligibleControlPlaneMessage [])))
        else rbind (count_namespaces eligible []) (\<lambda>byNamespace.
             rbind (collect_namespaces byNamespace []) (\<lambda>namespaces. Ok (sort namespaces)))))"

definition control_plane_provider ::
    "(string \<Rightarrow> error + string) \<Rightarrow> 'w ControlPlaneClientProvider option \<Rightarrow> 'w ClientProvider" where
  "control_plane_provider url_Parse p =
     \<lparr>prov_ClientForNamespace = CP_ClientForNamespace url_Parse p,
      prov_NamespaceResolver = Some (CP_DefaultNamespace p),
      prov_NamespaceLister = Some (CP_EligibleNamespaces p)\<rparr>"

section \<open>The contract of a provider\<close>

locale namespace_provider =
  fixes clientFor :: "string \<Rightarrow> 'w \<Rightarrow> SDKClient option result"
    and defaultNs :: "'w \<Rightarrow> string result"
    and eligibleNs :: "'w \<Rightarrow> string list result"
  assumes eligible_ok: "eligibleNs w = Ok ns \<Longrightarrow> ns \<noteq> [] \<and> sorted ns \<and> distinct ns \<and> [] \<notin> set ns"
    and default_eligible: "defaultNs w = Ok n \<Longrightarrow> eligibleNs w = Ok [n]"
    and client_not_nil: "clientFor n w = Ok c \<Longrightarrow> c \<noteq> None"
    and provider_no_panic: "\<not> is_panic (clientFor n w)" "\<not> is_panic (defaultNs w)" "\<not> is_panic (eligibleNs w)"
begin

lemma default_not_empty: "defaultNs w = Ok n \<Longrightarrow> n \<noteq> []"
  using default_eligible eligible_ok by fastforce

lemma eligible_strictly_sorted: "eligibleNs w = Ok ns \<Longrightarrow> sorted_wrt (<) ns"
  using eligible_ok strict_sorted_iff by blast

lemma eligible_not_empty: "eligibleNs w = Ok ns \<Longrightarrow> n \<in> set ns \<Longrightarrow> n \<noteq> []"
  using eligible_ok by blast

lemma default_unique: "defaultNs w = Ok n \<Longrightarrow> eligibleNs w = Ok ns \<Longrightarrow> ns = [n]"
  using default_eligible by fastforce

end

section \<open>Lemmas\<close>

lemma NewSDKClient_Ok:
  "NewSDKClient cfg = Ok c \<longleftrightarrow>
     (\<exists>u. cfg_CoderURL cfg = Some u \<and> cfg_SessionToken cfg \<noteq> [] \<and> 0 \<le> cfg_RequestTimeout cfg \<and>
       c = Some \<lparr>cl_URL = u, cl_SessionToken = cfg_SessionToken cfg,
                 cl_Timeout = (if cfg_RequestTimeout cfg = 0 then defaultRequestTimeout else cfg_RequestTimeout cfg)\<rparr>)"
  by (auto simp: NewSDKClient_def Let_def split: option.splits)

lemma NewSDKClient_no_panic [simp]: "\<not> is_panic (NewSDKClient cfg)"
  by (simp add: NewSDKClient_def Let_def split: option.split)

text \<open>The static provider.\<close>

interpretation static: namespace_provider
  "\<lambda>ns w. Static_ClientForNamespace p ctx ns" "\<lambda>w. Static_DefaultNamespace p" "\<lambda>w. Static_EligibleNamespaces p"
  for p ctx
  by unfold_locales
     (auto simp: Static_ClientForNamespace_def Static_DefaultNamespace_def Static_EligibleNamespaces_def
        Let_def split: option.splits if_splits)

text \<open>The control-plane provider: the counting loops.\<close>

lemma fst_count_namespace: "set (map fst (count_namespace n bn)) = insert n (set (map fst bn))"
  by (induction n bn rule: count_namespace.induct) auto

lemma distinct_count_namespace:
  "distinct (map fst bn) \<Longrightarrow> distinct (map fst (count_namespace n bn))"
proof (induction n bn rule: count_namespace.induct)
  case (2 n m k rest)
  then show ?case using fst_count_namespace [of n rest] by auto
qed simp

lemma count_namespaces_Ok:
  "count_namespaces cps bn = Ok bn' \<Longrightarrow> distinct (map fst bn) \<Longrightarrow> [] \<notin> set (map fst bn) \<Longrightarrow>
     distinct (map fst bn') \<and> [] \<notin> set (map fst bn') \<and>
     set (map fst bn') = set (map fst bn) \<union> (\<lambda>cp. strings_TrimSpace (cp_Namespace cp)) ` set cps"
proof (induction cps bn rule: count_namespaces.induct)
  case (2 cp cps bn)
  let ?ns = "strings_TrimSpace (cp_Namespace cp)"
  from "2.prems" have ns: "?ns \<noteq> []" and rest: "count_namespaces cps (count_namespace ?ns bn) = Ok bn'"
    by (auto simp: Let_def split: if_splits)
  have "distinct (map fst (count_namespace ?ns bn))" "[] \<notin> set (map fst (count_namespace ?ns bn))"
    using "2.prems" ns by (simp_all only: distinct_count_namespace fst_count_namespace) auto
  from "2.IH" [OF refl ns rest this] show ?case
    by (auto simp only: fst_count_namespace) auto
qed simp

lemma collect_namespaces_Ok:
  "collect_namespaces bn acc = Ok r \<longleftrightarrow> r = acc @ map fst bn \<and> (\<forall>(n, k) \<in> set bn. k \<le> 1)"
  by (induction bn acc rule: collect_namespaces.induct) auto

lemma count_namespaces_no_panic [simp]: "\<not> is_panic (count_namespaces cps bn)"
  by (induction cps bn rule: count_namespaces.induct) (auto simp: Let_def)

lemma collect_namespaces_no_panic [simp]: "\<not> is_panic (collect_namespaces bn acc)"
  by (induction bn acc rule: collect_namespaces.induct) auto

lemma findEligible_no_panic [simp]: "\<not> is_panic (findEligibleControlPlanes p ctx ns w)"
  by (auto simp: findEligibleControlPlanes_def split: option.splits sum.splits)

lemma findEligible_Ok:
  "findEligibleControlPlanes p ctx ns w = Ok cps \<longleftrightarrow>
     (\<exists>prov reader items. p = Some prov \<and> ctx \<noteq> None \<and> ccp_cpReader prov = Some reader \<and>
        reader (if ns \<noteq> [] then Some ns else None) w = Inr items \<and> cps = filter cp_eligible items)"
  by (auto simp: findEligibleControlPlanes_def split: option.splits sum.splits if_splits)

lemma CP_clientForControlPlane_no_panic [simp]: "\<not> is_panic (CP_clientForControlPlane u t r cp w)"
  unfolding CP_clientForControlPlane_def Let_def
  by (simp add: is_panic_rbind split: option.split sum.split)

lemma CP_clientForControlPlane_Ok:
  assumes "CP_clientForControlPlane u t r cp w = Ok c"
  shows "\<exists>ref data token url. cp_OperatorTokenSecretRef cp = Some ref \<and>
      r (cp_Namespace cp) (strings_TrimSpace (sks_Name ref)) w = Inr data \<and>
      data (if strings_TrimSpace (sks_Key ref) = [] then DefaultTokenSecretKey
            else strings_TrimSpace (sks_Key ref)) = Some token \<and> token \<noteq> [] \<and>
      u (strings_TrimSpace (cp_URL cp)) = Inr url \<and> 0 \<le> t \<and>
      c = Some \<lparr>cl_URL = url, cl_SessionToken = token,
                cl_Timeout = (if t = 0 then defaultRequestTimeout else t)\<rparr>"
  using assms unfolding CP_clientForControlPlane_def Let_def
  by (simp add: rbind_eq_Ok NewSDKClient_Ok split: option.splits sum.splits if_splits)
     (auto simp: rbind_eq_Ok NewSDKClient_Ok)

lemma CP_ClientForNamespace_no_panic: "\<not> is_panic (CP_ClientForNamespace u p ctx ns w)"
  unfolding CP_ClientForNamespace_def
  by (simp add: is_panic_rbind split: option.split list.split)

lemma CP_ClientForNamespace_Ok:
  assumes "CP_ClientForNamespace u p ctx ns w = Ok c"
  obtains prov r cp where "p = Some prov" "ctx \<noteq> None" "ccp_secretReader prov = Some r"
    "findEligibleControlPlanes p ctx ns w = Ok [cp]"
    "CP_clientForControlPlane u (ccp_requestTimeout prov) r cp w = Ok c"
proof -
  from assms obtain prov r cps where p: "p = Some prov" "ctx \<noteq> None" "ccp_secretReader prov = Some r"
    and cps: "findEligibleControlPlanes p ctx ns w = Ok cps"
    unfolding CP_ClientForNamespace_def by (auto simp: rbind_eq_Ok split: option.splits if_splits)
  with assms show ?thesis
    by (cases cps; cases "tl cps") (auto simp: CP_ClientForNamespace_def intro: that)
qed

lemma CP_EligibleNamespaces_Ok:
  assumes "CP_EligibleNamespaces p ctx w = Ok ns"
  obtains cps where "findEligibleControlPlanes p ctx [] w = Ok cps" "cps \<noteq> []"
    "set ns = (\<lambda>cp. strings_TrimSpace (cp_Namespace cp)) ` set cps" "sorted ns" "distinct ns" "[] \<notin> set ns"
proof -
  from assms obtain cps bn r where
    cps: "findEligibleControlPlanes p ctx [] w = Ok cps" "cps \<noteq> []" and
    cnt: "count_namespaces cps [] = Ok bn" and col: "collect_namespaces bn [] = Ok r" and ns: "ns = sort r"
    by (auto simp: CP_EligibleNamespaces_def rbind_eq_Ok split: if_splits)
  from col have "r = map fst bn" by (simp add: collect_namespaces_Ok)
  with count_namespaces_Ok [OF cnt] ns show ?thesis
    by (intro that [OF cps]) auto
qed

lemma CP_DefaultNamespace_Ok:
  assumes "CP_DefaultNamespace p ctx w = Ok n"
  shows "\<exists>cp. findEligibleControlPlanes p ctx [] w = Ok [cp] \<and> n = strings_TrimSpace (cp_Namespace cp) \<and> n \<noteq> []"
proof -
  from assms obtain cps where found: "findEligibleControlPlanes p ctx [] w = Ok cps"
    unfolding CP_DefaultNamespace_def rbind_eq_Ok by blast
  with assms show ?thesis
    by (cases cps; cases "tl cps") (auto simp: CP_DefaultNamespace_def Let_def split: if_splits)
qed

lemma CP_default_eligible:
  assumes "CP_DefaultNamespace p ctx w = Ok n"
  shows "CP_EligibleNamespaces p ctx w = Ok [n]"
proof -
  from CP_DefaultNamespace_Ok [OF assms] obtain cp where
    found: "findEligibleControlPlanes p ctx [] w = Ok [cp]" and n: "strings_TrimSpace (cp_Namespace cp) = n" "n \<noteq> []"
    by blast
  from found have "p \<noteq> None" "ctx \<noteq> None"
    unfolding findEligible_Ok by blast+
  with n show ?thesis
    by (simp add: CP_EligibleNamespaces_def found)
qed

lemma CP_client_not_nil: "CP_ClientForNamespace u p ctx n w = Ok c \<Longrightarrow> c \<noteq> None"
  by (erule CP_ClientForNamespace_Ok, drule CP_clientForControlPlane_Ok) blast

lemma CP_DefaultNamespace_no_panic: "\<not> is_panic (CP_DefaultNamespace p ctx w)"
  unfolding CP_DefaultNamespace_def
  by (simp add: is_panic_rbind Let_def split: list.split)

lemma CP_EligibleNamespaces_no_panic: "\<not> is_panic (CP_EligibleNamespaces p ctx w)"
  by (simp add: CP_EligibleNamespaces_def is_panic_rbind)

interpretation control_plane: namespace_provider
  "CP_ClientForNamespace url_Parse p ctx" "CP_DefaultNamespace p ctx" "CP_EligibleNamespaces p ctx"
  for url_Parse p ctx
proof unfold_locales
  fix w ns
  assume "CP_EligibleNamespaces p ctx w = Ok ns"
  then show "ns \<noteq> [] \<and> sorted ns \<and> distinct ns \<and> [] \<notin> set ns"
    by (rule CP_EligibleNamespaces_Ok) auto
qed (fact CP_default_eligible CP_client_not_nil CP_ClientForNamespace_no_panic
       CP_DefaultNamespace_no_panic CP_EligibleNamespaces_no_panic)+

end
