(* ===== verification/Watch.thy ===== *)
theory Watch
  imports Provider "HOL-Library.Sublist"
begin

text \<open>
  Watching (internal/aggregated/storage/watch.go and the queue shared in form by both
  storages): validation of watch options, the event filter, the watcher that stops once,
  and the bounded event queue between the request handlers and the dispatcher goroutine.
  \<open>enqueueWatchEvent\<close> is the queue operation as one handler runs it alone;
  \<open>queue_step\<close> is the same code with its three select statements as separate steps of
  any number of handlers, interleaved with the dispatcher and with \<open>Destroy\<close>.
  Label and field selectors are library values: a record of the functions the code calls.
\<close>

section \<open>Definitions\<close>

subsection \<open>Events, the storage struct and its state\<close>

datatype watch_type = Added | Modified | Deleted

record watch_event =
  ev_Type :: watch_type
  ev_Object :: runtime_Object

record 'b Storage =
  st_provider :: "'b ClientProvider option"
  st_broadcaster :: "unit option"
  st_watchEvents :: "unit option"

record 'b storage_state =
  backend :: 'b
  watchEvents :: "watch_event list"
  watchClosed :: bool

definition watchBroadcasterQueueLen :: nat where "watchBroadcasterQueueLen = 100"

text \<open>A call of the SDK from a handler, and a read of a provider.\<close>

definition sdk_call :: "('b, 'a) call \<Rightarrow> ('b storage_state, 'a) op" where
  "sdk_call c = zoom backend (\<lambda>b w. w\<lparr>backend := b\<rparr>) (call c)"

definition read_backend :: "('b \<Rightarrow> 'a result) \<Rightarrow> ('b storage_state, 'a) op" where
  "read_backend f = asks (\<lambda>w. f (backend w))"

subsection \<open>The event queue\<close>

definition chan_try_send :: "watch_event \<Rightarrow> ('b storage_state, bool) op" where
  "chan_try_send ev w =
     (if watchClosed w then (Panic (Lit ''send on closed channel''), w)
      else if length (watchEvents w) < watchBroadcasterQueueLen
        then (Ok True, w\<lparr>watchEvents := watchEvents w @ [ev]\<rparr>)
      else (Ok False, w))"

definition chan_try_recv :: "('b storage_state, watch_event option) op" where
  "chan_try_recv w =
     (case watchEvents w of [] \<Rightarrow> (Ok None, w) | ev # evs \<Rightarrow> (Ok (Some ev), w\<lparr>watchEvents := evs\<rparr>))"

definition enqueueWatchEvent ::
    "string \<Rightarrow> 'b Storage option \<Rightarrow> watch_type \<Rightarrow> runtime_Object option \<Rightarrow> ('b storage_state, unit) op" where
  "enqueueWatchEvent kind s action obj =
     (case s of None \<Rightarrow> panic (Fmt ''assertion failed: %s storage must not be nil'' [ArgS kind]) | Some s \<Rightarrow>
      if st_watchEvents s = None
      then panic (Fmt ''assertion failed: %s watch event queue must not be nil'' [ArgS kind])
      else case obj of
        None \<Rightarrow> panic (Fmt ''assertion failed: %s watch event object must not be nil'' [ArgS kind])
      | Some obj \<Rightarrow>
        let event = \<lparr>ev_Type = action, ev_Object = obj\<rparr> in
        bind (chan_try_send event) (\<lambda>sent.
        if sent then ret ()
        else bind chan_try_recv (\<lambda>_.
             bind (chan_try_send event) (\<lambda>_. ret ()))))"

text \<open>The dispatcher loop body: hand the oldest event to the broadcaster.\<close>

definition dispatchWatchEvent :: "(watch_event \<Rightarrow> 'b \<Rightarrow> 'b) \<Rightarrow> 'b storage_state \<Rightarrow> 'b storage_state" where
  "dispatchWatchEvent action w =
     (case watchEvents w of [] \<Rightarrow> w
      | ev # evs \<Rightarrow> w\<lparr>watchEvents := evs, backend := action ev (backend w)\<rparr>)"

subsection \<open>Watch options and filters\<close>

record Selector =
  sel_Empty :: bool
  sel_Requirements :: "string list"
  sel_Matches :: "(string \<times> string) list \<Rightarrow> bool"

record ListOptions =
  lo_LabelSelector :: "Selector option"
  lo_FieldSelector :: "Selector option"
  lo_SendInitialEvents :: "bool option"
  lo_ResourceVersionMatch :: string
  lo_TimeoutSeconds :: "int option"

definition supportedWatchFieldSelectors :: "string \<Rightarrow> bool" where
  "supportedWatchFieldSelectors f = (f \<in> {''metadata.name'', ''metadata.namespace''})"

definition validateFieldSelector :: "Selector option \<Rightarrow> unit result" where
  "validateFieldSelector sel =
     (case sel of None \<Rightarrow> Ok () | Some sel \<Rightarrow>
      if sel_Empty sel then Ok ()
      else case find (\<lambda>f. \<not> supportedWatchFieldSelectors f) (sel_Requirements sel) of
        None \<Rightarrow> Ok ()
      | Some f \<Rightarrow> Err (ErrorString
          (Fmt ''field selector %q is not supported; supported fields: metadata.name, metadata.namespace'' [ArgS f])))"

definition validateUnsupportedWatchListOptions :: "ListOptions option \<Rightarrow> unit result" where
  "validateUnsupportedWatchListOptions opts =
     (case opts of None \<Rightarrow> Ok () | Some opts \<Rightarrow>
      if lo_SendInitialEvents opts = Some True
      then Err (errorf ''sendInitialEvents=true is not supported for this watch endpoint'')
      else if lo_ResourceVersionMatch opts \<noteq> []
      then Err (ErrorString (Fmt ''resourceVersionMatch %q is not supported for this watch endpoint''
                  [ArgS (lo_ResourceVersionMatch opts)]))
      else Ok ())"

fun object_meta :: "runtime_Object \<Rightarrow> ObjectMeta option" where
  "object_meta (ObjWorkspace obj) = Some (cw_meta obj)"
| "object_meta (ObjTemplate obj) = Some (ct_meta obj)"
| "object_meta (ObjOther _) = None"

definition watch_filter ::
    "string \<Rightarrow> Selector option \<Rightarrow> Selector option \<Rightarrow> watch_event \<Rightarrow> bool" where
  "watch_filter requestNamespace labelSel fieldSel ev =
     (case object_meta (ev_Object ev) of None \<Rightarrow> True | Some meta \<Rightarrow>
      if requestNamespace \<noteq> [] \<and> Namespace meta \<noteq> requestNamespace then False
      else if (case labelSel of None \<Rightarrow> False | Some sel \<Rightarrow> \<not> sel_Matches sel (Labels meta)) then False
      else if (case fieldSel of None \<Rightarrow> False | Some sel \<Rightarrow>
                 \<not> sel_Matches sel [(''metadata.name'', Name meta), (''metadata.namespace'', Namespace meta)])
        then False
      else True)"

definition filterForListOptions ::
    "string \<Rightarrow> ListOptions option \<Rightarrow> (watch_event \<Rightarrow> bool) option result" where
  "filterForListOptions requestNamespace opts =
     (let active = (\<lambda>sel. case sel of None \<Rightarrow> None | Some s \<Rightarrow> if sel_Empty s then None else Some s);
          labelSel = (case opts of None \<Rightarrow> None | Some o' \<Rightarrow> active (lo_LabelSelector o'));
          fieldSel = (case opts of None \<Rightarrow> None | Some o' \<Rightarrow> active (lo_FieldSelector o'))
      in rbind (case fieldSel of None \<Rightarrow> Ok () | Some sel \<Rightarrow> validateFieldSelector (Some sel)) (\<lambda>_.
         if requestNamespace = [] \<and> labelSel = None \<and> fieldSel = None then Ok None
         else Ok (Some (watch_filter requestNamespace labelSel fieldSel))))"

subsection \<open>The watcher that stops once\<close>

text \<open>\<open>saw_inner_stops\<close> counts the calls of the wrapped watcher's \<open>Stop\<close>.\<close>

record stopAwareWatch =
  saw_once :: bool
  saw_stopped :: bool
  saw_inner_stops :: nat

text \<open>The argument is the watch interface, of which only whether it is nil matters.\<close>

definition newStopAwareWatch :: "unit option \<Rightarrow> stopAwareWatch result" where
  "newStopAwareWatch w =
     (case w of None \<Rightarrow> Panic (Lit ''assertion failed: watch interface must not be nil'')
      | Some _ \<Rightarrow> Ok \<lparr>saw_once = False, saw_stopped = False, saw_inner_stops = 0\<rparr>)"

definition stopAware_Stop :: "stopAwareWatch \<Rightarrow> stopAwareWatch" where
  "stopAware_Stop w =
     (if saw_once w then w
      else w\<lparr>saw_once := True, saw_stopped := True, saw_inner_stops := Suc (saw_inner_stops w)\<rparr>)"

datatype watch_signal = CtxDone | TimerC | WatcherDone

text \<open>The goroutine of \<open>Watch\<close>, at the first signal its select receives (\<open>None\<close>: not selected).\<close>

definition watch_goroutine :: "bool \<Rightarrow> watch_signal \<Rightarrow> stopAwareWatch \<Rightarrow> stopAwareWatch option" where
  "watch_goroutine hasTimer sig w =
     (case sig of
        CtxDone \<Rightarrow> Some (stopAware_Stop w)
      | TimerC \<Rightarrow> if hasTimer then Some (stopAware_Stop w) else None
      | WatcherDone \<Rightarrow> if saw_stopped w then Some w else None)"

record watch_handle =
  wh_watch :: stopAwareWatch
  wh_timeout :: "duration option"
  wh_filter :: "(watch_event \<Rightarrow> bool) option"

definition namespaceFromRequestContext :: "Context option \<Rightarrow> string result" where
  "namespaceFromRequestContext ctx =
     (case ctx of None \<Rightarrow> Err (assertion ''context must not be nil'') | Some c \<Rightarrow> Ok (ctx_Namespace c))"

definition requiredNamespaceFromRequestContext :: "Context option \<Rightarrow> string result" where
  "requiredNamespaceFromRequestContext ctx =
     rbind (namespaceFromRequestContext ctx) (\<lambda>ns.
       if ns = [] then Err (bad_request (Lit ''namespace is required'')) else Ok ns)"

definition storage_Watch ::
    "string \<Rightarrow> ('b, unit option) call \<Rightarrow> 'b Storage option \<Rightarrow> Context option \<Rightarrow> ListOptions option
       \<Rightarrow> ('b storage_state, watch_handle) op" where
  "storage_Watch kind broadcaster_Watch s ctx opts =
     non_nil s (ErrorString (Fmt ''assertion failed: %s storage must not be nil'' [ArgS kind])) (\<lambda>s.
     non_nil ctx (assertion ''context must not be nil'') (\<lambda>_.
     non_nil (st_broadcaster s) (ErrorString (Fmt ''assertion failed: %s broadcaster must not be nil'' [ArgS kind])) (\<lambda>_.
     bind (lift (namespaceFromRequestContext ctx)) (\<lambda>requestNamespace.
     bind (map_err (\<lambda>err. bad_request (Fmt ''invalid watch options: %v'' [ArgV err]))
             (lift (validateUnsupportedWatchListOptions opts))) (\<lambda>_.
     bind (map_err (\<lambda>err. bad_request (Fmt ''invalid watch options: %v'' [ArgV err]))
             (lift (filterForListOptions requestNamespace opts))) (\<lambda>filter.
     bind (map_err (WrapError ''failed to create %s watcher: %w'' [ArgS kind])
             (sdk_call broadcaster_Watch)) (\<lambda>w.
     bind (lift (newStopAwareWatch w)) (\<lambda>stopAwareWatcher.
     let timeout = (case opts of None \<Rightarrow> None | Some o' \<Rightarrow>
           (case lo_TimeoutSeconds o' of None \<Rightarrow> None
            | Some t \<Rightarrow> if t > 0 then Some (wrap64 (t * time_Second)) else None))
     in ret \<lparr>wh_watch = stopAwareWatcher, wh_timeout = timeout, wh_filter = filter\<rparr>))))))))"

subsection \<open>The queue with its interleavings\<close>

datatype 'e producer = Idle | Trying 'e | Dropping 'e | Retrying 'e | Panicked

text \<open>\<open>q_history\<close> lists every event ever put on the channel, \<open>q_delivered\<close> what the dispatcher took.\<close>

record 'e queue_system =
  q_chan :: "'e list"
  q_closed :: bool
  q_pc :: "nat \<Rightarrow> 'e producer"
  q_history :: "'e list"
  q_delivered :: "'e list"

definition queue_init :: "'e queue_system" where
  "queue_init = \<lparr>q_chan = [], q_closed = False, q_pc = (\<lambda>_. Idle), q_history = [], q_delivered = []\<rparr>"

inductive queue_step :: "'e queue_system \<Rightarrow> 'e queue_system \<Rightarrow> bool" where
  start: "q_pc s i = Idle \<Longrightarrow> queue_step s (s\<lparr>q_pc := (q_pc s)(i := Trying e)\<rparr>)"
| try_sent: "q_pc s i = Trying e \<Longrightarrow> \<not> q_closed s \<Longrightarrow> length (q_chan s) < watchBroadcasterQueueLen \<Longrightarrow>
     queue_step s (s\<lparr>q_chan := q_chan s @ [e], q_history := q_history s @ [e], q_pc := (q_pc s)(i := Idle)\<rparr>)"
| try_full: "q_pc s i = Trying e \<Longrightarrow> \<not> q_closed s \<Longrightarrow> \<not> length (q_chan s) < watchBroadcasterQueueLen \<Longrightarrow>
     queue_step s (s\<lparr>q_pc := (q_pc s)(i := Dropping e)\<rparr>)"
| drop_one: "q_pc s i = Dropping e \<Longrightarrow> q_chan s = x # xs \<Longrightarrow>
     queue_step s (s\<lparr>q_chan := xs, q_pc := (q_pc s)(i := Retrying e)\<rparr>)"
| drop_none: "q_pc s i = Dropping e \<Longrightarrow> q_chan s = [] \<Longrightarrow>
     queue_step s (s\<lparr>q_pc := (q_pc s)(i := Retrying e)\<rparr>)"
| retry_sent: "q_pc s i = Retrying e \<Longrightarrow> \<not> q_closed s \<Longrightarrow> length (q_chan s) < watchBroadcasterQueueLen \<Longrightarrow>
     queue_step s (s\<lparr>q_chan := q_chan s @ [e], q_history := q_history s @ [e], q_pc := (q_pc s)(i := Idle)\<rparr>)"
| retry_full: "q_pc s i = Retrying e \<Longrightarrow> \<not> q_closed s \<Longrightarrow> \<not> length (q_chan s) < watchBroadcasterQueueLen \<Longrightarrow>
     queue_step s (s\<lparr>q_pc := (q_pc s)(i := Idle)\<rparr>)"
| send_closed: "q_pc s i = Trying e \<or> q_pc s i = Retrying e \<Longrightarrow> q_closed s \<Longrightarrow>
     queue_step s (s\<lparr>q_pc := (q_pc s)(i := Panicked)\<rparr>)"
| dispatch: "q_chan s = x # xs \<Longrightarrow>
     queue_step s (s\<lparr>q_chan := xs, q_delivered := q_delivered s @ [x]\<rparr>)"
| destroy: "\<not> q_closed s \<Longrightarrow> queue_step s (s\<lparr>q_closed := True\<rparr>)"

inductive queue_reachable :: "'e queue_system \<Rightarrow> bool" where
  init: "queue_reachable queue_init"
| step: "queue_reachable s \<Longrightarrow> queue_step s t \<Longrightarrow> queue_reachable t"

definition queue_inv :: "'e queue_system \<Rightarrow> bool" where
  "queue_inv s \<longleftrightarrow> length (q_chan s) \<le> watchBroadcasterQueueLen \<and>
     (\<exists>gone. q_history s = gone @ q_chan s \<and> subseq (q_delivered s) gone) \<and>
     ((\<exists>i. q_pc s i = Panicked) \<longrightarrow> q_closed s)"

section \<open>The contract of a bounded drop-oldest queue\<close>

text \<open>
  What the handlers rely on: a full queue loses its oldest event, never the new one, and
  the capacity is never exceeded.
\<close>

locale drop_oldest_queue =
  fixes enq :: "'e \<Rightarrow> 'q \<Rightarrow> 'q"
    and contents :: "'q \<Rightarrow> 'e list"
    and cap :: nat
    and ready :: "'q \<Rightarrow> bool"
  assumes cap_pos: "0 < cap"
    and enq_room: "ready q \<Longrightarrow> length (contents q) < cap \<Longrightarrow> contents (enq e q) = contents q @ [e]"
    and enq_full: "ready q \<Longrightarrow> length (contents q) = cap \<Longrightarrow> contents (enq e q) = tl (contents q) @ [e]"
    and ready_enq: "ready q \<Longrightarrow> ready (enq e q)"
begin

lemma last_enq: "ready q \<Longrightarrow> length (contents q) \<le> cap \<Longrightarrow> last (contents (enq e q)) = e"
  using enq_room [of q e] enq_full [of q e] by (cases "length (contents q) < cap") auto

lemma length_enq:
  "ready q \<Longrightarrow> length (contents q) \<le> cap \<Longrightarrow> length (contents (enq e q)) = min cap (Suc (length (contents q)))"
  using enq_room [of q e] enq_full [of q e] cap_pos by (cases "length (contents q) < cap") auto

lemma enq_drop:
  assumes "ready q" "length (contents q) \<le> cap"
  shows "contents (enq e q) = drop (Suc (length (contents q)) - cap) (contents q @ [e])"
  using assms enq_room [of q e] enq_full [of q e] cap_pos
  by (cases "length (contents q) < cap") (auto simp: tl_drop Suc_diff_le drop_Suc)

text \<open>A burst of events leaves the newest \<open>cap\<close> of them, in order.\<close>

lemma enq_all:
  assumes "ready q" "length (contents q) \<le> cap"
  shows "ready (fold enq es q) \<and> length (contents (fold enq es q)) \<le> cap \<and>
    contents (fold enq es q) = drop (length (contents q @ es) - cap) (contents q @ es)"
  using assms
proof (induction es arbitrary: q)
  case (Cons e es)
  have len: "length (contents (enq e q)) \<le> cap"
    using length_enq [OF Cons.prems] by simp
  note IH = Cons.IH [OF ready_enq [OF Cons.prems(1)] len]
  let ?all = "contents q @ e # es"
  let ?d = "Suc (length (contents q)) - cap"
  have all: "contents (enq e q) @ es = drop ?d ?all"
    using enq_drop [OF Cons.prems, of e] cap_pos by simp
  have "length (drop ?d ?all) - cap + ?d = length ?all - cap"
    using Cons.prems(2) by simp
  then have "drop (length (drop ?d ?all) - cap) (drop ?d ?all) = drop (length ?all - cap) ?all"
    by (simp only: drop_drop)
  with IH show ?case by (simp only: all fold_simps) simp
qed simp

end

section \<open>Lemmas\<close>

subsection \<open>Storage state\<close>

lemma sdk_call_run [io_simps]:
  "c (backend w) = (Inr a, b') \<Longrightarrow> sdk_call c w = (Ok a, w\<lparr>backend := b'\<rparr>)"
  "c (backend w) = (Inl e, b') \<Longrightarrow> sdk_call c w = (Err e, w\<lparr>backend := b'\<rparr>)"
  by (simp_all add: sdk_call_def zoom_def call_def)

lemma sdk_call_eq_Ok:
  "sdk_call c w = (Ok a, w') \<longleftrightarrow> (\<exists>b'. c (backend w) = (Inr a, b') \<and> w' = w\<lparr>backend := b'\<rparr>)"
  by (auto simp: sdk_call_def zoom_eq_Ok call_eq_Ok)

lemma read_backend_eq_Ok: "read_backend f w = (Ok a, w') \<longleftrightarrow> f (backend w) = Ok a \<and> w' = w"
  by (auto simp: read_backend_def)

lemma sdk_call_snd: "snd (sdk_call c w) = w\<lparr>backend := snd (c (backend w))\<rparr>"
  by (simp add: sdk_call_def zoom_def call_def split: prod.split sum.split)

lemma sdk_call_not_panic [simp]: "\<not> is_panic (fst (sdk_call c w))"
  by (simp add: sdk_call_def zoom_def call_def split: prod.split sum.split)

lemma safe_sdk_call [safe_rules]: "(\<And>w b. P w \<Longrightarrow> P (w\<lparr>backend := b\<rparr>)) \<Longrightarrow> safe P (sdk_call c)"
  by (simp add: safe_def sdk_call_snd)

lemma safe_read_backend [safe_rules]: "(\<And>b. \<not> is_panic (f b)) \<Longrightarrow> safe P (read_backend f)"
  by (simp add: safe_def read_backend_def)

lemma preserves_read_backend [pres_rules, simp]: "preserves I (read_backend f)"
  by (simp add: read_backend_def)

lemma preserves_sdk_call [pres_rules]:
  "(\<And>w. I w \<Longrightarrow> I (w\<lparr>backend := snd (c (backend w))\<rparr>)) \<Longrightarrow> preserves I (sdk_call c)"
  by (simp add: preserves_def sdk_call_snd)

lemmas op_ok_simps = ok_simps non_nil_eq_Ok as_object_eq_Ok sdk_call_eq_Ok read_backend_eq_Ok

subsection \<open>The sequential queue operation\<close>

definition enq_event :: "watch_event \<Rightarrow> 'b storage_state \<Rightarrow> 'b storage_state" where
  "enq_event ev w = w\<lparr>watchEvents :=
     (if length (watchEvents w) < watchBroadcasterQueueLen then watchEvents w @ [ev]
      else let q = tl (watchEvents w) in
           if length q < watchBroadcasterQueueLen then q @ [ev] else q)\<rparr>"

lemma enqueueWatchEvent_open:
  assumes "st_watchEvents s \<noteq> None" "\<not> watchClosed w"
  shows "enqueueWatchEvent k (Some s) a (Some obj) w = (Ok (), enq_event \<lparr>ev_Type = a, ev_Object = obj\<rparr> w)"
  using assms
  by (auto simp: enqueueWatchEvent_def Let_def bind_def chan_try_send_def chan_try_recv_def enq_event_def
      watchBroadcasterQueueLen_def split: list.split)

lemma enqueueWatchEvent_closed:
  assumes "watchClosed w"
  shows "\<exists>p. enqueueWatchEvent k s a obj w = (Panic p, w)"
  using assms
  by (auto simp: enqueueWatchEvent_def Let_def bind_def chan_try_send_def split: option.split)

lemma enqueueWatchEvent_Ok:
  assumes "enqueueWatchEvent k s a obj w = (Ok u, w')"
  obtains s' ob where "s = Some s'" "obj = Some ob" "\<not> watchClosed w"
    "w' = enq_event \<lparr>ev_Type = a, ev_Object = ob\<rparr> w"
proof -
  have "\<not> watchClosed w" using enqueueWatchEvent_closed [of w k s a obj] assms by auto
  moreover from assms obtain s' ob where "s = Some s'" "st_watchEvents s' \<noteq> None" "obj = Some ob"
    by (auto simp: enqueueWatchEvent_def split: option.splits if_splits)
  ultimately show ?thesis using that assms by (auto simp: enqueueWatchEvent_open)
qed

lemma enq_event_frame [simp]:
  "backend (enq_event ev w) = backend w" "watchClosed (enq_event ev w) = watchClosed w"
  by (simp_all add: enq_event_def)

lemma safe_enqueue [safe_rules]:
  "st_watchEvents s \<noteq> None \<Longrightarrow> safe (\<lambda>w. \<not> watchClosed w) (enqueueWatchEvent k (Some s) a (Some obj))"
  by (simp add: safe_def enqueueWatchEvent_open)

interpretation watch_queue: drop_oldest_queue enq_event watchEvents watchBroadcasterQueueLen "\<lambda>w. \<not> watchClosed w"
  by unfold_locales (auto simp: enq_event_def watchBroadcasterQueueLen_def Let_def)

subsection \<open>The interleaved queue\<close>

lemma queue_step_inv: "queue_step s t \<Longrightarrow> queue_inv s \<Longrightarrow> queue_inv t"
proof (induction rule: queue_step.induct)
  case (drop_one s i e x xs)
  then obtain gone where "q_history s = gone @ x # xs" "subseq (q_delivered s) gone"
    by (auto simp: queue_inv_def)
  then have "q_history s = (gone @ [x]) @ xs" "subseq (q_delivered s) (gone @ [x])"
    by (auto intro: subseq_order.trans list_emb_append2 simp: list_emb_prefix)
  with drop_one show ?case by (auto simp: queue_inv_def)
next
  case (dispatch s x xs)
  then obtain gone where "q_history s = gone @ x # xs" "subseq (q_delivered s) gone"
    by (auto simp: queue_inv_def)
  then have "q_history s = (gone @ [x]) @ xs" "subseq (q_delivered s @ [x]) (gone @ [x])"
    by (auto simp: list_emb_append_mono)
  with dispatch show ?case by (auto simp: queue_inv_def)
qed (fastforce simp: queue_inv_def)+

lemma queue_init_inv: "queue_inv queue_init"
  by (simp add: queue_inv_def queue_init_def)

lemma queue_reachable_inv: "queue_reachable s \<Longrightarrow> queue_inv s"
  by (induction rule: queue_reachable.induct) (auto intro: queue_init_inv queue_step_inv)

text \<open>A handler inside \<open>enqueueWatchEvent\<close> can always take its next step.\<close>

lemma queue_nonblocking:
  assumes "q_pc s i = Trying e \<or> q_pc s i = Dropping e \<or> q_pc s i = Retrying e"
  shows "\<exists>t. queue_step s t \<and> q_pc t i \<noteq> q_pc s i"
proof -
  have ne: "((q_pc s)(i := p)) i \<noteq> q_pc s i \<longleftrightarrow> p \<noteq> q_pc s i" for p by simp
  from assms consider "q_pc s i = Trying e" | "q_pc s i = Dropping e" | "q_pc s i = Retrying e" by blast
  then show ?thesis
  proof cases
    case 1
    then show ?thesis
      using queue_step.try_sent [OF 1] queue_step.try_full [OF 1] queue_step.send_closed [of s i e]
      by (cases "q_closed s"; cases "length (q_chan s) < watchBroadcasterQueueLen") (fastforce simp: 1)+
  next
    case 2
    then show ?thesis
      using queue_step.drop_one [OF 2] queue_step.drop_none [OF 2]
      by (cases "q_chan s") (fastforce simp: 2)+
  next
    case 3
    then show ?thesis
      using queue_step.retry_sent [OF 3] queue_step.retry_full [OF 3] queue_step.send_closed [of s i e]
      by (cases "q_closed s"; cases "length (q_chan s) < watchBroadcasterQueueLen") (fastforce simp: 3)+
  qed
qed

subsection \<open>Filters and stopping\<close>

lemma stopAware_Stop_idem: "stopAware_Stop (stopAware_Stop w) = stopAware_Stop w"
  by (simp add: stopAware_Stop_def)

lemma stopAware_Stop_once:
  "newStopAwareWatch w = Ok s \<Longrightarrow> (stopAware_Stop ^^ Suc n) s = \<lparr>saw_once = True, saw_stopped = True, saw_inner_stops = 1\<rparr>"
  by (induction n) (auto simp: stopAware_Stop_def newStopAwareWatch_def split: option.splits)

lemma validateFieldSelector_Ok:
  "validateFieldSelector (Some sel) = Ok () \<longleftrightarrow>
     sel_Empty sel \<or> (\<forall>f \<in> set (sel_Requirements sel). supportedWatchFieldSelectors f)"
  by (auto simp: validateFieldSelector_def find_None_iff find_Some_iff split: option.splits)

lemma filter_no_panic [simp]:
  "\<not> is_panic (filterForListOptions ns opts)" "\<not> is_panic (validateUnsupportedWatchListOptions opts)"
  by (auto simp: filterForListOptions_def validateUnsupportedWatchListOptions_def validateFieldSelector_def
      Let_def is_panic_rbind split: option.splits)

lemma namespace_no_panic [simp]:
  "\<not> is_panic (namespaceFromRequestContext ctx)" "\<not> is_panic (requiredNamespaceFromRequestContext ctx)"
  by (auto simp: requiredNamespaceFromRequestContext_def namespaceFromRequestContext_def is_panic_rbind
      split: option.splits)

lemma requiredNamespace_Ok:
  "requiredNamespaceFromRequestContext ctx = Ok ns \<longleftrightarrow> (\<exists>c. ctx = Some c \<and> ns = ctx_Namespace c \<and> ns \<noteq> [])"
  by (auto simp: requiredNamespaceFromRequestContext_def namespaceFromRequestContext_def rbind_eq_Ok
      split: option.splits)

text \<open>\<open>Watch\<close> panics only where the broadcaster answers with a nil watcher and no error.\<close>

lemma storage_Watch_safe:
  assumes "\<And>b v. bw b \<noteq> (Inr None, v)"
  shows "safe (\<lambda>w. \<not> watchClosed w) (storage_Watch kind bw s ctx opts)"
proof -
  have "\<not> is_panic (newStopAwareWatch x)" if "map_err g (sdk_call bw) w = (Ok x, w')" for g x w w'
    using that assms by (cases x) (auto simp: map_err_eq_Ok sdk_call_eq_Ok newStopAwareWatch_def)
  then show ?thesis
    unfolding storage_Watch_def Let_def by (intro safe_rules) (auto simp: namespaceFromRequestContext_def split: option.splits)
qed

end
