(* ===== verification/Base_Properties.thy ===== *)
theory Base_Properties
  imports Watch
begin

text \<open>
  The properties of the parts both storages share: object names, the error mapping, the
  choice of the Coder deployment of a namespace, watch filters and the event queue.
  The witnesses evaluate them on a small cluster.
\<close>

section \<open>A small cluster for the witnesses\<close>

definition demo_cp :: "string \<Rightarrow> bool \<Rightarrow> CoderControlPlane" where
  "demo_cp ns ready = \<lparr>cp_Name = ''c'', cp_Namespace = ns, cp_OperatorAccess_Disabled = False,
     cp_OperatorAccessReady = ready, cp_OperatorTokenSecretRef = Some \<lparr>sks_Name = ''t'', sks_Key = []\<rparr>,
     cp_URL = ''u''\<rparr>"

definition demo_cluster :: "CoderControlPlane list" where
  "demo_cluster = [demo_cp ''b'' True, demo_cp ''a'' True, demo_cp ''a'' False]"

definition demo_cp_provider :: "unit ControlPlaneClientProvider" where
  "demo_cp_provider = \<lparr>ccp_cpReader = Some (\<lambda>ns w. Inr (case ns of None \<Rightarrow> demo_cluster
       | Some ns \<Rightarrow> filter (\<lambda>cp. cp_Namespace cp = ns) demo_cluster)),
     ccp_secretReader = Some (\<lambda>ns n w. Inr (\<lambda>k. if k = ''token'' then Some ''s3cret'' else None)),
     ccp_requestTimeout = 0\<rparr>"

definition demo_queue :: "unit storage_state" where
  "demo_queue = \<lparr>backend = (), watchEvents = replicate 99 \<lparr>ev_Type = Added, ev_Object = ObjOther ''a''\<rparr>, watchClosed = False\<rparr>"

definition demo_opts :: ListOptions where
  "demo_opts = \<lparr>lo_LabelSelector = None,
     lo_FieldSelector = Some \<lparr>sel_Empty = False, sel_Requirements = [''metadata.name''],
       sel_Matches = (\<lambda>attrs. map_of attrs ''metadata.name'' = Some ''acme.go'')\<rparr>,
     lo_SendInitialEvents = None, lo_ResourceVersionMatch = [], lo_TimeoutSeconds = None\<rparr>"

definition demo_obj :: "string \<Rightarrow> runtime_Object" where
  "demo_obj n = ObjTemplate \<lparr>ct_type = \<lparr>Kind = [], APIVersion = []\<rparr>,
     ct_meta = \<lparr>Name = n, Namespace = ''coder'', UID = [], ResourceVersion = [], CreationTimestamp = 0, Labels = []\<rparr>,
     ct_spec = \<lparr>tsp_Organization = [], tsp_VersionID = [], tsp_DisplayName = [], tsp_Description = [],
       tsp_Icon = [], tsp_Files = None, tsp_Running = False\<rparr>,
     ct_status = \<lparr>tst_ID = [], tst_OrganizationName = [], tst_ActiveVersionID = [], tst_Deprecated = False,
       tst_UpdatedAt = None, tst_AutoShutdown = None\<rparr>\<rparr>"

text \<open>The count a namespace has in the list of counts.\<close>

definition ns_count :: "(string \<times> nat) list \<Rightarrow> string \<Rightarrow> nat" where
  "ns_count bn n = (case map_of bn n of None \<Rightarrow> 0 | Some k \<Rightarrow> k)"

section \<open>Helper lemmas\<close>

lemma ns_count_step: "ns_count (count_namespace n bn) m = ns_count bn m + (if m = n then 1 else 0)"
  by (induction n bn rule: count_namespace.induct) (auto simp: ns_count_def)

lemma ns_count_loop:
  "count_namespaces cps bn = Ok bn' \<Longrightarrow>
     ns_count bn' n = ns_count bn n + length (filter (\<lambda>cp. strings_TrimSpace (cp_Namespace cp) = n) cps)"
  by (induction cps bn rule: count_namespaces.induct) (auto simp: Let_def ns_count_step split: if_splits)

lemma ns_count_le_one:
  "\<forall>(n, k) \<in> set bn. k \<le> 1 \<Longrightarrow> ns_count bn n \<le> 1"
  by (auto simp: ns_count_def split: option.split dest!: map_of_SomeD)

lemma filter_one:
  "length (filter P xs) \<le> 1 \<Longrightarrow> x \<in> set xs \<Longrightarrow> P x \<Longrightarrow> filter P xs = [x]"
proof -
  assume *: "length (filter P xs) \<le> 1" "x \<in> set xs" "P x"
  then have "x \<in> set (filter P xs)" by simp
  with *(1) show ?thesis by (cases "filter P xs") auto
qed

lemma CP_EligibleNamespaces_single:
  assumes "CP_EligibleNamespaces p ctx w = Ok nss" "findEligibleControlPlanes p ctx [] w = Ok cps"
  shows "length (filter (\<lambda>cp. strings_TrimSpace (cp_Namespace cp) = n) cps) \<le> 1"
proof -
  from assms obtain bn r where bn: "count_namespaces cps [] = Ok bn" and r: "collect_namespaces bn [] = Ok r"
    by (auto simp: CP_EligibleNamespaces_def rbind_eq_Ok split: if_splits)
  from r have "ns_count bn n \<le> 1" unfolding collect_namespaces_Ok by (blast intro: ns_count_le_one)
  with ns_count_loop [OF bn, of n] show ?thesis by (simp add: ns_count_def)
qed

lemma fold_enqueue:
  assumes "st_watchEvents s \<noteq> None" "\<not> watchClosed w"
  shows "fold (\<lambda>ev w. snd (enqueueWatchEvent k (Some s) (ev_Type ev) (Some (ev_Object ev)) w)) es w
     = fold enq_event es w"
  using assms(2)
proof (induction es arbitrary: w)
  case (Cons e es)
  have "enqueueWatchEvent k (Some s) (ev_Type e) (Some (ev_Object e)) w = (Ok (), enq_event e w)"
    using enqueueWatchEvent_open [OF assms(1) Cons.prems, of k "ev_Type e" "ev_Object e"] by (cases e) simp
  with Cons show ?case by simp
qed simp

text \<open>One select statement of a handler, in each of its states.\<close>

lemma try_step:
  assumes "q_pc s i = Trying e"
  shows "\<exists>t. queue_step s t \<and> q_closed t = q_closed s \<and>
    (q_pc t i = Idle \<or> q_pc t i = Panicked \<and> q_closed t \<or> q_pc t i = Dropping e)"
proof (cases "q_closed s")
  case True
  then show ?thesis using queue_step.send_closed [of s i e] assms
    by (intro exI [of _ "s\<lparr>q_pc := (q_pc s)(i := Panicked)\<rparr>"]) simp
next
  case open_queue: False
  show ?thesis
  proof (cases "length (q_chan s) < watchBroadcasterQueueLen")
    case True
    then show ?thesis using queue_step.try_sent [OF assms open_queue]
      by (intro exI [of _ "s\<lparr>q_chan := q_chan s @ [e], q_history := q_history s @ [e], q_pc := (q_pc s)(i := Idle)\<rparr>"]) simp
  next
    case False
    then show ?thesis using queue_step.try_full [OF assms open_queue]
      by (intro exI [of _ "s\<lparr>q_pc := (q_pc s)(i := Dropping e)\<rparr>"]) simp
  qed
qed

lemma drop_step:
  assumes "q_pc s i = Dropping e"
  shows "\<exists>t. queue_step s t \<and> q_closed t = q_closed s \<and> q_pc t i = Retrying e"
  using queue_step.drop_one [OF assms] queue_step.drop_none [OF assms] by (cases "q_chan s") fastforce+

lemma retry_step:
  assumes "q_pc s i = Retrying e"
  shows "\<exists>t. queue_step s t \<and> q_closed t = q_closed s \<and> (q_pc t i = Idle \<or> q_pc t i = Panicked \<and> q_closed t)"
proof (cases "q_closed s")
  case True
  then show ?thesis using queue_step.send_closed [of s i e] assms
    by (intro exI [of _ "s\<lparr>q_pc := (q_pc s)(i := Panicked)\<rparr>"]) simp
next
  case open_queue: False
  show ?thesis
  proof (cases "length (q_chan s) < watchBroadcasterQueueLen")
    case True
    then show ?thesis using queue_step.retry_sent [OF assms open_queue]
      by (intro exI [of _ "s\<lparr>q_chan := q_chan s @ [e], q_history := q_history s @ [e], q_pc := (q_pc s)(i := Idle)\<rparr>"]) simp
  next
    case False
    then show ?thesis using queue_step.retry_full [OF assms open_queue]
      by (intro exI [of _ "s\<lparr>q_pc := (q_pc s)(i := Idle)\<rparr>"]) simp
  qed
qed

lemma dropping_done:
  assumes "q_pc s i = Dropping e"
  shows "\<exists>t. (queue_step ^^ 2) s t \<and> q_closed t = q_closed s \<and> (q_pc t i = Idle \<or> q_pc t i = Panicked \<and> q_closed t)"
proof -
  from drop_step [OF assms] obtain u where u: "queue_step s u" "q_closed u = q_closed s" "q_pc u i = Retrying e" by blast
  from retry_step [OF u(3)] u show ?thesis
    by (auto simp: numeral_2_eq_2 OO_def)
qed

section \<open>Names\<close>

text \<open>
  C39: Object names: the parser of template names is the exact inverse of the builder, and so
  is the parser of workspace names. A string is accepted exactly when the builder produces it
  from the parsed segments, so different objects never share a name. No input makes a parser
  panic, and either builder panics exactly when a segment is empty or contains the separator.
\<close>

theorem object_names_roundtrip:
  "(ParseTemplateName s = Ok (org, template) \<longleftrightarrow> BuildTemplateName org template = Ok s)
   \<and> (ParseWorkspaceName s = Ok (org, user, ws) \<longleftrightarrow> BuildWorkspaceName org user ws = Ok s)
   \<and> \<not> is_panic (ParseTemplateName s) \<and> \<not> is_panic (ParseWorkspaceName s)
   \<and> (is_panic (BuildTemplateName org template) \<longleftrightarrow> (\<exists>x \<in> {org, template}. x = [] \<or> CHR ''.'' \<in> set x))
   \<and> (is_panic (BuildWorkspaceName org user ws) \<longleftrightarrow> (\<exists>x \<in> {org, user, ws}. x = [] \<or> CHR ''.'' \<in> set x))"
  using template_names.parse_Ok_iff [of s "(org, template)"] workspace_names.parse_Ok_iff [of s "(org, user, ws)"]
    template_names.parse_no_panic [of s] workspace_names.parse_no_panic [of s] Build_panics(1) [of org template] Build_panics(2) [of org user ws]
  by (auto simp: segment_ok_def nameSeparator_def)

section \<open>Errors\<close>

text \<open>
  The status reported for a failed call of the Coder deployment: it is a client error (4xx)
  exactly when the deployment answered with a client error, and the codes 400, 401, 403, 404,
  409 and 429 are reported as they are, whatever the error was wrapped in.
\<close>

lemma coder_error_status:
  assumes "\<not> GroupResource_Empty r" "n \<noteq> []"
  shows "\<exists>s. MapCoderError e r n = StatusError s
    \<and> (400 \<le> status_code s \<and> status_code s < 500
         \<longleftrightarrow> (\<exists>c m. as_coder_error e = Some (c, m) \<and> 400 \<le> c \<and> c < 500))
    \<and> (\<forall>c m. as_coder_error e = Some (c, m) \<and> c \<in> {400, 401, 403, 404, 409, 429} \<longrightarrow> status_code s = c)"
proof -
  obtain s where s: "MapCoderError e r n = StatusError s" using MapCoderError_is_status [OF assms] by blast
  have "status_code s = c"
    if "as_coder_error e = Some (c, m)" "c \<in> {400, 401, 403, 404, 409, 429}" for c m
    using MapCoderError_code [OF assms that] s by auto
  with s MapCoderError_class [OF assms s] show ?thesis by blast
qed

section \<open>The Coder deployment of a namespace\<close>

text \<open>
  C9: \<open>ClientForNamespace\<close> of the control-plane provider returns a client exactly when the
  list of control planes (of the namespace, or of the cluster) holds one eligible
  \<open>CoderControlPlane\<close>, its token secret can be read and has a non-empty value under the
  referenced key (\<open>token\<close> by default), and its URL parses; the client then carries that URL,
  that token and the configured timeout. Credentials of another control plane are never used.
\<close>

theorem control_plane_client:
  "CP_ClientForNamespace url_Parse (Some \<lparr>ccp_cpReader = Some cps, ccp_secretReader = Some secrets,
      ccp_requestTimeout = t\<rparr>) (Some ctx) ns w = Ok c \<longleftrightarrow>
   (\<exists>items cp ref data token url.
      cps (if ns = [] then None else Some ns) w = Inr items \<and> filter cp_eligible items = [cp]
      \<and> cp_OperatorTokenSecretRef cp = Some ref \<and> strings_TrimSpace (sks_Name ref) \<noteq> []
      \<and> secrets (cp_Namespace cp) (strings_TrimSpace (sks_Name ref)) w = Inr data
      \<and> data (if strings_TrimSpace (sks_Key ref) = [] then ''token'' else strings_TrimSpace (sks_Key ref)) = Some token
      \<and> token \<noteq> [] \<and> url_Parse (strings_TrimSpace (cp_URL cp)) = Inr url \<and> 0 \<le> t
      \<and> c = Some \<lparr>cl_URL = url, cl_SessionToken = token,
                  cl_Timeout = (if t = 0 then 30 * time_Second else t)\<rparr>)"
    (is "?lhs \<longleftrightarrow> ?rhs")
proof
  assume ?lhs
  then obtain cp items where items: "cps (if ns = [] then None else Some ns) w = Inr items"
    "filter cp_eligible items = [cp]" and c: "CP_clientForControlPlane url_Parse t secrets cp w = Ok c"
    by (rule CP_ClientForNamespace_Ok) (force simp: findEligible_Ok split: if_splits)
  from c have "\<exists>ref. cp_OperatorTokenSecretRef cp = Some ref \<and> strings_TrimSpace (sks_Name ref) \<noteq> []"
    unfolding CP_clientForControlPlane_def Let_def by (auto split: option.splits if_splits)
  with CP_clientForControlPlane_Ok [OF c] items show ?rhs
    unfolding DefaultTokenSecretKey_def defaultRequestTimeout_def by fastforce
next
  assume ?rhs
  then obtain items cp ref data token url where
    items: "cps (if ns = [] then None else Some ns) w = Inr items" "filter cp_eligible items = [cp]"
    and ref: "cp_OperatorTokenSecretRef cp = Some ref" "strings_TrimSpace (sks_Name ref) \<noteq> []"
    "secrets (cp_Namespace cp) (strings_TrimSpace (sks_Name ref)) w = Inr data"
    "data (if strings_TrimSpace (sks_Key ref) = [] then ''token'' else strings_TrimSpace (sks_Key ref)) = Some token"
    "token \<noteq> []" "url_Parse (strings_TrimSpace (cp_URL cp)) = Inr url" "0 \<le> t"
    and c: "c = Some \<lparr>cl_URL = url, cl_SessionToken = token,
                  cl_Timeout = (if t = 0 then 30 * time_Second else t)\<rparr>"
    by blast
  have "CP_clientForControlPlane url_Parse t secrets cp w = Ok c"
    using ref c unfolding CP_clientForControlPlane_def Let_def DefaultTokenSecretKey_def
    by (simp add: NewSDKClient_def Let_def defaultRequestTimeout_def)
  with items show ?lhs
    by (cases "ns = []") (simp_all add: CP_ClientForNamespace_def findEligibleControlPlanes_def)
qed

text \<open>
  The namespaces the provider offers can be served: when the cluster's list of a namespace is
  the part of the whole list in that namespace, and namespaces carry no surrounding white
  space (both documented behaviour of the Kubernetes API), then each namespace returned by
  \<open>EligibleNamespaces\<close> has exactly one eligible control plane, so a request for it fails
  neither as unavailable nor as ambiguous.
\<close>

lemma eligible_namespaces_served:
  assumes whole: "cps None w = Inr items"
    and part: "cps (Some ns) w = Inr (filter (\<lambda>cp. cp_Namespace cp = ns) items)"
    and trimmed: "\<forall>cp \<in> set items. strings_TrimSpace (cp_Namespace cp) = cp_Namespace cp"
    and reader: "ccp_cpReader prov = Some cps"
    and eligible: "CP_EligibleNamespaces (Some prov) (Some ctx) w = Ok nss" and ns: "ns \<in> set nss"
  shows "\<exists>cp \<in> set items. cp_Namespace cp = ns \<and> findEligibleControlPlanes (Some prov) (Some ctx) ns w = Ok [cp]"
proof -
  have found: "findEligibleControlPlanes (Some prov) (Some ctx) [] w = Ok (filter cp_eligible items)"
    using reader whole by (simp add: findEligible_Ok)
  from eligible found obtain cp where
    cp: "cp \<in> set items" "cp_eligible cp" "strings_TrimSpace (cp_Namespace cp) = ns" and ne: "ns \<noteq> []"
    using ns by (elim CP_EligibleNamespaces_Ok) (auto simp: image_iff)
  let ?here = "\<lambda>cp. strings_TrimSpace (cp_Namespace cp) = ns"
  have "filter ?here (filter cp_eligible items) = [cp]"
    using CP_EligibleNamespaces_single [OF eligible found] cp by (intro filter_one) auto
  moreover have "filter cp_eligible (filter (\<lambda>cp. cp_Namespace cp = ns) items) = filter ?here (filter cp_eligible items)"
    using trimmed by (auto intro: filter_cong)
  ultimately have "findEligibleControlPlanes (Some prov) (Some ctx) ns w = Ok [cp]"
    using reader part ne by (simp add: findEligible_Ok)
  with cp trimmed show ?thesis by auto
qed

section \<open>The event queue\<close>

text \<open>
  C40: A burst of events: handlers that enqueue any list of events, one after the other, on an
  open queue leave exactly the newest 100 of the queued and the new events, in their order.
  An event is lost only when it is among the oldest, and the queue never exceeds its bound.
\<close>

theorem watch_queue_burst:
  fixes k :: string and es :: "watch_event list"
  assumes "st_watchEvents s \<noteq> None" "\<not> watchClosed w" "length (watchEvents w) \<le> 100"
  defines "w' \<equiv> fold (\<lambda>ev w. snd (enqueueWatchEvent k (Some s) (ev_Type ev) (Some (ev_Object ev)) w)) es w"
  shows "watchEvents w' = drop (length (watchEvents w @ es) - 100) (watchEvents w @ es) \<and> \<not> watchClosed w'"
  using watch_queue.enq_all [of w es] assms fold_enqueue [OF assms(1,2), of k es]
  by (simp add: watchBroadcasterQueueLen_def)

theorem watch_queue_burst_witness:
  "watchEvents (fold (\<lambda>ev w. snd (enqueueWatchEvent ''workspace''
       (Some \<lparr>st_provider = None, st_broadcaster = Some (), st_watchEvents = Some ()\<rparr>) (ev_Type ev)
       (Some (ev_Object ev)) w)) [\<lparr>ev_Type = Modified, ev_Object = ObjOther ''b''\<rparr>, \<lparr>ev_Type = Deleted, ev_Object = ObjOther ''c''\<rparr>] demo_queue)
   = replicate 98 \<lparr>ev_Type = Added, ev_Object = ObjOther ''a''\<rparr>
       @ [\<lparr>ev_Type = Modified, ev_Object = ObjOther ''b''\<rparr>, \<lparr>ev_Type = Deleted, ev_Object = ObjOther ''c''\<rparr>]"
  using watch_queue_burst [of "\<lparr>st_provider = None, st_broadcaster = Some (), st_watchEvents = Some ()\<rparr>" demo_queue
      "''workspace''" "[\<lparr>ev_Type = Modified, ev_Object = ObjOther ''b''\<rparr>, \<lparr>ev_Type = Deleted, ev_Object = ObjOther ''c''\<rparr>]"]
  by (simp add: demo_queue_def)

text \<open>
  C8: The queue under concurrency: in every state reachable by any interleaving of the select
  statements of any number of handlers with the dispatcher and with \<open>Destroy\<close>, the channel
  holds at most 100 events, its contents are the newest of all events ever queued, what the
  dispatcher delivered is a subsequence of the older ones in queueing order (events may be
  dropped, never reordered or duplicated), and a handler has panicked only if the queue was closed.
\<close>

theorem watch_queue_interleaved:
  assumes "queue_reachable s"
  shows "length (q_chan s) \<le> 100 \<and> (\<exists>gone. q_history s = gone @ q_chan s \<and> subseq (q_delivered s) gone)
     \<and> (q_closed s \<or> (\<forall>i. q_pc s i \<noteq> Panicked))"
  using queue_reachable_inv [OF assms] by (auto simp: queue_inv_def watchBroadcasterQueueLen_def)

theorem watch_queue_interleaved_witness:
  "\<exists>s. queue_reachable s \<and> q_chan s = [''e''] \<and> length (q_chan s) \<le> 100"
proof -
  let ?s1 = "queue_init\<lparr>q_pc := (q_pc queue_init)(0 := Trying ''e'')\<rparr>"
  let ?s2 = "?s1\<lparr>q_chan := q_chan ?s1 @ [''e''], q_history := q_history ?s1 @ [''e''], q_pc := (q_pc ?s1)(0 := Idle)\<rparr>"
  have "queue_reachable ?s1"
    by (rule queue_reachable.step [OF queue_reachable.init queue_step.start]) (simp add: queue_init_def)
  then have "queue_reachable ?s2"
    by (rule queue_reachable.step [OF _ queue_step.try_sent])
       (simp_all add: queue_init_def watchBroadcasterQueueLen_def)
  with watch_queue_interleaved [OF this] show ?thesis
    by (intro exI [of _ ?s2]) (simp add: queue_init_def)
qed

text \<open>
  Enqueueing never blocks a request: from every state, a handler inside
  \<open>enqueueWatchEvent\<close> completes in at most three steps of its own, without any step of the
  dispatcher or of another handler, and it panics only when the queue is closed.
\<close>

lemma watch_queue_progress:
  assumes "q_pc s i \<in> {Trying e, Dropping e, Retrying e}"
  shows "\<exists>k \<le> 3. \<exists>t. (queue_step ^^ k) s t \<and> q_closed t = q_closed s
    \<and> (q_pc t i = Idle \<or> q_pc t i = Panicked \<and> q_closed t)"
proof -
  from assms consider (trying) "q_pc s i = Trying e" | (dropping) "q_pc s i = Dropping e"
    | (retrying) "q_pc s i = Retrying e" by blast
  then show ?thesis
  proof cases
    case trying
    from try_step [OF this] show ?thesis
    proof (elim exE conjE disjE)
      fix t assume t: "queue_step s t" "q_closed t = q_closed s" "q_pc t i = Dropping e"
      from dropping_done [OF t(3)] obtain v where "(queue_step ^^ 2) t v" "q_closed v = q_closed s"
        "q_pc v i = Idle \<or> q_pc v i = Panicked \<and> q_closed v" using t(2) by auto
      moreover from this(1) t(1) have "(queue_step ^^ 3) s v"
        using relpowp_Suc_I2 [of queue_step s t 2 v] by (simp add: numeral_3_eq_3 numeral_2_eq_2)
      ultimately show ?thesis by blast
    qed (force intro!: exI [of _ 1])+
  next
    case dropping
    from dropping_done [OF this] show ?thesis by (intro exI [of _ 2]) auto
  next
    case retrying
    from retry_step [OF this] show ?thesis by (intro exI [of _ 1]) auto
  qed
qed

section \<open>Watch filters\<close>

text \<open>
  The filter of a watch: for an object of the API, an event passes exactly when the object is
  in the requested namespace (any, for a cluster-wide watch), its labels match the label
  selector and its name and namespace match the field selector; an absent or empty selector
  selects everything. A field selector on any other field is refused.
\<close>

lemma watch_filter_exact:
  assumes filter: "filterForListOptions ns (Some opts) = Ok flt" and meta: "object_meta (ev_Object ev) = Some meta"
  defines "sel_ok \<equiv> (\<lambda>sel attrs. case sel of None \<Rightarrow> True | Some s \<Rightarrow> sel_Empty s \<or> sel_Matches s attrs)"
  shows "((case flt of None \<Rightarrow> True | Some f \<Rightarrow> f ev) \<longleftrightarrow>
       (ns = [] \<or> Namespace meta = ns) \<and> sel_ok (lo_LabelSelector opts) (Labels meta)
       \<and> sel_ok (lo_FieldSelector opts) [(''metadata.name'', Name meta), (''metadata.namespace'', Namespace meta)])
     \<and> (\<forall>s. lo_FieldSelector opts = Some s \<and> \<not> sel_Empty s \<longrightarrow>
          set (sel_Requirements s) \<subseteq> {''metadata.name'', ''metadata.namespace''})"
proof -
  let ?active = "\<lambda>sel. case sel of None \<Rightarrow> None | Some s \<Rightarrow> if sel_Empty s then None else Some s"
  have flt: "flt = (if ns = [] \<and> ?active (lo_LabelSelector opts) = None \<and> ?active (lo_FieldSelector opts) = None
      then None else Some (watch_filter ns (?active (lo_LabelSelector opts)) (?active (lo_FieldSelector opts))))"
    using filter unfolding filterForListOptions_def Let_def rbind_eq_Ok by (auto split: if_splits)
  have "set (sel_Requirements s) \<subseteq> {''metadata.name'', ''metadata.namespace''}"
    if "lo_FieldSelector opts = Some s" "\<not> sel_Empty s" for s
    using filter that unfolding filterForListOptions_def Let_def rbind_eq_Ok
    by (auto simp: validateFieldSelector_Ok supportedWatchFieldSelectors_def)
  moreover have "(case flt of None \<Rightarrow> True | Some f \<Rightarrow> f ev) \<longleftrightarrow>
       (ns = [] \<or> Namespace meta = ns) \<and> sel_ok (lo_LabelSelector opts) (Labels meta)
       \<and> sel_ok (lo_FieldSelector opts) [(''metadata.name'', Name meta), (''metadata.namespace'', Namespace meta)]"
    unfolding flt sel_ok_def by (auto simp: watch_filter_def meta split: option.splits if_splits)
  ultimately show ?thesis by blast
qed

end
