(* ===== verification/Workspace_Storage.thy ===== *)
theory Workspace_Storage
  imports Watch "HOL-Library.Multiset"
begin

text \<open>
  The storage of CoderWorkspace objects (internal/aggregated/storage/workspace.go): all REST
  handlers, written in the order of their checks and calls. \<open>api\<close> gives the SDK calls of a
  client; admission callbacks and \<open>UpdatedObject\<close> are calls given by the API server.
\<close>

section \<open>Definitions\<close>

subsection \<open>Helpers shared with the template storage\<close>

definition clientForNamespace ::
    "string \<Rightarrow> 'b Storage \<Rightarrow> Context option \<Rightarrow> string \<Rightarrow> ('b storage_state, SDKClient) op" where
  "clientForNamespace kind s ctx ns =
     non_nil (st_provider s) (ErrorString (Fmt ''assertion failed: %s client provider must not be nil'' [ArgS kind])) (\<lambda>provider.
     bind (map_err (WrapError ''resolve codersdk client for namespace %q: %w'' [ArgS ns])
             (read_backend (prov_ClientForNamespace provider ctx ns))) (\<lambda>sdk.
     non_nil sdk (ErrorString (Fmt ''assertion failed: %s client provider returned nil codersdk client'' [ArgS kind])) ret))"

definition namespaceForListConversion ::
    "Context option \<Rightarrow> string \<Rightarrow> 'b ClientProvider option \<Rightarrow> ('b storage_state, string) op" where
  "namespaceForListConversion ctx requestNamespace provider =
     non_nil ctx (assertion ''context must not be nil'') (\<lambda>_.
     if requestNamespace \<noteq> [] then ret requestNamespace
     else non_nil provider (assertion ''client provider must not be nil'') (\<lambda>provider.
     non_nil (prov_NamespaceResolver provider) (StatusError (NewServiceUnavailable
        (Lit ''all-namespaces list requires a provider that implements namespace resolution''))) (\<lambda>resolver.
     bind (read_backend (resolver ctx)) (\<lambda>resolvedNamespace.
     guard (resolvedNamespace \<noteq> []) (assertion ''namespace resolver returned an empty namespace'')
       (ret resolvedNamespace)))))"

definition equalInt64Ptr :: "int option \<Rightarrow> int option \<Rightarrow> bool" where
  "equalInt64Ptr a b =
     (if a = None \<and> b = None then True else if a = None \<or> b = None then False else the a = the b)"

definition equalStringPtr :: "string option \<Rightarrow> string option \<Rightarrow> bool" where
  "equalStringPtr a b =
     (if a = None \<and> b = None then True else if a = None \<or> b = None then False else the a = the b)"

text \<open>\<open>for _, x := range xs { items = append(items, convert(x)) }\<close>, where the conversion may panic.\<close>

fun convert_all :: "('x \<Rightarrow> 'y result) \<Rightarrow> 'x list \<Rightarrow> 'y list result" where
  "convert_all f [] = Ok []"
| "convert_all f (x # xs) = rbind (f x) (\<lambda>y. rbind (convert_all f xs) (\<lambda>ys. Ok (y # ys)))"

text \<open>The fan-out loop of an all-namespaces list: one client and one list call per namespace.\<close>

fun list_namespaces ::
    "(string \<Rightarrow> ('w, 'c) op) \<Rightarrow> ('c \<Rightarrow> ('w, 'x list) op) \<Rightarrow> (string \<Rightarrow> 'x \<Rightarrow> 'y result)
       \<Rightarrow> string list \<Rightarrow> ('w, 'y list) op" where
  "list_namespaces client list_call conv [] = ret []"
| "list_namespaces client list_call conv (ns # nss) =
     bind (map_err wrapClientError (client ns)) (\<lambda>sdk.
     bind (list_call sdk) (\<lambda>xs.
     bind (lift (convert_all (conv ns) xs)) (\<lambda>items.
     bind (list_namespaces client list_call conv nss) (\<lambda>rest. ret (items @ rest)))))"

text \<open>\<open>sort.Slice\<close> by namespace and name; items equal in both keep their order here.\<close>

definition sort_by_meta :: "('y \<Rightarrow> ObjectMeta) \<Rightarrow> 'y list \<Rightarrow> 'y list" where
  "sort_by_meta meta items = sort_key (\<lambda>x. (Namespace (meta x), Name (meta x))) items"

type_synonym 'b validate = "(runtime_Object \<Rightarrow> ('b, unit) call) option"
type_synonym 'b validate_update = "(runtime_Object \<Rightarrow> runtime_Object \<Rightarrow> ('b, unit) call) option"
type_synonym 'b updated_object_info = "runtime_Object \<Rightarrow> ('b, runtime_Object option) call"

definition run_validate :: "'b validate \<Rightarrow> runtime_Object \<Rightarrow> ('b storage_state, unit) op" where
  "run_validate v obj = (case v of None \<Rightarrow> ret () | Some f \<Rightarrow> sdk_call (f obj))"

definition run_validate_update ::
    "'b validate_update \<Rightarrow> runtime_Object \<Rightarrow> runtime_Object \<Rightarrow> ('b storage_state, unit) op" where
  "run_validate_update v new old = (case v of None \<Rightarrow> ret () | Some f \<Rightarrow> sdk_call (f new old))"

abbreviation map_coder :: "GroupResource \<Rightarrow> string \<Rightarrow> ('w, 'a) op \<Rightarrow> ('w, 'a) op" where
  "map_coder r name m \<equiv> map_err (\<lambda>err. MapCoderError err r name) m"

subsection \<open>Get, List, Watch\<close>

definition WorkspaceStorage_Get ::
    "(SDKClient \<Rightarrow> 'b codersdk) \<Rightarrow> 'b Storage option \<Rightarrow> Context option \<Rightarrow> string
       \<Rightarrow> ('b storage_state, CoderWorkspace) op" where
  "WorkspaceStorage_Get api s ctx name =
     non_nil s (assertion ''workspace storage must not be nil'') (\<lambda>s.
     non_nil ctx (assertion ''context must not be nil'') (\<lambda>_.
     guard (name \<noteq> []) (assertion ''workspace name must not be empty'') (
     bind (lift (requiredNamespaceFromRequestContext ctx)) (\<lambda>ns.
     bind (map_err (\<lambda>err. bad_request (Fmt ''invalid workspace name %q: %v'' [ArgS name, ArgV err]))
             (lift (ParseWorkspaceName name))) (\<lambda>(orgName, userName, workspaceName).
     bind (map_err wrapClientError (clientForNamespace ''workspace'' s ctx ns)) (\<lambda>sdk.
     bind (map_coder coderworkspaces name
             (sdk_call (sdk_WorkspaceByOwnerAndName (api sdk) userName workspaceName))) (\<lambda>workspace.
     guard (w_OrganizationName workspace = orgName) (StatusError (NewNotFound coderworkspaces name)) (
     lift (WorkspaceToK8s ns workspace)))))))))"

definition workspace_list_call ::
    "(SDKClient \<Rightarrow> 'b codersdk) \<Rightarrow> SDKClient \<Rightarrow> ('b storage_state, Workspace list) op" where
  "workspace_list_call api sdk = map_coder coderworkspaces ''<list>'' (sdk_call (sdk_Workspaces (api sdk)))"

definition WorkspaceStorage_List ::
    "(SDKClient \<Rightarrow> 'b codersdk) \<Rightarrow> 'b Storage option \<Rightarrow> Context option
       \<Rightarrow> ('b storage_state, CoderWorkspaceList) op" where
  "WorkspaceStorage_List api s ctx =
     non_nil s (assertion ''workspace storage must not be nil'') (\<lambda>s.
     non_nil ctx (assertion ''context must not be nil'') (\<lambda>_.
     bind (lift (namespaceFromRequestContext ctx)) (\<lambda>ns.
     let mk = (\<lambda>items. \<lparr>cwl_type = \<lparr>Kind = ''CoderWorkspaceList'', APIVersion = SchemeGroupVersion\<rparr>,
                        cwl_Items = items\<rparr>);
         lister = (if ns = [] then Option.bind (st_provider s) prov_NamespaceLister else None) in
     case lister of
       Some eligibleNamespaces \<Rightarrow>
         bind (read_backend (eligibleNamespaces ctx)) (\<lambda>namespaces.
         bind (list_namespaces (clientForNamespace ''workspace'' s ctx) (workspace_list_call api)
                 WorkspaceToK8s namespaces) (\<lambda>items.
         ret (mk (sort_by_meta cw_meta items))))
     | None \<Rightarrow>
         bind (namespaceForListConversion ctx ns (st_provider s)) (\<lambda>responseNamespace.
         bind (map_err wrapClientError (clientForNamespace ''workspace'' s ctx ns)) (\<lambda>sdk.
         bind (workspace_list_call api sdk) (\<lambda>workspaces.
         bind (lift (convert_all (WorkspaceToK8s responseNamespace) workspaces)) (\<lambda>items.
         ret (mk items))))))))"

definition WorkspaceStorage_Watch ::
    "('b, unit option) call \<Rightarrow> 'b Storage option \<Rightarrow> Context option \<Rightarrow> ListOptions option
       \<Rightarrow> ('b storage_state, watch_handle) op" where
  "WorkspaceStorage_Watch broadcaster_Watch s ctx opts = storage_Watch ''workspace'' broadcaster_Watch s ctx opts"

subsection \<open>Create\<close>

text \<open>\<open>createdWorkspace.LatestBuild = build\<close> and the time stamp of the snapshot.\<close>

definition with_build :: "Workspace \<Rightarrow> WorkspaceBuild \<Rightarrow> Workspace" where
  "with_build w build =
     (let w' = w\<lparr>w_LatestBuild := build\<rparr> in
      if time_IsZero (b_UpdatedAt build) then w' else w'\<lparr>w_UpdatedAt := b_UpdatedAt build\<rparr>)"

text \<open>The block that checks a pinned template version against the template.\<close>

definition checkTemplateVersion ::
    "(SDKClient \<Rightarrow> 'b codersdk) \<Rightarrow> SDKClient \<Rightarrow> CoderWorkspace \<Rightarrow> Template \<Rightarrow> ('b storage_state, unit) op" where
  "checkTemplateVersion api sdk obj template =
     (if wsp_TemplateVersionID (cw_spec obj) = [] then ret ()
      else case uuid_Parse (wsp_TemplateVersionID (cw_spec obj)) of
        Inl parseErr \<Rightarrow> fail (bad_request (Fmt ''invalid workspace spec: invalid templateVersionID %q: %v''
            [ArgS (wsp_TemplateVersionID (cw_spec obj)), ArgV (UUIDError parseErr)]))
      | Inr parsedTemplateVersionID \<Rightarrow>
        bind (map_coder coderworkspaces (Name (cw_meta obj))
                (sdk_call (sdk_TemplateVersion (api sdk) parsedTemplateVersionID))) (\<lambda>templateVersion.
        guard (tv_TemplateID templateVersion = Some (t_ID template))
          (bad_request (Fmt ''spec.templateVersionID %q does not belong to template %q''
             [ArgS (wsp_TemplateVersionID (cw_spec obj)), ArgS (wsp_TemplateName (cw_spec obj))]))
          (ret ())))"

text \<open>
  The error of \<open>TemplateByName\<close> is reported under a name that is built, and so may panic,
  when the call has failed.
\<close>

definition templateByName ::
    "(SDKClient \<Rightarrow> 'b codersdk) \<Rightarrow> SDKClient \<Rightarrow> uuid \<Rightarrow> string \<Rightarrow> string \<Rightarrow> ('b storage_state, Template) op" where
  "templateByName api sdk orgID orgName templateName =
     handle (sdk_call (sdk_TemplateByName (api sdk) orgID templateName))
       (\<lambda>err. bind (lift (BuildTemplateName orgName templateName)) (\<lambda>name.
              fail (MapCoderError err codertemplates name)))
       ret"

definition stopAfterCreate ::
    "(SDKClient \<Rightarrow> 'b codersdk) \<Rightarrow> SDKClient \<Rightarrow> bool \<Rightarrow> Workspace \<Rightarrow> ('b storage_state, Workspace) op" where
  "stopAfterCreate api sdk running createdWorkspace =
     (if running then ret createdWorkspace
      else handle (sdk_call (sdk_CreateWorkspaceBuild (api sdk) (w_ID createdWorkspace) WorkspaceTransitionStop))
             (\<lambda>_. ret createdWorkspace) (\<lambda>stopBuild. ret (with_build createdWorkspace stopBuild)))"

text \<open>The second half of \<open>Create\<close>, after the request has been validated.\<close>

definition WorkspaceStorage_createValidated ::
    "(SDKClient \<Rightarrow> 'b codersdk) \<Rightarrow> 'b Storage option \<Rightarrow> SDKClient \<Rightarrow> string \<Rightarrow> CoderWorkspace
       \<Rightarrow> string \<Rightarrow> string \<Rightarrow> string \<Rightarrow> ('b storage_state, CoderWorkspace) op" where
  "WorkspaceStorage_createValidated api s sdk ns workspaceObj orgName userName workspaceName =
     bind (map_coder coderworkspaces (Name (cw_meta workspaceObj))
             (sdk_call (sdk_OrganizationByName (api sdk) orgName))) (\<lambda>orgID.
     bind (templateByName api sdk orgID orgName (wsp_TemplateName (cw_spec workspaceObj))) (\<lambda>template.
     bind (checkTemplateVersion api sdk workspaceObj template) (\<lambda>_.
     bind (map_err (\<lambda>err. bad_request (Fmt ''invalid workspace spec: %v'' [ArgV err]))
             (lift (WorkspaceCreateRequestFromK8s (Some workspaceObj) workspaceName (t_ID template)))) (\<lambda>request.
     bind (map_coder coderworkspaces (Name (cw_meta workspaceObj))
             (sdk_call (sdk_CreateUserWorkspace (api sdk) userName request))) (\<lambda>createdWorkspace.
     bind (stopAfterCreate api sdk (wsp_Running (cw_spec workspaceObj)) createdWorkspace) (\<lambda>finalWorkspace.
     bind (lift (WorkspaceToK8s ns finalWorkspace)) (\<lambda>result.
     bind (enqueueWatchEvent ''workspace'' s Added (Some (ObjWorkspace result))) (\<lambda>_.
     ret result))))))))"

definition WorkspaceStorage_Create ::
    "(SDKClient \<Rightarrow> 'b codersdk) \<Rightarrow> 'b Storage option \<Rightarrow> Context option \<Rightarrow> runtime_Object option
       \<Rightarrow> 'b validate \<Rightarrow> ('b storage_state, CoderWorkspace) op" where
  "WorkspaceStorage_Create api s ctx obj createValidation =
     non_nil s (assertion ''workspace storage must not be nil'') (\<lambda>st.
     non_nil ctx (assertion ''context must not be nil'') (\<lambda>_.
     non_nil obj (assertion ''object must not be nil'') (\<lambda>robj.
     non_nil (st_broadcaster st) (assertion ''workspace broadcaster must not be nil'') (\<lambda>_.
     as_workspace (Some robj) (\<lambda>t. bad_request (Fmt ''expected *CoderWorkspace, got %T'' [ArgS t])) (\<lambda>workspaceObj.
     bind (run_validate createValidation robj) (\<lambda>_.
     guard (Name (cw_meta workspaceObj) \<noteq> []) (bad_request (Lit ''metadata.name must not be empty'')) (
     bind (lift (requiredNamespaceFromRequestContext ctx)) (\<lambda>ns.
     guard (Namespace (cw_meta workspaceObj) = [] \<or> Namespace (cw_meta workspaceObj) = ns)
       (bad_request (Fmt ''metadata.namespace %q must match request namespace %q''
          [ArgS (Namespace (cw_meta workspaceObj)), ArgS ns])) (
     bind (map_err (\<lambda>err. bad_request (Fmt ''invalid workspace name %q: %v'' [ArgS (Name (cw_meta workspaceObj)), ArgV err]))
             (lift (ParseWorkspaceName (Name (cw_meta workspaceObj))))) (\<lambda>(orgName, userName, workspaceName).
     guard (wsp_Organization (cw_spec workspaceObj) = orgName)
       (bad_request (Fmt ''spec.organization %q must match organization %q parsed from metadata.name''
          [ArgS (wsp_Organization (cw_spec workspaceObj)), ArgS orgName])) (
     guard (wsp_TemplateName (cw_spec workspaceObj) \<noteq> [])
       (bad_request (Lit ''spec.templateName must not be empty'')) (
     bind (map_err wrapClientError (clientForNamespace ''workspace'' st ctx ns)) (\<lambda>sdk.
     WorkspaceStorage_createValidated api s sdk ns workspaceObj orgName userName workspaceName)))))))))))))"

subsection \<open>Update\<close>

text \<open>The create-on-update branch, taken when the workspace does not exist.\<close>

definition WorkspaceStorage_createOnUpdate ::
    "(SDKClient \<Rightarrow> 'b codersdk) \<Rightarrow> 'b Storage option \<Rightarrow> Context option \<Rightarrow> string
       \<Rightarrow> 'b updated_object_info \<Rightarrow> 'b validate \<Rightarrow> ('b storage_state, CoderWorkspace \<times> bool) op" where
  "WorkspaceStorage_createOnUpdate api s ctx name objInfo createValidation =
     bind (sdk_call (objInfo (ObjWorkspace zero_workspace))) (\<lambda>createObj.
     non_nil createObj (assertion ''create-on-update workspace object must not be nil'') (\<lambda>createObj.
     as_workspace (Some createObj) (\<lambda>t. ErrorString (Fmt ''assertion failed: expected *CoderWorkspace, got %T'' [ArgS t])) (\<lambda>obj.
       let createWorkspace = (if Name (cw_meta obj) = [] then obj\<lparr>cw_meta := (cw_meta obj)\<lparr>Name := name\<rparr>\<rparr> else obj) in
       guard (Name (cw_meta createWorkspace) = name)
         (bad_request (Fmt ''updated object metadata.name %q must match request name %q''
            [ArgS (Name (cw_meta createWorkspace)), ArgS name])) (
       bind (WorkspaceStorage_Create api s ctx (Some (ObjWorkspace createWorkspace)) createValidation) (\<lambda>createdObj.
       ret (createdObj, True))))))"

text \<open>The fields an update may not change, with the values a client may omit.\<close>

definition immutable_changed :: "CoderWorkspaceSpec \<Rightarrow> CoderWorkspaceSpec \<Rightarrow> bool" where
  "immutable_changed desired current =
     (wsp_Organization desired \<noteq> wsp_Organization current \<or>
      wsp_TemplateName desired \<noteq> wsp_TemplateName current \<or>
      (wsp_TemplateVersionID desired \<noteq> [] \<and> wsp_TemplateVersionID desired \<noteq> wsp_TemplateVersionID current) \<or>
      (wsp_TTLMillis desired \<noteq> None \<and> \<not> equalInt64Ptr (wsp_TTLMillis desired) (wsp_TTLMillis current)) \<or>
      (wsp_AutostartSchedule desired \<noteq> None \<and>
         \<not> equalStringPtr (wsp_AutostartSchedule desired) (wsp_AutostartSchedule current)))"

text \<open>The checks of the desired object against the request and the current object.\<close>

definition WorkspaceStorage_checkDesired ::
    "string \<Rightarrow> string \<Rightarrow> string \<Rightarrow> CoderWorkspace \<Rightarrow> CoderWorkspace \<Rightarrow> unit result" where
  "WorkspaceStorage_checkDesired name orgName ns desiredObj currentK8sObj =
     (let dm = cw_meta desiredObj; ds = cw_spec desiredObj in
      if Name dm \<noteq> [] \<and> Name dm \<noteq> name then
        Err (bad_request (Fmt ''updated object metadata.name %q must match request name %q'' [ArgS (Name dm), ArgS name]))
      else if wsp_Organization ds \<noteq> [] \<and> wsp_Organization ds \<noteq> orgName then
        Err (bad_request (Fmt ''updated object spec.organization %q must match organization %q parsed from metadata.name''
               [ArgS (wsp_Organization ds), ArgS orgName]))
      else if Namespace dm \<noteq> [] \<and> Namespace dm \<noteq> ns then
        Err (bad_request (Fmt ''metadata.namespace %q does not match request namespace %q'' [ArgS (Namespace dm), ArgS ns]))
      else if ResourceVersion dm = [] then
        Err (bad_request (Lit ''metadata.resourceVersion is required for update''))
      else if ResourceVersion dm \<noteq> ResourceVersion (cw_meta currentK8sObj) then
        Err (StatusError (NewConflict coderworkspaces name
          (ErrorString (Fmt ''resource version mismatch: got %q, current is %q''
             [ArgS (ResourceVersion dm), ArgS (ResourceVersion (cw_meta currentK8sObj))]))))
      else Ok ())"

text \<open>The end of \<open>Update\<close>: nothing to do, or one build transition and its event.\<close>

definition WorkspaceStorage_transition ::
    "(SDKClient \<Rightarrow> 'b codersdk) \<Rightarrow> 'b Storage option \<Rightarrow> SDKClient \<Rightarrow> string \<Rightarrow> string
       \<Rightarrow> Workspace \<Rightarrow> CoderWorkspace \<Rightarrow> CoderWorkspace \<Rightarrow> ('b storage_state, CoderWorkspace \<times> bool) op" where
  "WorkspaceStorage_transition api s sdk name ns currentWorkspace currentK8sObj desiredObj =
     (if wsp_Running (cw_spec desiredObj) = wsp_Running (cw_spec currentK8sObj) then ret (currentK8sObj, False)
      else
        let transition = (if wsp_Running (cw_spec desiredObj) then WorkspaceTransitionStart
                          else WorkspaceTransitionStop) in
        bind (map_coder coderworkspaces name
                (sdk_call (sdk_CreateWorkspaceBuild (api sdk) (w_ID currentWorkspace) transition))) (\<lambda>build.
        bind (lift (WorkspaceToK8s ns (with_build currentWorkspace build))) (\<lambda>result.
        bind (enqueueWatchEvent ''workspace'' s Modified (Some (ObjWorkspace result))) (\<lambda>_.
        ret (result, False)))))"

definition WorkspaceStorage_applyUpdate ::
    "(SDKClient \<Rightarrow> 'b codersdk) \<Rightarrow> 'b Storage option \<Rightarrow> SDKClient \<Rightarrow> string \<Rightarrow> string \<Rightarrow> string
       \<Rightarrow> 'b updated_object_info \<Rightarrow> 'b validate_update \<Rightarrow> Workspace
       \<Rightarrow> ('b storage_state, CoderWorkspace \<times> bool) op" where
  "WorkspaceStorage_applyUpdate api s sdk name orgName ns objInfo updateValidation currentWorkspace =
     guard (w_OrganizationName currentWorkspace = orgName) (StatusError (NewNotFound coderworkspaces name)) (
     bind (lift (WorkspaceToK8s ns currentWorkspace)) (\<lambda>currentK8sObj.
     bind (sdk_call (objInfo (ObjWorkspace currentK8sObj))) (\<lambda>desiredObjRuntime.
     as_workspace desiredObjRuntime
       (\<lambda>t. bad_request (Fmt ''updated object must be *CoderWorkspace, got %T'' [ArgS t])) (\<lambda>desiredObj.
     bind (lift (WorkspaceStorage_checkDesired name orgName ns desiredObj currentK8sObj)) (\<lambda>_.
     bind (run_validate_update updateValidation (ObjWorkspace desiredObj) (ObjWorkspace currentK8sObj)) (\<lambda>_.
     guard (\<not> immutable_changed (cw_spec desiredObj) (cw_spec currentK8sObj))
       (bad_request (Lit ''workspace update only supports changing spec.running; other spec fields are immutable'')) (
     WorkspaceStorage_transition api s sdk name ns currentWorkspace currentK8sObj desiredObj)))))))"

definition WorkspaceStorage_Update ::
    "(SDKClient \<Rightarrow> 'b codersdk) \<Rightarrow> 'b Storage option \<Rightarrow> Context option \<Rightarrow> string
       \<Rightarrow> 'b updated_object_info option \<Rightarrow> 'b validate \<Rightarrow> 'b validate_update \<Rightarrow> bool
       \<Rightarrow> ('b storage_state, CoderWorkspace \<times> bool) op" where
  "WorkspaceStorage_Update api s ctx name objInfo createValidation updateValidation forceAllowCreate =
     non_nil s (assertion ''workspace storage must not be nil'') (\<lambda>st.
     non_nil ctx (assertion ''context must not be nil'') (\<lambda>_.
     guard (name \<noteq> []) (assertion ''workspace name must not be empty'') (
     non_nil objInfo (assertion ''updated object info must not be nil'') (\<lambda>info.
     non_nil (st_broadcaster st) (assertion ''workspace broadcaster must not be nil'') (\<lambda>_.
     bind (lift (requiredNamespaceFromRequestContext ctx)) (\<lambda>ns.
     bind (map_err (\<lambda>err. bad_request (Fmt ''invalid workspace name %q: %v'' [ArgS name, ArgV err]))
             (lift (ParseWorkspaceName name))) (\<lambda>(orgName, userName, workspaceName).
     bind (map_err wrapClientError (clientForNamespace ''workspace'' st ctx ns)) (\<lambda>sdk.
     handle (sdk_call (sdk_WorkspaceByOwnerAndName (api sdk) userName workspaceName))
       (\<lambda>err.
          let mappedErr = MapCoderError err coderworkspaces name in
          if \<not> forceAllowCreate \<or> \<not> IsNotFound mappedErr then fail mappedErr
          else WorkspaceStorage_createOnUpdate api s ctx name info createValidation)
       (WorkspaceStorage_applyUpdate api s sdk name orgName ns info updateValidation)))))))))"

subsection \<open>Delete\<close>

datatype delete_status = StatusSuccess

definition WorkspaceStorage_Delete ::
    "(SDKClient \<Rightarrow> 'b codersdk) \<Rightarrow> 'b Storage option \<Rightarrow> Context option \<Rightarrow> string
       \<Rightarrow> 'b validate \<Rightarrow> ('b storage_state, delete_status \<times> bool) op" where
  "WorkspaceStorage_Delete api s ctx name deleteValidation =
     non_nil s (assertion ''workspace storage must not be nil'') (\<lambda>st.
     non_nil ctx (assertion ''context must not be nil'') (\<lambda>_.
     guard (name \<noteq> []) (assertion ''workspace name must not be empty'') (
     non_nil (st_broadcaster st) (assertion ''workspace broadcaster must not be nil'') (\<lambda>_.
     bind (lift (requiredNamespaceFromRequestContext ctx)) (\<lambda>ns.
     bind (map_err (\<lambda>err. bad_request (Fmt ''invalid workspace name %q: %v'' [ArgS name, ArgV err]))
             (lift (ParseWorkspaceName name))) (\<lambda>(orgName, userName, workspaceName).
     bind (map_err wrapClientError (clientForNamespace ''workspace'' st ctx ns)) (\<lambda>sdk.
     bind (map_coder coderworkspaces name
             (sdk_call (sdk_WorkspaceByOwnerAndName (api sdk) userName workspaceName))) (\<lambda>workspace.
     guard (w_OrganizationName workspace = orgName) (StatusError (NewNotFound coderworkspaces name)) (
     bind (case deleteValidation of None \<Rightarrow> ret () | Some f \<Rightarrow>
             bind (lift (WorkspaceToK8s ns workspace)) (\<lambda>obj. sdk_call (f (ObjWorkspace obj)))) (\<lambda>_.
     bind (map_coder coderworkspaces name
             (sdk_call (sdk_CreateWorkspaceBuild (api sdk) (w_ID workspace) WorkspaceTransitionDelete))) (\<lambda>deleteBuild.
     bind (lift (WorkspaceToK8s ns (with_build workspace deleteBuild))) (\<lambda>workspaceObj.
     bind (enqueueWatchEvent ''workspace'' s Modified (Some (ObjWorkspace workspaceObj))) (\<lambda>_.
     ret (StatusSuccess, False))))))))))))))"

subsection \<open>Construction and destruction\<close>

definition NewWorkspaceStorage :: "'b ClientProvider option \<Rightarrow> ('b Storage) result" where
  "NewWorkspaceStorage provider =
     (if provider = None then Panic (Lit ''assertion failed: workspace client provider must not be nil'')
      else Ok \<lparr>st_provider = provider, st_broadcaster = Some (), st_watchEvents = Some ()\<rparr>)"

text \<open>
  \<open>Destroy\<close>, once: close the queue, wait until the dispatcher has drained it, shut the
  broadcaster down (\<open>action\<close> and \<open>shutdown\<close> are the broadcaster's). A second call does nothing.
\<close>

definition storage_Destroy ::
    "string \<Rightarrow> (watch_event \<Rightarrow> 'b \<Rightarrow> 'b) \<Rightarrow> ('b \<Rightarrow> 'b) \<Rightarrow> 'b Storage option \<Rightarrow> ('b storage_state, unit) op" where
  "storage_Destroy kind action shutdown s w =
     (case s of None \<Rightarrow> (Ok (), w) | Some s \<Rightarrow>
      if watchClosed w then (Ok (), w)
      else if st_watchEvents s = None
        then (Panic (Fmt ''assertion failed: %s watch event queue must not be nil'' [ArgS kind]), w)
      else
        let drained = ((dispatchWatchEvent action) ^^ length (watchEvents w)) (w\<lparr>watchClosed := True\<rparr>) in
        if st_broadcaster s = None then (Ok (), drained)
        else (Ok (), drained\<lparr>backend := shutdown (backend drained)\<rparr>))"

definition WorkspaceStorage_Destroy ::
    "(watch_event \<Rightarrow> 'b \<Rightarrow> 'b) \<Rightarrow> ('b \<Rightarrow> 'b) \<Rightarrow> 'b Storage option \<Rightarrow> ('b storage_state, unit) op" where
  "WorkspaceStorage_Destroy action shutdown s = storage_Destroy ''workspace'' action shutdown s"

end
