(* ===== verification/Workspace_Correct.thy ===== *)
theory Workspace_Correct
  imports Workspace_Storage
begin

text \<open>
  Correctness of the workspace storage: what each successful handler did to the deployment
  and to the event queue, which handlers only read, that validation precedes every effect,
  that all-namespaces lists are sorted and complete, and when handlers cannot panic.
\<close>

section \<open>Specifications\<close>

text \<open>The calls of the SDK that read keep \<open>I\<close>.\<close>

definition reads_keep :: "('b \<Rightarrow> bool) \<Rightarrow> 'b codersdk \<Rightarrow> bool" where
  "reads_keep I sdk \<longleftrightarrow> (\<forall>b. I b \<longrightarrow>
     (\<forall>n. I (snd (sdk_OrganizationByName sdk n b))) \<and>
     (\<forall>i n. I (snd (sdk_TemplateByName sdk i n b))) \<and>
     (\<forall>i. I (snd (sdk_Template sdk i b))) \<and>
     I (snd (sdk_Templates sdk b)) \<and>
     (\<forall>i. I (snd (sdk_TemplateVersion sdk i b))) \<and>
     (\<forall>i. I (snd (sdk_RequestFile sdk i b))) \<and>
     (\<forall>u n. I (snd (sdk_WorkspaceByOwnerAndName sdk u n b))) \<and>
     I (snd (sdk_Workspaces sdk b)))"

text \<open>
  Documented behaviour of the deployment: organization, user, template and workspace names
  are non-empty and contain no dot, and templates have an ID.
\<close>

definition sdk_names_ok :: "'b codersdk \<Rightarrow> bool" where
  "sdk_names_ok sdk \<longleftrightarrow> (\<forall>b b'.
     (\<forall>u n x. sdk_WorkspaceByOwnerAndName sdk u n b = (Inr x, b') \<longrightarrow> workspace_name_ok x) \<and>
     (\<forall>xs x. sdk_Workspaces sdk b = (Inr xs, b') \<longrightarrow> x \<in> set xs \<longrightarrow> workspace_name_ok x) \<and>
     (\<forall>u r x. sdk_CreateUserWorkspace sdk u r b = (Inr x, b') \<longrightarrow> workspace_name_ok x) \<and>
     (\<forall>xs x. sdk_Templates sdk b = (Inr xs, b') \<longrightarrow> x \<in> set xs \<longrightarrow> template_name_ok x) \<and>
     (\<forall>i r x. sdk_CreateTemplate sdk i r b = (Inr x, b') \<longrightarrow> template_name_ok x) \<and>
     (\<forall>i n x. sdk_TemplateByName sdk i n b = (Inr x, b') \<longrightarrow> template_name_ok x \<and> t_ID x \<noteq> uuid_Nil))"

text \<open>A provider of both optional interfaces that keeps the contract \<open>namespace_provider\<close>.\<close>

definition provider_contract :: "'w ClientProvider \<Rightarrow> bool" where
  "provider_contract prov \<longleftrightarrow> (\<exists>d e. prov_NamespaceResolver prov = Some d \<and> prov_NamespaceLister prov = Some e \<and>
     (\<forall>ctx. namespace_provider (prov_ClientForNamespace prov ctx) (d ctx) (e ctx)))"

text \<open>The client the storage uses for the namespace of a request.\<close>

definition client_of :: "'b Storage \<Rightarrow> Context \<Rightarrow> 'b \<Rightarrow> SDKClient \<Rightarrow> bool" where
  "client_of s ctx b c \<longleftrightarrow> (case st_provider s of None \<Rightarrow> False
     | Some prov \<Rightarrow> prov_ClientForNamespace prov (Some ctx) (ctx_Namespace ctx) b = Ok (Some c))"

text \<open>The build transition an update of \<open>spec.running\<close> requires.\<close>

definition transition_for :: "bool \<Rightarrow> bool \<Rightarrow> string option" where
  "transition_for current desired =
     (if desired = current then None
      else Some (if desired then WorkspaceTransitionStart else WorkspaceTransitionStop))"

definition after_build :: "'b codersdk \<Rightarrow> uuid \<Rightarrow> string option \<Rightarrow> 'b \<Rightarrow> 'b" where
  "after_build sdk i t b = (case t of None \<Rightarrow> b | Some tr \<Rightarrow> snd (sdk_CreateWorkspaceBuild sdk i tr b))"

text \<open>A pinned template version, if any, has been read and belongs to the template.\<close>

definition pinned_ok :: "'b codersdk \<Rightarrow> string \<Rightarrow> uuid \<Rightarrow> 'b \<Rightarrow> 'b \<Rightarrow> bool" where
  "pinned_ok sdk vid t b b' \<longleftrightarrow> (if vid = [] then b' = b else
     (\<exists>v tv. uuid_Parse vid = Inr v \<and> sdk_TemplateVersion sdk v b = (Inr tv, b') \<and> tv_TemplateID tv = Some t))"

text \<open>An invariant of the deployment together with a queue that does not change.\<close>

definition read_inv :: "('b \<Rightarrow> bool) \<Rightarrow> watch_event list \<Rightarrow> bool \<Rightarrow> 'b storage_state \<Rightarrow> bool" where
  "read_inv I q cl w \<longleftrightarrow> I (backend w) \<and> watchEvents w = q \<and> watchClosed w = cl"

section \<open>Success of the shared helpers\<close>

lemma clientForNamespace_eq_Ok:
  "clientForNamespace k s ctx ns w = (Ok c, w') \<longleftrightarrow>
     (\<exists>prov. st_provider s = Some prov \<and> prov_ClientForNamespace prov ctx ns (backend w) = Ok (Some c) \<and> w' = w)"
  by (auto simp: clientForNamespace_def op_ok_simps)

lemma clientForNamespace_client_of:
  "clientForNamespace k s (Some ctx) (ctx_Namespace ctx) w = (Ok c, w') \<longleftrightarrow> client_of s ctx (backend w) c \<and> w' = w"
  by (auto simp: clientForNamespace_eq_Ok client_of_def split: option.splits)

lemma preserves_clientForNamespace [pres_rules, simp]: "preserves I (clientForNamespace k s ctx ns)"
  unfolding clientForNamespace_def by (intro pres_rules)

lemma with_build_frame [simp]:
  "w_ID (with_build w b) = w_ID w" "w_Name (with_build w b) = w_Name w"
  "w_OwnerName (with_build w b) = w_OwnerName w" "w_OrganizationName (with_build w b) = w_OrganizationName w"
  "w_LatestBuild (with_build w b) = b" "w_TemplateName (with_build w b) = w_TemplateName w"
  "workspace_name_ok (with_build w b) = workspace_name_ok w"
  by (simp_all add: with_build_def Let_def workspace_name_ok_def)

lemma convert_all_Ok: "convert_all f xs = Ok ys \<longleftrightarrow> list_all2 (\<lambda>x y. f x = Ok y) xs ys"
  by (induction xs arbitrary: ys) (auto simp: rbind_eq_Ok list_all2_Cons1)

lemma convert_all_panic: "is_panic (convert_all f xs) \<Longrightarrow> \<exists>x \<in> set xs. is_panic (f x)"
  by (induction xs) (auto simp: is_panic_rbind)

lemmas handler_ok_simps = op_ok_simps clientForNamespace_client_of requiredNamespace_Ok

section \<open>Get and List\<close>

lemma WorkspaceStorage_Get_Ok:
  assumes "WorkspaceStorage_Get api (Some s) (Some ctx) name w = (Ok obj, w')"
  shows "\<exists>org user wsn sdk x b'. ctx_Namespace ctx \<noteq> [] \<and> ParseWorkspaceName name = Ok (org, user, wsn) \<and>
     client_of s ctx (backend w) sdk \<and>
     sdk_WorkspaceByOwnerAndName (api sdk) user wsn (backend w) = (Inr x, b') \<and> w_OrganizationName x = org \<and>
     WorkspaceToK8s (ctx_Namespace ctx) x = Ok obj \<and> w' = w\<lparr>backend := b'\<rparr>"
  using assms unfolding WorkspaceStorage_Get_def by (auto simp: handler_ok_simps) blast

lemma preserves_sdk_read:
  assumes "\<And>b. I b \<Longrightarrow> I (snd (c b))"
  shows "preserves (read_inv I q cl) (sdk_call c)"
  using assms by (intro preserves_sdk_call) (auto simp: read_inv_def)

text \<open>Every read of the SDK, as a handler calls it, keeps what the reads of the deployment keep.\<close>

lemma preserves_reads:
  assumes "reads_keep I sdk"
  shows "preserves (read_inv I q cl) (sdk_call (sdk_OrganizationByName sdk n))"
    "preserves (read_inv I q cl) (sdk_call (sdk_TemplateByName sdk i n))"
    "preserves (read_inv I q cl) (sdk_call (sdk_Templates sdk))"
    "preserves (read_inv I q cl) (sdk_call (sdk_TemplateVersion sdk i))"
    "preserves (read_inv I q cl) (sdk_call (sdk_RequestFile sdk i))"
    "preserves (read_inv I q cl) (sdk_call (sdk_WorkspaceByOwnerAndName sdk u n))"
    "preserves (read_inv I q cl) (sdk_call (sdk_Workspaces sdk))"
  by (rule preserves_sdk_read, use assms in \<open>simp add: reads_keep_def\<close>)+

lemma preserves_list_namespaces:
  assumes "\<And>ns. preserves I (client ns)" "\<And>c. preserves I (list_call c)"
  shows "preserves I (list_namespaces client list_call conv nss)"
  using assms by (induction nss) (auto intro!: pres_rules)

lemma preserves_namespaceForListConversion [pres_rules, simp]:
  "preserves I (namespaceForListConversion ctx ns p)"
  unfolding namespaceForListConversion_def by (intro pres_rules preserves_if)

lemma workspace_reads_only:
  assumes reads: "\<And>c. reads_keep I (api c)"
  shows "preserves (read_inv I q cl) (WorkspaceStorage_Get api s ctx name)"
    and "preserves (read_inv I q cl) (WorkspaceStorage_List api s ctx)"
proof -
  let ?J = "read_inv I q cl"
  have get: "preserves ?J (sdk_call (sdk_WorkspaceByOwnerAndName (api c) u n))"
    and list: "preserves ?J (sdk_call (sdk_Workspaces (api c)))" for c u n
    using reads [of c] by (simp_all add: preserves_reads)
  show "preserves ?J (WorkspaceStorage_Get api s ctx name)"
    unfolding WorkspaceStorage_Get_def by (intro pres_rules get)
  have "preserves ?J (workspace_list_call api c)" for c
    unfolding workspace_list_call_def by (intro pres_rules list)
  then show "preserves ?J (WorkspaceStorage_List api s ctx)"
    unfolding WorkspaceStorage_List_def Let_def
    by (intro pres_rules preserves_list_namespaces) auto
qed

text \<open>
  The fan-out loop: one response per namespace, every element of every response converted
  with the namespace it came from, nothing else in the result.
\<close>

lemma list_namespaces_Ok:
  assumes "list_namespaces client list_call conv nss w = (Ok items, w')" "I w"
    "\<And>ns. preserves I (client ns)" "\<And>c. preserves I (list_call c)"
  shows "\<exists>rs yss. items = concat yss \<and> list_all2 (\<lambda>ns r. \<exists>c w1 w2 w3. I w1 \<and> I w2 \<and>
            client ns w1 = (Ok c, w2) \<and> list_call c w2 = (Ok r, w3)) nss rs \<and>
          list_all2 (\<lambda>(ns, r) ys. list_all2 (\<lambda>x y. conv ns x = Ok y) r ys) (zip nss rs) yss"
  using assms(1,2)
proof (induction nss arbitrary: w items)
  case (Cons ns nss)
  from Cons.prems(1) obtain c w1 r w2 ys rest where
    step: "client ns w = (Ok c, w1)" "list_call c w1 = (Ok r, w2)"
      "list_all2 (\<lambda>x y. conv ns x = Ok y) r ys" "items = ys @ rest" and
    more: "list_namespaces client list_call conv nss w2 = (Ok rest, w')"
    by (auto simp: op_ok_simps convert_all_Ok)
  have I: "I w1" "I w2"
    using preservesD [OF assms(3) Cons.prems(2) step(1)] preservesD [OF assms(4) _ step(2)] by auto
  from Cons.IH [OF more I(2)] obtain rs yss where
    rest: "rest = concat yss"
      "list_all2 (\<lambda>ns r. \<exists>c w1 w2 w3. I w1 \<and> I w2 \<and> client ns w1 = (Ok c, w2) \<and> list_call c w2 = (Ok r, w3)) nss rs"
      "list_all2 (\<lambda>(ns, r) ys. list_all2 (\<lambda>x y. conv ns x = Ok y) r ys) (zip nss rs) yss"
    by blast
  have "\<exists>c w1 w2 w3. I w1 \<and> I w2 \<and> client ns w1 = (Ok c, w2) \<and> list_call c w2 = (Ok r, w3)"
    using step(1,2) Cons.prems(2) I(1) by blast
  with step(3,4) rest show ?case
    by (intro exI [of _ "r # rs"] exI [of _ "ys # yss"]) (simp del: ex_simps)
qed simp

text \<open>What a list over namespaces returns when the deployment stays as it was.\<close>

definition listed_from ::
    "'b ClientProvider \<Rightarrow> Context \<Rightarrow> (SDKClient \<Rightarrow> ('b, 'x list) call) \<Rightarrow> (string \<Rightarrow> 'x \<Rightarrow> 'y result)
       \<Rightarrow> 'b \<Rightarrow> string list \<Rightarrow> 'y list \<Rightarrow> bool" where
  "listed_from prov ctx list_call conv b nss items \<longleftrightarrow> (\<exists>rs yss. items = concat yss \<and>
     list_all2 (\<lambda>ns r. \<exists>c. prov_ClientForNamespace prov (Some ctx) ns b = Ok (Some c) \<and> fst (list_call c b) = Inr r) nss rs \<and>
     list_all2 (\<lambda>(ns, r) ys. list_all2 (\<lambda>x y. conv ns x = Ok y) r ys) (zip nss rs) yss)"

lemma list_namespaces_listed:
  assumes run: "list_namespaces (clientForNamespace k s (Some ctx)) (\<lambda>c. map_err g (sdk_call (lc c))) conv nss w
      = (Ok items, w')"
    and prov: "st_provider s = Some prov" and same: "\<And>c. snd (lc c (backend w)) = backend w"
  shows "listed_from prov ctx lc conv (backend w) nss items"
proof -
  let ?I = "\<lambda>v. backend v = backend w"
  have "preserves ?I (map_err g (sdk_call (lc c)))" for c
    by (intro pres_rules) (simp add: same)
  from list_namespaces_Ok [OF run, of ?I, OF refl preserves_clientForNamespace this]
  obtain rs yss where "items = concat yss"
    "list_all2 (\<lambda>(ns, r) ys. list_all2 (\<lambda>x y. conv ns x = Ok y) r ys) (zip nss rs) yss"
    "list_all2 (\<lambda>ns r. \<exists>c w1 w2 w3. ?I w1 \<and> ?I w2 \<and> clientForNamespace k s (Some ctx) ns w1 = (Ok c, w2) \<and>
        map_err g (sdk_call (lc c)) w2 = (Ok r, w3)) nss rs" by blast
  moreover from this(3) have "list_all2 (\<lambda>ns r. \<exists>c. prov_ClientForNamespace prov (Some ctx) ns (backend w) = Ok (Some c) \<and>
      fst (lc c (backend w)) = Inr r) nss rs"
    by (rule list_all2_mono) (auto simp: clientForNamespace_eq_Ok op_ok_simps prov)
  ultimately show ?thesis unfolding listed_from_def by blast
qed

lemma convert_all_from: "convert_all f xs = Ok ys \<Longrightarrow> y \<in> set ys \<Longrightarrow> \<exists>x \<in> set xs. f x = Ok y"
  by (induction xs arbitrary: ys) (auto simp: rbind_eq_Ok)

lemma list_namespaces_from:
  "list_namespaces client list_call conv nss w = (Ok items, w') \<Longrightarrow> y \<in> set items \<Longrightarrow>
     \<exists>ns x. ns \<in> set nss \<and> conv ns x = Ok y"
proof (induction nss arbitrary: w items)
  case (Cons ns nss)
  from Cons.prems obtain c w1 r w2 ys rest where
    "convert_all (conv ns) r = Ok ys" "items = ys @ rest"
    "list_namespaces client list_call conv nss w2 = (Ok rest, w')"
    by (auto simp: op_ok_simps)
  then show ?case
    using Cons.IH Cons.prems(2) convert_all_from by (metis UnE list.set_intros set_append)
qed simp

lemma workspace_list_Ok:
  assumes "WorkspaceStorage_List api (Some s) (Some ctx) w = (Ok l, w')" "ctx_Namespace ctx = []"
    and prov: "st_provider s = Some prov" "prov_NamespaceLister prov = Some elig"
    and same: "\<And>c. snd (sdk_Workspaces (api c) (backend w)) = backend w"
  shows "\<exists>nss items. elig (Some ctx) (backend w) = Ok nss \<and> cwl_Items l = sort_by_meta cw_meta items \<and>
     listed_from prov ctx (\<lambda>c. sdk_Workspaces (api c)) WorkspaceToK8s (backend w) nss items"
proof -
  from assms obtain nss items where "elig (Some ctx) (backend w) = Ok nss" "cwl_Items l = sort_by_meta cw_meta items"
    "list_namespaces (clientForNamespace ''workspace'' s (Some ctx)) (workspace_list_call api) WorkspaceToK8s nss w
       = (Ok items, w')"
    by (auto simp: WorkspaceStorage_List_def Let_def op_ok_simps namespaceFromRequestContext_def)
  then show ?thesis
    unfolding workspace_list_call_def using list_namespaces_listed [OF _ prov(1), where lc = "\<lambda>c. sdk_Workspaces (api c)"] same by blast
qed

lemma sort_by_meta_props:
  "mset (sort_by_meta m xs) = mset xs"
  "sorted (map (\<lambda>x. (Namespace (m x), Name (m x))) (sort_by_meta m xs))"
  by (simp_all add: sort_by_meta_def)

section \<open>Create, Update, Delete\<close>

lemma WorkspaceStorage_checkDesired_Ok:
  "WorkspaceStorage_checkDesired name org ns d cur = Ok () \<longleftrightarrow>
     (Name (cw_meta d) = [] \<or> Name (cw_meta d) = name) \<and>
     (wsp_Organization (cw_spec d) = [] \<or> wsp_Organization (cw_spec d) = org) \<and>
     (Namespace (cw_meta d) = [] \<or> Namespace (cw_meta d) = ns) \<and>
     ResourceVersion (cw_meta d) \<noteq> [] \<and> ResourceVersion (cw_meta d) = ResourceVersion (cw_meta cur)"
  by (auto simp: WorkspaceStorage_checkDesired_def Let_def)

lemma checkDesired_no_panic [simp]: "\<not> is_panic (WorkspaceStorage_checkDesired name org ns d cur)"
  by (simp add: WorkspaceStorage_checkDesired_def Let_def)

lemma run_validate_snd:
  "snd (run_validate v obj w) = w\<lparr>backend := (case v of None \<Rightarrow> backend w | Some f \<Rightarrow> snd (f obj (backend w)))\<rparr>"
  by (simp add: run_validate_def sdk_call_snd split: option.split)

lemma run_validate_update_snd:
  "snd (run_validate_update v new old w) =
     w\<lparr>backend := (case v of None \<Rightarrow> backend w | Some f \<Rightarrow> snd (f new old (backend w)))\<rparr>"
  by (simp add: run_validate_update_def sdk_call_snd split: option.split)

lemma enqueue_Some_Ok:
  assumes "enqueueWatchEvent k s a (Some obj) w = (Ok u, w')"
  shows "\<not> watchClosed w \<and> w' = enq_event \<lparr>ev_Type = a, ev_Object = obj\<rparr> w"
  using assms by (auto elim: enqueueWatchEvent_Ok)

lemma transition_Ok:
  assumes "WorkspaceStorage_transition api s sdk name ns cur current desired w = (Ok (obj, created), w')"
    and "wsp_Running (cw_spec current) = workspaceRunning cur"
  defines "t \<equiv> transition_for (workspaceRunning cur) (wsp_Running (cw_spec desired))"
  shows "\<not> created \<and> backend w' = after_build (api sdk) (w_ID cur) t (backend w) \<and>
      (t = None \<longrightarrow> obj = current \<and> watchEvents w' = watchEvents w) \<and>
      (t \<noteq> None \<longrightarrow> watchEvents w' = watchEvents (enq_event \<lparr>ev_Type = Modified, ev_Object = ObjWorkspace obj\<rparr> w) \<and>
         (\<exists>build. fst (sdk_CreateWorkspaceBuild (api sdk) (w_ID cur) (the t) (backend w)) = Inr build \<and>
            WorkspaceToK8s ns (with_build cur build) = Ok obj))"
proof (cases "wsp_Running (cw_spec desired) = workspaceRunning cur")
  case True
  with assms show ?thesis
    by (auto simp: WorkspaceStorage_transition_def transition_for_def after_build_def)
next
  case False
  with assms obtain build b3 where t: "t = Some (if wsp_Running (cw_spec desired)
      then WorkspaceTransitionStart else WorkspaceTransitionStop)" and
    build: "sdk_CreateWorkspaceBuild (api sdk) (w_ID cur) (the t) (backend w) = (Inr build, b3)" and
    conv: "WorkspaceToK8s ns (with_build cur build) = Ok obj" and nc: "\<not> created" and
    enq: "enqueueWatchEvent ''workspace'' s Modified (Some (ObjWorkspace obj)) (w\<lparr>backend := b3\<rparr>) = (Ok (), w')"
    by (auto simp: WorkspaceStorage_transition_def handler_ok_simps Let_def transition_for_def)
  from enqueue_Some_Ok [OF enq] t build conv nc show ?thesis
    by (simp add: after_build_def enq_event_def)
qed

text \<open>
  A successful update of an existing workspace: the calls made are the read, the update
  callback, the admission check and, exactly when \<open>spec.running\<close> changes, one build with
  the matching transition; an event is queued exactly in that case.
\<close>

lemma applyUpdate_Ok:
  assumes "WorkspaceStorage_applyUpdate api s sdk name org ns info val cur w = (Ok (obj, created), w')"
  shows "\<exists>current desired b1. \<not> created \<and> w_OrganizationName cur = org \<and>
     WorkspaceToK8s ns cur = Ok current \<and>
     info (ObjWorkspace current) (backend w) = (Inr (Some (ObjWorkspace desired)), b1) \<and>
     WorkspaceStorage_checkDesired name org ns desired current = Ok () \<and>
     \<not> immutable_changed (cw_spec desired) (cw_spec current) \<and>
     (let b2 = (case val of None \<Rightarrow> b1 | Some f \<Rightarrow> snd (f (ObjWorkspace desired) (ObjWorkspace current) b1));
          t = transition_for (workspaceRunning cur) (wsp_Running (cw_spec desired)) in
      backend w' = after_build (api sdk) (w_ID cur) t b2 \<and>
      (t = None \<longrightarrow> obj = current \<and> watchEvents w' = watchEvents w) \<and>
      (t \<noteq> None \<longrightarrow> watchEvents w' = watchEvents (enq_event \<lparr>ev_Type = Modified, ev_Object = ObjWorkspace obj\<rparr> w) \<and>
         (\<exists>build. fst (sdk_CreateWorkspaceBuild (api sdk) (w_ID cur) (the t) b2) = Inr build \<and>
            WorkspaceToK8s ns (with_build cur build) = Ok obj)))"
proof -
  from assms obtain current desired b1 w2 where
    org: "w_OrganizationName cur = org" and cur: "WorkspaceToK8s ns cur = Ok current" and
    info: "info (ObjWorkspace current) (backend w) = (Inr (Some (ObjWorkspace desired)), b1)" and
    chk: "WorkspaceStorage_checkDesired name org ns desired current = Ok ()" and
    val: "run_validate_update val (ObjWorkspace desired) (ObjWorkspace current) (w\<lparr>backend := b1\<rparr>) = (Ok (), w2)" and
    imm: "\<not> immutable_changed (cw_spec desired) (cw_spec current)" and
    rest: "WorkspaceStorage_transition api s sdk name ns cur current desired w2 = (Ok (obj, created), w')"
    unfolding WorkspaceStorage_applyUpdate_def by (auto simp: handler_ok_simps)
  have w2: "w2 = w\<lparr>backend := (case val of None \<Rightarrow> b1
        | Some f \<Rightarrow> snd (f (ObjWorkspace desired) (ObjWorkspace current) b1))\<rparr>"
    using run_validate_update_snd [of val "ObjWorkspace desired" "ObjWorkspace current" "w\<lparr>backend := b1\<rparr>"] val
    by (simp split: option.splits)
  from WorkspaceToK8s_Ok(6) [OF cur] have "wsp_Running (cw_spec current) = workspaceRunning cur" .
  from transition_Ok [OF rest this] org cur info chk imm show ?thesis
    unfolding Let_def w2
    by (intro exI [of _ current] exI [of _ desired] exI [of _ b1]) (simp add: enq_event_def)
qed

section \<open>Handlers that have not changed the world\<close>

lemma map_err_lift [simp]: "map_err g (lift r) = lift (rmap_err g r)"
  by (simp add: map_err_def fun_eq_iff)

lemma clientForNamespace_snd [simp]: "snd (clientForNamespace k s ctx ns w) = w"
  using preserves_clientForNamespace [of "\<lambda>x. x = w" k s ctx ns] by (simp add: preserves_def)

lemma changed_bind_lift: "snd (bind (lift r) f w) \<noteq> w \<longleftrightarrow> (\<exists>a. r = Ok a \<and> snd (f a w) \<noteq> w)"
  by (cases r) (auto simp: bind_def)

lemma changed_bind_client:
  "snd (bind (map_err g (clientForNamespace k s ctx ns)) f w) \<noteq> w \<longleftrightarrow>
     (\<exists>c. fst (clientForNamespace k s ctx ns w) = Ok c \<and> snd (f c w) \<noteq> w)"
  by (cases "clientForNamespace k s ctx ns w") (use clientForNamespace_snd [of k s ctx ns w] in
      \<open>auto simp: bind_def map_err_run split: res.splits\<close>)

lemma changed_guard: "snd (guard b e m w) \<noteq> w \<longleftrightarrow> b \<and> snd (m w) \<noteq> w"
  by (simp add: guard_def)

lemma changed_non_nil: "snd (non_nil x e f w) \<noteq> w \<longleftrightarrow> (\<exists>a. x = Some a \<and> snd (f a w) \<noteq> w)"
  by (cases x) auto

lemma changed_as_workspace:
  "snd (as_workspace x e f w) \<noteq> w \<longleftrightarrow> (\<exists>a. x = Some (ObjWorkspace a) \<and> snd (f a w) \<noteq> w)"
  by (auto simp: as_workspace_def split: option.splits runtime_Object.splits)

lemmas changed_simps = changed_bind_lift changed_bind_client changed_guard changed_non_nil changed_as_workspace

text \<open>Whatever \<open>Create\<close> does to the deployment or the queue, it has validated the request first.\<close>

lemma workspace_create_changed:
  assumes "snd (WorkspaceStorage_Create api (Some s) (Some ctx) (Some obj) None w) \<noteq> w"
  shows "\<exists>o' org user wsn. obj = ObjWorkspace o' \<and> ctx_Namespace ctx \<noteq> [] \<and>
     Namespace (cw_meta o') \<in> {[], ctx_Namespace ctx} \<and>
     ParseWorkspaceName (Name (cw_meta o')) = Ok (org, user, wsn) \<and> wsp_Organization (cw_spec o') = org \<and>
     wsp_TemplateName (cw_spec o') \<noteq> []"
  using assms unfolding WorkspaceStorage_Create_def run_validate_def option.case bind_lift_simps
  by (auto simp: changed_simps requiredNamespace_Ok)

section \<open>What a successful Create and Delete did\<close>

lemma templateByName_Ok:
  "templateByName api sdk i org n w = (Ok t, w') \<longleftrightarrow> sdk_call (sdk_TemplateByName (api sdk) i n) w = (Ok t, w')"
  by (auto simp: templateByName_def handle_eq_Ok bind_eq_Ok)

lemma checkTemplateVersion_Ok:
  assumes "checkTemplateVersion api sdk obj t w = (Ok u, w')"
  shows "\<exists>b'. w' = w\<lparr>backend := b'\<rparr> \<and>
     pinned_ok (api sdk) (wsp_TemplateVersionID (cw_spec obj)) (t_ID t) (backend w) b'"
  using assms
  by (auto simp: checkTemplateVersion_def pinned_ok_def op_ok_simps split: sum.splits if_splits intro: exI [of _ "backend w"])

lemma stopAfterCreate_Ok:
  assumes "stopAfterCreate api sdk running x w = (Ok y, w')"
  shows "\<exists>b'. w' = w\<lparr>backend := b'\<rparr> \<and> (if running then y = x \<and> b' = backend w
      else b' = snd (sdk_CreateWorkspaceBuild (api sdk) (w_ID x) WorkspaceTransitionStop (backend w)) \<and>
           y = (case fst (sdk_CreateWorkspaceBuild (api sdk) (w_ID x) WorkspaceTransitionStop (backend w)) of
                  Inl _ \<Rightarrow> x | Inr build \<Rightarrow> with_build x build))"
proof (cases running)
  case True
  with assms show ?thesis by (auto simp: stopAfterCreate_def intro: exI [of _ "backend w"])
next
  case False
  obtain r b' where call: "sdk_CreateWorkspaceBuild (api sdk) (w_ID x) WorkspaceTransitionStop (backend w) = (r, b')"
    by force
  with False assms show ?thesis
    by (cases r) (auto simp: stopAfterCreate_def handle_def sdk_call_run)
qed

lemma WorkspaceCreateRequest_Ok:
  assumes "WorkspaceCreateRequestFromK8s (Some o') n t = Ok r"
  shows "cwr_Name r = n \<and> cwr_TTLMillis r = wsp_TTLMillis (cw_spec o') \<and>
     cwr_AutostartSchedule r = wsp_AutostartSchedule (cw_spec o') \<and>
     (if wsp_TemplateVersionID (cw_spec o') = [] then cwr_TemplateID r = t \<and> cwr_TemplateVersionID r = uuid_Nil
      else cwr_TemplateID r = uuid_Nil \<and> uuid_Parse (wsp_TemplateVersionID (cw_spec o')) = Inr (cwr_TemplateVersionID r))"
  using assms by (auto simp: WorkspaceCreateRequestFromK8s_def Let_def split: if_splits sum.splits)

lemma createValidated_Ok:
  assumes "WorkspaceStorage_createValidated api s sdk ns o' org user wsn w = (Ok obj, w')"
  shows "\<exists>i ba tmpl bt req b1 created b2 final.
     sdk_OrganizationByName (api sdk) org (backend w) = (Inr i, ba) \<and>
     sdk_TemplateByName (api sdk) i (wsp_TemplateName (cw_spec o')) ba = (Inr tmpl, bt) \<and>
     pinned_ok (api sdk) (wsp_TemplateVersionID (cw_spec o')) (t_ID tmpl) bt b1 \<and>
     WorkspaceCreateRequestFromK8s (Some o') wsn (t_ID tmpl) = Ok req \<and>
     sdk_CreateUserWorkspace (api sdk) user req b1 = (Inr created, b2) \<and>
     (if wsp_Running (cw_spec o') then final = created \<and> backend w' = b2
      else backend w' = snd (sdk_CreateWorkspaceBuild (api sdk) (w_ID created) WorkspaceTransitionStop b2) \<and>
           final = (case fst (sdk_CreateWorkspaceBuild (api sdk) (w_ID created) WorkspaceTransitionStop b2) of
                      Inl _ \<Rightarrow> created | Inr build \<Rightarrow> with_build created build)) \<and>
     WorkspaceToK8s ns final = Ok obj \<and>
     watchEvents w' = watchEvents (enq_event \<lparr>ev_Type = Added, ev_Object = ObjWorkspace obj\<rparr> w)"
proof -
  from assms obtain w1 i where og: "sdk_call (sdk_OrganizationByName (api sdk) org) w = (Ok i, w1)" and
    r1: "bind (templateByName api sdk i org (wsp_TemplateName (cw_spec o'))) (\<lambda>template.
     bind (checkTemplateVersion api sdk o' template) (\<lambda>_.
     bind (map_err (\<lambda>err. bad_request (Fmt ''invalid workspace spec: %v'' [ArgV err]))
             (lift (WorkspaceCreateRequestFromK8s (Some o') wsn (t_ID template)))) (\<lambda>request.
     bind (map_coder coderworkspaces (Name (cw_meta o'))
             (sdk_call (sdk_CreateUserWorkspace (api sdk) user request))) (\<lambda>createdWorkspace.
     bind (stopAfterCreate api sdk (wsp_Running (cw_spec o')) createdWorkspace) (\<lambda>finalWorkspace.
     bind (lift (WorkspaceToK8s ns finalWorkspace)) (\<lambda>result.
     bind (enqueueWatchEvent ''workspace'' s Added (Some (ObjWorkspace result))) (\<lambda>_.
     ret result))))))) w1 = (Ok obj, w')"
    unfolding WorkspaceStorage_createValidated_def by (auto simp: bind_eq_Ok map_err_eq_Ok)
  then obtain w2 w3 w4 w5 t req created final where
    t: "templateByName api sdk i org (wsp_TemplateName (cw_spec o')) w1 = (Ok t, w2)" and
    tv: "checkTemplateVersion api sdk o' t w2 = (Ok (), w3)" and
    req: "WorkspaceCreateRequestFromK8s (Some o') wsn (t_ID t) = Ok req" and
    cr: "sdk_call (sdk_CreateUserWorkspace (api sdk) user req) w3 = (Ok created, w4)" and
    st: "stopAfterCreate api sdk (wsp_Running (cw_spec o')) created w4 = (Ok final, w5)" and
    conv: "WorkspaceToK8s ns final = Ok obj" and
    enq: "enqueueWatchEvent ''workspace'' s Added (Some (ObjWorkspace obj)) w5 = (Ok (), w')"
    by (auto simp: bind_eq_Ok map_err_eq_Ok)
  from og t obtain ba bt where ba: "sdk_OrganizationByName (api sdk) org (backend w) = (Inr i, ba)"
    "sdk_TemplateByName (api sdk) i (wsp_TemplateName (cw_spec o')) ba = (Inr t, bt)" and w2: "w2 = w\<lparr>backend := bt\<rparr>"
    by (auto simp: sdk_call_eq_Ok templateByName_Ok)
  from checkTemplateVersion_Ok [OF tv] obtain b3 where w3: "w3 = w\<lparr>backend := b3\<rparr>" and
    pin: "pinned_ok (api sdk) (wsp_TemplateVersionID (cw_spec o')) (t_ID t) bt b3" using w2 by auto
  from cr obtain b2 where b2: "sdk_CreateUserWorkspace (api sdk) user req b3 = (Inr created, b2)"
    and w4: "w4 = w\<lparr>backend := b2\<rparr>" by (auto simp: sdk_call_eq_Ok w3)
  from stopAfterCreate_Ok [OF st] obtain b5 where w5: "w5 = w\<lparr>backend := b5\<rparr>" and
    fin: "if wsp_Running (cw_spec o') then final = created \<and> b5 = b2
      else b5 = snd (sdk_CreateWorkspaceBuild (api sdk) (w_ID created) WorkspaceTransitionStop b2) \<and>
           final = (case fst (sdk_CreateWorkspaceBuild (api sdk) (w_ID created) WorkspaceTransitionStop b2) of
                      Inl _ \<Rightarrow> created | Inr build \<Rightarrow> with_build created build)"
    unfolding w4 by (auto split: if_splits)
  from enqueue_Some_Ok [OF enq] have w':
    "watchEvents w' = watchEvents (enq_event \<lparr>ev_Type = Added, ev_Object = ObjWorkspace obj\<rparr> w)" "backend w' = b5"
    unfolding w5 by (auto simp: enq_event_def)
  from fin ba pin req b2 conv w'(1) show ?thesis unfolding w'(2) by blast
qed

lemma workspace_create_Ok:
  assumes "WorkspaceStorage_Create api (Some s) (Some ctx) (Some (ObjWorkspace o')) cv w = (Ok obj, w')"
  shows "\<exists>user wsn sdk b0. client_of s ctx b0 sdk \<and> b0 = (case cv of None \<Rightarrow> backend w | Some f \<Rightarrow> snd (f (ObjWorkspace o') (backend w))) \<and>
     ParseWorkspaceName (Name (cw_meta o')) = Ok (wsp_Organization (cw_spec o'), user, wsn) \<and>
     WorkspaceStorage_createValidated api (Some s) sdk (ctx_Namespace ctx) o' (wsp_Organization (cw_spec o'))
       user wsn (w\<lparr>backend := b0\<rparr>) = (Ok obj, w')"
proof -
  from assms obtain w1 user wsn sdk where
    v: "run_validate cv (ObjWorkspace o') w = (Ok (), w1)" and "client_of s ctx (backend w1) sdk"
    "ParseWorkspaceName (Name (cw_meta o')) = Ok (wsp_Organization (cw_spec o'), user, wsn)"
    "WorkspaceStorage_createValidated api (Some s) sdk (ctx_Namespace ctx) o' (wsp_Organization (cw_spec o'))
       user wsn w1 = (Ok obj, w')"
    unfolding WorkspaceStorage_Create_def
    by (auto simp: ok_simps non_nil_eq_Ok clientForNamespace_client_of requiredNamespace_Ok)
  moreover have "w1 = w\<lparr>backend := (case cv of None \<Rightarrow> backend w | Some f \<Rightarrow> snd (f (ObjWorkspace o') (backend w)))\<rparr>"
    using run_validate_snd [of cv "ObjWorkspace o'" w] v by simp
  ultimately show ?thesis
    by (intro exI [of _ user] exI [of _ wsn] exI [of _ sdk] exI [of _ "backend w1"]) simp
qed

text \<open>The admission check of a deletion sees the object as it is.\<close>

definition after_delete_validation :: "'b validate \<Rightarrow> string \<Rightarrow> Workspace \<Rightarrow> 'b \<Rightarrow> 'b" where
  "after_delete_validation dv ns x b = (case dv of None \<Rightarrow> b | Some f \<Rightarrow>
     (case WorkspaceToK8s ns x of Ok ob \<Rightarrow> snd (f (ObjWorkspace ob) b) | _ \<Rightarrow> b))"

lemma workspace_delete_Ok:
  assumes "WorkspaceStorage_Delete api (Some s) (Some ctx) name dv w = (Ok (st, deleted), w')"
  shows "\<exists>org user wsn sdk x b0 build b2 obj. client_of s ctx (backend w) sdk \<and> \<not> deleted \<and> ParseWorkspaceName name = Ok (org, user, wsn) \<and>
     sdk_WorkspaceByOwnerAndName (api sdk) user wsn (backend w) = (Inr x, b0) \<and> w_OrganizationName x = org \<and>
     sdk_CreateWorkspaceBuild (api sdk) (w_ID x) WorkspaceTransitionDelete
       (after_delete_validation dv (ctx_Namespace ctx) x b0) = (Inr build, b2) \<and>
     WorkspaceToK8s (ctx_Namespace ctx) (with_build x build) = Ok obj \<and> backend w' = b2 \<and>
     watchEvents w' = watchEvents (enq_event \<lparr>ev_Type = Modified, ev_Object = ObjWorkspace obj\<rparr> w)"
proof -
  from assms obtain org user wsn sdk x b0 u w1 build b2 obj where
    cl: "client_of s ctx (backend w) sdk" and p: "ParseWorkspaceName name = Ok (org, user, wsn)" and
    x: "sdk_WorkspaceByOwnerAndName (api sdk) user wsn (backend w) = (Inr x, b0)" "w_OrganizationName x = org" and
    v: "(case dv of None \<Rightarrow> ret () | Some f \<Rightarrow>
           bind (lift (WorkspaceToK8s (ctx_Namespace ctx) x)) (\<lambda>obj. sdk_call (f (ObjWorkspace obj))))
          (w\<lparr>backend := b0\<rparr>) = (Ok u, w1)" and
    bd: "sdk_CreateWorkspaceBuild (api sdk) (w_ID x) WorkspaceTransitionDelete (backend w1) = (Inr build, b2)" and
    conv: "WorkspaceToK8s (ctx_Namespace ctx) (with_build x build) = Ok obj" and
    enq: "enqueueWatchEvent ''workspace'' (Some s) Modified (Some (ObjWorkspace obj)) (w1\<lparr>backend := b2\<rparr>) = (Ok (), w')" and
    del: "\<not> deleted"
    unfolding WorkspaceStorage_Delete_def by (auto simp: handler_ok_simps)
  from v have w1: "w1 = w\<lparr>backend := after_delete_validation dv (ctx_Namespace ctx) x b0\<rparr>"
    by (auto simp: op_ok_simps after_delete_validation_def split: option.splits)
  with enqueue_Some_Ok [OF enq] have
    "watchEvents w' = watchEvents (enq_event \<lparr>ev_Type = Modified, ev_Object = ObjWorkspace obj\<rparr> w)" "backend w' = b2"
    by (auto simp: enq_event_def)
  with cl p x bd conv del w1 show ?thesis by auto
qed

lemma createOnUpdate_created:
  "WorkspaceStorage_createOnUpdate api s ctx name info cv w = (Ok (obj, created), w') \<Longrightarrow> created"
  unfolding WorkspaceStorage_createOnUpdate_def Let_def by (auto simp: op_ok_simps)

lemma workspace_update_Ok:
  assumes "WorkspaceStorage_Update api (Some s) (Some ctx) name (Some info) cv uv force w = (Ok (obj, False), w')"
  shows "\<exists>org user wsn sdk cur b0. client_of s ctx (backend w) sdk \<and> ParseWorkspaceName name = Ok (org, user, wsn) \<and>
     sdk_WorkspaceByOwnerAndName (api sdk) user wsn (backend w) = (Inr cur, b0) \<and>
     WorkspaceStorage_applyUpdate api (Some s) sdk name org (ctx_Namespace ctx) info uv cur (w\<lparr>backend := b0\<rparr>)
       = (Ok (obj, False), w')"
  using assms unfolding WorkspaceStorage_Update_def Let_def
  by (auto simp: handler_ok_simps dest: createOnUpdate_created split: if_splits)

section \<open>Panics\<close>

lemma static_contract: "provider_contract (static_provider p)"
  unfolding provider_contract_def static_provider_def
  by (auto intro: static.namespace_provider_axioms)

lemma control_plane_contract: "provider_contract (control_plane_provider u p)"
  unfolding provider_contract_def control_plane_provider_def
  by (auto intro: control_plane.namespace_provider_axioms)

lemma safe_clientForNamespace:
  assumes "st_provider s = Some prov" "provider_contract prov"
  shows "safe P (clientForNamespace k s ctx ns)"
proof -
  from assms(2) have "\<not> is_panic (prov_ClientForNamespace prov ctx ns b)" for b
    unfolding provider_contract_def by (metis namespace_provider.provider_no_panic(1))
  then show ?thesis
    unfolding clientForNamespace_def assms(1) non_nil_simps by (intro safe_rules)
qed

lemma safe_open_sdk_call: "safe (\<lambda>w. \<not> watchClosed w) (sdk_call c)"
  by (rule safe_sdk_call) simp

lemma safe_WorkspaceToK8s: "ns \<noteq> [] \<Longrightarrow> workspace_name_ok x \<Longrightarrow> safe P (lift (WorkspaceToK8s ns x))"
  by (intro safe_lift) (simp add: ToK8s_panic_iff)

lemma names_ok_by_owner:
  "sdk_names_ok sdk \<Longrightarrow> sdk_call (sdk_WorkspaceByOwnerAndName sdk u m) w = (Ok x, w') \<Longrightarrow> workspace_name_ok x"
  by (auto simp: op_ok_simps sdk_names_ok_def)

lemma names_ok_created:
  "sdk_names_ok sdk \<Longrightarrow> sdk_call (sdk_CreateUserWorkspace sdk u r) w = (Ok x, w') \<Longrightarrow> workspace_name_ok x"
  by (auto simp: op_ok_simps sdk_names_ok_def)

lemma names_ok_template:
  "sdk_names_ok sdk \<Longrightarrow> sdk_call (sdk_TemplateByName sdk i n) w = (Ok x, w') \<Longrightarrow> t_ID x \<noteq> uuid_Nil"
  by (auto simp: op_ok_simps sdk_names_ok_def)

lemma workspace_get_safe:
  assumes "st_provider s = Some prov" "provider_contract prov" "\<And>c. sdk_names_ok (api c)"
  shows "safe (\<lambda>w. \<not> watchClosed w) (WorkspaceStorage_Get api (Some s) ctx name)"
  unfolding WorkspaceStorage_Get_def non_nil_simps
  by (intro safe_rules safe_clientForNamespace [OF assms(1,2)] safe_open_sdk_call safe_WorkspaceToK8s)
     (auto simp: requiredNamespace_Ok ParseWorkspaceName_no_panic map_err_eq_Ok dest: names_ok_by_owner [OF assms(3)])

lemma workspace_delete_safe:
  assumes "st_provider s = Some prov" "provider_contract prov" "\<And>c. sdk_names_ok (api c)"
    "st_watchEvents s \<noteq> None"
  shows "safe (\<lambda>w. \<not> watchClosed w) (WorkspaceStorage_Delete api (Some s) ctx name dv)"
  unfolding WorkspaceStorage_Delete_def non_nil_simps
  by (intro safe_rules safe_clientForNamespace [OF assms(1,2)] safe_open_sdk_call safe_WorkspaceToK8s assms(4))
     (auto simp: requiredNamespace_Ok ParseWorkspaceName_no_panic map_err_eq_Ok dest: names_ok_by_owner [OF assms(3)])

lemma safe_templateByName:
  assumes "segment_ok org" "n \<noteq> []" "nameSeparator \<notin> set n"
  shows "safe (\<lambda>w. \<not> watchClosed w) (templateByName api sdk i org n)"
  unfolding templateByName_def
  by (intro safe_rules safe_open_sdk_call) (use assms in \<open>auto simp: Build_panics segment_ok_def\<close>)

lemma safe_checkTemplateVersion:
  "safe (\<lambda>w. \<not> watchClosed w) (checkTemplateVersion api sdk obj t)"
  unfolding checkTemplateVersion_def
  by (cases "uuid_Parse (wsp_TemplateVersionID (cw_spec obj))") (auto intro!: safe_rules)

lemma safe_stopAfterCreate: "safe (\<lambda>w. \<not> watchClosed w) (stopAfterCreate api sdk r x)"
  unfolding stopAfterCreate_def by (intro safe_rules safe_open_sdk_call)

lemma stopAfterCreate_name_ok:
  "stopAfterCreate api sdk r x w = (Ok y, w') \<Longrightarrow> workspace_name_ok y = workspace_name_ok x"
  by (auto dest!: stopAfterCreate_Ok split: if_splits sum.splits)

lemma createRequest_no_panic:
  "n \<noteq> [] \<Longrightarrow> t \<noteq> uuid_Nil \<Longrightarrow> \<not> is_panic (WorkspaceCreateRequestFromK8s (Some obj) n t)"
  by (auto simp: WorkspaceCreateRequestFromK8s_def Let_def split: sum.splits)

lemma safe_createValidated:
  assumes names: "sdk_names_ok (api sdk)" and "ns \<noteq> []" "segment_ok org" "wsn \<noteq> []"
    "wsp_TemplateName (cw_spec obj) \<noteq> []" "nameSeparator \<notin> set (wsp_TemplateName (cw_spec obj))"
    "st_watchEvents s \<noteq> None"
  shows "safe (\<lambda>w. \<not> watchClosed w) (WorkspaceStorage_createValidated api (Some s) sdk ns obj org user wsn)"
  unfolding WorkspaceStorage_createValidated_def
  by (intro safe_rules safe_open_sdk_call safe_templateByName safe_checkTemplateVersion safe_stopAfterCreate
        safe_WorkspaceToK8s createRequest_no_panic assms(2-7))
     (auto simp: map_err_eq_Ok templateByName_Ok dest!: stopAfterCreate_name_ok
        dest: names_ok_template [OF names] names_ok_created [OF names])

lemma safe_run_validate:
  "safe (\<lambda>w. \<not> watchClosed w) (run_validate v obj)"
  "safe (\<lambda>w. \<not> watchClosed w) (run_validate_update v' new old)"
  unfolding run_validate_def run_validate_update_def by (intro safe_rules safe_open_sdk_call)+

lemma workspace_create_safe:
  assumes "st_provider s = Some prov" "provider_contract prov" "\<And>c. sdk_names_ok (api c)"
    "st_watchEvents s \<noteq> None" "nameSeparator \<notin> set (wsp_TemplateName (cw_spec o'))"
  shows "safe (\<lambda>w. \<not> watchClosed w) (WorkspaceStorage_Create api (Some s) ctx (Some (ObjWorkspace o')) cv)"
  unfolding WorkspaceStorage_Create_def non_nil_simps as_workspace_simps
  by (intro safe_rules safe_clientForNamespace [OF assms(1,2)] safe_run_validate safe_createValidated assms(3,4,5))
     (auto simp: requiredNamespace_Ok ParseWorkspaceName_no_panic lift_eq_Ok ParseWorkspaceName_Ok segment_ok_def)

lemma workspace_applyUpdate_safe:
  assumes "ns \<noteq> []" "workspace_name_ok cur" "st_watchEvents s \<noteq> None"
  shows "safe (\<lambda>w. \<not> watchClosed w) (WorkspaceStorage_applyUpdate api (Some s) sdk name org ns info uv cur)"
  unfolding WorkspaceStorage_applyUpdate_def WorkspaceStorage_transition_def Let_def
  by (intro safe_rules safe_open_sdk_call safe_run_validate safe_WorkspaceToK8s assms) (auto simp: assms)

lemma workspace_update_safe:
  assumes "st_provider s = Some prov" "provider_contract prov" "\<And>c. sdk_names_ok (api c)"
    "st_watchEvents s \<noteq> None"
    "\<And>f x b o' b'. info = Some f \<Longrightarrow> f x b = (Inr (Some (ObjWorkspace o')), b') \<Longrightarrow>
       nameSeparator \<notin> set (wsp_TemplateName (cw_spec o'))"
  shows "safe (\<lambda>w. \<not> watchClosed w) (WorkspaceStorage_Update api (Some s) ctx name info cv uv force)"
proof -
  have "safe (\<lambda>w. \<not> watchClosed w) (WorkspaceStorage_createOnUpdate api (Some s) ctx name f cv)"
    if "info = Some f" for f
    unfolding WorkspaceStorage_createOnUpdate_def Let_def
    by (intro safe_rules safe_open_sdk_call workspace_create_safe [OF assms(1-4)])
       (auto simp: sdk_call_eq_Ok dest!: assms(5) [OF that])
  then show ?thesis
    unfolding WorkspaceStorage_Update_def non_nil_simps Let_def
    by (intro safe_rules safe_clientForNamespace [OF assms(1,2)] safe_open_sdk_call workspace_applyUpdate_safe assms(4))
       (auto simp: requiredNamespace_Ok ParseWorkspaceName_no_panic dest: names_ok_by_owner [OF assms(3)])
qed

lemma list_call_names_ok:
  "sdk_names_ok (api c) \<Longrightarrow> workspace_list_call api c w = (Ok xs, w') \<Longrightarrow> x \<in> set xs \<Longrightarrow> workspace_name_ok x"
  by (auto simp: workspace_list_call_def op_ok_simps sdk_names_ok_def)

lemma safe_convert_all:
  "(\<And>x. x \<in> set xs \<Longrightarrow> \<not> is_panic (f x)) \<Longrightarrow> safe P (lift (convert_all f xs))"
  by (intro safe_lift) (use convert_all_panic in blast)

lemma safe_list_namespaces:
  assumes "\<And>ns. safe P (client ns)" "\<And>c. safe P (list_call c)"
    "\<And>ns c w xs w' x. ns \<in> set nss \<Longrightarrow> list_call c w = (Ok xs, w') \<Longrightarrow> x \<in> set xs \<Longrightarrow> \<not> is_panic (conv ns x)"
  shows "safe P (list_namespaces client list_call conv nss)"
  using assms
proof (induction nss)
  case (Cons ns nss)
  then have "safe P (list_namespaces client list_call conv nss)" by simp
  with Cons.prems show ?case
    by (auto intro!: safe_rules safe_convert_all)
qed simp

lemma safe_namespaceForListConversion:
  assumes "provider_contract prov"
  shows "safe P (namespaceForListConversion ctx ns (Some prov))"
proof -
  from assms obtain d where d: "prov_NamespaceResolver prov = Some d" "\<And>b. \<not> is_panic (d ctx b)"
    unfolding provider_contract_def by (metis namespace_provider.provider_no_panic(2))
  then show ?thesis
    unfolding namespaceForListConversion_def d(1) non_nil_simps by (intro safe_rules)
qed

lemma namespaceForListConversion_not_empty:
  "namespaceForListConversion ctx ns p w = (Ok r, w') \<Longrightarrow> r \<noteq> []"
  by (auto simp: namespaceForListConversion_def op_ok_simps split: if_splits)

lemma safe_workspace_list_call: "safe (\<lambda>w. \<not> watchClosed w) (workspace_list_call api c)"
  unfolding workspace_list_call_def by (intro safe_rules safe_open_sdk_call)

lemma workspace_list_safe:
  assumes prov: "st_provider s = Some prov" "provider_contract prov" and names: "\<And>c. sdk_names_ok (api c)"
  shows "safe (\<lambda>w. \<not> watchClosed w) (WorkspaceStorage_List api (Some s) ctx)"
proof -
  from prov(2) obtain e where e: "prov_NamespaceLister prov = Some e" "\<And>c b. \<not> is_panic (e c b)"
    "\<And>c b ns n. e c b = Ok ns \<Longrightarrow> n \<in> set ns \<Longrightarrow> n \<noteq> []"
    unfolding provider_contract_def
    by (metis namespace_provider.provider_no_panic(3) namespace_provider.eligible_not_empty)
  show ?thesis
    unfolding WorkspaceStorage_List_def non_nil_simps Let_def prov(1)
    by (intro safe_rules safe_clientForNamespace [OF prov] safe_workspace_list_call safe_list_namespaces
          safe_namespaceForListConversion [OF prov(2)] safe_convert_all)
       (auto simp: e ToK8s_panic_iff read_backend_eq_Ok split: if_splits dest: list_call_names_ok [OF names]
          namespaceForListConversion_not_empty dest!: convert_all_panic)
qed

text \<open>
  The panic the naming assumption on the request excludes: a template name with a dot, sent
  by a client, reaches \<open>BuildTemplateName\<close> when the deployment does not know the template.
\<close>

lemma templateByName_dot_panics:
  assumes "fst (sdk_TemplateByName (api sdk) i n (backend w)) = Inl err" "nameSeparator \<in> set n"
  shows "is_panic (fst (templateByName api sdk i org n w))"
proof -
  have "is_panic (BuildTemplateName org n)"
    using assms(2) by (simp add: Build_panics segment_ok_def)
  then obtain p where "BuildTemplateName org n = Panic p"
    by (cases "BuildTemplateName org n") auto
  with assms(1) show ?thesis
    by (cases "sdk_TemplateByName (api sdk) i n (backend w)")
       (auto simp: templateByName_def handle_def sdk_call_run bind_def)
qed

end
