(* ===== verification/Demo_Backend.thy ===== *)
theory Demo_Backend
  imports Workspace_Correct
begin

text \<open>
  A concrete Coder deployment for evaluating the handlers: one organization, one workspace,
  one template, and a log of the calls that change something. The witnesses of the
  properties run the handlers on it; no property assumes anything about it.
\<close>

type_synonym demo = "string list"

definition demo_time :: gotime where "demo_time = unix_epoch + 1000"

definition demo_build :: "string \<Rightarrow> WorkspaceBuild" where
  "demo_build t = \<lparr>b_ID = 7, b_TemplateVersionID = 5, b_Transition = t, b_Status = ''running'',
     b_Deadline_Valid = False, b_Deadline_Time = 0, b_UpdatedAt = 0\<rparr>"

definition demo_ws :: Workspace where
  "demo_ws = \<lparr>w_ID = 1, w_Name = ''dev'', w_OwnerName = ''alice'', w_OrganizationName = ''acme'',
     w_TemplateName = ''go'', w_CreatedAt = demo_time, w_UpdatedAt = demo_time, w_LastUsedAt = demo_time,
     w_TTLMillis = None, w_AutostartSchedule = None, w_LatestBuild = demo_build ''start''\<rparr>"

definition demo_template :: Template where
  "demo_template = \<lparr>t_ID = 3, t_Name = ''go'', t_OrganizationName = ''acme'', t_DisplayName = ''Go'',
     t_Description = [], t_Icon = [], t_ActiveVersionID = 5, t_Deprecated = False,
     t_CreatedAt = demo_time, t_UpdatedAt = demo_time\<rparr>"

definition demo_version :: TemplateVersion where
  "demo_version = \<lparr>tv_ID = 5, tv_TemplateID = Some 3,
     tv_Job = \<lparr>job_FileID = 9, job_Status = ''succeeded'', job_Error = []\<rparr>\<rparr>"

definition not_found :: error where "not_found = CoderError 404 ''Resource not found''"

definition demo_sdk :: "demo codersdk" where
  "demo_sdk =
     \<lparr>sdk_OrganizationByName = (\<lambda>n b. (if n = ''acme'' then Inr 2 else Inl not_found, b)),
      sdk_TemplateByName = (\<lambda>i n b. (if n = ''go'' then Inr demo_template else Inl not_found, b)),
      sdk_Template = (\<lambda>i b. (Inr demo_template, b)),
      sdk_Templates = (\<lambda>b. (Inr [demo_template], b)),
      sdk_TemplateVersion = (\<lambda>i b. (Inr demo_version, b)),
      sdk_CreateTemplate = (\<lambda>i r b. (Inr demo_template, b @ [''create-template''])),
      sdk_CreateTemplateVersion = (\<lambda>i r b. (Inr demo_version, b @ [''create-version''])),
      sdk_UpdateTemplateMeta = (\<lambda>i r b. (Inr demo_template, b @ [''update-meta''])),
      sdk_UpdateActiveTemplateVersion = (\<lambda>i v b. (Inr (), b @ [''promote''])),
      sdk_DeleteTemplate = (\<lambda>i b. (Inr (), b @ [''delete-template''])),
      sdk_Upload = (\<lambda>z b. (Inr 9, b @ [''upload''])),
      sdk_RequestFile = (\<lambda>i b. (Inl not_found, b)),
      sdk_WorkspaceByOwnerAndName = (\<lambda>u n b.
        (if u = ''alice'' \<and> n = ''dev'' then Inr demo_ws else Inl not_found, b)),
      sdk_Workspaces = (\<lambda>b. (Inr [demo_ws], b)),
      sdk_CreateUserWorkspace = (\<lambda>u r b. (Inr demo_ws, b @ [''create''])),
      sdk_CreateWorkspaceBuild = (\<lambda>i t b. (Inr (demo_build t), b @ [t]))\<rparr>"

definition demo_client :: SDKClient where
  "demo_client = \<lparr>cl_URL = ''http://coder'', cl_SessionToken = ''t'', cl_Timeout = defaultRequestTimeout\<rparr>"

definition demo_provider :: "demo ClientProvider" where
  "demo_provider = static_provider (Some \<lparr>scp_Client = Some demo_client, scp_Namespace = ''coder''\<rparr>)"

definition demo_storage :: "demo Storage" where
  "demo_storage = \<lparr>st_provider = Some demo_provider, st_broadcaster = Some (), st_watchEvents = Some ()\<rparr>"

definition demo_state :: "demo storage_state" where
  "demo_state = \<lparr>backend = [], watchEvents = [], watchClosed = False\<rparr>"

definition demo_ctx :: Context where
  "demo_ctx = \<lparr>ctx_Namespace = ''coder'', ctx_Deadline = None\<rparr>"

abbreviation demo_api :: "SDKClient \<Rightarrow> demo codersdk" where
  "demo_api \<equiv> \<lambda>_. demo_sdk"

text \<open>An update request that only changes \<open>spec.running\<close>.\<close>

definition set_running :: "bool \<Rightarrow> demo updated_object_info" where
  "set_running r x b =
     (case x of ObjWorkspace ob \<Rightarrow> (Inr (Some (ObjWorkspace (ob\<lparr>cw_spec := (cw_spec ob)\<lparr>wsp_Running := r\<rparr>\<rparr>))), b)
      | _ \<Rightarrow> (Inr (Some x), b))"

text \<open>An update request with the resource version of an earlier read.\<close>

definition stale_update :: "string \<Rightarrow> demo updated_object_info" where
  "stale_update rv x b =
     (case x of ObjWorkspace ob \<Rightarrow> (Inr (Some (ObjWorkspace (ob\<lparr>cw_meta := (cw_meta ob)\<lparr>ResourceVersion := rv\<rparr>\<rparr>))), b)
      | _ \<Rightarrow> (Inr (Some x), b))"

definition demo_request :: "string \<Rightarrow> bool \<Rightarrow> CoderWorkspace" where
  "demo_request template running = zero_workspace
     \<lparr>cw_meta := zero_meta\<lparr>Name := ''acme.alice.dev''\<rparr>,
      cw_spec := (cw_spec zero_workspace)\<lparr>wsp_Organization := ''acme'', wsp_TemplateName := template,
                   wsp_Running := running\<rparr>\<rparr>"

lemma demo_names_ok: "sdk_names_ok demo_sdk"
  by (auto simp: sdk_names_ok_def demo_sdk_def demo_ws_def demo_template_def workspace_name_ok_def
      template_name_ok_def segment_ok_def nameSeparator_def uuid_Nil_def split: if_splits)

lemma demo_storage_simps [simp]:
  "st_provider demo_storage = Some demo_provider" "st_watchEvents demo_storage = Some ()"
  "provider_contract demo_provider"
  by (simp_all add: demo_storage_def demo_provider_def static_contract)

end
