(* ===== verification/Workspace_Properties.thy ===== *)
theory Workspace_Properties
  imports Demo_Backend
begin

text \<open>
  The properties of the workspace storage: what each handler does to the deployment and to
  the event queue, with witnesses on the demonstration deployment.
\<close>

section \<open>Properties of the workspace storage\<close>

text \<open>
  C2: Updating an existing workspace. When \<open>Update\<close> succeeds without creating, the request
  named a workspace whose resource version the client knew; the calls made were the read,
  the update callback, the admission check and, exactly when \<open>spec.running\<close> changes, one
  build with the transition that matches the desired state; no other field changed; and a
  \<open>Modified\<close> event with the returned object is queued exactly in that case.
\<close>

theorem workspace_update_exact:
  assumes "WorkspaceStorage_Update api (Some s) (Some ctx) name (Some info) cv uv force w = (Ok (obj, False), w')"
  shows "\<exists>org user wsn sdk cur b0 current desired b1.
     client_of s ctx (backend w) sdk \<and> ParseWorkspaceName name = Ok (org, user, wsn) \<and>
     sdk_WorkspaceByOwnerAndName (api sdk) user wsn (backend w) = (Inr cur, b0) \<and> w_OrganizationName cur = org \<and>
     WorkspaceToK8s (ctx_Namespace ctx) cur = Ok current \<and>
     info (ObjWorkspace current) b0 = (Inr (Some (ObjWorkspace desired)), b1) \<and>
     ResourceVersion (cw_meta desired) = ResourceVersion (cw_meta current) \<and>
     \<not> immutable_changed (cw_spec desired) (cw_spec current) \<and>
     (let b2 = (case uv of None \<Rightarrow> b1 | Some f \<Rightarrow> snd (f (ObjWorkspace desired) (ObjWorkspace current) b1));
          t = transition_for (workspaceRunning cur) (wsp_Running (cw_spec desired)) in
      backend w' = after_build (api sdk) (w_ID cur) t b2 \<and>
      (t = None \<longrightarrow> obj = current \<and> watchEvents w' = watchEvents w) \<and>
      (t \<noteq> None \<longrightarrow> watchEvents w' = watchEvents (enq_event \<lparr>ev_Type = Modified, ev_Object = ObjWorkspace obj\<rparr> w)))"
proof -
  from workspace_update_Ok [OF assms] obtain org user wsn sdk cur b0 where
    r: "client_of s ctx (backend w) sdk" "ParseWorkspaceName name = Ok (org, user, wsn)"
    "sdk_WorkspaceByOwnerAndName (api sdk) user wsn (backend w) = (Inr cur, b0)"
    and upd: "WorkspaceStorage_applyUpdate api (Some s) sdk name org (ctx_Namespace ctx) info uv cur
      (w\<lparr>backend := b0\<rparr>) = (Ok (obj, False), w')"
    by blast
  obtain current desired b1 where
    u: "w_OrganizationName cur = org" "WorkspaceToK8s (ctx_Namespace ctx) cur = Ok current"
      "info (ObjWorkspace current) b0 = (Inr (Some (ObjWorkspace desired)), b1)"
      "WorkspaceStorage_checkDesired name org (ctx_Namespace ctx) desired current = Ok ()"
      "\<not> immutable_changed (cw_spec desired) (cw_spec current)" and
    t: "let b2 = (case uv of None \<Rightarrow> b1 | Some f \<Rightarrow> snd (f (ObjWorkspace desired) (ObjWorkspace current) b1));
          t = transition_for (workspaceRunning cur) (wsp_Running (cw_spec desired)) in
      backend w' = after_build (api sdk) (w_ID cur) t b2 \<and>
      (t = None \<longrightarrow> obj = current \<and> watchEvents w' = watchEvents w) \<and>
      (t \<noteq> None \<longrightarrow> watchEvents w' = watchEvents (enq_event \<lparr>ev_Type = Modified, ev_Object = ObjWorkspace obj\<rparr> w))"
    using applyUpdate_Ok [OF upd] by (elim exE conjE) (rule that, auto simp: Let_def enq_event_def)
  show ?thesis
    using r u t unfolding WorkspaceStorage_checkDesired_Ok by blast
qed

theorem workspace_update_exact_witness:
  "\<exists>obj w' t. WorkspaceStorage_Update demo_api (Some demo_storage) (Some demo_ctx) ''acme.alice.dev''
      (Some (set_running False)) None None False demo_state = (Ok (obj, False), w') \<and>
    t = transition_for True False \<and> backend w' = after_build demo_sdk 1 t []"
proof -
  let ?run = "WorkspaceStorage_Update demo_api (Some demo_storage) (Some demo_ctx) ''acme.alice.dev''
      (Some (set_running False)) None None False demo_state"
  have "(case fst ?run of Ok (obj, c) \<Rightarrow> \<not> c | _ \<Rightarrow> False)" by code_simp
  then obtain obj w' where run: "?run = (Ok (obj, False), w')"
    by (cases ?run) (auto split: res.splits)
  have "ParseWorkspaceName ''acme.alice.dev'' = Ok (''acme'', ''alice'', ''dev'')" by code_simp
  with workspace_update_exact [OF run] run show ?thesis
    by (auto simp: demo_sdk_def demo_state_def set_running_def Let_def demo_ws_def workspaceRunning_def
        WorkspaceTransitionStart_def demo_build_def)
qed

text \<open>
  C6: Optimistic concurrency. When the client's copy has another resource version than the
  workspace has now, \<open>Update\<close> returns a Conflict error; no build is started (the deployment
  has seen the read and the update callback only) and no event is queued.
\<close>

theorem workspace_update_stale:
  assumes "client_of s ctx (backend w) sdk" "st_broadcaster s = Some x" "ctx_Namespace ctx \<noteq> []"
    "ParseWorkspaceName name = Ok (org, user, wsn)"
    "sdk_WorkspaceByOwnerAndName (api sdk) user wsn (backend w) = (Inr cur, b0)" "w_OrganizationName cur = org"
    "WorkspaceToK8s (ctx_Namespace ctx) cur = Ok current"
    "info (ObjWorkspace current) b0 = (Inr (Some (ObjWorkspace desired)), b1)"
    "Name (cw_meta desired) = name" "wsp_Organization (cw_spec desired) = org"
    "Namespace (cw_meta desired) = ctx_Namespace ctx"
    "ResourceVersion (cw_meta desired) \<notin> {[], ResourceVersion (cw_meta current)}"
  shows "\<exists>e. WorkspaceStorage_Update api (Some s) (Some ctx) name (Some info) cv uv force w =
     (Err (StatusError (NewConflict coderworkspaces name e)), w\<lparr>backend := b1\<rparr>)"
proof -
  have "name \<noteq> []" using assms(4) by (auto simp: ParseWorkspaceName_Ok)
  moreover have "clientForNamespace ''workspace'' s (Some ctx) (ctx_Namespace ctx) w = (Ok sdk, w)"
    using assms(1) by (simp add: clientForNamespace_client_of)
  ultimately show ?thesis
    using assms(2-)
    by (auto simp: WorkspaceStorage_Update_def WorkspaceStorage_applyUpdate_def WorkspaceStorage_checkDesired_def
        requiredNamespaceFromRequestContext_def namespaceFromRequestContext_def
        Let_def bind_def handle_def map_err_run sdk_call_run)
qed

theorem workspace_update_stale_witness:
  "\<exists>e. WorkspaceStorage_Update demo_api (Some demo_storage) (Some demo_ctx) ''acme.alice.dev''
     (Some (stale_update ''7'')) None None False demo_state =
     (Err (StatusError (NewConflict coderworkspaces ''acme.alice.dev'' e)), demo_state\<lparr>backend := []\<rparr>)"
proof -
  obtain current where cur: "WorkspaceToK8s ''coder'' demo_ws = Ok current"
    and props: "Name (cw_meta current) = ''acme.alice.dev''" "ResourceVersion (cw_meta current) \<noteq> ''7''"
      "wsp_Organization (cw_spec current) = ''acme''" "Namespace (cw_meta current) = ''coder''"
  proof -
    have "case WorkspaceToK8s ''coder'' demo_ws of Ok c \<Rightarrow> Name (cw_meta c) = ''acme.alice.dev'' \<and>
        ResourceVersion (cw_meta c) \<noteq> ''7'' \<and> wsp_Organization (cw_spec c) = ''acme'' \<and> Namespace (cw_meta c) = ''coder''
        | _ \<Rightarrow> False" by code_simp
    then show ?thesis using that by (auto split: res.splits)
  qed
  have parse: "ParseWorkspaceName ''acme.alice.dev'' = Ok (''acme'', ''alice'', ''dev'')" by code_simp
  show ?thesis
    by (rule workspace_update_stale [where sdk = demo_client and cur = demo_ws and current = current
          and desired = "current\<lparr>cw_meta := (cw_meta current)\<lparr>ResourceVersion := ''7''\<rparr>\<rparr>", OF _ _ _ parse])
       (use cur props in \<open>auto simp: client_of_def demo_ctx_def demo_sdk_def demo_ws_def demo_state_def demo_storage_def
          demo_provider_def static_provider_def Static_ClientForNamespace_def stale_update_def\<close>)
qed

text \<open>
  C12: Creating a workspace. When \<open>Create\<close> succeeds, the name of the request was parsed
  into the organization of the spec, a user and a workspace name; the organization and the
  template were found by name, and a pinned version was found to belong to that template;
  exactly one workspace was created, for that user and name, from the pinned version or else
  from the template;
  when \<open>spec.running\<close> is false one stop build followed, whose failure is not reported; and
  one \<open>Added\<close> event with the returned object was queued.
\<close>

theorem workspace_create_effects:
  assumes "WorkspaceStorage_Create api (Some s) (Some ctx) (Some (ObjWorkspace o')) cv w = (Ok obj, w')"
  shows "\<exists>user wsn sdk b0 i ba tmpl bt req b1 created b2 final.
     b0 = (case cv of None \<Rightarrow> backend w | Some f \<Rightarrow> snd (f (ObjWorkspace o') (backend w))) \<and> client_of s ctx b0 sdk \<and>
     ParseWorkspaceName (Name (cw_meta o')) = Ok (wsp_Organization (cw_spec o'), user, wsn) \<and>
     sdk_OrganizationByName (api sdk) (wsp_Organization (cw_spec o')) b0 = (Inr i, ba) \<and>
     sdk_TemplateByName (api sdk) i (wsp_TemplateName (cw_spec o')) ba = (Inr tmpl, bt) \<and>
     pinned_ok (api sdk) (wsp_TemplateVersionID (cw_spec o')) (t_ID tmpl) bt b1 \<and>
     cwr_Name req = wsn \<and> cwr_TTLMillis req = wsp_TTLMillis (cw_spec o') \<and>
     (if wsp_TemplateVersionID (cw_spec o') = [] then cwr_TemplateID req = t_ID tmpl \<and> cwr_TemplateVersionID req = uuid_Nil
      else cwr_TemplateID req = uuid_Nil \<and> uuid_Parse (wsp_TemplateVersionID (cw_spec o')) = Inr (cwr_TemplateVersionID req)) \<and>
     sdk_CreateUserWorkspace (api sdk) user req b1 = (Inr created, b2) \<and>
     (if wsp_Running (cw_spec o') then final = created \<and> backend w' = b2
      else backend w' = snd (sdk_CreateWorkspaceBuild (api sdk) (w_ID created) WorkspaceTransitionStop b2) \<and>
           final = (case fst (sdk_CreateWorkspaceBuild (api sdk) (w_ID created) WorkspaceTransitionStop b2) of
                      Inl _ \<Rightarrow> created | Inr build \<Rightarrow> with_build created build)) \<and>
     WorkspaceToK8s (ctx_Namespace ctx) final = Ok obj \<and>
     watchEvents w' = watchEvents (enq_event \<lparr>ev_Type = Added, ev_Object = ObjWorkspace obj\<rparr> w)"
proof -
  from workspace_create_Ok [OF assms] obtain user wsn sdk b0 where
    r: "client_of s ctx b0 sdk" "b0 = (case cv of None \<Rightarrow> backend w | Some f \<Rightarrow> snd (f (ObjWorkspace o') (backend w)))"
      "ParseWorkspaceName (Name (cw_meta o')) = Ok (wsp_Organization (cw_spec o'), user, wsn)" and
    run: "WorkspaceStorage_createValidated api (Some s) sdk (ctx_Namespace ctx) o' (wsp_Organization (cw_spec o'))
       user wsn (w\<lparr>backend := b0\<rparr>) = (Ok obj, w')" by blast
  have backend_set: "backend (w\<lparr>backend := b0\<rparr>) = b0" by simp
  from createValidated_Ok [OF run] obtain i ba tmpl bt req b1 created b2 final where
    c: "WorkspaceCreateRequestFromK8s (Some o') wsn (t_ID tmpl) = Ok req"
      "sdk_OrganizationByName (api sdk) (wsp_Organization (cw_spec o')) b0 = (Inr i, ba)"
      "sdk_TemplateByName (api sdk) i (wsp_TemplateName (cw_spec o')) ba = (Inr tmpl, bt)"
      "pinned_ok (api sdk) (wsp_TemplateVersionID (cw_spec o')) (t_ID tmpl) bt b1"
      "sdk_CreateUserWorkspace (api sdk) user req b1 = (Inr created, b2)"
      "if wsp_Running (cw_spec o') then final = created \<and> backend w' = b2
       else backend w' = snd (sdk_CreateWorkspaceBuild (api sdk) (w_ID created) WorkspaceTransitionStop b2) \<and>
           final = (case fst (sdk_CreateWorkspaceBuild (api sdk) (w_ID created) WorkspaceTransitionStop b2) of
                      Inl _ \<Rightarrow> created | Inr build \<Rightarrow> with_build created build)"
      "WorkspaceToK8s (ctx_Namespace ctx) final = Ok obj" and
    q: "watchEvents w' = watchEvents (enq_event \<lparr>ev_Type = Added, ev_Object = ObjWorkspace obj\<rparr> (w\<lparr>backend := b0\<rparr>))"
    unfolding backend_set by blast
  have "watchEvents w' = watchEvents (enq_event \<lparr>ev_Type = Added, ev_Object = ObjWorkspace obj\<rparr> w)"
    using q by (simp add: enq_event_def)
  with r c(2-) WorkspaceCreateRequest_Ok [OF c(1)] show ?thesis
    by (intro exI [of _ user] exI [of _ wsn] exI [of _ sdk] exI [of _ b0] exI [of _ i] exI [of _ ba] exI [of _ tmpl]
        exI [of _ bt] exI [of _ req] exI [of _ b1] exI [of _ created] exI [of _ b2] exI [of _ final])
       (intro conjI; (elim conjE)?; assumption)
qed

theorem workspace_create_effects_witness:
  "\<exists>obj w'. WorkspaceStorage_Create demo_api (Some demo_storage) (Some demo_ctx)
      (Some (ObjWorkspace (demo_request ''go'' False))) None demo_state = (Ok obj, w') \<and>
    watchEvents w' = watchEvents (enq_event \<lparr>ev_Type = Added, ev_Object = ObjWorkspace obj\<rparr> demo_state)"
proof -
  let ?run = "WorkspaceStorage_Create demo_api (Some demo_storage) (Some demo_ctx)
      (Some (ObjWorkspace (demo_request ''go'' False))) None demo_state"
  have "is_ok (fst ?run)" by code_simp
  then obtain obj w' where run: "?run = (Ok obj, w')" by (cases ?run) (auto simp: is_ok_iff)
  from workspace_create_effects [OF run] run show ?thesis by blast
qed

text \<open>
  Validation comes first. Without an admission callback, a \<open>Create\<close> that has changed
  the deployment or the queue in any way, successful or not, had a request with a
  CoderWorkspace in the request namespace, with a well-formed name whose organization is
  the one of the spec, and with a template name.
\<close>

lemma workspace_create_validates_first:
  assumes "snd (WorkspaceStorage_Create api (Some s) (Some ctx) (Some obj) None w) \<noteq> w"
  shows "\<exists>o' user wsn. obj = ObjWorkspace o' \<and> ctx_Namespace ctx \<noteq> [] \<and>
     Namespace (cw_meta o') \<in> {[], ctx_Namespace ctx} \<and>
     ParseWorkspaceName (Name (cw_meta o')) = Ok (wsp_Organization (cw_spec o'), user, wsn) \<and>
     wsp_TemplateName (cw_spec o') \<noteq> []"
  using workspace_create_changed [OF assms] by blast

text \<open>
  Deletion is asynchronous. When \<open>Delete\<close> succeeds it reports \<open>deleted = false\<close>: it
  has read the workspace, run the admission check on it, started exactly one delete build
  for it as its last call of the deployment, and queued a \<open>Modified\<close> event with the workspace in that build.
\<close>

lemma workspace_delete_async:
  assumes "WorkspaceStorage_Delete api (Some s) (Some ctx) name dv w = (Ok (st, deleted), w')"
  shows "\<exists>org user wsn sdk x b0 build b2 obj. client_of s ctx (backend w) sdk \<and> \<not> deleted \<and>
     ParseWorkspaceName name = Ok (org, user, wsn) \<and>
     sdk_WorkspaceByOwnerAndName (api sdk) user wsn (backend w) = (Inr x, b0) \<and> w_OrganizationName x = org \<and>
     sdk_CreateWorkspaceBuild (api sdk) (w_ID x) WorkspaceTransitionDelete
       (after_delete_validation dv (ctx_Namespace ctx) x b0) = (Inr build, b2) \<and>
     WorkspaceToK8s (ctx_Namespace ctx) (with_build x build) = Ok obj \<and> backend w' = b2 \<and>
     watchEvents w' = watchEvents (enq_event \<lparr>ev_Type = Modified, ev_Object = ObjWorkspace obj\<rparr> w)"
  by (rule workspace_delete_Ok [OF assms])

text \<open>
  Reads only read. \<open>Get\<close> and \<open>List\<close> keep every invariant of the deployment that the
  SDK's read calls keep, and they never touch the event queue, whatever they return.
\<close>

lemma workspace_reads_keep:
  assumes "\<And>c. reads_keep I (api c)"
  shows "preserves (read_inv I q cl) (WorkspaceStorage_Get api s ctx name) \<and>
    preserves (read_inv I q cl) (WorkspaceStorage_List api s ctx)"
  using workspace_reads_only [OF assms] by simp

text \<open>
  C37: No handler panics. With a provider that keeps the provider contract, with a deployment
  whose names are well formed, before \<open>Destroy\<close>, and for template names without the
  separator, none of \<open>Get\<close>, \<open>List\<close>, \<open>Create\<close>, \<open>Update\<close> and \<open>Delete\<close> panics, nor does \<open>Watch\<close> with a
  broadcaster that returns a watcher or an error, and the queue stays open.
\<close>

theorem workspace_handlers_no_panic:
  assumes "st_provider s = Some prov" "provider_contract prov" "\<And>c. sdk_names_ok (api c)"
    "st_watchEvents s \<noteq> None" "nameSeparator \<notin> set (wsp_TemplateName (cw_spec o'))"
    "\<And>x b d b'. info x b = (Inr (Some (ObjWorkspace d)), b') \<Longrightarrow> nameSeparator \<notin> set (wsp_TemplateName (cw_spec d))"
  shows "safe (\<lambda>w. \<not> watchClosed w) (WorkspaceStorage_Get api (Some s) ctx name) \<and>
    safe (\<lambda>w. \<not> watchClosed w) (WorkspaceStorage_List api (Some s) ctx) \<and>
    safe (\<lambda>w. \<not> watchClosed w) (WorkspaceStorage_Create api (Some s) ctx (Some (ObjWorkspace o')) cv) \<and>
    safe (\<lambda>w. \<not> watchClosed w) (WorkspaceStorage_Update api (Some s) ctx name (Some info) cv uv force) \<and>
    safe (\<lambda>w. \<not> watchClosed w) (WorkspaceStorage_Delete api (Some s) ctx name dv) \<and>
    ((\<forall>b v. bw b \<noteq> (Inr None, v)) \<longrightarrow> safe (\<lambda>w. \<not> watchClosed w) (WorkspaceStorage_Watch bw (Some s) ctx opts))"
  unfolding WorkspaceStorage_Watch_def using assms by (intro conjI impI storage_Watch_safe workspace_get_safe workspace_list_safe workspace_create_safe workspace_update_safe
      workspace_delete_safe) auto

theorem workspace_handlers_no_panic_witness:
  "safe (\<lambda>w. \<not> watchClosed w) (WorkspaceStorage_Create demo_api (Some demo_storage) (Some demo_ctx)
     (Some (ObjWorkspace (demo_request ''go'' True))) None)"
proof -
  have no_dot: "nameSeparator \<notin> set (wsp_TemplateName (cw_spec (demo_request ''go'' True)))" by code_simp
  show ?thesis
    using workspace_handlers_no_panic [of demo_storage demo_provider demo_api "demo_request ''go'' True"
        "\<lambda>x b. (Inr None, b)", OF _ _ _ _ no_dot] demo_names_ok by simp
qed

text \<open>
  C35: The panic that remains. A valid \<open>Create\<close> request whose \<open>spec.templateName\<close> contains
  the separator panics as soon as the deployment does not find the template: the name of the
  not-found error is built with \<open>BuildTemplateName\<close>, which asserts on its input.
\<close>

theorem workspace_create_dotted_template_panics:
  assumes "client_of s ctx (backend w) sdk" "st_broadcaster s = Some x" "ctx_Namespace ctx \<noteq> []"
    "Namespace (cw_meta o') = ctx_Namespace ctx"
    "ParseWorkspaceName (Name (cw_meta o')) = Ok (wsp_Organization (cw_spec o'), user, wsn)"
    "nameSeparator \<in> set (wsp_TemplateName (cw_spec o'))"
    "sdk_OrganizationByName (api sdk) (wsp_Organization (cw_spec o')) (backend w) = (Inr i, b1)"
    "sdk_TemplateByName (api sdk) i (wsp_TemplateName (cw_spec o')) b1 = (Inl err, b2)"
  shows "is_panic (fst (WorkspaceStorage_Create api (Some s) (Some ctx) (Some (ObjWorkspace o')) None w))"
proof -
  have "Name (cw_meta o') \<noteq> []" using assms(5) by (auto simp: ParseWorkspaceName_Ok)
  moreover have "wsp_TemplateName (cw_spec o') \<noteq> []" using assms(6) by auto
  moreover have "clientForNamespace ''workspace'' s (Some ctx) (ctx_Namespace ctx) w = (Ok sdk, w)"
    using assms(1) by (simp add: clientForNamespace_client_of)
  moreover have "is_panic (fst (templateByName api sdk i (wsp_Organization (cw_spec o')) (wsp_TemplateName (cw_spec o'))
      (w\<lparr>backend := b1\<rparr>)))"
    using assms(6,8) by (intro templateByName_dot_panics) simp_all
  ultimately show ?thesis
    using assms(2-5,7)
    by (auto simp: WorkspaceStorage_Create_def WorkspaceStorage_createValidated_def run_validate_def
        requiredNamespaceFromRequestContext_def namespaceFromRequestContext_def
        bind_def map_err_run sdk_call_run split: prod.splits res.splits)
qed

theorem workspace_create_dotted_template_panics_witness:
  "is_panic (fst (WorkspaceStorage_Create demo_api (Some demo_storage) (Some demo_ctx)
     (Some (ObjWorkspace ((demo_request ''a.b'' True)\<lparr>cw_meta := zero_meta\<lparr>Name := ''acme.alice.dev'', Namespace := ''coder''\<rparr>\<rparr>)))
     None demo_state))"
proof -
  have parse: "ParseWorkspaceName ''acme.alice.dev'' = Ok (''acme'', ''alice'', ''dev'')" by code_simp
  show ?thesis
    by (rule workspace_create_dotted_template_panics [where sdk = demo_client and i = 2 and user = "''alice''" and wsn = "''dev''"])
       (auto simp: client_of_def demo_ctx_def demo_sdk_def demo_storage_def demo_request_def zero_workspace_def zero_meta_def
          demo_provider_def static_provider_def Static_ClientForNamespace_def parse nameSeparator_def)
qed

text \<open>
  Listing all namespaces. With a provider that lists the eligible namespaces, and as
  long as listing does not change the deployment, the result of \<open>List\<close> without a request
  namespace is, up to order, the concatenation of the converted responses of every eligible
  namespace's own client, and it is sorted by namespace and name.
\<close>

lemma workspace_list_all_namespaces:
  assumes "WorkspaceStorage_List api (Some s) (Some ctx) w = (Ok l, w')" "ctx_Namespace ctx = []"
    "st_provider s = Some prov" "prov_NamespaceLister prov = Some elig"
    "\<And>c. snd (sdk_Workspaces (api c) (backend w)) = backend w"
  shows "\<exists>nss items. elig (Some ctx) (backend w) = Ok nss \<and> mset (cwl_Items l) = mset items \<and>
     sorted (map (\<lambda>x. (Namespace (cw_meta x), Name (cw_meta x))) (cwl_Items l)) \<and>
     listed_from prov ctx (\<lambda>c. sdk_Workspaces (api c)) WorkspaceToK8s (backend w) nss items"
proof -
  from workspace_list_Ok [OF assms] obtain nss items where "elig (Some ctx) (backend w) = Ok nss"
    "cwl_Items l = sort_by_meta cw_meta items"
    "listed_from prov ctx (\<lambda>c. sdk_Workspaces (api c)) WorkspaceToK8s (backend w) nss items" by blast
  then show ?thesis using sort_by_meta_props [of cw_meta items] by auto
qed

text \<open>
  What \<open>Get\<close> returns. A successful \<open>Get\<close> read the workspace with the owner and the
  name parsed from the request, its organization is the requested one, and the object is its
  conversion: its resource version, UID and running state are those of the workspace, and
  its name is parsed back into the organization, owner and name of the workspace.
\<close>

lemma workspace_get_object:
  assumes "WorkspaceStorage_Get api (Some s) (Some ctx) name w = (Ok obj, w')"
  shows "\<exists>org user wsn sdk x b'. ParseWorkspaceName name = Ok (org, user, wsn) \<and> client_of s ctx (backend w) sdk \<and>
     sdk_WorkspaceByOwnerAndName (api sdk) user wsn (backend w) = (Inr x, b') \<and> w_OrganizationName x = org \<and>
     Namespace (cw_meta obj) = ctx_Namespace ctx \<and>
     ParseWorkspaceName (Name (cw_meta obj)) = Ok (org, w_OwnerName x, w_Name x) \<and>
     ResourceVersion (cw_meta obj) = strconv_FormatInt (time_UnixNano (w_UpdatedAt x)) \<and>
     wsp_Running (cw_spec obj) = workspaceRunning x \<and> w' = w\<lparr>backend := b'\<rparr>"
proof -
  from WorkspaceStorage_Get_Ok [OF assms] obtain org user wsn sdk x b' where
    g: "ParseWorkspaceName name = Ok (org, user, wsn)" "client_of s ctx (backend w) sdk"
      "sdk_WorkspaceByOwnerAndName (api sdk) user wsn (backend w) = (Inr x, b')" "w_OrganizationName x = org"
      "w' = w\<lparr>backend := b'\<rparr>" and conv: "WorkspaceToK8s (ctx_Namespace ctx) x = Ok obj" by blast
  with WorkspaceToK8s_Ok(3,5,6) [OF conv] WorkspaceToK8s_name_parses [OF conv] show ?thesis by blast
qed

end
