(* ===== verification/Template_Files.thy ===== *)
theory Template_Files
  imports Watch
begin

text \<open>
  Template source archives (internal/aggregated/storage/template_files.go): path
  validation, the two archive builders, and the download of an archive with its limits.
  A Go map of files is an association list in the iteration order of the run, with
  distinct keys. The byte format of package \<open>archive/zip\<close> (its compression in particular)
  is not fixed by its documentation, so the reader and the writer are a record of
  functions; what the code relies on is the hypothesis \<open>zip_ok\<close>: an archive that was
  written is read back as the entries written.
\<close>

section \<open>Definitions\<close>

definition maxTemplateSourceZipBytes :: nat where "maxTemplateSourceZipBytes = 20 * 2 ^ 20"
definition maxTemplateSourceTotalUncompressedBytes :: nat where
  "maxTemplateSourceTotalUncompressedBytes = 40 * 2 ^ 20"
definition maxTemplateSourceFiles :: nat where "maxTemplateSourceFiles = 2000"
definition maxTemplateSourceFileBytes :: nat where "maxTemplateSourceFileBytes = 2 * 2 ^ 20"

type_synonym files = "(string \<times> string) list"

subsection \<open>Paths\<close>

definition validateTemplateSourcePath :: "string \<Rightarrow> string result" where
  "validateTemplateSourcePath templatePath =
     (if templatePath = [] then Err (errorf ''path must not be empty'')
      else if CHR 0x5C \<in> set templatePath then Err (errorf ''path must not contain backslashes'')
      else
        let cleanedPath = path_Clean templatePath in
        if cleanedPath = ''.'' \<or> cleanedPath = ''/'' then Err (errorf ''path must not resolve to root'')
        else if strings_HasPrefix cleanedPath ''/'' then Err (errorf ''path must be relative'')
        else if cleanedPath = ''..'' \<or> strings_HasPrefix cleanedPath ''../''
          then Err (errorf ''path must not escape root'')
        else if ''..'' \<in> set (strings_Split cleanedPath CHR ''/'')
          then Err (errorf ''path must not contain parent directory components'')
        else Ok cleanedPath)"

abbreviation validate_path :: "string \<Rightarrow> string result" where
  "validate_path p \<equiv> rmap_err (WrapError ''validate template source path %q: %w'' [ArgS p]) (validateTemplateSourcePath p)"

abbreviation err_fmt :: "string \<Rightarrow> arg list \<Rightarrow> 'a result" where
  "err_fmt s args \<equiv> Err (ErrorString (Fmt s args))"

fun normalize_loop :: "files \<Rightarrow> files \<Rightarrow> files result" where
  "normalize_loop [] normalizedFiles = Ok normalizedFiles"
| "normalize_loop ((requestedPath, content) # rest) normalizedFiles =
     rbind (validate_path requestedPath) (\<lambda>normalizedPath.
     if map_of normalizedFiles normalizedPath \<noteq> None
     then err_fmt ''duplicate normalized template source path %q'' [ArgS normalizedPath]
     else normalize_loop rest (normalizedFiles @ [(normalizedPath, content)]))"

definition normalizeFileKeys :: "files option \<Rightarrow> files result" where
  "normalizeFileKeys files =
     (case files of None \<Rightarrow> Err (assertion ''files map must not be nil'')
      | Some files \<Rightarrow> normalize_loop files [])"

subsection \<open>Archives\<close>

text \<open>
  A file header: the name, the sizes, the directory bit of the mode, and every other field
  (\<open>zh_Other\<close>: method, time, attributes, comment, extra). \<open>zf_Open\<close> is the outcome of
  \<open>Open\<close>, with the data of the reader and the errors of reading to its end and closing.
\<close>

record zip_header =
  zh_Name :: string
  zh_ModeDir :: bool
  zh_Other :: string
  zh_CompressedSize64 :: nat
  zh_UncompressedSize64 :: nat
  zh_CompressedSize :: nat
  zh_UncompressedSize :: nat

record zip_data =
  zd_Data :: string
  zd_ReadErr :: "error option"
  zd_CloseErr :: "error option"

record zip_file =
  zf_Header :: zip_header
  zf_Open :: "error + zip_data"

type_synonym zip_entries = "(zip_header \<times> string) list"

record zip_lib =
  zip_NewReader :: "string \<Rightarrow> error + zip_file option list"
  zip_CreateHeader :: "zip_entries \<Rightarrow> zip_header \<Rightarrow> error option"
  zip_Write :: "zip_entries \<Rightarrow> zip_header \<Rightarrow> string \<Rightarrow> error option"
  zip_Close :: "zip_entries \<Rightarrow> error + string"

text \<open>\<open>FileInfo().IsDir()\<close>, and the header \<open>Writer.Create\<close> makes for a name.\<close>

definition zip_IsDir :: "zip_header \<Rightarrow> bool" where
  "zip_IsDir h = (zh_ModeDir h \<or> (zh_Name h \<noteq> [] \<and> last (zh_Name h) = CHR ''/''))"

definition new_header :: "string \<Rightarrow> zip_header" where
  "new_header name = \<lparr>zh_Name = name, zh_ModeDir = False, zh_Other = ''deflate'', zh_CompressedSize64 = 0,
     zh_UncompressedSize64 = 0, zh_CompressedSize = 0, zh_UncompressedSize = 0\<rparr>"

text \<open>\<open>io.ReadAll(io.LimitReader(r, n))\<close>: an error of the reader is met only before the limit.\<close>

definition read_limited :: "nat \<Rightarrow> string \<Rightarrow> error option \<Rightarrow> error + string" where
  "read_limited n d err =
     (if length d < n then (case err of Some e \<Rightarrow> Inl e | None \<Rightarrow> Inr d) else Inr (take n d))"

text \<open>One call of \<open>CreateHeader\<close> (or \<open>Create\<close>) and \<open>Write\<close>.\<close>

definition zip_append ::
    "zip_lib \<Rightarrow> string \<Rightarrow> zip_header \<Rightarrow> string \<Rightarrow> zip_entries \<Rightarrow> zip_entries result" where
  "zip_append zl createFmt header content written =
     (case zip_CreateHeader zl written header of
        Some err \<Rightarrow> Err (WrapError createFmt [ArgS (zh_Name header)] err)
      | None \<Rightarrow>
        (case zip_Write zl written header content of
           Some err \<Rightarrow> Err (WrapError ''write zip entry %q: %w'' [ArgS (zh_Name header)] err)
         | None \<Rightarrow> Ok (written @ [(header, content)])))"

text \<open>The end of both builders: close the writer and check the size of the archive.\<close>

definition zip_finish :: "zip_lib \<Rightarrow> zip_entries \<Rightarrow> string result" where
  "zip_finish zl written =
     (case zip_Close zl written of
        Inl err \<Rightarrow> Err (WrapError ''close source zip writer: %w'' [] err)
      | Inr bytes \<Rightarrow>
        if length bytes > maxTemplateSourceZipBytes
        then err_fmt ''template source zip exceeds max size: %d > %d''
               [ArgD (int (length bytes)), ArgD (int maxTemplateSourceZipBytes)]
        else Ok bytes)"

subsection \<open>buildSourceZip\<close>

text \<open>The checks of one file's content against the limits, with the new total.\<close>

definition check_content :: "string \<Rightarrow> string \<Rightarrow> nat \<Rightarrow> nat result" where
  "check_content sourcePath content totalUncompressedBytes =
     (if \<not> utf8_Valid content
      then err_fmt ''template source file %q contains invalid UTF-8'' [ArgS sourcePath]
      else if length content > maxTemplateSourceFileBytes
      then err_fmt ''template source file %q exceeds max file size: %d > %d''
             [ArgS sourcePath, ArgD (int (length content)), ArgD (int maxTemplateSourceFileBytes)]
      else let tot = totalUncompressedBytes + length content in
      if tot > maxTemplateSourceTotalUncompressedBytes
      then err_fmt ''template source files exceed max total size: %d > %d''
             [ArgD (int tot), ArgD (int maxTemplateSourceTotalUncompressedBytes)]
      else Ok tot)"

fun source_loop :: "files \<Rightarrow> files \<Rightarrow> nat \<Rightarrow> files result" where
  "source_loop [] normalizedFiles tot = Ok normalizedFiles"
| "source_loop ((requestedPath, content) # rest) normalizedFiles tot =
     rbind (validate_path requestedPath) (\<lambda>normalizedPath.
     if map_of normalizedFiles normalizedPath \<noteq> None
     then err_fmt ''duplicate normalized template source path %q'' [ArgS normalizedPath]
     else rbind (check_content normalizedPath content tot) (\<lambda>tot'.
     source_loop rest (normalizedFiles @ [(normalizedPath, content)]) tot'))"

fun write_loop :: "zip_lib \<Rightarrow> files \<Rightarrow> string list \<Rightarrow> zip_entries \<Rightarrow> zip_entries result" where
  "write_loop zl files [] written = Ok written"
| "write_loop zl files (sourcePath # paths) written =
     rbind (zip_append zl ''create zip entry %q: %w'' (new_header sourcePath)
             (case map_of files sourcePath of None \<Rightarrow> [] | Some c \<Rightarrow> c) written) (\<lambda>written'.
     write_loop zl files paths written')"

definition buildSourceZip :: "zip_lib \<Rightarrow> files option \<Rightarrow> string result" where
  "buildSourceZip zl files =
     (case files of None \<Rightarrow> Err (assertion ''files map must not be nil'') | Some files \<Rightarrow>
      if length files > maxTemplateSourceFiles
      then err_fmt ''template source file count exceeds limit: %d > %d''
             [ArgD (int (length files)), ArgD (int maxTemplateSourceFiles)]
      else rbind (source_loop files [] 0) (\<lambda>normalizedFiles.
           rbind (write_loop zl normalizedFiles (sort (map fst normalizedFiles)) []) (zip_finish zl)))"

subsection \<open>Reading an archive\<close>

text \<open>Opening and reading one entry within the limits: its content and the new total.\<close>

definition read_entry :: "zip_file \<Rightarrow> string \<Rightarrow> nat \<Rightarrow> (string \<times> nat) result" where
  "read_entry f relativePath totalUncompressedBytes =
     (if zh_UncompressedSize64 (zf_Header f) > maxTemplateSourceFileBytes
      then err_fmt ''template source file %q exceeds max file size: %d > %d''
             [ArgS relativePath, ArgD (int (zh_UncompressedSize64 (zf_Header f))), ArgD (int maxTemplateSourceFileBytes)]
      else case zf_Open f of
        Inl err \<Rightarrow> Err (WrapError ''open template source file %q: %w'' [ArgS relativePath] err)
      | Inr reader \<Rightarrow>
        (case read_limited (maxTemplateSourceFileBytes + 1) (zd_Data reader) (zd_ReadErr reader) of
           Inl readErr \<Rightarrow> Err (WrapError ''read template source file %q: %w'' [ArgS relativePath] readErr)
         | Inr contents \<Rightarrow>
           (case zd_CloseErr reader of
              Some closeErr \<Rightarrow> Err (WrapError ''close template source file %q: %w'' [ArgS relativePath] closeErr)
            | None \<Rightarrow>
              if length contents > maxTemplateSourceFileBytes
              then err_fmt ''template source file %q exceeds max file size: %d > %d''
                     [ArgS relativePath, ArgD (int (length contents)), ArgD (int maxTemplateSourceFileBytes)]
              else let tot = totalUncompressedBytes + length contents in
              if tot > maxTemplateSourceTotalUncompressedBytes
              then err_fmt ''template source files exceed max total size: %d > %d''
                     [ArgD (int tot), ArgD (int maxTemplateSourceTotalUncompressedBytes)]
              else Ok (contents, tot))))"

fun read_loop :: "zip_file option list \<Rightarrow> files \<Rightarrow> string list \<Rightarrow> nat \<Rightarrow> files result" where
  "read_loop [] files seenPaths tot = Ok files"
| "read_loop (None # rest) files seenPaths tot =
     Err (assertion ''template source zip entry must not be nil'')"
| "read_loop (Some f # rest) files seenPaths tot =
     (if zip_IsDir (zf_Header f) then read_loop rest files seenPaths tot
      else rbind (validate_path (zh_Name (zf_Header f))) (\<lambda>relativePath.
        if relativePath \<in> set seenPaths
        then err_fmt ''duplicate normalized path %q in template source zip'' [ArgS relativePath]
        else rbind (read_entry f relativePath tot) (\<lambda>(contents, tot').
          read_loop rest (if utf8_Valid contents then files @ [(relativePath, contents)] else files)
            (seenPaths @ [relativePath]) tot')))"

text \<open>\<open>zip.NewReader\<close> and the check of the number of entries, shared by both readers.\<close>

definition open_archive :: "zip_lib \<Rightarrow> string \<Rightarrow> zip_file option list result" where
  "open_archive zl sourceZip =
     (case zip_NewReader zl sourceZip of
        Inl err \<Rightarrow> Err (WrapError ''open template source zip: %w'' [] err)
      | Inr entries \<Rightarrow>
        if length entries > maxTemplateSourceFiles
        then err_fmt ''template source zip contains too many entries: %d > %d''
               [ArgD (int (length entries)), ArgD (int maxTemplateSourceFiles)]
        else Ok entries)"

text \<open>The part of \<open>fetchTemplateSourceFiles\<close> after the download.\<close>

definition sourceFilesFromZip :: "zip_lib \<Rightarrow> string \<Rightarrow> files result" where
  "sourceFilesFromZip zl sourceZip = rbind (open_archive zl sourceZip) (\<lambda>entries. read_loop entries [] [] 0)"

subsection \<open>The download\<close>

text \<open>The response: its status, the body within the limit, the errors of reading and closing.\<close>

definition readSourceResponse :: "uuid \<Rightarrow> HttpResponse \<Rightarrow> string result" where
  "readSourceResponse fileID resp =
     (let f = [ArgS (uuid_String fileID)] in
      if resp_StatusCode resp \<noteq> 200 then
       (case resp_CloseErr resp of
          Some closeErr \<Rightarrow> Err (WrapError ''close template source zip response body for file %q: %w'' f closeErr)
        | None \<Rightarrow> Err (WrapError ''download template source zip for file %q: %w'' f (resp_BodyAsError resp)))
      else
       (case read_limited (maxTemplateSourceZipBytes + 1) (resp_Body resp) (resp_ReadErr resp) of
          Inl readErr \<Rightarrow> Err (WrapError ''read template source zip for file %q: %w'' f readErr)
        | Inr sourceZip \<Rightarrow>
          (case resp_CloseErr resp of
             Some closeErr \<Rightarrow> Err (WrapError ''close template source zip response body for file %q: %w'' f closeErr)
           | None \<Rightarrow>
             if length sourceZip > maxTemplateSourceZipBytes
             then err_fmt ''template source zip exceeds max size: %d > %d''
                    [ArgD (int (length sourceZip)), ArgD (int maxTemplateSourceZipBytes)]
             else Ok sourceZip)))"

definition fetchRawTemplateSourceZip ::
    "(SDKClient \<Rightarrow> 'b codersdk) \<Rightarrow> Context option \<Rightarrow> SDKClient option \<Rightarrow> uuid \<Rightarrow> ('b storage_state, string) op" where
  "fetchRawTemplateSourceZip api ctx sdk versionID =
     non_nil ctx (assertion ''context must not be nil'') (\<lambda>_.
     non_nil sdk (assertion ''codersdk client must not be nil'') (\<lambda>sdk.
     guard (versionID \<noteq> uuid_Nil) (assertion ''template version ID must not be nil'') (
     bind (map_err (WrapError ''fetch template version %q: %w'' [ArgS (uuid_String versionID)])
             (sdk_call (sdk_TemplateVersion (api sdk) versionID))) (\<lambda>version.
     guard (job_FileID (tv_Job version) \<noteq> uuid_Nil)
       (ErrorString (Fmt ''assertion failed: template version %q job.fileID must not be nil'' [ArgS (uuid_String versionID)])) (
     bind (map_err (WrapError ''download template source zip for file %q: %w'' [ArgS (uuid_String (job_FileID (tv_Job version)))])
             (sdk_call (sdk_RequestFile (api sdk) (job_FileID (tv_Job version))))) (\<lambda>resp.
     lift (readSourceResponse (job_FileID (tv_Job version)) resp)))))))"

definition fetchTemplateSourceFiles ::
    "zip_lib \<Rightarrow> (SDKClient \<Rightarrow> 'b codersdk) \<Rightarrow> Context option \<Rightarrow> SDKClient option \<Rightarrow> uuid
       \<Rightarrow> ('b storage_state, files) op" where
  "fetchTemplateSourceFiles zl api ctx sdk versionID =
     non_nil ctx (assertion ''context must not be nil'') (\<lambda>_.
     non_nil sdk (assertion ''codersdk client must not be nil'') (\<lambda>c.
     guard (versionID \<noteq> uuid_Nil) (assertion ''template version ID must not be nil'') (
     bind (fetchRawTemplateSourceZip api ctx sdk versionID) (\<lambda>sourceZip.
     lift (sourceFilesFromZip zl sourceZip)))))"

subsection \<open>buildMergedSourceZip\<close>

type_synonym binary_files = "(string \<times> (string \<times> zip_header)) list"

text \<open>The loop over the original archive: the headers of all its files and its binary files that are kept.\<close>

fun merge_loop ::
    "files \<Rightarrow> zip_file option list \<Rightarrow> (string \<times> zip_header) list \<Rightarrow> binary_files \<Rightarrow> nat
       \<Rightarrow> ((string \<times> zip_header) list \<times> binary_files \<times> nat) result" where
  "merge_loop desired [] originalHeaders preserved tot = Ok (originalHeaders, preserved, tot)"
| "merge_loop desired (None # rest) originalHeaders preserved tot =
     Err (assertion ''template source zip entry must not be nil'')"
| "merge_loop desired (Some f # rest) originalHeaders preserved tot =
     (if zip_IsDir (zf_Header f) then merge_loop desired rest originalHeaders preserved tot
      else rbind (validate_path (zh_Name (zf_Header f))) (\<lambda>relativePath.
        if map_of originalHeaders relativePath \<noteq> None
        then err_fmt ''duplicate normalized template source path %q'' [ArgS relativePath]
        else
        let header = (zf_Header f)\<lparr>zh_Name := relativePath\<rparr>;
            originalHeaders' = originalHeaders @ [(relativePath, header)] in
        if map_of desired relativePath \<noteq> None then merge_loop desired rest originalHeaders' preserved tot
        else rbind (read_entry f relativePath tot) (\<lambda>(contents, tot').
          if utf8_Valid contents then merge_loop desired rest originalHeaders' preserved tot'
          else if map_of preserved relativePath \<noteq> None
          then err_fmt ''duplicate normalized template source path %q'' [ArgS relativePath]
          else merge_loop desired rest originalHeaders' (preserved @ [(relativePath, (contents, header))]) tot')))"

fun check_contents :: "files \<Rightarrow> nat \<Rightarrow> nat result" where
  "check_contents [] tot = Ok tot"
| "check_contents ((sourcePath, content) # rest) tot =
     rbind (check_content sourcePath content tot) (\<lambda>tot'. check_contents rest tot')"

text \<open>The header of an overwritten file: the original one with its sizes reset.\<close>

definition reset_header :: "string \<Rightarrow> zip_header \<Rightarrow> zip_header" where
  "reset_header sourcePath h = h\<lparr>zh_Name := sourcePath, zh_CompressedSize64 := 0, zh_UncompressedSize64 := 0,
     zh_CompressedSize := 0, zh_UncompressedSize := 0\<rparr>"

fun merge_write_loop ::
    "zip_lib \<Rightarrow> files \<Rightarrow> (string \<times> zip_header) list \<Rightarrow> binary_files \<Rightarrow> string list \<Rightarrow> zip_entries
       \<Rightarrow> zip_entries result" where
  "merge_write_loop zl desired originalHeaders preserved [] written = Ok written"
| "merge_write_loop zl desired originalHeaders preserved (sourcePath # paths) written =
     rbind (case (map_of desired sourcePath, map_of preserved sourcePath) of
        (Some desiredContent, None) \<Rightarrow>
          (case map_of originalHeaders sourcePath of
             Some originalHeader \<Rightarrow>
               zip_append zl ''create zip entry %q from original header: %w''
                 (reset_header sourcePath originalHeader) desiredContent written
           | None \<Rightarrow> zip_append zl ''create zip entry %q: %w'' (new_header sourcePath) desiredContent written)
      | (None, Some (contents, header)) \<Rightarrow>
          zip_append zl ''create zip entry %q from original header: %w'' (header\<lparr>zh_Name := sourcePath\<rparr>) contents written
      | (d, p) \<Rightarrow> err_fmt ''assertion failed: expected exactly one source entry for %q (desired=%t preservedBinary=%t)''
                    [ArgS sourcePath, ArgD (of_bool (d \<noteq> None)), ArgD (of_bool (p \<noteq> None))]) (\<lambda>written'.
     merge_write_loop zl desired originalHeaders preserved paths written')"

text \<open>The second half: limits over the desired and the kept files, and the writing.\<close>

definition writeMerged ::
    "zip_lib \<Rightarrow> files \<Rightarrow> (string \<times> zip_header) list \<times> binary_files \<times> nat \<Rightarrow> string result" where
  "writeMerged zl desired st =
     (case st of (originalHeaders, preserved, tot) \<Rightarrow>
      rbind (check_contents desired tot) (\<lambda>_.
      if length desired + length preserved > maxTemplateSourceFiles
      then err_fmt ''template source file count exceeds limit: %d > %d''
             [ArgD (int (length desired + length preserved)), ArgD (int maxTemplateSourceFiles)]
      else
        (case find (\<lambda>p. map_of desired p \<noteq> None) (map fst preserved) of
           Some p \<Rightarrow> err_fmt ''assertion failed: source path %q exists in both desired and preserved maps'' [ArgS p]
         | None \<Rightarrow>
           rbind (merge_write_loop zl desired originalHeaders preserved
                    (sort (map fst desired @ map fst preserved)) []) (zip_finish zl))))"

definition buildMergedSourceZip :: "zip_lib \<Rightarrow> string option \<Rightarrow> files option \<Rightarrow> string result" where
  "buildMergedSourceZip zl originalZipBytes desiredFiles =
     (case originalZipBytes of None \<Rightarrow> Err (assertion ''original source zip bytes must not be nil'')
      | Some originalZip \<Rightarrow>
      case desiredFiles of None \<Rightarrow> Err (assertion ''desired files map must not be nil'') | Some _ \<Rightarrow>
      rbind (normalizeFileKeys desiredFiles) (\<lambda>desired.
      if length desired > maxTemplateSourceFiles
      then err_fmt ''template source file count exceeds limit: %d > %d''
             [ArgD (int (length desired)), ArgD (int maxTemplateSourceFiles)]
      else rbind (open_archive zl originalZip) (\<lambda>entries.
           rbind (merge_loop desired entries [] [] 0) (writeMerged zl desired))))"

end
