(* ===== verification/Template_Build_Wait.thy ===== *)
theory Template_Build_Wait
  imports Watch
begin

text \<open>
  Waiting for a template version build (internal/aggregated/storage/template.go, from
  \<open>templateVersionBuildTerminalError\<close> on): the configuration from the environment, the
  polling loop with its back-off and its deadline, and the mapping of its errors. The
  environment, \<open>time.ParseDuration\<close> and the clock are arguments. A context is what
  \<open>Err()\<close> answers in a state of the world; the wait context ends with the request context
  or at its own deadline. The loop has fuel: running out of it is the outcome of a call that
  does not return, and \<open>wait_loop_returns\<close> shows how much fuel is always enough.
\<close>

section \<open>Definitions\<close>

subsection \<open>Configuration\<close>

definition templateVersionBuildWaitTimeoutEnv :: string where
  "templateVersionBuildWaitTimeoutEnv = ''CODER_K8S_TEMPLATE_BUILD_WAIT_TIMEOUT''"
definition templateVersionBuildBackoffAfterEnv :: string where
  "templateVersionBuildBackoffAfterEnv = ''CODER_K8S_TEMPLATE_BUILD_BACKOFF_AFTER''"
definition templateVersionBuildInitialPollIntervalEnv :: string where
  "templateVersionBuildInitialPollIntervalEnv = ''CODER_K8S_TEMPLATE_BUILD_INITIAL_POLL_INTERVAL''"
definition templateVersionBuildMaxPollIntervalEnv :: string where
  "templateVersionBuildMaxPollIntervalEnv = ''CODER_K8S_TEMPLATE_BUILD_MAX_POLL_INTERVAL''"
definition defaultTemplateVersionBuildWaitTimeout :: duration where
  "defaultTemplateVersionBuildWaitTimeout = 25 * time_Minute"
definition defaultTemplateVersionBuildBackoffAfter :: duration where
  "defaultTemplateVersionBuildBackoffAfter = 2 * time_Minute"
definition defaultTemplateVersionBuildInitialPoll :: duration where
  "defaultTemplateVersionBuildInitialPoll = 2 * time_Second"
definition defaultTemplateVersionBuildMaxPollInterval :: duration where
  "defaultTemplateVersionBuildMaxPollInterval = 10 * time_Second"
definition MaxTemplateVersionBuildWaitTimeout :: duration where
  "MaxTemplateVersionBuildWaitTimeout = 30 * time_Minute"

record templateVersionBuildWaitConfig =
  waitTimeout :: duration
  backoffAfter :: duration
  initialPoll :: duration
  maxPollInterval :: duration

text \<open>\<open>os.Getenv\<close> and \<open>time.ParseDuration\<close>.\<close>

record environment =
  env_Getenv :: "string \<Rightarrow> string"
  env_ParseDuration :: "string \<Rightarrow> error + duration"

definition parseDurationEnvOrDefault :: "environment \<Rightarrow> string \<Rightarrow> duration \<Rightarrow> duration result" where
  "parseDurationEnvOrDefault env envName defaultValue =
     (if envName = [] then Err (assertion ''environment variable name must not be empty'')
      else
        let rawValue = strings_TrimSpace (env_Getenv env envName) in
        if rawValue = [] then Ok defaultValue
        else case env_ParseDuration env rawValue of
          Inl parseErr \<Rightarrow> Err (WrapError ''parse %s=%q: %w'' [ArgS envName, ArgS rawValue] parseErr)
        | Inr parsedValue \<Rightarrow> Ok parsedValue)"

abbreviation require :: "bool \<Rightarrow> string \<Rightarrow> arg list \<Rightarrow> 'a result \<Rightarrow> 'a result" where
  "require b m args r \<equiv> (if b then r else Err (ErrorString (Fmt m args)))"

definition loadTemplateVersionBuildWaitConfigFromEnv :: "environment \<Rightarrow> templateVersionBuildWaitConfig result" where
  "loadTemplateVersionBuildWaitConfigFromEnv env =
     rbind (parseDurationEnvOrDefault env templateVersionBuildWaitTimeoutEnv defaultTemplateVersionBuildWaitTimeout) (\<lambda>wt.
     require (wt > 0) ''assertion failed: %s must be > 0, got %s'' [ArgS templateVersionBuildWaitTimeoutEnv, ArgD wt] (
     require (wt \<le> MaxTemplateVersionBuildWaitTimeout) ''assertion failed: %s (%s) must be <= %s (%s)''
       [ArgS templateVersionBuildWaitTimeoutEnv, ArgD wt, ArgS ''aggregated API request timeout'',
        ArgD MaxTemplateVersionBuildWaitTimeout] (
     rbind (parseDurationEnvOrDefault env templateVersionBuildBackoffAfterEnv defaultTemplateVersionBuildBackoffAfter) (\<lambda>ba.
     require (ba \<ge> 0) ''assertion failed: %s must be >= 0, got %s'' [ArgS templateVersionBuildBackoffAfterEnv, ArgD ba] (
     require (ba \<le> wt) ''assertion failed: %s (%s) must be <= %s (%s)''
       [ArgS templateVersionBuildBackoffAfterEnv, ArgD ba, ArgS templateVersionBuildWaitTimeoutEnv, ArgD wt] (
     rbind (parseDurationEnvOrDefault env templateVersionBuildInitialPollIntervalEnv defaultTemplateVersionBuildInitialPoll) (\<lambda>ip.
     require (ip > 0) ''assertion failed: %s must be > 0, got %s'' [ArgS templateVersionBuildInitialPollIntervalEnv, ArgD ip] (
     rbind (parseDurationEnvOrDefault env templateVersionBuildMaxPollIntervalEnv defaultTemplateVersionBuildMaxPollInterval) (\<lambda>mp.
     require (mp > 0) ''assertion failed: %s must be > 0, got %s'' [ArgS templateVersionBuildMaxPollIntervalEnv, ArgD mp] (
     require (mp \<ge> ip) ''assertion failed: %s (%s) must be >= %s (%s)''
       [ArgS templateVersionBuildMaxPollIntervalEnv, ArgD mp, ArgS templateVersionBuildInitialPollIntervalEnv, ArgD ip] (
     Ok \<lparr>waitTimeout = wt, backoffAfter = ba, initialPoll = ip, maxPollInterval = mp\<rparr>)))))))))))"

subsection \<open>Errors\<close>

definition templateVersionBuildTerminalError_Error :: "uuid \<Rightarrow> string \<Rightarrow> string \<Rightarrow> msg result" where
  "templateVersionBuildTerminalError_Error versionID status detail =
     (if versionID = uuid_Nil
      then Panic (Lit ''assertion failed: template version build terminal error must include version ID'')
      else if status = []
      then Panic (Lit ''assertion failed: template version build terminal error must include status'')
      else Ok (Fmt ''template version %q build ended with status %q: %s''
             [ArgS (uuid_String versionID), ArgS status,
              ArgS (if detail = [] then ''template version build did not succeed'' else detail)]))"

definition templateVersionBuildWaitTimeoutError_Error ::
    "uuid \<Rightarrow> duration \<Rightarrow> string \<Rightarrow> string \<Rightarrow> error \<Rightarrow> msg result" where
  "templateVersionBuildWaitTimeoutError_Error versionID timeout lastStatus lastError cause =
     (if versionID = uuid_Nil
      then Panic (Lit ''assertion failed: template version build timeout error must include version ID'')
      else if timeout \<le> 0
      then Panic (Lit ''assertion failed: template version build timeout error must include positive timeout'')
      else if lastStatus = []
      then Panic (Lit ''assertion failed: template version build timeout error must include last status'')
      else if lastError = []
      then Ok (Fmt ''template version %q did not succeed within %s (last status: %q): %v''
             [ArgS (uuid_String versionID), ArgD timeout, ArgS lastStatus, ArgV cause])
      else Ok (Fmt ''template version %q did not succeed within %s (last status: %q, last error: %s): %v''
             [ArgS (uuid_String versionID), ArgD timeout, ArgS lastStatus, ArgS lastError, ArgV cause]))"

text \<open>\<open>errors.Is\<close> against a sentinel, and \<open>errors.As\<close> for the two error types, along the chain.\<close>

fun errors_Is :: "error \<Rightarrow> error \<Rightarrow> bool" where
  "errors_Is (WrapError f a e) target = (WrapError f a e = target \<or> errors_Is e target)"
| "errors_Is e target = (e = target)"

fun as_build_error :: "error \<Rightarrow> error option" where
  "as_build_error (WrapError _ _ e) = as_build_error e"
| "as_build_error (BuildTerminalError v s d) = Some (BuildTerminalError v s d)"
| "as_build_error (BuildWaitTimeoutError v t s e c) = Some (BuildWaitTimeoutError v t s e c)"
| "as_build_error _ = None"

text \<open>\<open>NewInternalError\<close> also calls \<open>Error\<close> on the error it is given.\<close>

definition mapTemplateVersionBuildWaitError :: "error \<Rightarrow> string \<Rightarrow> error result" where
  "mapTemplateVersionBuildWaitError waitErr templateName =
     (if templateName = [] then Ok (assertion ''template name must not be empty'')
      else case as_build_error waitErr of
        Some (BuildTerminalError v s d) \<Rightarrow>
          rbind (templateVersionBuildTerminalError_Error v s d) (\<lambda>m. Ok (bad_request m))
      | Some (BuildWaitTimeoutError v t s e cause) \<Rightarrow>
          if errors_Is cause WaitTimeoutExceeded
          then rbind (templateVersionBuildWaitTimeoutError_Error v t s e cause) (\<lambda>m. Ok (bad_request m))
          else if errors_Is cause ContextDeadlineExceeded \<or> errors_Is cause ContextCanceled
          then rbind (templateVersionBuildWaitTimeoutError_Error v t s e cause) (\<lambda>m.
                 Ok (StatusError (NewTimeoutError m 0)))
          else rbind (templateVersionBuildWaitTimeoutError_Error v t s e cause) (\<lambda>_.
                 Ok (StatusError (NewInternalError (BuildWaitTimeoutError v t s e cause))))
      | _ \<Rightarrow> Ok (MapCoderError waitErr codertemplates templateName))"

subsection \<open>The loop\<close>

text \<open>
  The clock and the contexts: the time in a state (readings without a call between them
  agree), the error of the request context, and the select on the wait context (with its deadline) and a timer, which answers whether the
  context was done and in which state the select returned.
\<close>

record 'b clock =
  clk_Now :: "'b \<Rightarrow> gotime"
  clk_CtxErr :: "'b \<Rightarrow> error option"
  clk_Select :: "gotime \<Rightarrow> duration \<Rightarrow> 'b \<Rightarrow> bool \<times> 'b"

text \<open>The wait context ends with the request context or at the deadline.\<close>

definition wait_Err :: "'b clock \<Rightarrow> gotime \<Rightarrow> 'b \<Rightarrow> error option" where
  "wait_Err clk deadline b =
     (case clk_CtxErr clk b of Some e \<Rightarrow> Some e
      | None \<Rightarrow> if deadline \<le> clk_Now clk b then Some ContextDeadlineExceeded else None)"

text \<open>The arguments are the errors of the two contexts; the outer \<open>None\<close> is a nil context.\<close>

definition templateVersionBuildWaitTimeoutCause :: "error option option \<Rightarrow> error option option \<Rightarrow> error result" where
  "templateVersionBuildWaitTimeoutCause requestCtx waitCtx =
     (case requestCtx of None \<Rightarrow> Err (assertion ''request context must not be nil'') | Some requestErr \<Rightarrow>
      case waitCtx of None \<Rightarrow> Err (assertion ''wait context must not be nil'') | Some waitErr \<Rightarrow>
      case waitErr of None \<Rightarrow> Err (assertion ''wait context finished without an error'') | Some waitErr \<Rightarrow>
      case requestErr of Some requestErr \<Rightarrow> Ok requestErr | None \<Rightarrow>
      if errors_Is waitErr ContextDeadlineExceeded then Ok WaitTimeoutExceeded
      else Ok waitErr)"

definition return_timeout ::
    "'b clock \<Rightarrow> gotime \<Rightarrow> uuid \<Rightarrow> duration \<Rightarrow> string \<Rightarrow> string \<Rightarrow> ('b storage_state, unit) op" where
  "return_timeout clk deadline versionID effectiveWaitTimeout lastStatus lastError =
     bind (read_backend (\<lambda>b. templateVersionBuildWaitTimeoutCause (Some (clk_CtxErr clk b)) (Some (wait_Err clk deadline b)))) (\<lambda>cause.
     fail (BuildWaitTimeoutError versionID effectiveWaitTimeout lastStatus lastError cause))"

definition next_poll :: "templateVersionBuildWaitConfig \<Rightarrow> duration \<Rightarrow> duration \<Rightarrow> duration" where
  "next_poll cfg since pollInterval =
     (if backoffAfter cfg > 0 \<and> since \<ge> backoffAfter cfg \<and> pollInterval < maxPollInterval cfg then
        let nextPollInterval = wrap64 (pollInterval * 2) in
        if nextPollInterval \<le> 0 \<or> nextPollInterval > maxPollInterval cfg then maxPollInterval cfg
        else nextPollInterval
      else pollInterval)"

definition select_wait :: "'b clock \<Rightarrow> gotime \<Rightarrow> duration \<Rightarrow> ('b storage_state, bool) op" where
  "select_wait clk deadline pollInterval w =
     (case clk_Select clk deadline pollInterval (backend w) of (d, b) \<Rightarrow> (Ok d, w\<lparr>backend := b\<rparr>))"

text \<open>
  An SDK request made with the wait context: \<open>net/http\<close> does not send a request whose context is
  done, it returns the error of the context.
\<close>

definition with_wait_ctx :: "'b clock \<Rightarrow> gotime \<Rightarrow> ('b, 'a) call \<Rightarrow> ('b, 'a) call" where
  "with_wait_ctx clk deadline c b =
     (case wait_Err clk deadline b of Some e \<Rightarrow> (Inl (WrapError ''execute request: %w'' [] e), b) | None \<Rightarrow> c b)"

datatype poll_status = Succeeded | Terminal | Polling | Unexpected

definition classify :: "string \<Rightarrow> poll_status" where
  "classify status =
     (if status = ''succeeded'' then Succeeded
      else if status \<in> {''failed'', ''canceled''} then Terminal
      else if status \<in> {''pending'', ''running'', ''canceling'', ''unknown''} then Polling
      else Unexpected)"

fun wait_loop ::
    "nat \<Rightarrow> 'b clock \<Rightarrow> 'b codersdk \<Rightarrow> uuid \<Rightarrow> templateVersionBuildWaitConfig \<Rightarrow> duration \<Rightarrow> gotime \<Rightarrow> gotime
       \<Rightarrow> duration \<Rightarrow> string \<Rightarrow> string \<Rightarrow> ('b storage_state, unit) op" where
  "wait_loop 0 clk sdk v cfg eff deadline start poll lastStatus lastError = panic (Lit ''does not return'')"
| "wait_loop (Suc fuel) clk sdk v cfg eff deadline start poll lastStatus lastError =
     handle (sdk_call (with_wait_ctx clk deadline (sdk_TemplateVersion sdk v)))
       (\<lambda>err. bind (read_backend (\<lambda>b. Ok (wait_Err clk deadline b))) (\<lambda>waitErr.
          if waitErr \<noteq> None then return_timeout clk deadline v eff lastStatus lastError
          else fail (WrapError ''fetch template version %q: %w'' [ArgS (uuid_String v)] err)))
       (\<lambda>version.
          let status = (if job_Status (tv_Job version) = [] then ''unknown'' else job_Status (tv_Job version));
              lastErr = job_Error (tv_Job version) in
          case classify status of
            Succeeded \<Rightarrow> ret ()
          | Terminal \<Rightarrow> fail (BuildTerminalError v status
              (if lastErr = [] then ''template version build did not succeed'' else lastErr))
          | Unexpected \<Rightarrow> fail (ErrorString
              (Fmt ''assertion failed: unexpected template version build status %q for version %q''
                 [ArgS status, ArgS (uuid_String v)]))
          | Polling \<Rightarrow>
              bind (read_backend (\<lambda>b. Ok (next_poll cfg (time_Sub (clk_Now clk b) start) poll))) (\<lambda>poll'.
              bind (select_wait clk deadline poll') (\<lambda>d.
              if d then return_timeout clk deadline v eff status lastErr
              else wait_loop fuel clk sdk v cfg eff deadline start poll' status lastErr)))"

text \<open>\<open>effectiveWaitTimeout\<close>: the configured timeout, or what remains of the request if that is less.\<close>

definition effective_timeout :: "templateVersionBuildWaitConfig \<Rightarrow> gotime option \<Rightarrow> gotime \<Rightarrow> duration" where
  "effective_timeout cfg deadline now =
     (case deadline of None \<Rightarrow> waitTimeout cfg | Some requestDeadline \<Rightarrow>
      (let remaining = time_Sub requestDeadline now in
       if remaining > 0 \<and> remaining < waitTimeout cfg then remaining else waitTimeout cfg))"

definition waitForTemplateVersionBuild ::
    "nat \<Rightarrow> environment \<Rightarrow> 'b clock \<Rightarrow> (SDKClient \<Rightarrow> 'b codersdk) \<Rightarrow> Context option \<Rightarrow> SDKClient option \<Rightarrow> uuid
       \<Rightarrow> ('b storage_state, unit) op" where
  "waitForTemplateVersionBuild fuel env clk api ctx sdk versionID =
     non_nil ctx (assertion ''context must not be nil'') (\<lambda>c.
     non_nil sdk (assertion ''codersdk client must not be nil'') (\<lambda>sdk.
     guard (versionID \<noteq> uuid_Nil) (assertion ''template version ID must not be nil'') (
     bind (lift (loadTemplateVersionBuildWaitConfigFromEnv env)) (\<lambda>cfg.
     bind (read_backend (\<lambda>b. Ok (clk_Now clk b))) (\<lambda>now.
     let eff = effective_timeout cfg (ctx_Deadline c) now in
     wait_loop fuel clk (api sdk) versionID cfg eff (now + eff) now (initialPoll cfg) ''unknown'' [])))))"

section \<open>Specifications\<close>

definition config_ok :: "templateVersionBuildWaitConfig \<Rightarrow> bool" where
  "config_ok cfg \<longleftrightarrow> 0 < waitTimeout cfg \<and> waitTimeout cfg \<le> MaxTemplateVersionBuildWaitTimeout \<and>
     0 \<le> backoffAfter cfg \<and> backoffAfter cfg \<le> waitTimeout cfg \<and>
     0 < initialPoll cfg \<and> initialPoll cfg \<le> maxPollInterval cfg"

text \<open>
  The documented behaviour of the clock and of select: time does not run backwards, a timer
  fires after its duration, and a done context has an error.
\<close>

definition clock_ok :: "'b clock \<Rightarrow> 'b codersdk \<Rightarrow> gotime \<Rightarrow> uuid \<Rightarrow> bool" where
  "clock_ok clk sdk deadline v \<longleftrightarrow>
     (\<forall>b. clk_Now clk b \<le> clk_Now clk (snd (sdk_TemplateVersion sdk v b))) \<and>
     (\<forall>d b. 0 < d \<longrightarrow> (if fst (clk_Select clk deadline d b) then wait_Err clk deadline (snd (clk_Select clk deadline d b)) \<noteq> None
        else clk_Now clk b + d \<le> clk_Now clk (snd (clk_Select clk deadline d b))))"

text \<open>The errors the wait can return, for which the mapping has a meaning.\<close>

definition wait_error_ok :: "uuid \<Rightarrow> error \<Rightarrow> bool" where
  "wait_error_ok v e \<longleftrightarrow> (case as_build_error e of
       Some (BuildTerminalError v' s d) \<Rightarrow> v' = v \<and> s \<in> {''failed'', ''canceled''}
     | Some (BuildWaitTimeoutError v' t s m c) \<Rightarrow> v' = v \<and> 0 < t \<and> s \<noteq> []
     | _ \<Rightarrow> True)"

definition sdk_errors_ok :: "'b codersdk \<Rightarrow> uuid \<Rightarrow> bool" where
  "sdk_errors_ok sdk v \<longleftrightarrow> (\<forall>b b' e. sdk_TemplateVersion sdk v b = (Inl e, b') \<longrightarrow> as_build_error e = None)"

section \<open>Lemmas\<close>

subsection \<open>Configuration and back-off\<close>

lemma parseDuration_no_panic [simp]: "\<not> is_panic (parseDurationEnvOrDefault env n d)"
  by (simp add: parseDurationEnvOrDefault_def Let_def split: sum.split)

lemma load_no_panic [simp]: "\<not> is_panic (loadTemplateVersionBuildWaitConfigFromEnv env)"
  by (simp add: loadTemplateVersionBuildWaitConfigFromEnv_def is_panic_rbind)

lemma load_config_ok: "loadTemplateVersionBuildWaitConfigFromEnv env = Ok cfg \<Longrightarrow> config_ok cfg"
  by (auto simp: loadTemplateVersionBuildWaitConfigFromEnv_def rbind_eq_Ok config_ok_def split: if_splits)

lemma load_defaults:
  assumes "\<And>n. strings_TrimSpace (env_Getenv env n) = []"
  shows "loadTemplateVersionBuildWaitConfigFromEnv env =
    Ok \<lparr>waitTimeout = 25 * time_Minute, backoffAfter = 2 * time_Minute, initialPoll = 2 * time_Second,
        maxPollInterval = 10 * time_Second\<rparr>"
proof -
  have "parseDurationEnvOrDefault env n d = Ok d" if "n \<noteq> []" for n d
    using that assms by (simp add: parseDurationEnvOrDefault_def)
  then show ?thesis
    by (simp add: loadTemplateVersionBuildWaitConfigFromEnv_def templateVersionBuildWaitTimeoutEnv_def
        templateVersionBuildBackoffAfterEnv_def templateVersionBuildInitialPollIntervalEnv_def
        templateVersionBuildMaxPollIntervalEnv_def defaultTemplateVersionBuildWaitTimeout_def
        defaultTemplateVersionBuildBackoffAfter_def defaultTemplateVersionBuildInitialPoll_def
        defaultTemplateVersionBuildMaxPollInterval_def MaxTemplateVersionBuildWaitTimeout_def
        time_Minute_def time_Second_def)
qed

lemma next_poll_bounds:
  assumes "0 < p" "p \<le> maxPollInterval cfg" "is_int64 (maxPollInterval cfg)"
  shows "p \<le> next_poll cfg s p \<and> next_poll cfg s p \<le> maxPollInterval cfg"
proof (cases "is_int64 (p * 2)")
  case True
  then have "wrap64 (p * 2) = p * 2" by (rule wrap64_id)
  with assms show ?thesis by (auto simp: next_poll_def Let_def)
next
  case False
  with assms have "2 ^ 63 \<le> p * 2" "p * 2 < 2 ^ 64" by (auto simp: is_int64_def)
  define y where "y = p * 2 - 2 ^ 63"
  have y: "0 \<le> y" "y < 2 ^ 64" "p * 2 + 2 ^ 63 = y + 2 ^ 64"
    using \<open>2 ^ 63 \<le> p * 2\<close> \<open>p * 2 < 2 ^ 64\<close> by (simp_all add: y_def)
  have "(y + 2 ^ 64) mod 2 ^ 64 = y"
    unfolding mod_add_self2 by (rule mod_pos_pos_trivial [OF y(1,2)])
  then have "wrap64 (p * 2) = y - 2 ^ 63" unfolding wrap64_def y(3) by simp
  with \<open>p * 2 < 2 ^ 64\<close> have "wrap64 (p * 2) \<le> 0" by (simp add: y_def)
  with assms show ?thesis by (auto simp: next_poll_def Let_def)
qed

text \<open>The effective timeout is positive and at most the configured one.\<close>

lemma effective_bounds:
  "config_ok cfg \<Longrightarrow> 0 < effective_timeout cfg d now \<and> effective_timeout cfg d now \<le> waitTimeout cfg"
  by (auto simp: effective_timeout_def config_ok_def Let_def split: option.split)

subsection \<open>Running the loop\<close>

lemma return_timeout_cases:
  "(\<exists>e. return_timeout clk dl v eff s m w = (Err e, w)) \<and> \<not> is_panic (fst (return_timeout clk dl v eff s m w))"
  by (auto simp: return_timeout_def bind_def read_backend_def templateVersionBuildWaitTimeoutCause_def
      split: option.splits)

lemma return_timeout_no_panic [simp]: "\<not> is_panic (fst (return_timeout clk dl v eff s m w))"
  using return_timeout_cases by blast

lemma return_timeout_ok:
  assumes "return_timeout clk dl v eff s m w = (Err e, w')" "0 < eff" "s \<noteq> []"
  shows "wait_error_ok v e"
  using assms
  by (auto simp: return_timeout_def bind_def read_backend_def templateVersionBuildWaitTimeoutCause_def
      wait_error_ok_def split: option.splits if_splits)

lemma with_wait_ctx_Inr: "with_wait_ctx clk dl c b = (Inr x, b') \<Longrightarrow> c b = (Inr x, b')"
  by (auto simp: with_wait_ctx_def split: option.splits)

text \<open>One iteration, by the outcome of the call.\<close>

lemma wait_loop_Inl:
  assumes "with_wait_ctx clk dl (sdk_TemplateVersion sdk v) (backend w) = (Inl err, b)"
  shows "wait_loop (Suc k) clk sdk v cfg eff dl st p s m w =
    (if wait_Err clk dl b \<noteq> None then return_timeout clk dl v eff s m (w\<lparr>backend := b\<rparr>)
     else (Err (WrapError ''fetch template version %q: %w'' [ArgS (uuid_String v)] err), w\<lparr>backend := b\<rparr>))"
  using assms by (simp add: handle_def sdk_call_run bind_def read_backend_def)

definition version_status :: "TemplateVersion \<Rightarrow> string" where
  "version_status x = (if job_Status (tv_Job x) = [] then ''unknown'' else job_Status (tv_Job x))"

lemma wait_loop_Inr:
  assumes "with_wait_ctx clk dl (sdk_TemplateVersion sdk v) (backend w) = (Inr x, b)" and p': "next_poll cfg (time_Sub (clk_Now clk b) st) p = p'"
  shows "wait_loop (Suc k) clk sdk v cfg eff dl st p s m w =
    (case classify (version_status x) of
       Succeeded \<Rightarrow> (Ok (), w\<lparr>backend := b\<rparr>)
     | Terminal \<Rightarrow> (Err (BuildTerminalError v (version_status x)
         (if job_Error (tv_Job x) = [] then ''template version build did not succeed'' else job_Error (tv_Job x))), w\<lparr>backend := b\<rparr>)
     | Unexpected \<Rightarrow> (Err (ErrorString (Fmt ''assertion failed: unexpected template version build status %q for version %q''
         [ArgS (version_status x), ArgS (uuid_String v)])), w\<lparr>backend := b\<rparr>)
     | Polling \<Rightarrow> (case clk_Select clk dl p' b of (d, b2) \<Rightarrow>
         if d then return_timeout clk dl v eff (version_status x) (job_Error (tv_Job x)) (w\<lparr>backend := b2\<rparr>)
         else wait_loop k clk sdk v cfg eff dl st p' (version_status x) (job_Error (tv_Job x)) (w\<lparr>backend := b2\<rparr>)))"
  using assms(1)
  by (simp add: handle_def sdk_call_run bind_def read_backend_def Let_def version_status_def [symmetric] p'
      select_wait_def split: poll_status.split prod.split)

declare wait_loop.simps(2) [simp del]

lemma wait_loop_returns:
  assumes clock: "clock_ok clk sdk dl v" and cfg: "config_ok cfg" "is_int64 (maxPollInterval cfg)"
    and p: "initialPoll cfg \<le> p" "p \<le> maxPollInterval cfg"
    and fuel: "dl - clk_Now clk (backend w) \<le> int k * initialPoll cfg"
  shows "\<not> is_panic (fst (wait_loop (Suc k) clk sdk v cfg eff dl st p s m w))"
  using p fuel
proof (induction k arbitrary: w p s m)
  case 0
  then have "wait_Err clk dl (backend w) \<noteq> None" by (simp add: wait_Err_def split: option.split)
  then obtain e b where "with_wait_ctx clk dl (sdk_TemplateVersion sdk v) (backend w) = (Inl e, b)"
    by (auto simp: with_wait_ctx_def)
  then show ?case by (simp add: wait_loop_Inl)
next
  case (Suc k)
  obtain r b where call: "with_wait_ctx clk dl (sdk_TemplateVersion sdk v) (backend w) = (r, b)" by force
  show ?case
  proof (cases r)
    case (Inl e)
    with call show ?thesis by (simp add: wait_loop_Inl)
  next
    case (Inr x)
    let ?p = "next_poll cfg (time_Sub (clk_Now clk b) st) p"
    have bounds: "p \<le> ?p" "?p \<le> maxPollInterval cfg"
      using next_poll_bounds [of p cfg] Suc.prems cfg by (auto simp: config_ok_def)
    obtain d b2 where sel: "clk_Select clk dl ?p b = (d, b2)" by force
    have "clk_Now clk b + ?p \<le> clk_Now clk b2" if "\<not> d"
      using clock sel that bounds(1) Suc.prems(1) cfg(1) unfolding clock_ok_def config_ok_def
      by (metis fst_conv snd_conv order.strict_trans2 order.trans)
    moreover have "clk_Now clk (backend w) \<le> clk_Now clk b"
      using clock call with_wait_ctx_Inr [of clk dl "sdk_TemplateVersion sdk v" "backend w" x b] Inr
      unfolding clock_ok_def by (metis snd_conv)
    ultimately have "dl - clk_Now clk b2 \<le> int k * initialPoll cfg" if "\<not> d"
      using that Suc.prems(1,3) bounds(1) by (auto simp: algebra_simps)
    then have "\<not> d \<Longrightarrow> \<not> is_panic (fst (wait_loop (Suc k) clk sdk v cfg eff dl st ?p s' m' (w\<lparr>backend := b2\<rparr>)))" for s' m'
      using Suc.IH [of ?p "w\<lparr>backend := b2\<rparr>" s' m'] bounds Suc.prems(1) by simp
    then show ?thesis
      using call Inr sel by (simp add: wait_loop_Inr [OF _ refl] split: poll_status.split)
  qed
qed

lemma wait_loop_fuel:
  "\<not> is_panic (fst (wait_loop k clk sdk v cfg eff dl st p s m w)) \<Longrightarrow>
     wait_loop (Suc k) clk sdk v cfg eff dl st p s m w = wait_loop k clk sdk v cfg eff dl st p s m w"
proof (induction k arbitrary: w p s m)
  case (Suc k)
  obtain r b where call: "with_wait_ctx clk dl (sdk_TemplateVersion sdk v) (backend w) = (r, b)" by force
  show ?case
  proof (cases r)
    case (Inl e)
    with call show ?thesis by (simp add: wait_loop_Inl)
  next
    case (Inr x)
    with call Suc show ?thesis by (auto simp: wait_loop_Inr [OF _ refl] split: poll_status.splits prod.splits)
  qed
qed simp

lemma wait_loop_Ok:
  assumes "wait_loop k clk sdk v cfg eff dl st p s m w = (Ok u, w')"
  shows "\<exists>b x b'. sdk_TemplateVersion sdk v b = (Inr x, b') \<and> job_Status (tv_Job x) = ''succeeded'' \<and> w' = w\<lparr>backend := b'\<rparr>"
  using assms
proof (induction k arbitrary: w p s m)
  case (Suc k)
  obtain r b where call: "with_wait_ctx clk dl (sdk_TemplateVersion sdk v) (backend w) = (r, b)" by force
  show ?case
  proof (cases r)
    case (Inl e)
    with call Suc.prems return_timeout_cases [of clk dl v eff s m "w\<lparr>backend := b\<rparr>"] show ?thesis
      by (auto simp: wait_loop_Inl split: if_splits)
  next
    case (Inr x)
    obtain d b2 where sel: "clk_Select clk dl (next_poll cfg (time_Sub (clk_Now clk b) st) p) b = (d, b2)" by force
    show ?thesis
    proof (cases "classify (version_status x)")
      case Succeeded
      then have "job_Status (tv_Job x) = ''succeeded''"
        by (auto simp: classify_def version_status_def split: if_splits)
      with Succeeded call Inr Suc.prems show ?thesis
        by (auto simp: wait_loop_Inr [OF _ refl] dest!: with_wait_ctx_Inr)
    next
      case Polling
      with call Inr Suc.prems sel return_timeout_cases [of clk dl v eff "version_status x" "job_Error (tv_Job x)" "w\<lparr>backend := b2\<rparr>"]
      have "wait_loop k clk sdk v cfg eff dl st (next_poll cfg (time_Sub (clk_Now clk b) st) p) (version_status x)
          (job_Error (tv_Job x)) (w\<lparr>backend := b2\<rparr>) = (Ok u, w')"
        by (auto simp: wait_loop_Inr [OF _ refl] split: if_splits)
      from Suc.IH [OF this] show ?thesis by simp
    qed (use call Inr Suc.prems in \<open>simp_all add: wait_loop_Inr [OF _ refl]\<close>)
  qed
qed simp

lemma wait_loop_Err:
  assumes "wait_loop k clk sdk v cfg eff dl st p s m w = (Err e, w')" "0 < eff" "s \<noteq> []" "sdk_errors_ok sdk v"
  shows "wait_error_ok v e"
  using assms(1,3)
proof (induction k arbitrary: w p s m)
  case (Suc k)
  obtain r b where call: "with_wait_ctx clk dl (sdk_TemplateVersion sdk v) (backend w) = (r, b)" by force
  show ?case
  proof (cases r)
    case (Inl err)
    have "as_build_error err = None" if "wait_Err clk dl b = None"
      using call Inl that assms(4)
      by (auto simp: with_wait_ctx_def sdk_errors_ok_def split: option.splits)
    with Inl call Suc.prems return_timeout_ok [OF _ assms(2) Suc.prems(2)] show ?thesis
      by (fastforce simp: wait_loop_Inl wait_error_ok_def split: if_splits)
  next
    case (Inr x)
    have s: "version_status x \<noteq> []" by (simp add: version_status_def)
    show ?thesis
      using call Inr Suc.prems(1) Suc.IH [OF _ s] return_timeout_ok [OF _ assms(2) s]
      by (auto simp: wait_loop_Inr [OF _ refl] wait_error_ok_def classify_def split: poll_status.splits prod.splits if_splits)
  qed
qed simp

end
