(* ===== verification/Template_Storage.thy ===== *)
theory Template_Storage
  imports Workspace_Storage Template_Files Template_Build_Wait
begin

text \<open>
  The storage of CoderTemplate objects (internal/aggregated/storage/template.go): all REST
  handlers, written in the order of their checks and calls. \<open>runtime_env\<close> bundles what the
  handlers take from outside the program besides the SDK: the archive library, the
  environment, the clock, and the fuel of the wait loop.
\<close>

section \<open>Definitions\<close>

record 'b runtime_env =
  rt_zip :: zip_lib
  rt_env :: environment
  rt_clock :: "'b clock"
  rt_fuel :: nat

subsection \<open>Get, List, Watch\<close>

definition TemplateStorage_Get ::
    "'b runtime_env \<Rightarrow> (SDKClient \<Rightarrow> 'b codersdk) \<Rightarrow> 'b Storage option \<Rightarrow> Context option \<Rightarrow> string
       \<Rightarrow> ('b storage_state, CoderTemplate) op" where
  "TemplateStorage_Get rt api s ctx name =
     non_nil s (assertion ''template storage must not be nil'') (\<lambda>s.
     non_nil ctx (assertion ''context must not be nil'') (\<lambda>_.
     guard (name \<noteq> []) (assertion ''template name must not be empty'') (
     bind (lift (requiredNamespaceFromRequestContext ctx)) (\<lambda>ns.
     bind (map_err (\<lambda>err. bad_request (Fmt ''invalid template name %q: %v'' [ArgS name, ArgV err]))
             (lift (ParseTemplateName name))) (\<lambda>(orgName, templateName).
     bind (map_err wrapClientError (clientForNamespace ''template'' s ctx ns)) (\<lambda>sdk.
     bind (map_coder codertemplates name (sdk_call (sdk_OrganizationByName (api sdk) orgName))) (\<lambda>orgID.
     bind (map_coder codertemplates name (sdk_call (sdk_TemplateByName (api sdk) orgID templateName))) (\<lambda>template.
     bind (lift (TemplateToK8s ns template)) (\<lambda>obj.
     bind (map_err (WrapError ''fetch template source files: %w'' [])
             (fetchTemplateSourceFiles (rt_zip rt) api ctx (Some sdk) (t_ActiveVersionID template))) (\<lambda>files.
     ret (obj\<lparr>ct_spec := (ct_spec obj)\<lparr>tsp_Files := Some files\<rparr>\<rparr>)))))))))))"

definition template_list_call ::
    "(SDKClient \<Rightarrow> 'b codersdk) \<Rightarrow> SDKClient \<Rightarrow> ('b storage_state, Template list) op" where
  "template_list_call api sdk = map_coder codertemplates ''<list>'' (sdk_call (sdk_Templates (api sdk)))"

definition TemplateStorage_List ::
    "(SDKClient \<Rightarrow> 'b codersdk) \<Rightarrow> 'b Storage option \<Rightarrow> Context option
       \<Rightarrow> ('b storage_state, CoderTemplateList) op" where
  "TemplateStorage_List api s ctx =
     non_nil s (assertion ''template storage must not be nil'') (\<lambda>s.
     non_nil ctx (assertion ''context must not be nil'') (\<lambda>_.
     bind (lift (namespaceFromRequestContext ctx)) (\<lambda>ns.
     let mk = (\<lambda>items. \<lparr>ctl_type = \<lparr>Kind = ''CoderTemplateList'', APIVersion = SchemeGroupVersion\<rparr>,
                        ctl_Items = items\<rparr>);
         lister = (if ns = [] then Option.bind (st_provider s) prov_NamespaceLister else None) in
     case lister of
       Some eligibleNamespaces \<Rightarrow>
         bind (read_backend (eligibleNamespaces ctx)) (\<lambda>namespaces.
         bind (list_namespaces (clientForNamespace ''template'' s ctx) (template_list_call api)
                 TemplateToK8s namespaces) (\<lambda>items.
         ret (mk (sort_by_meta ct_meta items))))
     | None \<Rightarrow>
         bind (namespaceForListConversion ctx ns (st_provider s)) (\<lambda>responseNamespace.
         bind (map_err wrapClientError (clientForNamespace ''template'' s ctx ns)) (\<lambda>sdk.
         bind (template_list_call api sdk) (\<lambda>templates.
         bind (lift (convert_all (TemplateToK8s responseNamespace) templates)) (\<lambda>items.
         ret (mk items))))))))"

definition TemplateStorage_Watch ::
    "('b, unit option) call \<Rightarrow> 'b Storage option \<Rightarrow> Context option \<Rightarrow> ListOptions option
       \<Rightarrow> ('b storage_state, watch_handle) op" where
  "TemplateStorage_Watch broadcaster_Watch s ctx opts = storage_Watch ''template'' broadcaster_Watch s ctx opts"

subsection \<open>Create\<close>

definition ProvisionerStorageMethodFile :: string where "ProvisionerStorageMethodFile = ''file''"
definition ProvisionerTypeTerraform :: string where "ProvisionerTypeTerraform = ''terraform''"

text \<open>The request for the template: from an uploaded archive, or from an existing version.\<close>

definition template_create_request ::
    "'b runtime_env \<Rightarrow> (SDKClient \<Rightarrow> 'b codersdk) \<Rightarrow> SDKClient \<Rightarrow> uuid \<Rightarrow> CoderTemplate \<Rightarrow> string
       \<Rightarrow> ('b storage_state, CreateTemplateRequest) op" where
  "template_create_request rt api sdk orgID templateObj templateName =
     (case tsp_Files (ct_spec templateObj) of
        Some files \<Rightarrow>
          bind (map_err (\<lambda>err. bad_request (Fmt ''invalid template spec.files: %v'' [ArgV err]))
                  (lift (buildSourceZip (rt_zip rt) (Some files)))) (\<lambda>zipBytes.
          bind (map_coder codertemplates (Name (ct_meta templateObj)) (sdk_call (sdk_Upload (api sdk) zipBytes))) (\<lambda>fileID.
          bind (map_coder codertemplates (Name (ct_meta templateObj))
                  (sdk_call (sdk_CreateTemplateVersion (api sdk) orgID
                     \<lparr>ctv_TemplateID = uuid_Nil, ctv_StorageMethod = ProvisionerStorageMethodFile, ctv_FileID = fileID,
                      ctv_Provisioner = ProvisionerTypeTerraform\<rparr>))) (\<lambda>templateVersion.
          ret \<lparr>ctr_Name = templateName, ctr_VersionID = tv_ID templateVersion,
               ctr_DisplayName = tsp_DisplayName (ct_spec templateObj),
               ctr_Description = tsp_Description (ct_spec templateObj), ctr_Icon = tsp_Icon (ct_spec templateObj)\<rparr>)))
      | None \<Rightarrow>
          map_err (\<lambda>err. bad_request (Fmt ''%v'' [ArgV err]))
            (lift (TemplateCreateRequestFromK8s (Some templateObj) templateName)))"

definition TemplateStorage_Create ::
    "'b runtime_env \<Rightarrow> (SDKClient \<Rightarrow> 'b codersdk) \<Rightarrow> 'b Storage option \<Rightarrow> Context option \<Rightarrow> runtime_Object option
       \<Rightarrow> 'b validate \<Rightarrow> ('b storage_state, CoderTemplate) op" where
  "TemplateStorage_Create rt api s ctx obj createValidation =
     non_nil s (assertion ''template storage must not be nil'') (\<lambda>st.
     non_nil ctx (assertion ''context must not be nil'') (\<lambda>_.
     non_nil obj (assertion ''object must not be nil'') (\<lambda>robj.
     non_nil (st_broadcaster st) (assertion ''template broadcaster must not be nil'') (\<lambda>_.
     as_template (Some robj) (\<lambda>t. bad_request (Fmt ''expected *CoderTemplate, got %T'' [ArgS t])) (\<lambda>templateObj.
     bind (run_validate createValidation robj) (\<lambda>_.
     guard (Name (ct_meta templateObj) \<noteq> []) (bad_request (Lit ''metadata.name must not be empty'')) (
     bind (lift (requiredNamespaceFromRequestContext ctx)) (\<lambda>ns.
     guard (Namespace (ct_meta templateObj) = [] \<or> Namespace (ct_meta templateObj) = ns)
       (bad_request (Fmt ''metadata.namespace %q must match request namespace %q''
          [ArgS (Namespace (ct_meta templateObj)), ArgS ns])) (
     bind (map_err (\<lambda>err. bad_request (Fmt ''invalid template name %q: %v'' [ArgS (Name (ct_meta templateObj)), ArgV err]))
             (lift (ParseTemplateName (Name (ct_meta templateObj))))) (\<lambda>(orgName, templateName).
     guard (tsp_Organization (ct_spec templateObj) = orgName)
       (bad_request (Fmt ''spec.organization %q must match organization %q parsed from metadata.name''
          [ArgS (tsp_Organization (ct_spec templateObj)), ArgS orgName])) (
     bind (map_err wrapClientError (clientForNamespace ''template'' st ctx ns)) (\<lambda>sdk.
     bind (map_coder codertemplates (Name (ct_meta templateObj))
             (sdk_call (sdk_OrganizationByName (api sdk) orgName))) (\<lambda>orgID.
     bind (template_create_request rt api sdk orgID templateObj templateName) (\<lambda>request.
     bind (map_coder codertemplates (Name (ct_meta templateObj))
             (sdk_call (sdk_CreateTemplate (api sdk) orgID request))) (\<lambda>createdTemplate.
     bind (lift (TemplateToK8s ns createdTemplate)) (\<lambda>result.
     bind (enqueueWatchEvent ''template'' s Added (Some (ObjTemplate result))) (\<lambda>_.
     ret result)))))))))))))))))"

subsection \<open>Update\<close>

definition TemplateStorage_createOnUpdate ::
    "'b runtime_env \<Rightarrow> (SDKClient \<Rightarrow> 'b codersdk) \<Rightarrow> 'b Storage option \<Rightarrow> Context option \<Rightarrow> string
       \<Rightarrow> 'b updated_object_info \<Rightarrow> 'b validate \<Rightarrow> ('b storage_state, CoderTemplate \<times> bool) op" where
  "TemplateStorage_createOnUpdate rt api s ctx name objInfo createValidation =
     bind (sdk_call (objInfo (ObjTemplate zero_template))) (\<lambda>createObj.
     non_nil createObj (assertion ''create-on-update template object must not be nil'') (\<lambda>createObj.
     as_template (Some createObj) (\<lambda>t. ErrorString (Fmt ''assertion failed: expected *CoderTemplate, got %T'' [ArgS t])) (\<lambda>obj.
       let createTemplate = (if Name (ct_meta obj) = [] then obj\<lparr>ct_meta := (ct_meta obj)\<lparr>Name := name\<rparr>\<rparr> else obj) in
       guard (Name (ct_meta createTemplate) = name)
         (bad_request (Fmt ''updated object metadata.name %q must match request name %q''
            [ArgS (Name (ct_meta createTemplate)), ArgS name])) (
       bind (TemplateStorage_Create rt api s ctx (Some (ObjTemplate createTemplate)) createValidation) (\<lambda>createdObj.
       ret (createdObj, True))))))"

text \<open>The checks of the updated object before and after the admission check.\<close>

definition TemplateStorage_checkUpdated ::
    "string \<Rightarrow> string \<Rightarrow> CoderTemplate \<Rightarrow> CoderTemplate \<Rightarrow> unit result" where
  "TemplateStorage_checkUpdated name ns updatedTemplate currentTemplate =
     (let um = ct_meta updatedTemplate in
      if Name um \<noteq> [] \<and> Name um \<noteq> name then
        Err (bad_request (Fmt ''updated object metadata.name %q must match request name %q'' [ArgS (Name um), ArgS name]))
      else if Namespace um \<noteq> [] \<and> Namespace um \<noteq> ns then
        Err (bad_request (Fmt ''metadata.namespace %q does not match request namespace %q'' [ArgS (Namespace um), ArgS ns]))
      else if ResourceVersion um = [] then
        Err (bad_request (Lit ''metadata.resourceVersion is required for update''))
      else if ResourceVersion um \<noteq> ResourceVersion (ct_meta currentTemplate) then
        Err (StatusError (NewConflict codertemplates name
          (ErrorString (Fmt ''resource version mismatch: got %q, current is %q''
             [ArgS (ResourceVersion um), ArgS (ResourceVersion (ct_meta currentTemplate))]))))
      else Ok ())"

definition TemplateStorage_checkImmutable :: "CoderTemplateSpec \<Rightarrow> CoderTemplateSpec \<Rightarrow> unit result" where
  "TemplateStorage_checkImmutable updated current =
     (if tsp_Organization updated \<noteq> tsp_Organization current then
        Err (bad_request (Fmt ''spec.organization %q must match existing organization %q''
               [ArgS (tsp_Organization updated), ArgS (tsp_Organization current)]))
      else if tsp_VersionID updated \<noteq> [] \<and> tsp_VersionID updated \<noteq> tsp_VersionID current then
        Err (bad_request (Fmt ''spec.versionID is read-only; to change the active version, update spec.files instead (current: %q, requested: %q)''
               [ArgS (tsp_VersionID current), ArgS (tsp_VersionID updated)]))
      else Ok ())"

text \<open>The validation of \<open>spec.files\<close> before any change.\<close>

definition TemplateStorage_prevalidate :: "zip_lib \<Rightarrow> files option \<Rightarrow> files option result" where
  "TemplateStorage_prevalidate zl files =
     (case files of None \<Rightarrow> Ok None | Some _ \<Rightarrow>
      rbind (rmap_err (\<lambda>err. bad_request (Fmt ''invalid template spec.files: %v'' [ArgV err])) (normalizeFileKeys files)) (\<lambda>normalized.
      rbind (rmap_err (\<lambda>err. bad_request (Fmt ''invalid template spec.files: %v'' [ArgV err]))
               (buildSourceZip zl (Some normalized))) (\<lambda>_.
      Ok (Some normalized))))"

definition metadata_changed :: "CoderTemplateSpec \<Rightarrow> CoderTemplateSpec \<Rightarrow> bool" where
  "metadata_changed updated current =
     (tsp_DisplayName updated \<noteq> tsp_DisplayName current \<or> tsp_Description updated \<noteq> tsp_Description current \<or>
      tsp_Icon updated \<noteq> tsp_Icon current)"

definition TemplateStorage_updateMeta ::
    "(SDKClient \<Rightarrow> 'b codersdk) \<Rightarrow> SDKClient \<Rightarrow> string \<Rightarrow> uuid \<Rightarrow> CoderTemplate \<Rightarrow> CoderTemplate
       \<Rightarrow> ('b storage_state, unit) op" where
  "TemplateStorage_updateMeta api sdk name templateID updatedTemplate currentTemplate =
     (if metadata_changed (ct_spec updatedTemplate) (ct_spec currentTemplate)
      then bind (map_coder codertemplates name
             (sdk_call (sdk_UpdateTemplateMeta (api sdk) templateID (TemplateUpdateMetaRequestFromK8s updatedTemplate)))) (\<lambda>_. ret ())
      else ret ())"

text \<open>\<open>reflect.DeepEqual\<close> on two maps of files.\<close>

definition files_DeepEqual :: "files \<Rightarrow> files \<Rightarrow> bool" where
  "files_DeepEqual a b \<longleftrightarrow> length a = length b \<and> list_all (\<lambda>(p, c). map_of b p = Some c) a"

text \<open>From the merged archive to the promoted version: upload, create, wait, promote, verify.\<close>

definition TemplateStorage_promote ::
    "'b runtime_env \<Rightarrow> (SDKClient \<Rightarrow> 'b codersdk) \<Rightarrow> Context option \<Rightarrow> SDKClient \<Rightarrow> string \<Rightarrow> string \<Rightarrow> uuid \<Rightarrow> string
       \<Rightarrow> ('b storage_state, unit) op" where
  "TemplateStorage_promote rt api ctx sdk name orgName templateID zipBytes =
     bind (map_coder codertemplates name (sdk_call (sdk_Upload (api sdk) zipBytes))) (\<lambda>fileID.
     guard (fileID \<noteq> uuid_Nil) (assertion ''uploaded file ID must not be nil'') (
     bind (map_coder codertemplates name (sdk_call (sdk_OrganizationByName (api sdk) orgName))) (\<lambda>orgID.
     bind (map_coder codertemplates name
             (sdk_call (sdk_CreateTemplateVersion (api sdk) orgID
                \<lparr>ctv_TemplateID = templateID, ctv_StorageMethod = ProvisionerStorageMethodFile, ctv_FileID = fileID,
                 ctv_Provisioner = ProvisionerTypeTerraform\<rparr>))) (\<lambda>newVersion.
     guard (tv_ID newVersion \<noteq> uuid_Nil) (assertion ''new template version ID must not be nil'') (
     handle (waitForTemplateVersionBuild (rt_fuel rt) (rt_env rt) (rt_clock rt) api ctx (Some sdk) (tv_ID newVersion))
       (\<lambda>waitErr. bind (lift (mapTemplateVersionBuildWaitError waitErr name)) fail)
       (\<lambda>_.
     bind (map_coder codertemplates name
             (sdk_call (sdk_UpdateActiveTemplateVersion (api sdk) templateID (tv_ID newVersion)))) (\<lambda>_.
     bind (map_coder codertemplates name (sdk_call (sdk_Template (api sdk) templateID))) (\<lambda>verifyTemplate.
     guard (t_ActiveVersionID verifyTemplate = tv_ID newVersion)
       (ErrorString (Fmt ''assertion failed: active version promotion did not take effect: expected %q, got %q''
          [ArgS (uuid_String (tv_ID newVersion)), ArgS (uuid_String (t_ActiveVersionID verifyTemplate))]))
       (ret ())))))))))"

definition TemplateStorage_updateFiles ::
    "'b runtime_env \<Rightarrow> (SDKClient \<Rightarrow> 'b codersdk) \<Rightarrow> Context option \<Rightarrow> SDKClient \<Rightarrow> string \<Rightarrow> uuid \<Rightarrow> files option
       \<Rightarrow> CoderTemplate \<Rightarrow> ('b storage_state, unit) op" where
  "TemplateStorage_updateFiles rt api ctx sdk name templateID desiredFiles currentTemplate =
     (case desiredFiles of None \<Rightarrow> ret () | Some normalizedDesiredFiles \<Rightarrow>
      (case uuid_Parse (tst_ActiveVersionID (ct_status currentTemplate)) of
         Inl err \<Rightarrow> fail (WrapError ''parse current template status.activeVersionID %q: %w''
           [ArgS (tst_ActiveVersionID (ct_status currentTemplate))] (UUIDError err))
       | Inr currentActiveVersionID \<Rightarrow>
         bind (map_err (WrapError ''fetch current template source files: %w'' [])
                 (fetchTemplateSourceFiles (rt_zip rt) api ctx (Some sdk) currentActiveVersionID)) (\<lambda>currentFiles.
         if files_DeepEqual normalizedDesiredFiles currentFiles then ret ()
         else
           bind (map_err (WrapError ''fetch current template source zip: %w'' [])
                   (fetchRawTemplateSourceZip api ctx (Some sdk) currentActiveVersionID)) (\<lambda>currentRawSourceZip.
           bind (map_err (\<lambda>err. bad_request (Fmt ''invalid template spec.files: %v'' [ArgV err]))
                   (lift (buildMergedSourceZip (rt_zip rt) (Some currentRawSourceZip) (Some normalizedDesiredFiles)))) (\<lambda>zipBytes.
           TemplateStorage_promote rt api ctx sdk name (tsp_Organization (ct_spec currentTemplate)) templateID zipBytes)))))"

text \<open>The second half of \<open>Update\<close>, on the checked object.\<close>

definition TemplateStorage_applyChecked ::
    "'b runtime_env \<Rightarrow> (SDKClient \<Rightarrow> 'b codersdk) \<Rightarrow> 'b Storage option \<Rightarrow> 'b Storage \<Rightarrow> Context option \<Rightarrow> string \<Rightarrow> string
       \<Rightarrow> CoderTemplate \<Rightarrow> CoderTemplate \<Rightarrow> ('b storage_state, CoderTemplate \<times> bool) op" where
  "TemplateStorage_applyChecked rt api s st ctx name ns updatedTemplate currentTemplate =
     (case uuid_Parse (tst_ID (ct_status currentTemplate)) of
        Inl err \<Rightarrow> fail (WrapError ''parse current template status.id %q: %w''
          [ArgS (tst_ID (ct_status currentTemplate))] (UUIDError err))
      | Inr templateID \<Rightarrow>
        bind (map_err wrapClientError (clientForNamespace ''template'' st ctx ns)) (\<lambda>sdk.
        bind (lift (TemplateStorage_prevalidate (rt_zip rt) (tsp_Files (ct_spec updatedTemplate)))) (\<lambda>desiredFiles.
        bind (TemplateStorage_updateMeta api sdk name templateID updatedTemplate currentTemplate) (\<lambda>_.
        bind (TemplateStorage_updateFiles rt api ctx sdk name templateID desiredFiles currentTemplate) (\<lambda>_.
        bind (TemplateStorage_Get rt api s ctx name) (\<lambda>result.
        bind (enqueueWatchEvent ''template'' s Modified (Some (ObjTemplate result))) (\<lambda>_.
        ret (result, False))))))))"

definition TemplateStorage_applyUpdate ::
    "'b runtime_env \<Rightarrow> (SDKClient \<Rightarrow> 'b codersdk) \<Rightarrow> 'b Storage option \<Rightarrow> 'b Storage \<Rightarrow> Context option \<Rightarrow> string
       \<Rightarrow> 'b updated_object_info \<Rightarrow> 'b validate_update \<Rightarrow> CoderTemplate \<Rightarrow> ('b storage_state, CoderTemplate \<times> bool) op" where
  "TemplateStorage_applyUpdate rt api s st ctx name objInfo updateValidation currentTemplate =
     bind (sdk_call (objInfo (ObjTemplate currentTemplate))) (\<lambda>updatedObj.
     non_nil updatedObj (assertion ''updated template object must not be nil'') (\<lambda>updatedObj.
     as_template (Some updatedObj) (\<lambda>t. ErrorString (Fmt ''assertion failed: expected *CoderTemplate, got %T'' [ArgS t])) (\<lambda>updatedTemplate.
     bind (lift (requiredNamespaceFromRequestContext ctx)) (\<lambda>ns.
     bind (lift (TemplateStorage_checkUpdated name ns updatedTemplate currentTemplate)) (\<lambda>_.
     bind (run_validate_update updateValidation (ObjTemplate updatedTemplate) (ObjTemplate currentTemplate)) (\<lambda>_.
     bind (lift (TemplateStorage_checkImmutable (ct_spec updatedTemplate) (ct_spec currentTemplate))) (\<lambda>_.
     TemplateStorage_applyChecked rt api s st ctx name ns updatedTemplate currentTemplate)))))))"

definition TemplateStorage_Update ::
    "'b runtime_env \<Rightarrow> (SDKClient \<Rightarrow> 'b codersdk) \<Rightarrow> 'b Storage option \<Rightarrow> Context option \<Rightarrow> string
       \<Rightarrow> 'b updated_object_info option \<Rightarrow> 'b validate \<Rightarrow> 'b validate_update \<Rightarrow> bool
       \<Rightarrow> ('b storage_state, CoderTemplate \<times> bool) op" where
  "TemplateStorage_Update rt api s ctx name objInfo createValidation updateValidation forceAllowCreate =
     non_nil s (assertion ''template storage must not be nil'') (\<lambda>st.
     non_nil ctx (assertion ''context must not be nil'') (\<lambda>_.
     guard (name \<noteq> []) (assertion ''template name must not be empty'') (
     non_nil objInfo (assertion ''updated object info must not be nil'') (\<lambda>info.
     non_nil (st_broadcaster st) (assertion ''template broadcaster must not be nil'') (\<lambda>_.
     handle (TemplateStorage_Get rt api s ctx name)
       (\<lambda>err. if \<not> forceAllowCreate \<or> \<not> IsNotFound err then fail err
              else TemplateStorage_createOnUpdate rt api s ctx name info createValidation)
       (TemplateStorage_applyUpdate rt api s st ctx name info updateValidation))))))"

subsection \<open>Delete, construction and destruction\<close>

definition TemplateStorage_Delete ::
    "(SDKClient \<Rightarrow> 'b codersdk) \<Rightarrow> 'b Storage option \<Rightarrow> Context option \<Rightarrow> string
       \<Rightarrow> 'b validate \<Rightarrow> ('b storage_state, delete_status \<times> bool) op" where
  "TemplateStorage_Delete api s ctx name deleteValidation =
     non_nil s (assertion ''template storage must not be nil'') (\<lambda>st.
     non_nil ctx (assertion ''context must not be nil'') (\<lambda>_.
     guard (name \<noteq> []) (assertion ''template name must not be empty'') (
     non_nil (st_broadcaster st) (assertion ''template broadcaster must not be nil'') (\<lambda>_.
     bind (lift (requiredNamespaceFromRequestContext ctx)) (\<lambda>ns.
     bind (map_err (\<lambda>err. bad_request (Fmt ''invalid template name %q: %v'' [ArgS name, ArgV err]))
             (lift (ParseTemplateName name))) (\<lambda>(orgName, templateName).
     bind (map_err wrapClientError (clientForNamespace ''template'' st ctx ns)) (\<lambda>sdk.
     bind (map_coder codertemplates name (sdk_call (sdk_OrganizationByName (api sdk) orgName))) (\<lambda>orgID.
     bind (map_coder codertemplates name (sdk_call (sdk_TemplateByName (api sdk) orgID templateName))) (\<lambda>template.
     bind (case deleteValidation of None \<Rightarrow> ret () | Some f \<Rightarrow>
             bind (lift (TemplateToK8s ns template)) (\<lambda>obj. sdk_call (f (ObjTemplate obj)))) (\<lambda>_.
     bind (map_coder codertemplates name (sdk_call (sdk_DeleteTemplate (api sdk) (t_ID template)))) (\<lambda>_.
     bind (lift (TemplateToK8s ns template)) (\<lambda>templateObj.
     bind (enqueueWatchEvent ''template'' s Deleted (Some (ObjTemplate templateObj))) (\<lambda>_.
     ret (StatusSuccess, True))))))))))))))"

definition NewTemplateStorage :: "'b ClientProvider option \<Rightarrow> ('b Storage) result" where
  "NewTemplateStorage provider =
     (if provider = None then Panic (Lit ''assertion failed: template client provider must not be nil'')
      else Ok \<lparr>st_provider = provider, st_broadcaster = Some (), st_watchEvents = Some ()\<rparr>)"

definition TemplateStorage_Destroy ::
    "(watch_event \<Rightarrow> 'b \<Rightarrow> 'b) \<Rightarrow> ('b \<Rightarrow> 'b) \<Rightarrow> 'b Storage option \<Rightarrow> ('b storage_state, unit) op" where
  "TemplateStorage_Destroy action shutdown s = storage_Destroy ''template'' action shutdown s"

end
