(* ===== verification/Template_Files_Correct.thy ===== *)
theory Template_Files_Correct
  imports Template_Files "HOL-Library.Multiset"
begin

text \<open>
  Correctness of the template source archives: validated paths stay inside the root and
  denote what the requested path denotes; the builders accept exactly the inputs within the
  limits, independently of the iteration order of the file map; an archive that was built is
  read back as the files it was built from; and the merge keeps the binary files of the
  original archive.
\<close>

section \<open>Specifications\<close>

text \<open>
  Following a path from a directory, which is a stack of names below the root; \<open>None\<close> when
  a \<open>..\<close> leaves the root.
\<close>

fun walk :: "string list \<Rightarrow> string list \<Rightarrow> string list option" where
  "walk dir [] = Some dir"
| "walk dir (c # cs) =
     (if c = [] \<or> c = ''.'' then walk dir cs
      else if c = ''..'' then (case dir of [] \<Rightarrow> None | _ # up \<Rightarrow> walk up cs)
      else walk (c # dir) cs)"

definition component_ok :: "string \<Rightarrow> bool" where
  "component_ok c \<longleftrightarrow> c \<notin> {[], ''.'', ''..''} \<and> CHR ''/'' \<notin> set c"

definition safe_path :: "string \<Rightarrow> bool" where
  "safe_path p \<longleftrightarrow> (\<forall>c \<in> set (strings_Split p CHR ''/''). component_ok c) \<and> CHR 0x5C \<notin> set p"

definition norm :: "files \<Rightarrow> files" where
  "norm fs = map (\<lambda>(p, c). (path_Clean p, c)) fs"

definition sum_length :: "files \<Rightarrow> nat" where
  "sum_length fs = sum_list (map (\<lambda>(p, c). length c) fs)"

text \<open>What the builder requires of the files of a request.\<close>

definition files_ok :: "files \<Rightarrow> bool" where
  "files_ok fs \<longleftrightarrow> length fs \<le> maxTemplateSourceFiles \<and> distinct (map fst (norm fs)) \<and>
     (\<forall>(p, c) \<in> set fs. is_ok (validateTemplateSourcePath p) \<and> utf8_Valid c \<and> length c \<le> maxTemplateSourceFileBytes) \<and>
     sum_length fs \<le> maxTemplateSourceTotalUncompressedBytes"

text \<open>
  The documented behaviour of the archive library: what was written to an archive of plain
  files is what a reader of the archive finds, with the same names and contents.
\<close>

definition entry_read :: "zip_header \<times> string \<Rightarrow> zip_file \<Rightarrow> bool" where
  "entry_read e f \<longleftrightarrow> zh_Name (zf_Header f) = zh_Name (fst e) \<and> \<not> zh_ModeDir (zf_Header f) \<and>
     zh_UncompressedSize64 (zf_Header f) = length (snd e) \<and>
     zf_Open f = Inr \<lparr>zd_Data = snd e, zd_ReadErr = None, zd_CloseErr = None\<rparr>"

definition zip_ok :: "zip_lib \<Rightarrow> bool" where
  "zip_ok zl \<longleftrightarrow> (\<forall>es bytes. zip_Close zl es = Inr bytes \<longrightarrow> (\<forall>e \<in> set es. \<not> zip_IsDir (fst e)) \<longrightarrow>
     (\<exists>fs. zip_NewReader zl bytes = Inr (map Some fs) \<and> list_all2 entry_read es fs))"

section \<open>Paths\<close>

declare clean_push.simps [simp del]

lemma clean_push_last:
  "st \<noteq> [] \<Longrightarrow> last st = ''..'' \<Longrightarrow> clean_push False st c \<noteq> [] \<and> last (clean_push False st c) = ''..''"
  by (cases st) (auto simp: clean_push.simps)

lemma clean_fold_last:
  "st \<noteq> [] \<Longrightarrow> last st = ''..'' \<Longrightarrow>
     foldl (clean_push False) st cs \<noteq> [] \<and> last (foldl (clean_push False) st cs) = ''..''"
proof (induction cs arbitrary: st)
  case (Cons c cs)
  then show ?case using clean_push_last [of st c] by simp
qed simp

lemma walk_clean:
  "''..'' \<notin> set st \<Longrightarrow> ''..'' \<notin> set (foldl (clean_push False) st cs) \<Longrightarrow>
     walk st cs = Some (foldl (clean_push False) st cs)"
proof (induction cs arbitrary: st)
  case (Cons c cs)
  show ?case
  proof (cases "c = ''..'' \<and> st = []")
    case True
    with Cons.prems(2) have "''..'' \<notin> set (foldl (clean_push False) [''..''] cs)"
      by (simp add: clean_push.simps [of False "[]" "''..''"])
    moreover have "''..'' \<in> set (foldl (clean_push False) [''..''] cs)"
      using clean_fold_last [of "[''..'']" cs] by (metis last_in_set last.simps list.distinct(1))
    ultimately show ?thesis by contradiction
  next
    case False
    have "''..'' \<notin> set (clean_push False st c)"
      using False Cons.prems(1) by (cases st) (auto simp: clean_push.simps)
    with Cons have "walk (clean_push False st c) cs = Some (foldl (clean_push False) (clean_push False st c) cs)"
      by simp
    then show ?thesis
      using False Cons.prems(1) clean_push.simps [of False st c] by (cases st) auto
  qed
qed simp

lemma clean_fold_components:
  "(\<And>c. c \<in> set cs \<Longrightarrow> CHR ''/'' \<notin> set c) \<Longrightarrow> (\<And>c. c \<in> set st \<Longrightarrow> c \<notin> {[], ''.''} \<and> CHR ''/'' \<notin> set c) \<Longrightarrow>
     c \<in> set (foldl (clean_push r) st cs) \<Longrightarrow> c \<notin> {[], ''.''} \<and> CHR ''/'' \<notin> set c"
proof (induction cs arbitrary: st)
  case (Cons a cs)
  have "d \<notin> {[], ''.''} \<and> CHR ''/'' \<notin> set d" if "d \<in> set (clean_push r st a)" for d
    using that Cons.prems(1) [of a] Cons.prems(2) by (cases st) (auto simp: clean_push.simps split: if_splits)
  with Cons.IH [of "clean_push r st a"] Cons.prems(1,3) show ?case by simp
qed simp

lemma clean_fold_id:
  "(\<And>c. c \<in> set cs \<Longrightarrow> component_ok c) \<Longrightarrow> foldl (clean_push r) st cs = rev cs @ st"
proof (induction cs arbitrary: st)
  case (Cons c cs)
  from Cons.prems [of c] have "clean_push r st c = c # st" by (auto simp: component_ok_def clean_push.simps)
  with Cons show ?case by simp
qed simp

lemma validate_Ok_clean: "validateTemplateSourcePath p = Ok c \<Longrightarrow> c = path_Clean p"
  by (auto simp: validateTemplateSourcePath_def Let_def split: if_splits)

lemma backslash_clean:
  assumes "CHR 0x5C \<notin> set p"
  shows "CHR 0x5C \<notin> set (path_Clean p)"
proof -
  let ?r = "strings_HasPrefix p ''/''"
  have st: "x \<in> set (foldl (clean_push r) st cs) \<Longrightarrow> x \<in> set st \<union> set cs \<union> {''..''}" for x r st cs
  proof (induction cs arbitrary: st)
    case (Cons a cs)
    then have "x \<in> set (clean_push r st a) \<union> set cs \<union> {''..''}" by simp
    moreover have "set (clean_push r st a) \<subseteq> set st \<union> {a, ''..''}" by (cases st) (auto simp: clean_push.simps)
    ultimately show ?case by auto
  qed simp
  have "CHR 0x5C \<notin> set x" if "x \<in> set (rev (foldl (clean_push ?r) [] (strings_Split p CHR ''/'')))" for x
    using st [of x ?r "[]" "strings_Split p CHR ''/''"] that assms set_Split [of x p "CHR ''/''"] by auto
  then have "CHR 0x5C \<notin> set (strings_Join (rev (foldl (clean_push ?r) [] (strings_Split p CHR ''/''))) CHR ''/'')"
    using set_Join [of "rev (foldl (clean_push ?r) [] (strings_Split p CHR ''/''))" "CHR ''/''"] by auto
  then show ?thesis by (auto simp: path_Clean_def Let_def)
qed

lemma validate_Ok:
  assumes "validateTemplateSourcePath p = Ok c"
  shows "safe_path c \<and> walk [] (strings_Split p CHR ''/'') = Some (rev (strings_Split c CHR ''/''))"
proof -
  let ?cs = "strings_Split p CHR ''/''"
  let ?st = "foldl (clean_push False) [] ?cs"
  from assms have c: "c = path_Clean p" and bs: "CHR 0x5C \<notin> set p" and nr: "\<not> strings_HasPrefix c ''/''"
    and nd: "c \<noteq> ''.''" and up: "''..'' \<notin> set (strings_Split c CHR ''/'')"
    by (auto simp: validateTemplateSourcePath_def Let_def split: if_splits)
  have "\<not> strings_HasPrefix p ''/''"
    using nr by (auto simp: c path_Clean_def Let_def)
  with nd have join: "c = strings_Join (rev ?st) CHR ''/''" and ne: "?st \<noteq> []"
    by (auto simp: c path_Clean_def Let_def split: if_splits)
  have comps: "x \<notin> {[], ''.''} \<and> CHR ''/'' \<notin> set x" if "x \<in> set ?st" for x
    using clean_fold_components [of ?cs "[]" x False] that Split_no_sep by auto
  then have split: "strings_Split c CHR ''/'' = rev ?st"
    unfolding join by (intro Split_Join) (use ne in auto)
  moreover have "CHR 0x5C \<notin> set c"
    unfolding c by (rule backslash_clean [OF bs])
  ultimately show ?thesis
    using walk_clean [of "[]" ?cs] up comps by (auto simp: safe_path_def component_ok_def)
qed

lemma safe_path_component: "safe_path c \<Longrightarrow> x \<in> set (strings_Split c CHR ''/'') \<Longrightarrow> x \<notin> {[], ''.'', ''..''}"
  unfolding safe_path_def component_ok_def by blast

lemma safe_path_Split_not_Nil: "safe_path c \<Longrightarrow> c \<noteq> []"
  using safe_path_component [of c "[]"] by force

lemma safe_path_not_rooted:
  assumes "safe_path c"
  shows "\<not> strings_HasPrefix c ''/''"
proof
  assume "strings_HasPrefix c ''/''"
  then obtain r where "c = CHR ''/'' # r" by (auto simp: HasPrefix_iff)
  then have "[] \<in> set (strings_Split c CHR ''/'')" by simp
  from safe_path_component [OF assms this] show False by simp
qed

lemma clean_safe_path:
  assumes "safe_path c"
  shows "path_Clean c = c"
proof -
  have "foldl (clean_push False) [] (strings_Split c CHR ''/'') = rev (strings_Split c CHR ''/'')"
    using assms clean_fold_id [of "strings_Split c CHR ''/''" False "[]"] by (auto simp: safe_path_def)
  then show ?thesis
    using safe_path_not_rooted [OF assms] safe_path_Split_not_Nil [OF assms]
    by (simp add: path_Clean_def Let_def Join_Split)
qed

lemma validate_safe:
  assumes "safe_path c"
  shows "validateTemplateSourcePath c = Ok c"
proof -
  have comps: "x \<in> set (strings_Split c CHR ''/'') \<Longrightarrow> component_ok x" for x
    using assms by (simp add: safe_path_def)
  have "c \<noteq> ''.''" "c \<noteq> ''..''" "c \<noteq> ''/''" "''..'' \<notin> set (strings_Split c CHR ''/'')"
    using comps by (auto simp: component_ok_def)
  moreover have "\<not> strings_HasPrefix c ''../''"
  proof
    assume "strings_HasPrefix c ''../''"
    then obtain r where "c = ''..'' @ CHR ''/'' # r" by (auto simp: HasPrefix_iff)
    then have "''..'' \<in> set (strings_Split c CHR ''/'')" by (simp add: Split_append)
    then show False using comps [of "''..''"] by (simp add: component_ok_def)
  qed
  ultimately show ?thesis
    using assms safe_path_not_rooted [OF assms] safe_path_Split_not_Nil [OF assms]
    by (simp add: validateTemplateSourcePath_def Let_def clean_safe_path safe_path_def)
qed

lemma validate_no_panic [simp]: "\<not> is_panic (validateTemplateSourcePath p)"
  by (simp add: validateTemplateSourcePath_def Let_def)

lemma Split_snoc: "strings_Split (r @ [c]) c = strings_Split r c @ [[]]"
proof (induction r)
  case (Cons x r)
  then show ?case by (cases "strings_Split r c") auto
qed simp

lemma safe_path_not_dir: "safe_path c \<Longrightarrow> last c \<noteq> CHR ''/''"
proof
  assume s: "safe_path c" and l: "last c = CHR ''/''"
  have "c \<noteq> []" using s by (rule safe_path_Split_not_Nil)
  with l obtain r where c: "c = r @ [CHR ''/'']" by (metis append_butlast_last_id)
  have "[] \<in> set (strings_Split (r @ [CHR ''/'']) CHR ''/'')"
    by (simp add: Split_snoc)
  with c safe_path_component [OF s, of "[]"] show False by simp
qed

section \<open>Normalization and limits\<close>

lemma validate_path_cases:
  obtains "validateTemplateSourcePath p = Ok (path_Clean p)" | e where "validateTemplateSourcePath p = Err e"
  using validate_no_panic [of p] validate_Ok_clean [of p] by (cases "validateTemplateSourcePath p") auto

lemma is_ok_validate: "is_ok (validateTemplateSourcePath p) \<longleftrightarrow> validateTemplateSourcePath p = Ok (path_Clean p)"
  by (cases p rule: validate_path_cases) auto

lemma norm_simps [simp]: "norm [] = []" "norm ((p, c) # fs) = (path_Clean p, c) # norm fs"
  "length (norm fs) = length fs"
  by (simp_all add: norm_def)

lemma sum_length_simps [simp]:
  "sum_length [] = 0" "sum_length ((p, c) # fs) = length c + sum_length fs"
  "sum_length (fs @ gs) = sum_length fs + sum_length gs" "sum_length (norm fs) = sum_length fs"
  by (simp_all add: sum_length_def norm_def case_prod_unfold comp_def)

lemma sum_length_mset: "mset fs = mset gs \<Longrightarrow> sum_length fs = sum_length gs"
  unfolding sum_length_def by (metis mset_map sum_mset_sum_list)

lemma map_of_None_iff: "map_of fs p = None \<longleftrightarrow> p \<notin> fst ` set fs"
  by (simp add: map_of_eq_None_iff)

lemma normalize_loop_Ok:
  "normalize_loop fs acc = Ok r \<longleftrightarrow>
     r = acc @ norm fs \<and> (\<forall>(p, c) \<in> set fs. is_ok (validateTemplateSourcePath p)) \<and>
     distinct (map fst (norm fs)) \<and> fst ` set acc \<inter> fst ` set (norm fs) = {}"
proof (induction fs arbitrary: acc)
  case (Cons f fs)
  obtain p c where f: "f = (p, c)" by force
  show ?case
    by (cases p rule: validate_path_cases) (auto simp: f Cons.IH map_of_eq_None_iff image_iff)
qed auto

lemma check_content_Ok:
  "check_content p c n = Ok n' \<longleftrightarrow> utf8_Valid c \<and> length c \<le> maxTemplateSourceFileBytes \<and>
     n' = n + length c \<and> n' \<le> maxTemplateSourceTotalUncompressedBytes"
  by (auto simp: check_content_def Let_def)

lemma source_loop_Ok:
  assumes "n \<le> maxTemplateSourceTotalUncompressedBytes"
  shows "source_loop fs acc n = Ok r \<longleftrightarrow>
     r = acc @ norm fs \<and> (\<forall>(p, c) \<in> set fs. is_ok (validateTemplateSourcePath p) \<and> utf8_Valid c \<and>
       length c \<le> maxTemplateSourceFileBytes) \<and>
     distinct (map fst (norm fs)) \<and> fst ` set acc \<inter> fst ` set (norm fs) = {} \<and>
     n + sum_length fs \<le> maxTemplateSourceTotalUncompressedBytes"
  using assms
proof (induction fs arbitrary: acc n)
  case (Cons f fs)
  obtain p c where f: "f = (p, c)" by force
  show ?case
  proof (cases p rule: validate_path_cases)
    case 1
    then show ?thesis
      using Cons.IH [of "n + length c" "acc @ [(path_Clean p, c)]"]
      by (cases "utf8_Valid c \<and> length c \<le> maxTemplateSourceFileBytes \<and>
            n + length c \<le> maxTemplateSourceTotalUncompressedBytes")
         (auto simp: f rbind_eq_Ok check_content_Ok map_of_eq_None_iff image_iff add.assoc)
  next
    case (2 e)
    then show ?thesis by (simp add: f)
  qed
qed auto

lemma norm_mset: "mset fs = mset gs \<Longrightarrow> mset (norm fs) = mset (norm gs)"
  by (simp add: norm_def)

lemma files_ok_mset: "mset fs = mset gs \<Longrightarrow> files_ok fs = files_ok gs"
proof -
  assume m: "mset fs = mset gs"
  then have "set fs = set gs" "length fs = length gs" by (metis set_mset_mset, metis size_mset)
  moreover have "distinct (map fst (norm fs)) = distinct (map fst (norm gs))"
    by (metis norm_mset [OF m] mset_eq_imp_distinct_iff mset_map)
  ultimately show ?thesis using sum_length_mset [OF m] by (simp add: files_ok_def)
qed

section \<open>Writing\<close>

lemma zip_append_Ok:
  "zip_append zl m h c w = Ok w' \<Longrightarrow> w' = w @ [(h, c)]"
  by (auto simp: zip_append_def split: option.splits)

lemma zip_finish_Ok:
  "zip_finish zl w = Ok z \<longleftrightarrow> zip_Close zl w = Inr z \<and> length z \<le> maxTemplateSourceZipBytes"
  by (auto simp: zip_finish_def split: sum.splits)

lemma write_loop_Ok:
  "write_loop zl fs ps w = Ok w' \<Longrightarrow>
     w' = w @ map (\<lambda>p. (new_header p, case map_of fs p of None \<Rightarrow> [] | Some c \<Rightarrow> c)) ps"
  by (induction ps arbitrary: w) (fastforce simp: rbind_eq_Ok dest!: zip_append_Ok)+

lemma buildSourceZip_Ok:
  assumes "buildSourceZip zl (Some fs) = Ok z"
  shows "files_ok fs \<and> length z \<le> maxTemplateSourceZipBytes \<and>
    zip_Close zl (map (\<lambda>p. (new_header p, the (map_of (norm fs) p))) (sort (map fst (norm fs)))) = Inr z"
proof -
  from assms obtain r w where len: "length fs \<le> maxTemplateSourceFiles" and src: "source_loop fs [] 0 = Ok r"
    and wr: "write_loop zl r (sort (map fst r)) [] = Ok w" and fin: "zip_finish zl w = Ok z"
    by (auto simp: buildSourceZip_def rbind_eq_Ok split: if_splits)
  from src have r: "r = norm fs" and ok: "files_ok fs"
    using len by (simp_all add: source_loop_Ok files_ok_def)
  have "w = map (\<lambda>p. (new_header p, case map_of (norm fs) p of None \<Rightarrow> [] | Some c \<Rightarrow> c)) (sort (map fst (norm fs)))"
    using write_loop_Ok [OF wr] r by simp
  also have "\<dots> = map (\<lambda>p. (new_header p, the (map_of (norm fs) p))) (sort (map fst (norm fs)))"
    by (rule map_cong [OF refl]) (auto split: option.split simp: map_of_eq_None_iff)
  finally show ?thesis using ok fin by (simp add: zip_finish_Ok)
qed

text \<open>The iteration order of the Go map does not matter for an accepted map.\<close>

lemma source_order:
  assumes "mset fs = mset gs" "files_ok fs"
  shows "sort (map fst (norm fs)) = sort (map fst (norm gs))" "map_of (norm fs) = map_of (norm gs)"
proof -
  have m: "mset (norm fs) = mset (norm gs)" by (rule norm_mset [OF assms(1)])
  then show "sort (map fst (norm fs)) = sort (map fst (norm gs))"
    by (intro properties_for_sort) (auto simp: mset_map)
  have d: "distinct (map fst (norm fs))" "distinct (map fst (norm gs))"
    using assms files_ok_mset [OF assms(1)] by (auto simp: files_ok_def)
  have "set (norm fs) = set (norm gs)" using m by (rule mset_eq_setD)
  then show "map_of (norm fs) = map_of (norm gs)" using map_of_inject_set [OF d] by simp
qed

lemma buildSourceZip_order:
  assumes "mset fs = mset gs" "buildSourceZip zl (Some fs) = Ok z"
  shows "buildSourceZip zl (Some gs) = Ok z"
proof -
  from buildSourceZip_Ok [OF assms(2)] have ok: "files_ok fs" by blast
  then have okg: "files_ok gs" using files_ok_mset [OF assms(1)] by simp
  from ok okg have "source_loop fs [] 0 = Ok (norm fs)" "source_loop gs [] 0 = Ok (norm gs)"
    by (simp_all add: source_loop_Ok files_ok_def)
  moreover have "write_loop zl (norm fs) ps = write_loop zl (norm gs) ps" for ps
  proof (induction ps)
    case (Cons p ps)
    show ?case by (rule ext) (simp add: Cons source_order(2) [OF assms(1) ok])
  qed (simp add: fun_eq_iff)
  ultimately show ?thesis
    using assms(2) ok okg source_order(1) [OF assms(1) ok] by (auto simp: buildSourceZip_def files_ok_def)
qed

section \<open>Reading back\<close>

definition named :: "zip_entries \<Rightarrow> files" where
  "named es = map (\<lambda>(h, c). (zh_Name h, c)) es"

text \<open>Archives the reader accepts: plain files with safe, distinct names, within the limits.\<close>

definition archive_ok :: "zip_entries \<Rightarrow> bool" where
  "archive_ok es \<longleftrightarrow> length es \<le> maxTemplateSourceFiles \<and> distinct (map fst (named es)) \<and>
     (\<forall>(h, c) \<in> set es. \<not> zh_ModeDir h \<and> safe_path (zh_Name h) \<and> length c \<le> maxTemplateSourceFileBytes) \<and>
     sum_length (named es) \<le> maxTemplateSourceTotalUncompressedBytes"

lemma named_simps [simp]: "named [] = []" "named ((h, c) # es) = (zh_Name h, c) # named es"
  "length (named es) = length es"
  by (simp_all add: named_def)

lemma read_entry_Ok:
  assumes "read_entry f p n = Ok (c, n')"
  shows "length c \<le> maxTemplateSourceFileBytes \<and> n' = n + length c \<and> n' \<le> maxTemplateSourceTotalUncompressedBytes \<and>
     (\<exists>d. zf_Open f = Inr d \<and> c = zd_Data d)"
  using assms
  by (auto simp: read_entry_def read_limited_def Let_def split: if_splits sum.splits option.splits)

lemma read_entry_written:
  assumes "entry_read (h, c) f" "length c \<le> maxTemplateSourceFileBytes"
    "n + length c \<le> maxTemplateSourceTotalUncompressedBytes"
  shows "read_entry f p n = Ok (c, n + length c)"
  using assms by (simp add: read_entry_def entry_read_def read_limited_def Let_def)

lemma read_loop_written:
  assumes "list_all2 entry_read es fs" "\<forall>(h, c) \<in> set es. safe_path (zh_Name h) \<and> length c \<le> maxTemplateSourceFileBytes"
    "distinct (map fst (named es))" "fst ` set (named es) \<inter> set seen = {}"
    "n + sum_length (named es) \<le> maxTemplateSourceTotalUncompressedBytes"
  shows "read_loop (map Some fs) acc seen n = Ok (acc @ filter (\<lambda>(p, c). utf8_Valid c) (named es))"
  using assms
proof (induction es fs arbitrary: acc seen n rule: list_all2_induct)
  case (Cons e es f fs)
  obtain h c where e: "e = (h, c)" by force
  have name: "zh_Name (zf_Header f) = zh_Name h" "\<not> zh_ModeDir (zf_Header f)"
    using Cons.hyps(1) by (simp_all add: e entry_read_def)
  have safe: "safe_path (zh_Name h)" "length c \<le> maxTemplateSourceFileBytes" using Cons.prems(1) by (auto simp: e)
  have "\<not> zip_IsDir (zf_Header f)" using name safe_path_not_dir [OF safe(1)] by (simp add: zip_IsDir_def)
  moreover have "read_entry f (zh_Name h) n = Ok (c, n + length c)"
    using Cons.hyps(1) Cons.prems(4) safe(2) by (intro read_entry_written) (auto simp: e)
  moreover have "zh_Name h \<notin> set seen" using Cons.prems(3) by (auto simp: e)
  moreover have "read_loop (map Some fs) acc' (seen @ [zh_Name h]) (n + length c) =
      Ok (acc' @ filter (\<lambda>(p, c). utf8_Valid c) (named es))" for acc'
    using Cons.prems by (intro Cons.IH) (auto simp: e)
  ultimately show ?case by (simp add: name validate_safe [OF safe(1)] e)
qed simp

lemma archive_read:
  assumes "zip_ok zl" "zip_Close zl es = Inr z" "archive_ok es"
  shows "sourceFilesFromZip zl z = Ok (filter (\<lambda>(p, c). utf8_Valid c) (named es)) \<and>
     (\<exists>fs. zip_NewReader zl z = Inr (map Some fs) \<and> list_all2 entry_read es fs)"
proof -
  have "\<forall>e \<in> set es. \<not> zip_IsDir (fst e)"
    using assms(3) safe_path_not_dir by (fastforce simp: archive_ok_def zip_IsDir_def)
  with assms(1,2) obtain fs where fs: "zip_NewReader zl z = Inr (map Some fs)" "list_all2 entry_read es fs"
    unfolding zip_ok_def by blast
  then have "length fs \<le> maxTemplateSourceFiles"
    using assms(3) by (simp add: archive_ok_def list_all2_lengthD)
  moreover have "read_loop (map Some fs) [] [] 0 = Ok ([] @ filter (\<lambda>(p, c). utf8_Valid c) (named es))"
    using assms(3) by (intro read_loop_written [OF fs(2)]) (auto simp: archive_ok_def)
  ultimately show ?thesis using fs by (simp add: sourceFilesFromZip_def open_archive_def)
qed

text \<open>A map written in the order of its sorted keys.\<close>

definition by_keys :: "files \<Rightarrow> files" where
  "by_keys al = map (\<lambda>p. (p, the (map_of al p))) (sort (map fst al))"

lemma by_keys_mset:
  assumes "distinct (map fst al)"
  shows "mset (by_keys al) = mset al"
proof -
  have "map (\<lambda>p. (p, the (map_of al p))) (map fst al) = al"
    unfolding map_map by (rule map_idI) (use assms in \<open>auto simp: map_of_is_SomeI\<close>)
  then show ?thesis unfolding by_keys_def mset_map mset_sort by (metis mset_map)
qed

lemma by_keys_props:
  assumes "distinct (map fst al)"
  shows "map_of (by_keys al) = map_of al" "set (by_keys al) = set al" "distinct (map fst (by_keys al))"
    "sum_length (by_keys al) = sum_length al" "length (by_keys al) = length al"
proof -
  note m = by_keys_mset [OF assms]
  show s: "set (by_keys al) = set al" using m by (rule mset_eq_setD)
  show "length (by_keys al) = length al" using m by (rule mset_eq_length)
  show d: "distinct (map fst (by_keys al))"
    using assms by (simp add: by_keys_def comp_def)
  show "map_of (by_keys al) = map_of al" using map_of_inject_set [OF d assms] s by simp
  show "sum_length (by_keys al) = sum_length al" by (rule sum_length_mset [OF m])
qed

lemma filter_utf8_all: "(\<forall>(p, c) \<in> set al. utf8_Valid c) \<Longrightarrow> filter (\<lambda>(p, c). utf8_Valid c) al = al"
  by (induction al) auto

lemma buildSourceZip_read:
  assumes zip: "zip_ok zl" and run: "buildSourceZip zl (Some fs) = Ok z"
  shows "sourceFilesFromZip zl z = Ok (by_keys (norm fs))"
proof -
  let ?es = "map (\<lambda>p. (new_header p, the (map_of (norm fs) p))) (sort (map fst (norm fs)))"
  from buildSourceZip_Ok [OF run] have ok: "files_ok fs" and cl: "zip_Close zl ?es = Inr z" by auto
  have n: "named ?es = by_keys (norm fs)" by (simp add: named_def by_keys_def new_header_def comp_def)
  have d: "distinct (map fst (norm fs))" using ok by (simp add: files_ok_def)
  have all: "safe_path p \<and> utf8_Valid c \<and> length c \<le> maxTemplateSourceFileBytes" if "(p, c) \<in> set (norm fs)" for p c
  proof -
    from that obtain q where "(q, c) \<in> set fs" "p = path_Clean q" by (auto simp: norm_def)
    with ok show ?thesis
      using validate_Ok [of q p] by (auto simp: files_ok_def is_ok_validate)
  qed
  have "archive_ok ?es"
    unfolding archive_ok_def n
  proof (intro conjI)
    show "length ?es \<le> maxTemplateSourceFiles" using ok by (simp add: files_ok_def)
    show "\<forall>(h, c) \<in> set ?es. \<not> zh_ModeDir h \<and> safe_path (zh_Name h) \<and> length c \<le> maxTemplateSourceFileBytes"
      using all d by (fastforce simp: new_header_def)
  qed (use by_keys_props [OF d] ok in \<open>simp_all add: files_ok_def\<close>)
  moreover have "filter (\<lambda>(p, c). utf8_Valid c) (by_keys (norm fs)) = by_keys (norm fs)"
    by (rule filter_utf8_all) (use by_keys_props(2) [OF d] all in auto)
  ultimately show ?thesis using archive_read [OF zip cl] by (simp add: n)
qed

section \<open>Merging\<close>

definition kept :: "binary_files \<Rightarrow> files" where
  "kept pres = map (\<lambda>(p, (c, h)). (p, c)) pres"

definition merge_inv :: "files \<Rightarrow> (string \<times> zip_header) list \<times> binary_files \<times> nat \<Rightarrow> bool" where
  "merge_inv desired st \<longleftrightarrow> (case st of (hs, pres, n) \<Rightarrow>
     (\<forall>(p, h) \<in> set hs. \<not> zh_ModeDir h) \<and>
     (\<forall>(p, (c, h)) \<in> set pres. p \<in> fst ` set hs \<and> safe_path p \<and> \<not> zh_ModeDir h \<and> \<not> utf8_Valid c \<and>
        length c \<le> maxTemplateSourceFileBytes \<and> map_of desired p = None) \<and>
     distinct (map fst pres) \<and> sum_length (kept pres) \<le> n \<and> n \<le> maxTemplateSourceTotalUncompressedBytes)"

lemma kept_simps [simp]:
  "kept [] = []" "kept ((p, (c, h)) # ps) = (p, c) # kept ps" "kept (ps @ qs) = kept ps @ kept qs"
  "map fst (kept ps) = map fst ps" "length (kept ps) = length ps"
  by (auto simp: kept_def)

text \<open>One entry of the original archive: skipped, overwritten, text that is not kept, or kept.\<close>

lemma merge_loop_step:
  assumes "merge_loop desired (Some f # fs) hs pres n = Ok st"
  obtains (dir) "zip_IsDir (zf_Header f)" "merge_loop desired fs hs pres n = Ok st"
  | (over) p where "\<not> zip_IsDir (zf_Header f)" "validateTemplateSourcePath (zh_Name (zf_Header f)) = Ok p"
      "map_of hs p = None" "map_of desired p \<noteq> None"
      "merge_loop desired fs (hs @ [(p, (zf_Header f)\<lparr>zh_Name := p\<rparr>)]) pres n = Ok st"
  | (textual) p c n' where "\<not> zip_IsDir (zf_Header f)" "validateTemplateSourcePath (zh_Name (zf_Header f)) = Ok p"
      "map_of hs p = None" "map_of desired p = None" "read_entry f p n = Ok (c, n')" "utf8_Valid c"
      "merge_loop desired fs (hs @ [(p, (zf_Header f)\<lparr>zh_Name := p\<rparr>)]) pres n' = Ok st"
  | (binary) p c n' where "\<not> zip_IsDir (zf_Header f)" "validateTemplateSourcePath (zh_Name (zf_Header f)) = Ok p"
      "map_of hs p = None" "map_of desired p = None" "read_entry f p n = Ok (c, n')" "\<not> utf8_Valid c"
      "map_of pres p = None"
      "merge_loop desired fs (hs @ [(p, (zf_Header f)\<lparr>zh_Name := p\<rparr>)])
         (pres @ [(p, (c, (zf_Header f)\<lparr>zh_Name := p\<rparr>))]) n' = Ok st"
proof (cases "zip_IsDir (zf_Header f)")
  case True
  with assms show ?thesis by (intro dir) auto
next
  case False
  with assms obtain p where p: "validateTemplateSourcePath (zh_Name (zf_Header f)) = Ok p" "map_of hs p = None"
    by (auto simp: rbind_eq_Ok split: if_splits)
  show ?thesis
  proof (cases "map_of desired p")
    case None
    with False assms p obtain c n' where rd: "read_entry f p n = Ok (c, n')" by (auto simp: rbind_eq_Ok Let_def)
    show ?thesis
      using False assms p None rd
      by (cases "utf8_Valid c"; cases "map_of pres p") (auto simp: Let_def intro: textual binary)
  next
    case (Some x)
    with False assms p show ?thesis by (intro over) (auto simp: Let_def)
  qed
qed

lemma merge_loop_inv:
  "merge_loop desired (map Some fs) hs pres n = Ok st \<Longrightarrow> merge_inv desired (hs, pres, n) \<Longrightarrow> merge_inv desired st"
proof (induction fs arbitrary: hs pres n)
  case (Cons f fs)
  from Cons.prems(1) have "merge_loop desired (Some f # map Some fs) hs pres n = Ok st" by simp
  then show ?case
  proof (cases rule: merge_loop_step)
    case dir
    with Cons show ?thesis by blast
  next
    case (over p)
    from over(1) Cons.prems(2) show ?thesis
      by (intro Cons.IH [OF over(5)]) (auto simp: merge_inv_def zip_IsDir_def)
  next
    case (textual p c n')
    from textual(1) Cons.prems(2) read_entry_Ok [OF textual(5)] show ?thesis
      by (intro Cons.IH [OF textual(7)]) (auto simp: merge_inv_def zip_IsDir_def)
  next
    case (binary p c n')
    from binary(1,4,6,7) Cons.prems(2) read_entry_Ok [OF binary(5)] validate_Ok [OF binary(2)] show ?thesis
      by (intro Cons.IH [OF binary(8)]) (auto simp: merge_inv_def zip_IsDir_def map_of_eq_None_iff)
  qed
qed simp

lemma merge_loop_complete:
  "merge_loop desired (map Some fs) hs pres n = Ok (hs', pres', n') \<Longrightarrow>
     set pres \<subseteq> set pres' \<and>
     (\<forall>f \<in> set fs. \<forall>p d. \<not> zip_IsDir (zf_Header f) \<longrightarrow> validateTemplateSourcePath (zh_Name (zf_Header f)) = Ok p \<longrightarrow>
        map_of desired p = None \<longrightarrow> zf_Open f = Inr d \<longrightarrow> \<not> utf8_Valid (zd_Data d) \<longrightarrow> (p, zd_Data d) \<in> set (kept pres'))"
proof (induction fs arbitrary: hs pres n)
  case (Cons f fs)
  from Cons.prems have "merge_loop desired (Some f # map Some fs) hs pres n = Ok (hs', pres', n')" by simp
  then show ?case
  proof (cases rule: merge_loop_step)
    case dir
    with Cons.IH [OF dir(2)] show ?thesis by auto
  next
    case (over p)
    with Cons.IH [OF over(5)] show ?thesis by auto
  next
    case (textual p c n')
    with Cons.IH [OF textual(7)] read_entry_Ok [OF textual(5)] show ?thesis by auto
  next
    case (binary p c n')
    with Cons.IH [OF binary(8)] read_entry_Ok [OF binary(5)] show ?thesis by (force simp: kept_def)
  qed
qed simp

lemma merge_loop_entries: "merge_loop desired es hs pres n = Ok st \<Longrightarrow> \<exists>fs. es = map Some fs"
proof (induction es arbitrary: hs pres n)
  case (Cons e es)
  then obtain f where e: "e = Some f" by (cases e) auto
  from Cons.prems have "\<exists>fs. es = map Some fs"
    unfolding e by (cases rule: merge_loop_step) (auto dest: Cons.IH)
  with e show ?case by (metis list.map(2))
qed simp

lemma check_contents_Ok:
  assumes "n \<le> maxTemplateSourceTotalUncompressedBytes"
  shows "check_contents fs n = Ok n' \<longleftrightarrow> n' = n + sum_length fs \<and> n' \<le> maxTemplateSourceTotalUncompressedBytes \<and>
     (\<forall>(p, c) \<in> set fs. utf8_Valid c \<and> length c \<le> maxTemplateSourceFileBytes)"
  using assms
proof (induction fs arbitrary: n)
  case (Cons f fs)
  obtain p c where f: "f = (p, c)" by force
  show ?case
    using Cons.IH [of "n + length c"]
    by (cases "n + length c \<le> maxTemplateSourceTotalUncompressedBytes") (auto simp: f rbind_eq_Ok check_content_Ok)
qed auto

lemma merge_write_loop_Ok:
  assumes "merge_write_loop zl desired hs pres ps w = Ok w'" "\<forall>(p, h) \<in> set hs. \<not> zh_ModeDir h"
    "\<forall>(p, (c, h)) \<in> set pres. \<not> zh_ModeDir h"
  shows "\<exists>es. w' = w @ es \<and> named es = map (\<lambda>p. (p, the (map_of (desired @ kept pres) p))) ps \<and>
    (\<forall>(h, c) \<in> set es. \<not> zh_ModeDir h)"
  using assms(1)
proof (induction ps arbitrary: w)
  case (Cons p ps)
  have kept_of: "map_of (kept pres) p = map_option fst (map_of pres p)"
    by (induction pres) (auto simp: kept_def)
  from Cons.prems obtain w1 h c where w1: "w1 = w @ [(h, c)]" and more: "merge_write_loop zl desired hs pres ps w1 = Ok w'"
    and h: "zh_Name h = p" "\<not> zh_ModeDir h" "c = the (map_of (desired @ kept pres) p)"
    using assms(2,3) kept_of
    by (auto simp: rbind_eq_Ok reset_header_def new_header_def map_add_def split: option.splits prod.splits
        dest!: zip_append_Ok dest: map_of_SomeD)
  from Cons.IH [OF more] obtain es where "w' = w1 @ es"
    "named es = map (\<lambda>p. (p, the (map_of (desired @ kept pres) p))) ps" "\<forall>(h, c) \<in> set es. \<not> zh_ModeDir h" by blast
  with w1 h show ?case by (intro exI [of _ "(h, c) # es"]) auto
qed simp

lemma named_mem: "(h, c) \<in> set es \<Longrightarrow> (zh_Name h, c) \<in> set (named es)"
  by (force simp: named_def)

lemma norm_safe:
  assumes "\<forall>(p, c) \<in> set fs. is_ok (validateTemplateSourcePath p)" "(p, c) \<in> set (norm fs)"
  shows "safe_path p"
  using assms validate_Ok by (fastforce simp: norm_def is_ok_validate)

lemma buildMerged_steps:
  assumes "buildMergedSourceZip zl (Some orig) (Some desired) = Ok z"
  obtains fs hs pres n where "normalize_loop desired [] = Ok (norm desired)"
    "zip_NewReader zl orig = Inr (map Some fs)" "merge_loop (norm desired) (map Some fs) [] [] 0 = Ok (hs, pres, n)"
    "writeMerged zl (norm desired) (hs, pres, n) = Ok z"
proof -
  from assms obtain D es st where D: "normalize_loop desired [] = Ok D" and es: "open_archive zl orig = Ok es" and
    st: "merge_loop D es [] [] 0 = Ok st" and w: "writeMerged zl D st = Ok z"
    by (auto simp: buildMergedSourceZip_def normalizeFileKeys_def rbind_eq_Ok split: if_splits)
  from D have n: "D = norm desired" by (simp add: normalize_loop_Ok)
  from merge_loop_entries [OF st] es obtain fs where "es = map Some fs" "zip_NewReader zl orig = Inr (map Some fs)"
    by (auto simp: open_archive_def split: sum.splits if_splits)
  with D st w n that show ?thesis by (cases st) auto
qed

lemma writeMerged_Ok:
  assumes w: "writeMerged zl D (hs, pres, n) = Ok z" and inv: "merge_inv D (hs, pres, n)"
    and D: "distinct (map fst D)" "\<forall>(p, c) \<in> set D. safe_path p"
  shows "\<exists>es. zip_Close zl es = Inr z \<and> length z \<le> maxTemplateSourceZipBytes \<and> archive_ok es \<and>
    named es = by_keys (D @ kept pres) \<and> distinct (map fst (D @ kept pres)) \<and> (\<forall>(p, c) \<in> set D. utf8_Valid c)"
proof -
  from w inv obtain m es where chk: "check_contents D n = Ok m" and len: "length D + length pres \<le> maxTemplateSourceFiles"
    and wr: "merge_write_loop zl D hs pres (sort (map fst D @ map fst pres)) [] = Ok es"
    and fin: "zip_finish zl es = Ok z"
    by (auto simp: writeMerged_def rbind_eq_Ok split: if_splits option.splits)
  have heads: "\<forall>(p, h) \<in> set hs. \<not> zh_ModeDir h" "\<forall>(p, (c, h)) \<in> set pres. \<not> zh_ModeDir h"
    using inv by (auto simp: merge_inv_def)
  let ?al = "D @ kept pres"
  from merge_write_loop_Ok [OF wr heads] have nm: "named es = by_keys ?al" and nd: "\<forall>(h, c) \<in> set es. \<not> zh_ModeDir h"
    by (auto simp: by_keys_def)
  have dis: "fst ` set D \<inter> fst ` set pres = {}"
    using inv by (fastforce simp: merge_inv_def map_of_eq_None_iff)
  moreover have "fst ` set (kept pres) = fst ` set pres" by (force simp: kept_def)
  ultimately have d: "distinct (map fst ?al)"
    using D(1) inv by (simp add: merge_inv_def)
  from chk inv have sums: "sum_length D + n \<le> maxTemplateSourceTotalUncompressedBytes" and
    cont: "\<forall>(p, c) \<in> set D. utf8_Valid c \<and> length c \<le> maxTemplateSourceFileBytes"
    by (auto simp: merge_inv_def check_contents_Ok)
  have all: "safe_path p \<and> length c \<le> maxTemplateSourceFileBytes" if "(p, c) \<in> set ?al" for p c
    using that cont D(2) inv by (auto simp: merge_inv_def kept_def)
  have "archive_ok es"
    unfolding archive_ok_def
  proof (intro conjI)
    show "length es \<le> maxTemplateSourceFiles"
      using len by_keys_props(5) [OF d] nm by (metis kept_simps(5) length_append named_simps(3))
    show "\<forall>(h, c) \<in> set es. \<not> zh_ModeDir h \<and> safe_path (zh_Name h) \<and> length c \<le> maxTemplateSourceFileBytes"
      using nd all by_keys_props(2) [OF d] named_mem nm by (metis (mono_tags, lifting) case_prodD case_prodI2)
    show "sum_length (named es) \<le> maxTemplateSourceTotalUncompressedBytes"
      using sums inv by (simp add: nm by_keys_props(4) [OF d] merge_inv_def)
  qed (simp add: nm by_keys_props(3) [OF d])
  with fin nm d cont show ?thesis by (auto simp: zip_finish_Ok)
qed

lemma buildMerged_read:
  assumes zip: "zip_ok zl" and run: "buildMergedSourceZip zl (Some orig) (Some desired) = Ok z"
  shows "\<exists>r fs gs. sourceFilesFromZip zl z = Ok r \<and> map_of r = map_of (norm desired) \<and> distinct (map fst r) \<and>
    length z \<le> maxTemplateSourceZipBytes \<and>
    zip_NewReader zl orig = Inr (map Some fs) \<and> zip_NewReader zl z = Inr (map Some gs) \<and>
    (\<forall>f \<in> set fs. \<forall>p d. \<not> zip_IsDir (zf_Header f) \<longrightarrow> validateTemplateSourcePath (zh_Name (zf_Header f)) = Ok p \<longrightarrow>
        map_of (norm desired) p = None \<longrightarrow> zf_Open f = Inr d \<longrightarrow> \<not> utf8_Valid (zd_Data d) \<longrightarrow>
        (\<exists>g \<in> set gs. zh_Name (zf_Header g) = p \<and> zf_Open g = Inr \<lparr>zd_Data = zd_Data d, zd_ReadErr = None, zd_CloseErr = None\<rparr>))"
proof -
  let ?D = "norm desired"
  from run obtain fs hs pres n where nl: "normalize_loop desired [] = Ok ?D" and
    rd: "zip_NewReader zl orig = Inr (map Some fs)" and ml: "merge_loop ?D (map Some fs) [] [] 0 = Ok (hs, pres, n)" and
    wr: "writeMerged zl ?D (hs, pres, n) = Ok z" by (rule buildMerged_steps)
  have inv: "merge_inv ?D (hs, pres, n)"
    using merge_loop_inv [OF ml] by (simp add: merge_inv_def)
  have D: "distinct (map fst ?D)" "\<forall>(p, c) \<in> set ?D. safe_path p"
    using nl norm_safe [of desired] by (auto simp: normalize_loop_Ok)
  from writeMerged_Ok [OF wr inv D] obtain es where es: "zip_Close zl es = Inr z" "length z \<le> maxTemplateSourceZipBytes"
    "archive_ok es" "named es = by_keys (?D @ kept pres)" and d: "distinct (map fst (?D @ kept pres))" and
    u: "\<forall>(p, c) \<in> set ?D. utf8_Valid c" by blast
  let ?r = "filter (\<lambda>(p, c). utf8_Valid c) (by_keys (?D @ kept pres))"
  from archive_read [OF zip es(1,3)] es(4) obtain gs where
    r: "sourceFilesFromZip zl z = Ok ?r" and gs: "zip_NewReader zl z = Inr (map Some gs)" "list_all2 entry_read es gs" by auto
  have dr: "distinct (map fst ?r)"
    by (rule distinct_map_filter [OF by_keys_props(3) [OF d]])
  have "\<not> utf8_Valid c" if "(p, c) \<in> set (kept pres)" for p c
    using that inv by (auto simp: merge_inv_def kept_def)
  with u have "set ?r = set ?D"
    by (auto simp: by_keys_props(2) [OF d])
  then have mr: "map_of ?r = map_of ?D" using map_of_inject_set [OF dr D(1)] by simp
  have keep: "\<exists>g \<in> set gs. zh_Name (zf_Header g) = p \<and> zf_Open g = Inr \<lparr>zd_Data = c, zd_ReadErr = None, zd_CloseErr = None\<rparr>"
    if "(p, c) \<in> set (kept pres)" for p c
  proof -
    have "(p, c) \<in> set (named es)" using that by (simp add: es(4) by_keys_props(2) [OF d])
    then obtain h where "(h, c) \<in> set es" "zh_Name h = p" by (auto simp: named_def)
    with gs(2) show ?thesis by (fastforce simp: entry_read_def list_all2_conv_all_nth in_set_conv_nth)
  qed
  show ?thesis
    using r mr dr es(2) rd gs(1) merge_loop_complete [OF ml] keep by blast
qed

end
