(* ===== verification/Template_Correct.thy ===== *)
theory Template_Correct
  imports Template_Storage Template_Files_Correct Workspace_Correct
begin

text \<open>
  Correctness of the template storage: what each successful handler did, that a changed
  archive becomes active only after its build succeeded and that the promotion is verified,
  which handlers only read, and when handlers cannot panic.
\<close>

section \<open>Reads\<close>

lemma readSourceResponse_Ok:
  "readSourceResponse f resp = Ok z \<longleftrightarrow> resp_StatusCode resp = 200 \<and> resp_ReadErr resp = None \<and>
     resp_CloseErr resp = None \<and> z = resp_Body resp \<and> length z \<le> maxTemplateSourceZipBytes"
  by (auto simp: readSourceResponse_def read_limited_def Let_def split: option.splits)

lemma fetchRaw_Ok:
  assumes "fetchRawTemplateSourceZip api ctx sdk v w = (Ok z, w')"
  shows "\<exists>c x b1 resp b2. sdk = Some c \<and> sdk_TemplateVersion (api c) v (backend w) = (Inr x, b1) \<and>
    sdk_RequestFile (api c) (job_FileID (tv_Job x)) b1 = (Inr resp, b2) \<and> resp_StatusCode resp = 200 \<and>
    resp_ReadErr resp = None \<and> z = resp_Body resp \<and> length z \<le> maxTemplateSourceZipBytes \<and> w' = w\<lparr>backend := b2\<rparr>"
  using assms unfolding fetchRawTemplateSourceZip_def
  by (auto simp: op_ok_simps readSourceResponse_Ok)

lemma fetchFiles_Ok:
  "fetchTemplateSourceFiles zl api ctx sdk v w = (Ok fs, w') \<longleftrightarrow>
     (\<exists>c k z. ctx = Some k \<and> sdk = Some c \<and> v \<noteq> uuid_Nil \<and>
        fetchRawTemplateSourceZip api ctx sdk v w = (Ok z, w') \<and> sourceFilesFromZip zl z = Ok fs)"
  by (auto simp: fetchTemplateSourceFiles_def op_ok_simps)

lemma preserves_fetchRaw:
  assumes "\<And>c. reads_keep I (api c)"
  shows "preserves (read_inv I q cl) (fetchRawTemplateSourceZip api ctx sdk v)"
proof -
  have calls: "preserves (read_inv I q cl) (sdk_call (sdk_TemplateVersion (api c) v))"
    "preserves (read_inv I q cl) (sdk_call (sdk_RequestFile (api c) f))" for c v f
    using assms [of c] by (simp_all add: preserves_reads)
  show ?thesis
    unfolding fetchRawTemplateSourceZip_def by (intro pres_rules calls)
qed

lemma preserves_fetchFiles:
  assumes "\<And>c. reads_keep I (api c)"
  shows "preserves (read_inv I q cl) (fetchTemplateSourceFiles zl api ctx sdk v)"
  unfolding fetchTemplateSourceFiles_def by (intro pres_rules preserves_fetchRaw assms)

lemma template_reads_only:
  assumes reads: "\<And>c. reads_keep I (api c)"
  shows "preserves (read_inv I q cl) (TemplateStorage_Get rt api s ctx name)"
    and "preserves (read_inv I q cl) (TemplateStorage_List api s ctx)"
proof -
  let ?J = "read_inv I q cl"
  have calls: "preserves ?J (sdk_call (sdk_OrganizationByName (api c) n))"
    "preserves ?J (sdk_call (sdk_TemplateByName (api c) i n))" "preserves ?J (sdk_call (sdk_Templates (api c)))" for c i n
    using reads [of c] by (simp_all add: preserves_reads)
  show "preserves ?J (TemplateStorage_Get rt api s ctx name)"
    unfolding TemplateStorage_Get_def by (intro pres_rules calls preserves_fetchFiles reads)
  have "preserves ?J (template_list_call api c)" for c
    unfolding template_list_call_def by (intro pres_rules calls)
  then show "preserves ?J (TemplateStorage_List api s ctx)"
    unfolding TemplateStorage_List_def Let_def
    by (intro pres_rules preserves_list_namespaces) auto
qed

lemma fetchRaw_frame:
  "fetchRawTemplateSourceZip api ctx sdk v w = (Ok z, w') \<Longrightarrow> watchEvents w' = watchEvents w \<and> watchClosed w' = watchClosed w"
  by (auto dest!: fetchRaw_Ok)

lemma TemplateStorage_Get_Ok:
  assumes "TemplateStorage_Get rt api (Some s) (Some ctx) name w = (Ok obj, w')"
  shows "\<exists>org tn sdk i b1 t b2 obj0 fs. ctx_Namespace ctx \<noteq> [] \<and> ParseTemplateName name = Ok (org, tn) \<and>
    client_of s ctx (backend w) sdk \<and> sdk_OrganizationByName (api sdk) org (backend w) = (Inr i, b1) \<and>
    sdk_TemplateByName (api sdk) i tn b1 = (Inr t, b2) \<and> TemplateToK8s (ctx_Namespace ctx) t = Ok obj0 \<and>
    fetchTemplateSourceFiles (rt_zip rt) api (Some ctx) (Some sdk) (t_ActiveVersionID t) (w\<lparr>backend := b2\<rparr>) = (Ok fs, w') \<and>
    obj = obj0\<lparr>ct_spec := (ct_spec obj0)\<lparr>tsp_Files := Some fs\<rparr>\<rparr>"
  using assms unfolding TemplateStorage_Get_def by (auto simp: handler_ok_simps) blast

lemma TemplateStorage_Get_frame:
  assumes "TemplateStorage_Get rt api (Some s) (Some ctx) name w = (Ok obj, w')"
  shows "watchEvents w' = watchEvents w \<and> watchClosed w' = watchClosed w"
  using TemplateStorage_Get_Ok [OF assms] by (auto simp: fetchFiles_Ok dest!: fetchRaw_frame)

lemma template_list_Ok:
  assumes "TemplateStorage_List api (Some s) (Some ctx) w = (Ok l, w')" "ctx_Namespace ctx = []"
    and prov: "st_provider s = Some prov" "prov_NamespaceLister prov = Some elig"
    and same: "\<And>c. snd (sdk_Templates (api c) (backend w)) = backend w"
  shows "\<exists>nss items. elig (Some ctx) (backend w) = Ok nss \<and> ctl_Items l = sort_by_meta ct_meta items \<and>
     listed_from prov ctx (\<lambda>c. sdk_Templates (api c)) TemplateToK8s (backend w) nss items"
proof -
  from assms obtain nss items where "elig (Some ctx) (backend w) = Ok nss" "ctl_Items l = sort_by_meta ct_meta items"
    "list_namespaces (clientForNamespace ''template'' s (Some ctx)) (template_list_call api) TemplateToK8s nss w
       = (Ok items, w')"
    by (auto simp: TemplateStorage_List_def Let_def op_ok_simps namespaceFromRequestContext_def)
  then show ?thesis
    unfolding template_list_call_def using list_namespaces_listed [OF _ prov(1), where lc = "\<lambda>c. sdk_Templates (api c)"] same by blast
qed

section \<open>Create and Delete\<close>

lemma template_delete_Ok:
  assumes "TemplateStorage_Delete api (Some s) (Some ctx) name dv w = (Ok (st, deleted), w')"
  shows "\<exists>org tn sdk i b1 t b2 b3 obj. deleted \<and> client_of s ctx (backend w) sdk \<and> ParseTemplateName name = Ok (org, tn) \<and>
    sdk_OrganizationByName (api sdk) org (backend w) = (Inr i, b1) \<and> sdk_TemplateByName (api sdk) i tn b1 = (Inr t, b2) \<and>
    TemplateToK8s (ctx_Namespace ctx) t = Ok obj \<and>
    b3 = (case dv of None \<Rightarrow> b2 | Some f \<Rightarrow> snd (f (ObjTemplate obj) b2)) \<and>
    sdk_DeleteTemplate (api sdk) (t_ID t) b3 = (Inr (), backend w') \<and>
    watchEvents w' = watchEvents (enq_event \<lparr>ev_Type = Deleted, ev_Object = ObjTemplate obj\<rparr> w)"
proof -
  from assms obtain org tn sdk i b1 t b2 u w1 b4 obj where
    r: "client_of s ctx (backend w) sdk" "ParseTemplateName name = Ok (org, tn)"
      "sdk_OrganizationByName (api sdk) org (backend w) = (Inr i, b1)" "sdk_TemplateByName (api sdk) i tn b1 = (Inr t, b2)" and
    v: "(case dv of None \<Rightarrow> ret () | Some f \<Rightarrow>
           bind (lift (TemplateToK8s (ctx_Namespace ctx) t)) (\<lambda>obj. sdk_call (f (ObjTemplate obj))))
          (w\<lparr>backend := b2\<rparr>) = (Ok u, w1)" and
    dl: "sdk_DeleteTemplate (api sdk) (t_ID t) (backend w1) = (Inr (), b4)" and
    conv: "TemplateToK8s (ctx_Namespace ctx) t = Ok obj" and
    enq: "enqueueWatchEvent ''template'' (Some s) Deleted (Some (ObjTemplate obj)) (w1\<lparr>backend := b4\<rparr>) = (Ok (), w')" and
    del: "deleted"
    unfolding TemplateStorage_Delete_def by (auto simp: handler_ok_simps)
  have w1: "w1 = w\<lparr>backend := (case dv of None \<Rightarrow> b2 | Some f \<Rightarrow> snd (f (ObjTemplate obj) b2))\<rparr>"
    using v conv by (auto simp: op_ok_simps split: option.splits)
  with enqueue_Some_Ok [OF enq] have
    "watchEvents w' = watchEvents (enq_event \<lparr>ev_Type = Deleted, ev_Object = ObjTemplate obj\<rparr> w)" "backend w' = b4"
    by (auto simp: enq_event_def)
  with r dl conv del w1 show ?thesis by (auto simp del: split_paired_Ex)
qed

text \<open>The version a template is created from: uploaded from the files, or the one named.\<close>

definition version_source :: "'b runtime_env \<Rightarrow> 'b codersdk \<Rightarrow> uuid \<Rightarrow> CoderTemplateSpec \<Rightarrow> uuid \<Rightarrow> 'b \<Rightarrow> 'b \<Rightarrow> bool" where
  "version_source rt sdk i spec v b b' \<longleftrightarrow> (case tsp_Files spec of
     None \<Rightarrow> uuid_Parse (tsp_VersionID spec) = Inr v \<and> b' = b
   | Some fs \<Rightarrow> \<exists>z f b1 tv. buildSourceZip (rt_zip rt) (Some fs) = Ok z \<and> sdk_Upload sdk z b = (Inr f, b1) \<and>
       sdk_CreateTemplateVersion sdk i \<lparr>ctv_TemplateID = uuid_Nil, ctv_StorageMethod = ProvisionerStorageMethodFile,
         ctv_FileID = f, ctv_Provisioner = ProvisionerTypeTerraform\<rparr> b1 = (Inr tv, b') \<and> v = tv_ID tv)"

lemma create_request_Ok:
  assumes "template_create_request rt api sdk i o' tn w = (Ok r, w')"
  shows "\<exists>b'. w' = w\<lparr>backend := b'\<rparr> \<and> version_source rt (api sdk) i (ct_spec o') (ctr_VersionID r) (backend w) b' \<and>
    ctr_Name r = tn \<and> ctr_DisplayName r = tsp_DisplayName (ct_spec o') \<and>
    ctr_Description r = tsp_Description (ct_spec o') \<and> ctr_Icon r = tsp_Icon (ct_spec o')"
proof (cases "tsp_Files (ct_spec o')")
  case None
  with assms show ?thesis
    by (auto simp: template_create_request_def version_source_def op_ok_simps TemplateCreateRequest_Ok
        intro: exI [of _ "backend w"])
next
  case (Some fs)
  with assms show ?thesis
    by (auto simp: template_create_request_def version_source_def op_ok_simps)
qed

lemma template_create_Ok:
  assumes "TemplateStorage_Create rt api (Some s) (Some ctx) (Some (ObjTemplate o')) cv w = (Ok obj, w')"
  shows "\<exists>b0 tn sdk i b1 r b2 t. b0 = (case cv of None \<Rightarrow> backend w | Some f \<Rightarrow> snd (f (ObjTemplate o') (backend w))) \<and>
    client_of s ctx b0 sdk \<and> ParseTemplateName (Name (ct_meta o')) = Ok (tsp_Organization (ct_spec o'), tn) \<and>
    sdk_OrganizationByName (api sdk) (tsp_Organization (ct_spec o')) b0 = (Inr i, b1) \<and>
    version_source rt (api sdk) i (ct_spec o') (ctr_VersionID r) b1 b2 \<and> ctr_Name r = tn \<and>
    ctr_DisplayName r = tsp_DisplayName (ct_spec o') \<and> ctr_Description r = tsp_Description (ct_spec o') \<and>
    ctr_Icon r = tsp_Icon (ct_spec o') \<and>
    sdk_CreateTemplate (api sdk) i r b2 = (Inr t, backend w') \<and> TemplateToK8s (ctx_Namespace ctx) t = Ok obj \<and>
    watchEvents w' = watchEvents (enq_event \<lparr>ev_Type = Added, ev_Object = ObjTemplate obj\<rparr> w)"
proof -
  from assms obtain w1 tn sdk i b1 r w2 t b3 where
    v: "run_validate cv (ObjTemplate o') w = (Ok (), w1)" and
    c: "client_of s ctx (backend w1) sdk" "ParseTemplateName (Name (ct_meta o')) = Ok (tsp_Organization (ct_spec o'), tn)"
      "sdk_OrganizationByName (api sdk) (tsp_Organization (ct_spec o')) (backend w1) = (Inr i, b1)" and
    r: "template_create_request rt api sdk i o' tn (w1\<lparr>backend := b1\<rparr>) = (Ok r, w2)" and
    t: "sdk_CreateTemplate (api sdk) i r (backend w2) = (Inr t, b3)" "TemplateToK8s (ctx_Namespace ctx) t = Ok obj" and
    enq: "enqueueWatchEvent ''template'' (Some s) Added (Some (ObjTemplate obj)) (w2\<lparr>backend := b3\<rparr>) = (Ok (), w')"
    unfolding TemplateStorage_Create_def by (auto simp: handler_ok_simps)
  have w1: "w1 = w\<lparr>backend := (case cv of None \<Rightarrow> backend w | Some f \<Rightarrow> snd (f (ObjTemplate o') (backend w)))\<rparr>"
    using run_validate_snd [of cv "ObjTemplate o'" w] v by simp
  from create_request_Ok [OF r] obtain b2 where w2: "w2 = w1\<lparr>backend := b2\<rparr>" and
    q: "version_source rt (api sdk) i (ct_spec o') (ctr_VersionID r) b1 b2" "ctr_Name r = tn"
      "ctr_DisplayName r = tsp_DisplayName (ct_spec o')" "ctr_Description r = tsp_Description (ct_spec o')"
      "ctr_Icon r = tsp_Icon (ct_spec o')"
    by auto
  from enqueue_Some_Ok [OF enq] have
    "watchEvents w' = watchEvents (enq_event \<lparr>ev_Type = Added, ev_Object = ObjTemplate obj\<rparr> w)" "backend w' = b3"
    unfolding w2 w1 by (auto simp: enq_event_def)
  moreover have "backend w1 = (case cv of None \<Rightarrow> backend w | Some f \<Rightarrow> snd (f (ObjTemplate o') (backend w)))"
    unfolding w1 by simp
  ultimately show ?thesis
    using c q t by (intro exI [of _ "backend w1"] exI [of _ tn] exI [of _ sdk] exI [of _ i] exI [of _ b1] exI [of _ r]
        exI [of _ b2] exI [of _ t]) (simp add: w2)
qed

section \<open>Update\<close>

lemma norm_idem:
  assumes "normalize_loop fs [] = Ok D"
  shows "norm D = D"
proof -
  from assms have D: "D = norm fs" and ok: "\<forall>(p, c) \<in> set fs. is_ok (validateTemplateSourcePath p)"
    by (auto simp: normalize_loop_Ok)
  show ?thesis
    unfolding norm_def [of D] by (rule map_idI) (use norm_safe [OF ok] clean_safe_path D in auto)
qed

lemma prevalidate_Ok:
  assumes "TemplateStorage_prevalidate zl files = Ok d"
  shows "case files of None \<Rightarrow> d = None
    | Some fs \<Rightarrow> d = Some (norm fs) \<and> normalize_loop fs [] = Ok (norm fs) \<and> norm (norm fs) = norm fs"
proof (cases files)
  case (Some fs)
  with assms obtain D where D: "normalize_loop fs [] = Ok D" "d = Some D"
    by (auto simp: TemplateStorage_prevalidate_def normalizeFileKeys_def rbind_eq_Ok)
  moreover from D(1) have "D = norm fs" by (simp add: normalize_loop_Ok)
  ultimately show ?thesis using norm_idem [OF D(1)] Some by simp
qed (use assms in \<open>simp add: TemplateStorage_prevalidate_def\<close>)

lemma read_loop_distinct:
  "read_loop es files seen n = Ok r \<Longrightarrow> distinct (map fst files) \<Longrightarrow> fst ` set files \<subseteq> set seen \<Longrightarrow> distinct (map fst r)"
proof (induction es files seen n rule: read_loop.induct)
  case (3 f rest files seen n)
  show ?case
  proof (cases "zip_IsDir (zf_Header f)")
    case True
    with 3 show ?thesis by simp
  next
    case False
    with "3.prems" obtain p c n' where p: "validateTemplateSourcePath (zh_Name (zf_Header f)) = Ok p" "p \<notin> set seen"
      and rd: "read_entry f p n = Ok (c, n')" and
      more: "read_loop rest (if utf8_Valid c then files @ [(p, c)] else files) (seen @ [p]) n' = Ok r"
      by (auto simp: rbind_eq_Ok split: if_splits)
    show ?thesis
      by (rule "3.IH"(2) [OF False _ more]) (use p "3.prems" in \<open>auto\<close>)
  qed
qed auto

lemma sourceFiles_distinct: "sourceFilesFromZip zl z = Ok fs \<Longrightarrow> distinct (map fst fs)"
  by (auto simp: sourceFilesFromZip_def rbind_eq_Ok dest: read_loop_distinct)

lemma files_DeepEqual_iff:
  assumes "distinct (map fst a)" "distinct (map fst b)"
  shows "files_DeepEqual a b \<longleftrightarrow> map_of a = map_of b"
proof
  assume eq: "files_DeepEqual a b"
  have "set a \<subseteq> set b" using eq by (auto simp: files_DeepEqual_def list_all_iff dest: map_of_SomeD)
  moreover have "card (set a) = card (set b)"
    using eq assms by (simp add: files_DeepEqual_def distinct_card distinct_map)
  ultimately have "set a = set b" by (intro card_subset_eq) auto
  then show "map_of a = map_of b" using map_of_inject_set [OF assms] by simp
next
  assume eq: "map_of a = map_of b"
  then have "set a = set b" using map_of_inject_set [OF assms] by simp
  then show "files_DeepEqual a b"
    using assms eq distinct_card [of a] distinct_card [of b]
    by (auto simp: files_DeepEqual_def list_all_iff distinct_map)
qed

lemma wait_Ok:
  assumes "waitForTemplateVersionBuild k env clk api ctx (Some c) v w = (Ok u, w')"
  shows "\<exists>b x b'. sdk_TemplateVersion (api c) v b = (Inr x, b') \<and> job_Status (tv_Job x) = ''succeeded'' \<and> w' = w\<lparr>backend := b'\<rparr>"
  using assms unfolding waitForTemplateVersionBuild_def Let_def
  by (auto simp: op_ok_simps dest: wait_loop_Ok)

text \<open>
  A version is promoted: its archive was uploaded, it was created for the template, its
  build was seen to have succeeded, it was made active, and the template read after that has
  it as its active version.
\<close>

definition promoted ::
    "'b codersdk \<Rightarrow> string \<Rightarrow> uuid \<Rightarrow> string \<Rightarrow> uuid \<Rightarrow> 'b \<Rightarrow> 'b \<Rightarrow> bool" where
  "promoted sdk org tid z v b b' \<longleftrightarrow> (\<exists>f b1 i b2 nv b3 b4 x b5 b6 t.
     sdk_Upload sdk z b = (Inr f, b1) \<and> sdk_OrganizationByName sdk org b1 = (Inr i, b2) \<and>
     sdk_CreateTemplateVersion sdk i \<lparr>ctv_TemplateID = tid, ctv_StorageMethod = ProvisionerStorageMethodFile,
       ctv_FileID = f, ctv_Provisioner = ProvisionerTypeTerraform\<rparr> b2 = (Inr nv, b3) \<and> v = tv_ID nv \<and>
     sdk_TemplateVersion sdk v b4 = (Inr x, b5) \<and> job_Status (tv_Job x) = ''succeeded'' \<and>
     sdk_UpdateActiveTemplateVersion sdk tid v b5 = (Inr (), b6) \<and>
     sdk_Template sdk tid b6 = (Inr t, b') \<and> t_ActiveVersionID t = v)"

lemma promote_Ok:
  assumes "TemplateStorage_promote rt api ctx sdk name org tid z w = (Ok u, w')"
  shows "\<exists>v b'. promoted (api sdk) org tid z v (backend w) b' \<and> w' = w\<lparr>backend := b'\<rparr>"
proof -
  from assms obtain f b1 i b2 nv b3 w4 b6 t b7 where
    s: "sdk_Upload (api sdk) z (backend w) = (Inr f, b1)" "sdk_OrganizationByName (api sdk) org b1 = (Inr i, b2)"
      "sdk_CreateTemplateVersion (api sdk) i \<lparr>ctv_TemplateID = tid, ctv_StorageMethod = ProvisionerStorageMethodFile,
         ctv_FileID = f, ctv_Provisioner = ProvisionerTypeTerraform\<rparr> b2 = (Inr nv, b3)" and
    wt: "waitForTemplateVersionBuild (rt_fuel rt) (rt_env rt) (rt_clock rt) api ctx (Some sdk) (tv_ID nv)
         (w\<lparr>backend := b3\<rparr>) = (Ok (), w4)" and
    p: "sdk_UpdateActiveTemplateVersion (api sdk) tid (tv_ID nv) (backend w4) = (Inr (), b6)"
      "sdk_Template (api sdk) tid b6 = (Inr t, b7)" "t_ActiveVersionID t = tv_ID nv" "w' = w4\<lparr>backend := b7\<rparr>"
    unfolding TemplateStorage_promote_def by (auto simp: op_ok_simps)
  from wait_Ok [OF wt] obtain b x b5 where x: "sdk_TemplateVersion (api sdk) (tv_ID nv) b = (Inr x, b5)"
    "job_Status (tv_Job x) = ''succeeded''" "w4 = w\<lparr>backend := b5\<rparr>" by auto
  have act: "sdk_UpdateActiveTemplateVersion (api sdk) tid (tv_ID nv) b5 = (Inr (), b6)"
    using p(1) x(3) by simp
  have "promoted (api sdk) org tid z (tv_ID nv) (backend w) b7"
    unfolding promoted_def using s act p(2,3) x(1,2) by blast
  with p(4) x(3) show ?thesis by auto
qed

text \<open>When the build fails, is cancelled or is not ready in time, nothing is promoted.\<close>

lemma promote_wait_failed:
  assumes "sdk_Upload (api sdk) z (backend w) = (Inr f, b1)" "f \<noteq> uuid_Nil"
    "sdk_OrganizationByName (api sdk) org b1 = (Inr i, b2)"
    "sdk_CreateTemplateVersion (api sdk) i \<lparr>ctv_TemplateID = tid, ctv_StorageMethod = ProvisionerStorageMethodFile,
         ctv_FileID = f, ctv_Provisioner = ProvisionerTypeTerraform\<rparr> b2 = (Inr nv, b3)" "tv_ID nv \<noteq> uuid_Nil"
    "waitForTemplateVersionBuild (rt_fuel rt) (rt_env rt) (rt_clock rt) api ctx (Some sdk) (tv_ID nv)
         (w\<lparr>backend := b3\<rparr>) = (Err e, w4)" "mapTemplateVersionBuildWaitError e name = Ok e'"
  shows "TemplateStorage_promote rt api ctx sdk name org tid z w = (Err e', w4)"
  using assms by (simp add: TemplateStorage_promote_def bind_def handle_def map_err_run sdk_call_run)

lemma updateFiles_Ok:
  assumes "TemplateStorage_updateFiles rt api ctx sdk name tid desired cur w = (Ok u, w')"
  shows "case desired of None \<Rightarrow> w' = w
    | Some D \<Rightarrow> \<exists>v fs w1. uuid_Parse (tst_ActiveVersionID (ct_status cur)) = Inr v \<and>
        fetchTemplateSourceFiles (rt_zip rt) api ctx (Some sdk) v w = (Ok fs, w1) \<and>
        (if files_DeepEqual D fs then w' = w1
         else \<exists>orig w2 z nv b'. fetchRawTemplateSourceZip api ctx (Some sdk) v w1 = (Ok orig, w2) \<and>
           buildMergedSourceZip (rt_zip rt) (Some orig) (Some D) = Ok z \<and>
           promoted (api sdk) (tsp_Organization (ct_spec cur)) tid z nv (backend w2) b' \<and> w' = w2\<lparr>backend := b'\<rparr>)"
  using assms unfolding TemplateStorage_updateFiles_def
  by (auto simp: op_ok_simps split: option.splits sum.splits if_splits dest!: promote_Ok) blast+

lemma checkUpdated_Ok:
  "TemplateStorage_checkUpdated name ns u c = Ok () \<longleftrightarrow>
     (Name (ct_meta u) = [] \<or> Name (ct_meta u) = name) \<and> (Namespace (ct_meta u) = [] \<or> Namespace (ct_meta u) = ns) \<and>
     ResourceVersion (ct_meta u) \<noteq> [] \<and> ResourceVersion (ct_meta u) = ResourceVersion (ct_meta c)"
  by (auto simp: TemplateStorage_checkUpdated_def Let_def)

lemma checkImmutable_Ok:
  "TemplateStorage_checkImmutable u c = Ok () \<longleftrightarrow> tsp_Organization u = tsp_Organization c \<and>
     (tsp_VersionID u = [] \<or> tsp_VersionID u = tsp_VersionID c)"
  by (auto simp: TemplateStorage_checkImmutable_def)

lemma updateMeta_Ok:
  assumes "TemplateStorage_updateMeta api sdk name tid u c w = (Ok x, w')"
  shows "w' = w\<lparr>backend := (if metadata_changed (ct_spec u) (ct_spec c)
    then snd (sdk_UpdateTemplateMeta (api sdk) tid (TemplateUpdateMetaRequestFromK8s u) (backend w)) else backend w)\<rparr>"
  using assms by (auto simp: TemplateStorage_updateMeta_def op_ok_simps split: if_splits)

lemma template_createOnUpdate_created:
  "TemplateStorage_createOnUpdate rt api s ctx name info cv w = (Ok (obj, created), w') \<Longrightarrow> created"
  unfolding TemplateStorage_createOnUpdate_def Let_def by (auto simp: op_ok_simps)

lemma template_update_Ok:
  assumes "TemplateStorage_Update rt api (Some s) (Some ctx) name (Some info) cv uv force w = (Ok (obj, False), w')"
  shows "\<exists>cur w1 upd b2. TemplateStorage_Get rt api (Some s) (Some ctx) name w = (Ok cur, w1) \<and>
    info (ObjTemplate cur) (backend w1) = (Inr (Some (ObjTemplate upd)), b2) \<and>
    TemplateStorage_checkUpdated name (ctx_Namespace ctx) upd cur = Ok () \<and>
    TemplateStorage_checkImmutable (ct_spec upd) (ct_spec cur) = Ok () \<and>
    TemplateStorage_applyChecked rt api (Some s) s (Some ctx) name (ctx_Namespace ctx) upd cur
      (w1\<lparr>backend := (case uv of None \<Rightarrow> b2 | Some f \<Rightarrow> snd (f (ObjTemplate upd) (ObjTemplate cur) b2))\<rparr>) = (Ok (obj, False), w')"
proof -
  from assms obtain cur w1 where get: "TemplateStorage_Get rt api (Some s) (Some ctx) name w = (Ok cur, w1)" and
    ap: "TemplateStorage_applyUpdate rt api (Some s) s (Some ctx) name info uv cur w1 = (Ok (obj, False), w')"
    unfolding TemplateStorage_Update_def
    by (auto simp: op_ok_simps dest: template_createOnUpdate_created split: if_splits)
  from ap obtain upd b2 w3 where u: "info (ObjTemplate cur) (backend w1) = (Inr (Some (ObjTemplate upd)), b2)"
    "TemplateStorage_checkUpdated name (ctx_Namespace ctx) upd cur = Ok ()"
    "TemplateStorage_checkImmutable (ct_spec upd) (ct_spec cur) = Ok ()" and
    val: "run_validate_update uv (ObjTemplate upd) (ObjTemplate cur) (w1\<lparr>backend := b2\<rparr>) = (Ok (), w3)" and
    more: "TemplateStorage_applyChecked rt api (Some s) s (Some ctx) name (ctx_Namespace ctx) upd cur w3 = (Ok (obj, False), w')"
    unfolding TemplateStorage_applyUpdate_def by (auto simp: handler_ok_simps)
  have "w3 = w1\<lparr>backend := (case uv of None \<Rightarrow> b2 | Some f \<Rightarrow> snd (f (ObjTemplate upd) (ObjTemplate cur) b2))\<rparr>"
    using run_validate_update_snd [of uv "ObjTemplate upd" "ObjTemplate cur" "w1\<lparr>backend := b2\<rparr>"] val
    by (simp split: option.splits)
  with get u more show ?thesis by blast
qed

lemma applyChecked_Ok:
  assumes "TemplateStorage_applyChecked rt api (Some s) s (Some ctx) name (ctx_Namespace ctx) upd cur w = (Ok (obj, c), w')"
  shows "\<exists>tid sdk d w1 w2 w3. uuid_Parse (tst_ID (ct_status cur)) = Inr tid \<and> client_of s ctx (backend w) sdk \<and>
    TemplateStorage_prevalidate (rt_zip rt) (tsp_Files (ct_spec upd)) = Ok d \<and>
    TemplateStorage_updateMeta api sdk name tid upd cur w = (Ok (), w1) \<and>
    TemplateStorage_updateFiles rt api (Some ctx) sdk name tid d cur w1 = (Ok (), w2) \<and>
    TemplateStorage_Get rt api (Some s) (Some ctx) name w2 = (Ok obj, w3) \<and>
    w' = enq_event \<lparr>ev_Type = Modified, ev_Object = ObjTemplate obj\<rparr> w3 \<and> \<not> c"
  using assms unfolding TemplateStorage_applyChecked_def
  by (auto simp: handler_ok_simps split: sum.splits dest!: enqueue_Some_Ok)

text \<open>
  The effect of \<open>spec.files\<close>: the active version has exactly these files already and nothing
  happens, or a version made of an archive that is read back as exactly these files is
  promoted.
\<close>

definition files_updated ::
    "'b runtime_env \<Rightarrow> (SDKClient \<Rightarrow> 'b codersdk) \<Rightarrow> Context \<Rightarrow> SDKClient \<Rightarrow> CoderTemplate \<Rightarrow> uuid \<Rightarrow> files option
       \<Rightarrow> 'b storage_state \<Rightarrow> 'b storage_state \<Rightarrow> bool" where
  "files_updated rt api ctx sdk cur tid files w w' \<longleftrightarrow> (case files of None \<Rightarrow> w' = w | Some fs \<Rightarrow>
     (\<exists>v old w1. uuid_Parse (tst_ActiveVersionID (ct_status cur)) = Inr v \<and>
        fetchTemplateSourceFiles (rt_zip rt) api (Some ctx) (Some sdk) v w = (Ok old, w1) \<and>
        (if map_of old = map_of (norm fs) then w' = w1
         else \<exists>orig w2 z new nv b'. fetchRawTemplateSourceZip api (Some ctx) (Some sdk) v w1 = (Ok orig, w2) \<and>
           sourceFilesFromZip (rt_zip rt) z = Ok new \<and> map_of new = map_of (norm fs) \<and>
           promoted (api sdk) (tsp_Organization (ct_spec cur)) tid z nv (backend w2) b' \<and> w' = w2\<lparr>backend := b'\<rparr>)))"

lemma updateFiles_spec:
  assumes zip: "zip_ok (rt_zip rt)" and pre: "TemplateStorage_prevalidate (rt_zip rt) files = Ok d"
    and run: "TemplateStorage_updateFiles rt api (Some ctx) sdk name tid d cur w = (Ok u, w')"
  shows "files_updated rt api ctx sdk cur tid files w w'"
proof (cases files)
  case None
  with prevalidate_Ok [OF pre] updateFiles_Ok [OF run] show ?thesis by (simp add: files_updated_def)
next
  case (Some fs)
  let ?D = "norm fs"
  from prevalidate_Ok [OF pre] Some have d: "d = Some ?D" and nl: "normalize_loop fs [] = Ok ?D" and idem: "norm ?D = ?D"
    by auto
  have dist: "distinct (map fst ?D)" using nl by (simp add: normalize_loop_Ok)
  from updateFiles_Ok [OF run] d obtain v old w1 where v: "uuid_Parse (tst_ActiveVersionID (ct_status cur)) = Inr v" and
    f: "fetchTemplateSourceFiles (rt_zip rt) api (Some ctx) (Some sdk) v w = (Ok old, w1)" and
    rest: "if files_DeepEqual ?D old then w' = w1
         else \<exists>orig w2 z nv b'. fetchRawTemplateSourceZip api (Some ctx) (Some sdk) v w1 = (Ok orig, w2) \<and>
           buildMergedSourceZip (rt_zip rt) (Some orig) (Some ?D) = Ok z \<and>
           promoted (api sdk) (tsp_Organization (ct_spec cur)) tid z nv (backend w2) b' \<and> w' = w2\<lparr>backend := b'\<rparr>"
    by auto
  have "distinct (map fst old)" using f sourceFiles_distinct by (auto simp: fetchFiles_Ok)
  then have eq: "files_DeepEqual ?D old \<longleftrightarrow> map_of old = map_of ?D"
    using files_DeepEqual_iff [OF dist] by metis
  show ?thesis
  proof (cases "map_of old = map_of ?D")
    case True
    with Some v f rest eq show ?thesis by (auto simp: files_updated_def)
  next
    case False
    with rest eq obtain orig w2 z nv b' where r: "fetchRawTemplateSourceZip api (Some ctx) (Some sdk) v w1 = (Ok orig, w2)"
      "buildMergedSourceZip (rt_zip rt) (Some orig) (Some ?D) = Ok z"
      "promoted (api sdk) (tsp_Organization (ct_spec cur)) tid z nv (backend w2) b'" "w' = w2\<lparr>backend := b'\<rparr>" by auto
    from buildMerged_read [OF zip r(2)] idem obtain new where
      "sourceFilesFromZip (rt_zip rt) z = Ok new" "map_of new = map_of ?D" by auto
    with r False Some v f show ?thesis unfolding files_updated_def option.case by auto
  qed
qed

section \<open>Panics\<close>

subsection \<open>Archives\<close>

lemma is_panic_validate_path [simp]: "\<not> is_panic (validate_path p)"
  by simp

lemma normalize_no_panic [simp]: "\<not> is_panic (normalize_loop fs acc)"
  by (induction fs acc rule: normalize_loop.induct) (auto simp: is_panic_rbind)

lemma check_content_no_panic [simp]: "\<not> is_panic (check_content p c n)"
  by (simp add: check_content_def Let_def)

lemma source_loop_no_panic [simp]: "\<not> is_panic (source_loop fs acc n)"
  by (induction fs acc n rule: source_loop.induct) (auto simp: is_panic_rbind)

lemma zip_steps_no_panic [simp]: "\<not> is_panic (zip_append zl m h c w)" "\<not> is_panic (zip_finish zl w)"
  "\<not> is_panic (open_archive zl z)" "\<not> is_panic (read_entry f p n)"
  by (simp_all add: zip_append_def zip_finish_def open_archive_def read_entry_def Let_def split: option.split sum.split)

lemma write_loop_no_panic [simp]: "\<not> is_panic (write_loop zl fs ps w)"
  by (induction ps arbitrary: w) (auto simp: is_panic_rbind)

lemma buildSourceZip_no_panic [simp]: "\<not> is_panic (buildSourceZip zl files)"
  by (auto simp: buildSourceZip_def is_panic_rbind split: option.split)

lemma read_loop_no_panic [simp]: "\<not> is_panic (read_loop es fs seen n)"
  by (induction es fs seen n rule: read_loop.induct) (auto simp: is_panic_rbind)

lemma merge_loop_no_panic [simp]: "\<not> is_panic (merge_loop d es hs ps n)"
  by (induction d es hs ps n rule: merge_loop.induct) (auto simp: is_panic_rbind Let_def)

lemma check_contents_no_panic [simp]: "\<not> is_panic (check_contents fs n)"
  by (induction fs n rule: check_contents.induct) (auto simp: is_panic_rbind)

lemma merge_write_no_panic [simp]: "\<not> is_panic (merge_write_loop zl d hs pres ps w)"
  by (induction ps arbitrary: w) (auto simp: is_panic_rbind split: option.splits)

lemma archive_no_panic [simp]:
  "\<not> is_panic (sourceFilesFromZip zl z)" "\<not> is_panic (buildMergedSourceZip zl o' d)"
  "\<not> is_panic (readSourceResponse f resp)" "\<not> is_panic (TemplateStorage_prevalidate zl files)"
  by (auto simp: sourceFilesFromZip_def buildMergedSourceZip_def writeMerged_def readSourceResponse_def
      TemplateStorage_prevalidate_def normalizeFileKeys_def is_panic_rbind Let_def split: option.splits sum.splits)

lemma safe_fetchRaw: "safe (\<lambda>w. \<not> watchClosed w) (fetchRawTemplateSourceZip api ctx sdk v)"
  unfolding fetchRawTemplateSourceZip_def by (intro safe_rules safe_open_sdk_call) simp

lemma safe_fetchFiles: "safe (\<lambda>w. \<not> watchClosed w) (fetchTemplateSourceFiles zl api ctx sdk v)"
  unfolding fetchTemplateSourceFiles_def by (intro safe_rules safe_fetchRaw) simp

subsection \<open>Handlers\<close>

lemma safe_TemplateToK8s: "ns \<noteq> [] \<Longrightarrow> template_name_ok x \<Longrightarrow> safe P (lift (TemplateToK8s ns x))"
  by (intro safe_lift) (simp add: ToK8s_panic_iff)

lemma names_ok_template':
  "sdk_names_ok sdk \<Longrightarrow> sdk_call (sdk_TemplateByName sdk i n) w = (Ok x, w') \<Longrightarrow> template_name_ok x"
  "sdk_names_ok sdk \<Longrightarrow> sdk_call (sdk_CreateTemplate sdk i r) w = (Ok x, w') \<Longrightarrow> template_name_ok x"
  by (auto simp: op_ok_simps sdk_names_ok_def)

lemma template_get_safe:
  assumes "st_provider s = Some prov" "provider_contract prov" "\<And>c. sdk_names_ok (api c)"
  shows "safe (\<lambda>w. \<not> watchClosed w) (TemplateStorage_Get rt api (Some s) ctx name)"
  unfolding TemplateStorage_Get_def non_nil_simps
  by (intro safe_rules safe_clientForNamespace [OF assms(1,2)] safe_open_sdk_call safe_TemplateToK8s safe_fetchFiles)
     (auto simp: requiredNamespace_Ok ParseTemplateName_no_panic map_err_eq_Ok dest: names_ok_template'(1) [OF assms(3)])

lemma template_delete_safe:
  assumes "st_provider s = Some prov" "provider_contract prov" "\<And>c. sdk_names_ok (api c)" "st_watchEvents s \<noteq> None"
  shows "safe (\<lambda>w. \<not> watchClosed w) (TemplateStorage_Delete api (Some s) ctx name dv)"
  unfolding TemplateStorage_Delete_def non_nil_simps
  by (intro safe_rules safe_clientForNamespace [OF assms(1,2)] safe_open_sdk_call safe_TemplateToK8s assms(4))
     (auto simp: requiredNamespace_Ok ParseTemplateName_no_panic map_err_eq_Ok dest: names_ok_template'(1) [OF assms(3)])

lemma safe_create_request: "safe (\<lambda>w. \<not> watchClosed w) (template_create_request rt api sdk i o' tn)"
  unfolding template_create_request_def
  by (intro safe_rules safe_open_sdk_call) simp_all

lemma template_create_safe:
  assumes "st_provider s = Some prov" "provider_contract prov" "\<And>c. sdk_names_ok (api c)" "st_watchEvents s \<noteq> None"
  shows "safe (\<lambda>w. \<not> watchClosed w) (TemplateStorage_Create rt api (Some s) ctx obj cv)"
  unfolding TemplateStorage_Create_def non_nil_simps
  by (intro safe_rules safe_clientForNamespace [OF assms(1,2)] safe_open_sdk_call safe_run_validate
        safe_create_request safe_TemplateToK8s assms(4))
     (auto simp: requiredNamespace_Ok ParseTemplateName_no_panic lift_eq_Ok map_err_eq_Ok
        dest: names_ok_template'(2) [OF assms(3)])

lemma template_list_call_names_ok:
  "sdk_names_ok (api c) \<Longrightarrow> template_list_call api c w = (Ok xs, w') \<Longrightarrow> x \<in> set xs \<Longrightarrow> template_name_ok x"
  by (auto simp: template_list_call_def op_ok_simps sdk_names_ok_def)

lemma safe_template_list_call: "safe (\<lambda>w. \<not> watchClosed w) (template_list_call api c)"
  unfolding template_list_call_def by (intro safe_rules safe_open_sdk_call)

lemma template_list_safe:
  assumes prov: "st_provider s = Some prov" "provider_contract prov" and names: "\<And>c. sdk_names_ok (api c)"
  shows "safe (\<lambda>w. \<not> watchClosed w) (TemplateStorage_List api (Some s) ctx)"
proof -
  from prov(2) obtain e where e: "prov_NamespaceLister prov = Some e" "\<And>c b. \<not> is_panic (e c b)"
    "\<And>c b ns n. e c b = Ok ns \<Longrightarrow> n \<in> set ns \<Longrightarrow> n \<noteq> []"
    unfolding provider_contract_def
    by (metis namespace_provider.provider_no_panic(3) namespace_provider.eligible_not_empty)
  show ?thesis
    unfolding TemplateStorage_List_def non_nil_simps Let_def prov(1)
    by (intro safe_rules safe_clientForNamespace [OF prov] safe_template_list_call safe_list_namespaces
          safe_namespaceForListConversion [OF prov(2)] safe_convert_all)
       (auto simp: e ToK8s_panic_iff read_backend_eq_Ok split: if_splits dest: template_list_call_names_ok [OF names]
          namespaceForListConversion_not_empty dest!: convert_all_panic)
qed

subsection \<open>The wait and Update\<close>

lemma mapBuildWaitError_status:
  assumes "wait_error_ok v e" "v \<noteq> uuid_Nil" "name \<noteq> []"
  shows "\<exists>st. mapTemplateVersionBuildWaitError e name = Ok (StatusError st)"
  using assms MapCoderError_is_status [of codertemplates name e]
  by (auto simp: mapTemplateVersionBuildWaitError_def wait_error_ok_def templateVersionBuildTerminalError_Error_def
      templateVersionBuildWaitTimeoutError_Error_def split: option.splits error.splits)

definition env_ok :: "environment \<Rightarrow> bool" where
  "env_ok env \<longleftrightarrow> (\<forall>s. (\<forall>d. env_ParseDuration env s = Inr d \<longrightarrow> is_int64 d) \<and>
     (\<forall>e. env_ParseDuration env s = Inl e \<longrightarrow> as_build_error e = None))"

text \<open>
  What a handler that waits needs from outside: durations are 64-bit, the clock and the
  contexts behave as documented, and the fuel covers the longest configurable wait.
\<close>

definition runtime_ok :: "'b runtime_env \<Rightarrow> (SDKClient \<Rightarrow> 'b codersdk) \<Rightarrow> bool" where
  "runtime_ok rt api \<longleftrightarrow> env_ok (rt_env rt) \<and> (\<forall>c dl v. clock_ok (rt_clock rt) (api c) dl v \<and> sdk_errors_ok (api c) v) \<and>
     nat MaxTemplateVersionBuildWaitTimeout < rt_fuel rt"

lemma parseDuration_int64:
  assumes "env_ok env" "is_int64 d" "parseDurationEnvOrDefault env n d = Ok x"
  shows "is_int64 x"
  using assms by (auto simp: parseDurationEnvOrDefault_def env_ok_def Let_def split: if_splits sum.splits)

lemma load_config_Err:
  assumes "env_ok env" "loadTemplateVersionBuildWaitConfigFromEnv env = Err e"
  shows "as_build_error e = None"
proof -
  have "as_build_error e = None" if "parseDurationEnvOrDefault env n d = Err e" for n d e
    using that assms(1) by (auto simp: parseDurationEnvOrDefault_def env_ok_def Let_def split: if_splits sum.splits)
  with assms(2) show ?thesis
    by (auto simp: loadTemplateVersionBuildWaitConfigFromEnv_def rbind_def split: res.splits if_splits)
qed

lemma load_config_int64:
  assumes "env_ok env" "loadTemplateVersionBuildWaitConfigFromEnv env = Ok cfg"
  shows "is_int64 (maxPollInterval cfg)"
proof -
  have "is_int64 defaultTemplateVersionBuildMaxPollInterval"
    by (simp add: is_int64_def defaultTemplateVersionBuildMaxPollInterval_def time_Second_def)
  with assms show ?thesis
    by (auto simp: loadTemplateVersionBuildWaitConfigFromEnv_def rbind_eq_Ok split: if_splits dest: parseDuration_int64)
qed

lemma wait_loop_frame:
  "watchEvents (snd (wait_loop k clk sdk v cfg eff dl st p s m w)) = watchEvents w \<and>
   watchClosed (snd (wait_loop k clk sdk v cfg eff dl st p s m w)) = watchClosed w"
proof (induction k arbitrary: w p s m)
  case (Suc k)
  have rt: "snd (return_timeout clk dl v eff s' m' w') = w'" for s' m' w'
    using return_timeout_cases [of clk dl v eff s' m' w'] by auto
  obtain r b where call: "with_wait_ctx clk dl (sdk_TemplateVersion sdk v) (backend w) = (r, b)" by force
  show ?case
    using call rt Suc.IH by (cases r) (auto simp: wait_loop_Inl wait_loop_Inr [OF _ refl] split: poll_status.splits prod.splits)
qed simp

lemma wait_run:
  assumes "runtime_ok rt api" "v \<noteq> uuid_Nil"
  shows "\<not> is_panic (fst (waitForTemplateVersionBuild (rt_fuel rt) (rt_env rt) (rt_clock rt) api ctx (Some c) v w)) \<and>
    (\<forall>e w'. waitForTemplateVersionBuild (rt_fuel rt) (rt_env rt) (rt_clock rt) api ctx (Some c) v w = (Err e, w') \<longrightarrow> wait_error_ok v e) \<and>
    watchClosed (snd (waitForTemplateVersionBuild (rt_fuel rt) (rt_env rt) (rt_clock rt) api ctx (Some c) v w)) = watchClosed w"
proof (cases "loadTemplateVersionBuildWaitConfigFromEnv (rt_env rt)")
  case (Ok cfg)
  note cfg = load_config_ok [OF Ok]
  from assms(1) have env: "env_ok (rt_env rt)" and clk: "\<And>dl v. clock_ok (rt_clock rt) (api c) dl v" and
    err: "sdk_errors_ok (api c) v" and fuel: "nat MaxTemplateVersionBuildWaitTimeout < rt_fuel rt"
    by (auto simp: runtime_ok_def)
  obtain k where k: "rt_fuel rt = Suc k" "nat MaxTemplateVersionBuildWaitTimeout \<le> k"
    using fuel by (cases "rt_fuel rt") auto
  show ?thesis
  proof (cases ctx)
    case (Some x)
    let ?now = "clk_Now (rt_clock rt) (backend w)"
    let ?eff = "effective_timeout cfg (ctx_Deadline x) ?now"
    let ?loop = "wait_loop (Suc k) (rt_clock rt) (api c) v cfg ?eff (?now + ?eff) ?now (initialPoll cfg) ''unknown'' [] w"
    have run: "waitForTemplateVersionBuild (rt_fuel rt) (rt_env rt) (rt_clock rt) api ctx (Some c) v w = ?loop"
      using assms(2) Some Ok k(1) by (simp add: waitForTemplateVersionBuild_def bind_def read_backend_def Let_def)
    have eff: "0 < ?eff" "?eff \<le> waitTimeout cfg" using effective_bounds [OF cfg, of "ctx_Deadline x" ?now] by auto
    have "?eff \<le> int k" using eff(2) cfg k(2) by (simp add: config_ok_def nat_le_iff)
    also have "\<dots> \<le> int k * initialPoll cfg" using cfg by (simp add: config_ok_def mult_le_cancel_left1)
    finally have "\<not> is_panic (fst ?loop)"
      using cfg clk load_config_int64 [OF env Ok] by (intro wait_loop_returns) (auto simp: config_ok_def)
    moreover have "wait_error_ok v e" if "?loop = (Err e, w')" for e w'
      by (rule wait_loop_Err [OF that eff(1) _ err]) simp
    ultimately show ?thesis unfolding run using wait_loop_frame by blast
  qed (simp add: waitForTemplateVersionBuild_def wait_error_ok_def)
next
  case (Err e)
  have "as_build_error e = None" using load_config_Err [OF _ Err] assms(1) by (simp add: runtime_ok_def)
  with Err assms show ?thesis
    by (cases ctx) (auto simp: waitForTemplateVersionBuild_def bind_def wait_error_ok_def)
next
  case (Panic m)
  then show ?thesis using load_no_panic [of "rt_env rt"] by simp
qed

lemma safe_promote:
  assumes rt: "runtime_ok rt api" and "name \<noteq> []"
  shows "safe (\<lambda>w. \<not> watchClosed w) (TemplateStorage_promote rt api ctx sdk name org tid z)"
proof -
  let ?wait = "\<lambda>v. waitForTemplateVersionBuild (rt_fuel rt) (rt_env rt) (rt_clock rt) api ctx (Some sdk) v"
  have wait: "safe (\<lambda>w. \<not> watchClosed w) (?wait v)" if "v \<noteq> uuid_Nil" for v
    using wait_run [OF rt that] by (simp add: safe_def)
  have werr: "\<not> is_panic (mapTemplateVersionBuildWaitError e name)"
    if "?wait v w = (Err e, w')" "v \<noteq> uuid_Nil" for v e w w'
  proof -
    have "wait_error_ok v e" using wait_run [OF rt that(2)] that(1) by blast
    from mapBuildWaitError_status [OF this that(2) assms(2)] show ?thesis by auto
  qed
  show ?thesis
    unfolding TemplateStorage_promote_def
    by (intro safe_bind safe_map_err safe_guard safe_handle_err safe_open_sdk_call wait safe_basic safe_lift)
       (auto dest: werr)
qed

lemma safe_updateFiles:
  assumes "runtime_ok rt api" "name \<noteq> []"
  shows "safe (\<lambda>w. \<not> watchClosed w) (TemplateStorage_updateFiles rt api ctx sdk name tid d cur)"
  unfolding TemplateStorage_updateFiles_def
  by (cases "uuid_Parse (tst_ActiveVersionID (ct_status cur))")
     (auto intro!: safe_rules safe_fetchFiles safe_fetchRaw safe_promote [OF assms])

lemma safe_updateMeta: "safe (\<lambda>w. \<not> watchClosed w) (TemplateStorage_updateMeta api sdk name tid u c)"
  unfolding TemplateStorage_updateMeta_def by (intro safe_rules safe_open_sdk_call)

lemma template_checks_no_panic [simp]:
  "\<not> is_panic (TemplateStorage_checkUpdated name ns u c)" "\<not> is_panic (TemplateStorage_checkImmutable su sc)"
  by (simp_all add: TemplateStorage_checkUpdated_def TemplateStorage_checkImmutable_def Let_def)

lemma template_update_safe:
  assumes prov: "st_provider s = Some prov" "provider_contract prov" and names: "\<And>c. sdk_names_ok (api c)"
    and q: "st_watchEvents s \<noteq> None" and rt: "runtime_ok rt api"
  shows "safe (\<lambda>w. \<not> watchClosed w) (TemplateStorage_Update rt api (Some s) ctx name info cv uv force)"
proof -
  note hs = safe_clientForNamespace [OF prov] template_get_safe [OF prov names] template_create_safe [OF prov names q]
    safe_open_sdk_call safe_run_validate
  have "safe (\<lambda>w. \<not> watchClosed w) (TemplateStorage_createOnUpdate rt api (Some s) ctx name f cv)" for f
    unfolding TemplateStorage_createOnUpdate_def Let_def by (intro safe_rules hs)
  moreover have "safe (\<lambda>w. \<not> watchClosed w) (TemplateStorage_applyChecked rt api (Some s) s ctx name ns u c)"
    if "name \<noteq> []" for ns u c
    unfolding TemplateStorage_applyChecked_def
    by (cases "uuid_Parse (tst_ID (ct_status c))")
       (auto intro!: safe_rules hs safe_updateMeta safe_updateFiles [OF rt that] safe_enqueue [OF q])
  then have "safe (\<lambda>w. \<not> watchClosed w) (TemplateStorage_applyUpdate rt api (Some s) s ctx name f uv c)"
    if "name \<noteq> []" for f c
    unfolding TemplateStorage_applyUpdate_def using that by (intro safe_rules hs) auto
  ultimately show ?thesis
    unfolding TemplateStorage_Update_def non_nil_simps by (intro safe_rules hs) auto
qed

end
