(* ===== verification/Demo_Templates.thy ===== *)
theory Demo_Templates
  imports Demo_Backend Template_Correct
begin

text \<open>
  The demonstration deployment with template sources: an archive format in which every byte
  of a field is marked, an archive with one text file and one binary file, and a clock that
  advances with the log of the deployment. The witnesses of the template properties run the
  handlers on it.
\<close>

section \<open>Evaluating the limits\<close>

text \<open>The limits are compared as binary integers when the handlers are evaluated.\<close>

lemma limits_code [code_unfold]:
  "maxTemplateSourceFileBytes < n \<longleftrightarrow> 2097152 < int n" "maxTemplateSourceZipBytes < n \<longleftrightarrow> 20971520 < int n"
  "maxTemplateSourceTotalUncompressedBytes < n \<longleftrightarrow> 41943040 < int n" "maxTemplateSourceFiles < n \<longleftrightarrow> 2000 < int n"
  by (simp_all add: maxTemplateSourceFileBytes_def maxTemplateSourceZipBytes_def
      maxTemplateSourceTotalUncompressedBytes_def maxTemplateSourceFiles_def)

lemma read_limited_code [code_unfold]:
  "read_limited (maxTemplateSourceFileBytes + 1) d e =
     (if int (length d) \<le> 2097152 then (case e of Some x \<Rightarrow> Inl x | None \<Rightarrow> Inr d) else Inr (take (maxTemplateSourceFileBytes + 1) d))"
  "read_limited (maxTemplateSourceZipBytes + 1) d e =
     (if int (length d) \<le> 20971520 then (case e of Some x \<Rightarrow> Inl x | None \<Rightarrow> Inr d) else Inr (take (maxTemplateSourceZipBytes + 1) d))"
  by (simp_all add: read_limited_def maxTemplateSourceFileBytes_def maxTemplateSourceZipBytes_def)

section \<open>A concrete archive format\<close>

definition enc_field :: "string \<Rightarrow> string" where
  "enc_field s = concat (map (\<lambda>c. [CHR 0x01, c]) s) @ [CHR 0x00]"

fun dec_field :: "string \<Rightarrow> string \<times> string" where
  "dec_field (m # c # s) = (if m = CHR 0x00 then ([], c # s) else (case dec_field s of (f, r) \<Rightarrow> (c # f, r)))"
| "dec_field s = ([], [])"

definition enc_entry :: "zip_header \<times> string \<Rightarrow> string" where
  "enc_entry e = enc_field (zh_Name (fst e)) @ enc_field (snd e)"

fun dec_entries :: "nat \<Rightarrow> string \<Rightarrow> (string \<times> string) list" where
  "dec_entries 0 s = []"
| "dec_entries (Suc n) s = (if s = [] then [] else
     (case dec_field s of (name, r) \<Rightarrow> case dec_field r of (content, r') \<Rightarrow> (name, content) # dec_entries n r'))"

definition demo_file :: "string \<times> string \<Rightarrow> zip_file" where
  "demo_file e = \<lparr>zf_Header = (new_header (fst e))\<lparr>zh_UncompressedSize64 := length (snd e)\<rparr>,
     zf_Open = Inr \<lparr>zd_Data = snd e, zd_ReadErr = None, zd_CloseErr = None\<rparr>\<rparr>"

definition demo_zip :: zip_lib where
  "demo_zip = \<lparr>zip_NewReader = (\<lambda>z. Inr (map (\<lambda>e. Some (demo_file e)) (dec_entries (length z) z))),
     zip_CreateHeader = (\<lambda>es h. None),
     zip_Write = (\<lambda>es h c. None),
     zip_Close = (\<lambda>es. Inr (concat (map enc_entry es)))\<rparr>"

lemma enc_field_Cons: "enc_field (c # s) = CHR 0x01 # c # enc_field s"
  by (simp add: enc_field_def)

lemma dec_enc_field: "r \<noteq> [] \<Longrightarrow> dec_field (enc_field s @ r) = (s, r)"
proof (induction s)
  case Nil
  then show ?case by (cases r) (simp_all add: enc_field_def)
qed (simp add: enc_field_Cons)

lemma dec_enc_last: "dec_field (enc_field s) = (s, [])"
  by (induction s) (simp_all add: enc_field_Cons, simp add: enc_field_def)

lemma dec_enc: "dec_field (enc_field s @ r) = (s, r)"
  by (cases "r = []") (simp_all add: dec_enc_field dec_enc_last)

lemma enc_entry_not_Nil [simp]: "enc_entry e \<noteq> []"
  by (simp add: enc_entry_def enc_field_def)

lemma dec_enc_entries:
  "length (concat (map enc_entry es)) \<le> n \<Longrightarrow> dec_entries n (concat (map enc_entry es)) = named es"
proof (induction es arbitrary: n)
  case Nil
  then show ?case by (cases n) simp_all
next
  case (Cons e es)
  have ne: "concat (map enc_entry (e # es)) \<noteq> []" by simp
  then obtain m where n: "n = Suc m" using Cons.prems by (cases n) auto
  have "0 < length (enc_entry e)" by simp
  then have "length (concat (map enc_entry es)) \<le> m" using Cons.prems n by (simp del: length_greater_0_conv)
  with Cons.IH have "dec_entries m (concat (map enc_entry es)) = named es" by simp
  moreover obtain h c where e: "e = (h, c)" by force
  ultimately show ?case
    using ne by (simp add: n e enc_entry_def [of "(h, c)"] dec_enc)
qed

lemma demo_zip_ok: "zip_ok demo_zip"
proof -
  have "list_all2 entry_read es (map demo_file (named es))" for es
    by (induction es) (auto simp: entry_read_def demo_file_def new_header_def)
  then show ?thesis
    by (auto simp: zip_ok_def demo_zip_def dec_enc_entries comp_def intro!: exI [of _ "map demo_file (named _)"])
qed

section \<open>The deployment\<close>

definition demo_binary :: string where "demo_binary = [CHR 0xFF, CHR 0xFE]"

definition demo_archive :: string where
  "demo_archive = enc_entry (new_header ''main.tf'', ''v1'') @ enc_entry (new_header ''logo.png'', demo_binary)"

definition demo_tsdk :: "demo codersdk" where
  "demo_tsdk = demo_sdk\<lparr>sdk_RequestFile := (\<lambda>i b. (Inr \<lparr>resp_StatusCode = 200, resp_Body = demo_archive,
     resp_ReadErr = None, resp_CloseErr = None, resp_BodyAsError = not_found\<rparr>, b))\<rparr>"

abbreviation demo_tapi :: "SDKClient \<Rightarrow> demo codersdk" where
  "demo_tapi \<equiv> \<lambda>_. demo_tsdk"

definition demo_clock :: "demo clock" where
  "demo_clock = \<lparr>clk_Now = (\<lambda>b. int (length b)), clk_CtxErr = (\<lambda>b. None),
     clk_Select = (\<lambda>dl d b. (False, b @ replicate (nat d) []))\<rparr>"

text \<open>\<open>small_rt\<close> has little fuel and is for evaluation: the demonstration build is finished at once.\<close>

definition demo_env :: environment where
  "demo_env = \<lparr>env_Getenv = (\<lambda>_. []), env_ParseDuration = (\<lambda>s. Inl (OtherError s))\<rparr>"

definition small_rt :: "demo runtime_env" where
  "small_rt = \<lparr>rt_zip = demo_zip, rt_env = demo_env, rt_clock = demo_clock, rt_fuel = 3\<rparr>"

definition demo_rt :: "demo runtime_env" where
  "demo_rt = \<lparr>rt_zip = demo_zip, rt_env = demo_env, rt_clock = demo_clock,
     rt_fuel = Suc (nat MaxTemplateVersionBuildWaitTimeout)\<rparr>"

lemma demo_rt_sel [simp]: "rt_zip demo_rt = demo_zip" "rt_env demo_rt = demo_env" "rt_clock demo_rt = demo_clock"
  "rt_fuel demo_rt = Suc (nat MaxTemplateVersionBuildWaitTimeout)"
  by (simp_all add: demo_rt_def)

lemma demo_config: "loadTemplateVersionBuildWaitConfigFromEnv demo_env = Ok \<lparr>waitTimeout = 25 * time_Minute,
    backoffAfter = 2 * time_Minute, initialPoll = 2 * time_Second, maxPollInterval = 10 * time_Second\<rparr>"
proof -
  show ?thesis by (intro load_defaults) (simp add: demo_env_def)
qed

definition set_files :: "files \<Rightarrow> string \<Rightarrow> demo updated_object_info" where
  "set_files fs display x b =
     (case x of ObjTemplate ob \<Rightarrow> (Inr (Some (ObjTemplate (ob\<lparr>ct_spec := (ct_spec ob)
         \<lparr>tsp_Files := Some fs, tsp_DisplayName := display\<rparr>\<rparr>))), b)
      | _ \<Rightarrow> (Inr (Some x), b))"

definition demo_template_request :: CoderTemplate where
  "demo_template_request = zero_template
     \<lparr>ct_meta := zero_meta\<lparr>Name := ''acme.go''\<rparr>,
      ct_spec := (ct_spec zero_template)\<lparr>tsp_Organization := ''acme'', tsp_Files := Some [(''./a/../main.tf'', ''v2'')]\<rparr>\<rparr>"

lemma demo_tnames_ok: "sdk_names_ok demo_tsdk"
  using demo_names_ok by (simp add: sdk_names_ok_def demo_tsdk_def)

lemma demo_runtime_ok: "runtime_ok demo_rt demo_tapi"
  by (auto simp: runtime_ok_def env_ok_def clock_ok_def sdk_errors_ok_def demo_env_def demo_clock_def demo_tsdk_def demo_sdk_def)

text \<open>A deployment whose builds fail.\<close>

definition failed_version :: TemplateVersion where
  "failed_version = demo_version\<lparr>tv_Job := \<lparr>job_FileID = 9, job_Status = ''failed'', job_Error = ''boom''\<rparr>\<rparr>"

definition failing_sdk :: "demo codersdk" where
  "failing_sdk = demo_tsdk\<lparr>sdk_TemplateVersion := (\<lambda>i b. (Inr failed_version, b)),
     sdk_CreateTemplateVersion := (\<lambda>i r b. (Inr failed_version, b @ [''create-version'']))\<rparr>"

abbreviation failing_api :: "SDKClient \<Rightarrow> demo codersdk" where
  "failing_api \<equiv> \<lambda>_. failing_sdk"

lemma demo_failing_ok: "runtime_ok demo_rt failing_api"
  by (auto simp: runtime_ok_def env_ok_def clock_ok_def sdk_errors_ok_def demo_env_def demo_clock_def failing_sdk_def)

text \<open>An archive library that does not accept the header of an entry with content.\<close>

definition picky_rt :: "demo runtime_env" where
  "picky_rt = small_rt\<lparr>rt_zip := demo_zip\<lparr>zip_CreateHeader :=
     (\<lambda>es h. if zh_UncompressedSize64 h = 0 then None else Some (OtherError ''header''))\<rparr>\<rparr>"

definition demo_current :: CoderTemplate where
  "demo_current = (case TemplateToK8s ''coder'' demo_template of Ok x \<Rightarrow> x | _ \<Rightarrow> zero_template)"

definition demo_updated :: CoderTemplate where
  "demo_updated = demo_current\<lparr>ct_spec := (ct_spec demo_current)
     \<lparr>tsp_DisplayName := ''Golang'', tsp_Files := Some [(''main.tf'', ''v2'')]\<rparr>\<rparr>"

lemma demo_client_of: "client_of demo_storage demo_ctx b demo_client"
  by (simp add: client_of_def demo_ctx_def demo_storage_def demo_provider_def static_provider_def
      Static_ClientForNamespace_def)

end
