(* ===== verification/Template_Properties.thy ===== *)
theory Template_Properties
  imports Demo_Templates
begin

text \<open>
  The properties of the template storage and of its parts: source archives, the build wait,
  and what each handler does, with witnesses on the demonstration deployment.
\<close>

section \<open>Updating templates\<close>

text \<open>
  C1: Updating a template. When \<open>Update\<close> of an existing template succeeds, the client knew
  its resource version; after the admission check the metadata was updated exactly when it
  changed; then \<open>spec.files\<close>, if given, took effect: either the active version already had
  exactly the requested files (after normalization of their paths) and nothing happened, or
  a new version was made from an archive that is read back as exactly the requested files,
  the build of that version was seen to have succeeded before it was made active, and a read
  of the template after that confirmed it. The returned object is a fresh read, and one
  \<open>Modified\<close> event with it is queued.
\<close>

theorem template_update_promotes:
  assumes run: "TemplateStorage_Update rt api (Some s) (Some ctx) name (Some info) cv uv force w = (Ok (obj, False), w')"
    and zip: "zip_ok (rt_zip rt)"
  shows "\<exists>cur w1 upd b2 b3 b4 sdk tid w4 w5. TemplateStorage_Get rt api (Some s) (Some ctx) name w = (Ok cur, w1) \<and>
    info (ObjTemplate cur) (backend w1) = (Inr (Some (ObjTemplate upd)), b2) \<and>
    ResourceVersion (ct_meta upd) = ResourceVersion (ct_meta cur) \<and>
    tsp_Organization (ct_spec upd) = tsp_Organization (ct_spec cur) \<and>
    b3 = (case uv of None \<Rightarrow> b2 | Some f \<Rightarrow> snd (f (ObjTemplate upd) (ObjTemplate cur) b2)) \<and>
    client_of s ctx b3 sdk \<and> uuid_Parse (tst_ID (ct_status cur)) = Inr tid \<and>
    b4 = (if metadata_changed (ct_spec upd) (ct_spec cur)
          then snd (sdk_UpdateTemplateMeta (api sdk) tid (TemplateUpdateMetaRequestFromK8s upd) b3) else b3) \<and>
    files_updated rt api ctx sdk cur tid (tsp_Files (ct_spec upd)) (w1\<lparr>backend := b4\<rparr>) w4 \<and>
    TemplateStorage_Get rt api (Some s) (Some ctx) name w4 = (Ok obj, w5) \<and>
    w' = enq_event \<lparr>ev_Type = Modified, ev_Object = ObjTemplate obj\<rparr> w5"
proof -
  from template_update_Ok [OF run] obtain cur w1 upd b2 b3 where
    u: "TemplateStorage_Get rt api (Some s) (Some ctx) name w = (Ok cur, w1)"
      "info (ObjTemplate cur) (backend w1) = (Inr (Some (ObjTemplate upd)), b2)"
      "b3 = (case uv of None \<Rightarrow> b2 | Some f \<Rightarrow> snd (f (ObjTemplate upd) (ObjTemplate cur) b2))" and
    chk: "TemplateStorage_checkUpdated name (ctx_Namespace ctx) upd cur = Ok ()"
      "TemplateStorage_checkImmutable (ct_spec upd) (ct_spec cur) = Ok ()" and
    ap: "TemplateStorage_applyChecked rt api (Some s) s (Some ctx) name (ctx_Namespace ctx) upd cur (w1\<lparr>backend := b3\<rparr>)
        = (Ok (obj, False), w')"
    by blast
  from applyChecked_Ok [OF ap] obtain tid sdk d wm w4 w5 where
    a: "uuid_Parse (tst_ID (ct_status cur)) = Inr tid" "client_of s ctx b3 sdk"
      "TemplateStorage_Get rt api (Some s) (Some ctx) name w4 = (Ok obj, w5)"
      "w' = enq_event \<lparr>ev_Type = Modified, ev_Object = ObjTemplate obj\<rparr> w5" and
    pre: "TemplateStorage_prevalidate (rt_zip rt) (tsp_Files (ct_spec upd)) = Ok d" and
    meta: "TemplateStorage_updateMeta api sdk name tid upd cur (w1\<lparr>backend := b3\<rparr>) = (Ok (), wm)" and
    fl: "TemplateStorage_updateFiles rt api (Some ctx) sdk name tid d cur wm = (Ok (), w4)"
    by auto
  from updateMeta_Ok [OF meta] updateFiles_spec [OF zip pre fl]
  have "files_updated rt api ctx sdk cur tid (tsp_Files (ct_spec upd)) (w1\<lparr>backend :=
     (if metadata_changed (ct_spec upd) (ct_spec cur)
      then snd (sdk_UpdateTemplateMeta (api sdk) tid (TemplateUpdateMetaRequestFromK8s upd) b3) else b3)\<rparr>) w4"
    by (cases "metadata_changed (ct_spec upd) (ct_spec cur)") simp_all
  with u a chk show ?thesis
    unfolding checkUpdated_Ok checkImmutable_Ok by blast
qed

theorem template_update_promotes_witness:
  "\<exists>obj w'. TemplateStorage_Update small_rt demo_tapi (Some demo_storage) (Some demo_ctx) ''acme.go''
      (Some (set_files [(''main.tf'', ''v2'')] ''Go'')) None None False demo_state = (Ok (obj, False), w') \<and>
    (\<exists>cur w1 sdk tid w4. files_updated small_rt demo_tapi demo_ctx sdk cur tid (Some [(''main.tf'', ''v2'')]) w1 w4) \<and>
    backend w' = [''upload'', ''create-version'', ''promote'']"
proof -
  let ?run = "TemplateStorage_Update small_rt demo_tapi (Some demo_storage) (Some demo_ctx) ''acme.go''
      (Some (set_files [(''main.tf'', ''v2'')] ''Go'')) None None False demo_state"
  have "(case fst ?run of Ok (obj, c) \<Rightarrow> \<not> c | _ \<Rightarrow> False) \<and> backend (snd ?run) = [''upload'', ''create-version'', ''promote'']"
    by code_simp
  then obtain obj w' where run: "?run = (Ok (obj, False), w')"
    and "backend w' = [''upload'', ''create-version'', ''promote'']" by (cases ?run) (auto split: res.splits)
  moreover have "zip_ok (rt_zip small_rt)" by (simp add: small_rt_def demo_zip_ok)
  from template_update_promotes [OF run this] obtain cur w1 upd b2 sdk tid b4 w4 where
    "set_files [(''main.tf'', ''v2'')] ''Go'' (ObjTemplate cur) (backend w1) = (Inr (Some (ObjTemplate upd)), b2)"
    "files_updated small_rt demo_tapi demo_ctx sdk cur tid (tsp_Files (ct_spec upd)) (w1\<lparr>backend := b4\<rparr>) w4"
    by blast
  ultimately show ?thesis using run by (auto simp: set_files_def) blast
qed

text \<open>
  C7: No promotion without a successful build. When waiting for the build of a new version
  ends in an error (failed, cancelled, or not ready in time), the promotion step of \<open>Update\<close>
  stops there with that error mapped to a status: the deployment is as the wait left it, the
  active version is not changed.
\<close>

theorem template_promote_only_built:
  assumes "sdk_Upload (api sdk) z (backend w) = (Inr f, b1)" "f \<noteq> uuid_Nil"
    "sdk_OrganizationByName (api sdk) org b1 = (Inr i, b2)"
    "sdk_CreateTemplateVersion (api sdk) i \<lparr>ctv_TemplateID = tid, ctv_StorageMethod = ProvisionerStorageMethodFile,
         ctv_FileID = f, ctv_Provisioner = ProvisionerTypeTerraform\<rparr> b2 = (Inr nv, b3)" "tv_ID nv \<noteq> uuid_Nil"
    "runtime_ok rt api" "name \<noteq> []"
    "waitForTemplateVersionBuild (rt_fuel rt) (rt_env rt) (rt_clock rt) api ctx (Some sdk) (tv_ID nv)
         (w\<lparr>backend := b3\<rparr>) = (Err e, w4)"
  shows "\<exists>st. mapTemplateVersionBuildWaitError e name = Ok (StatusError st) \<and>
    TemplateStorage_promote rt api ctx sdk name org tid z w = (Err (StatusError st), w4)"
proof -
  have "wait_error_ok (tv_ID nv) e" using wait_run [OF assms(6,5)] assms(8) by blast
  from mapBuildWaitError_status [OF this assms(5,7)] obtain st where
    st: "mapTemplateVersionBuildWaitError e name = Ok (StatusError st)" by blast
  from promote_wait_failed [of api sdk z w f b1 org i b2 tid nv b3, OF assms(1-5,8) this] st show ?thesis by blast
qed

theorem template_promote_only_built_witness:
  "\<exists>st w4. TemplateStorage_promote demo_rt failing_api (Some demo_ctx) demo_client ''acme.go'' ''acme'' 3 ''z'' demo_state
     = (Err (StatusError st), w4) \<and> backend w4 = [''upload'', ''create-version'']"
proof -
  let ?wait = "waitForTemplateVersionBuild (rt_fuel demo_rt) (rt_env demo_rt) (rt_clock demo_rt) failing_api (Some demo_ctx)
      (Some demo_client) (tv_ID failed_version) (demo_state\<lparr>backend := [''upload'', ''create-version'']\<rparr>)"
  have v: "with_wait_ctx demo_clock dl (sdk_TemplateVersion failing_sdk 5) [''upload'', ''create-version'']
      = (Inr failed_version, [''upload'', ''create-version''])" if "2 < dl" for dl
    using that by (simp add: with_wait_ctx_def wait_Err_def demo_clock_def failing_sdk_def)
  have status: "version_status failed_version = ''failed''" "job_Error (tv_Job failed_version) = ''boom''" by code_simp+
  have "classify ''failed'' = Terminal" by (simp add: classify_def)
  moreover have "clk_Now demo_clock [''upload'', ''create-version''] = 2" by (simp add: demo_clock_def)
  moreover have tv: "tv_ID failed_version = 5" by (simp add: failed_version_def demo_version_def)
  ultimately have wait: "?wait = (Err (BuildTerminalError 5 ''failed'' ''boom''), demo_state\<lparr>backend := [''upload'', ''create-version'']\<rparr>)"
    by (simp add: waitForTemplateVersionBuild_def uuid_Nil_def bind_def read_backend_def Let_def demo_config
        wait_loop_Inr [OF _ refl] v status effective_timeout_def demo_ctx_def time_Minute_def time_Second_def)
  have "\<exists>st. mapTemplateVersionBuildWaitError (BuildTerminalError 5 ''failed'' ''boom'') ''acme.go'' = Ok (StatusError st) \<and>
     TemplateStorage_promote demo_rt failing_api (Some demo_ctx) demo_client ''acme.go'' ''acme'' 3 ''z'' demo_state
     = (Err (StatusError st), demo_state\<lparr>backend := [''upload'', ''create-version'']\<rparr>)"
    by (rule template_promote_only_built [OF _ _ _ _ _ demo_failing_ok _ wait, where f = 9 and i = 2])
       (simp_all add: failing_sdk_def demo_tsdk_def demo_sdk_def uuid_Nil_def demo_state_def tv)
  then show ?thesis by auto
qed

text \<open>
  C36: An update that is rejected after it has taken effect in part. The check of \<open>spec.files\<close>
  before the first change covers the requested files only; when the merge with the archive
  of the active version is rejected (its binary files count too), the client gets a
  BadRequest error although the metadata of the template has been updated already.
\<close>

theorem template_update_partial:
  assumes "client_of s ctx (backend w) sdk" "uuid_Parse (tst_ID (ct_status cur)) = Inr tid"
    "TemplateStorage_prevalidate (rt_zip rt) (tsp_Files (ct_spec upd)) = Ok (Some D)"
    "metadata_changed (ct_spec upd) (ct_spec cur)"
    "sdk_UpdateTemplateMeta (api sdk) tid (TemplateUpdateMetaRequestFromK8s upd) (backend w) = (Inr t, b1)"
    "uuid_Parse (tst_ActiveVersionID (ct_status cur)) = Inr v"
    "fetchTemplateSourceFiles (rt_zip rt) api (Some ctx) (Some sdk) v (w\<lparr>backend := b1\<rparr>) = (Ok old, w2)"
    "\<not> files_DeepEqual D old"
    "fetchRawTemplateSourceZip api (Some ctx) (Some sdk) v w2 = (Ok orig, w3)"
    "buildMergedSourceZip (rt_zip rt) (Some orig) (Some D) = Err e"
  shows "TemplateStorage_applyChecked rt api (Some s) s (Some ctx) name (ctx_Namespace ctx) upd cur w =
    (Err (bad_request (Fmt ''invalid template spec.files: %v'' [ArgV e])), w3)"
proof -
  have "clientForNamespace ''template'' s (Some ctx) (ctx_Namespace ctx) w = (Ok sdk, w)"
    using assms(1) by (simp add: clientForNamespace_client_of)
  with assms(2-) show ?thesis
    by (simp add: TemplateStorage_applyChecked_def TemplateStorage_updateMeta_def TemplateStorage_updateFiles_def
        bind_def map_err_run sdk_call_run)
qed

theorem template_update_partial_witness:
  "\<exists>e. TemplateStorage_applyChecked picky_rt demo_tapi (Some demo_storage) demo_storage (Some demo_ctx) ''acme.go''
     (ctx_Namespace demo_ctx) demo_updated demo_current demo_state =
     (Err (bad_request (Fmt ''invalid template spec.files: %v'' [ArgV e])), demo_state\<lparr>backend := [''update-meta'']\<rparr>)"
proof -
  let ?w = "demo_state\<lparr>backend := [''update-meta'']\<rparr>"
  let ?D = "[(''main.tf'', ''v2'')]"
  have pre: "TemplateStorage_prevalidate (rt_zip picky_rt) (tsp_Files (ct_spec demo_updated)) = Ok (Some ?D)" by code_simp
  have ids: "uuid_Parse (tst_ID (ct_status demo_current)) = Inr 3" "uuid_Parse (tst_ActiveVersionID (ct_status demo_current)) = Inr 5"
    "metadata_changed (ct_spec demo_updated) (ct_spec demo_current)" by code_simp+
  have meta: "sdk_UpdateTemplateMeta demo_tsdk 3 (TemplateUpdateMetaRequestFromK8s demo_updated) (backend demo_state)
      = (Inr demo_template, [''update-meta''])" by (simp add: demo_tsdk_def demo_sdk_def demo_state_def)
  have files: "fetchTemplateSourceFiles (rt_zip picky_rt) demo_tapi (Some demo_ctx) (Some demo_client) 5 ?w = (Ok [(''main.tf'', ''v1'')], ?w)"
    by code_simp
  have raw: "fetchRawTemplateSourceZip demo_tapi (Some demo_ctx) (Some demo_client) 5 ?w = (Ok demo_archive, ?w)" by code_simp
  have "case buildMergedSourceZip (rt_zip picky_rt) (Some demo_archive) (Some ?D) of Err _ \<Rightarrow> True | _ \<Rightarrow> False" by code_simp
  then obtain e where merge: "buildMergedSourceZip (rt_zip picky_rt) (Some demo_archive) (Some ?D) = Err e"
    by (auto split: res.splits)
  have ne: "\<not> files_DeepEqual ?D [(''main.tf'', ''v1'')]" by code_simp
  from template_update_partial [OF demo_client_of ids(1) pre ids(3) meta ids(2) files ne raw merge] show ?thesis by blast
qed

text \<open>
  Creating a template. When \<open>Create\<close> succeeds, exactly one template was created, with
  the name and the organization parsed from the request and its display data, from the
  version the request names or, when it has files, from a version made of the uploaded
  archive of these files; one \<open>Added\<close> event with the returned object is queued.
\<close>

lemma template_create_effects:
  assumes "TemplateStorage_Create rt api (Some s) (Some ctx) (Some (ObjTemplate o')) cv w = (Ok obj, w')"
  shows "\<exists>b0 tn sdk i b1 r b2 t. b0 = (case cv of None \<Rightarrow> backend w | Some f \<Rightarrow> snd (f (ObjTemplate o') (backend w))) \<and>
    client_of s ctx b0 sdk \<and> ParseTemplateName (Name (ct_meta o')) = Ok (tsp_Organization (ct_spec o'), tn) \<and>
    sdk_OrganizationByName (api sdk) (tsp_Organization (ct_spec o')) b0 = (Inr i, b1) \<and>
    version_source rt (api sdk) i (ct_spec o') (ctr_VersionID r) b1 b2 \<and> ctr_Name r = tn \<and>
    ctr_DisplayName r = tsp_DisplayName (ct_spec o') \<and> ctr_Description r = tsp_Description (ct_spec o') \<and>
    ctr_Icon r = tsp_Icon (ct_spec o') \<and>
    sdk_CreateTemplate (api sdk) i r b2 = (Inr t, backend w') \<and> TemplateToK8s (ctx_Namespace ctx) t = Ok obj \<and>
    watchEvents w' = watchEvents (enq_event \<lparr>ev_Type = Added, ev_Object = ObjTemplate obj\<rparr> w)"
  by (rule template_create_Ok [OF assms])

text \<open>
  Deleting a template. When \<open>Delete\<close> succeeds it reports \<open>deleted = true\<close>: the template
  found by the organization and the name was deleted as the last call of the deployment, and
  one \<open>Deleted\<close> event with its last state is queued.
\<close>

lemma template_delete_effects:
  assumes "TemplateStorage_Delete api (Some s) (Some ctx) name dv w = (Ok (st, deleted), w')"
  shows "\<exists>org tn sdk i b1 t b2 b3 obj. deleted \<and> client_of s ctx (backend w) sdk \<and> ParseTemplateName name = Ok (org, tn) \<and>
    sdk_OrganizationByName (api sdk) org (backend w) = (Inr i, b1) \<and> sdk_TemplateByName (api sdk) i tn b1 = (Inr t, b2) \<and>
    TemplateToK8s (ctx_Namespace ctx) t = Ok obj \<and>
    b3 = (case dv of None \<Rightarrow> b2 | Some f \<Rightarrow> snd (f (ObjTemplate obj) b2)) \<and>
    sdk_DeleteTemplate (api sdk) (t_ID t) b3 = (Inr (), backend w') \<and>
    watchEvents w' = watchEvents (enq_event \<lparr>ev_Type = Deleted, ev_Object = ObjTemplate obj\<rparr> w)"
  by (rule template_delete_Ok [OF assms])

text \<open>
  C38: No template handler panics or waits forever. With a provider that keeps the provider
  contract, a deployment with well-formed names, the documented behaviour of the clock and
  the environment, and fuel for the longest configurable wait, before \<open>Destroy\<close>, none of
  \<open>Get\<close>, \<open>List\<close>, \<open>Create\<close>, \<open>Update\<close> and \<open>Delete\<close> panics, nor does \<open>Watch\<close> with a broadcaster that
  returns a watcher or an error, and the queue stays open.
\<close>

theorem template_handlers_no_panic:
  assumes "st_provider s = Some prov" "provider_contract prov" "\<And>c. sdk_names_ok (api c)"
    "st_watchEvents s \<noteq> None" "runtime_ok rt api"
  shows "safe (\<lambda>w. \<not> watchClosed w) (TemplateStorage_Get rt api (Some s) ctx name) \<and>
    safe (\<lambda>w. \<not> watchClosed w) (TemplateStorage_List api (Some s) ctx) \<and>
    safe (\<lambda>w. \<not> watchClosed w) (TemplateStorage_Create rt api (Some s) ctx obj cv) \<and>
    safe (\<lambda>w. \<not> watchClosed w) (TemplateStorage_Update rt api (Some s) ctx name info cv uv force) \<and>
    safe (\<lambda>w. \<not> watchClosed w) (TemplateStorage_Delete api (Some s) ctx name dv) \<and>
    ((\<forall>b v. bw b \<noteq> (Inr None, v)) \<longrightarrow> safe (\<lambda>w. \<not> watchClosed w) (TemplateStorage_Watch bw (Some s) ctx opts))"
  unfolding TemplateStorage_Watch_def using assms by (intro conjI impI storage_Watch_safe template_get_safe template_list_safe template_create_safe template_update_safe
      template_delete_safe) auto

theorem template_handlers_no_panic_witness:
  "safe (\<lambda>w. \<not> watchClosed w) (TemplateStorage_Update demo_rt demo_tapi (Some demo_storage) (Some demo_ctx) ''acme.go''
     (Some (set_files [(''main.tf'', ''v2'')] ''Go'')) None None False)"
  using template_handlers_no_panic [of demo_storage demo_provider demo_tapi, OF _ _ demo_tnames_ok _ demo_runtime_ok] by simp

section \<open>Waiting for builds\<close>

text \<open>
  C34: The wait ends. When time does not run backwards and timers fire, the polling loop
  returns within one iteration more than the timeout holds initial poll intervals, whatever
  the deployment answers; more fuel does not change the result.
\<close>

theorem wait_returns:
  assumes "clock_ok clk sdk deadline v" "config_ok cfg" "is_int64 (maxPollInterval cfg)"
    "deadline - clk_Now clk (backend w) \<le> int k * initialPoll cfg"
  shows "\<not> is_panic (fst (wait_loop (Suc k) clk sdk v cfg eff deadline start (initialPoll cfg) s m w)) \<and>
    wait_loop (Suc (Suc k)) clk sdk v cfg eff deadline start (initialPoll cfg) s m w =
      wait_loop (Suc k) clk sdk v cfg eff deadline start (initialPoll cfg) s m w"
proof -
  have "initialPoll cfg \<le> maxPollInterval cfg" using assms(2) by (simp add: config_ok_def)
  from wait_loop_returns [OF assms(1-3) order.refl this assms(4)] show ?thesis
    using wait_loop_fuel by blast
qed

theorem wait_returns_witness:
  "\<not> is_panic (fst (wait_loop (Suc 3) demo_clock demo_tsdk 5
     \<lparr>waitTimeout = 6, backoffAfter = 4, initialPoll = 2, maxPollInterval = 3\<rparr> 6 6 0 2 ''unknown'' [] demo_state))"
proof -
  let ?cfg = "\<lparr>waitTimeout = 6, backoffAfter = 4, initialPoll = 2, maxPollInterval = 3\<rparr>"
  have "clock_ok demo_clock demo_tsdk 6 5" using demo_runtime_ok by (simp add: runtime_ok_def)
  moreover have "config_ok ?cfg" "is_int64 (maxPollInterval ?cfg)"
    by (simp_all add: config_ok_def MaxTemplateVersionBuildWaitTimeout_def time_Minute_def time_Second_def is_int64_def)
  moreover have "6 - clk_Now demo_clock (backend demo_state) \<le> int 3 * initialPoll ?cfg"
    by (simp add: demo_clock_def demo_state_def)
  ultimately show ?thesis using wait_returns [of demo_clock demo_tsdk 6 5 ?cfg demo_state 3] by simp
qed

text \<open>
  Wait errors. Every error the wait returns is mapped to an API status without a panic:
  a failed build and the configured timeout are the client's (400), a request that timed out
  or was cancelled is a timeout (504).
\<close>

lemma wait_error_status:
  assumes "runtime_ok rt api" "v \<noteq> uuid_Nil" "name \<noteq> []"
    "waitForTemplateVersionBuild (rt_fuel rt) (rt_env rt) (rt_clock rt) api ctx (Some c) v w = (Err e, w')"
  shows "\<exists>st. mapTemplateVersionBuildWaitError e name = Ok (StatusError st) \<and>
    (\<forall>v s d. e = BuildTerminalError v s d \<longrightarrow> status_code st = 400) \<and>
    (\<forall>v t s m. e = BuildWaitTimeoutError v t s m WaitTimeoutExceeded \<longrightarrow> status_code st = 400) \<and>
    (\<forall>v t s m cause. e = BuildWaitTimeoutError v t s m cause \<longrightarrow>
       cause \<in> {ContextDeadlineExceeded, ContextCanceled} \<longrightarrow> status_code st = 504)"
proof -
  have "wait_error_ok v e" using wait_run [OF assms(1,2)] assms(4) by blast
  from mapBuildWaitError_status [OF this assms(2,3)] obtain st where st: "mapTemplateVersionBuildWaitError e name = Ok (StatusError st)"
    by blast
  then show ?thesis
    using assms(3)
    by (auto simp: mapTemplateVersionBuildWaitError_def templateVersionBuildTerminalError_Error_def
        templateVersionBuildWaitTimeoutError_Error_def split: if_splits)
qed

text \<open>
  Bounds of the wait. A configuration that is accepted is within its bounds (the timeout
  within the request timeout of the API server), the effective timeout is positive and at
  most the configured one, and the poll interval never shrinks and stays within the
  configured maximum, even where doubling it would overflow 64 bits.
\<close>

lemma wait_bounds:
  assumes "loadTemplateVersionBuildWaitConfigFromEnv env = Ok cfg" "env_ok env"
    "0 < p" "p \<le> maxPollInterval cfg"
  shows "config_ok cfg \<and> 0 < effective_timeout cfg d now \<and> effective_timeout cfg d now \<le> waitTimeout cfg \<and>
    p \<le> next_poll cfg since p \<and> next_poll cfg since p \<le> maxPollInterval cfg"
  using load_config_ok [OF assms(1)] effective_bounds [of cfg d now]
    next_poll_bounds [OF assms(3,4) load_config_int64 [OF assms(2,1)]] by blast

section \<open>Source archives\<close>

text \<open>
  C4: Paths stay inside. A path that is accepted is returned in a normal form: relative,
  without empty, \<open>.\<close> or \<open>..\<close> components and without backslashes; following the requested path
  from the root never leaves the root and ends exactly where the normal form points; and the
  normal form is accepted unchanged.
\<close>

theorem source_path_safe:
  assumes "validateTemplateSourcePath p = Ok c"
  shows "safe_path c \<and> walk [] (strings_Split p CHR ''/'') = Some (rev (strings_Split c CHR ''/'')) \<and>
    validateTemplateSourcePath c = Ok c"
  using validate_Ok [OF assms] validate_safe by blast

theorem source_path_safe_witness:
  "safe_path ''main.tf'' \<and> validateTemplateSourcePath ''main.tf'' = Ok ''main.tf''"
proof -
  have "validateTemplateSourcePath ''a/.././main.tf'' = Ok ''main.tf''" by code_simp
  from source_path_safe [OF this] show ?thesis by blast
qed

text \<open>
  C10: Source archives round trip. The archive built from a map of files is within the size
  limit, and reading it returns exactly the files, under their normalized paths.
\<close>

theorem source_zip_roundtrip:
  assumes "zip_ok zl" "buildSourceZip zl (Some fs) = Ok z"
  shows "\<exists>r. sourceFilesFromZip zl z = Ok r \<and> map_of r = map_of (norm fs) \<and> distinct (map fst r) \<and>
    length z \<le> maxTemplateSourceZipBytes"
proof -
  have "distinct (map fst (norm fs))" using buildSourceZip_Ok [OF assms(2)] by (simp add: files_ok_def)
  from by_keys_props(1,3) [OF this] buildSourceZip_read [OF assms] buildSourceZip_Ok [OF assms(2)] show ?thesis by blast
qed

theorem source_zip_roundtrip_witness:
  "\<exists>z r. buildSourceZip demo_zip (Some [(''b/x.tf'', ''2''), (''./a.tf'', ''1'')]) = Ok z \<and> sourceFilesFromZip demo_zip z = Ok r \<and>
     map_of r ''a.tf'' = Some ''1''"
proof -
  let ?fs = "[(''b/x.tf'', ''2''), (''./a.tf'', ''1'')]"
  have "is_ok (buildSourceZip demo_zip (Some ?fs))" by code_simp
  then obtain z where z: "buildSourceZip demo_zip (Some ?fs) = Ok z" by (auto simp: is_ok_iff)
  have "map_of (norm ?fs) ''a.tf'' = Some ''1''" by code_simp
  with source_zip_roundtrip [OF demo_zip_ok z] z show ?thesis by metis
qed

text \<open>
  C11: Merging keeps binary files. The merge of requested text files into an archive, when
  it succeeds, gives an archive whose text files are exactly the requested ones, and every
  binary file of the original archive that the request does not overwrite is in it, under
  its normalized path and with its content.
\<close>

theorem merged_zip_contents:
  assumes "zip_ok zl" "buildMergedSourceZip zl (Some orig) (Some desired) = Ok z"
  shows "\<exists>r fs gs. sourceFilesFromZip zl z = Ok r \<and> map_of r = map_of (norm desired) \<and> distinct (map fst r) \<and>
    length z \<le> maxTemplateSourceZipBytes \<and>
    zip_NewReader zl orig = Inr (map Some fs) \<and> zip_NewReader zl z = Inr (map Some gs) \<and>
    (\<forall>f \<in> set fs. \<forall>p d. \<not> zip_IsDir (zf_Header f) \<longrightarrow> validateTemplateSourcePath (zh_Name (zf_Header f)) = Ok p \<longrightarrow>
        map_of (norm desired) p = None \<longrightarrow> zf_Open f = Inr d \<longrightarrow> \<not> utf8_Valid (zd_Data d) \<longrightarrow>
        (\<exists>g \<in> set gs. zh_Name (zf_Header g) = p \<and> zf_Open g = Inr \<lparr>zd_Data = zd_Data d, zd_ReadErr = None, zd_CloseErr = None\<rparr>))"
  by (rule buildMerged_read [OF assms])

theorem merged_zip_contents_witness:
  "\<exists>z r. buildMergedSourceZip demo_zip (Some demo_archive) (Some [(''main.tf'', ''v2'')]) = Ok z \<and>
     sourceFilesFromZip demo_zip z = Ok r \<and> map_of r = map_of (norm [(''main.tf'', ''v2'')])"
proof -
  have "is_ok (buildMergedSourceZip demo_zip (Some demo_archive) (Some [(''main.tf'', ''v2'')]))" by code_simp
  then obtain z where z: "buildMergedSourceZip demo_zip (Some demo_archive) (Some [(''main.tf'', ''v2'')]) = Ok z"
    by (auto simp: is_ok_iff)
  from merged_zip_contents [OF demo_zip_ok z] z show ?thesis by blast
qed

text \<open>
  The order of map iteration does not matter. Two runs of the builder on the same file
  map that iterate over it in different orders build the same archive.
\<close>

lemma source_zip_deterministic:
  assumes "mset fs = mset gs" "buildSourceZip zl (Some fs) = Ok z"
  shows "buildSourceZip zl (Some gs) = Ok z"
  by (rule buildSourceZip_order [OF assms])

end
