(* ===== verification/Kube.thy ===== *)
theory Kube
  imports Api_Types
begin

text \<open>
  What the controllers use of Kubernetes: object metadata, owner references, finalizers and
  conditions, the objects the controllers write, the client, and \<open>CreateOrUpdate\<close>
  (vendored controller-runtime, controllerutil.go, and apimachinery, conditions.go).

  A Go map with string keys is its list of entries in the order of keys, so that equality of
  lists is equality of maps; \<open>nil\<close> and empty maps and slices, which the semantic
  comparison of the controllers does not distinguish, are the empty list. Fields that the
  controllers do not name are one opaque field of their record (\<open>\<dots>_Other\<close>), empty when
  they are unset; assigning a whole struct resets it.
  The client is a record of calls: nothing is assumed of the API server behind it.
  The locale \<open>managed_object\<close> is the contract of a mutate function: it keeps the key of the
  object, it is idempotent, and it does not panic. Its lemmas say what \<open>CreateOrUpdate\<close>
  does with such a function. \<open>owned_object\<close> extends it with the owner: every object the
  controllers manage is an interpretation.
\<close>

section \<open>Definitions\<close>

subsection \<open>Maps\<close>

type_synonym string_map = "(string \<times> string) list"

fun map_put :: "string \<Rightarrow> string \<Rightarrow> string_map \<Rightarrow> string_map" where
  "map_put k v [] = [(k, v)]"
| "map_put k v ((k', v') # m) =
     (if k = k' then (k, v) # m else if k < k' then (k, v) # (k', v') # m else (k', v') # map_put k v m)"

subsection \<open>Metadata, owners, finalizers\<close>

record OwnerReference =
  or_APIVersion :: string
  or_Kind :: string
  or_Name :: string
  or_UID :: string
  or_BlockOwnerDeletion :: "bool option"
  or_Controller :: "bool option"

record KMeta =
  m_Name :: string
  m_Namespace :: string
  m_UID :: string
  m_ResourceVersion :: string
  m_Generation :: int
  m_DeletionTimestamp :: "gotime option"
  m_Labels :: string_map
  m_Annotations :: string_map
  m_OwnerReferences :: "OwnerReference list"
  m_Finalizers :: "string list"

text \<open>\<open>types.NamespacedName.String\<close>\<close>

definition namespacedName :: "string \<Rightarrow> string \<Rightarrow> string" where
  "namespacedName ns name = ns @ ''/'' @ name"

definition new_meta :: "string \<Rightarrow> string \<Rightarrow> KMeta" where
  "new_meta name ns = \<lparr>m_Name = name, m_Namespace = ns, m_UID = [], m_ResourceVersion = [], m_Generation = 0,
     m_DeletionTimestamp = None, m_Labels = [], m_Annotations = [], m_OwnerReferences = [], m_Finalizers = []\<rparr>"

text \<open>\<open>schema.ParseGroupVersion\<close>: the group of an API version, if it parses.\<close>

definition parse_group :: "string \<Rightarrow> string option" where
  "parse_group gv =
     (if gv = [] \<or> gv = ''/'' then Some []
      else case strings_Split gv CHR ''/'' of
        [_] \<Rightarrow> Some [] | [g, _] \<Rightarrow> Some g | _ \<Rightarrow> None)"

definition referSameObject :: "OwnerReference \<Rightarrow> OwnerReference \<Rightarrow> bool" where
  "referSameObject a b =
     (case parse_group (or_APIVersion a) of None \<Rightarrow> False | Some aGroup \<Rightarrow>
      case parse_group (or_APIVersion b) of None \<Rightarrow> False | Some bGroup \<Rightarrow>
      aGroup = bGroup \<and> or_Kind a = or_Kind b \<and> or_Name a = or_Name b)"

fun upsertOwnerRef :: "OwnerReference \<Rightarrow> OwnerReference list \<Rightarrow> OwnerReference list" where
  "upsertOwnerRef ref [] = [ref]"
| "upsertOwnerRef ref (r # owners) = (if referSameObject r ref then ref # owners else r # upsertOwnerRef ref owners)"

definition GetControllerOf :: "OwnerReference list \<Rightarrow> OwnerReference option" where
  "GetControllerOf owners = find (\<lambda>r. or_Controller r = Some True) owners"

definition validateOwner :: "KMeta \<Rightarrow> KMeta \<Rightarrow> unit result" where
  "validateOwner owner object =
     (if m_Namespace owner = [] then Ok ()
      else if m_Namespace object = [] then Err (ErrorString
        (Fmt ''cluster-scoped resource must not have a namespace-scoped owner, owner's namespace %s'' [ArgS (m_Namespace owner)]))
      else if m_Namespace owner \<noteq> m_Namespace object then Err (ErrorString
        (Fmt ''cross-namespace owner references are disallowed, owner's namespace %s, obj's namespace %s''
           [ArgS (m_Namespace owner), ArgS (m_Namespace object)]))
      else Ok ())"

text \<open>
  \<open>SetControllerReference\<close> for an owner of the group \<open>coder.com/v1alpha1\<close>; the kind of the
  owner is what the scheme has registered for its type.
\<close>

definition coder_GroupVersion :: string where "coder_GroupVersion = ''coder.com/v1alpha1''"

definition controller_ref :: "string \<Rightarrow> KMeta \<Rightarrow> OwnerReference" where
  "controller_ref kind owner = \<lparr>or_APIVersion = coder_GroupVersion, or_Kind = kind, or_Name = m_Name owner,
     or_UID = m_UID owner, or_BlockOwnerDeletion = Some True, or_Controller = Some True\<rparr>"

definition SetControllerReference :: "string \<Rightarrow> KMeta \<Rightarrow> KMeta \<Rightarrow> KMeta result" where
  "SetControllerReference kind owner controlled =
     rbind (validateOwner owner controlled) (\<lambda>_.
     let ref = controller_ref kind owner in
     if (case GetControllerOf (m_OwnerReferences controlled) of None \<Rightarrow> False
         | Some existing \<Rightarrow> \<not> referSameObject existing ref)
     then Err (ErrorString (Fmt ''Object %s/%s is already owned by another %s controller %s''
            [ArgS (m_Namespace controlled), ArgS (m_Name controlled),
             ArgS (or_Kind (the (GetControllerOf (m_OwnerReferences controlled)))),
             ArgS (or_Name (the (GetControllerOf (m_OwnerReferences controlled))))]))
     else Ok (controlled\<lparr>m_OwnerReferences := upsertOwnerRef ref (m_OwnerReferences controlled)\<rparr>))"

definition ContainsFinalizer :: "KMeta \<Rightarrow> string \<Rightarrow> bool" where
  "ContainsFinalizer m f = (f \<in> set (m_Finalizers m))"

definition AddFinalizer :: "string \<Rightarrow> KMeta \<Rightarrow> KMeta" where
  "AddFinalizer f m = (if f \<in> set (m_Finalizers m) then m else m\<lparr>m_Finalizers := m_Finalizers m @ [f]\<rparr>)"

definition RemoveFinalizer :: "string \<Rightarrow> KMeta \<Rightarrow> KMeta" where
  "RemoveFinalizer f m = m\<lparr>m_Finalizers := filter (\<lambda>x. x \<noteq> f) (m_Finalizers m)\<rparr>"

subsection \<open>Conditions\<close>

record Condition =
  c_Type :: string
  c_Status :: string
  c_ObservedGeneration :: int
  c_LastTransitionTime :: gotime
  c_Reason :: string
  c_Message :: msg

text \<open>\<open>meta.SetStatusCondition\<close> at the time \<open>now\<close>, for a new condition without a transition time.\<close>

fun SetStatusCondition :: "gotime \<Rightarrow> Condition \<Rightarrow> Condition list \<Rightarrow> Condition list" where
  "SetStatusCondition now new [] = [new\<lparr>c_LastTransitionTime := now\<rparr>]"
| "SetStatusCondition now new (c # cs) =
     (if c_Type c = c_Type new
      then new\<lparr>c_LastTransitionTime := (if c_Status c \<noteq> c_Status new then now else c_LastTransitionTime c)\<rparr> # cs
      else c # SetStatusCondition now new cs)"

subsection \<open>Objects\<close>

datatype env_source = SecretKeyRef string string | FieldRef string | OtherSource string

record EnvVar =
  env_Name :: string
  env_Value :: string
  env_ValueFrom :: "env_source option"

record ContainerPort =
  port_Name :: string
  port_ContainerPort :: int
  port_Protocol :: string

record EnvFromSource =
  ef_Prefix :: string
  ef_ConfigMapRef :: "string option"
  ef_SecretRef :: "string option"
  ef_Other :: string

datatype volume_source = SecretVolume string | OtherVolume string

record Volume =
  vol_Name :: string
  vol_Source :: volume_source

record VolumeMount =
  vm_Name :: string
  vm_MountPath :: string
  vm_SubPath :: string
  vm_ReadOnly :: bool
  vm_Other :: string

text \<open>A probe with an HTTP handler: path, name of the port, scheme.\<close>

record Probe =
  prb_HTTPGet :: "(string \<times> string \<times> string) option"
  prb_InitialDelaySeconds :: int
  prb_PeriodSeconds :: int
  prb_TimeoutSeconds :: int
  prb_SuccessThreshold :: int
  prb_FailureThreshold :: int
  prb_Other :: string

record Container =
  con_Name :: string
  con_Image :: string
  con_Command :: "string list"
  con_Args :: "string list"
  con_Env :: "EnvVar list"
  con_Ports :: "ContainerPort list"
  con_Resources :: string
  con_EnvFrom :: "EnvFromSource list"
  con_VolumeMounts :: "VolumeMount list"
  con_SecurityContext :: "string option"
  con_ReadinessProbe :: "Probe option"
  con_LivenessProbe :: "Probe option"
  con_Other :: string

text \<open>Affinity, tolerations, spread constraints and security contexts are copied as they are.\<close>

record PodTemplate =
  pod_Labels :: string_map
  pod_Annotations :: string_map
  pod_ServiceAccountName :: string
  pod_ImagePullSecrets :: "string list"
  pod_TerminationGracePeriodSeconds :: "int option"
  pod_Containers :: "Container list"
  pod_Volumes :: "Volume list"
  pod_NodeSelector :: string_map
  pod_Tolerations :: "string list"
  pod_TopologySpread :: "string list"
  pod_SecurityContext :: "string option"
  pod_Affinity :: "string option"
  pod_Other :: string

record Deployment =
  dep_meta :: KMeta
  dep_Replicas :: "int option"
  dep_Selector :: string_map
  dep_Template :: PodTemplate
  dep_OtherSpec :: string
  dep_ReadyReplicas :: int

record ServicePort =
  sp_Name :: string
  sp_Port :: int
  sp_Protocol :: string
  sp_TargetPort :: int
  sp_Other :: string

record Service =
  svc_meta :: KMeta
  svc_Type :: string
  svc_Selector :: string_map
  svc_Ports :: "ServicePort list"
  svc_OtherSpec :: string

record Secret =
  sec_meta :: KMeta
  sec_Type :: string
  sec_Data :: string_map

record ServiceAccount =
  sa_meta :: KMeta
  sa_Other :: string

record PolicyRule =
  rule_APIGroups :: "string list"
  rule_Resources :: "string list"
  rule_Verbs :: "string list"
  rule_Other :: string

record Role =
  role_meta :: KMeta
  role_Rules :: "PolicyRule list"

record Subject =
  sub_Kind :: string
  sub_Name :: string
  sub_Namespace :: string

record RoleBinding =
  rb_meta :: KMeta
  rb_RoleRef :: "string \<times> string \<times> string"
  rb_Subjects :: "Subject list"

definition empty_template :: PodTemplate where
  "empty_template = \<lparr>pod_Labels = [], pod_Annotations = [], pod_ServiceAccountName = [], pod_ImagePullSecrets = [],
     pod_TerminationGracePeriodSeconds = None, pod_Containers = [], pod_Volumes = [], pod_NodeSelector = [], pod_Tolerations = [],
              pod_TopologySpread = [], pod_SecurityContext = None, pod_Affinity = None, pod_Other = []\<rparr>"

definition new_Deployment :: "string \<Rightarrow> string \<Rightarrow> Deployment" where
  "new_Deployment name ns = \<lparr>dep_meta = new_meta name ns, dep_Replicas = None, dep_Selector = [],
     dep_Template = empty_template, dep_OtherSpec = [], dep_ReadyReplicas = 0\<rparr>"

definition new_Service :: "string \<Rightarrow> string \<Rightarrow> Service" where
  "new_Service name ns = \<lparr>svc_meta = new_meta name ns, svc_Type = [], svc_Selector = [], svc_Ports = [], svc_OtherSpec = []\<rparr>"

definition new_Secret :: "string \<Rightarrow> string \<Rightarrow> Secret" where
  "new_Secret name ns = \<lparr>sec_meta = new_meta name ns, sec_Type = [], sec_Data = []\<rparr>"

definition new_ServiceAccount :: "string \<Rightarrow> string \<Rightarrow> ServiceAccount" where
  "new_ServiceAccount name ns = \<lparr>sa_meta = new_meta name ns, sa_Other = []\<rparr>"

definition new_Role :: "string \<Rightarrow> string \<Rightarrow> Role" where
  "new_Role name ns = \<lparr>role_meta = new_meta name ns, role_Rules = []\<rparr>"

definition new_RoleBinding :: "string \<Rightarrow> string \<Rightarrow> RoleBinding" where
  "new_RoleBinding name ns = \<lparr>rb_meta = new_meta name ns, rb_RoleRef = ([], [], []), rb_Subjects = []\<rparr>"

subsection \<open>The client and CreateOrUpdate\<close>

text \<open>The calls of the client for one kind of object: \<open>Get\<close> takes the namespace and the name.\<close>

record ('b, 'o) kind_api =
  k_Get :: "string \<Rightarrow> string \<Rightarrow> ('b, 'o) call"
  k_Create :: "'o \<Rightarrow> ('b, 'o) call"
  k_Update :: "'o \<Rightarrow> ('b, 'o) call"
  k_StatusUpdate :: "'o \<Rightarrow> ('b, 'o) call"

record 'b core_client =
  cc_Deployments :: "('b, Deployment) kind_api"
  cc_Services :: "('b, Service) kind_api"
  cc_Secrets :: "('b, Secret) kind_api"
  cc_ServiceAccounts :: "('b, ServiceAccount) kind_api"
  cc_Roles :: "('b, Role) kind_api"
  cc_RoleBindings :: "('b, RoleBinding) kind_api"

text \<open>\<open>readSecretValue\<close>, the same method of the workspace proxy and provisioner reconcilers.\<close>

definition readSecretValue :: "('b, Secret) kind_api \<Rightarrow> string \<Rightarrow> string \<Rightarrow> string \<Rightarrow> ('b, string) op" where
  "readSecretValue secrets ns name key =
     bind (call (k_Get secrets ns name)) (\<lambda>secret.
     case map_of (sec_Data secret) key of
       None \<Rightarrow> fail (ErrorString (Fmt ''secret %q does not contain key %q'' [ArgS name, ArgS key]))
     | Some value \<Rightarrow>
         if value = [] then fail (ErrorString (Fmt ''secret %q key %q is empty'' [ArgS name, ArgS key]))
         else ret value)"

abbreviation set_controller :: "string \<Rightarrow> KMeta \<Rightarrow> KMeta \<Rightarrow> KMeta result" where
  "set_controller kind owner m \<equiv> rmap_err (WrapError ''set controller reference: %w'' []) (SetControllerReference kind owner m)"

definition mutate :: "('o \<Rightarrow> KMeta) \<Rightarrow> string \<times> string \<Rightarrow> ('o \<Rightarrow> 'o result) \<Rightarrow> 'o \<Rightarrow> 'o result" where
  "mutate meta key f obj =
     rbind (f obj) (\<lambda>obj'.
       if (m_Namespace (meta obj'), m_Name (meta obj')) \<noteq> key
       then Err (errorf ''MutateFn cannot mutate object name and/or object namespace'')
       else Ok obj')"

definition CreateOrUpdate ::
    "('o \<Rightarrow> KMeta) \<Rightarrow> ('b, 'o) kind_api \<Rightarrow> 'o \<Rightarrow> ('o \<Rightarrow> 'o result) \<Rightarrow> ('b, 'o) op" where
  "CreateOrUpdate meta k obj f =
     (let key = (m_Namespace (meta obj), m_Name (meta obj)) in
      handle (call (k_Get k (fst key) (snd key)))
        (\<lambda>err. if \<not> IsNotFound err then fail err
               else bind (lift (mutate meta key f obj)) (\<lambda>new. call (k_Create k new)))
        (\<lambda>existing. bind (lift (mutate meta key f existing)) (\<lambda>new.
               if existing = new then ret new else call (k_Update k new))))"

section \<open>The contract of a mutate function\<close>

lemma safe_call: "safe (\<lambda>_. True) (call c)"
  by (simp add: safe_def call_def split: prod.split sum.split)

locale managed_object =
  fixes meta :: "'o \<Rightarrow> KMeta"
    and desire :: "'o \<Rightarrow> 'o result"
  assumes desire_key: "desire x = Ok y \<Longrightarrow>
      m_Name (meta y) = m_Name (meta x) \<and> m_Namespace (meta y) = m_Namespace (meta x)"
    and desire_idem: "desire x = Ok y \<Longrightarrow> desire y = Ok y"
    and desire_no_panic: "\<not> is_panic (desire x)"
begin

lemma mutate_eq:
  assumes "key = (m_Namespace (meta x), m_Name (meta x))"
  shows "mutate meta key desire x = desire x"
  using assms desire_key [of x] by (cases "desire x") (auto simp: mutate_def)

lemma mutate_no_panic: "\<not> is_panic (mutate meta key desire x)"
  using desire_no_panic [of x] by (cases "desire x") (auto simp: mutate_def)

text \<open>Every successful run leaves an object the mutate function does not change any more.\<close>

lemma CreateOrUpdate_Ok:
  assumes "CreateOrUpdate meta k obj desire b = (Ok r, b')"
  obtains (created) e b1 new where "k_Get k (m_Namespace (meta obj)) (m_Name (meta obj)) b = (Inl e, b1)" "IsNotFound e"
      "desire obj = Ok new" "k_Create k new b1 = (Inr r, b')" "desire new = Ok new"
    | (unchanged) "k_Get k (m_Namespace (meta obj)) (m_Name (meta obj)) b = (Inr r, b')" "desire r = Ok r"
    | (updated) existing b1 new where "k_Get k (m_Namespace (meta obj)) (m_Name (meta obj)) b = (Inr existing, b1)"
      "desire existing = Ok new" "new \<noteq> existing" "k_Update k new b1 = (Inr r, b')" "desire new = Ok new"
proof -
  let ?ns = "m_Namespace (meta obj)" and ?n = "m_Name (meta obj)"
  obtain x b1 where get: "k_Get k ?ns ?n b = (x, b1)" by force
  show ?thesis
  proof (cases x)
    case (Inl e)
    then show ?thesis
      using assms get created desire_idem [of obj]
      by (auto simp: CreateOrUpdate_def Let_def handle_eq_Ok call_run call_eq_Ok bind_eq_Ok mutate_eq split: if_splits)
  next
    case (Inr existing)
    from assms get Inr obtain new where new: "mutate meta (?ns, ?n) desire existing = Ok new"
      "(if existing = new then ret new else call (k_Update k new)) b1 = (Ok r, b')"
      by (auto simp: CreateOrUpdate_def Let_def handle_eq_Ok call_eq_Ok call_eq_Err bind_eq_Ok)
    then have "desire existing = Ok new" by (auto simp: mutate_def rbind_eq_Ok split: if_splits)
    with new get Inr unchanged updated desire_idem [of existing] show ?thesis
      by (cases "existing = new") (auto simp: call_eq_Ok)
  qed
qed

text \<open>An object that is as desired is only read.\<close>

lemma CreateOrUpdate_settled:
  assumes "k_Get k (m_Namespace (meta obj)) (m_Name (meta obj)) b = (Inr e, b1)" "desire e = Ok e"
    "m_Namespace (meta e) = m_Namespace (meta obj)" "m_Name (meta e) = m_Name (meta obj)"
  shows "CreateOrUpdate meta k obj desire b = (Ok e, b1)"
  using assms by (simp add: CreateOrUpdate_def Let_def handle_def call_run bind_def mutate_def)

lemma CreateOrUpdate_safe: "safe (\<lambda>_. True) (CreateOrUpdate meta k obj desire)"
  unfolding CreateOrUpdate_def Let_def
  by (intro safe_rules safe_call mutate_no_panic)

end

definition foreign_controlled :: "string \<Rightarrow> KMeta \<Rightarrow> KMeta \<Rightarrow> bool" where
  "foreign_controlled kind owner m \<longleftrightarrow>
     (case GetControllerOf (m_OwnerReferences m) of None \<Rightarrow> False | Some e \<Rightarrow> \<not> referSameObject e (controller_ref kind owner))"

text \<open>A mutate function that also makes its owner the controller, and refuses an object of another controller.\<close>

locale owned_object = managed_object meta desire for meta :: "'o \<Rightarrow> KMeta" and desire +
  fixes kind :: string and owner :: KMeta
  assumes desire_owned: "desire x = Ok y \<Longrightarrow> controller_ref kind owner \<in> set (m_OwnerReferences (meta y))"
    and desire_foreign: "foreign_controlled kind owner (meta x) \<Longrightarrow> \<exists>err. desire x = Err err"
begin

text \<open>An object of another controller is read, and that is all.\<close>

lemma foreign_untouched:
  assumes "k_Get k ns n w = (Inr existing, w1)" "foreign_controlled kind owner (meta existing)"
    and "m_Namespace (meta obj) = ns" "m_Name (meta obj) = n"
  shows "\<exists>err. map_err g (CreateOrUpdate meta k obj desire) w = (Err err, w1)"
  using desire_foreign [OF assms(2)] assms(1,3,4)
  by (auto simp: CreateOrUpdate_def Let_def handle_def call_run bind_def mutate_def map_err_run)

end

section \<open>Lemmas\<close>

subsection \<open>Maps\<close>

lemma map_of_put [simp]: "map_of (map_put k v m) = (map_of m)(k \<mapsto> v)"
  by (induction k v m rule: map_put.induct) (auto simp: fun_eq_iff)

lemma map_put_idem [simp]: "map_put k v (map_put k v m) = map_put k v m"
  by (induction k v m rule: map_put.induct) auto

subsection \<open>Owner references\<close>

lemma parse_coder_group [simp]: "parse_group coder_GroupVersion = Some ''coder.com''"
  by (simp add: parse_group_def coder_GroupVersion_def)

lemma referSame_controller_ref [simp]: "referSameObject (controller_ref kind owner) (controller_ref kind owner)"
  by (simp add: referSameObject_def controller_ref_def)

lemma upsert_idem: "referSameObject ref ref \<Longrightarrow> upsertOwnerRef ref (upsertOwnerRef ref owners) = upsertOwnerRef ref owners"
  by (induction owners) auto

lemma upsert_mem: "ref \<in> set (upsertOwnerRef ref owners)"
  by (induction owners) auto

lemma upsert_controller:
  assumes "\<And>e. GetControllerOf owners = Some e \<Longrightarrow> referSameObject e ref" "referSameObject ref ref" "or_Controller ref = Some True"
  shows "\<exists>e. GetControllerOf (upsertOwnerRef ref owners) = Some e \<and> referSameObject e ref"
  using assms(1)
proof (induction owners)
  case (Cons r owners)
  then show ?case using assms(2,3) by (auto simp: GetControllerOf_def split: if_splits)
qed (use assms in \<open>simp add: GetControllerOf_def\<close>)

lemma validateOwner_Ok:
  "validateOwner owner m = Ok u \<longleftrightarrow> m_Namespace owner = [] \<or> m_Namespace m = m_Namespace owner"
  by (auto simp: validateOwner_def)

lemma SetControllerReference_Ok:
  assumes "SetControllerReference kind owner m = Ok m'"
  shows "m' = m\<lparr>m_OwnerReferences := upsertOwnerRef (controller_ref kind owner) (m_OwnerReferences m)\<rparr>"
    and "SetControllerReference kind owner (m'\<lparr>m_Labels := l, m_Annotations := a\<rparr>) = Ok (m'\<lparr>m_Labels := l, m_Annotations := a\<rparr>)"
    and "controller_ref kind owner \<in> set (m_OwnerReferences m')"
proof -
  let ?ref = "controller_ref kind owner"
  from assms have v: "validateOwner owner m = Ok ()"
    and c: "\<And>e. GetControllerOf (m_OwnerReferences m) = Some e \<Longrightarrow> referSameObject e ?ref"
    and m': "m' = m\<lparr>m_OwnerReferences := upsertOwnerRef ?ref (m_OwnerReferences m)\<rparr>"
    unfolding SetControllerReference_def Let_def rbind_eq_Ok by (auto split: if_splits option.splits)
  show "m' = m\<lparr>m_OwnerReferences := upsertOwnerRef ?ref (m_OwnerReferences m)\<rparr>" by (fact m')
  have v': "validateOwner owner (m'\<lparr>m_Labels := l, m_Annotations := a\<rparr>) = Ok ()"
    using v by (simp add: m' validateOwner_Ok)
  obtain e where "GetControllerOf (m_OwnerReferences m') = Some e" "referSameObject e ?ref"
    using upsert_controller [of "m_OwnerReferences m" ?ref] c m' by (auto simp: controller_ref_def referSameObject_def)
  then show "SetControllerReference kind owner (m'\<lparr>m_Labels := l, m_Annotations := a\<rparr>) = Ok (m'\<lparr>m_Labels := l, m_Annotations := a\<rparr>)"
    using v' m' by (simp add: SetControllerReference_def Let_def upsert_idem)
  show "?ref \<in> set (m_OwnerReferences m')" using m' by (simp add: upsert_mem)
qed

lemma SetControllerReference_foreign:
  "foreign_controlled kind owner m \<Longrightarrow> \<exists>err. SetControllerReference kind owner m = Err err"
  by (auto simp: foreign_controlled_def SetControllerReference_def validateOwner_def Let_def split: option.splits)

lemma SetControllerReference_again:
  assumes "SetControllerReference kind owner m = Ok m'"
  shows "SetControllerReference kind owner m' = Ok m'"
  using SetControllerReference_Ok(2) [OF assms, of "m_Annotations m'" "m_Labels m'"] by simp

text \<open>Setting the labels, or the labels and annotations, and the reference a second time changes nothing.\<close>

lemma SetControllerReference_labels:
  "SetControllerReference k ow (m\<lparr>m_Labels := l\<rparr>) = Ok m' \<Longrightarrow> SetControllerReference k ow (m'\<lparr>m_Labels := l\<rparr>) = Ok m'"
  "SetControllerReference k ow (m\<lparr>m_Labels := l, m_Annotations := a\<rparr>) = Ok m' \<Longrightarrow>
     SetControllerReference k ow (m'\<lparr>m_Labels := l, m_Annotations := a\<rparr>) = Ok m'"
proof -
  assume r: "SetControllerReference k ow (m\<lparr>m_Labels := l\<rparr>) = Ok m'"
  have "m'\<lparr>m_Labels := l\<rparr> = m'" using SetControllerReference_Ok(1) [OF r] by simp
  then show "SetControllerReference k ow (m'\<lparr>m_Labels := l\<rparr>) = Ok m'" using SetControllerReference_again [OF r] by simp
next
  assume r: "SetControllerReference k ow (m\<lparr>m_Labels := l, m_Annotations := a\<rparr>) = Ok m'"
  have "m'\<lparr>m_Labels := l, m_Annotations := a\<rparr> = m'" using SetControllerReference_Ok(1) [OF r] by simp
  then show "SetControllerReference k ow (m'\<lparr>m_Labels := l, m_Annotations := a\<rparr>) = Ok m'"
    using SetControllerReference_again [OF r] by simp
qed

lemma SetControllerReference_frame:
  assumes "SetControllerReference kind owner m = Ok m'"
  shows "m_Name m' = m_Name m" "m_Namespace m' = m_Namespace m" "m_Labels m' = m_Labels m" "m_Annotations m' = m_Annotations m"
  using SetControllerReference_Ok(1) [OF assms] by simp_all

lemma SetControllerReference_no_panic [simp]: "\<not> is_panic (SetControllerReference kind owner m)"
  by (simp add: SetControllerReference_def validateOwner_def Let_def is_panic_rbind)

text \<open>What the interpretations of \<open>owned_object\<close> need.\<close>

lemma set_controller_foreign:
  assumes "foreign_controlled kind owner m"
  shows "\<exists>err. rbind (set_controller kind owner (m\<lparr>m_Labels := l\<rparr>)) f = Err err"
    and "\<exists>err. rbind (set_controller kind owner (m\<lparr>m_Labels := l, m_Annotations := a\<rparr>)) f = Err err"
  using assms SetControllerReference_foreign [of kind owner "m\<lparr>m_Labels := l\<rparr>"]
    SetControllerReference_foreign [of kind owner "m\<lparr>m_Labels := l, m_Annotations := a\<rparr>"]
  by (auto simp: foreign_controlled_def)

lemma new_meta_simps [simp]:
  "sec_meta (new_Secret n ns) = new_meta n ns" "svc_meta (new_Service n ns) = new_meta n ns"
  "dep_meta (new_Deployment n ns) = new_meta n ns" "sa_meta (new_ServiceAccount n ns) = new_meta n ns"
  "role_meta (new_Role n ns) = new_meta n ns" "rb_meta (new_RoleBinding n ns) = new_meta n ns"
  "m_Name (new_meta n ns) = n" "m_Namespace (new_meta n ns) = ns"
  by (simp_all add: new_Secret_def new_Service_def new_Deployment_def new_ServiceAccount_def new_Role_def new_RoleBinding_def new_meta_def)

lemmas managed_simps = Let_def rbind_eq_Ok is_panic_rbind
lemmas managed_dests = SetControllerReference_frame SetControllerReference_labels SetControllerReference_Ok(3)

subsection \<open>Conditions\<close>

lemma SetStatusCondition_mem: "\<exists>t. new\<lparr>c_LastTransitionTime := t\<rparr> \<in> set (SetStatusCondition now new cs)"
  by (induction now new cs rule: SetStatusCondition.induct) auto

lemma SetStatusCondition_again:
  "SetStatusCondition later new (SetStatusCondition now new cs) = SetStatusCondition now new cs"
  by (induction now new cs rule: SetStatusCondition.induct) auto

end
