(* ===== verification/Resource_Names.thy ===== *)
theory Resource_Names
  imports Kube
begin

text \<open>
  Names and labels of the resources the controllers create
  (internal/controller: coderworkspaceproxy_controller.go, coderprovisioner_controller.go).
  A name that does not fit the limit of its use is cut and completed with the FNV-1a hash of
  the whole name. The locale \<open>bounded_name\<close> is what the controllers rely on: the limit is
  kept, names that fit are used as they are, and those are never confused.
\<close>

section \<open>Definitions\<close>

subsection \<open>FNV-1a and its hexadecimal form\<close>

unbundle bit_operations_syntax

definition fnv32a_step :: "32 word \<Rightarrow> char \<Rightarrow> 32 word" where
  "fnv32a_step h c = (h XOR word_of_nat (byte c)) * 16777619"

definition fnv32a :: "string \<Rightarrow> 32 word" where
  "fnv32a s = foldl fnv32a_step 2166136261 s"

text \<open>\<open>fmt.Sprintf("%08x", v)\<close>\<close>

definition hex8 :: "32 word \<Rightarrow> string" where
  "hex8 v = map (\<lambda>i. hex_digit (unat (take_bit 4 (drop_bit (4 * (7 - i)) v)))) [0..<8]"

definition hash_suffix :: "string \<Rightarrow> string" where
  "hash_suffix name = hex8 (fnv32a name)"

definition at_least_one :: "nat \<Rightarrow> nat" where
  "at_least_one available = (if available < 1 then 1 else available)"

text \<open>The image all controllers fall back to.\<close>

definition defaultCoderImage :: string where "defaultCoderImage = ''ghcr.io/coder/coder:latest''"

subsection \<open>Workspace proxies\<close>

definition workspaceProxyNamePrefix :: string where "workspaceProxyNamePrefix = ''wsproxy-''"

definition workspaceProxyResourceName :: "string \<Rightarrow> string" where
  "workspaceProxyResourceName name =
     (let candidate = workspaceProxyNamePrefix @ name in
      if length candidate \<le> 63 then candidate
      else
        let suffix = hash_suffix name;
            available = at_least_one (63 - length workspaceProxyNamePrefix - length suffix - 1)
        in workspaceProxyNamePrefix @ take available name @ ''-'' @ suffix)"

definition workspaceProxyInstanceLabelValue :: "string \<Rightarrow> string" where
  "workspaceProxyInstanceLabelValue name =
     (if length name \<le> 63 then name
      else
        let suffix = hash_suffix name; available = at_least_one (63 - length suffix - 1)
        in take available name @ ''-'' @ suffix)"

definition workspaceProxyLabels :: "string \<Rightarrow> string_map" where
  "workspaceProxyLabels name =
     [(''app.kubernetes.io/instance'', workspaceProxyInstanceLabelValue name),
      (''app.kubernetes.io/managed-by'', ''coder-k8s''),
      (''app.kubernetes.io/name'', ''coder-workspace-proxy'')]"

subsection \<open>Provisioners\<close>

definition provisionerNamePrefix :: string where "provisionerNamePrefix = ''provisioner-''"
definition provisionerServiceAccountSuffix :: string where "provisionerServiceAccountSuffix = ''-provisioner''"

definition provisionerResourceName :: "string \<Rightarrow> string" where
  "provisionerResourceName name =
     (let candidate = provisionerNamePrefix @ name in
      if length candidate \<le> 63 then candidate
      else
        let suffix = hash_suffix name;
            available = at_least_one (63 - length provisionerNamePrefix - length suffix - 1)
        in provisionerNamePrefix @ take available name @ ''-'' @ suffix)"

definition provisionerInstanceLabelValue :: "string \<Rightarrow> string" where
  "provisionerInstanceLabelValue name =
     (if length name \<le> 63 then name
      else
        let suffix = hash_suffix name; available = at_least_one (63 - length suffix - 1)
        in take available name @ ''-'' @ suffix)"

definition provisionerLabels :: "string \<Rightarrow> string_map" where
  "provisionerLabels name =
     [(''app.kubernetes.io/instance'', provisionerInstanceLabelValue name),
      (''app.kubernetes.io/managed-by'', ''coder-k8s''),
      (''app.kubernetes.io/name'', ''coder-provisioner'')]"

definition provisionerServiceAccountName :: "string \<Rightarrow> string" where
  "provisionerServiceAccountName name =
     (let candidate = name @ provisionerServiceAccountSuffix in
      if length candidate \<le> 63 then candidate
      else
        let suffix = hash_suffix name;
            available = at_least_one (63 - length provisionerServiceAccountSuffix - length suffix - 1)
        in take available name @ ''-'' @ suffix @ provisionerServiceAccountSuffix)"

text \<open>The two names of \<open>provisionerKeyConfig\<close>: the key in Coder and the secret that stores it.\<close>

definition limitKeyName :: "string \<Rightarrow> string" where
  "limitKeyName keyName =
     (if length keyName > 128 then
        let suffix = hash_suffix keyName; available = at_least_one (128 - length suffix - 1)
        in take available keyName @ ''-'' @ suffix
      else keyName)"

definition secretNameSuffix :: string where "secretNameSuffix = ''-provisioner-key''"

definition keySecretNameFor :: "string \<Rightarrow> string" where
  "keySecretNameFor name =
     (let candidate = name @ secretNameSuffix in
      if length candidate \<le> 253 then candidate
      else
        let suffix = hash_suffix name;
            available = at_least_one (253 - length secretNameSuffix - length suffix - 1)
        in take available name @ ''-'' @ suffix @ secretNameSuffix)"

subsection \<open>Hashes of tags and secrets\<close>

definition tag_bytes :: "string_map \<Rightarrow> string \<Rightarrow> string" where
  "tag_bytes tags key = key @ [CHR 0x00] @ (case map_of tags key of None \<Rightarrow> [] | Some v \<Rightarrow> v) @ [CHR 0x00]"

definition hashProvisionerTags :: "string_map \<Rightarrow> string" where
  "hashProvisionerTags tags =
     hex8 (foldl (\<lambda>h key. foldl fnv32a_step h (tag_bytes tags key)) 2166136261 (sort (map fst tags)))"

definition hashProvisionerSecret :: "string \<Rightarrow> string" where
  "hashProvisionerSecret secretValue = hex8 (fnv32a secretValue)"

section \<open>The contract of a bounded name\<close>

locale bounded_name =
  fixes name_of plain_of :: "string \<Rightarrow> string" and limit :: nat
  assumes fits: "length (plain_of n) \<le> limit \<Longrightarrow> name_of n = plain_of n"
    and cut: "limit < length (plain_of n) \<Longrightarrow> length (name_of n) = limit"
    and plain_inj: "plain_of m = plain_of n \<Longrightarrow> m = n"
begin

lemma name_length: "length (name_of n) = min limit (length (plain_of n))"
  using fits [of n] cut [of n] by (cases "length (plain_of n) \<le> limit") auto

lemma name_bound: "length (name_of n) \<le> limit"
  by (simp add: name_length)

lemma name_inj:
  "length (plain_of m) \<le> limit \<Longrightarrow> length (plain_of n) \<le> limit \<Longrightarrow> name_of m = name_of n \<Longrightarrow> m = n"
  using fits plain_inj by simp

end

section \<open>Lemmas\<close>

lemma length_hash_suffix [simp]: "length (hash_suffix n) = 8"
  by (simp add: hash_suffix_def hex8_def)

interpretation proxy_resource: bounded_name workspaceProxyResourceName "\<lambda>n. ''wsproxy-'' @ n" 63
  by unfold_locales (auto simp: workspaceProxyResourceName_def workspaceProxyNamePrefix_def at_least_one_def Let_def)

interpretation proxy_label: bounded_name workspaceProxyInstanceLabelValue "\<lambda>n. n" 63
  by unfold_locales (auto simp: workspaceProxyInstanceLabelValue_def at_least_one_def Let_def)

interpretation provisioner_resource: bounded_name provisionerResourceName "\<lambda>n. ''provisioner-'' @ n" 63
  by unfold_locales (auto simp: provisionerResourceName_def provisionerNamePrefix_def at_least_one_def Let_def)

interpretation provisioner_label: bounded_name provisionerInstanceLabelValue "\<lambda>n. n" 63
  by unfold_locales (auto simp: provisionerInstanceLabelValue_def at_least_one_def Let_def)

interpretation provisioner_account: bounded_name provisionerServiceAccountName "\<lambda>n. n @ ''-provisioner''" 63
  by unfold_locales (auto simp: provisionerServiceAccountName_def provisionerServiceAccountSuffix_def at_least_one_def Let_def)

interpretation key_name: bounded_name limitKeyName "\<lambda>n. n" 128
  by unfold_locales (auto simp: limitKeyName_def at_least_one_def Let_def)

interpretation key_secret: bounded_name keySecretNameFor "\<lambda>n. n @ ''-provisioner-key''" 253
  by unfold_locales (auto simp: keySecretNameFor_def secretNameSuffix_def at_least_one_def Let_def)

lemma tag_bytes_eq:
  assumes "map_of tags = map_of tags'"
  shows "tag_bytes tags = tag_bytes tags'"
  using assms by (simp add: tag_bytes_def fun_eq_iff)

text \<open>The hash of the tags depends on the map only, not on the order of its iteration.\<close>

lemma hashProvisionerTags_eq:
  assumes "map_of tags = map_of tags'" "distinct (map fst tags)" "distinct (map fst tags')"
  shows "hashProvisionerTags tags = hashProvisionerTags tags'"
proof -
  have "set (map fst tags) = set (map fst tags')"
    using assms(1) by (metis dom_map_of_conv_image_fst list.set_map)
  then have "sort (map fst tags) = sort (map fst tags')"
    using assms(2,3) by (simp add: sorted_distinct_set_unique)
  then show ?thesis by (simp add: hashProvisionerTags_def tag_bytes_eq [OF assms(1)])
qed

lemma hex8_not_Nil [simp]: "hex8 v \<noteq> []"
  by (simp add: hex8_def)

lemma hashProvisionerTags_not_Nil [simp]: "hashProvisionerTags tags \<noteq> []"
  by (simp add: hashProvisionerTags_def)

lemma limitKeyName_not_Nil [simp]: "limitKeyName n = [] \<longleftrightarrow> n = []"
  by (auto simp: limitKeyName_def Let_def)

end
