(* ===== verification/Bootstrap.thy ===== *)
theory Bootstrap
  imports Kube
begin

text \<open>
  The bootstrap client (internal/coderbootstrap: client.go, provisionerkeys.go): registration
  of workspace proxies and provisioner keys in a Coder deployment.
  A context is what the package stores in it, the rate-limit bypass mark (\<open>None\<close> is the
  nil context). The SDK is a record of calls of an authenticated client, given the context.
  The locale \<open>key_client\<close> is what the provisioner controller relies on; the SDK-backed
  client is an interpretation.
\<close>

section \<open>Definitions\<close>

subsection \<open>Rate-limit bypass\<close>

type_synonym bctx = "bool option"

definition withRateLimitBypass :: "bctx \<Rightarrow> bctx" where
  "withRateLimitBypass ctx = (case ctx of None \<Rightarrow> None | Some _ \<Rightarrow> Some True)"

definition shouldBypassRateLimit :: "bctx \<Rightarrow> bool" where
  "shouldBypassRateLimit ctx = (case ctx of None \<Rightarrow> False | Some enabled \<Rightarrow> enabled)"

definition isRateLimitBypassRejected :: "error \<Rightarrow> bool" where
  "isRateLimitBypassRejected err = (case as_coder_error err of None \<Rightarrow> False | Some (c, _) \<Rightarrow> c = 428)"

definition IsRateLimitError :: "error \<Rightarrow> bool" where
  "IsRateLimitError err = (case as_coder_error err of None \<Rightarrow> False | Some (c, _) \<Rightarrow> c = 429)"

definition withOptionalRateLimitBypass :: "bctx \<Rightarrow> (bctx \<Rightarrow> ('b, 'a) op) \<Rightarrow> ('b, 'a) op" where
  "withOptionalRateLimitBypass ctx operation =
     handle (operation (withRateLimitBypass ctx))
       (\<lambda>err. if \<not> isRateLimitBypassRejected err then fail err else operation ctx)
       ret"

text \<open>The round tripper: the header of the requests it passes on.\<close>

record http_request =
  rq_Context :: bctx
  rq_Header :: string_map

definition BypassRatelimitHeader :: string where "BypassRatelimitHeader = ''X-Coder-Bypass-Ratelimit''"

definition bypass_RoundTrip :: "(http_request \<Rightarrow> ('b, 'r) op) \<Rightarrow> http_request option \<Rightarrow> ('b, 'r) op" where
  "bypass_RoundTrip base req =
     (case req of None \<Rightarrow> fail (assertion ''request must not be nil'') | Some req \<Rightarrow>
      if \<not> shouldBypassRateLimit (rq_Context req) then base req
      else base (req\<lparr>rq_Header := map_put BypassRatelimitHeader ''true'' (rq_Header req)\<rparr>))"

subsection \<open>Requests and responses\<close>

record RegisterWorkspaceProxyRequest =
  rwp_CoderURL :: string
  rwp_SessionToken :: string
  rwp_ProxyName :: string
  rwp_DisplayName :: string
  rwp_Icon :: string

record RegisterWorkspaceProxyResponse =
  rwr_ProxyName :: string
  rwr_ProxyToken :: string

record EnsureProvisionerKeyRequest =
  epk_CoderURL :: string
  epk_SessionToken :: string
  epk_OrganizationName :: string
  epk_KeyName :: string
  epk_Tags :: string_map

record EnsureProvisionerKeyResponse =
  epr_OrganizationID :: uuid
  epr_KeyID :: uuid
  epr_KeyName :: string
  epr_Key :: string

text \<open>The SDK values the client reads: features by name, a proxy, a provisioner key.\<close>

type_synonym entitlements = "(string \<times> string) list option"

record WorkspaceProxyInfo =
  wpi_ID :: uuid
  wpi_Name :: string
  wpi_DisplayName :: string
  wpi_IconURL :: string

record ProvisionerKeyInfo =
  pk_ID :: uuid
  pk_Name :: string

record boot_client =
  bcl_URL :: string
  bcl_Token :: string
  bcl_Timeout :: duration

record 'b boot_sdk =
  bs_WorkspaceProxyByName :: "bctx \<Rightarrow> string \<Rightarrow> ('b, WorkspaceProxyInfo) call"
  bs_CreateWorkspaceProxy :: "bctx \<Rightarrow> string \<Rightarrow> string \<Rightarrow> string \<Rightarrow> ('b, string \<times> string) call"
  bs_PatchWorkspaceProxy :: "bctx \<Rightarrow> WorkspaceProxyInfo \<Rightarrow> bool \<Rightarrow> ('b, string \<times> string) call"
  bs_OrganizationByName :: "bctx \<Rightarrow> string \<Rightarrow> ('b, uuid) call"
  bs_ListProvisionerKeys :: "bctx \<Rightarrow> uuid \<Rightarrow> ('b, ProvisionerKeyInfo list) call"
  bs_CreateProvisionerKey :: "bctx \<Rightarrow> uuid \<Rightarrow> string \<Rightarrow> string_map \<Rightarrow> ('b, string) call"
  bs_DeleteProvisionerKey :: "bctx \<Rightarrow> uuid \<Rightarrow> string \<Rightarrow> ('b, unit) call"
  bs_Entitlements :: "bctx \<Rightarrow> ('b, entitlements) call"

text \<open>\<open>url.Parse\<close> and the calls of a client, as the package uses them.\<close>

record 'b boot_env =
  be_url_Parse :: "string \<Rightarrow> error + string"
  be_sdk :: "boot_client \<Rightarrow> 'b boot_sdk"

subsection \<open>Helpers\<close>

definition coderSDKRequestTimeout :: duration where "coderSDKRequestTimeout = 30 * time_Second"

definition newAuthenticatedClient :: "(string \<Rightarrow> error + string) \<Rightarrow> string \<Rightarrow> string \<Rightarrow> boot_client result" where
  "newAuthenticatedClient url_Parse coderURL sessionToken =
     (case url_Parse coderURL of
        Inl err \<Rightarrow> Err (WrapError ''parse coder URL: %w'' [] err)
      | Inr coderAPIURL \<Rightarrow>
        Ok \<lparr>bcl_URL = coderAPIURL, bcl_Token = sessionToken, bcl_Timeout = coderSDKRequestTimeout\<rparr>)"

definition validateProvisionerKeyInputs :: "string \<Rightarrow> string \<Rightarrow> string \<Rightarrow> unit result" where
  "validateProvisionerKeyInputs coderURL sessionToken keyName =
     (if coderURL = [] then Err (errorf ''coder URL is required'')
      else if sessionToken = [] then Err (errorf ''session token is required'')
      else if keyName = [] then Err (errorf ''provisioner key name is required'')
      else Ok ())"

definition resolveOrganizationByName :: "'b boot_sdk \<Rightarrow> bctx \<Rightarrow> string \<Rightarrow> ('b, uuid) op" where
  "resolveOrganizationByName client ctx organizationName =
     bind (map_err (WrapError ''query organization %q: %w'' [ArgS organizationName])
             (call (bs_OrganizationByName client ctx organizationName))) (\<lambda>orgID.
     guard (orgID \<noteq> uuid_Nil)
       (ErrorString (Fmt ''assertion failed: organization %q returned an empty ID'' [ArgS organizationName]))
       (ret orgID))"

fun match_key :: "uuid \<Rightarrow> string \<Rightarrow> ProvisionerKeyInfo list \<Rightarrow> ProvisionerKeyInfo option
    \<Rightarrow> ProvisionerKeyInfo option result" where
  "match_key orgID keyName [] found = Ok found"
| "match_key orgID keyName (k # keys) found =
     (if pk_Name k \<noteq> keyName then match_key orgID keyName keys found
      else if found \<noteq> None then Err (ErrorString
        (Fmt ''assertion failed: found multiple provisioner keys named %q in organization %q''
           [ArgS keyName, ArgS (uuid_String orgID)]))
      else match_key orgID keyName keys (Some k))"

definition findOrganizationProvisionerKey ::
    "'b boot_sdk \<Rightarrow> bctx \<Rightarrow> uuid \<Rightarrow> string \<Rightarrow> ('b, ProvisionerKeyInfo option) op" where
  "findOrganizationProvisionerKey client ctx orgID keyName =
     bind (map_err (WrapError ''list provisioner keys for organization %q: %w'' [ArgS (uuid_String orgID)])
             (call (bs_ListProvisionerKeys client ctx orgID))) (\<lambda>keys.
     lift (match_key orgID keyName keys None))"

definition DefaultOrganization :: string where "DefaultOrganization = ''default''"

definition org_or_default :: "string \<Rightarrow> string" where
  "org_or_default name = (if name = [] then DefaultOrganization else name)"

subsection \<open>Operations\<close>

definition SDK_EnsureWorkspaceProxy ::
    "'b boot_env \<Rightarrow> bctx \<Rightarrow> RegisterWorkspaceProxyRequest \<Rightarrow> ('b, RegisterWorkspaceProxyResponse) op" where
  "SDK_EnsureWorkspaceProxy env ctx req =
     guard (rwp_CoderURL req \<noteq> []) (errorf ''coder URL is required'') (
     guard (rwp_SessionToken req \<noteq> []) (errorf ''session token is required'') (
     guard (rwp_ProxyName req \<noteq> []) (errorf ''proxy name is required'') (
     bind (lift (newAuthenticatedClient (be_url_Parse env) (rwp_CoderURL req) (rwp_SessionToken req))) (\<lambda>cl.
     let client = be_sdk env cl in
     handle (call (bs_WorkspaceProxyByName client ctx (rwp_ProxyName req)))
       (\<lambda>err. if (case as_coder_error err of None \<Rightarrow> True | Some (c, _) \<Rightarrow> c \<noteq> 404)
          then fail (WrapError ''query workspace proxy %q: %w'' [ArgS (rwp_ProxyName req)] err)
          else
            bind (map_err (WrapError ''create workspace proxy %q: %w'' [ArgS (rwp_ProxyName req)])
                    (withOptionalRateLimitBypass ctx (\<lambda>requestCtx.
                       call (bs_CreateWorkspaceProxy client requestCtx (rwp_ProxyName req) (rwp_DisplayName req) (rwp_Icon req))))) (\<lambda>created.
            ret \<lparr>rwr_ProxyName = fst created, rwr_ProxyToken = snd created\<rparr>))
       (\<lambda>existing.
          let displayName = (if rwp_DisplayName req = [] then wpi_DisplayName existing else rwp_DisplayName req);
              icon = (if rwp_Icon req = [] then wpi_IconURL existing else rwp_Icon req) in
          bind (map_err (WrapError ''update workspace proxy %q: %w'' [ArgS (rwp_ProxyName req)])
                  (withOptionalRateLimitBypass ctx (\<lambda>requestCtx.
                     call (bs_PatchWorkspaceProxy client requestCtx
                       \<lparr>wpi_ID = wpi_ID existing, wpi_Name = wpi_Name existing, wpi_DisplayName = displayName, wpi_IconURL = icon\<rparr>
                       True)))) (\<lambda>updated.
          ret \<lparr>rwr_ProxyName = fst updated, rwr_ProxyToken = snd updated\<rparr>))))))"

definition createProvisionerKey ::
    "'b boot_sdk \<Rightarrow> bctx \<Rightarrow> uuid \<Rightarrow> EnsureProvisionerKeyRequest \<Rightarrow> ('b, EnsureProvisionerKeyResponse) op" where
  "createProvisionerKey client ctx orgID req =
     bind (map_err (WrapError ''create provisioner key %q: %w'' [ArgS (epk_KeyName req)])
             (withOptionalRateLimitBypass ctx (\<lambda>requestCtx.
                call (bs_CreateProvisionerKey client requestCtx orgID (epk_KeyName req) (epk_Tags req))))) (\<lambda>createdKey.
     guard (createdKey \<noteq> [])
       (ErrorString (Fmt ''assertion failed: created provisioner key %q returned an empty key'' [ArgS (epk_KeyName req)])) (
     bind (map_err (WrapError ''query created provisioner key %q: %w'' [ArgS (epk_KeyName req)])
             (withOptionalRateLimitBypass ctx (\<lambda>requestCtx.
                findOrganizationProvisionerKey client requestCtx orgID (epk_KeyName req)))) (\<lambda>createdMetadata.
     non_nil createdMetadata
       (ErrorString (Fmt ''assertion failed: created provisioner key %q was not returned by list'' [ArgS (epk_KeyName req)])) (\<lambda>md.
     guard (pk_ID md \<noteq> uuid_Nil)
       (ErrorString (Fmt ''assertion failed: created provisioner key %q returned an empty ID'' [ArgS (epk_KeyName req)]))
       (ret \<lparr>epr_OrganizationID = orgID, epr_KeyID = pk_ID md, epr_KeyName = pk_Name md, epr_Key = createdKey\<rparr>)))))"

definition SDK_EnsureProvisionerKey ::
    "'b boot_env \<Rightarrow> bctx \<Rightarrow> EnsureProvisionerKeyRequest \<Rightarrow> ('b, EnsureProvisionerKeyResponse) op" where
  "SDK_EnsureProvisionerKey env ctx req =
     bind (lift (validateProvisionerKeyInputs (epk_CoderURL req) (epk_SessionToken req) (epk_KeyName req))) (\<lambda>_.
     bind (lift (newAuthenticatedClient (be_url_Parse env) (epk_CoderURL req) (epk_SessionToken req))) (\<lambda>cl.
     let client = be_sdk env cl in
     bind (resolveOrganizationByName client ctx (org_or_default (epk_OrganizationName req))) (\<lambda>orgID.
     bind (findOrganizationProvisionerKey client ctx orgID (epk_KeyName req)) (\<lambda>existing.
     case existing of
       Some k \<Rightarrow>
         guard (pk_ID k \<noteq> uuid_Nil)
           (ErrorString (Fmt ''assertion failed: provisioner key %q returned an empty ID'' [ArgS (epk_KeyName req)]))
           (ret \<lparr>epr_OrganizationID = orgID, epr_KeyID = pk_ID k, epr_KeyName = pk_Name k, epr_Key = []\<rparr>)
     | None \<Rightarrow> createProvisionerKey client ctx orgID req))))"

definition SDK_DeleteProvisionerKey ::
    "'b boot_env \<Rightarrow> bctx \<Rightarrow> string \<Rightarrow> string \<Rightarrow> string \<Rightarrow> string \<Rightarrow> ('b, unit) op" where
  "SDK_DeleteProvisionerKey env ctx coderURL sessionToken orgName keyName =
     bind (lift (validateProvisionerKeyInputs coderURL sessionToken keyName)) (\<lambda>_.
     bind (lift (newAuthenticatedClient (be_url_Parse env) coderURL sessionToken)) (\<lambda>cl.
     let client = be_sdk env cl in
     bind (resolveOrganizationByName client ctx (org_or_default orgName)) (\<lambda>orgID.
     handle (withOptionalRateLimitBypass ctx (\<lambda>requestCtx. call (bs_DeleteProvisionerKey client requestCtx orgID keyName)))
       (\<lambda>err. if (case as_coder_error err of None \<Rightarrow> False | Some (c, _) \<Rightarrow> c = 404) then ret ()
              else fail (WrapError ''delete provisioner key %q: %w'' [ArgS keyName] err))
       ret)))"

definition SDK_Entitlements :: "'b boot_env \<Rightarrow> bctx \<Rightarrow> string \<Rightarrow> string \<Rightarrow> ('b, entitlements) op" where
  "SDK_Entitlements env ctx coderURL sessionToken =
     guard (coderURL \<noteq> []) (errorf ''coder URL is required'') (
     guard (sessionToken \<noteq> []) (errorf ''session token is required'') (
     bind (lift (newAuthenticatedClient (be_url_Parse env) coderURL sessionToken)) (\<lambda>cl.
     bind (map_err (WrapError ''get entitlements: %w'' [])
             (withOptionalRateLimitBypass ctx (\<lambda>requestCtx. call (bs_Entitlements (be_sdk env cl) requestCtx)))) (\<lambda>entitlements.
     guard (entitlements \<noteq> None) (assertion ''entitlements.features is nil'') (ret entitlements)))))"

text \<open>The interface the controllers use, and the SDK-backed client in it.\<close>

record 'b BootstrapClient =
  bc_EnsureWorkspaceProxy :: "RegisterWorkspaceProxyRequest \<Rightarrow> ('b, RegisterWorkspaceProxyResponse) op"
  bc_EnsureProvisionerKey :: "EnsureProvisionerKeyRequest \<Rightarrow> ('b, EnsureProvisionerKeyResponse) op"
  bc_DeleteProvisionerKey :: "string \<Rightarrow> string \<Rightarrow> string \<Rightarrow> string \<Rightarrow> ('b, unit) op"
  bc_Entitlements :: "string \<Rightarrow> string \<Rightarrow> ('b, entitlements) op"

definition NewBootstrapSDKClient :: "'b boot_env \<Rightarrow> bctx \<Rightarrow> 'b BootstrapClient" where
  "NewBootstrapSDKClient env ctx =
     \<lparr>bc_EnsureWorkspaceProxy = SDK_EnsureWorkspaceProxy env ctx,
      bc_EnsureProvisionerKey = SDK_EnsureProvisionerKey env ctx,
      bc_DeleteProvisionerKey = SDK_DeleteProvisionerKey env ctx,
      bc_Entitlements = SDK_Entitlements env ctx\<rparr>"

section \<open>The contract of a client for provisioner keys\<close>

locale key_client =
  fixes ensure :: "EnsureProvisionerKeyRequest \<Rightarrow> ('b, EnsureProvisionerKeyResponse) op"
    and remove :: "string \<Rightarrow> string \<Rightarrow> string \<Rightarrow> string \<Rightarrow> ('b, unit) op"
  assumes ensure_named: "ensure req w = (Ok r, w') \<Longrightarrow> epr_KeyName r = epk_KeyName req"
    and ensure_ids: "ensure req w = (Ok r, w') \<Longrightarrow> epr_OrganizationID r \<noteq> uuid_Nil \<and> epr_KeyID r \<noteq> uuid_Nil"
    and ensure_safe: "safe (\<lambda>_. True) (ensure req)"
    and ensure_needs_name: "ensure req w = (Ok r, w') \<Longrightarrow> epk_KeyName req \<noteq> []"
    and remove_safe: "safe (\<lambda>_. True) (remove u t og k)"
begin

lemma ensure_name_not_empty: "ensure req w = (Ok r, w') \<Longrightarrow> epr_KeyName r \<noteq> []"
  using ensure_named ensure_needs_name by metis

lemma ensure_outcome: "(\<exists>r. fst (ensure req w) = Ok r) \<or> (\<exists>e. fst (ensure req w) = Err e)"
  using safe_run [OF ensure_safe [of req], of w] by (cases "fst (ensure req w)") auto

end

section \<open>Lemmas\<close>

lemma match_key_Ok:
  "match_key og n keys f = Ok r \<Longrightarrow> (\<And>k. f = Some k \<Longrightarrow> pk_Name k = n) \<Longrightarrow> r = Some k \<Longrightarrow> pk_Name k = n"
  by (induction og n keys f rule: match_key.induct) (auto split: if_splits)

lemma match_key_no_panic [simp]: "\<not> is_panic (match_key og n keys f)"
  by (induction og n keys f rule: match_key.induct) auto

lemma newAuthenticatedClient_no_panic [simp]: "\<not> is_panic (newAuthenticatedClient u c t)"
  by (simp add: newAuthenticatedClient_def split: sum.split)

lemma validateInputs_no_panic [simp]: "\<not> is_panic (validateProvisionerKeyInputs u t k)"
  by (simp add: validateProvisionerKeyInputs_def)

lemma validateInputs_Ok:
  "validateProvisionerKeyInputs u t k = Ok x \<longleftrightarrow> u \<noteq> [] \<and> t \<noteq> [] \<and> k \<noteq> []"
  by (simp add: validateProvisionerKeyInputs_def)

lemma withOptional_eq_Ok:
  "withOptionalRateLimitBypass ctx f w = (Ok a, w') \<longleftrightarrow>
     f (withRateLimitBypass ctx) w = (Ok a, w') \<or>
     (\<exists>e w1. f (withRateLimitBypass ctx) w = (Err e, w1) \<and> isRateLimitBypassRejected e \<and> f ctx w1 = (Ok a, w'))"
  by (auto simp: withOptionalRateLimitBypass_def handle_eq_Ok)

lemma safe_withOptional [safe_rules]:
  "(\<And>c. safe P (f c)) \<Longrightarrow> safe P (withOptionalRateLimitBypass ctx f)"
  unfolding withOptionalRateLimitBypass_def by (intro safe_rules)

lemma safe_resolve: "safe (\<lambda>_. True) (resolveOrganizationByName client ctx n)"
  unfolding resolveOrganizationByName_def by (intro safe_rules safe_call)

lemma safe_findKey: "safe (\<lambda>_. True) (findOrganizationProvisionerKey client ctx og n)"
  unfolding findOrganizationProvisionerKey_def by (intro safe_rules safe_call match_key_no_panic)

lemma findKey_named:
  "findOrganizationProvisionerKey client ctx og n w = (Ok (Some k), w') \<Longrightarrow> pk_Name k = n"
  by (auto simp: findOrganizationProvisionerKey_def ok_simps call_eq_Ok dest: match_key_Ok)

lemma resolve_Ok: "resolveOrganizationByName client ctx n w = (Ok og, w') \<Longrightarrow> og \<noteq> uuid_Nil"
  by (auto simp: resolveOrganizationByName_def ok_simps)

lemma createProvisionerKey_Ok:
  assumes "createProvisionerKey client ctx og req w = (Ok r, w')"
  shows "epr_KeyName r = epk_KeyName req \<and> epr_OrganizationID r = og \<and> epr_KeyID r \<noteq> uuid_Nil \<and> epr_Key r \<noteq> []"
  using assms unfolding createProvisionerKey_def
  by (auto simp: ok_simps non_nil_eq_Ok withOptional_eq_Ok dest: findKey_named)

lemma SDK_EnsureProvisionerKey_Ok:
  assumes "SDK_EnsureProvisionerKey env ctx req w = (Ok r, w')"
  shows "epr_KeyName r = epk_KeyName req \<and> epr_OrganizationID r \<noteq> uuid_Nil \<and> epr_KeyID r \<noteq> uuid_Nil \<and> epk_KeyName req \<noteq> []"
proof -
  from assms obtain cl og ex w1 w2 where
    v: "epk_KeyName req \<noteq> []" and og: "og \<noteq> uuid_Nil"
    and ex: "findOrganizationProvisionerKey (be_sdk env cl) ctx og (epk_KeyName req) w1 = (Ok ex, w2)"
    and res: "(case ex of Some k \<Rightarrow> guard (pk_ID k \<noteq> uuid_Nil)
           (ErrorString (Fmt ''assertion failed: provisioner key %q returned an empty ID'' [ArgS (epk_KeyName req)]))
           (ret \<lparr>epr_OrganizationID = og, epr_KeyID = pk_ID k, epr_KeyName = pk_Name k, epr_Key = []\<rparr>)
     | None \<Rightarrow> createProvisionerKey (be_sdk env cl) ctx og req) w2 = (Ok r, w')"
    unfolding SDK_EnsureProvisionerKey_def Let_def
    by (auto simp: ok_simps validateInputs_Ok dest!: resolve_Ok)
  show ?thesis
  proof (cases ex)
    case None
    with res createProvisionerKey_Ok v og show ?thesis by fastforce
  next
    case (Some k)
    with res ex findKey_named v og show ?thesis by (auto simp: ok_simps)
  qed
qed

lemma SDK_EnsureProvisionerKey_safe: "safe (\<lambda>_. True) (SDK_EnsureProvisionerKey env ctx req)"
  unfolding SDK_EnsureProvisionerKey_def createProvisionerKey_def Let_def
  by (intro safe_rules safe_call safe_resolve safe_findKey validateInputs_no_panic newAuthenticatedClient_no_panic)

lemma SDK_DeleteProvisionerKey_safe: "safe (\<lambda>_. True) (SDK_DeleteProvisionerKey env ctx u t og k)"
  unfolding SDK_DeleteProvisionerKey_def Let_def
  by (intro safe_rules safe_call safe_resolve validateInputs_no_panic newAuthenticatedClient_no_panic)

lemma SDK_EnsureWorkspaceProxy_safe: "safe (\<lambda>_. True) (SDK_EnsureWorkspaceProxy env ctx req)"
  unfolding SDK_EnsureWorkspaceProxy_def Let_def
  by (intro safe_rules safe_call newAuthenticatedClient_no_panic)

lemma SDK_Entitlements_safe: "safe (\<lambda>_. True) (SDK_Entitlements env ctx u t)"
  unfolding SDK_Entitlements_def
  by (intro safe_rules safe_call newAuthenticatedClient_no_panic)

interpretation sdk_keys: key_client "SDK_EnsureProvisionerKey env ctx" "SDK_DeleteProvisionerKey env ctx" for env ctx
  by unfold_locales
     (auto dest: SDK_EnsureProvisionerKey_Ok intro: SDK_EnsureProvisionerKey_safe SDK_DeleteProvisionerKey_safe)

end
