(* ===== verification/Workspace_Proxy.thy ===== *)
theory Workspace_Proxy
  imports Resource_Names Bootstrap
begin

text \<open>
  The workspace proxy controller (internal/controller/coderworkspaceproxy_controller.go and
  api/v1alpha1/coderworkspaceproxy_types.go): one reconciliation, from the stored
  CoderWorkspaceProxy to its credentials, deployment, service and status.
  \<open>proxy_deployment\<close>, \<open>proxy_service\<close> and \<open>proxy_token_secret\<close> are the mutate functions
  the code passes to \<open>CreateOrUpdate\<close>; each is interpreted as an \<open>owned_object\<close>.
\<close>

section \<open>Definitions\<close>

subsection \<open>Types\<close>

record ServiceSpec =
  ss_Type :: string
  ss_Port :: int
  ss_Annotations :: string_map

record ProxyBootstrapSpec =
  pb_CoderURL :: string
  pb_CredentialsSecretRef :: SecretKeySelector
  pb_ProxyName :: string
  pb_DisplayName :: string
  pb_Icon :: string
  pb_GeneratedTokenSecretName :: string

record WorkspaceProxySpec =
  wps_Image :: string
  wps_Replicas :: "int option"
  wps_Service :: ServiceSpec
  wps_PrimaryAccessURL :: string
  wps_ProxySessionTokenSecretRef :: "SecretKeySelector option"
  wps_Bootstrap :: "ProxyBootstrapSpec option"
  wps_DerpOnly :: bool
  wps_ExtraArgs :: "string list"
  wps_ExtraEnv :: "EnvVar list"
  wps_ImagePullSecrets :: "string list"

record WorkspaceProxyStatus =
  wpt_ObservedGeneration :: int
  wpt_ReadyReplicas :: int
  wpt_Registered :: bool
  wpt_ProxyTokenSecretRef :: "SecretKeySelector option"
  wpt_Phase :: string
  wpt_Conditions :: "Condition list"

record CoderWorkspaceProxy =
  wp_meta :: KMeta
  wp_Spec :: WorkspaceProxySpec
  wp_Status :: WorkspaceProxyStatus

record 'b proxy_client = "'b core_client" +
  pc_Proxies :: "('b, CoderWorkspaceProxy) kind_api"

record 'b CoderWorkspaceProxyReconciler =
  wr_Client :: "'b proxy_client option"
  wr_Scheme :: "unit option"
  wr_BootstrapClient :: "'b BootstrapClient option"

definition defaultWorkspaceProxyPort :: int where "defaultWorkspaceProxyPort = 80"
definition workspaceProxyTargetPort :: int where "workspaceProxyTargetPort = 3001"
definition WorkspaceProxyPhasePending :: string where "WorkspaceProxyPhasePending = ''Pending''"
definition WorkspaceProxyPhaseReady :: string where "WorkspaceProxyPhaseReady = ''Ready''"

subsection \<open>Credentials\<close>

definition proxy_token_secret ::
    "CoderWorkspaceProxy \<Rightarrow> string \<Rightarrow> string \<Rightarrow> Secret \<Rightarrow> Secret result" where
  "proxy_token_secret wp key token secret =
     (let s = secret\<lparr>sec_meta := (sec_meta secret)\<lparr>m_Labels := workspaceProxyLabels (m_Name (wp_meta wp))\<rparr>,
                sec_Type := ''Opaque'', sec_Data := map_put key token (sec_Data secret)\<rparr> in
      rbind (set_controller ''CoderWorkspaceProxy'' (wp_meta wp) (sec_meta s)) (\<lambda>meta. Ok (s\<lparr>sec_meta := meta\<rparr>)))"

definition ensureTokenSecret ::
    "'b proxy_client \<Rightarrow> CoderWorkspaceProxy \<Rightarrow> string \<Rightarrow> string \<Rightarrow> string \<Rightarrow> ('b, unit) op" where
  "ensureTokenSecret c wp name key token =
     bind (map_err (WrapError ''reconcile proxy token secret %q: %w'' [ArgS name])
             (CreateOrUpdate sec_meta (cc_Secrets c) (new_Secret name (m_Namespace (wp_meta wp)))
                (proxy_token_secret wp key token))) (\<lambda>_. ret ())"

definition or_default :: "string \<Rightarrow> string \<Rightarrow> string" where
  "or_default d s = (if s = [] then d else s)"

text \<open>The registration at the Coder deployment, when there is no usable token yet.\<close>

definition registerProxy ::
    "'b proxy_client \<Rightarrow> 'b BootstrapClient \<Rightarrow> CoderWorkspaceProxy \<Rightarrow> ProxyBootstrapSpec \<Rightarrow> string \<Rightarrow> ('b, unit) op" where
  "registerProxy c bc wp bootstrap tokenSecretName =
     (let secretKey = or_default DefaultTokenSecretKey (sks_Key (pb_CredentialsSecretRef bootstrap)) in
      bind (map_err (WrapError ''read bootstrap credentials: %w'' [])
              (readSecretValue (cc_Secrets c) (m_Namespace (wp_meta wp)) (sks_Name (pb_CredentialsSecretRef bootstrap)) secretKey)) (\<lambda>credentials.
      let proxyName = or_default (m_Name (wp_meta wp)) (pb_ProxyName bootstrap) in
      bind (map_err (WrapError ''bootstrap workspace proxy registration: %w'' [])
              (bc_EnsureWorkspaceProxy bc \<lparr>rwp_CoderURL = pb_CoderURL bootstrap, rwp_SessionToken = credentials,
                 rwp_ProxyName = proxyName, rwp_DisplayName = pb_DisplayName bootstrap, rwp_Icon = pb_Icon bootstrap\<rparr>)) (\<lambda>response.
      ensureTokenSecret c wp tokenSecretName DefaultTokenSecretKey (rwr_ProxyToken response))))"

definition resolveProxyCredentials ::
    "'b proxy_client \<Rightarrow> 'b BootstrapClient option \<Rightarrow> CoderWorkspaceProxy
       \<Rightarrow> ('b, string \<times> SecretKeySelector option \<times> bool) op" where
  "resolveProxyCredentials c bootstrapClient wp =
     (case wps_Bootstrap (wp_Spec wp) of
        None \<Rightarrow>
          ret (wps_PrimaryAccessURL (wp_Spec wp),
               map_option (\<lambda>ref. if sks_Key ref = [] then ref\<lparr>sks_Key := DefaultTokenSecretKey\<rparr> else ref)
                 (wps_ProxySessionTokenSecretRef (wp_Spec wp)), False)
      | Some bootstrap \<Rightarrow>
        non_nil bootstrapClient (errorf ''workspace proxy bootstrap is configured but bootstrap client is not available'') (\<lambda>bc.
        let tokenSecretName = or_default (m_Name (wp_meta wp) @ ''-proxy-token'') (pb_GeneratedTokenSecretName bootstrap);
            result = (or_default (pb_CoderURL bootstrap) (wps_PrimaryAccessURL (wp_Spec wp)),
                      Some \<lparr>sks_Name = tokenSecretName, sks_Key = DefaultTokenSecretKey\<rparr>, True) in
        handle (readSecretValue (cc_Secrets c) (m_Namespace (wp_meta wp)) tokenSecretName DefaultTokenSecretKey)
          (\<lambda>_. bind (registerProxy c bc wp bootstrap tokenSecretName) (\<lambda>_. ret result))
          (\<lambda>existingToken.
             if existingToken \<noteq> [] then ret result
             else bind (registerProxy c bc wp bootstrap tokenSecretName) (\<lambda>_. ret result))))"

subsection \<open>Deployment and service\<close>

definition proxy_container :: "WorkspaceProxySpec \<Rightarrow> string \<Rightarrow> SecretKeySelector \<Rightarrow> Container" where
  "proxy_container spec primaryAccessURL tokenRef =
     \<lparr>con_Name = ''workspace-proxy'',
      con_Image = or_default defaultCoderImage (wps_Image spec),
      con_Command = [],
      con_Args = [''wsproxy'', ''server'', ''--http-address=0.0.0.0:3001'']
        @ (if wps_DerpOnly spec then [''--derp-only''] else []) @ wps_ExtraArgs spec,
      con_Env = [\<lparr>env_Name = ''CODER_PRIMARY_ACCESS_URL'', env_Value = primaryAccessURL, env_ValueFrom = None\<rparr>,
        \<lparr>env_Name = ''CODER_PROXY_SESSION_TOKEN'', env_Value = [],
         env_ValueFrom = Some (SecretKeyRef (sks_Name tokenRef) (sks_Key tokenRef))\<rparr>] @ wps_ExtraEnv spec,
      con_Ports = [\<lparr>port_Name = ''http'', port_ContainerPort = workspaceProxyTargetPort, port_Protocol = ''TCP''\<rparr>],
      con_Resources = [], con_EnvFrom = [], con_VolumeMounts = [],
      con_SecurityContext = None, con_ReadinessProbe = None, con_LivenessProbe = None, con_Other = []\<rparr>"

definition proxy_deployment ::
    "CoderWorkspaceProxy \<Rightarrow> string \<Rightarrow> SecretKeySelector \<Rightarrow> Deployment \<Rightarrow> Deployment result" where
  "proxy_deployment wp primaryAccessURL tokenRef d =
     (let labels = workspaceProxyLabels (m_Name (wp_meta wp)); spec = wp_Spec wp in
      rbind (set_controller ''CoderWorkspaceProxy'' (wp_meta wp) ((dep_meta d)\<lparr>m_Labels := labels\<rparr>)) (\<lambda>meta.
      Ok (d\<lparr>dep_meta := meta,
            dep_Replicas := Some (case wps_Replicas spec of None \<Rightarrow> 1 | Some n \<Rightarrow> n),
            dep_Selector := labels,
            dep_Template := \<lparr>pod_Labels = labels, pod_Annotations = [], pod_ServiceAccountName = [],
              pod_ImagePullSecrets = wps_ImagePullSecrets spec, pod_TerminationGracePeriodSeconds = None,
              pod_Containers = [proxy_container spec primaryAccessURL tokenRef], pod_Volumes = [], pod_NodeSelector = [], pod_Tolerations = [],
              pod_TopologySpread = [], pod_SecurityContext = None, pod_Affinity = None, pod_Other = []\<rparr>\<rparr>)))"

definition proxy_reconcileDeployment ::
    "'b proxy_client \<Rightarrow> CoderWorkspaceProxy \<Rightarrow> string \<Rightarrow> SecretKeySelector \<Rightarrow> ('b, Deployment) op" where
  "proxy_reconcileDeployment c wp primaryAccessURL tokenRef =
     map_err (WrapError ''reconcile workspace proxy deployment: %w'' [])
       (CreateOrUpdate dep_meta (cc_Deployments c)
          (new_Deployment (workspaceProxyResourceName (m_Name (wp_meta wp))) (m_Namespace (wp_meta wp)))
          (proxy_deployment wp primaryAccessURL tokenRef))"

definition proxy_service :: "CoderWorkspaceProxy \<Rightarrow> Service \<Rightarrow> Service result" where
  "proxy_service wp s =
     (let labels = workspaceProxyLabels (m_Name (wp_meta wp)); svc = wps_Service (wp_Spec wp) in
      rbind (set_controller ''CoderWorkspaceProxy'' (wp_meta wp)
               ((svc_meta s)\<lparr>m_Labels := labels, m_Annotations := ss_Annotations svc\<rparr>)) (\<lambda>meta.
      Ok (s\<lparr>svc_meta := meta,
            svc_Type := or_default ''ClusterIP'' (ss_Type svc),
            svc_Selector := labels,
            svc_Ports := [\<lparr>sp_Name = ''http'',
              sp_Port = (if ss_Port svc = 0 then defaultWorkspaceProxyPort else ss_Port svc),
              sp_Protocol = ''TCP'', sp_TargetPort = workspaceProxyTargetPort, sp_Other = []\<rparr>]\<rparr>)))"

definition proxy_reconcileService :: "'b proxy_client \<Rightarrow> CoderWorkspaceProxy \<Rightarrow> ('b, Service) op" where
  "proxy_reconcileService c wp =
     map_err (WrapError ''reconcile workspace proxy service: %w'' [])
       (CreateOrUpdate svc_meta (cc_Services c)
          (new_Service (workspaceProxyResourceName (m_Name (wp_meta wp))) (m_Namespace (wp_meta wp)))
          (proxy_service wp))"

subsection \<open>Status and reconciliation\<close>

definition proxy_nextStatus ::
    "CoderWorkspaceProxy \<Rightarrow> Deployment \<Rightarrow> SecretKeySelector \<Rightarrow> bool \<Rightarrow> WorkspaceProxyStatus" where
  "proxy_nextStatus wp d tokenRef registered =
     \<lparr>wpt_ObservedGeneration = m_Generation (wp_meta wp), wpt_ReadyReplicas = dep_ReadyReplicas d,
      wpt_Registered = registered,
      wpt_ProxyTokenSecretRef = Some \<lparr>sks_Name = sks_Name tokenRef, sks_Key = sks_Key tokenRef\<rparr>,
      wpt_Phase = (if dep_ReadyReplicas d > 0 then WorkspaceProxyPhaseReady else WorkspaceProxyPhasePending),
      wpt_Conditions = []\<rparr>"

definition proxy_reconcileStatus ::
    "'b proxy_client \<Rightarrow> CoderWorkspaceProxy \<Rightarrow> Deployment \<Rightarrow> SecretKeySelector \<Rightarrow> bool \<Rightarrow> ('b, unit) op" where
  "proxy_reconcileStatus c wp d tokenRef registered =
     (let nextStatus = proxy_nextStatus wp d tokenRef registered in
      if wp_Status wp = nextStatus then ret ()
      else bind (map_err (WrapError ''update workspace proxy status: %w'' [])
                   (call (k_StatusUpdate (pc_Proxies c) (wp\<lparr>wp_Status := nextStatus\<rparr>)))) (\<lambda>_. ret ()))"

definition WorkspaceProxy_Reconcile ::
    "'b CoderWorkspaceProxyReconciler \<Rightarrow> string \<Rightarrow> string \<Rightarrow> ('b, unit) op" where
  "WorkspaceProxy_Reconcile r reqNamespace reqName =
     non_nil (wr_Client r) (assertion ''reconciler client must not be nil'') (\<lambda>c.
     non_nil (wr_Scheme r) (assertion ''reconciler scheme must not be nil'') (\<lambda>_.
     handle (call (k_Get (pc_Proxies c) reqNamespace reqName))
       (\<lambda>err. if IsNotFound err then ret ()
              else fail (WrapError ''get coderworkspaceproxy %s: %w'' [ArgS (namespacedName reqNamespace reqName)] err))
       (\<lambda>wp.
     guard (m_Name (wp_meta wp) = reqName \<and> m_Namespace (wp_meta wp) = reqNamespace)
       (ErrorString (Fmt ''assertion failed: fetched object %s/%s does not match request %s/%s''
          [ArgS (m_Namespace (wp_meta wp)), ArgS (m_Name (wp_meta wp)), ArgS reqNamespace, ArgS reqName])) (
     bind (resolveProxyCredentials c (wr_BootstrapClient r) wp) (\<lambda>(primaryAccessURL, tokenRef, registered).
     guard (primaryAccessURL \<noteq> [])
       (errorf ''workspace proxy primaryAccessURL must be provided directly or via bootstrap.coderURL'') (
     non_nil tokenRef
       (errorf ''workspace proxy session token reference must be provided directly or via bootstrap'') (\<lambda>tokenRef.
     bind (proxy_reconcileDeployment c wp primaryAccessURL tokenRef) (\<lambda>deployment.
     bind (proxy_reconcileService c wp) (\<lambda>_.
     proxy_reconcileStatus c wp deployment tokenRef registered)))))))))"

section \<open>Lemmas\<close>

interpretation proxy_dep: owned_object dep_meta "proxy_deployment wp url ref" "''CoderWorkspaceProxy''" "wp_meta wp" for wp url ref
  by unfold_locales (auto simp: proxy_deployment_def managed_simps intro: set_controller_foreign dest: managed_dests)

interpretation proxy_svc: owned_object svc_meta "proxy_service wp" "''CoderWorkspaceProxy''" "wp_meta wp" for wp
  by unfold_locales (auto simp: proxy_service_def managed_simps intro: set_controller_foreign dest: managed_dests)

interpretation proxy_sec: owned_object sec_meta "proxy_token_secret wp key token" "''CoderWorkspaceProxy''" "wp_meta wp" for wp key token
  by unfold_locales (auto simp: proxy_token_secret_def managed_simps intro: set_controller_foreign dest: managed_dests)

end
