(* ===== verification/Provisioner.thy ===== *)
theory Provisioner
  imports Resource_Names Bootstrap Provider
begin

text \<open>
  The provisioner controller (internal/controller/coderprovisioner_controller.go and
  api/v1alpha1/coderprovisioner_types.go). A reconciliation threads a \<open>prov_state\<close>: the
  world, the process-wide map of rate-limit attempts, and the provisioner object the Go
  code mutates in place. The steps of \<open>Reconcile\<close> are definitions in the order of the code;
  the deferred function is \<open>rate_limit_defer\<close>. Time and jitter are given by the environment.
\<close>

section \<open>Definitions\<close>

subsection \<open>Types\<close>

record CoderProvisionerKeySpec =
  cpk_Name :: string
  cpk_SecretName :: string
  cpk_SecretKey :: string

record CoderProvisionerSpec =
  cps_ControlPlaneRef :: string
  cps_OrganizationName :: string
  cps_Key :: CoderProvisionerKeySpec
  cps_Replicas :: "int option"
  cps_Tags :: string_map
  cps_Image :: string
  cps_ExtraArgs :: "string list"
  cps_ExtraEnv :: "EnvVar list"
  cps_Resources :: string
  cps_ImagePullSecrets :: "string list"
  cps_TerminationGracePeriodSeconds :: "int option"

record CoderProvisionerStatus =
  cpt_ObservedGeneration :: int
  cpt_ReadyReplicas :: int
  cpt_Phase :: string
  cpt_Conditions :: "Condition list"
  cpt_OrganizationID :: string
  cpt_OrganizationName :: string
  cpt_ProvisionerKeyID :: string
  cpt_ProvisionerKeyName :: string
  cpt_TagsHash :: string
  cpt_ControlPlaneRefName :: string
  cpt_ControlPlaneURL :: string
  cpt_SecretRef :: "SecretKeySelector option"

record CoderProvisioner =
  cpr_meta :: KMeta
  cpr_Spec :: CoderProvisionerSpec
  cpr_Status :: CoderProvisionerStatus

text \<open>What the controller reads of a control plane besides what the provider reads.\<close>

record ControlPlane = CoderControlPlane +
  cp_Image :: string
  cp_EntitlementsLastChecked :: "gotime option"
  cp_ExternalProvisionerDaemonsEntitlement :: string

record 'b prov_client = "'b core_client" +
  vc_Provisioners :: "('b, CoderProvisioner) kind_api"
  vc_GetControlPlane :: "string \<Rightarrow> string \<Rightarrow> ('b, ControlPlane) call"
  vc_ListProvisioners :: "string \<Rightarrow> string \<Rightarrow> ('b, CoderProvisioner list) call"

record 'b CoderProvisionerReconciler =
  pr_Client :: "'b prov_client option"
  pr_Scheme :: "unit option"
  pr_BootstrapClient :: "'b BootstrapClient option"

record 'b prov_env =
  pe_Now :: "'b \<Rightarrow> gotime"
  pe_Jitter :: "'b \<Rightarrow> duration \<Rightarrow> duration"

record 'b prov_state =
  ps_world :: 'b
  ps_attempts :: "string \<Rightarrow> nat option"
  ps_obj :: CoderProvisioner

definition zero_provisioner :: CoderProvisioner where
  "zero_provisioner = \<lparr>cpr_meta = new_meta [] [],
     cpr_Spec = \<lparr>cps_ControlPlaneRef = [], cps_OrganizationName = [], cps_Key = \<lparr>cpk_Name = [], cpk_SecretName = [], cpk_SecretKey = []\<rparr>,
       cps_Replicas = None, cps_Tags = [], cps_Image = [], cps_ExtraArgs = [], cps_ExtraEnv = [], cps_Resources = [],
       cps_ImagePullSecrets = [], cps_TerminationGracePeriodSeconds = None\<rparr>,
     cpr_Status = \<lparr>cpt_ObservedGeneration = 0, cpt_ReadyReplicas = 0, cpt_Phase = [], cpt_Conditions = [],
       cpt_OrganizationID = [], cpt_OrganizationName = [], cpt_ProvisionerKeyID = [], cpt_ProvisionerKeyName = [],
       cpt_TagsHash = [], cpt_ControlPlaneRefName = [], cpt_ControlPlaneURL = [], cpt_SecretRef = None\<rparr>\<rparr>"

subsection \<open>Constants\<close>

definition defaultProvisionerReplicas :: int where "defaultProvisionerReplicas = 1"
definition defaultProvisionerTerminationGracePeriodSeconds :: int where
  "defaultProvisionerTerminationGracePeriodSeconds = 600"
definition provisionerKeyChecksumAnnotation :: string where
  "provisionerKeyChecksumAnnotation = ''checksum/provisioner-key''"
definition provisionerRateLimitBackoffBase :: duration where "provisionerRateLimitBackoffBase = 2 * time_Second"
definition provisionerRateLimitBackoffCap :: duration where "provisionerRateLimitBackoffCap = 2 * time_Minute"
definition provisionerRateLimitBackoffFloor :: duration where "provisionerRateLimitBackoffFloor = 1 * time_Second"
definition externalProvisionerEntitlementRetryInterval :: duration where
  "externalProvisionerEntitlementRetryInterval = 2 * time_Minute"
definition provisionerOperatorAccessRetryInterval :: duration where
  "provisionerOperatorAccessRetryInterval = 15 * time_Second"
definition DefaultProvisionerKeySecretKey :: string where "DefaultProvisionerKeySecretKey = ''key''"
definition ProvisionerKeyCleanupFinalizer :: string where
  "ProvisionerKeyCleanupFinalizer = ''coder.com/provisioner-key-cleanup''"

subsection \<open>State and conditions\<close>

definition in_world :: "('b, 'a) op \<Rightarrow> ('b prov_state, 'a) op" where
  "in_world m = zoom ps_world (\<lambda>v s. s\<lparr>ps_world := v\<rparr>) m"

definition get_obj :: "('b prov_state, CoderProvisioner) op" where
  "get_obj = asks (\<lambda>s. Ok (ps_obj s))"

definition put_obj :: "CoderProvisioner \<Rightarrow> ('b prov_state, unit) op" where
  "put_obj p = (\<lambda>s. (Ok (), s\<lparr>ps_obj := p\<rparr>))"

definition set_condition :: "gotime \<Rightarrow> string \<Rightarrow> string \<Rightarrow> string \<Rightarrow> msg \<Rightarrow> CoderProvisioner \<Rightarrow> CoderProvisioner" where
  "set_condition now conditionType status reason message p =
     p\<lparr>cpr_Status := (cpr_Status p)\<lparr>cpt_Conditions :=
        SetStatusCondition now
          \<lparr>c_Type = conditionType, c_Status = status, c_ObservedGeneration = m_Generation (cpr_meta p),
           c_LastTransitionTime = 0, c_Reason = reason, c_Message = message\<rparr>
          (cpt_Conditions (cpr_Status p))\<rparr>\<rparr>"

definition setCondition :: "'b prov_env \<Rightarrow> string \<Rightarrow> string \<Rightarrow> string \<Rightarrow> msg \<Rightarrow> ('b prov_state, unit) op" where
  "setCondition env conditionType status reason message =
     (\<lambda>s. (Ok (), s\<lparr>ps_obj := set_condition (pe_Now env (ps_world s)) conditionType status reason message (ps_obj s)\<rparr>))"

text \<open>\<open>r.Status().Update(ctx, provisioner)\<close>, which stores the answer in the object, and the same with its error ignored.\<close>

definition update_status :: "'b prov_client \<Rightarrow> ('b prov_state, unit) op" where
  "update_status c =
     bind get_obj (\<lambda>p. bind (in_world (call (k_StatusUpdate (vc_Provisioners c) p))) put_obj)"

definition try_update_status :: "'b prov_client \<Rightarrow> ('b prov_state, unit) op" where
  "try_update_status c = handle (update_status c) (\<lambda>_. ret ()) ret"

subsection \<open>Rate-limit back-off\<close>

fun backoff_loop :: "nat \<Rightarrow> duration \<Rightarrow> duration" where
  "backoff_loop 0 backoff = backoff"
| "backoff_loop (Suc n) backoff =
     (if backoff \<ge> provisionerRateLimitBackoffCap div 2 then provisionerRateLimitBackoffCap
      else backoff_loop n (backoff * 2))"

definition backoff_for :: "(duration \<Rightarrow> duration) \<Rightarrow> nat \<Rightarrow> duration" where
  "backoff_for jitter attempt =
     (let backoff = backoff_loop (attempt - 1) provisionerRateLimitBackoffBase;
          capped = (if backoff > provisionerRateLimitBackoffCap then provisionerRateLimitBackoffCap else backoff);
          jittered = jitter capped;
          raised = (if jittered < provisionerRateLimitBackoffFloor then provisionerRateLimitBackoffFloor else jittered)
      in if raised > provisionerRateLimitBackoffCap then provisionerRateLimitBackoffCap else raised)"

definition nextProvisionerRateLimitBackoff :: "'b prov_env \<Rightarrow> string \<Rightarrow> string \<Rightarrow> ('b prov_state, duration) op" where
  "nextProvisionerRateLimitBackoff env ns name s =
     (if ns = [] \<or> name = [] then (Ok provisionerRateLimitBackoffFloor, s)
      else
        let attempt = (case ps_attempts s (namespacedName ns name) of None \<Rightarrow> 1 | Some previous \<Rightarrow> previous + 1) in
        (Ok (backoff_for (pe_Jitter env (ps_world s)) attempt),
         s\<lparr>ps_attempts := (ps_attempts s)(namespacedName ns name := Some attempt)\<rparr>))"

definition resetProvisionerRateLimitBackoff :: "string \<Rightarrow> string \<Rightarrow> ('b prov_state, unit) op" where
  "resetProvisionerRateLimitBackoff ns name s =
     (if ns = [] \<or> name = [] then (Ok (), s)
      else (Ok (), s\<lparr>ps_attempts := (ps_attempts s)(namespacedName ns name := None)\<rparr>))"

subsection \<open>Names and configuration\<close>

definition provisionerOrganizationName :: "string \<Rightarrow> string" where
  "provisionerOrganizationName name = (if name = [] then ''default'' else name)"

definition provisionerKeyConfig :: "CoderProvisioner \<Rightarrow> string \<times> string \<times> string" where
  "provisionerKeyConfig p =
     (let key = cps_Key (cpr_Spec p); name = m_Name (cpr_meta p);
          keyName = limitKeyName (if cpk_Name key = [] then name else cpk_Name key);
          secretName = (if cpk_SecretName key = [] then keySecretNameFor name else cpk_SecretName key);
          secretKey = (if cpk_SecretKey key = [] then DefaultProvisionerKeySecretKey else cpk_SecretKey key)
      in (keyName, secretName, secretKey))"

definition durationUntilNextEntitlementsCheck :: "gotime \<Rightarrow> gotime option \<Rightarrow> duration \<Rightarrow> duration" where
  "durationUntilNextEntitlementsCheck now lastChecked interval =
     (case lastChecked of None \<Rightarrow> 0 | Some last' \<Rightarrow>
      if interval \<le> 0 then 0
      else
        let elapsed = time_Sub now last' in
        if elapsed < 0 then interval else if elapsed \<ge> interval then 0 else interval - elapsed)"

subsection \<open>Finalizer and deletion\<close>

definition ensureCleanupFinalizer :: "'b prov_client \<Rightarrow> ('b prov_state, bool) op" where
  "ensureCleanupFinalizer c =
     bind get_obj (\<lambda>p.
     if ContainsFinalizer (cpr_meta p) ProvisionerKeyCleanupFinalizer then ret False
     else
       bind (put_obj (p\<lparr>cpr_meta := AddFinalizer ProvisionerKeyCleanupFinalizer (cpr_meta p)\<rparr>)) (\<lambda>_.
       bind get_obj (\<lambda>p'.
       bind (map_err (WrapError ''add finalizer to coderprovisioner %s/%s: %w''
                        [ArgS (m_Namespace (cpr_meta p)), ArgS (m_Name (cpr_meta p))])
               (in_world (call (k_Update (vc_Provisioners c) p')))) (\<lambda>p''.
       bind (put_obj p'') (\<lambda>_. ret True)))))"

definition fetchControlPlane :: "'b prov_client \<Rightarrow> CoderProvisioner \<Rightarrow> ('b, ControlPlane) op" where
  "fetchControlPlane c p =
     (let ns = m_Namespace (cpr_meta p); controlPlaneName = cps_ControlPlaneRef (cpr_Spec p) in
      guard (controlPlaneName \<noteq> [])
        (ErrorString (Fmt ''coderprovisioner %s/%s spec.controlPlaneRef.name is required'' [ArgS ns, ArgS (m_Name (cpr_meta p))])) (
      bind (map_err (WrapError ''get referenced codercontrolplane %s for coderprovisioner %s/%s: %w''
                       [ArgS (namespacedName ns controlPlaneName), ArgS ns, ArgS (m_Name (cpr_meta p))])
              (call (vc_GetControlPlane c ns controlPlaneName))) (\<lambda>cp.
      guard (cp_Name cp = controlPlaneName \<and> cp_Namespace cp = ns)
        (ErrorString (Fmt ''assertion failed: fetched control plane %s/%s does not match expected %s/%s''
           [ArgS (cp_Namespace cp), ArgS (cp_Name cp), ArgS ns, ArgS controlPlaneName])) (
      guard (cp_URL cp \<noteq> [])
        (ErrorString (Fmt ''codercontrolplane %s/%s status.url is empty'' [ArgS (cp_Namespace cp), ArgS (cp_Name cp)]))
        (ret cp)))))"

text \<open>The session token with the requeue interval (0: available), the reason and the message of the condition.\<close>

definition readOperatorSessionToken ::
    "'b prov_client \<Rightarrow> CoderProvisioner \<Rightarrow> ControlPlane \<Rightarrow> ('b, string \<times> duration \<times> string \<times> msg) op" where
  "readOperatorSessionToken c p cp =
     (let args = [ArgS (cp_Namespace cp), ArgS (cp_Name cp)]; retry = provisionerOperatorAccessRetryInterval in
      if \<not> cp_OperatorAccessReady cp then ret ([], retry, ''OperatorAccessNotReady'',
        Fmt ''Waiting for CoderControlPlane %s/%s status.operatorAccessReady=true before reconciling provisioner keys.'' args)
      else case cp_OperatorTokenSecretRef cp of
        None \<Rightarrow> ret ([], retry, ''OperatorTokenSecretRefMissing'',
          Fmt ''Waiting for CoderControlPlane %s/%s status.operatorTokenSecretRef to be set by operator access bootstrap.'' args)
      | Some ref \<Rightarrow>
        let secretName = strings_TrimSpace (sks_Name ref) in
        if secretName = [] then ret ([], retry, ''OperatorTokenSecretRefInvalid'',
          Fmt ''Waiting for CoderControlPlane %s/%s status.operatorTokenSecretRef.name to be non-empty.'' args)
        else
          let trimmedKey = strings_TrimSpace (sks_Key ref);
              secretKey = (if trimmedKey = [] then DefaultTokenSecretKey else trimmedKey) in
          handle (readSecretValue (cc_Secrets c) (m_Namespace (cpr_meta p)) secretName secretKey)
            (\<lambda>err. ret ([], retry, ''OperatorTokenSecretUnavailable'',
               Fmt ''Failed to read operator token Secret %q/%q key %q from referenced control plane status: %v''
                 [ArgS (m_Namespace (cpr_meta p)), ArgS secretName, ArgS secretKey, ArgV err]))
            (\<lambda>token. ret (token, 0, ''OperatorAccessReady'',
               Lit ''Operator-managed access token from referenced control plane is available'')))"

text \<open>The best-effort removal of the remote key during deletion.\<close>

definition cleanupRemoteKey ::
    "'b prov_client \<Rightarrow> 'b BootstrapClient \<Rightarrow> CoderProvisioner \<Rightarrow> string \<Rightarrow> ControlPlane \<Rightarrow> ('b, unit) op" where
  "cleanupRemoteKey c bc p controlPlaneURL cp =
     (let organizationName = (if cpt_OrganizationName (cpr_Status p) = []
            then provisionerOrganizationName (cps_OrganizationName (cpr_Spec p)) else cpt_OrganizationName (cpr_Status p));
          keyName = (if cpt_ProvisionerKeyName (cpr_Status p) = [] then fst (provisionerKeyConfig p)
            else cpt_ProvisionerKeyName (cpr_Status p)) in
      handle (readOperatorSessionToken c p cp) (\<lambda>_. ret ()) (\<lambda>(token, requeue, _, _).
        if requeue > 0 then ret ()
        else handle (bc_DeleteProvisionerKey bc controlPlaneURL token organizationName keyName) (\<lambda>_. ret ()) ret))"

text \<open>The end of the deletion: the update that removes the finalizer.\<close>

definition finalizer_removal :: "'b prov_client \<Rightarrow> CoderProvisioner \<Rightarrow> ('b prov_state, duration) op" where
  "finalizer_removal c p =
     (let p' = p\<lparr>cpr_meta := RemoveFinalizer ProvisionerKeyCleanupFinalizer (cpr_meta p)\<rparr> in
       bind (put_obj p') (\<lambda>_.
       bind (map_err (WrapError ''remove finalizer from coderprovisioner %s/%s: %w''
                        [ArgS (m_Namespace (cpr_meta p)), ArgS (m_Name (cpr_meta p))])
               (in_world (call (k_Update (vc_Provisioners c) p')))) (\<lambda>p''.
       bind (put_obj p'') (\<lambda>_. ret 0))))"

definition reconcileDeletion :: "'b prov_client \<Rightarrow> 'b BootstrapClient \<Rightarrow> ('b prov_state, duration) op" where
  "reconcileDeletion c bc =
     bind get_obj (\<lambda>p.
     if \<not> ContainsFinalizer (cpr_meta p) ProvisionerKeyCleanupFinalizer then ret 0
     else
       let ns = m_Namespace (cpr_meta p); controlPlaneName = strings_TrimSpace (cps_ControlPlaneRef (cpr_Spec p)) in
       bind (if controlPlaneName = [] then ret None
             else handle (in_world (call (vc_GetControlPlane c ns controlPlaneName))) (\<lambda>_. ret None) (\<lambda>cp.
               guard (cp_Name cp = controlPlaneName \<and> cp_Namespace cp = ns)
                 (ErrorString (Fmt ''assertion failed: fetched control plane %s/%s does not match expected %s/%s''
                    [ArgS (cp_Namespace cp), ArgS (cp_Name cp), ArgS ns, ArgS controlPlaneName]))
                 (ret (Some cp)))) (\<lambda>controlPlane.
       let statusURL = cpt_ControlPlaneURL (cpr_Status p);
           controlPlaneURL = (case controlPlane of Some cp \<Rightarrow> if statusURL = [] then strings_TrimSpace (cp_URL cp) else statusURL
                              | None \<Rightarrow> statusURL) in
       bind (case controlPlane of None \<Rightarrow> ret ()
             | Some cp \<Rightarrow> if controlPlaneURL = [] then ret () else in_world (cleanupRemoteKey c bc p controlPlaneURL cp)) (\<lambda>_.
       finalizer_removal c p)))"

subsection \<open>Entitlement\<close>

definition EntitlementEntitled :: string where "EntitlementEntitled = ''entitled''"
definition EntitlementGracePeriod :: string where "EntitlementGracePeriod = ''grace_period''"
definition EntitlementNotEntitled :: string where "EntitlementNotEntitled = ''not_entitled''"
definition FeatureExternalProvisionerDaemons :: string where
  "FeatureExternalProvisionerDaemons = ''external_provisioner_daemons''"

abbreviation entitledCondition :: string where "entitledCondition \<equiv> ''ExternalProvisionersEntitled''"
abbreviation keyReadyCondition :: string where "keyReadyCondition \<equiv> ''ProvisionerKeyReady''"

definition notEntitledMessage :: msg where
  "notEntitledMessage = Lit ''Coder deployment is not entitled to external provisioner daemons; install a Premium/Enterprise license to enable external provisioners.''"

definition entitled :: "'b prov_env \<Rightarrow> ('b prov_state, duration) op" where
  "entitled env = bind (setCondition env entitledCondition ''True'' ''Entitled''
     (Lit ''Coder deployment is entitled to external provisioner daemons'')) (\<lambda>_. ret 0)"

definition notEntitled :: "'b prov_env \<Rightarrow> string \<Rightarrow> msg \<Rightarrow> duration \<Rightarrow> ('b prov_state, duration) op" where
  "notEntitled env reason message requeue =
     bind (setCondition env entitledCondition ''False'' reason message) (\<lambda>_. ret requeue)"

definition entitlementQueryFailed :: "error \<Rightarrow> string \<times> msg" where
  "entitlementQueryFailed err =
     (case as_coder_error err of
        None \<Rightarrow> (''EntitlementsQueryFailed'', Lit ''Failed to query Coder entitlements; retrying.'')
      | Some (code, _) \<Rightarrow>
        if code = 404 then (''NotSupported'',
          Lit ''Coder deployment does not expose /api/v2/entitlements; cannot verify license.'')
        else if code = 401 \<or> code = 403 then (''Forbidden'',
          Lit ''Operator access token is not authorized to read entitlements; retrying.'')
        else (''EntitlementsQueryFailed'', Lit ''Failed to query Coder entitlements; retrying.''))"

definition queryEntitlements ::
    "'b prov_env \<Rightarrow> 'b BootstrapClient \<Rightarrow> ControlPlane \<Rightarrow> string \<Rightarrow> ('b prov_state, duration) op" where
  "queryEntitlements env bc cp sessionToken =
     (let retry = externalProvisionerEntitlementRetryInterval in
      handle (in_world (bc_Entitlements bc (cp_URL cp) sessionToken))
        (\<lambda>err. let (reason, message) = entitlementQueryFailed err in notEntitled env reason message retry)
        (\<lambda>entitlements.
           non_nil entitlements (assertion ''entitlements features must not be nil'') (\<lambda>features.
           case map_of features FeatureExternalProvisionerDaemons of
             Some e \<Rightarrow> if e = EntitlementEntitled \<or> e = EntitlementGracePeriod then entitled env
                       else notEntitled env ''NotEntitled'' notEntitledMessage retry
           | None \<Rightarrow> notEntitled env ''NotEntitled'' notEntitledMessage retry)))"

definition reconcileExternalProvisionerEntitlement ::
    "'b prov_env \<Rightarrow> 'b BootstrapClient \<Rightarrow> ControlPlane \<Rightarrow> string \<Rightarrow> ('b prov_state, duration) op" where
  "reconcileExternalProvisionerEntitlement env bc cp sessionToken =
     guard (strings_TrimSpace (cp_URL cp) \<noteq> []) (assertion ''coder control plane URL must not be empty'') (
     guard (sessionToken \<noteq> []) (assertion ''operator session token must not be empty'') (
     bind (asks (\<lambda>s. Ok (durationUntilNextEntitlementsCheck (pe_Now env (ps_world s)) (cp_EntitlementsLastChecked cp)
             externalProvisionerEntitlementRetryInterval))) (\<lambda>recheckAfter.
     let known = strings_TrimSpace (cp_ExternalProvisionerDaemonsEntitlement cp) in
     if cp_EntitlementsLastChecked cp \<noteq> None \<and> recheckAfter > 0
        \<and> (known = EntitlementEntitled \<or> known = EntitlementGracePeriod)
     then entitled env
     else if cp_EntitlementsLastChecked cp \<noteq> None \<and> recheckAfter > 0 \<and> known = EntitlementNotEntitled
     then notEntitled env ''NotEntitled'' notEntitledMessage recheckAfter
     else queryEntitlements env bc cp sessionToken)))"

subsection \<open>The provisioner key\<close>

text \<open>What the key part of \<open>Reconcile\<close> computes: the key's identity, its plain text if it is new, and the applied baseline.\<close>

record key_state =
  ks_OrganizationID :: string
  ks_KeyID :: string
  ks_KeyName :: string
  ks_Material :: string
  ks_OrgName :: string
  ks_TagsHash :: string
  ks_RefName :: string
  ks_URL :: string

definition initial_key_state :: "string \<Rightarrow> CoderProvisionerStatus \<Rightarrow> key_state" where
  "initial_key_state keyName st =
     \<lparr>ks_OrganizationID = cpt_OrganizationID st, ks_KeyID = cpt_ProvisionerKeyID st,
      ks_KeyName = (if cpt_ProvisionerKeyName st = [] then keyName else cpt_ProvisionerKeyName st),
      ks_Material = [], ks_OrgName = cpt_OrganizationName st, ks_TagsHash = cpt_TagsHash st,
      ks_RefName = cpt_ControlPlaneRefName st, ks_URL = cpt_ControlPlaneURL st\<rparr>"

definition absorb :: "EnsureProvisionerKeyResponse \<Rightarrow> key_state \<Rightarrow> key_state" where
  "absorb response ks = ks\<lparr>
     ks_OrganizationID := (if epr_OrganizationID response \<noteq> uuid_Nil then uuid_String (epr_OrganizationID response) else ks_OrganizationID ks),
     ks_KeyID := (if epr_KeyID response \<noteq> uuid_Nil then uuid_String (epr_KeyID response) else ks_KeyID ks),
     ks_KeyName := (if epr_KeyName response \<noteq> [] then epr_KeyName response else ks_KeyName ks),
     ks_Material := epr_Key response\<rparr>"

text \<open>The desired key: where it lives, under which name, with which tags.\<close>

record desired_key =
  dk_URL :: string
  dk_Token :: string
  dk_OrgName :: string
  dk_KeyName :: string
  dk_Tags :: string_map
  dk_RefName :: string

definition key_request :: "desired_key \<Rightarrow> EnsureProvisionerKeyRequest" where
  "key_request d = \<lparr>epk_CoderURL = dk_URL d, epk_SessionToken = dk_Token d, epk_OrganizationName = dk_OrgName d,
     epk_KeyName = dk_KeyName d, epk_Tags = dk_Tags d\<rparr>"

definition stamp :: "desired_key \<Rightarrow> key_state \<Rightarrow> key_state" where
  "stamp d ks = ks\<lparr>ks_OrgName := dk_OrgName d, ks_TagsHash := hashProvisionerTags (dk_Tags d),
     ks_RefName := dk_RefName d, ks_URL := dk_URL d\<rparr>"

definition keyFailed :: "'b prov_env \<Rightarrow> 'b prov_client \<Rightarrow> msg \<Rightarrow> error \<Rightarrow> ('b prov_state, 'a) op" where
  "keyFailed env c message err =
     bind (setCondition env keyReadyCondition ''False'' ''ProvisionerKeyFailed'' message) (\<lambda>_.
     bind (try_update_status c) (\<lambda>_. fail err))"

text \<open>The three places that delete and recreate the key differ in their texts only; without a
  text for the failed deletion no condition is set.\<close>

record rotation_texts =
  rot_DeleteMessage :: "string option"
  rot_DeleteError :: string
  rot_CreateMessage :: string
  rot_CreateError :: string
  rot_EmptyMessage :: string
  rot_EmptyError :: string

definition rotateKey ::
    "'b prov_env \<Rightarrow> 'b prov_client \<Rightarrow> 'b BootstrapClient \<Rightarrow> rotation_texts \<Rightarrow> desired_key \<Rightarrow> key_state
       \<Rightarrow> ('b prov_state, key_state) op" where
  "rotateKey env c bc txt d ks =
     (let k = [ArgS (dk_KeyName d)] in
      handle (in_world (bc_DeleteProvisionerKey bc (dk_URL d) (dk_Token d) (dk_OrgName d) (dk_KeyName d)))
        (\<lambda>deleteErr. let err = WrapError (rot_DeleteError txt) k deleteErr in
           (case rot_DeleteMessage txt of None \<Rightarrow> fail err | Some m \<Rightarrow> keyFailed env c (Fmt m k) err))
        (\<lambda>_. handle (in_world (bc_EnsureProvisionerKey bc (key_request d)))
           (\<lambda>rotateErr. keyFailed env c (Fmt (rot_CreateMessage txt) k) (WrapError (rot_CreateError txt) k rotateErr))
           (\<lambda>rotated.
              if epr_Key rotated = []
              then keyFailed env c (Fmt (rot_EmptyMessage txt) k) (ErrorString (Fmt (rot_EmptyError txt) k))
              else ret (absorb rotated ks))))"

definition drift_texts :: rotation_texts where
  "drift_texts = \<lparr>
     rot_DeleteMessage = Some ''Failed to delete provisioner key %q for drift recovery'',
     rot_DeleteError = ''delete provisioner key %q for drift recovery: %w'',
     rot_CreateMessage = ''Failed to recreate provisioner key %q after drift recovery'',
     rot_CreateError = ''recreate provisioner key %q after drift recovery: %w'',
     rot_EmptyMessage = ''Provisioner key %q returned empty material after drift recovery rotation'',
     rot_EmptyError = ''assertion failed: provisioner key %q returned empty material after drift recovery rotation''\<rparr>"

definition missing_texts :: rotation_texts where
  "missing_texts = \<lparr>
     rot_DeleteMessage = Some ''Failed to delete stale provisioner key %q for rotation'',
     rot_DeleteError = ''delete stale provisioner key %q for rotation: %w'',
     rot_CreateMessage = ''Failed to recreate provisioner key %q after rotation'',
     rot_CreateError = ''recreate provisioner key %q after rotation: %w'',
     rot_EmptyMessage = ''Provisioner key %q returned empty key material after rotation'',
     rot_EmptyError = ''assertion failed: provisioner key %q returned empty key material after rotation''\<rparr>"

definition backfill_texts :: rotation_texts where
  "backfill_texts = \<lparr>
     rot_DeleteMessage = None,
     rot_DeleteError = ''delete provisioner key %q for metadata backfill rotation: %w'',
     rot_CreateMessage = ''Failed to recreate provisioner key %q after metadata backfill rotation'',
     rot_CreateError = ''recreate provisioner key %q after metadata backfill rotation: %w'',
     rot_EmptyMessage = ''Provisioner key %q returned empty material after metadata backfill rotation'',
     rot_EmptyError = ''assertion failed: provisioner key %q returned empty material after metadata backfill rotation''\<rparr>"

definition keyReady :: "'b prov_env \<Rightarrow> desired_key \<Rightarrow> key_state \<Rightarrow> ('b prov_state, key_state) op" where
  "keyReady env d ks =
     bind (setCondition env keyReadyCondition ''True'' ''ProvisionerKeyReady'' (Lit ''Provisioner key is available in coderd'')) (\<lambda>_.
     ret (stamp d ks))"

text \<open>Drift: the old key is removed where it was, whether that succeeds or not, and the new one made.\<close>

definition driftRotation ::
    "'b prov_env \<Rightarrow> 'b prov_client \<Rightarrow> 'b BootstrapClient \<Rightarrow> desired_key \<Rightarrow> CoderProvisionerStatus \<Rightarrow> key_state
       \<Rightarrow> ('b prov_state, key_state) op" where
  "driftRotation env c bc d st ks =
     (let old = (\<lambda>applied desired. if applied = [] then desired else applied) in
      bind (handle (in_world (bc_DeleteProvisionerKey bc (old (cpt_ControlPlaneURL st) (dk_URL d)) (dk_Token d)
              (old (cpt_OrganizationName st) (dk_OrgName d)) (old (cpt_ProvisionerKeyName st) (dk_KeyName d)))) (\<lambda>_. ret ()) ret) (\<lambda>_.
      handle (in_world (bc_EnsureProvisionerKey bc (key_request d)))
        (\<lambda>ensureErr. keyFailed env c (Fmt ''Failed to ensure provisioner key %q after drift rotation'' [ArgS (dk_KeyName d)])
           (WrapError ''ensure provisioner key %q: %w'' [ArgS (dk_KeyName d)] ensureErr))
        (\<lambda>response.
           bind (if epr_Key response = [] then rotateKey env c bc drift_texts d (absorb response ks)
                 else ret (absorb response ks)) (keyReady env d))))"

text \<open>The secret is missing or empty: ensure the key, and recreate it when its plain text is gone.\<close>

definition missingSecret ::
    "'b prov_env \<Rightarrow> 'b prov_client \<Rightarrow> 'b BootstrapClient \<Rightarrow> desired_key \<Rightarrow> key_state \<Rightarrow> ('b prov_state, key_state) op" where
  "missingSecret env c bc d ks =
     handle (in_world (bc_EnsureProvisionerKey bc (key_request d)))
       (\<lambda>ensureErr. keyFailed env c (Fmt ''Failed to ensure provisioner key %q'' [ArgS (dk_KeyName d)])
          (WrapError ''ensure provisioner key %q: %w'' [ArgS (dk_KeyName d)] ensureErr))
       (\<lambda>response.
          bind (if epr_Key response = [] then rotateKey env c bc missing_texts d (absorb response ks)
                else ret (absorb response ks)) (keyReady env d))"

text \<open>The secret is usable but the baseline in the status is incomplete.\<close>

definition backfillMetadata ::
    "'b prov_env \<Rightarrow> 'b prov_client \<Rightarrow> 'b BootstrapClient \<Rightarrow> desired_key \<Rightarrow> key_state \<Rightarrow> ('b prov_state, key_state) op" where
  "backfillMetadata env c bc d ks =
     bind (map_err (WrapError ''verify provisioner key metadata: %w'' [])
             (in_world (bc_EnsureProvisionerKey bc (key_request d)))) (\<lambda>response.
     bind (if epr_Key response = [] then rotateKey env c bc backfill_texts d (absorb response ks)
           else ret (absorb response ks)) (keyReady env d))"

definition drift_detected :: "desired_key \<Rightarrow> CoderProvisionerStatus \<Rightarrow> bool" where
  "drift_detected d st =
     (let drift = (\<lambda>applied desired. applied \<noteq> [] \<and> applied \<noteq> desired) in
      drift (cpt_OrganizationName st) (dk_OrgName d) \<or> drift (cpt_ProvisionerKeyName st) (dk_KeyName d) \<or>
      drift (cpt_TagsHash st) (hashProvisionerTags (dk_Tags d)) \<or> drift (cpt_ControlPlaneRefName st) (dk_RefName d) \<or>
      drift (cpt_ControlPlaneURL st) (dk_URL d))"

definition metadata_missing :: "CoderProvisionerStatus \<Rightarrow> bool" where
  "metadata_missing st = (cpt_OrganizationName st = [] \<or> cpt_TagsHash st = [] \<or> cpt_ControlPlaneRefName st = [] \<or>
     cpt_ControlPlaneURL st = [])"

definition reconcileKey ::
    "'b prov_env \<Rightarrow> 'b prov_client \<Rightarrow> 'b BootstrapClient \<Rightarrow> desired_key \<Rightarrow> CoderProvisionerStatus \<Rightarrow> bool
       \<Rightarrow> ('b prov_state, key_state) op" where
  "reconcileKey env c bc d st secretUsable =
     (let ks = initial_key_state (dk_KeyName d) st in
      if drift_detected d st then driftRotation env c bc d st ks
      else if \<not> secretUsable then missingSecret env c bc d ks
      else if metadata_missing st then backfillMetadata env c bc d ks
      else ret ks)"

text \<open>Whether the secret exists with a non-empty value under the configured key.\<close>

definition secret_usable :: "'b prov_client \<Rightarrow> string \<Rightarrow> string \<Rightarrow> string \<Rightarrow> ('b, bool) op" where
  "secret_usable c ns secretName secretKey =
     handle (call (k_Get (cc_Secrets c) ns secretName))
       (\<lambda>err. if \<not> IsNotFound err
              then fail (WrapError ''get provisioner key secret %s: %w'' [ArgS (namespacedName ns secretName)] err)
              else ret False)
       (\<lambda>secret. ret (case map_of (sec_Data secret) secretKey of None \<Rightarrow> False | Some v \<Rightarrow> v \<noteq> []))"

end
