(* ===== verification/Provisioner_Reconcile.thy ===== *)
theory Provisioner_Reconcile
  imports Provisioner
begin

text \<open>
  The second half of the provisioner controller
  (internal/controller/coderprovisioner_controller.go): the objects it manages, the status,
  the body of \<open>Reconcile\<close> and its deferred rate-limit handler, and the mapping of control
  planes to the provisioners that refer to them.
  \<open>prov_key_secret\<close>, \<open>prov_service_account\<close>, \<open>prov_role\<close>, \<open>prov_role_binding\<close> and
  \<open>prov_deployment\<close> are the mutate functions passed to \<open>CreateOrUpdate\<close>; each is an
  interpretation of \<open>owned_object\<close>.
\<close>

section \<open>Definitions\<close>

subsection \<open>Managed objects\<close>

abbreviation own_by_provisioner :: "CoderProvisioner \<Rightarrow> KMeta \<Rightarrow> KMeta result" where
  "own_by_provisioner p m \<equiv> set_controller ''CoderProvisioner'' (cpr_meta p) m"

abbreviation provisioner_labelled :: "CoderProvisioner \<Rightarrow> KMeta \<Rightarrow> KMeta" where
  "provisioner_labelled p m \<equiv> m\<lparr>m_Labels := provisionerLabels (m_Name (cpr_meta p))\<rparr>"

definition prov_key_secret :: "CoderProvisioner \<Rightarrow> string \<Rightarrow> string \<Rightarrow> string \<Rightarrow> Secret \<Rightarrow> Secret result" where
  "prov_key_secret p secretName secretKey keyMaterial secret =
     (let data = (if keyMaterial \<noteq> [] then map_put secretKey keyMaterial (sec_Data secret) else sec_Data secret) in
      if (case map_of data secretKey of None \<Rightarrow> True | Some v \<Rightarrow> v = [])
      then Err (ErrorString (Fmt ''provisioner key secret %q key %q is empty'' [ArgS secretName, ArgS secretKey]))
      else rbind (own_by_provisioner p (provisioner_labelled p (sec_meta secret))) (\<lambda>meta.
        Ok (secret\<lparr>sec_meta := meta, sec_Type := ''Opaque'', sec_Data := data\<rparr>)))"

definition ensureProvisionerKeySecret ::
    "'b prov_client \<Rightarrow> CoderProvisioner \<Rightarrow> string \<Rightarrow> string \<Rightarrow> string \<Rightarrow> ('b, Secret) op" where
  "ensureProvisionerKeySecret c p secretName secretKey keyMaterial =
     map_err (WrapError ''reconcile provisioner key secret %q: %w'' [ArgS secretName])
       (CreateOrUpdate sec_meta (cc_Secrets c) (new_Secret secretName (m_Namespace (cpr_meta p)))
          (prov_key_secret p secretName secretKey keyMaterial))"

definition prov_service_account :: "CoderProvisioner \<Rightarrow> ServiceAccount \<Rightarrow> ServiceAccount result" where
  "prov_service_account p sa =
     rbind (own_by_provisioner p (provisioner_labelled p (sa_meta sa))) (\<lambda>meta. Ok (sa\<lparr>sa_meta := meta\<rparr>))"

definition prov_reconcileServiceAccount :: "'b prov_client \<Rightarrow> CoderProvisioner \<Rightarrow> string \<Rightarrow> ('b, ServiceAccount) op" where
  "prov_reconcileServiceAccount c p serviceAccountName =
     map_err (WrapError ''reconcile serviceaccount %q: %w'' [ArgS serviceAccountName])
       (CreateOrUpdate sa_meta (cc_ServiceAccounts c) (new_ServiceAccount serviceAccountName (m_Namespace (cpr_meta p)))
          (prov_service_account p))"

definition provisionerRules :: "PolicyRule list" where
  "provisionerRules = [\<lparr>rule_APIGroups = [''''], rule_Resources = [''pods'', ''persistentvolumeclaims''],
     rule_Verbs = [''get'', ''list'', ''watch'', ''create'', ''update'', ''patch'', ''delete''], rule_Other = []\<rparr>]"

definition prov_role :: "CoderProvisioner \<Rightarrow> Role \<Rightarrow> Role result" where
  "prov_role p r =
     rbind (own_by_provisioner p (provisioner_labelled p (role_meta r))) (\<lambda>meta.
       Ok (r\<lparr>role_meta := meta, role_Rules := provisionerRules\<rparr>))"

definition prov_reconcileRole :: "'b prov_client \<Rightarrow> CoderProvisioner \<Rightarrow> string \<Rightarrow> ('b, Role) op" where
  "prov_reconcileRole c p roleName =
     map_err (WrapError ''reconcile role %q: %w'' [ArgS roleName])
       (CreateOrUpdate role_meta (cc_Roles c) (new_Role roleName (m_Namespace (cpr_meta p))) (prov_role p))"

definition prov_role_binding :: "CoderProvisioner \<Rightarrow> string \<Rightarrow> string \<Rightarrow> RoleBinding \<Rightarrow> RoleBinding result" where
  "prov_role_binding p roleName serviceAccountName rb =
     rbind (own_by_provisioner p (provisioner_labelled p (rb_meta rb))) (\<lambda>meta.
       Ok (rb\<lparr>rb_meta := meta, rb_RoleRef := (''rbac.authorization.k8s.io'', ''Role'', roleName),
             rb_Subjects := [\<lparr>sub_Kind = ''ServiceAccount'', sub_Name = serviceAccountName,
               sub_Namespace = m_Namespace (cpr_meta p)\<rparr>]\<rparr>))"

definition prov_reconcileRoleBinding ::
    "'b prov_client \<Rightarrow> CoderProvisioner \<Rightarrow> string \<Rightarrow> string \<Rightarrow> string \<Rightarrow> ('b, RoleBinding) op" where
  "prov_reconcileRoleBinding c p roleBindingName roleName serviceAccountName =
     map_err (WrapError ''reconcile rolebinding %q: %w'' [ArgS roleBindingName])
       (CreateOrUpdate rb_meta (cc_RoleBindings c) (new_RoleBinding roleBindingName (m_Namespace (cpr_meta p)))
          (prov_role_binding p roleName serviceAccountName))"

definition prov_container :: "CoderProvisionerSpec \<Rightarrow> string \<Rightarrow> string \<Rightarrow> SecretKeySelector \<Rightarrow> Container" where
  "prov_container spec img coderURL secretRef =
     \<lparr>con_Name = ''provisioner'', con_Image = img, con_Command = [''coder''],
      con_Args = [''provisioner'', ''start''] @ cps_ExtraArgs spec,
      con_Env = [\<lparr>env_Name = ''CODER_URL'', env_Value = coderURL, env_ValueFrom = None\<rparr>,
        \<lparr>env_Name = ''CODER_PROVISIONER_DAEMON_KEY'', env_Value = [],
         env_ValueFrom = Some (SecretKeyRef (sks_Name secretRef) (sks_Key secretRef))\<rparr>] @ cps_ExtraEnv spec,
      con_Ports = [], con_Resources = cps_Resources spec, con_EnvFrom = [], con_VolumeMounts = [],
      con_SecurityContext = None, con_ReadinessProbe = None, con_LivenessProbe = None, con_Other = []\<rparr>"

definition prov_deployment ::
    "CoderProvisioner \<Rightarrow> string \<Rightarrow> string \<Rightarrow> SecretKeySelector \<Rightarrow> string \<Rightarrow> string \<Rightarrow> Deployment \<Rightarrow> Deployment result" where
  "prov_deployment p img coderURL secretRef serviceAccountName secretChecksum d =
     (let labels = provisionerLabels (m_Name (cpr_meta p)); spec = cpr_Spec p in
      rbind (own_by_provisioner p (provisioner_labelled p (dep_meta d))) (\<lambda>meta.
      Ok (d\<lparr>dep_meta := meta,
            dep_Replicas := Some (case cps_Replicas spec of None \<Rightarrow> defaultProvisionerReplicas | Some n \<Rightarrow> n),
            dep_Selector := labels,
            dep_Template := \<lparr>pod_Labels = labels, pod_Annotations = [(provisionerKeyChecksumAnnotation, secretChecksum)],
              pod_ServiceAccountName = serviceAccountName, pod_ImagePullSecrets = cps_ImagePullSecrets spec,
              pod_TerminationGracePeriodSeconds = Some (case cps_TerminationGracePeriodSeconds spec of
                None \<Rightarrow> defaultProvisionerTerminationGracePeriodSeconds | Some n \<Rightarrow> n),
              pod_Containers = [prov_container spec img coderURL secretRef], pod_Volumes = [], pod_NodeSelector = [], pod_Tolerations = [],
              pod_TopologySpread = [], pod_SecurityContext = None, pod_Affinity = None, pod_Other = []\<rparr>\<rparr>)))"

definition prov_reconcileDeployment ::
    "'b prov_client \<Rightarrow> CoderProvisioner \<Rightarrow> string \<Rightarrow> string \<Rightarrow> SecretKeySelector \<Rightarrow> string \<Rightarrow> string \<Rightarrow> ('b, Deployment) op" where
  "prov_reconcileDeployment c p img coderURL secretRef serviceAccountName secretChecksum =
     map_err (WrapError ''reconcile provisioner deployment: %w'' [])
       (CreateOrUpdate dep_meta (cc_Deployments c)
          (new_Deployment (provisionerResourceName (m_Name (cpr_meta p))) (m_Namespace (cpr_meta p)))
          (prov_deployment p img coderURL secretRef serviceAccountName secretChecksum))"

subsection \<open>Status\<close>

text \<open>The key metadata, written right after the secret and again with the final status.\<close>

definition key_status :: "key_state \<Rightarrow> SecretKeySelector \<Rightarrow> CoderProvisionerStatus \<Rightarrow> CoderProvisionerStatus" where
  "key_status ks secretRef st = st\<lparr>
     cpt_OrganizationID := ks_OrganizationID ks, cpt_OrganizationName := ks_OrgName ks,
     cpt_ProvisionerKeyID := ks_KeyID ks, cpt_ProvisionerKeyName := ks_KeyName ks,
     cpt_TagsHash := ks_TagsHash ks, cpt_ControlPlaneRefName := ks_RefName ks, cpt_ControlPlaneURL := ks_URL ks,
     cpt_SecretRef := Some secretRef\<rparr>"

definition persistKeyStatus ::
    "'b prov_client \<Rightarrow> key_state \<Rightarrow> SecretKeySelector \<Rightarrow> CoderProvisionerStatus \<Rightarrow> ('b prov_state, CoderProvisionerStatus) op" where
  "persistKeyStatus c ks secretRef statusSnapshot =
     bind get_obj (\<lambda>p.
     let next = key_status ks secretRef (cpr_Status p) in
     bind (put_obj (p\<lparr>cpr_Status := next\<rparr>)) (\<lambda>_.
     if cpr_Status p \<noteq> next
     then bind (map_err (WrapError ''update coderprovisioner key status: %w'' []) (update_status c)) (\<lambda>_.
          bind get_obj (\<lambda>p'. ret (cpr_Status p')))
     else ret statusSnapshot))"

definition prov_reconcileStatus ::
    "'b prov_env \<Rightarrow> 'b prov_client \<Rightarrow> Deployment \<Rightarrow> SecretKeySelector \<Rightarrow> key_state \<Rightarrow> CoderProvisionerStatus
       \<Rightarrow> ('b prov_state, unit) op" where
  "prov_reconcileStatus env c deployment secretRef ks statusSnapshot =
     (let ready = dep_ReadyReplicas deployment > 0 in
      bind get_obj (\<lambda>p.
      bind (put_obj (p\<lparr>cpr_Status := key_status ks secretRef ((cpr_Status p)\<lparr>
               cpt_ObservedGeneration := m_Generation (cpr_meta p), cpt_ReadyReplicas := dep_ReadyReplicas deployment,
               cpt_Phase := (if ready then ''Ready'' else ''Pending'')\<rparr>)\<rparr>)) (\<lambda>_.
      bind (if ready
            then setCondition env ''DeploymentReady'' ''True'' ''MinimumReplicasReady'' (Lit ''At least one provisioner pod is ready'')
            else setCondition env ''DeploymentReady'' ''False'' ''NoReplicasReady'' (Lit ''No provisioner pods are ready yet'')) (\<lambda>_.
      bind get_obj (\<lambda>p'.
      if statusSnapshot = cpr_Status p' then ret ()
      else map_err (WrapError ''update coderprovisioner status: %w'' []) (update_status c))))))"

subsection \<open>Reconcile\<close>

definition status_update_if_changed :: "'b prov_client \<Rightarrow> CoderProvisionerStatus \<Rightarrow> ('b prov_state, unit) op" where
  "status_update_if_changed c statusSnapshot =
     bind get_obj (\<lambda>p. if statusSnapshot \<noteq> cpr_Status p then try_update_status c else ret ())"

text \<open>From the key to the final status: the secret and its checksum, the persisted key
  metadata, the service account, role and binding, the deployment.\<close>

definition reconcileResources ::
    "'b prov_env \<Rightarrow> 'b prov_client \<Rightarrow> ControlPlane \<Rightarrow> string \<Rightarrow> string \<Rightarrow> key_state \<Rightarrow> CoderProvisionerStatus
       \<Rightarrow> ('b prov_state, duration) op" where
  "reconcileResources env c cp keySecretName keySecretKey ks statusSnapshot =
     bind get_obj (\<lambda>p0.
     bind (in_world (ensureProvisionerKeySecret c p0 keySecretName keySecretKey (ks_Material ks))) (\<lambda>secret.
     non_nil (map_of (sec_Data secret) keySecretKey)
       (ErrorString (Fmt ''assertion failed: provisioner key secret %q is missing key %q after reconciliation''
          [ArgS keySecretName, ArgS keySecretKey])) (\<lambda>secretValue.
     guard (secretValue \<noteq> [])
       (ErrorString (Fmt ''assertion failed: provisioner key secret %q key %q is empty after reconciliation''
          [ArgS keySecretName, ArgS keySecretKey])) (
     let secretChecksum = hashProvisionerSecret secretValue;
         secretRef = \<lparr>sks_Name = keySecretName, sks_Key = keySecretKey\<rparr> in
     bind (setCondition env ''ProvisionerKeySecretReady'' ''True'' ''SecretReady'' (Lit ''Provisioner key secret is available'')) (\<lambda>_.
     bind (persistKeyStatus c ks secretRef statusSnapshot) (\<lambda>snapshot.
     bind get_obj (\<lambda>p.
     let serviceAccountName = provisionerServiceAccountName (m_Name (cpr_meta p));
         roleName = provisionerResourceName (m_Name (cpr_meta p)) in
     bind (in_world (prov_reconcileServiceAccount c p serviceAccountName)) (\<lambda>_.
     bind (in_world (prov_reconcileRole c p roleName)) (\<lambda>role.
     bind (in_world (prov_reconcileRoleBinding c p roleName (m_Name (role_meta role)) serviceAccountName)) (\<lambda>_.
     let img = (if cps_Image (cpr_Spec p) \<noteq> [] then cps_Image (cpr_Spec p)
                  else if cp_Image cp \<noteq> [] then cp_Image cp else defaultCoderImage) in
     bind (in_world (prov_reconcileDeployment c p img (cp_URL cp) secretRef serviceAccountName secretChecksum)) (\<lambda>deployment.
     bind (prov_reconcileStatus env c deployment secretRef ks snapshot) (\<lambda>_. ret 0))))))))))))"

text \<open>From the control plane to the key: conditions, operator token, entitlement, key.\<close>

definition reconcileWithControlPlane ::
    "'b prov_env \<Rightarrow> 'b prov_client \<Rightarrow> 'b BootstrapClient \<Rightarrow> ControlPlane \<Rightarrow> CoderProvisionerStatus \<Rightarrow> ('b prov_state, duration) op" where
  "reconcileWithControlPlane env c bc cp statusSnapshot =
     bind (setCondition env ''ControlPlaneReady'' ''True'' ''ControlPlaneAvailable''
             (Lit ''Referenced control plane is available and has a URL'')) (\<lambda>_.
     bind get_obj (\<lambda>p.
     let organizationName = provisionerOrganizationName (cps_OrganizationName (cpr_Spec p));
         (keyName, keySecretName, keySecretKey) = provisionerKeyConfig p in
     bind (in_world (readOperatorSessionToken c p cp)) (\<lambda>(sessionToken, requeue, reason, message).
     if requeue > 0
     then bind (setCondition env ''OperatorAccessReady'' ''False'' reason message) (\<lambda>_.
          bind (try_update_status c) (\<lambda>_. ret requeue))
     else
       bind (setCondition env ''OperatorAccessReady'' ''True'' reason message) (\<lambda>_.
       handle (reconcileExternalProvisionerEntitlement env bc cp sessionToken)
         (\<lambda>entitlementErr. bind (status_update_if_changed c statusSnapshot) (\<lambda>_. fail entitlementErr))
         (\<lambda>entitlementRequeue.
            if entitlementRequeue > 0
            then bind (status_update_if_changed c statusSnapshot) (\<lambda>_. ret entitlementRequeue)
            else
              bind get_obj (\<lambda>p1.
              bind (in_world (secret_usable c (m_Namespace (cpr_meta p1)) keySecretName keySecretKey)) (\<lambda>secretUsable.
              bind (reconcileKey env c bc
                      \<lparr>dk_URL = cp_URL cp, dk_Token = sessionToken, dk_OrgName = organizationName, dk_KeyName = keyName,
                       dk_Tags = cps_Tags (cpr_Spec p1), dk_RefName = cps_ControlPlaneRef (cpr_Spec p1)\<rparr>
                      (cpr_Status p1) secretUsable) (\<lambda>ks.
              reconcileResources env c cp keySecretName keySecretKey ks statusSnapshot))))))))"

text \<open>The body of \<open>Reconcile\<close>; the result is \<open>RequeueAfter\<close>.\<close>

definition provisioner_body ::
    "'b prov_env \<Rightarrow> 'b prov_client \<Rightarrow> 'b BootstrapClient \<Rightarrow> string \<Rightarrow> string \<Rightarrow> ('b prov_state, duration) op" where
  "provisioner_body env c bc reqNamespace reqName =
     handle (in_world (call (k_Get (vc_Provisioners c) reqNamespace reqName)))
       (\<lambda>err. if IsNotFound err then ret 0
              else fail (WrapError ''get coderprovisioner %s: %w'' [ArgS (namespacedName reqNamespace reqName)] err))
       (\<lambda>p. bind (put_obj p) (\<lambda>_.
     guard (m_Name (cpr_meta p) = reqName \<and> m_Namespace (cpr_meta p) = reqNamespace)
       (ErrorString (Fmt ''assertion failed: fetched object %s/%s does not match request %s/%s''
          [ArgS (m_Namespace (cpr_meta p)), ArgS (m_Name (cpr_meta p)), ArgS reqNamespace, ArgS reqName])) (
     if m_DeletionTimestamp (cpr_meta p) \<noteq> None then reconcileDeletion c bc
     else
       bind (ensureCleanupFinalizer c) (\<lambda>finalizerAdded.
       if finalizerAdded then ret 0
       else
         handle (in_world (fetchControlPlane c p))
           (\<lambda>err.
              bind (setCondition env ''ControlPlaneReady'' ''False'' ''ControlPlaneUnavailable''
                      (Fmt ''Failed to fetch control plane: %v'' [ArgV err])) (\<lambda>_.
              bind (try_update_status c) (\<lambda>_. fail err)))
           (\<lambda>cp. reconcileWithControlPlane env c bc cp (cpr_Status p))))))"

text \<open>The deferred function: a rate-limit error becomes a requeue with back-off, every other
  outcome but a plain requeue forgets the attempts.\<close>

definition rate_limit_defer ::
    "'b prov_env \<Rightarrow> 'b prov_client \<Rightarrow> string \<Rightarrow> string \<Rightarrow> ('b prov_state, duration) op \<Rightarrow> ('b prov_state, duration) op" where
  "rate_limit_defer env c ns name body =
     handle body
       (\<lambda>err.
          if \<not> IsRateLimitError err
          then bind (resetProvisionerRateLimitBackoff ns name) (\<lambda>_. fail err)
          else
            bind (nextProvisionerRateLimitBackoff env ns name) (\<lambda>backoff.
            bind get_obj (\<lambda>p.
            bind (setCondition env keyReadyCondition ''False'' ''RateLimited''
                    (Lit ''Coder API rate limited while reconciling provisioner key'')) (\<lambda>_.
            bind (status_update_if_changed c (cpr_Status p)) (\<lambda>_. ret backoff)))))
       (\<lambda>requeue. if requeue = 0 then bind (resetProvisionerRateLimitBackoff ns name) (\<lambda>_. ret 0) else ret requeue)"

definition Provisioner_Reconcile ::
    "'b prov_env \<Rightarrow> 'b CoderProvisionerReconciler \<Rightarrow> string \<Rightarrow> string \<Rightarrow> ('b prov_state, duration) op" where
  "Provisioner_Reconcile env r reqNamespace reqName =
     non_nil (pr_Client r) (assertion ''reconciler client must not be nil'') (\<lambda>c.
     non_nil (pr_Scheme r) (assertion ''reconciler scheme must not be nil'') (\<lambda>_.
     non_nil (pr_BootstrapClient r) (assertion ''reconciler bootstrap client must not be nil'') (\<lambda>bc.
     rate_limit_defer env c reqNamespace reqName
       (bind (put_obj zero_provisioner) (\<lambda>_. provisioner_body env c bc reqNamespace reqName)))))"

subsection \<open>Watching control planes\<close>

definition indexProvisionerByControlPlaneRefName :: "CoderProvisioner option \<Rightarrow> string list" where
  "indexProvisionerByControlPlaneRefName obj =
     (case obj of None \<Rightarrow> []
      | Some p \<Rightarrow> let controlPlaneName = strings_TrimSpace (cps_ControlPlaneRef (cpr_Spec p)) in
                 if controlPlaneName = [] then [] else [controlPlaneName])"

definition reconcileRequestsForControlPlane ::
    "'b prov_client \<Rightarrow> ControlPlane option \<Rightarrow> ('b, (string \<times> string) list) op" where
  "reconcileRequestsForControlPlane c obj =
     (case obj of None \<Rightarrow> ret []
      | Some cp \<Rightarrow>
        if strings_TrimSpace (cp_Name cp) = [] \<or> strings_TrimSpace (cp_Namespace cp) = [] then ret []
        else handle (call (vc_ListProvisioners c (cp_Namespace cp) (cp_Name cp)))
          (\<lambda>_. ret [])
          (\<lambda>items. ret (map (\<lambda>p. (m_Namespace (cpr_meta p), m_Name (cpr_meta p)))
             (filter (\<lambda>p. strings_TrimSpace (m_Name (cpr_meta p)) \<noteq> [] \<and> strings_TrimSpace (m_Namespace (cpr_meta p)) \<noteq> []) items))))"

section \<open>Lemmas\<close>

subsection \<open>The managed objects\<close>

interpretation prov_dep: owned_object dep_meta "prov_deployment p img url ref sa cs" "''CoderProvisioner''" "cpr_meta p" for p img url ref sa cs
  by unfold_locales (auto simp: prov_deployment_def managed_simps intro: set_controller_foreign dest: managed_dests)

interpretation prov_sa: owned_object sa_meta "prov_service_account p" "''CoderProvisioner''" "cpr_meta p" for p 
  by unfold_locales (auto simp: prov_service_account_def managed_simps intro: set_controller_foreign dest: managed_dests)

interpretation prov_rl: owned_object role_meta "prov_role p" "''CoderProvisioner''" "cpr_meta p" for p 
  by unfold_locales (auto simp: prov_role_def managed_simps intro: set_controller_foreign dest: managed_dests)

interpretation prov_rb: owned_object rb_meta "prov_role_binding p r sa" "''CoderProvisioner''" "cpr_meta p" for p r sa
  by unfold_locales (auto simp: prov_role_binding_def managed_simps intro: set_controller_foreign dest: managed_dests)

interpretation prov_sec: owned_object sec_meta "prov_key_secret p n k mat" "''CoderProvisioner''" "cpr_meta p" for p n k mat
  by unfold_locales (auto simp: prov_key_secret_def managed_simps split: if_splits option.splits intro: set_controller_foreign dest: managed_dests)

end
