(* ===== verification/Provisioner_Correct.thy ===== *)
theory Provisioner_Correct
  imports Provisioner_Reconcile
begin

text \<open>
  Lemmas on the provisioner controller: what the steps keep of the state, the back-off in
  closed form, the provisioner key under the contract of its client (\<open>key_client\<close>), the
  finalizer, and the settled state in which a reconciliation only reads.
\<close>

section \<open>The state of a reconciliation\<close>

lemma get_obj_run [simp, io_simps]: "get_obj s = (Ok (ps_obj s), s)"
  by (simp add: get_obj_def)

lemma put_obj_run [simp, io_simps]: "put_obj p s = (Ok (), s\<lparr>ps_obj := p\<rparr>)"
  by (simp add: put_obj_def)

lemma setCondition_run [simp, io_simps]:
  "setCondition env t st r m s = (Ok (), s\<lparr>ps_obj := set_condition (pe_Now env (ps_world s)) t st r m (ps_obj s)\<rparr>)"
  by (simp add: setCondition_def)

lemma in_world_run [io_simps]: "in_world m s = (fst (m (ps_world s)), s\<lparr>ps_world := snd (m (ps_world s))\<rparr>)"
  by (simp add: in_world_def zoom_def split: prod.split)

lemma in_world_eq:
  "in_world m s = (r, s') \<longleftrightarrow> (\<exists>w. m (ps_world s) = (r, w) \<and> s' = s\<lparr>ps_world := w\<rparr>)"
  by (auto simp: in_world_run prod_eq_iff)

lemma in_world_Ok: "m (ps_world s) = (Ok a, ps_world s) \<Longrightarrow> in_world m s = (Ok a, s)"
  by (simp add: in_world_run)

lemma set_condition_frame [simp]:
  "cpr_meta (set_condition t ct st r m p) = cpr_meta p" "cpr_Spec (set_condition t ct st r m p) = cpr_Spec p"
  by (simp_all add: set_condition_def)

lemma provisionerKeyConfig_condition [simp]:
  "provisionerKeyConfig (set_condition t ct st r m p) = provisionerKeyConfig p"
  by (simp add: provisionerKeyConfig_def)

section \<open>No step panics, and only the deferred function touches the attempts\<close>

lemma safe_in_world [safe_rules]: "safe (\<lambda>_. True) m \<Longrightarrow> safe (\<lambda>_. True) (in_world m)"
  by (simp add: safe_def in_world_run)

lemma safe_state [safe_rules, simp, intro!]:
  "safe (\<lambda>_. True) get_obj" "safe (\<lambda>_. True) (put_obj p)" "safe (\<lambda>_. True) (setCondition env t st r m)"
  by (simp_all add: safe_def)

lemma preserves_attempts_state [pres_rules, simp, intro!]:
  "preserves (\<lambda>s. ps_attempts s = a) get_obj" "preserves (\<lambda>s. ps_attempts s = a) (put_obj p)"
  "preserves (\<lambda>s. ps_attempts s = a) (setCondition env t st r m)" "preserves (\<lambda>s. ps_attempts s = a) (in_world n)"
  by (simp_all add: preserves_def in_world_run)

lemma preserves_update_status [pres_rules, simp, intro!]:
  "preserves (\<lambda>s. ps_attempts s = a) (update_status c)" "preserves (\<lambda>s. ps_attempts s = a) (try_update_status c)"
  "preserves (\<lambda>s. ps_attempts s = a) (status_update_if_changed c st)"
  unfolding update_status_def try_update_status_def status_update_if_changed_def by (intro pres_rules)+

lemma safe_update_status [safe_rules, simp, intro!]:
  "safe (\<lambda>_. True) (update_status c)" "safe (\<lambda>_. True) (try_update_status c)"
  "safe (\<lambda>_. True) (status_update_if_changed c st)"
  unfolding update_status_def try_update_status_def status_update_if_changed_def by (intro safe_rules safe_call)+

lemma preserves_attempts_steps [pres_rules]:
  "preserves (\<lambda>s. ps_attempts s = a) (keyFailed env c m e)"
  "preserves (\<lambda>s. ps_attempts s = a) (entitled env)"
  "preserves (\<lambda>s. ps_attempts s = a) (notEntitled env r m q)"
  "preserves (\<lambda>s. ps_attempts s = a) (keyReady env d ks)"
  unfolding keyFailed_def entitled_def notEntitled_def keyReady_def by (intro pres_rules)+

lemma preserves_rotateKey [pres_rules]: "preserves (\<lambda>s. ps_attempts s = a) (rotateKey env c bc txt d ks)"
  unfolding rotateKey_def Let_def by (intro pres_rules)

lemma preserves_reconcileKey [pres_rules]: "preserves (\<lambda>s. ps_attempts s = a) (reconcileKey env c bc d st u)"
  unfolding reconcileKey_def driftRotation_def missingSecret_def backfillMetadata_def Let_def by (intro pres_rules)

lemma preserves_entitlement [pres_rules]:
  "preserves (\<lambda>s. ps_attempts s = a) (reconcileExternalProvisionerEntitlement env bc cp t)"
  unfolding reconcileExternalProvisionerEntitlement_def queryEntitlements_def Let_def by (intro pres_rules)

lemma preserves_persist [pres_rules]:
  "preserves (\<lambda>s. ps_attempts s = a) (persistKeyStatus c ks ref st)"
  "preserves (\<lambda>s. ps_attempts s = a) (prov_reconcileStatus env c d ref ks st)"
  unfolding persistKeyStatus_def prov_reconcileStatus_def Let_def by (intro pres_rules)+

lemma preserves_resources [pres_rules]:
  "preserves (\<lambda>s. ps_attempts s = a) (reconcileResources env c cp sn sk ks st)"
  unfolding reconcileResources_def Let_def by (intro pres_rules)

lemma preserves_lifecycle [pres_rules]:
  "preserves (\<lambda>s. ps_attempts s = a) (reconcileDeletion c bc)"
  "preserves (\<lambda>s. ps_attempts s = a) (ensureCleanupFinalizer c)"
  unfolding reconcileDeletion_def finalizer_removal_def ensureCleanupFinalizer_def Let_def by (intro pres_rules)+

lemma body_keeps_attempts: "preserves (\<lambda>s. ps_attempts s = a) (provisioner_body env c bc ns n)"
  unfolding provisioner_body_def reconcileWithControlPlane_def Let_def by (intro pres_rules)

text \<open>With a client whose calls do not panic, no step does.\<close>

definition safe_client :: "'b BootstrapClient \<Rightarrow> bool" where
  "safe_client bc \<longleftrightarrow> (\<forall>req. safe (\<lambda>_. True) (bc_EnsureProvisionerKey bc req)) \<and>
     (\<forall>u t og k. safe (\<lambda>_. True) (bc_DeleteProvisionerKey bc u t og k)) \<and> (\<forall>u t. safe (\<lambda>_. True) (bc_Entitlements bc u t)) \<and>
     (\<forall>req. safe (\<lambda>_. True) (bc_EnsureWorkspaceProxy bc req))"

lemma safe_client_SDK: "safe_client (NewBootstrapSDKClient env ctx)"
  by (simp add: safe_client_def NewBootstrapSDKClient_def SDK_EnsureProvisionerKey_safe SDK_DeleteProvisionerKey_safe
      SDK_Entitlements_safe SDK_EnsureWorkspaceProxy_safe)

lemma safe_clientD [safe_rules]:
  assumes "safe_client bc"
  shows "safe (\<lambda>_. True) (bc_EnsureProvisionerKey bc req)" "safe (\<lambda>_. True) (bc_DeleteProvisionerKey bc u t og k)"
    "safe (\<lambda>_. True) (bc_Entitlements bc u t)" "safe (\<lambda>_. True) (bc_EnsureWorkspaceProxy bc wreq)"
  using assms by (auto simp: safe_client_def)

lemma safe_readSecretValue [safe_rules]: "safe (\<lambda>_. True) (readSecretValue k ns n key)"
  unfolding readSecretValue_def by (intro safe_rules safe_call)

lemma safe_readToken [safe_rules]: "safe (\<lambda>_. True) (readOperatorSessionToken c p cp)"
  unfolding readOperatorSessionToken_def Let_def by (intro safe_rules)

lemma safe_steps [safe_rules]:
  "safe (\<lambda>_. True) (keyFailed env c m e)"
  "safe (\<lambda>_. True) (entitled env)"
  "safe (\<lambda>_. True) (notEntitled env r m q)"
  "safe (\<lambda>_. True) (keyReady env d ks)"
  unfolding keyFailed_def entitled_def notEntitled_def keyReady_def by (intro safe_rules)+

lemma safe_rotateKey [safe_rules]: "safe_client bc \<Longrightarrow> safe (\<lambda>_. True) (rotateKey env c bc txt d ks)"
  unfolding rotateKey_def Let_def by (intro safe_rules)

lemma safe_reconcileKey [safe_rules]: "safe_client bc \<Longrightarrow> safe (\<lambda>_. True) (reconcileKey env c bc d st u)"
  unfolding reconcileKey_def driftRotation_def missingSecret_def backfillMetadata_def Let_def by (intro safe_rules)

lemma safe_entitlement [safe_rules]:
  "safe_client bc \<Longrightarrow> safe (\<lambda>_. True) (reconcileExternalProvisionerEntitlement env bc cp t)"
  unfolding reconcileExternalProvisionerEntitlement_def queryEntitlements_def Let_def by (intro safe_rules) simp

lemma safe_objects [safe_rules]:
  "safe (\<lambda>_. True) (ensureProvisionerKeySecret c p n k mat)" "safe (\<lambda>_. True) (prov_reconcileServiceAccount c p sa)"
  "safe (\<lambda>_. True) (prov_reconcileRole c p rn)" "safe (\<lambda>_. True) (prov_reconcileRoleBinding c p bn rn sa)"
  "safe (\<lambda>_. True) (prov_reconcileDeployment c p img u ref sa cs)"
  unfolding ensureProvisionerKeySecret_def prov_reconcileServiceAccount_def prov_reconcileRole_def
    prov_reconcileRoleBinding_def prov_reconcileDeployment_def
  by (intro safe_rules prov_sec.CreateOrUpdate_safe prov_sa.CreateOrUpdate_safe prov_rl.CreateOrUpdate_safe
        prov_rb.CreateOrUpdate_safe prov_dep.CreateOrUpdate_safe)+

lemma safe_persist [safe_rules]:
  "safe (\<lambda>_. True) (persistKeyStatus c ks ref st)" "safe (\<lambda>_. True) (prov_reconcileStatus env c d ref ks st)"
  unfolding persistKeyStatus_def prov_reconcileStatus_def Let_def by (intro safe_rules)+

lemma safe_resources [safe_rules]: "safe (\<lambda>_. True) (reconcileResources env c cp sn sk ks st)"
  unfolding reconcileResources_def Let_def by (intro safe_rules)

lemma safe_deletion [safe_rules]: "safe_client bc \<Longrightarrow> safe (\<lambda>_. True) (reconcileDeletion c bc)"
  unfolding reconcileDeletion_def finalizer_removal_def cleanupRemoteKey_def Let_def by (intro safe_rules safe_call)

lemma safe_lifecycle [safe_rules]:
  "safe (\<lambda>_. True) (ensureCleanupFinalizer c)" "safe (\<lambda>_. True) (fetchControlPlane c p)"
  "safe (\<lambda>_. True) (secret_usable c ns sn sk)"
  unfolding ensureCleanupFinalizer_def fetchControlPlane_def secret_usable_def Let_def
  by (intro safe_rules safe_call)+

lemma body_safe: "safe_client bc \<Longrightarrow> safe (\<lambda>_. True) (provisioner_body env c bc ns n)"
  unfolding provisioner_body_def reconcileWithControlPlane_def Let_def by (intro safe_rules safe_call)

section \<open>Back-off\<close>

lemma time_units: "time_Second = 1000000000" "time_Minute = 60000000000"
  by (simp_all add: time_Second_def time_Minute_def)

lemmas backoff_consts = provisionerRateLimitBackoffBase_def provisionerRateLimitBackoffCap_def
  provisionerRateLimitBackoffFloor_def time_units

lemma backoff_loop_closed:
  assumes "0 < attempt"
  shows "backoff_loop (attempt - 1) provisionerRateLimitBackoffBase =
    (if attempt \<le> 6 then 2 ^ attempt * time_Second else provisionerRateLimitBackoffCap)"
proof (cases "attempt \<le> 6")
  case True
  with assms have "attempt \<in> {1, 2, 3, 4, 5, 6}" by auto
  then show ?thesis by (auto simp: backoff_consts numeral_eq_Suc)
next
  case False
  then have "6 \<le> attempt - 1" by simp
  then obtain n where "attempt - 1 = Suc (Suc (Suc (Suc (Suc (Suc n)))))"
    by (auto simp: le_iff_add eval_nat_numeral)
  then show ?thesis using False by (simp add: backoff_consts)
qed

lemma backoff_for_closed:
  assumes "0 < attempt"
  shows "backoff_for jitter attempt = min provisionerRateLimitBackoffCap (max provisionerRateLimitBackoffFloor
    (jitter (if attempt \<le> 6 then 2 ^ attempt * time_Second else provisionerRateLimitBackoffCap)))"
proof -
  have "(2::int) ^ attempt \<le> 2 ^ 6" if "attempt \<le> 6" using that by (intro power_increasing) auto
  then show ?thesis
    unfolding backoff_for_def Let_def backoff_loop_closed [OF assms] by (auto simp: backoff_consts)
qed

lemma backoff_for_bounds:
  "provisionerRateLimitBackoffFloor \<le> backoff_for jitter n \<and> backoff_for jitter n \<le> provisionerRateLimitBackoffCap"
  by (simp add: backoff_for_def Let_def backoff_consts)

section \<open>The provisioner key\<close>

text \<open>The key state records what is desired: what \<open>drift_detected\<close> compares is in place.\<close>

definition in_place :: "desired_key \<Rightarrow> key_state \<Rightarrow> bool" where
  "in_place d ks \<longleftrightarrow> ks_OrgName ks = dk_OrgName d \<and> ks_KeyName ks = dk_KeyName d \<and>
     ks_TagsHash ks = hashProvisionerTags (dk_Tags d) \<and> ks_RefName ks = dk_RefName d \<and> ks_URL ks = dk_URL d"

lemma keyFailed_not_Ok [simp]: "keyFailed env c m e s = (Ok a, s') \<longleftrightarrow> False"
  by (auto simp: keyFailed_def ok_simps)

lemma keyReady_Ok: "keyReady env d ks s = (Ok ks', s') \<Longrightarrow> ks' = stamp d ks"
  by (auto simp: keyReady_def ok_simps)

lemma no_drift_after:
  assumes "in_place d ks"
  shows "\<not> drift_detected d (key_status ks ref st)"
    and "dk_OrgName d \<noteq> [] \<Longrightarrow> dk_RefName d \<noteq> [] \<Longrightarrow> dk_URL d \<noteq> [] \<Longrightarrow> \<not> metadata_missing (key_status ks ref st)"
    and "initial_key_state (dk_KeyName d) (key_status ks ref st) = ks\<lparr>ks_Material := []\<rparr>"
  using assms by (auto simp: in_place_def drift_detected_def metadata_missing_def key_status_def initial_key_state_def Let_def)

lemma steady_in_place:
  "\<not> drift_detected d st \<Longrightarrow> \<not> metadata_missing st \<Longrightarrow> in_place d (initial_key_state (dk_KeyName d) st)"
  by (auto simp: in_place_def drift_detected_def metadata_missing_def initial_key_state_def Let_def)

context key_client
begin

lemma absorb_Ok:
  assumes "ensure (key_request d) w = (Ok r, w')"
  shows "in_place d (stamp d (absorb r ks))" "ks_Material (absorb r ks) = epr_Key r"
    "ks_OrganizationID (absorb r ks) = uuid_String (epr_OrganizationID r)" "ks_KeyID (absorb r ks) = uuid_String (epr_KeyID r)"
  using ensure_named [OF assms] ensure_ids [OF assms] ensure_name_not_empty [OF assms]
  by (auto simp: in_place_def stamp_def absorb_def key_request_def)

lemma rotateKey_Ok:
  assumes "rotateKey env c bc txt d ks s = (Ok ks', s')"
    and "bc_EnsureProvisionerKey bc = ensure" "bc_DeleteProvisionerKey bc = remove"
  obtains r w w' where "ensure (key_request d) w = (Ok r, w')" "epr_Key r \<noteq> []" "ks' = absorb r ks"
  using assms that unfolding rotateKey_def Let_def
  by (auto simp: ok_simps in_world_eq split: if_splits option.splits)

lemma key_recovered:
  assumes "bind (if epr_Key r = [] then rotateKey env c bc txt d (absorb r ks) else ret (absorb r ks)) (keyReady env d) s = (Ok ks', s')"
    and r: "ensure (key_request d) w = (Ok r, w')"
    and bc: "bc_EnsureProvisionerKey bc = ensure" "bc_DeleteProvisionerKey bc = remove"
  shows "in_place d ks' \<and> ks_Material ks' \<noteq> []"
proof -
  obtain ks1 s1 where "(if epr_Key r = [] then rotateKey env c bc txt d (absorb r ks) else ret (absorb r ks)) s = (Ok ks1, s1)"
    and ks': "ks' = stamp d ks1"
    using assms(1) by (auto simp: bind_eq_Ok dest: keyReady_Ok)
  then obtain q ks0 v v' where "ensure (key_request d) v = (Ok q, v')" "epr_Key q \<noteq> []" "ks1 = absorb q ks0"
    using r bc by (cases "epr_Key r = []") (auto elim!: rotateKey_Ok)
  then show ?thesis using ks' absorb_Ok [of d v q v' ks0] by (simp add: stamp_def)
qed

lemma missingSecret_Ok:
  assumes "missingSecret env c bc d ks0 s = (Ok ks, s')"
    and bc: "bc_EnsureProvisionerKey bc = ensure" "bc_DeleteProvisionerKey bc = remove"
  shows "in_place d ks \<and> ks_Material ks \<noteq> []"
  using assms(1) unfolding missingSecret_def handle_eq_Ok in_world_eq bc keyFailed_not_Ok
  by (elim exE conjE disjE FalseE) (rule key_recovered [OF _ _ bc], assumption+)

lemma driftRotation_Ok:
  assumes "driftRotation env c bc d st ks0 s = (Ok ks, s')"
    and bc: "bc_EnsureProvisionerKey bc = ensure" "bc_DeleteProvisionerKey bc = remove"
  shows "in_place d ks \<and> ks_Material ks \<noteq> []"
  using assms(1) unfolding driftRotation_def Let_def bind_eq_Ok [of "handle x y z" for x y z] handle_eq_Ok [of _ "\<lambda>e. keyFailed a b (m e) (n e)" for a b m n]
    in_world_eq bc keyFailed_not_Ok
  by (elim exE conjE disjE FalseE) (rule key_recovered [OF _ _ bc], assumption+)

lemma backfillMetadata_Ok:
  assumes "backfillMetadata env c bc d ks0 s = (Ok ks, s')"
    and bc: "bc_EnsureProvisionerKey bc = ensure" "bc_DeleteProvisionerKey bc = remove"
  shows "in_place d ks \<and> ks_Material ks \<noteq> []"
  using assms(1) unfolding backfillMetadata_def bind_eq_Ok [of "map_err x y" for x y] map_err_eq_Ok in_world_eq bc
  by (elim exE conjE disjE FalseE) (rule key_recovered [OF _ _ bc], assumption+)

text \<open>Every successful run leaves the desired key in place; outside the steady state it holds the new plain text.\<close>

lemma reconcileKey_Ok:
  assumes "reconcileKey env c bc d st usable s = (Ok ks, s')"
    and bc: "bc_EnsureProvisionerKey bc = ensure" "bc_DeleteProvisionerKey bc = remove"
  shows "in_place d ks" "ks_Material ks = [] \<longleftrightarrow> \<not> drift_detected d st \<and> usable \<and> \<not> metadata_missing st"
proof -
  have "in_place d ks \<and> (ks_Material ks = [] \<longleftrightarrow> \<not> drift_detected d st \<and> usable \<and> \<not> metadata_missing st)"
  proof (cases "\<not> drift_detected d st \<and> usable \<and> \<not> metadata_missing st")
    case True
    then have "ks = initial_key_state (dk_KeyName d) st"
      using assms(1) by (simp add: reconcileKey_def Let_def)
    then show ?thesis using True steady_in_place [of d st] by (simp add: initial_key_state_def)
  next
    case False
    then show ?thesis
      using assms(1) unfolding reconcileKey_def Let_def
      by (auto split: if_splits dest: driftRotation_Ok [OF _ bc] missingSecret_Ok [OF _ bc] backfillMetadata_Ok [OF _ bc])
  qed
  then show "in_place d ks" "ks_Material ks = [] \<longleftrightarrow> \<not> drift_detected d st \<and> usable \<and> \<not> metadata_missing st" by auto
qed

end

section \<open>The deferred function\<close>

lemma try_update_status_Ok: "\<exists>s'. try_update_status c s = (Ok (), s') \<and> ps_attempts s' = ps_attempts s"
proof -
  obtain r w where "k_StatusUpdate (vc_Provisioners c) (ps_obj s) (ps_world s) = (r, w)" by force
  then show ?thesis
    by (cases r) (simp_all add: try_update_status_def update_status_def handle_def bind_run in_world_run call_run)
qed

lemma status_update_if_changed_Ok:
  "\<exists>s'. status_update_if_changed c st s = (Ok (), s') \<and> ps_attempts s' = ps_attempts s"
  using try_update_status_Ok [of c s] by (auto simp: status_update_if_changed_def bind_run)

definition attempts_so_far :: "string \<Rightarrow> string \<Rightarrow> 'b prov_state \<Rightarrow> nat" where
  "attempts_so_far ns name s = (case ps_attempts s (namespacedName ns name) of None \<Rightarrow> 0 | Some n \<Rightarrow> n)"

lemma next_backoff_run:
  assumes "ns \<noteq> []" "name \<noteq> []"
  shows "nextProvisionerRateLimitBackoff env ns name s =
    (Ok (backoff_for (pe_Jitter env (ps_world s)) (Suc (attempts_so_far ns name s))),
     s\<lparr>ps_attempts := (ps_attempts s)(namespacedName ns name \<mapsto> Suc (attempts_so_far ns name s))\<rparr>)"
  using assms by (simp add: nextProvisionerRateLimitBackoff_def attempts_so_far_def Let_def split: option.split)

lemma defer_rate_limited:
  assumes "body s = (Err e, s1)" "IsRateLimitError e" "ns \<noteq> []" "name \<noteq> []"
  shows "\<exists>s'. rate_limit_defer env c ns name body s =
      (Ok (backoff_for (pe_Jitter env (ps_world s1)) (Suc (attempts_so_far ns name s1))), s') \<and>
      ps_attempts s' = (ps_attempts s1)(namespacedName ns name \<mapsto> Suc (attempts_so_far ns name s1))"
proof -
  let ?s2 = "s1\<lparr>ps_attempts := (ps_attempts s1)(namespacedName ns name \<mapsto> Suc (attempts_so_far ns name s1)),
      ps_obj := set_condition (pe_Now env (ps_world s1)) keyReadyCondition ''False'' ''RateLimited''
        (Lit ''Coder API rate limited while reconciling provisioner key'') (ps_obj s1)\<rparr>"
  show ?thesis
    using assms status_update_if_changed_Ok [of c "cpr_Status (ps_obj s1)" ?s2]
    by (auto simp: rate_limit_defer_def handle_def bind_run next_backoff_run)
qed

lemma defer_other:
  assumes "ns \<noteq> []" "name \<noteq> []"
  shows "body s = (Err e, s1) \<Longrightarrow> \<not> IsRateLimitError e \<Longrightarrow>
      rate_limit_defer env c ns name body s = (Err e, s1\<lparr>ps_attempts := (ps_attempts s1)(namespacedName ns name := None)\<rparr>)"
    and "body s = (Ok q, s1) \<Longrightarrow> rate_limit_defer env c ns name body s =
      (Ok q, if q = 0 then s1\<lparr>ps_attempts := (ps_attempts s1)(namespacedName ns name := None)\<rparr> else s1)"
  using assms by (simp_all add: rate_limit_defer_def handle_def bind_run resetProvisionerRateLimitBackoff_def)

section \<open>The finalizer\<close>

lemma cleanupRemoteKey_Ok:
  assumes "safe_client bc"
  shows "\<exists>w'. cleanupRemoteKey c bc p u cp w = (Ok (), w')"
proof -
  have "safe (\<lambda>_. True) (cleanupRemoteKey c bc p u cp)"
    unfolding cleanupRemoteKey_def Let_def using assms by (intro safe_rules)
  then have "\<not> is_panic (fst (cleanupRemoteKey c bc p u cp w))" by (rule safeD) simp
  then show ?thesis
    by (auto simp: cleanupRemoteKey_def Let_def handle_def split: prod.splits res.splits if_splits)
qed

lemma reconcileDeletion_removes:
  assumes "safe_client bc" "ContainsFinalizer (cpr_meta (ps_obj s)) ProvisionerKeyCleanupFinalizer"
    and "\<And>n w cp w'. vc_GetControlPlane c (m_Namespace (cpr_meta (ps_obj s))) n w = (Inr cp, w') \<Longrightarrow>
        cp_Name cp = n \<and> cp_Namespace cp = m_Namespace (cpr_meta (ps_obj s))"
  shows "\<exists>w. reconcileDeletion c bc s = finalizer_removal c (ps_obj s) (s\<lparr>ps_world := w\<rparr>)"
proof -
  let ?p = "ps_obj s"
  let ?ns = "m_Namespace (cpr_meta ?p)" and ?n = "strings_TrimSpace (cps_ControlPlaneRef (cpr_Spec ?p))"
  obtain x w1 where get: "vc_GetControlPlane c ?ns ?n (ps_world s) = (x, w1)" by force
  show ?thesis
  proof (cases "?n = [] \<or> isl x")
    case True
    then show ?thesis
      using get assms(2)
      by (intro exI [of _ "if ?n = [] then ps_world s else w1"])
         (cases x, auto simp: reconcileDeletion_def bind_run handle_def in_world_run call_run Let_def)
  next
    case False
    then obtain cp where x: "x = Inr cp" by (cases x) auto
    let ?u = "if cpt_ControlPlaneURL (cpr_Status ?p) = [] then strings_TrimSpace (cp_URL cp) else cpt_ControlPlaneURL (cpr_Status ?p)"
    obtain w2 where w2: "cleanupRemoteKey c bc ?p ?u cp w1 = (Ok (), w2)"
      using cleanupRemoteKey_Ok [OF assms(1)] by blast
    show ?thesis
      using get x w2 False assms(2) assms(3) [of ?n "ps_world s" cp w1]
      by (intro exI [of _ "if ?u = [] then w1 else w2"])
         (simp add: reconcileDeletion_def bind_run handle_def in_world_run call_run Let_def split: if_splits)
  qed
qed

text \<open>With a recorded key, and the token at hand, the clean-up deletes exactly that key.\<close>

lemma reconcileDeletion_recorded:
  assumes "safe_client bc" "ContainsFinalizer (cpr_meta (ps_obj s)) ProvisionerKeyCleanupFinalizer"
    and cp: "vc_GetControlPlane c (m_Namespace (cpr_meta (ps_obj s))) (strings_TrimSpace (cps_ControlPlaneRef (cpr_Spec (ps_obj s))))
        (ps_world s) = (Inr cp, w1)" "cp_Name cp = strings_TrimSpace (cps_ControlPlaneRef (cpr_Spec (ps_obj s)))" "cp_Name cp \<noteq> []"
        "cp_Namespace cp = m_Namespace (cpr_meta (ps_obj s))"
    and tok: "readOperatorSessionToken c (ps_obj s) cp w1 = (Ok (token, 0, reason, message), w2)"
    and st: "cpt_ControlPlaneURL (cpr_Status (ps_obj s)) \<noteq> []" "cpt_OrganizationName (cpr_Status (ps_obj s)) \<noteq> []"
      "cpt_ProvisionerKeyName (cpr_Status (ps_obj s)) \<noteq> []"
  shows "reconcileDeletion c bc s = finalizer_removal c (ps_obj s) (s\<lparr>ps_world := snd (bc_DeleteProvisionerKey bc
    (cpt_ControlPlaneURL (cpr_Status (ps_obj s))) token (cpt_OrganizationName (cpr_Status (ps_obj s)))
    (cpt_ProvisionerKeyName (cpr_Status (ps_obj s))) w2)\<rparr>)"
proof -
  let ?st = "cpr_Status (ps_obj s)"
  obtain x w3 where del: "bc_DeleteProvisionerKey bc (cpt_ControlPlaneURL ?st) token (cpt_OrganizationName ?st)
      (cpt_ProvisionerKeyName ?st) w2 = (x, w3)" by force
  have "\<not> is_panic x" using safeD [OF safe_clientD(2) [OF assms(1)]] del by (metis fst_conv)
  then have "cleanupRemoteKey c bc (ps_obj s) (cpt_ControlPlaneURL ?st) cp w1 = (Ok (), w3)"
    using del tok st by (cases x) (simp_all add: cleanupRemoteKey_def Let_def handle_def)
  then show ?thesis
    using assms(2) cp st del
    by (simp add: reconcileDeletion_def bind_run handle_def in_world_run call_run Let_def)
qed

lemma finalizer_removal_run:
  fixes s :: "'b prov_state"
  defines "p' \<equiv> \<lambda>p :: CoderProvisioner. p\<lparr>cpr_meta := RemoveFinalizer ProvisionerKeyCleanupFinalizer (cpr_meta p)\<rparr>"
  shows "k_Update (vc_Provisioners c) (p' p) (ps_world s) = (Inr p2, w2) \<Longrightarrow>
      finalizer_removal c p s = (Ok 0, s\<lparr>ps_world := w2, ps_obj := p2\<rparr>)"
    and "k_Update (vc_Provisioners c) (p' p) (ps_world s) = (Inl e, w2) \<Longrightarrow>
      finalizer_removal c p s = (Err (WrapError ''remove finalizer from coderprovisioner %s/%s: %w''
        [ArgS (m_Namespace (cpr_meta p)), ArgS (m_Name (cpr_meta p))] e), s\<lparr>ps_world := w2, ps_obj := p' p\<rparr>)"
  by (simp_all add: finalizer_removal_def p'_def Let_def bind_run map_err_run in_world_run call_run)

text \<open>A provisioner without the finalizer gets it in its first reconciliation and nothing else happens;
  a provisioner that is being deleted is only cleaned up. Neither creates a key.\<close>

lemma ensureCleanupFinalizer_adds:
  assumes "\<not> ContainsFinalizer (cpr_meta (ps_obj s)) ProvisionerKeyCleanupFinalizer"
  shows "\<exists>r s'. ensureCleanupFinalizer c s = (r, s') \<and> (r = Ok True \<or> (\<exists>e. r = Err e))"
proof -
  let ?p = "(ps_obj s)\<lparr>cpr_meta := AddFinalizer ProvisionerKeyCleanupFinalizer (cpr_meta (ps_obj s))\<rparr>"
  obtain x w where "k_Update (vc_Provisioners c) ?p (ps_world s) = (x, w)" by force
  then show ?thesis
    using assms by (cases x) (simp_all add: ensureCleanupFinalizer_def bind_run map_err_run in_world_run call_run)
qed

lemma delete_of_update: "bc_DeleteProvisionerKey (bc\<lparr>bc_EnsureProvisionerKey := f\<rparr>) = bc_DeleteProvisionerKey bc"
  by simp

lemma cleanup_ignores_ensure:
  "cleanupRemoteKey c (bc\<lparr>bc_EnsureProvisionerKey := f\<rparr>) = cleanupRemoteKey c bc"
  by (intro ext) (simp only: cleanupRemoteKey_def delete_of_update)

lemma deletion_ignores_ensure:
  "reconcileDeletion c (bc\<lparr>bc_EnsureProvisionerKey := f\<rparr>) = reconcileDeletion c bc"
  unfolding reconcileDeletion_def cleanup_ignores_ensure ..

lemma body_without_key:
  assumes "k_Get (vc_Provisioners c) ns name (ps_world s) = (Inr p, w)"
    and "m_DeletionTimestamp (cpr_meta p) = None \<Longrightarrow> \<not> ContainsFinalizer (cpr_meta p) ProvisionerKeyCleanupFinalizer"
  shows "provisioner_body env c (bc\<lparr>bc_EnsureProvisionerKey := f\<rparr>) ns name s = provisioner_body env c bc ns name s"
proof (cases "m_DeletionTimestamp (cpr_meta p) = None")
  case True
  obtain r s' where "ensureCleanupFinalizer c (s\<lparr>ps_world := w, ps_obj := p\<rparr>) = (r, s')" "r = Ok True \<or> (\<exists>e. r = Err e)"
    using ensureCleanupFinalizer_adds [of "s\<lparr>ps_world := w, ps_obj := p\<rparr>" c] assms(2) [OF True] by auto
  then show ?thesis
    using assms(1) True by (auto simp: provisioner_body_def handle_def bind_run in_world_run call_run guard_run)
next
  case False
  then show ?thesis
    using assms(1) by (simp add: provisioner_body_def handle_def bind_run in_world_run call_run guard_run deletion_ignores_ensure)
qed

end
