(* ===== verification/Provisioner_Settled.thy ===== *)
theory Provisioner_Settled
  imports Provisioner_Correct
begin

text \<open>
  The settled provisioner: the key in place, its secret usable, every managed object a fixed
  point of its mutate function, the status up to date. A reconciliation in this state only
  reads.
\<close>

section \<open>Definitions\<close>

text \<open>The objects a reconciliation of the provisioner reads.\<close>

record provisioner_objects =
  po_ControlPlane :: ControlPlane
  po_Token :: string
  po_KeySecret :: Secret
  po_ServiceAccount :: ServiceAccount
  po_Role :: Role
  po_RoleBinding :: RoleBinding
  po_Deployment :: Deployment

definition key_value :: "CoderProvisioner \<Rightarrow> Secret \<Rightarrow> string" where
  "key_value p sec = (case map_of (sec_Data sec) (snd (snd (provisionerKeyConfig p))) of None \<Rightarrow> [] | Some v \<Rightarrow> v)"

definition key_ref :: "CoderProvisioner \<Rightarrow> SecretKeySelector" where
  "key_ref p = \<lparr>sks_Name = fst (snd (provisionerKeyConfig p)), sks_Key = snd (snd (provisionerKeyConfig p))\<rparr>"

definition wanted_key :: "CoderProvisioner \<Rightarrow> ControlPlane \<Rightarrow> string \<Rightarrow> desired_key" where
  "wanted_key p cp token = \<lparr>dk_URL = cp_URL cp, dk_Token = token,
     dk_OrgName = provisionerOrganizationName (cps_OrganizationName (cpr_Spec p)), dk_KeyName = fst (provisionerKeyConfig p),
     dk_Tags = cps_Tags (cpr_Spec p), dk_RefName = cps_ControlPlaneRef (cpr_Spec p)\<rparr>"

definition provisioner_image :: "CoderProvisioner \<Rightarrow> ControlPlane \<Rightarrow> string" where
  "provisioner_image p cp = (if cps_Image (cpr_Spec p) \<noteq> [] then cps_Image (cpr_Spec p)
     else if cp_Image cp \<noteq> [] then cp_Image cp else defaultCoderImage)"

text \<open>The API server answers a read with the object and is unchanged; the mutate function keeps the object.\<close>

definition at_rest :: "('o \<Rightarrow> KMeta) \<Rightarrow> ('b, 'o) kind_api \<Rightarrow> string \<Rightarrow> string \<Rightarrow> ('o \<Rightarrow> 'o result) \<Rightarrow> 'o \<Rightarrow> 'b \<Rightarrow> bool" where
  "at_rest meta k ns name desire x w \<longleftrightarrow> k_Get k ns name w = (Inr x, w) \<and> desire x = Ok x \<and>
     m_Namespace (meta x) = ns \<and> m_Name (meta x) = name"

definition objects_settled :: "'b prov_client \<Rightarrow> CoderProvisioner \<Rightarrow> provisioner_objects \<Rightarrow> 'b \<Rightarrow> bool" where
  "objects_settled c p ob w \<longleftrightarrow>
     (let ns = m_Namespace (cpr_meta p); name = m_Name (cpr_meta p); ref = key_ref p;
          account = provisionerServiceAccountName name; resource = provisionerResourceName name in
      at_rest sec_meta (cc_Secrets c) ns (sks_Name ref) (prov_key_secret p (sks_Name ref) (sks_Key ref) []) (po_KeySecret ob) w \<and>
      at_rest sa_meta (cc_ServiceAccounts c) ns account (prov_service_account p) (po_ServiceAccount ob) w \<and>
      at_rest role_meta (cc_Roles c) ns resource (prov_role p) (po_Role ob) w \<and>
      at_rest rb_meta (cc_RoleBindings c) ns resource (prov_role_binding p resource account) (po_RoleBinding ob) w \<and>
      at_rest dep_meta (cc_Deployments c) ns resource
        (prov_deployment p (provisioner_image p (po_ControlPlane ob)) (cp_URL (po_ControlPlane ob)) ref account
           (hashProvisionerSecret (key_value p (po_KeySecret ob)))) (po_Deployment ob) w)"

definition condition_held :: "CoderProvisioner \<Rightarrow> string \<Rightarrow> string \<Rightarrow> string \<Rightarrow> msg \<Rightarrow> bool" where
  "condition_held p ct st reason message \<longleftrightarrow> (\<forall>c\<in>set (cpt_Conditions (cpr_Status p)). c_Type c = ct \<longrightarrow>
       c_Status c = st \<and> c_Reason c = reason \<and> c_Message c = message \<and> c_ObservedGeneration c = m_Generation (cpr_meta p)) \<and>
     ct \<in> c_Type ` set (cpt_Conditions (cpr_Status p))"

definition status_settled :: "CoderProvisioner \<Rightarrow> provisioner_objects \<Rightarrow> bool" where
  "status_settled p ob \<longleftrightarrow>
     (let st = cpr_Status p; ready = dep_ReadyReplicas (po_Deployment ob) > 0 in
      cpt_ProvisionerKeyName st = fst (provisionerKeyConfig p) \<and> cpt_SecretRef st = Some (key_ref p) \<and>
      cpt_ObservedGeneration st = m_Generation (cpr_meta p) \<and> cpt_ReadyReplicas st = dep_ReadyReplicas (po_Deployment ob) \<and>
      cpt_Phase st = (if ready then ''Ready'' else ''Pending'') \<and>
      condition_held p ''ControlPlaneReady'' ''True'' ''ControlPlaneAvailable''
        (Lit ''Referenced control plane is available and has a URL'') \<and>
      condition_held p ''OperatorAccessReady'' ''True'' ''OperatorAccessReady''
        (Lit ''Operator-managed access token from referenced control plane is available'') \<and>
      condition_held p ''ExternalProvisionersEntitled'' ''True'' ''Entitled''
        (Lit ''Coder deployment is entitled to external provisioner daemons'') \<and>
      condition_held p ''ProvisionerKeySecretReady'' ''True'' ''SecretReady'' (Lit ''Provisioner key secret is available'') \<and>
      (if ready
       then condition_held p ''DeploymentReady'' ''True'' ''MinimumReplicasReady'' (Lit ''At least one provisioner pod is ready'')
       else condition_held p ''DeploymentReady'' ''False'' ''NoReplicasReady'' (Lit ''No provisioner pods are ready yet'')))"

text \<open>The control plane is there, operator access is ready, and its entitlement was checked recently.\<close>

definition control_plane_ready :: "'b prov_env \<Rightarrow> 'b prov_client \<Rightarrow> CoderProvisioner \<Rightarrow> provisioner_objects \<Rightarrow> 'b \<Rightarrow> bool" where
  "control_plane_ready env c p ob w \<longleftrightarrow>
     (let cp = po_ControlPlane ob; known = strings_TrimSpace (cp_ExternalProvisionerDaemonsEntitlement cp) in
      fetchControlPlane c p w = (Ok cp, w) \<and> strings_TrimSpace (cp_URL cp) \<noteq> [] \<and>
      readOperatorSessionToken c p cp w = (Ok (po_Token ob, 0, ''OperatorAccessReady'',
        Lit ''Operator-managed access token from referenced control plane is available''), w) \<and> po_Token ob \<noteq> [] \<and>
      durationUntilNextEntitlementsCheck (pe_Now env w) (cp_EntitlementsLastChecked cp) externalProvisionerEntitlementRetryInterval > 0 \<and>
      (known = EntitlementEntitled \<or> known = EntitlementGracePeriod))"

definition provisioner_settled :: "'b prov_env \<Rightarrow> 'b prov_client \<Rightarrow> CoderProvisioner \<Rightarrow> provisioner_objects \<Rightarrow> 'b \<Rightarrow> bool" where
  "provisioner_settled env c p ob w \<longleftrightarrow>
     (let ns = m_Namespace (cpr_meta p); name = m_Name (cpr_meta p) in
      k_Get (vc_Provisioners c) ns name w = (Inr p, w) \<and> m_DeletionTimestamp (cpr_meta p) = None \<and>
      ContainsFinalizer (cpr_meta p) ProvisionerKeyCleanupFinalizer \<and>
      control_plane_ready env c p ob w \<and>
      \<not> drift_detected (wanted_key p (po_ControlPlane ob) (po_Token ob)) (cpr_Status p) \<and> \<not> metadata_missing (cpr_Status p) \<and>
      objects_settled c p ob w \<and> status_settled p ob)"

section \<open>Lemmas\<close>

lemma SetStatusCondition_held:
  assumes "\<forall>c\<in>set cs. c_Type c = c_Type new \<longrightarrow> c_Status c = c_Status new \<and> c_Reason c = c_Reason new \<and>
      c_Message c = c_Message new \<and> c_ObservedGeneration c = c_ObservedGeneration new"
    "c_Type new \<in> c_Type ` set cs"
  shows "SetStatusCondition now new cs = cs"
  using assms by (induction now new cs rule: SetStatusCondition.induct) auto

lemma set_condition_held: "condition_held p ct st r m \<Longrightarrow> set_condition now ct st r m p = p"
  by (simp add: condition_held_def set_condition_def SetStatusCondition_held)

lemma setCondition_held:
  "condition_held (ps_obj s) ct st r m \<Longrightarrow> setCondition env ct st r m s = (Ok (), s)"
  by (simp add: set_condition_held)

lemma entitlement_cached:
  assumes "control_plane_ready env c (ps_obj s) ob (ps_world s)" "status_settled (ps_obj s) ob"
  shows "reconcileExternalProvisionerEntitlement env bc (po_ControlPlane ob) (po_Token ob) s = (Ok 0, s)"
proof -
  have "durationUntilNextEntitlementsCheck (pe_Now env (ps_world s)) (cp_EntitlementsLastChecked (po_ControlPlane ob))
      externalProvisionerEntitlementRetryInterval > 0"
    using assms(1) by (simp add: control_plane_ready_def Let_def)
  then have "cp_EntitlementsLastChecked (po_ControlPlane ob) \<noteq> None"
    by (cases "cp_EntitlementsLastChecked (po_ControlPlane ob)") (simp_all add: durationUntilNextEntitlementsCheck_def)
  then show ?thesis
    using assms by (auto simp: control_plane_ready_def status_settled_def Let_def entitled_def bind_run
        reconcileExternalProvisionerEntitlement_def setCondition_held simp del: setCondition_run)
qed

lemma prov_key_secret_settled:
  assumes "prov_key_secret p n k [] sec = Ok sec"
  obtains v where "map_of (sec_Data sec) k = Some v" "v \<noteq> []"
  using assms that by (auto simp: prov_key_secret_def Let_def split: if_splits option.splits)

lemma objects_settledD:
  assumes "objects_settled c p ob w"
  shows "at_rest sec_meta (cc_Secrets c) (m_Namespace (cpr_meta p)) (sks_Name (key_ref p))
      (prov_key_secret p (sks_Name (key_ref p)) (sks_Key (key_ref p)) []) (po_KeySecret ob) w"
    and "at_rest sa_meta (cc_ServiceAccounts c) (m_Namespace (cpr_meta p)) (provisionerServiceAccountName (m_Name (cpr_meta p)))
      (prov_service_account p) (po_ServiceAccount ob) w"
    and "at_rest role_meta (cc_Roles c) (m_Namespace (cpr_meta p)) (provisionerResourceName (m_Name (cpr_meta p)))
      (prov_role p) (po_Role ob) w"
    and "at_rest rb_meta (cc_RoleBindings c) (m_Namespace (cpr_meta p)) (provisionerResourceName (m_Name (cpr_meta p)))
      (prov_role_binding p (provisionerResourceName (m_Name (cpr_meta p))) (provisionerServiceAccountName (m_Name (cpr_meta p))))
      (po_RoleBinding ob) w"
    and "at_rest dep_meta (cc_Deployments c) (m_Namespace (cpr_meta p)) (provisionerResourceName (m_Name (cpr_meta p)))
      (prov_deployment p (provisioner_image p (po_ControlPlane ob)) (cp_URL (po_ControlPlane ob)) (key_ref p)
         (provisionerServiceAccountName (m_Name (cpr_meta p))) (hashProvisionerSecret (key_value p (po_KeySecret ob)))) (po_Deployment ob) w"
  using assms unfolding objects_settled_def Let_def by blast+

lemma key_value_Some:
  assumes "objects_settled c p ob w"
  shows "map_of (sec_Data (po_KeySecret ob)) (sks_Key (key_ref p)) = Some (key_value p (po_KeySecret ob)) \<and>
    key_value p (po_KeySecret ob) \<noteq> []"
proof -
  have "prov_key_secret p (sks_Name (key_ref p)) (sks_Key (key_ref p)) [] (po_KeySecret ob) = Ok (po_KeySecret ob)"
    using objects_settledD(1) [OF assms] by (simp add: at_rest_def)
  then obtain v where "map_of (sec_Data (po_KeySecret ob)) (sks_Key (key_ref p)) = Some v" "v \<noteq> []"
    by (rule prov_key_secret_settled)
  then show ?thesis by (simp add: key_value_def key_ref_def)
qed

lemma secret_usable_settled:
  assumes "objects_settled c p ob w"
  shows "secret_usable c (m_Namespace (cpr_meta p)) (sks_Name (key_ref p)) (sks_Key (key_ref p)) w = (Ok True, w)"
  using objects_settledD(1) [OF assms] key_value_Some [OF assms]
  by (simp add: at_rest_def secret_usable_def handle_def call_run)

lemma objects_read_only:
  assumes "objects_settled c p ob w"
  shows "ensureProvisionerKeySecret c p (sks_Name (key_ref p)) (sks_Key (key_ref p)) [] w = (Ok (po_KeySecret ob), w)"
    and "prov_reconcileServiceAccount c p (provisionerServiceAccountName (m_Name (cpr_meta p))) w = (Ok (po_ServiceAccount ob), w)"
    and "prov_reconcileRole c p (provisionerResourceName (m_Name (cpr_meta p))) w = (Ok (po_Role ob), w)"
    and "m_Name (role_meta (po_Role ob)) = provisionerResourceName (m_Name (cpr_meta p))"
    and "prov_reconcileRoleBinding c p (provisionerResourceName (m_Name (cpr_meta p)))
      (provisionerResourceName (m_Name (cpr_meta p))) (provisionerServiceAccountName (m_Name (cpr_meta p))) w = (Ok (po_RoleBinding ob), w)"
    and "prov_reconcileDeployment c p (provisioner_image p (po_ControlPlane ob)) (cp_URL (po_ControlPlane ob)) (key_ref p)
      (provisionerServiceAccountName (m_Name (cpr_meta p))) (hashProvisionerSecret (key_value p (po_KeySecret ob))) w = (Ok (po_Deployment ob), w)"
proof -
  note at = objects_settledD [OF assms, unfolded at_rest_def]
  show "ensureProvisionerKeySecret c p (sks_Name (key_ref p)) (sks_Key (key_ref p)) [] w = (Ok (po_KeySecret ob), w)"
    unfolding ensureProvisionerKeySecret_def map_err_eq_Ok using at(1) by (intro prov_sec.CreateOrUpdate_settled) simp_all
  show "prov_reconcileServiceAccount c p (provisionerServiceAccountName (m_Name (cpr_meta p))) w = (Ok (po_ServiceAccount ob), w)"
    unfolding prov_reconcileServiceAccount_def map_err_eq_Ok using at(2) by (intro prov_sa.CreateOrUpdate_settled) simp_all
  show "prov_reconcileRole c p (provisionerResourceName (m_Name (cpr_meta p))) w = (Ok (po_Role ob), w)"
    unfolding prov_reconcileRole_def map_err_eq_Ok using at(3) by (intro prov_rl.CreateOrUpdate_settled) simp_all
  show "m_Name (role_meta (po_Role ob)) = provisionerResourceName (m_Name (cpr_meta p))"
    using at(3) by simp
  show "prov_reconcileRoleBinding c p (provisionerResourceName (m_Name (cpr_meta p)))
      (provisionerResourceName (m_Name (cpr_meta p))) (provisionerServiceAccountName (m_Name (cpr_meta p))) w = (Ok (po_RoleBinding ob), w)"
    unfolding prov_reconcileRoleBinding_def map_err_eq_Ok using at(4) by (intro prov_rb.CreateOrUpdate_settled) simp_all
  show "prov_reconcileDeployment c p (provisioner_image p (po_ControlPlane ob)) (cp_URL (po_ControlPlane ob)) (key_ref p)
      (provisionerServiceAccountName (m_Name (cpr_meta p))) (hashProvisionerSecret (key_value p (po_KeySecret ob))) w = (Ok (po_Deployment ob), w)"
    unfolding prov_reconcileDeployment_def map_err_eq_Ok using at(5) by (intro prov_dep.CreateOrUpdate_settled) simp_all
qed

lemma key_status_settled:
  assumes "\<not> drift_detected (wanted_key p cp tok) (cpr_Status p)" "\<not> metadata_missing (cpr_Status p)" "status_settled p ob"
  shows "key_status (initial_key_state (fst (provisionerKeyConfig p)) (cpr_Status p)) (key_ref p) (cpr_Status p) = cpr_Status p"
  using assms by (simp add: key_status_def initial_key_state_def status_settled_def Let_def)

lemma persist_settled:
  "key_status ks ref (cpr_Status (ps_obj s)) = cpr_Status (ps_obj s) \<Longrightarrow> persistKeyStatus c ks ref st s = (Ok st, s)"
  by (simp add: persistKeyStatus_def bind_run Let_def)

lemma status_fields_settled:
  assumes "status_settled p ob"
  shows "(cpr_Status p)\<lparr>cpt_ObservedGeneration := m_Generation (cpr_meta p),
      cpt_ReadyReplicas := dep_ReadyReplicas (po_Deployment ob),
      cpt_Phase := (if dep_ReadyReplicas (po_Deployment ob) > 0 then ''Ready'' else ''Pending'')\<rparr> = cpr_Status p"
  using assms by (simp add: status_settled_def Let_def)

lemma reconcileStatus_settled:
  assumes "status_settled (ps_obj s) ob" "key_status ks ref (cpr_Status (ps_obj s)) = cpr_Status (ps_obj s)"
  shows "prov_reconcileStatus env c (po_Deployment ob) ref ks (cpr_Status (ps_obj s)) s = (Ok (), s)"
proof -
  have "condition_held (ps_obj s) ''DeploymentReady'' ''True'' ''MinimumReplicasReady'' (Lit ''At least one provisioner pod is ready'')"
    if "dep_ReadyReplicas (po_Deployment ob) > 0"
    using that assms(1) unfolding status_settled_def Let_def by argo
  moreover have "condition_held (ps_obj s) ''DeploymentReady'' ''False'' ''NoReplicasReady'' (Lit ''No provisioner pods are ready yet'')"
    if "\<not> dep_ReadyReplicas (po_Deployment ob) > 0"
    using that assms(1) unfolding status_settled_def Let_def by argo
  ultimately show ?thesis
    unfolding prov_reconcileStatus_def Let_def
    by (simp add: bind_run status_fields_settled [OF assms(1)] assms(2) setCondition_held del: setCondition_run)
qed

text \<open>The conditions every settled run sets again.\<close>

lemma status_settledD:
  assumes "status_settled p ob"
  shows "condition_held p ''ControlPlaneReady'' ''True'' ''ControlPlaneAvailable''
      (Lit ''Referenced control plane is available and has a URL'')"
    and "condition_held p ''OperatorAccessReady'' ''True'' ''OperatorAccessReady''
      (Lit ''Operator-managed access token from referenced control plane is available'')"
    and "condition_held p ''ProvisionerKeySecretReady'' ''True'' ''SecretReady'' (Lit ''Provisioner key secret is available'')"
  using assms unfolding status_settled_def Let_def by blast+

lemma resources_settled:
  assumes ob: "objects_settled c (ps_obj s) ob (ps_world s)" and st: "status_settled (ps_obj s) ob"
    and ks: "key_status ks (key_ref (ps_obj s)) (cpr_Status (ps_obj s)) = cpr_Status (ps_obj s)" "ks_Material ks = []"
    and conf: "provisionerKeyConfig (ps_obj s) = (kn, sn, sk)"
  shows "reconcileResources env c (po_ControlPlane ob) sn sk ks (cpr_Status (ps_obj s)) s = (Ok 0, s)"
proof -
  have ref: "key_ref (ps_obj s) = \<lparr>sks_Name = sn, sks_Key = sk\<rparr>" by (simp add: key_ref_def conf)
  note reads = objects_read_only [OF ob, unfolded ref SecretKeySelector.select_convs]
  note kv = key_value_Some [OF ob, unfolded ref SecretKeySelector.select_convs]
  show ?thesis
    unfolding reconcileResources_def provisioner_image_def [symmetric]
    by (simp add: Let_def bind_run in_world_run reads kv ks [unfolded ref] persist_settled
        setCondition_held [OF status_settledD(3) [OF st]] reconcileStatus_settled [OF st]
        del: setCondition_run)
qed

lemma withControlPlane_settled:
  assumes cp: "control_plane_ready env c (ps_obj s) ob (ps_world s)"
    and ob: "objects_settled c (ps_obj s) ob (ps_world s)" and st: "status_settled (ps_obj s) ob"
    and key: "\<not> drift_detected (wanted_key (ps_obj s) (po_ControlPlane ob) (po_Token ob)) (cpr_Status (ps_obj s))"
      "\<not> metadata_missing (cpr_Status (ps_obj s))"
  shows "reconcileWithControlPlane env c bc (po_ControlPlane ob) (cpr_Status (ps_obj s)) s = (Ok 0, s)"
proof -
  obtain kn sn sk where conf: "provisionerKeyConfig (ps_obj s) = (kn, sn, sk)" by (cases "provisionerKeyConfig (ps_obj s)")
  have ref: "key_ref (ps_obj s) = \<lparr>sks_Name = sn, sks_Key = sk\<rparr>" by (simp add: key_ref_def conf)
  let ?ks = "initial_key_state kn (cpr_Status (ps_obj s))"
  have token: "readOperatorSessionToken c (ps_obj s) (po_ControlPlane ob) (ps_world s) = (Ok (po_Token ob, 0, ''OperatorAccessReady'',
      Lit ''Operator-managed access token from referenced control plane is available''), ps_world s)"
    using cp unfolding control_plane_ready_def Let_def by blast
  have "reconcileKey env c bc (wanted_key (ps_obj s) (po_ControlPlane ob) (po_Token ob)) (cpr_Status (ps_obj s)) True s = (Ok ?ks, s)"
    using key by (simp add: reconcileKey_def Let_def wanted_key_def conf)
  moreover have "secret_usable c (m_Namespace (cpr_meta (ps_obj s))) sn sk (ps_world s) = (Ok True, ps_world s)"
    using secret_usable_settled [OF ob] by (simp add: ref)
  moreover have "reconcileResources env c (po_ControlPlane ob) sn sk ?ks (cpr_Status (ps_obj s)) s = (Ok 0, s)"
    using key_status_settled [OF key st] conf
    by (intro resources_settled [OF ob st _ _ conf]) (simp_all add: initial_key_state_def)
  ultimately show ?thesis
    unfolding reconcileWithControlPlane_def
    by (simp add: bind_run handle_def in_world_run conf token entitlement_cached [OF cp st] wanted_key_def
        setCondition_held [OF status_settledD(1) [OF st]] setCondition_held [OF status_settledD(2) [OF st]] del: setCondition_run)
qed

lemma body_settled:
  assumes "provisioner_settled env c p ob (ps_world s)"
  shows "provisioner_body env c bc (m_Namespace (cpr_meta p)) (m_Name (cpr_meta p)) s = (Ok 0, s\<lparr>ps_obj := p\<rparr>)"
proof -
  let ?s = "s\<lparr>ps_obj := p\<rparr>"
  note settled = assms [unfolded provisioner_settled_def Let_def]
  have "fetchControlPlane c p (ps_world s) = (Ok (po_ControlPlane ob), ps_world s)"
    using settled unfolding control_plane_ready_def Let_def by blast
  moreover have "reconcileWithControlPlane env c bc (po_ControlPlane ob) (cpr_Status (ps_obj ?s)) ?s = (Ok 0, ?s)"
    using settled by (intro withControlPlane_settled) simp_all
  ultimately show ?thesis
    using settled
    by (simp add: provisioner_body_def handle_def bind_run in_world_run call_run ensureCleanupFinalizer_def)
qed

end
