(* ===== verification/Demo_Cluster.thy ===== *)
theory Demo_Cluster
  imports Workspace_Proxy Provisioner_Settled
begin

text \<open>
  A concrete cluster and Coder deployment for evaluating the controllers: an API server that
  stores objects as they are written, one control plane with operator access, and a
  deployment that hands out provisioner keys and proxy tokens. The witnesses of the
  properties run the reconcilers on it; no property assumes anything about it.
\<close>

record cluster =
  kd_Provisioners :: "CoderProvisioner list"
  kd_Proxies :: "CoderWorkspaceProxy list"
  kd_Secrets :: "Secret list"
  kd_Deployments :: "Deployment list"
  kd_Services :: "Service list"
  kd_ServiceAccounts :: "ServiceAccount list"
  kd_Roles :: "Role list"
  kd_RoleBindings :: "RoleBinding list"
  kd_Keys :: "string list"
  kd_Created :: nat

definition missing :: error where
  "missing = StatusError (NewNotFound \<lparr>gr_group = [], gr_resource = []\<rparr> [])"

definition store_api :: "('o \<Rightarrow> KMeta) \<Rightarrow> ('b \<Rightarrow> 'o list) \<Rightarrow> ('o list \<Rightarrow> 'b \<Rightarrow> 'b) \<Rightarrow> ('b, 'o) kind_api" where
  "store_api meta get put =
     (let write = (\<lambda>x w. (Inr x, put (map (\<lambda>y. if m_Name (meta y) = m_Name (meta x) \<and> m_Namespace (meta y) = m_Namespace (meta x)
                              then x else y) (get w)) w)) in
      \<lparr>k_Get = (\<lambda>ns n w. (case find (\<lambda>x. m_Name (meta x) = n \<and> m_Namespace (meta x) = ns) (get w) of
                  None \<Rightarrow> Inl missing | Some x \<Rightarrow> Inr x, w)),
       k_Create = (\<lambda>x w. (Inr x, put (get w @ [x]) w)), k_Update = write, k_StatusUpdate = write\<rparr>)"

definition kd_plane :: ControlPlane where
  "kd_plane = \<lparr>cp_Name = ''main'', cp_Namespace = ''coder'', cp_OperatorAccess_Disabled = False, cp_OperatorAccessReady = True,
     cp_OperatorTokenSecretRef = Some \<lparr>sks_Name = ''op'', sks_Key = ''token''\<rparr>, cp_URL = ''http://c'',
     cp_Image = ''img'', cp_EntitlementsLastChecked = Some 100, cp_ExternalProvisionerDaemonsEntitlement = ''entitled''\<rparr>"

definition kd_core :: "cluster core_client" where
  "kd_core =
     \<lparr>cc_Deployments = store_api dep_meta kd_Deployments (\<lambda>x. kd_Deployments_update (\<lambda>_. x)),
      cc_Services = store_api svc_meta kd_Services (\<lambda>x. kd_Services_update (\<lambda>_. x)),
      cc_Secrets = store_api sec_meta kd_Secrets (\<lambda>x. kd_Secrets_update (\<lambda>_. x)),
      cc_ServiceAccounts = store_api sa_meta kd_ServiceAccounts (\<lambda>x. kd_ServiceAccounts_update (\<lambda>_. x)),
      cc_Roles = store_api role_meta kd_Roles (\<lambda>x. kd_Roles_update (\<lambda>_. x)),
      cc_RoleBindings = store_api rb_meta kd_RoleBindings (\<lambda>x. kd_RoleBindings_update (\<lambda>_. x))\<rparr>"

definition kd_client :: "cluster prov_client" where
  "kd_client = core_client.extend kd_core
     \<lparr>vc_Provisioners = store_api cpr_meta kd_Provisioners (\<lambda>x. kd_Provisioners_update (\<lambda>_. x)),
      vc_GetControlPlane = (\<lambda>ns n w. (if ns = ''coder'' \<and> n = ''main'' then Inr kd_plane else Inl missing, w)),
      vc_ListProvisioners = (\<lambda>ns n w. (Inr (filter (\<lambda>p. m_Namespace (cpr_meta p) = ns \<and> cps_ControlPlaneRef (cpr_Spec p) = n)
         (kd_Provisioners w)), w))\<rparr>"

definition kd_proxy_client :: "cluster proxy_client" where
  "kd_proxy_client = core_client.extend kd_core
     \<lparr>pc_Proxies = store_api wp_meta kd_Proxies (\<lambda>x. kd_Proxies_update (\<lambda>_. x))\<rparr>"

text \<open>The deployment: keys by name; \<open>limited\<close> makes it answer with the status 429.\<close>

definition kd_sdk :: "bool \<Rightarrow> cluster boot_sdk" where
  "kd_sdk limited =
     \<lparr>bs_WorkspaceProxyByName = (\<lambda>_ n w. (Inl (CoderError 404 []), w)),
      bs_CreateWorkspaceProxy = (\<lambda>_ n _ _ w. (Inr (n, ''proxy-token''), w\<lparr>kd_Created := Suc (kd_Created w)\<rparr>)),
      bs_PatchWorkspaceProxy = (\<lambda>_ p _ w. (Inr (wpi_Name p, ''proxy-token''), w)),
      bs_OrganizationByName = (\<lambda>_ n w. (if limited then Inl (CoderError 429 []) else Inr 1, w)),
      bs_ListProvisionerKeys = (\<lambda>_ _ w. (Inr (map (\<lambda>n. \<lparr>pk_ID = 2, pk_Name = n\<rparr>) (kd_Keys w)), w)),
      bs_CreateProvisionerKey = (\<lambda>_ _ n _ w. (Inr ''plain'', w\<lparr>kd_Keys := kd_Keys w @ [n], kd_Created := Suc (kd_Created w)\<rparr>)),
      bs_DeleteProvisionerKey = (\<lambda>_ _ n w. (Inr (), w\<lparr>kd_Keys := filter (\<lambda>k. k \<noteq> n) (kd_Keys w)\<rparr>)),
      bs_Entitlements = (\<lambda>_ w. (Inr (Some [(FeatureExternalProvisionerDaemons, ''entitled'')]), w))\<rparr>"

definition kd_boot :: "bool \<Rightarrow> cluster BootstrapClient" where
  "kd_boot limited = NewBootstrapSDKClient \<lparr>be_url_Parse = Inr, be_sdk = (\<lambda>_. kd_sdk limited)\<rparr> (Some False)"

definition kd_env :: "cluster prov_env" where
  "kd_env = \<lparr>pe_Now = (\<lambda>_. 200), pe_Jitter = (\<lambda>_ d. d)\<rparr>"

definition kd_reconciler :: "bool \<Rightarrow> cluster CoderProvisionerReconciler" where
  "kd_reconciler limited = \<lparr>pr_Client = Some kd_client, pr_Scheme = Some (), pr_BootstrapClient = Some (kd_boot limited)\<rparr>"

definition kd_provisioner :: CoderProvisioner where
  "kd_provisioner = zero_provisioner\<lparr>cpr_meta := (new_meta ''p'' ''coder'')\<lparr>m_UID := ''u1'', m_Generation := 1\<rparr>,
     cpr_Spec := (cpr_Spec zero_provisioner)\<lparr>cps_ControlPlaneRef := ''main''\<rparr>\<rparr>"

definition kd_start :: cluster where
  "kd_start = \<lparr>kd_Provisioners = [kd_provisioner], kd_Proxies = [],
     kd_Secrets = [(new_Secret ''op'' ''coder'')\<lparr>sec_Data := [(''token'', ''tok'')]\<rparr>],
     kd_Deployments = [], kd_Services = [], kd_ServiceAccounts = [], kd_Roles = [], kd_RoleBindings = [],
     kd_Keys = [], kd_Created = 0\<rparr>"

definition kd_state :: "cluster \<Rightarrow> cluster prov_state" where
  "kd_state w = \<lparr>ps_world = w, ps_attempts = (\<lambda>_. None), ps_obj = zero_provisioner\<rparr>"

definition kd_run :: "cluster \<Rightarrow> cluster" where
  "kd_run w = ps_world (snd (Provisioner_Reconcile kd_env (kd_reconciler False) ''coder'' ''p'' (kd_state w)))"

text \<open>Two reconciliations from the fresh object: the finalizer, then everything else.\<close>

definition kd_settled :: cluster where
  "kd_settled = kd_run (kd_run kd_start)"

definition kd_objects :: "cluster \<Rightarrow> provisioner_objects" where
  "kd_objects w = \<lparr>po_ControlPlane = kd_plane, po_Token = ''tok'', po_KeySecret = last (kd_Secrets w),
     po_ServiceAccount = hd (kd_ServiceAccounts w), po_Role = hd (kd_Roles w), po_RoleBinding = hd (kd_RoleBindings w),
     po_Deployment = hd (kd_Deployments w)\<rparr>"

definition kd_check :: "cluster \<Rightarrow> bool" where
  "kd_check w \<longleftrightarrow> provisioner_settled kd_env kd_client (hd (kd_Provisioners w)) (kd_objects w) w \<and>
     m_Namespace (cpr_meta (hd (kd_Provisioners w))) = ''coder'' \<and> m_Name (cpr_meta (hd (kd_Provisioners w))) = ''p''"

lemma kd_honest:
  "vc_GetControlPlane kd_client ''coder'' n w = (Inr cp, w') \<Longrightarrow> cp_Name cp = n \<and> cp_Namespace cp = ''coder''"
  by (auto simp: kd_client_def core_client.defs kd_plane_def split: if_splits)

lemma kd_update:
  "fst (k_Update (vc_Provisioners kd_client) p w) = Inr p"
  by (simp add: kd_client_def core_client.defs store_api_def Let_def)

end
