(* ===== verification/Controller_Properties.thy ===== *)
theory Controller_Properties
  imports Demo_Cluster
begin

text \<open>
  Properties of the provisioner and workspace proxy controllers, with their witnesses on the
  demonstration cluster.
\<close>

section \<open>Lemmas\<close>

lemma proxy_token_secret_data:
  "proxy_token_secret wp key token x = Ok y \<Longrightarrow> map_of (sec_Data y) key = Some token"
  by (auto simp: proxy_token_secret_def managed_simps)

text \<open>A stored token is used as it is; the bootstrap client is not asked.\<close>

lemma resolve_with_token:
  assumes "wps_Bootstrap (wp_Spec wp) = Some b"
    and "k_Get (cc_Secrets c) (m_Namespace (wp_meta wp)) (or_default (m_Name (wp_meta wp) @ ''-proxy-token'') (pb_GeneratedTokenSecretName b)) v = (Inr y, v')"
    and "map_of (sec_Data y) DefaultTokenSecretKey = Some token" "token \<noteq> []"
  shows "resolveProxyCredentials c (Some bc) wp v =
    (Ok (or_default (pb_CoderURL b) (wps_PrimaryAccessURL (wp_Spec wp)),
         Some \<lparr>sks_Name = or_default (m_Name (wp_meta wp) @ ''-proxy-token'') (pb_GeneratedTokenSecretName b),
               sks_Key = DefaultTokenSecretKey\<rparr>, True), v')"
  using assms by (simp add: resolveProxyCredentials_def readSecretValue_def handle_def bind_run call_run Let_def)

lemma registerProxy_Ok:
  assumes "registerProxy c bc wp b n w = (Ok u, w')"
  obtains cred resp y r w1 w2 w3 where
    "readSecretValue (cc_Secrets c) (m_Namespace (wp_meta wp)) (sks_Name (pb_CredentialsSecretRef b))
       (or_default DefaultTokenSecretKey (sks_Key (pb_CredentialsSecretRef b))) w = (Ok cred, w1)"
    "bc_EnsureWorkspaceProxy bc \<lparr>rwp_CoderURL = pb_CoderURL b, rwp_SessionToken = cred,
       rwp_ProxyName = or_default (m_Name (wp_meta wp)) (pb_ProxyName b), rwp_DisplayName = pb_DisplayName b,
       rwp_Icon = pb_Icon b\<rparr> w1 = (Ok resp, w2)"
    "map_of (sec_Data y) DefaultTokenSecretKey = Some (rwr_ProxyToken resp)"
    "k_Create (cc_Secrets c) y w3 = (Inr r, w') \<or> k_Update (cc_Secrets c) y w3 = (Inr r, w') \<or>
     k_Get (cc_Secrets c) (m_Namespace (wp_meta wp)) n w2 = (Inr y, w')"
proof -
  from assms obtain cred resp r w1 w2 where
    1: "readSecretValue (cc_Secrets c) (m_Namespace (wp_meta wp)) (sks_Name (pb_CredentialsSecretRef b))
       (or_default DefaultTokenSecretKey (sks_Key (pb_CredentialsSecretRef b))) w = (Ok cred, w1)"
    and 2: "bc_EnsureWorkspaceProxy bc \<lparr>rwp_CoderURL = pb_CoderURL b, rwp_SessionToken = cred,
       rwp_ProxyName = or_default (m_Name (wp_meta wp)) (pb_ProxyName b), rwp_DisplayName = pb_DisplayName b,
       rwp_Icon = pb_Icon b\<rparr> w1 = (Ok resp, w2)"
    and 3: "CreateOrUpdate sec_meta (cc_Secrets c) (new_Secret n (m_Namespace (wp_meta wp)))
      (proxy_token_secret wp DefaultTokenSecretKey (rwr_ProxyToken resp)) w2 = (Ok r, w')"
    unfolding registerProxy_def ensureTokenSecret_def Let_def by (auto simp: ok_simps)
  from 3 show ?thesis
  proof (cases rule: proxy_sec.CreateOrUpdate_Ok)
    case (created e b1 new)
    then show ?thesis using that [OF 1 2] proxy_token_secret_data by blast
  next
    case unchanged
    then show ?thesis using that [OF 1 2] proxy_token_secret_data by (fastforce simp: new_Secret_def new_meta_def)
  next
    case (updated existing b1 new)
    then show ?thesis using that [OF 1 2] proxy_token_secret_data by blast
  qed
qed

lemmas foreign_rules = proxy_dep.foreign_untouched proxy_svc.foreign_untouched proxy_sec.foreign_untouched
  prov_sec.foreign_untouched prov_sa.foreign_untouched prov_rl.foreign_untouched prov_rb.foreign_untouched prov_dep.foreign_untouched

section \<open>Provisioners\<close>

text \<open>
  C28: A reconciliation of a provisioner never panics with the SDK-backed client and never
  returns a rate-limit error. When the body ends with a rate-limit error, the reconciliation
  succeeds and asks to be called again after the back-off of one attempt more; after any
  other error, and after a success without requeue, the attempts of this provisioner are
  forgotten. The attempts of other provisioners never change.
\<close>

theorem provisioner_rate_limit:
  assumes r: "r = \<lparr>pr_Client = Some c, pr_Scheme = Some u, pr_BootstrapClient = Some (NewBootstrapSDKClient benv ctx)\<rparr>"
    and names: "ns \<noteq> []" "name \<noteq> []"
    and body: "provisioner_body env c (NewBootstrapSDKClient benv ctx) ns name (s\<lparr>ps_obj := zero_provisioner\<rparr>) = (outcome, s1)"
    and run: "Provisioner_Reconcile env r ns name s = (res, s')"
  shows "case outcome of
      Err e \<Rightarrow> if IsRateLimitError e
        then res = Ok (backoff_for (pe_Jitter env (ps_world s1)) (Suc (attempts_so_far ns name s))) \<and>
          ps_attempts s' = (ps_attempts s)(namespacedName ns name \<mapsto> Suc (attempts_so_far ns name s))
        else res = Err e \<and> ps_attempts s' = (ps_attempts s)(namespacedName ns name := None)
    | Ok q \<Rightarrow> res = Ok q \<and>
        ps_attempts s' = (if q = 0 then (ps_attempts s)(namespacedName ns name := None) else ps_attempts s)
    | Panic _ \<Rightarrow> False"
proof -
  let ?bc = "NewBootstrapSDKClient benv ctx" and ?s0 = "s\<lparr>ps_obj := zero_provisioner\<rparr>"
  let ?b = "bind (put_obj zero_provisioner) (\<lambda>_. provisioner_body env c ?bc ns name)"
  have b: "?b s = (outcome, s1)" by (simp add: bind_run body)
  have res: "rate_limit_defer env c ns name ?b s = (res, s')" using run r by (simp add: Provisioner_Reconcile_def)
  have att: "ps_attempts s1 = ps_attempts s" using preservesD [OF body_keeps_attempts _ body] by simp
  then have so_far: "attempts_so_far ns name s1 = attempts_so_far ns name s" by (simp add: attempts_so_far_def)
  have "\<not> is_panic (fst (provisioner_body env c ?bc ns name ?s0))" by (rule safeD [OF body_safe [OF safe_client_SDK]]) simp
  then have "\<not> is_panic outcome" using body by simp
  then show ?thesis
  proof (cases outcome)
    case (Ok q)
    with b res att defer_other(2) [OF names, of ?b s q s1 env c] show ?thesis by auto
  next
    case (Err e)
    with b res att so_far names defer_rate_limited [of ?b s e s1 ns name env c] defer_other(1) [OF names, of ?b s e s1 env c]
    show ?thesis by auto
  qed simp
qed

theorem provisioner_rate_limit_witness:
  "fst (Provisioner_Reconcile kd_env (kd_reconciler True) ''coder'' ''p'' (kd_state (kd_run kd_start))) = Ok (2 * time_Second)"
proof -
  let ?s = "kd_state (kd_run kd_start)"
  obtain res s' where run: "Provisioner_Reconcile kd_env (kd_reconciler True) ''coder'' ''p'' ?s = (res, s')" by force
  let ?o = "provisioner_body kd_env kd_client (kd_boot True) ''coder'' ''p'' (?s\<lparr>ps_obj := zero_provisioner\<rparr>)"
  have limited: "(case fst ?o of Err e \<Rightarrow> IsRateLimitError e | _ \<Rightarrow> False)" by code_simp
  obtain outcome s1 where o: "?o = (outcome, s1)" by force
  then obtain e where e: "outcome = Err e" "IsRateLimitError e" using limited by (cases outcome) auto
  have "res = Ok (backoff_for (pe_Jitter kd_env (ps_world s1)) (Suc (attempts_so_far ''coder'' ''p'' ?s)))"
    using provisioner_rate_limit [OF kd_reconciler_def [of True, unfolded kd_boot_def] _ _ o [unfolded kd_boot_def] run] e by simp
  moreover have "backoff_for (pe_Jitter kd_env (ps_world s1)) (Suc (attempts_so_far ''coder'' ''p'' ?s)) = 2 * time_Second"
    by (simp add: kd_env_def kd_state_def attempts_so_far_def backoff_for_closed backoff_consts)
  ultimately show ?thesis using run by simp
qed

text \<open>
  The back-off after the n-th rate-limited reconciliation in a row is the jittered
  \<open>2 ^ n\<close> seconds, and two minutes from the seventh on, kept between one second and two minutes.
\<close>

lemma provisioner_backoff:
  assumes "ns \<noteq> []" "name \<noteq> []" "ps_attempts s (namespacedName ns name) = (if n = 0 then None else Some n)"
  shows "nextProvisionerRateLimitBackoff env ns name s =
      (Ok (min (2 * time_Minute) (max (1 * time_Second)
         (pe_Jitter env (ps_world s) (if n < 6 then 2 ^ Suc n * time_Second else 2 * time_Minute)))),
       s\<lparr>ps_attempts := (ps_attempts s)(namespacedName ns name \<mapsto> Suc n)\<rparr>)"
proof -
  have "attempts_so_far ns name s = n" using assms(3) by (simp add: attempts_so_far_def)
  then show ?thesis
    using backoff_for_closed [of "Suc n" "pe_Jitter env (ps_world s)"]
    by (simp add: next_backoff_run [OF assms(1,2)] provisionerRateLimitBackoffCap_def provisionerRateLimitBackoffFloor_def Suc_le_eq)
qed

text \<open>
  C13: A reconciliation of the provisioner key that succeeds leaves the key in place under the
  desired name, tags, organization and control plane, with fresh plain text whenever the
  stored one cannot be used; and once its result is in the status and the secret is usable,
  the next one does nothing, whatever the client: no key is rotated twice for one change.
\<close>

theorem provisioner_key_converges:
  assumes run: "reconcileKey env c (NewBootstrapSDKClient benv ctx) d st usable s = (Ok ks, s')"
    and d: "dk_OrgName d \<noteq> []" "dk_RefName d \<noteq> []" "dk_URL d \<noteq> []"
  shows "in_place d ks \<and>
    (ks_Material ks = [] \<longleftrightarrow> usable \<and> \<not> drift_detected d st \<and> \<not> metadata_missing st) \<and>
    reconcileKey env2 c2 bc2 d (key_status ks ref st2) True s2 = (Ok (ks\<lparr>ks_Material := []\<rparr>), s2)"
proof (intro conjI)
  note sdk = sdk_keys.reconcileKey_Ok [OF run, of benv ctx]
  show p: "in_place d ks" by (rule sdk(1)) (simp_all add: NewBootstrapSDKClient_def)
  show "ks_Material ks = [] \<longleftrightarrow> usable \<and> \<not> drift_detected d st \<and> \<not> metadata_missing st"
    using sdk(2) by (auto simp: NewBootstrapSDKClient_def)
  show "reconcileKey env2 c2 bc2 d (key_status ks ref st2) True s2 = (Ok (ks\<lparr>ks_Material := []\<rparr>), s2)"
    using no_drift_after [OF p] d by (simp add: reconcileKey_def Let_def)
qed

definition kd_wanted :: desired_key where
  "kd_wanted = \<lparr>dk_URL = ''http://c'', dk_Token = ''tok'', dk_OrgName = ''default'', dk_KeyName = ''p'', dk_Tags = [], dk_RefName = ''main''\<rparr>"

theorem provisioner_key_converges_witness:
  "\<exists>ks s'. reconcileKey kd_env kd_client (kd_boot False) kd_wanted (cpr_Status zero_provisioner) False (kd_state kd_start) = (Ok ks, s') \<and>
     in_place kd_wanted ks \<and> ks_Material ks \<noteq> [] \<and>
     reconcileKey kd_env kd_client (kd_boot True) kd_wanted (key_status ks (key_ref kd_provisioner) (cpr_Status zero_provisioner)) True s'
       = (Ok (ks\<lparr>ks_Material := []\<rparr>), s')"
proof -
  let ?run = "reconcileKey kd_env kd_client (kd_boot False) kd_wanted (cpr_Status zero_provisioner) False (kd_state kd_start)"
  have "is_ok (fst ?run)" by code_simp
  then obtain ks s' where run: "?run = (Ok ks, s')" by (metis is_ok_iff prod.collapse)
  have d: "dk_OrgName kd_wanted \<noteq> []" "dk_RefName kd_wanted \<noteq> []" "dk_URL kd_wanted \<noteq> []" by (simp_all add: kd_wanted_def)
  show ?thesis
    using run provisioner_key_converges [OF run [unfolded kd_boot_def] d, of kd_env kd_client "kd_boot True" "key_ref kd_provisioner"
      "cpr_Status zero_provisioner" s'] by auto
qed

text \<open>
  C30: A provisioner key is created only for a live provisioner whose clean-up finalizer is
  stored: for an object without the finalizer, or one that is being deleted, the result does
  not depend on the client's call that creates keys. A new object gets the finalizer in its
  first reconciliation, by one update, and nothing else happens.
\<close>

theorem provisioner_finalizer_first:
  assumes r: "r = \<lparr>pr_Client = Some c, pr_Scheme = Some u, pr_BootstrapClient = Some bc\<rparr>"
    and get: "k_Get (vc_Provisioners c) ns name (ps_world s) = (Inr p, w)"
    and p: "m_DeletionTimestamp (cpr_meta p) \<noteq> None \<or> \<not> ContainsFinalizer (cpr_meta p) ProvisionerKeyCleanupFinalizer"
  shows "Provisioner_Reconcile env (r\<lparr>pr_BootstrapClient := Some (bc\<lparr>bc_EnsureProvisionerKey := f\<rparr>)\<rparr>) ns name s
      = Provisioner_Reconcile env r ns name s \<and>
    (m_DeletionTimestamp (cpr_meta p) = None \<and> m_Name (cpr_meta p) = name \<and> m_Namespace (cpr_meta p) = ns \<and>
      ns \<noteq> [] \<and> name \<noteq> [] \<and>
      k_Update (vc_Provisioners c) (p\<lparr>cpr_meta := (cpr_meta p)\<lparr>m_Finalizers := m_Finalizers (cpr_meta p) @ [ProvisionerKeyCleanupFinalizer]\<rparr>\<rparr>) w
        = (Inr p2, w2) \<longrightarrow>
      Provisioner_Reconcile env r ns name s =
        (Ok 0, \<lparr>ps_world = w2, ps_attempts = (ps_attempts s)(namespacedName ns name := None), ps_obj = p2\<rparr>))"
proof (intro conjI impI; (elim conjE)?)
  let ?s0 = "s\<lparr>ps_obj := zero_provisioner\<rparr>"
  have "provisioner_body env c (bc\<lparr>bc_EnsureProvisionerKey := f\<rparr>) ns name ?s0 = provisioner_body env c bc ns name ?s0"
    using get p by (intro body_without_key [of _ _ _ _ p w]) auto
  then show "Provisioner_Reconcile env (r\<lparr>pr_BootstrapClient := Some (bc\<lparr>bc_EnsureProvisionerKey := f\<rparr>)\<rparr>) ns name s
      = Provisioner_Reconcile env r ns name s"
    by (simp add: r Provisioner_Reconcile_def rate_limit_defer_def handle_def bind_run)
  assume live: "m_DeletionTimestamp (cpr_meta p) = None" "m_Name (cpr_meta p) = name" "m_Namespace (cpr_meta p) = ns" "ns \<noteq> []" "name \<noteq> []"
    and upd: "k_Update (vc_Provisioners c) (p\<lparr>cpr_meta := (cpr_meta p)\<lparr>m_Finalizers := m_Finalizers (cpr_meta p) @ [ProvisionerKeyCleanupFinalizer]\<rparr>\<rparr>) w
      = (Inr p2, w2)"
  have "AddFinalizer ProvisionerKeyCleanupFinalizer (cpr_meta p) =
      (cpr_meta p)\<lparr>m_Finalizers := m_Finalizers (cpr_meta p) @ [ProvisionerKeyCleanupFinalizer]\<rparr>"
    using p live by (simp add: AddFinalizer_def ContainsFinalizer_def)
  then have "provisioner_body env c bc ns name ?s0 = (Ok 0, s\<lparr>ps_world := w2, ps_obj := p2\<rparr>)"
    using get p live upd
    by (simp add: provisioner_body_def handle_def bind_run in_world_run call_run ensureCleanupFinalizer_def map_err_run)
  then show "Provisioner_Reconcile env r ns name s =
        (Ok 0, \<lparr>ps_world = w2, ps_attempts = (ps_attempts s)(namespacedName ns name := None), ps_obj = p2\<rparr>)"
    using live defer_other(2) [of ns name "bind (put_obj zero_provisioner) (\<lambda>_. provisioner_body env c bc ns name)" s 0]
    by (simp add: r Provisioner_Reconcile_def bind_run)
qed

theorem provisioner_finalizer_first_witness:
  "Provisioner_Reconcile kd_env ((kd_reconciler False)\<lparr>pr_BootstrapClient := Some ((kd_boot False)\<lparr>bc_EnsureProvisionerKey := \<lambda>_. panic (Lit [])\<rparr>)\<rparr>)
     ''coder'' ''p'' (kd_state kd_start)
   = Provisioner_Reconcile kd_env (kd_reconciler False) ''coder'' ''p'' (kd_state kd_start)"
  by (rule provisioner_finalizer_first [OF kd_reconciler_def, of _ _ _ kd_provisioner kd_start, THEN conjunct1])
     (simp_all add: kd_client_def core_client.defs kd_core_def store_api_def kd_state_def kd_start_def kd_provisioner_def
        zero_provisioner_def new_meta_def Let_def ContainsFinalizer_def)

text \<open>
  C31: The deletion of a provisioner is best effort: whatever the control plane, the token
  secret and the Coder deployment answer, the reconciliation ends with the update that removes
  the finalizer; it succeeds when that update does and returns its error otherwise. When the
  status has recorded the key and the token can be read, the key that is deleted is the
  recorded one.
\<close>

theorem provisioner_deletion:
  assumes fin: "ContainsFinalizer (cpr_meta p) ProvisionerKeyCleanupFinalizer"
    and s: "ps_obj s = p"
    and honest: "\<And>n w cp w'. vc_GetControlPlane c (m_Namespace (cpr_meta p)) n w = (Inr cp, w') \<Longrightarrow>
        cp_Name cp = n \<and> cp_Namespace cp = m_Namespace (cpr_meta p)"
    and p': "p' = p\<lparr>cpr_meta := (cpr_meta p)\<lparr>m_Finalizers := removeAll ProvisionerKeyCleanupFinalizer (m_Finalizers (cpr_meta p))\<rparr>\<rparr>"
    and finish: "\<And>w. finish w = (case k_Update (vc_Provisioners c) p' w of
        (Inr stored, after) \<Rightarrow> (Ok 0, s\<lparr>ps_world := after, ps_obj := stored\<rparr>)
      | (Inl e, after) \<Rightarrow> (Err (WrapError ''remove finalizer from coderprovisioner %s/%s: %w''
            [ArgS (m_Namespace (cpr_meta p)), ArgS (m_Name (cpr_meta p))] e), s\<lparr>ps_world := after, ps_obj := p'\<rparr>))"
  shows "(\<exists>w. reconcileDeletion c (NewBootstrapSDKClient benv ctx) s = finish w) \<and>
    (cps_ControlPlaneRef (cpr_Spec p) = ref \<and> strings_TrimSpace ref \<noteq> [] \<and>
      vc_GetControlPlane c (m_Namespace (cpr_meta p)) (strings_TrimSpace ref) (ps_world s) = (Inr cp, w1) \<and>
      readOperatorSessionToken c p cp w1 = (Ok (token, 0, reason, message), w2) \<and>
      cpt_ControlPlaneURL (cpr_Status p) \<noteq> [] \<and> cpt_OrganizationName (cpr_Status p) \<noteq> [] \<and>
      cpt_ProvisionerKeyName (cpr_Status p) \<noteq> [] \<and>
      SDK_DeleteProvisionerKey benv ctx (cpt_ControlPlaneURL (cpr_Status p)) token (cpt_OrganizationName (cpr_Status p))
        (cpt_ProvisionerKeyName (cpr_Status p)) w2 = (deleted, w3) \<longrightarrow>
      reconcileDeletion c (NewBootstrapSDKClient benv ctx) s = finish w3)"
proof (intro conjI impI; (elim conjE)?)
  let ?bc = "NewBootstrapSDKClient benv ctx"
  have "RemoveFinalizer ProvisionerKeyCleanupFinalizer (cpr_meta p) =
      (cpr_meta p)\<lparr>m_Finalizers := removeAll ProvisionerKeyCleanupFinalizer (m_Finalizers (cpr_meta p))\<rparr>"
    by (simp add: RemoveFinalizer_def removeAll_filter_not_eq eq_commute)
  then have removal: "finalizer_removal c p (s\<lparr>ps_world := w\<rparr>) = finish w" for w
    using finalizer_removal_run [of c p "s\<lparr>ps_world := w\<rparr>"] by (auto simp: p' finish split: prod.split sum.split)
  obtain w where "reconcileDeletion c ?bc s = finalizer_removal c p (s\<lparr>ps_world := w\<rparr>)"
    using reconcileDeletion_removes [OF safe_client_SDK, of s c] fin honest s by blast
  then show "\<exists>w. reconcileDeletion c ?bc s = finish w" using removal by metis
  assume h: "cps_ControlPlaneRef (cpr_Spec p) = ref" "strings_TrimSpace ref \<noteq> []"
    "vc_GetControlPlane c (m_Namespace (cpr_meta p)) (strings_TrimSpace ref) (ps_world s) = (Inr cp, w1)"
    "readOperatorSessionToken c p cp w1 = (Ok (token, 0, reason, message), w2)"
    "cpt_ControlPlaneURL (cpr_Status p) \<noteq> []" "cpt_OrganizationName (cpr_Status p) \<noteq> []"
    "cpt_ProvisionerKeyName (cpr_Status p) \<noteq> []"
    "SDK_DeleteProvisionerKey benv ctx (cpt_ControlPlaneURL (cpr_Status p)) token (cpt_OrganizationName (cpr_Status p))
        (cpt_ProvisionerKeyName (cpr_Status p)) w2 = (deleted, w3)"
  have "reconcileDeletion c ?bc s = finalizer_removal c p (s\<lparr>ps_world := w3\<rparr>)"
    using reconcileDeletion_recorded [OF safe_client_SDK, of s c cp w1 token reason message w2 benv ctx] fin s h honest [OF h(3)]
    by (simp add: NewBootstrapSDKClient_def)
  then show "reconcileDeletion c ?bc s = finish w3" using removal by simp
qed

definition kd_deleting :: CoderProvisioner where
  "kd_deleting = kd_provisioner\<lparr>cpr_meta := (cpr_meta kd_provisioner)\<lparr>m_DeletionTimestamp := Some 150,
     m_Finalizers := [ProvisionerKeyCleanupFinalizer]\<rparr>\<rparr>"

theorem provisioner_deletion_witness:
  "\<exists>w. reconcileDeletion kd_client (kd_boot True) (kd_state kd_start\<lparr>ps_obj := kd_deleting\<rparr>) =
     (Ok 0, (kd_state kd_start)\<lparr>ps_world := w, ps_obj := kd_deleting\<lparr>cpr_meta := (cpr_meta kd_deleting)\<lparr>m_Finalizers := []\<rparr>\<rparr>\<rparr>)"
proof -
  let ?p = "kd_deleting\<lparr>cpr_meta := (cpr_meta kd_deleting)\<lparr>m_Finalizers := []\<rparr>\<rparr>" and ?s = "kd_state kd_start\<lparr>ps_obj := kd_deleting\<rparr>"
  have fin: "m_Finalizers (cpr_meta kd_deleting) = [ProvisionerKeyCleanupFinalizer]" by (simp add: kd_deleting_def)
  have ns: "m_Namespace (cpr_meta kd_deleting) = ''coder''" by (simp add: kd_deleting_def kd_provisioner_def new_meta_def)
  have "\<exists>w. reconcileDeletion kd_client (kd_boot True) ?s = (\<lambda>w. (Ok 0, ?s\<lparr>ps_world := snd (k_Update (vc_Provisioners kd_client) ?p w), ps_obj := ?p\<rparr>)) w"
    unfolding kd_boot_def
    by (rule provisioner_deletion [where p' = ?p and p = kd_deleting, THEN conjunct1])
       (simp_all add: fin ns ContainsFinalizer_def kd_honest kd_update prod_eq_iff split: prod.split)
  then show ?thesis by auto
qed

text \<open>
  C29: A settled provisioner is only read: with its key in place and usable, every managed
  object as desired, the status up to date and the entitlement checked recently, a
  reconciliation succeeds without a write and without any call to the Coder deployment.
\<close>

theorem provisioner_settled_reads:
  assumes "provisioner_settled env c p ob (ps_world s)"
    and "m_Namespace (cpr_meta p) \<noteq> []" "m_Name (cpr_meta p) \<noteq> []"
  shows "Provisioner_Reconcile env \<lparr>pr_Client = Some c, pr_Scheme = Some u, pr_BootstrapClient = Some bc\<rparr>
      (m_Namespace (cpr_meta p)) (m_Name (cpr_meta p)) s =
    (Ok 0, \<lparr>ps_world = ps_world s, ps_attempts = (ps_attempts s)(namespacedName (m_Namespace (cpr_meta p)) (m_Name (cpr_meta p)) := None),
            ps_obj = p\<rparr>)"
proof -
  let ?b = "bind (put_obj zero_provisioner) (\<lambda>_. provisioner_body env c bc (m_Namespace (cpr_meta p)) (m_Name (cpr_meta p)))"
  have "?b s = (Ok 0, s\<lparr>ps_obj := p\<rparr>)"
    using body_settled [of env c p ob "s\<lparr>ps_obj := zero_provisioner\<rparr>"] assms(1) by (simp add: bind_run)
  then show ?thesis
    using defer_other(2) [OF assms(2,3), of ?b s 0] by (simp add: Provisioner_Reconcile_def)
qed

theorem provisioner_settled_reads_witness:
  "ps_world (snd (Provisioner_Reconcile kd_env (kd_reconciler True) ''coder'' ''p'' (kd_state kd_settled))) = kd_settled"
proof -
  let ?p = "hd (kd_Provisioners kd_settled)"
  have "kd_check kd_settled" by code_simp
  then show ?thesis
    using provisioner_settled_reads [of kd_env kd_client ?p "kd_objects kd_settled" "kd_state kd_settled" "()" "kd_boot True"]
    by (simp add: kd_reconciler_def kd_state_def kd_check_def)
qed

section \<open>Names\<close>

text \<open>
  The names the controllers derive have exactly the length of the plain name, cut at the
  limit of their use (63 bytes for resources, labels and accounts, 128 for keys in Coder, 253
  for secrets); plain names that fit are used as they are, so two objects whose names fit
  never share a resource, an account or a secret.
\<close>

lemma resource_names_bounded:
  shows "length (workspaceProxyResourceName n) = min 63 (8 + length n) \<and>
    length (workspaceProxyInstanceLabelValue n) = min 63 (length n) \<and>
    length (provisionerResourceName n) = min 63 (12 + length n) \<and>
    length (provisionerInstanceLabelValue n) = min 63 (length n) \<and>
    length (provisionerServiceAccountName n) = min 63 (12 + length n) \<and>
    length (limitKeyName n) = min 128 (length n) \<and>
    length (keySecretNameFor n) = min 253 (16 + length n) \<and>
    (length m \<le> 51 \<and> length n \<le> 51 \<and>
     (workspaceProxyResourceName m = workspaceProxyResourceName n \<or> provisionerResourceName m = provisionerResourceName n \<or>
      provisionerServiceAccountName m = provisionerServiceAccountName n \<or> keySecretNameFor m = keySecretNameFor n) \<longrightarrow> m = n)"
  using proxy_resource.name_length [of n] proxy_label.name_length [of n] provisioner_resource.name_length [of n]
    provisioner_label.name_length [of n] provisioner_account.name_length [of n] key_name.name_length [of n]
    key_secret.name_length [of n] proxy_resource.name_inj [of m n] provisioner_resource.name_inj [of m n]
    provisioner_account.name_inj [of m n] key_secret.name_inj [of m n]
  by (auto simp: add.commute)

section \<open>Managed objects\<close>

text \<open>
  C33: The workspace proxy and provisioner controllers never take over an object of another
  controller: when the deployment, service, secret, service account, role or role binding
  found under the name they use is controlled by another owner, the step fails and has written
  nothing (the world is the one the read left).
\<close>

theorem foreign_objects_untouched:
  shows "(k_Get (cc_Deployments pc) (m_Namespace (wp_meta wp)) (workspaceProxyResourceName (m_Name (wp_meta wp))) w = (Inr dep, w') \<and>
      foreign_controlled ''CoderWorkspaceProxy'' (wp_meta wp) (dep_meta dep) \<longrightarrow>
      (\<exists>e. proxy_reconcileDeployment pc wp url ref w = (Err e, w'))) \<and>
    (k_Get (cc_Services pc) (m_Namespace (wp_meta wp)) (workspaceProxyResourceName (m_Name (wp_meta wp))) w = (Inr svc, w') \<and>
      foreign_controlled ''CoderWorkspaceProxy'' (wp_meta wp) (svc_meta svc) \<longrightarrow> (\<exists>e. proxy_reconcileService pc wp w = (Err e, w'))) \<and>
    (k_Get (cc_Secrets pc) (m_Namespace (wp_meta wp)) n w = (Inr sec, w') \<and>
      foreign_controlled ''CoderWorkspaceProxy'' (wp_meta wp) (sec_meta sec) \<longrightarrow> (\<exists>e. ensureTokenSecret pc wp n key token w = (Err e, w'))) \<and>
    (k_Get (cc_Secrets c) (m_Namespace (cpr_meta p)) n w = (Inr sec, w') \<and>
      foreign_controlled ''CoderProvisioner'' (cpr_meta p) (sec_meta sec) \<longrightarrow> (\<exists>e. ensureProvisionerKeySecret c p n key token w = (Err e, w'))) \<and>
    (k_Get (cc_ServiceAccounts c) (m_Namespace (cpr_meta p)) n w = (Inr sa, w') \<and>
      foreign_controlled ''CoderProvisioner'' (cpr_meta p) (sa_meta sa) \<longrightarrow> (\<exists>e. prov_reconcileServiceAccount c p n w = (Err e, w'))) \<and>
    (k_Get (cc_Roles c) (m_Namespace (cpr_meta p)) n w = (Inr rl, w') \<and>
      foreign_controlled ''CoderProvisioner'' (cpr_meta p) (role_meta rl) \<longrightarrow> (\<exists>e. prov_reconcileRole c p n w = (Err e, w'))) \<and>
    (k_Get (cc_RoleBindings c) (m_Namespace (cpr_meta p)) n w = (Inr rb, w') \<and>
      foreign_controlled ''CoderProvisioner'' (cpr_meta p) (rb_meta rb) \<longrightarrow> (\<exists>e. prov_reconcileRoleBinding c p n role account w = (Err e, w'))) \<and>
    (k_Get (cc_Deployments c) (m_Namespace (cpr_meta p)) (provisionerResourceName (m_Name (cpr_meta p))) w = (Inr dep, w') \<and>
      foreign_controlled ''CoderProvisioner'' (cpr_meta p) (dep_meta dep) \<longrightarrow>
      (\<exists>e. prov_reconcileDeployment c p img url ref account checksum w = (Err e, w')))"
  unfolding proxy_reconcileDeployment_def proxy_reconcileService_def ensureTokenSecret_def ensureProvisionerKeySecret_def
    prov_reconcileServiceAccount_def prov_reconcileRole_def prov_reconcileRoleBinding_def prov_reconcileDeployment_def
  by (intro conjI impI; elim conjE; (rule bind_failed)?; rule foreign_rules, assumption+, simp+)

definition kd_foreign :: "string \<Rightarrow> KMeta" where
  "kd_foreign n = (new_meta n ''coder'')\<lparr>m_OwnerReferences := [\<lparr>or_APIVersion = ''apps/v1'', or_Kind = ''ReplicaSet'', or_Name = ''x'',
     or_UID = ''u9'', or_BlockOwnerDeletion = None, or_Controller = Some True\<rparr>]\<rparr>"

theorem foreign_objects_untouched_witness:
  "let w = kd_start\<lparr>kd_ServiceAccounts := [\<lparr>sa_meta = kd_foreign ''a'', sa_Other = []\<rparr>]\<rparr> in
   \<exists>e. prov_reconcileServiceAccount kd_client kd_provisioner ''a'' w = (Err e, w)"
proof -
  let ?sa = "\<lparr>sa_meta = kd_foreign ''a'', sa_Other = []\<rparr>"
  let ?w = "kd_start\<lparr>kd_ServiceAccounts := [?sa]\<rparr>"
  have "foreign_controlled ''CoderProvisioner'' (cpr_meta kd_provisioner) (sa_meta ?sa)" by code_simp
  moreover have "k_Get (cc_ServiceAccounts kd_client) (m_Namespace (cpr_meta kd_provisioner)) ''a'' ?w = (Inr ?sa, ?w)"
    by (simp add: kd_client_def core_client.defs kd_core_def store_api_def kd_foreign_def kd_provisioner_def Let_def)
  ultimately show ?thesis
    unfolding Let_def
    by (intro foreign_objects_untouched [THEN conjunct2, THEN conjunct2, THEN conjunct2, THEN conjunct2, THEN conjunct1, THEN mp] conjI)
qed

section \<open>Workspace proxies\<close>

text \<open>
  C32: A workspace proxy is registered once: a first reconciliation without a usable token
  registers the proxy with the configured credentials and stores the token it gets; from any
  cluster in which that secret is found, a reconciliation uses the same token and address and
  does not contact the Coder deployment again.
\<close>

theorem proxy_registered_once:
  assumes boot: "wps_Bootstrap (wp_Spec wp) = Some b"
    and name: "n = or_default (m_Name (wp_meta wp) @ ''-proxy-token'') (pb_GeneratedTokenSecretName b)"
    and none: "readSecretValue (cc_Secrets c) (m_Namespace (wp_meta wp)) n DefaultTokenSecretKey w = (Err e, w0)"
    and run: "resolveProxyCredentials c (Some bc) wp w = (Ok res, w')"
  shows "\<exists>cred resp y w1 w2 w3 r.
    readSecretValue (cc_Secrets c) (m_Namespace (wp_meta wp)) (sks_Name (pb_CredentialsSecretRef b))
      (or_default DefaultTokenSecretKey (sks_Key (pb_CredentialsSecretRef b))) w0 = (Ok cred, w1) \<and>
    bc_EnsureWorkspaceProxy bc \<lparr>rwp_CoderURL = pb_CoderURL b, rwp_SessionToken = cred,
      rwp_ProxyName = or_default (m_Name (wp_meta wp)) (pb_ProxyName b), rwp_DisplayName = pb_DisplayName b,
      rwp_Icon = pb_Icon b\<rparr> w1 = (Ok resp, w2) \<and>
    map_of (sec_Data y) DefaultTokenSecretKey = Some (rwr_ProxyToken resp) \<and>
    (k_Create (cc_Secrets c) y w3 = (Inr r, w') \<or> k_Update (cc_Secrets c) y w3 = (Inr r, w') \<or>
     k_Get (cc_Secrets c) (m_Namespace (wp_meta wp)) n w2 = (Inr y, w')) \<and>
    (rwr_ProxyToken resp \<noteq> [] \<longrightarrow> (\<forall>c2 bc2 v v'.
       k_Get (cc_Secrets c2) (m_Namespace (wp_meta wp)) n v = (Inr y, v') \<longrightarrow>
       resolveProxyCredentials (c2 :: 'b proxy_client) (Some bc2) wp v = (Ok res, v')))"
proof -
  have reg: "registerProxy c bc wp b n w0 = (Ok (), w')"
    and res: "res = (or_default (pb_CoderURL b) (wps_PrimaryAccessURL (wp_Spec wp)),
      Some \<lparr>sks_Name = n, sks_Key = DefaultTokenSecretKey\<rparr>, True)"
    using run none boot by (auto simp: resolveProxyCredentials_def Let_def name ok_simps)
  from reg obtain cred resp y r w1 w2 w3 where ob:
    "readSecretValue (cc_Secrets c) (m_Namespace (wp_meta wp)) (sks_Name (pb_CredentialsSecretRef b))
       (or_default DefaultTokenSecretKey (sks_Key (pb_CredentialsSecretRef b))) w0 = (Ok cred, w1)"
    "bc_EnsureWorkspaceProxy bc \<lparr>rwp_CoderURL = pb_CoderURL b, rwp_SessionToken = cred,
       rwp_ProxyName = or_default (m_Name (wp_meta wp)) (pb_ProxyName b), rwp_DisplayName = pb_DisplayName b,
       rwp_Icon = pb_Icon b\<rparr> w1 = (Ok resp, w2)"
    "map_of (sec_Data y) DefaultTokenSecretKey = Some (rwr_ProxyToken resp)"
    "k_Create (cc_Secrets c) y w3 = (Inr r, w') \<or> k_Update (cc_Secrets c) y w3 = (Inr r, w') \<or>
     k_Get (cc_Secrets c) (m_Namespace (wp_meta wp)) n w2 = (Inr y, w')"
    by (rule registerProxy_Ok)
  have "resolveProxyCredentials c2 (Some bc2) wp v = (Ok res, v')"
    if "rwr_ProxyToken resp \<noteq> []" "k_Get (cc_Secrets c2) (m_Namespace (wp_meta wp)) n v = (Inr y, v')"
    for c2 :: "'b proxy_client" and bc2 v v'
    using resolve_with_token [OF boot that(2) [unfolded name] ob(3) that(1)] by (simp add: res name)
  with ob show ?thesis by blast
qed

definition kd_proxy :: CoderWorkspaceProxy where
  "kd_proxy = \<lparr>wp_meta = (new_meta ''edge'' ''coder'')\<lparr>m_UID := ''u2''\<rparr>,
     wp_Spec = \<lparr>wps_Image = [], wps_Replicas = None, wps_Service = \<lparr>ss_Type = [], ss_Port = 0, ss_Annotations = []\<rparr>,
       wps_PrimaryAccessURL = [], wps_ProxySessionTokenSecretRef = None,
       wps_Bootstrap = Some \<lparr>pb_CoderURL = ''http://c'', pb_CredentialsSecretRef = \<lparr>sks_Name = ''op'', sks_Key = []\<rparr>, pb_ProxyName = [],
         pb_DisplayName = [], pb_Icon = [], pb_GeneratedTokenSecretName = []\<rparr>,
       wps_DerpOnly = False, wps_ExtraArgs = [], wps_ExtraEnv = [], wps_ImagePullSecrets = []\<rparr>,
     wp_Status = \<lparr>wpt_ObservedGeneration = 0, wpt_ReadyReplicas = 0, wpt_Registered = False, wpt_ProxyTokenSecretRef = None,
       wpt_Phase = [], wpt_Conditions = []\<rparr>\<rparr>"

theorem proxy_registered_once_witness:
  "\<exists>res w' (y :: Secret) cred w1 w2 resp. resolveProxyCredentials kd_proxy_client (Some (kd_boot False)) kd_proxy kd_start = (Ok res, w') \<and>
     bc_EnsureWorkspaceProxy (kd_boot False) \<lparr>rwp_CoderURL = ''http://c'', rwp_SessionToken = cred, rwp_ProxyName = ''edge'',
       rwp_DisplayName = [], rwp_Icon = []\<rparr> w1 = (Ok resp, w2) \<and>
     map_of (sec_Data y) DefaultTokenSecretKey = Some (rwr_ProxyToken resp)"
proof -
  let ?run = "resolveProxyCredentials kd_proxy_client (Some (kd_boot False)) kd_proxy kd_start"
  let ?read = "readSecretValue (cc_Secrets kd_proxy_client) (m_Namespace (wp_meta kd_proxy)) ''edge-proxy-token'' DefaultTokenSecretKey kd_start"
  have "is_ok (fst ?run)" by code_simp
  then obtain res w' where run: "?run = (Ok res, w')" by (metis is_ok_iff prod.collapse)
  have err: "(case fst ?read of Err _ \<Rightarrow> True | _ \<Rightarrow> False)" by code_simp
  obtain r w0 where "?read = (r, w0)" by force
  with err obtain e where read: "?read = (Err e, w0)" by (cases r) simp_all
  obtain b where b: "wps_Bootstrap (wp_Spec kd_proxy) = Some b" "pb_GeneratedTokenSecretName b = []" "pb_CoderURL b = ''http://c''"
    "pb_ProxyName b = []" "pb_DisplayName b = []" "pb_Icon b = []" by (simp add: kd_proxy_def)
  have ns: "m_Namespace (wp_meta kd_proxy) = ''coder''" "m_Name (wp_meta kd_proxy) = ''edge''" by (simp_all add: kd_proxy_def)
  have n: "''edge-proxy-token'' = or_default (m_Name (wp_meta kd_proxy) @ ''-proxy-token'') (pb_GeneratedTokenSecretName b)"
    by (simp add: ns b(2) or_default_def)
  have name: "or_default ''edge'' [] = ''edge''" by (simp add: or_default_def)
  from proxy_registered_once [OF b(1) n read run, unfolded ns b(3-6) name] run show ?thesis
    by (elim exE conjE) (intro exI conjI, assumption+)
qed

end
