(* ===== verification/Sha256.thy ===== *)
theory Sha256
  imports Resource_Names
begin

text \<open>
  The two hash functions of the Go library that the control plane and the operator access
  use besides the 32-bit FNV-1a: \<open>crypto/sha256\<close> with \<open>hex.EncodeToString\<close>, and
  \<open>fnv.New64a\<close> with \<open>%016x\<close>. Words are 32 and 64 bits wide and wrap around.
\<close>

section \<open>Definitions\<close>

subsection \<open>SHA-256\<close>

unbundle bit_operations_syntax

type_synonym w32 = "32 word"

definition sha256_K :: "w32 list" where
  "sha256_K =
     [1116352408, 1899447441, 3049323471, 3921009573, 961987163, 1508970993, 2453635748, 2870763221,
      3624381080, 310598401, 607225278, 1426881987, 1925078388, 2162078206, 2614888103, 3248222580,
      3835390401, 4022224774, 264347078, 604807628, 770255983, 1249150122, 1555081692, 1996064986,
      2554220882, 2821834349, 2952996808, 3210313671, 3336571891, 3584528711, 113926993, 338241895,
      666307205, 773529912, 1294757372, 1396182291, 1695183700, 1986661051, 2177026350, 2456956037,
      2730485921, 2820302411, 3259730800, 3345764771, 3516065817, 3600352804, 4094571909, 275423344,
      430227734, 506948616, 659060556, 883997877, 958139571, 1322822218, 1537002063, 1747873779,
      1955562222, 2024104815, 2227730452, 2361852424, 2428436474, 2756734187, 3204031479, 3329325298]"

definition sha256_init :: "w32 list" where
  "sha256_init =
     [1779033703, 3144134277, 1013904242, 2773480762, 1359893119, 2600822924, 528734635, 1541459225]"

definition rotr :: "nat \<Rightarrow> w32 \<Rightarrow> w32" where
  "rotr n x = drop_bit n x OR push_bit (32 - n) x"

text \<open>The message schedule is built backwards: the head of the list is the word computed last.\<close>

definition schedule_word :: "w32 list \<Rightarrow> w32" where
  "schedule_word ws =
     (let v1 = ws ! 1; t1 = rotr 17 v1 XOR rotr 19 v1 XOR drop_bit 10 v1;
          v2 = ws ! 14; t2 = rotr 7 v2 XOR rotr 18 v2 XOR drop_bit 3 v2
      in t1 + ws ! 6 + t2 + ws ! 15)"

fun extend_schedule :: "nat \<Rightarrow> w32 list \<Rightarrow> w32 list" where
  "extend_schedule 0 ws = ws"
| "extend_schedule (Suc n) ws = extend_schedule n (schedule_word ws # ws)"

definition sha256_round :: "w32 list \<Rightarrow> w32 \<times> w32 \<Rightarrow> w32 list" where
  "sha256_round st kw =
     (case st of [a, b, c, d, e, f, g, h] \<Rightarrow>
        let t1 = h + (rotr 6 e XOR rotr 11 e XOR rotr 25 e) + ((e AND f) XOR (NOT e AND g)) + fst kw + snd kw;
            t2 = (rotr 2 a XOR rotr 13 a XOR rotr 22 a) + ((a AND b) XOR (a AND c) XOR (b AND c))
        in [t1 + t2, a, b, c, d + t1, e, f, g]
      | _ \<Rightarrow> st)"

definition sha256_block :: "w32 list \<Rightarrow> w32 list \<Rightarrow> w32 list" where
  "sha256_block st block =
     map2 (+) st (foldl sha256_round st (List.zip sha256_K (rev (extend_schedule 48 (rev block)))))"

text \<open>Big-endian numbers, padding to blocks of sixteen words.\<close>

definition be_bytes :: "nat \<Rightarrow> nat \<Rightarrow> nat list" where
  "be_bytes k n = map (\<lambda>i. n div 256 ^ (k - 1 - i) mod 256) [0..<k]"

definition sha256_pad :: "nat list \<Rightarrow> nat list" where
  "sha256_pad m = m @ 128 # replicate ((119 - length m mod 64) mod 64) 0 @ be_bytes 8 (8 * length m)"

fun chunks :: "nat \<Rightarrow> 'a list \<Rightarrow> 'a list list" where
  "chunks k [] = []"
| "chunks k (x # xs) = (x # take (k - 1) xs) # chunks k (drop (k - 1) xs)"

definition be_word :: "nat list \<Rightarrow> w32" where
  "be_word bs = foldl (\<lambda>a b. a * 256 + of_nat b) 0 bs"

definition sha256_words :: "string \<Rightarrow> w32 list" where
  "sha256_words s = foldl sha256_block sha256_init (chunks 16 (map be_word (chunks 4 (sha256_pad (map byte s)))))"

definition sha256_Sum256 :: "string \<Rightarrow> string" where
  "sha256_Sum256 s = concat (map (\<lambda>w. map char_of (be_bytes 4 (unat w))) (sha256_words s))"

definition hex_EncodeToString :: "string \<Rightarrow> string" where
  "hex_EncodeToString s = concat (map (\<lambda>c. [hex_digit (byte c div 16), hex_digit (byte c mod 16)]) s)"

subsection \<open>FNV-1a, 64 bits\<close>

definition fnv64a_step :: "64 word \<Rightarrow> char \<Rightarrow> 64 word" where
  "fnv64a_step h c = (h XOR word_of_nat (byte c)) * 1099511628211"

definition fnv64a :: "string \<Rightarrow> 64 word" where
  "fnv64a s = foldl fnv64a_step 14695981039346656037 s"

definition hex16 :: "64 word \<Rightarrow> string" where
  "hex16 v = map (\<lambda>i. hex_digit (unat (take_bit 4 (drop_bit (4 * (15 - i)) v)))) [0..<16]"

section \<open>Lemmas\<close>

lemma length_hex16 [simp]: "length (hex16 v) = 16"
  by (simp add: hex16_def)

lemma length_hex_EncodeToString [simp]: "length (hex_EncodeToString s) = 2 * length s"
  by (induction s) (auto simp: hex_EncodeToString_def)

lemma length_sha256_round: "length st = 8 \<Longrightarrow> length (sha256_round st kw) = 8"
  by (auto simp: sha256_round_def Let_def split: list.split)

lemma length_rounds: "length st = 8 \<Longrightarrow> length (foldl sha256_round st kws) = 8"
  by (induction kws arbitrary: st) (auto intro: length_sha256_round)

lemma length_sha256_block: "length st = 8 \<Longrightarrow> length (sha256_block st block) = 8"
  by (simp add: sha256_block_def length_rounds)

lemma length_sha256_words [simp]: "length (sha256_words s) = 8"
proof -
  have "length (foldl sha256_block st bs) = 8" if "length st = 8" for st bs
    using that by (induction bs arbitrary: st) (auto intro: length_sha256_block)
  then show ?thesis by (simp add: sha256_words_def sha256_init_def)
qed

lemma length_sha256 [simp]: "length (sha256_Sum256 s) = 32"
proof -
  have "length (concat (map (\<lambda>w. map char_of (be_bytes 4 (unat w))) ws)) = 4 * length (ws :: w32 list)" for ws
    by (induction ws) (auto simp: be_bytes_def)
  then show ?thesis by (simp add: sha256_Sum256_def)
qed

end
