(* ===== verification/Control_Plane_Types.thy ===== *)
theory Control_Plane_Types
  imports Workspace_Proxy Sha256
begin

text \<open>
  The data of the control-plane controller (api/v1alpha1/codercontrolplane_types.go,
  types_shared.go and the types of internal/controller/codercontrolplane_controller.go): the
  object with its spec and status, the networking objects it manages, the client, the
  services it is given, and its pure helpers.
  Reading the clock is a call: two readings may differ.
\<close>

section \<open>Definitions\<close>

subsection \<open>Spec\<close>

record OperatorAccessSpec =
  oas_Disabled :: bool
  oas_GeneratedTokenSecretName :: string

record ServiceAccountSpec =
  sas_DisableCreate :: bool
  sas_Name :: string
  sas_Annotations :: string_map
  sas_Labels :: string_map

record RBACSpec =
  rbs_WorkspacePerms :: "bool option"
  rbs_EnableDeployments :: "bool option"
  rbs_ExtraRules :: "PolicyRule list"
  rbs_WorkspaceNamespaces :: "string list"

record ProbeSpec =
  prs_Enabled :: "bool option"
  prs_InitialDelaySeconds :: int
  prs_PeriodSeconds :: "int option"
  prs_TimeoutSeconds :: "int option"
  prs_SuccessThreshold :: "int option"
  prs_FailureThreshold :: "int option"

record IngressTLSExposeSpec =
  itx_SecretName :: string
  itx_WildcardSecretName :: string

record IngressExposeSpec =
  ix_ClassName :: "string option"
  ix_Host :: string
  ix_WildcardHost :: string
  ix_Annotations :: string_map
  ix_TLS :: "IngressTLSExposeSpec option"

record GatewayParentRef =
  gp_Name :: string
  gp_Namespace :: "string option"
  gp_SectionName :: "string option"

record GatewayExposeSpec =
  gx_Host :: string
  gx_WildcardHost :: string
  gx_ParentRefs :: "GatewayParentRef list"

record ExposeSpec =
  xs_Ingress :: "IngressExposeSpec option"
  xs_Gateway :: "GatewayExposeSpec option"

record CertSecretSelector =
  cert_Name :: string
  cert_Key :: string

record ControlPlaneSpec =
  cs_Image :: string
  cs_Replicas :: "int option"
  cs_Service :: ServiceSpec
  cs_ExtraArgs :: "string list"
  cs_ExtraEnv :: "EnvVar list"
  cs_ImagePullSecrets :: "string list"
  cs_OperatorAccess :: OperatorAccessSpec
  cs_LicenseSecretRef :: "SecretKeySelector option"
  cs_ServiceAccount :: ServiceAccountSpec
  cs_RBAC :: RBACSpec
  cs_Resources :: "string option"
  cs_SecurityContext :: "string option"
  cs_PodSecurityContext :: "string option"
  cs_TLS_SecretNames :: "string list"
  cs_ReadinessProbe :: ProbeSpec
  cs_LivenessProbe :: ProbeSpec
  cs_EnvUseClusterAccessURL :: "bool option"
  cs_Expose :: "ExposeSpec option"
  cs_EnvFrom :: "EnvFromSource list"
  cs_Volumes :: "Volume list"
  cs_VolumeMounts :: "VolumeMount list"
  cs_Certs_Secrets :: "CertSecretSelector list"
  cs_NodeSelector :: string_map
  cs_Tolerations :: "string list"
  cs_Affinity :: "string option"
  cs_TopologySpreadConstraints :: "string list"

subsection \<open>Status and object\<close>

record ControlPlaneStatus =
  ct_ObservedGeneration :: int
  ct_ReadyReplicas :: int
  ct_URL :: string
  ct_OperatorTokenSecretRef :: "SecretKeySelector option"
  ct_OperatorAccessReady :: bool
  ct_LicenseLastApplied :: "gotime option"
  ct_LicenseLastAppliedHash :: string
  ct_LicenseTier :: string
  ct_EntitlementsLastChecked :: "gotime option"
  ct_ExternalProvisionerDaemonsEntitlement :: string
  ct_Phase :: string
  ct_Conditions :: "Condition list"

record ControlPlaneObject =
  co_meta :: KMeta
  co_Spec :: ControlPlaneSpec
  co_Status :: ControlPlaneStatus

definition CoderControlPlanePhasePending :: string where "CoderControlPlanePhasePending = ''Pending''"
definition CoderControlPlanePhaseReady :: string where "CoderControlPlanePhaseReady = ''Ready''"
definition CoderControlPlaneConditionLicenseApplied :: string where
  "CoderControlPlaneConditionLicenseApplied = ''LicenseApplied''"
definition CoderControlPlaneLicenseTierNone :: string where "CoderControlPlaneLicenseTierNone = ''none''"
definition CoderControlPlaneLicenseTierTrial :: string where "CoderControlPlaneLicenseTierTrial = ''trial''"
definition CoderControlPlaneLicenseTierEnterprise :: string where "CoderControlPlaneLicenseTierEnterprise = ''enterprise''"
definition CoderControlPlaneLicenseTierPremium :: string where "CoderControlPlaneLicenseTierPremium = ''premium''"
definition CoderControlPlaneLicenseTierUnknown :: string where "CoderControlPlaneLicenseTierUnknown = ''unknown''"
definition CoderControlPlaneEntitlementUnknown :: string where "CoderControlPlaneEntitlementUnknown = ''unknown''"
definition DefaultLicenseSecretKey :: string where "DefaultLicenseSecretKey = ''license''"

subsection \<open>Networking objects and config maps\<close>

record IngressPath =
  ip_Path :: string
  ip_PathType :: "string option"
  ip_ServiceName :: string
  ip_ServicePort :: int
  ip_Other :: string

record IngressRule =
  ir_Host :: string
  ir_Paths :: "IngressPath list"

record IngressTLS =
  it_Hosts :: "string list"
  it_SecretName :: string

text \<open>\<open>ing_OtherSpec\<close> and \<open>hr_OtherSpec\<close> are reset when the spec is assigned as a whole.\<close>

record Ingress =
  ing_meta :: KMeta
  ing_ClassName :: "string option"
  ing_Rules :: "IngressRule list"
  ing_TLS :: "IngressTLS list"
  ing_OtherSpec :: string

record ParentReference =
  pf_Name :: string
  pf_Namespace :: "string option"
  pf_SectionName :: "string option"
  pf_Other :: string

record HTTPBackendRef =
  hb_Group :: "string option"
  hb_Kind :: "string option"
  hb_Name :: string
  hb_Port :: "int option"
  hb_Other :: string

record HTTPRouteRule =
  hrr_Matches :: "(string option \<times> string option) list"
  hrr_BackendRefs :: "HTTPBackendRef list"
  hrr_Other :: string

record HTTPRoute =
  hr_meta :: KMeta
  hr_ParentRefs :: "ParentReference list"
  hr_Hostnames :: "string list"
  hr_Rules :: "HTTPRouteRule list"
  hr_OtherSpec :: string

record ConfigMap =
  cm_meta :: KMeta
  cm_Data :: string_map

definition new_Ingress :: "string \<Rightarrow> string \<Rightarrow> Ingress" where
  "new_Ingress name ns = \<lparr>ing_meta = new_meta name ns, ing_ClassName = None, ing_Rules = [], ing_TLS = [], ing_OtherSpec = []\<rparr>"

definition new_HTTPRoute :: "string \<Rightarrow> string \<Rightarrow> HTTPRoute" where
  "new_HTTPRoute name ns = \<lparr>hr_meta = new_meta name ns, hr_ParentRefs = [], hr_Hostnames = [], hr_Rules = [], hr_OtherSpec = []\<rparr>"

subsection \<open>The client and the services\<close>

text \<open>\<open>Patch\<close> takes the original, of which \<open>client.MergeFrom\<close> makes the patch, and the new object.\<close>

record 'b cp_client = "'b core_client" +
  xc_ControlPlanes :: "('b, ControlPlaneObject) kind_api"
  xc_Ingresses :: "('b, Ingress) kind_api"
  xc_HTTPRoutes :: "('b, HTTPRoute) kind_api"
  xc_GetConfigMap :: "string \<Rightarrow> string \<Rightarrow> ('b, ConfigMap) call"
  xc_PatchControlPlane :: "ControlPlaneObject \<Rightarrow> ControlPlaneObject \<Rightarrow> ('b, ControlPlaneObject) call"
  xc_PatchServiceAccount :: "ServiceAccount \<Rightarrow> ServiceAccount \<Rightarrow> ('b, ServiceAccount) call"
  xc_ListServiceAccounts :: "string \<Rightarrow> ('b, ServiceAccount list) call"
  xc_ListRoles :: "string_map \<Rightarrow> ('b, Role list) call"
  xc_ListRoleBindings :: "string_map \<Rightarrow> ('b, RoleBinding list) call"
  xc_ListControlPlanes :: "string \<Rightarrow> string \<Rightarrow> string \<Rightarrow> ('b, ControlPlaneObject list) call"
  xc_DeleteRole :: "Role \<Rightarrow> ('b, unit) call"
  xc_DeleteRoleBinding :: "RoleBinding \<Rightarrow> ('b, unit) call"
  xc_DeleteSecret :: "Secret \<Rightarrow> ('b, unit) call"
  xc_DeleteIngress :: "Ingress \<Rightarrow> ('b, unit) call"
  xc_DeleteHTTPRoute :: "HTTPRoute \<Rightarrow> ('b, unit) call"

record 'b api_reader =
  rd_GetConfigMap :: "string \<Rightarrow> string \<Rightarrow> ('b, ConfigMap) call"
  rd_GetSecret :: "string \<Rightarrow> string \<Rightarrow> ('b, Secret) call"
  rd_GetControlPlane :: "string \<Rightarrow> string \<Rightarrow> ('b, ControlPlaneObject) call"

record EnsureOperatorTokenRequest =
  eot_PostgresURL :: string
  eot_OperatorUsername :: string
  eot_OperatorEmail :: string
  eot_TokenName :: string
  eot_TokenLifetime :: duration
  eot_ExistingToken :: string

record RevokeOperatorTokenRequest =
  rot_PostgresURL :: string
  rot_OperatorUsername :: string
  rot_TokenName :: string

record 'b OperatorAccessProvisioner =
  oap_EnsureOperatorToken :: "EnsureOperatorTokenRequest \<Rightarrow> ('b, string) op"
  oap_RevokeOperatorToken :: "RevokeOperatorTokenRequest \<Rightarrow> ('b, unit) op"

record 'b LicenseUploader =
  lu_AddLicense :: "string \<Rightarrow> string \<Rightarrow> string \<Rightarrow> ('b, unit) op"
  lu_HasAnyLicense :: "string \<Rightarrow> string \<Rightarrow> ('b, bool) op"

record Entitlements =
  ent_Features :: "(string \<times> string) list option"
  ent_HasLicense :: bool
  ent_Trial :: bool

type_synonym 'b EntitlementsInspector = "string \<Rightarrow> string \<Rightarrow> ('b, Entitlements) op"

record 'b CoderControlPlaneReconciler =
  xr_Client :: "'b cp_client option"
  xr_APIReader :: "'b api_reader option"
  xr_Scheme :: "unit option"
  xr_OperatorAccessProvisioner :: "'b OperatorAccessProvisioner option"
  xr_LicenseUploader :: "'b LicenseUploader option"
  xr_EntitlementsInspector :: "'b EntitlementsInspector option"

type_synonym 'b clock = "'b \<Rightarrow> gotime \<times> 'b"

definition now_op :: "'b clock \<Rightarrow> ('b, gotime) op" where
  "now_op clk = (\<lambda>w. case clk w of (t, w') \<Rightarrow> (Ok t, w'))"

text \<open>The reader of \<open>envFromDefinesEnvVar\<close> and \<open>reconcileStatus\<close>: the uncached one if there is one.\<close>

definition client_reader :: "'b cp_client \<Rightarrow> 'b api_reader" where
  "client_reader c = \<lparr>rd_GetConfigMap = xc_GetConfigMap c, rd_GetSecret = k_Get (cc_Secrets c),
     rd_GetControlPlane = k_Get (xc_ControlPlanes c)\<rparr>"

definition reader_of :: "'b cp_client \<Rightarrow> 'b api_reader option \<Rightarrow> 'b api_reader" where
  "reader_of c apiReader = (case apiReader of None \<Rightarrow> client_reader c | Some rd \<Rightarrow> rd)"

subsection \<open>Constants\<close>

definition defaultControlPlanePort :: int where "defaultControlPlanePort = 80"
definition controlPlaneTargetPort :: int where "controlPlaneTargetPort = 8080"
definition controlPlaneTLSTargetPort :: int where "controlPlaneTLSTargetPort = 8443"
definition postgresConnectionURLEnvVar :: string where "postgresConnectionURLEnvVar = ''CODER_PG_CONNECTION_URL''"
definition defaultOperatorAccessUsername :: string where "defaultOperatorAccessUsername = ''coder-k8s-operator''"
definition defaultOperatorAccessEmail :: string where
  "defaultOperatorAccessEmail = ''coder-k8s-operator@coder-k8s.invalid''"
definition defaultOperatorAccessTokenName :: string where "defaultOperatorAccessTokenName = ''coder-k8s-operator''"
definition defaultOperatorAccessTokenLifetime :: duration where
  "defaultOperatorAccessTokenLifetime = 365 * 24 * 60 * time_Minute"
definition operatorAccessRetryInterval :: duration where "operatorAccessRetryInterval = 30 * time_Second"
definition operatorTokenSecretSuffix :: string where "operatorTokenSecretSuffix = ''-operator-token''"
definition workspaceRBACFinalizer :: string where "workspaceRBACFinalizer = ''coder.com/workspace-rbac-cleanup''"
definition workspaceRBACOwnerUIDAnnotation :: string where
  "workspaceRBACOwnerUIDAnnotation = ''coder.com/workspace-rbac-owner-uid''"
definition workspaceRoleNameSuffix :: string where "workspaceRoleNameSuffix = ''-workspace-perms''"
definition kubernetesObjectNameMaxLength :: nat where "kubernetesObjectNameMaxLength = 253"
definition licenseSecretNameFieldIndex :: string where "licenseSecretNameFieldIndex = ''.spec.licenseSecretRef.name''"
definition envFromConfigMapNameFieldIndex :: string where
  "envFromConfigMapNameFieldIndex = ''.spec.envFrom.configMapRef.name''"
definition envFromSecretNameFieldIndex :: string where "envFromSecretNameFieldIndex = ''.spec.envFrom.secretRef.name''"
definition licenseConditionReasonApplied :: string where "licenseConditionReasonApplied = ''Applied''"
definition licenseConditionReasonPending :: string where "licenseConditionReasonPending = ''Pending''"
definition licenseConditionReasonSecretMissing :: string where "licenseConditionReasonSecretMissing = ''SecretMissing''"
definition licenseConditionReasonForbidden :: string where "licenseConditionReasonForbidden = ''Forbidden''"
definition licenseConditionReasonNotSupported :: string where "licenseConditionReasonNotSupported = ''NotSupported''"
definition licenseConditionReasonError :: string where "licenseConditionReasonError = ''Error''"
definition workspaceRBACDriftRequeueInterval :: duration where "workspaceRBACDriftRequeueInterval = 2 * time_Minute"
definition gatewayExposureRequeueInterval :: duration where "gatewayExposureRequeueInterval = 2 * time_Minute"
definition licenseUploadRequestTimeout :: duration where "licenseUploadRequestTimeout = 30 * time_Second"
definition entitlementsStatusRefreshInterval :: duration where "entitlementsStatusRefreshInterval = 2 * time_Minute"

section \<open>Lemmas\<close>

lemma new_network_meta [simp]:
  "ing_meta (new_Ingress n ns) = new_meta n ns" "hr_meta (new_HTTPRoute n ns) = new_meta n ns"
  by (simp_all add: new_Ingress_def new_HTTPRoute_def)

end
