(* ===== verification/Control_Plane_Names.thy ===== *)
theory Control_Plane_Names
  imports Control_Plane_Types
begin

text \<open>
  Pure helpers of the control-plane controller
  (internal/controller/codercontrolplane_controller.go): names, labels, ownership tests,
  lookups in the environment, entitlement values, and the merging of results, requests and
  statuses. The nil checks of the Go helpers on the control plane are the callers'.
  \<open>dns_label\<close> is the syntax Kubernetes asks of a volume name.
\<close>

section \<open>Definitions\<close>

subsection \<open>Package strings and maps\<close>

text \<open>\<open>strings.Trim\<close> with an ASCII cutset, \<open>HasSuffix\<close>, \<open>TrimSuffix\<close>, \<open>TrimPrefix\<close>, \<open>Cut\<close> at one byte.\<close>

definition strings_Trim :: "string \<Rightarrow> string \<Rightarrow> string" where
  "strings_Trim s cutset =
     rev (dropWhile (\<lambda>c. c \<in> set cutset) (rev (dropWhile (\<lambda>c. c \<in> set cutset) s)))"

definition strings_HasSuffix :: "string \<Rightarrow> string \<Rightarrow> bool" where
  "strings_HasSuffix s p = strings_HasPrefix (rev s) (rev p)"

definition strings_TrimSuffix :: "string \<Rightarrow> string \<Rightarrow> string" where
  "strings_TrimSuffix s p = (if strings_HasSuffix s p then take (length s - length p) s else s)"

definition strings_TrimPrefix :: "string \<Rightarrow> string \<Rightarrow> string" where
  "strings_TrimPrefix s p = (if strings_HasPrefix s p then drop (length p) s else s)"

text \<open>\<open>m[k]\<close> for a map of strings, and \<open>maps.Copy\<close>.\<close>

definition map_get :: "string_map \<Rightarrow> string \<Rightarrow> string" where
  "map_get m k = (case map_of m k of None \<Rightarrow> [] | Some v \<Rightarrow> v)"

definition maps_Copy :: "string_map \<Rightarrow> string_map \<Rightarrow> string_map" where
  "maps_Copy dst src = foldl (\<lambda>m kv. map_put (fst kv) (snd kv) m) dst src"

subsection \<open>Names and labels\<close>

definition controlPlaneLabels :: "string \<Rightarrow> string_map" where
  "controlPlaneLabels name =
     [(''app.kubernetes.io/instance'', name), (''app.kubernetes.io/managed-by'', ''coder-k8s''),
      (''app.kubernetes.io/name'', ''coder-control-plane'')]"

definition resolveServiceAccountName :: "ControlPlaneObject \<Rightarrow> string" where
  "resolveServiceAccountName cp =
     (if sas_Name (cs_ServiceAccount (co_Spec cp)) \<noteq> [] then sas_Name (cs_ServiceAccount (co_Spec cp)) else m_Name (co_meta cp))"

definition workspaceRBACScopeHash :: "ControlPlaneObject \<Rightarrow> string result" where
  "workspaceRBACScopeHash cp =
     (if strings_TrimSpace (m_Namespace (co_meta cp)) = [] then Err (assertion ''coder control plane namespace must not be empty'')
      else if strings_TrimSpace (m_Name (co_meta cp)) = [] then Err (assertion ''coder control plane name must not be empty'')
      else Ok (hex8 (fnv32a (m_Namespace (co_meta cp) @ [CHR 0x00] @ m_Name (co_meta cp)))))"

definition scopedWorkspaceRBACName :: "string \<Rightarrow> string \<Rightarrow> string \<Rightarrow> string result" where
  "scopedWorkspaceRBACName baseName scopeHash suffix =
     (let normalizedBaseName = strings_TrimSpace baseName in
      if normalizedBaseName = [] then Err (assertion ''workspace RBAC base name must not be empty'')
      else if strings_TrimSpace scopeHash = [] then Err (assertion ''workspace RBAC scope hash must not be empty'')
      else
        let candidate = normalizedBaseName @ ''-'' @ scopeHash @ suffix in
        if length candidate \<le> kubernetesObjectNameMaxLength then Ok candidate
        else
          let available = int kubernetesObjectNameMaxLength - int (length scopeHash) - int (length suffix) - 1 in
          if available < 1 then Err (assertion ''workspace RBAC name prefix capacity must be positive'')
          else
            let prefix = (if int (length normalizedBaseName) > available then take (nat available) normalizedBaseName
                          else normalizedBaseName);
                trimmed = strings_Trim prefix ''-.'';
                truncatedPrefix = (if trimmed = [] then ''workspace'' else trimmed);
                result = truncatedPrefix @ ''-'' @ scopeHash @ suffix in
            if length result > kubernetesObjectNameMaxLength
            then Err (ErrorString (Fmt ''assertion failed: workspace RBAC name %q exceeds %d characters''
                        [ArgS result, ArgD (int kubernetesObjectNameMaxLength)]))
            else Ok result)"

definition workspaceRoleName :: "ControlPlaneObject \<Rightarrow> string \<Rightarrow> string result" where
  "workspaceRoleName cp serviceAccountName =
     rbind (workspaceRBACScopeHash cp) (\<lambda>scopeHash. scopedWorkspaceRBACName serviceAccountName scopeHash workspaceRoleNameSuffix)"

definition workspaceRoleBindingName :: "ControlPlaneObject \<Rightarrow> string \<Rightarrow> string result" where
  "workspaceRoleBindingName cp serviceAccountName =
     rbind (workspaceRBACScopeHash cp) (\<lambda>scopeHash. scopedWorkspaceRBACName serviceAccountName scopeHash [])"

definition boolOrDefault :: "bool option \<Rightarrow> bool \<Rightarrow> bool" where
  "boolOrDefault explicit defaultValue = (case explicit of None \<Rightarrow> defaultValue | Some b \<Rightarrow> b)"

definition workspacePermsEnabled :: "bool option \<Rightarrow> bool" where
  "workspacePermsEnabled explicit = boolOrDefault explicit True"

definition workspaceDeploymentsEnabled :: "bool option \<Rightarrow> bool" where
  "workspaceDeploymentsEnabled explicit = boolOrDefault explicit True"

definition controlPlaneTLSEnabled :: "ControlPlaneObject \<Rightarrow> bool" where
  "controlPlaneTLSEnabled cp = (cs_TLS_SecretNames (co_Spec cp) \<noteq> [])"

definition service_port :: "ControlPlaneObject \<Rightarrow> int" where
  "service_port cp = (if ss_Port (cs_Service (co_Spec cp)) = 0 then defaultControlPlanePort else ss_Port (cs_Service (co_Spec cp)))"

definition httpRouteBackendServicePort :: "ControlPlaneObject \<Rightarrow> int" where
  "httpRouteBackendServicePort cp =
     (if controlPlaneTLSEnabled cp \<and> service_port cp = 443 then defaultControlPlanePort else service_port cp)"

definition requiresWorkspaceRBACDriftRequeue :: "ControlPlaneObject \<Rightarrow> bool" where
  "requiresWorkspaceRBACDriftRequeue cp =
     (workspacePermsEnabled (rbs_WorkspacePerms (cs_RBAC (co_Spec cp))) \<and>
      list_ex (\<lambda>ns. strings_TrimSpace ns \<noteq> [] \<and> strings_TrimSpace ns \<noteq> m_Namespace (co_meta cp))
        (rbs_WorkspaceNamespaces (cs_RBAC (co_Spec cp))))"

definition workspaceRBACLabels :: "ControlPlaneObject \<Rightarrow> string_map" where
  "workspaceRBACLabels cp =
     map_put ''coder.com/control-plane-namespace'' (m_Namespace (co_meta cp))
       (map_put ''coder.com/control-plane'' (m_Name (co_meta cp)) (controlPlaneLabels (m_Name (co_meta cp))))"

definition workspaceRBACAnnotations :: "string \<Rightarrow> string_map" where
  "workspaceRBACAnnotations ownerUID = [(workspaceRBACOwnerUIDAnnotation, ownerUID)]"

definition namespacedResourceKey :: "string \<Rightarrow> string \<Rightarrow> string" where
  "namespacedResourceKey namespace name = namespace @ ''/'' @ name"

definition operatorAccessDatabaseTokenName :: "ControlPlaneObject \<Rightarrow> string" where
  "operatorAccessDatabaseTokenName cp =
     defaultOperatorAccessTokenName @ ''-'' @ hex16 (fnv64a (m_Namespace (co_meta cp) @ [CHR 0x00] @ m_Name (co_meta cp)))"

definition generatedTokenSecretName :: "string \<Rightarrow> string" where
  "generatedTokenSecretName name =
     (let candidate = name @ operatorTokenSecretSuffix in
      if length candidate \<le> 63 then candidate
      else
        let suffix = hash_suffix name;
            available = at_least_one (63 - length operatorTokenSecretSuffix - length suffix - 1)
        in take available name @ ''-'' @ suffix @ operatorTokenSecretSuffix)"

definition operatorAccessTokenSecretName :: "ControlPlaneObject \<Rightarrow> string" where
  "operatorAccessTokenSecretName cp =
     (let configuredSecretName = strings_TrimSpace (oas_GeneratedTokenSecretName (cs_OperatorAccess (co_Spec cp))) in
      if configuredSecretName \<noteq> [] then configuredSecretName else generatedTokenSecretName (m_Name (co_meta cp)))"

subsection \<open>Volume names\<close>

definition label_char :: "char \<Rightarrow> bool" where
  "label_char c = (in_range 97 122 c \<or> in_range 48 57 c)"

text \<open>The loop of \<open>sanitizeDNSLabel\<close>; the flag is \<open>lastWasDash\<close>.\<close>

fun sanitize_loop :: "bool \<Rightarrow> string \<Rightarrow> string" where
  "sanitize_loop lastWasDash [] = []"
| "sanitize_loop lastWasDash (c # s) =
     (if label_char c then c # sanitize_loop False s
      else if \<not> lastWasDash then CHR ''-'' # sanitize_loop True s
      else sanitize_loop True s)"

definition sanitizeDNSLabel :: "string \<Rightarrow> string" where
  "sanitizeDNSLabel value =
     (let value = strings_TrimSpace (strings_ToLower value) in
      if value = [] then ''x''
      else
        let sanitized = strings_Trim (sanitize_loop False value) ''-'' in
        if sanitized = [] then ''x'' else sanitized)"

definition volumeNameForSecret :: "string \<Rightarrow> string \<Rightarrow> string" where
  "volumeNameForSecret prefix secretName =
     (let normalizedSecretName = strings_TrimSpace (strings_ToLower secretName);
          sanitizedSecretName = sanitizeDNSLabel normalizedSecretName;
          candidate = prefix @ ''-'' @ sanitizedSecretName in
      if length candidate \<le> 63 \<and> sanitizedSecretName = normalizedSecretName then candidate
      else
        let hashSuffix = hash_suffix (prefix @ [CHR 0x00] @ secretName);
            available = at_least_one (63 - length prefix - length hashSuffix - 2);
            cut = strings_Trim (take available sanitizedSecretName) ''-'';
            shortened = (if length sanitizedSecretName > available then (if cut = [] then ''x'' else cut)
                         else sanitizedSecretName)
        in prefix @ ''-'' @ shortened @ ''-'' @ hashSuffix)"

subsection \<open>Environment variables\<close>

fun find_env_loop :: "string \<Rightarrow> EnvVar option \<Rightarrow> EnvVar list \<Rightarrow> EnvVar option result" where
  "find_env_loop name found [] = Ok found"
| "find_env_loop name found (e # es) =
     (if env_Name e \<noteq> name then find_env_loop name found es
      else if found \<noteq> None then Err (ErrorString (Fmt ''%s is configured more than once'' [ArgS name]))
      else find_env_loop name (Some e) es)"

definition findEnvVar :: "EnvVar list \<Rightarrow> string \<Rightarrow> EnvVar option result" where
  "findEnvVar envVars name =
     (if strings_TrimSpace name = [] then Err (assertion ''environment variable name must not be empty'')
      else find_env_loop name None envVars)"

text \<open>\<open>None\<close> when the source is not included; the error of the Go function is always nil.\<close>

definition envFromLookupKeyForEnvVar :: "string \<Rightarrow> string \<Rightarrow> string option" where
  "envFromLookupKeyForEnvVar prefix envVarName =
     (let prefix = strings_TrimSpace prefix in
      if prefix = [] then Some envVarName
      else if \<not> strings_HasPrefix envVarName prefix then None
      else
        let lookupKey = strings_TrimPrefix envVarName prefix in
        if strings_TrimSpace lookupKey = [] then None else Some lookupKey)"

subsection \<open>Ownership\<close>

definition isOwnedByCoderControlPlane :: "KMeta \<Rightarrow> ControlPlaneObject \<Rightarrow> bool" where
  "isOwnedByCoderControlPlane object cp =
     (case GetControllerOf (m_OwnerReferences object) of None \<Rightarrow> False
      | Some r \<Rightarrow> or_APIVersion r = coder_GroupVersion \<and> or_Kind r = ''CoderControlPlane''
          \<and> or_Name r = m_Name (co_meta cp) \<and> or_UID r = m_UID (co_meta cp))"

definition hasWorkspaceRBACIdentityLabels :: "KMeta \<Rightarrow> ControlPlaneObject \<Rightarrow> bool" where
  "hasWorkspaceRBACIdentityLabels object cp =
     (m_Labels object \<noteq> [] \<and>
      map_get (m_Labels object) ''coder.com/control-plane'' = m_Name (co_meta cp) \<and>
      map_get (m_Labels object) ''coder.com/control-plane-namespace'' = m_Namespace (co_meta cp))"

definition hasWorkspaceRBACOwnerUID :: "KMeta \<Rightarrow> ControlPlaneObject \<Rightarrow> bool" where
  "hasWorkspaceRBACOwnerUID object cp =
     (let ownerUID = strings_TrimSpace (m_UID (co_meta cp)) in
      ownerUID \<noteq> [] \<and> m_Annotations object \<noteq> [] \<and>
      strings_TrimSpace (map_get (m_Annotations object) workspaceRBACOwnerUIDAnnotation) = ownerUID)"

definition isManagedWorkspaceRole :: "Role \<Rightarrow> ControlPlaneObject \<Rightarrow> string \<Rightarrow> bool" where
  "isManagedWorkspaceRole role cp expectedRoleName =
     (if isOwnedByCoderControlPlane (role_meta role) cp then True
      else if \<not> hasWorkspaceRBACIdentityLabels (role_meta role) cp then False
      else if hasWorkspaceRBACOwnerUID (role_meta role) cp then True
      else m_Namespace (role_meta role) \<noteq> m_Namespace (co_meta cp) \<and> m_Name (role_meta role) = expectedRoleName)"

definition isManagedWorkspaceRoleBinding ::
    "RoleBinding \<Rightarrow> ControlPlaneObject \<Rightarrow> string \<Rightarrow> string \<Rightarrow> string \<Rightarrow> bool" where
  "isManagedWorkspaceRoleBinding rb cp expectedRoleName expectedRoleBindingName expectedServiceAccountName =
     (if isOwnedByCoderControlPlane (rb_meta rb) cp then True
      else if \<not> hasWorkspaceRBACIdentityLabels (rb_meta rb) cp then False
      else if hasWorkspaceRBACOwnerUID (rb_meta rb) cp then True
      else if m_Namespace (rb_meta rb) = m_Namespace (co_meta cp) then False
      else if m_Name (rb_meta rb) \<noteq> expectedRoleBindingName then False
      else if rb_RoleRef rb \<noteq> (''rbac.authorization.k8s.io'', ''Role'', expectedRoleName) then False
      else case rb_Subjects rb of
        [subject] \<Rightarrow> sub_Kind subject = ''ServiceAccount'' \<and> sub_Name subject = expectedServiceAccountName
          \<and> sub_Namespace subject = m_Namespace (co_meta cp)
      | _ \<Rightarrow> False)"


definition dns_chars :: "string \<Rightarrow> bool" where
  "dns_chars s \<longleftrightarrow> s \<noteq> [] \<and> list_all (\<lambda>c. label_char c \<or> c = CHR ''-'') s \<and> label_char (hd s) \<and> label_char (last s)"

definition dns_label :: "string \<Rightarrow> bool" where
  "dns_label s \<longleftrightarrow> dns_chars s \<and> length s \<le> 63"

text \<open>
  The syntax Kubernetes asks of an object name, a DNS-1123 subdomain: labels of lower case
  letters, digits and dashes, separated by dots, each beginning and ending with a letter or
  digit. \<open>dns_run\<close> is the automaton of that expression; a name is one that ends inside a label.
\<close>

datatype dns_state = Label_Start | Label_Inner | Label_Dash

definition dns_step :: "dns_state \<Rightarrow> char \<Rightarrow> dns_state option" where
  "dns_step q c =
     (if label_char c then Some Label_Inner
      else if c = CHR ''-'' \<and> q \<noteq> Label_Start then Some Label_Dash
      else if c = CHR ''.'' \<and> q = Label_Inner then Some Label_Start
      else None)"

fun dns_run :: "dns_state \<Rightarrow> string \<Rightarrow> dns_state option" where
  "dns_run q [] = Some q"
| "dns_run q (c # s) = Option.bind (dns_step q c) (\<lambda>q. dns_run q s)"

definition dns_subdomain :: "string \<Rightarrow> bool" where
  "dns_subdomain s \<longleftrightarrow> dns_run Label_Start s = Some Label_Inner \<and> length s \<le> kubernetesObjectNameMaxLength"

section \<open>Lemmas\<close>

interpretation token_secret_name: bounded_name generatedTokenSecretName "\<lambda>n. n @ ''-operator-token''" 63
  by unfold_locales (auto simp: generatedTokenSecretName_def operatorTokenSecretSuffix_def at_least_one_def Let_def)

subsection \<open>Trimming\<close>

lemma Trim_subset: "set (strings_Trim s cs) \<subseteq> set s"
  unfolding strings_Trim_def by (auto dest!: set_dropWhileD)

lemma Trim_length: "length (strings_Trim s cs) \<le> length s"
proof -
  let ?P = "\<lambda>c. c \<in> set cs"
  have "length (dropWhile ?P (rev (dropWhile ?P s))) \<le> length (dropWhile ?P s)"
    using length_dropWhile_le [of ?P "rev (dropWhile ?P s)"] by simp
  then show ?thesis unfolding strings_Trim_def using length_dropWhile_le [of ?P s] by simp
qed

lemma Trim_last: "strings_Trim s cs \<noteq> [] \<Longrightarrow> last (strings_Trim s cs) \<notin> set cs"
  using hd_dropWhile [of "\<lambda>c. c \<in> set cs" "rev (dropWhile (\<lambda>c. c \<in> set cs) s)"]
  by (simp add: strings_Trim_def last_rev)

lemma Trim_hd: "strings_Trim s cs \<noteq> [] \<Longrightarrow> hd (strings_Trim s cs) \<notin> set cs"
proof -
  let ?d = "dropWhile (\<lambda>c. c \<in> set cs) s"
  assume ne: "strings_Trim s cs \<noteq> []"
  obtain zs where zs: "?d = strings_Trim s cs @ zs"
    using takeWhile_dropWhile_id [of "\<lambda>c. c \<in> set cs" "rev ?d"] unfolding strings_Trim_def by (metis rev_append rev_rev_ident)
  then have "hd ?d = hd (strings_Trim s cs)" "?d \<noteq> []" using ne by auto
  then show ?thesis using hd_dropWhile [of "\<lambda>c. c \<in> set cs" s] by auto
qed

subsection \<open>Labels and volume names\<close>

lemma label_char_not_dash: "label_char c \<Longrightarrow> c \<noteq> CHR ''-''"
  by (auto simp: label_char_def in_range_def byte_def)

lemma sanitize_loop_chars: "c \<in> set (sanitize_loop b s) \<Longrightarrow> label_char c \<or> c = CHR ''-''"
  by (induction b s rule: sanitize_loop.induct) (auto split: if_splits)

lemma Trim_dash_chars:
  assumes "list_all (\<lambda>c. label_char c \<or> c = CHR ''-'') s" "strings_Trim s ''-'' \<noteq> []"
  shows "dns_chars (strings_Trim s ''-'')"
proof -
  let ?t = "strings_Trim s ''-''"
  have all: "c \<in> set ?t \<Longrightarrow> label_char c \<or> c = CHR ''-''" for c
    using assms(1) Trim_subset [of s "''-''"] by (auto simp: list_all_iff)
  have "hd ?t \<noteq> CHR ''-''" "last ?t \<noteq> CHR ''-''"
    using Trim_hd [OF assms(2)] Trim_last [OF assms(2)] by auto
  with all assms(2) show ?thesis unfolding dns_chars_def list_all_iff by (metis hd_in_set last_in_set)
qed

lemma dns_chars_x [simp]: "dns_chars ''x''"
  by (simp add: dns_chars_def label_char_def in_range_def byte_def)

lemma sanitizeDNSLabel_chars: "dns_chars (sanitizeDNSLabel v)"
proof -
  let ?s = "sanitize_loop False (strings_TrimSpace (strings_ToLower v))"
  have "list_all (\<lambda>c. label_char c \<or> c = CHR ''-'') ?s"
    using sanitize_loop_chars by (auto simp: list_all_iff)
  then have "strings_Trim ?s ''-'' \<noteq> [] \<Longrightarrow> dns_chars (strings_Trim ?s ''-'')" by (rule Trim_dash_chars)
  then show ?thesis unfolding sanitizeDNSLabel_def Let_def by auto
qed

lemma dns_chars_take:
  assumes "dns_chars s" "0 < n"
  shows "dns_chars (if strings_Trim (take n s) ''-'' = [] then ''x'' else strings_Trim (take n s) ''-'')"
proof (cases "strings_Trim (take n s) ''-'' = []")
  case False
  have "list_all (\<lambda>c. label_char c \<or> c = CHR ''-'') (take n s)"
    using assms(1) by (auto simp: dns_chars_def list_all_iff dest: in_set_takeD)
  with False show ?thesis using Trim_dash_chars by simp
qed simp

lemma dns_chars_append: "dns_chars s \<Longrightarrow> dns_chars t \<Longrightarrow> dns_chars (s @ ''-'' @ t)"
  by (auto simp: dns_chars_def)

lemma hex_digit_label: "n < 16 \<Longrightarrow> label_char (hex_digit n)"
proof -
  assume "n < 16"
  then have "n \<in> set [0..<16]" by simp
  then show ?thesis by (auto simp: hex_digit_def label_char_def in_range_def byte_def upt_rec Let_def)
qed

lemma take4_less: "unat (take_bit 4 (v :: 'a::len word)) < 16"
proof -
  have "take_bit 4 (unat v) < 2 ^ 4" by (rule take_bit_nat_less_exp)
  then show ?thesis by (simp add: unsigned_take_bit_eq)
qed

lemma hex8_chars: "dns_chars (hex8 v)"
proof -
  have *: "label_char c" if "c \<in> set (hex8 v)" for c
    using that by (auto simp: hex8_def intro!: hex_digit_label take4_less)
  moreover have "hex8 v \<noteq> []" by (simp add: hex8_def)
  ultimately show ?thesis unfolding dns_chars_def list_all_iff by auto
qed

lemma hash_suffix_chars: "dns_chars (hash_suffix s)"
  by (simp add: hash_suffix_def hex8_chars)

lemma volumeNameForSecret_label:
  assumes "dns_chars prefix" "length prefix \<le> 52"
  shows "dns_label (volumeNameForSecret prefix secretName)"
proof -
  define san where "san = sanitizeDNSLabel (strings_TrimSpace (strings_ToLower secretName))"
  define avail where "avail = 53 - length prefix"
  define cut where "cut = (if strings_Trim (take avail san) ''-'' = [] then ''x'' else strings_Trim (take avail san) ''-'')"
  define h where "h = hash_suffix (prefix @ [CHR 0x00] @ secretName)"
  have san: "dns_chars san" unfolding san_def by (rule sanitizeDNSLabel_chars)
  have a: "at_least_one (63 - length prefix - length h - 2) = avail" "0 < avail"
    using assms(2) by (simp_all add: at_least_one_def avail_def h_def)
  have cut: "dns_chars cut" "length cut \<le> avail"
    using dns_chars_take [OF san a(2)] Trim_length [of "take avail san" "''-''"] a(2) by (auto simp: cut_def)
  have h: "dns_chars h" "length h = 8" by (simp_all add: h_def hash_suffix_chars)
  define short where "short = (if length san > avail then cut else san)"
  have s: "dns_chars short" "length short \<le> avail" using cut san by (auto simp: short_def)
  have eq: "volumeNameForSecret prefix secretName =
     (if length (prefix @ ''-'' @ san) \<le> 63 \<and> san = strings_TrimSpace (strings_ToLower secretName) then prefix @ ''-'' @ san
      else prefix @ ''-'' @ short @ ''-'' @ h)"
    unfolding volumeNameForSecret_def Let_def san_def [symmetric] h_def [symmetric] a(1) short_def cut_def by (rule refl)
  have "dns_label (prefix @ ''-'' @ short @ ''-'' @ h)"
    using dns_chars_append [OF assms(1) dns_chars_append [OF s(1) h(1)]] s(2) h(2) assms(2)
    by (simp add: dns_label_def avail_def)
  then show ?thesis using dns_chars_append [OF assms(1) san] by (auto simp: eq dns_label_def)
qed

subsection \<open>Names of roles and bindings\<close>

lemma TrimSpace_hex8 [simp]: "strings_TrimSpace (hex8 v) = hex8 v"
proof (rule TrimSpace_plain)
  have "label_char c \<Longrightarrow> plain c" for c by (auto simp: label_char_def in_range_def plain_def)
  moreover have "label_char c" if "c \<in> set (hex8 v)" for c
    using that by (auto simp: hex8_def intro!: hex_digit_label take4_less)
  ultimately show "plain (hd (hex8 v))" "plain (last (hex8 v))" by simp_all
qed simp

lemma scopedWorkspaceRBACName_total:
  assumes "strings_TrimSpace baseName \<noteq> []" "length suffix \<le> 200"
  shows "\<exists>r. scopedWorkspaceRBACName baseName (hex8 v) suffix = Ok r \<and> length r \<le> 253"
proof -
  let ?s = "strings_TrimSpace baseName"
  have h: "length (hex8 v) = 8" by (simp add: hex8_def)
  have "length (strings_Trim (take (244 - length suffix) ?s) ''-.'') \<le> 244 - length suffix"
    using Trim_length [of "take (244 - length suffix) ?s" "''-.''"] by simp
  moreover have "length (strings_Trim ?s ''-.'') \<le> length ?s" by (rule Trim_length)
  ultimately show ?thesis
    using assms h unfolding scopedWorkspaceRBACName_def kubernetesObjectNameMaxLength_def Let_def
    by (auto simp: not_le nat_diff_distrib)
qed

subsection \<open>Object names\<close>

lemma dns_run_append: "dns_run q (s @ t) = Option.bind (dns_run q s) (\<lambda>q. dns_run q t)"
  by (induction s arbitrary: q) (auto split: Option.bind_split)

text \<open>The automaton read as labels: every part between dots is one.\<close>

fun label_rest :: "dns_state \<Rightarrow> string \<Rightarrow> bool" where
  "label_rest Label_Start p = dns_chars p"
| "label_rest Label_Inner p = (p = [] \<or> list_all (\<lambda>c. label_char c \<or> c = CHR ''-'') p \<and> label_char (last p))"
| "label_rest Label_Dash p = (p \<noteq> [] \<and> list_all (\<lambda>c. label_char c \<or> c = CHR ''-'') p \<and> label_char (last p))"

lemma not_label_char [simp]: "\<not> label_char CHR ''-''" "\<not> label_char CHR ''.''"
  by (simp_all add: label_char_def in_range_def byte_def)

lemma label_rest_Cons:
  "c \<noteq> CHR ''.'' \<Longrightarrow> label_rest q (c # p) \<longleftrightarrow> (case dns_step q c of None \<Rightarrow> False | Some r \<Rightarrow> label_rest r p)"
  by (cases q) (auto simp: dns_step_def dns_chars_def)

lemma label_rest_Nil: "label_rest q [] \<longleftrightarrow> q = Label_Inner"
  by (cases q) (auto simp: dns_chars_def)

lemma dns_run_labels:
  "dns_run q s = Some Label_Inner \<longleftrightarrow>
     (case strings_Split s CHR ''.'' of [] \<Rightarrow> False | p # ps \<Rightarrow> label_rest q p \<and> list_all dns_chars ps)"
proof (induction s arbitrary: q)
  case (Cons c s)
  obtain p ps where sp: "strings_Split s CHR ''.'' = p # ps" by (cases "strings_Split s CHR ''.''") auto
  show ?case
  proof (cases "c = CHR ''.''")
    case True
    then have "dns_step q c = (if q = Label_Inner then Some Label_Start else None)" by (auto simp: dns_step_def)
    then show ?thesis using Cons.IH [of Label_Start] True sp by (auto simp: label_rest_Nil)
  next
    case False
    then show ?thesis using Cons.IH sp by (auto simp: label_rest_Cons split: option.split Option.bind_split)
  qed
qed (auto simp: label_rest_Nil)

lemma dns_subdomain_labels:
  "dns_subdomain s \<longleftrightarrow> list_all dns_chars (strings_Split s CHR ''.'') \<and> length s \<le> 253"
  by (auto simp: dns_subdomain_def dns_run_labels kubernetesObjectNameMaxLength_def split: list.split)

lemma dns_run_take: "dns_run q s = Some r \<Longrightarrow> \<exists>p. dns_run q (take n s) = Some p"
  using dns_run_append [of q "take n s" "drop n s"] by (cases "dns_run q (take n s)") auto

text \<open>The state after a name tells its last character.\<close>

lemma dns_run_last:
  assumes "dns_run q s = Some r" "s \<noteq> []"
  shows "r = (if last s = CHR ''.'' then Label_Start else if last s = CHR ''-'' then Label_Dash else Label_Inner)"
proof -
  have s: "s = butlast s @ [last s]" using assms(2) by simp
  obtain p where "dns_step p (last s) = Some r"
    using assms(1) by (subst (asm) s, subst (asm) dns_run_append) (auto split: Option.bind_split_asm)
  then show ?thesis
    using label_char_not_dash [of "last s"] by (auto simp: dns_step_def label_char_def in_range_def byte_def split: if_splits)
qed

lemma dns_run_label:
  assumes "dns_chars s"
  shows "dns_run q s = Some Label_Inner"
proof -
  obtain c t where s: "s = c # t" using assms by (cases s) (auto simp: dns_chars_def)
  have "CHR ''.'' \<notin> set s" using assms by (auto simp: dns_chars_def list_all_iff)
  then have "strings_Split s CHR ''.'' = [s]" by (induction s) auto
  then have "dns_run Label_Start s = Some Label_Inner" using assms by (simp add: dns_run_labels)
  moreover have "dns_step q c = dns_step Label_Start c" using assms by (auto simp: s dns_chars_def dns_step_def)
  ultimately show ?thesis by (simp add: s)
qed

text \<open>A suffix that begins with a dash fits exactly when what it follows does not end with a dot.\<close>

lemma dns_run_suffix:
  assumes "dns_run Label_Start s = Some p" "s \<noteq> []" "dns_chars t"
  shows "dns_run Label_Start (s @ ''-'' @ t) = Some Label_Inner \<longleftrightarrow> last s \<noteq> CHR ''.''"
proof -
  have "dns_run Label_Start (s @ ''-'' @ t) = Option.bind (dns_step p CHR ''-'') (\<lambda>q. dns_run q t)"
    using assms(1) by (simp add: dns_run_append)
  moreover have "dns_step p CHR ''-'' = (if last s = CHR ''.'' then None else Some Label_Dash)"
    using dns_run_last [OF assms(1,2)] by (auto simp: dns_step_def)
  ultimately show ?thesis using dns_run_label [OF assms(3)] by simp
qed

lemma dns_run_hd: "dns_run Label_Start s = Some r \<Longrightarrow> s \<noteq> [] \<Longrightarrow> label_char (hd s)"
  by (cases s) (auto simp: dns_step_def split: if_splits Option.bind_split_asm)

text \<open>Trimming the cut of a name removes only characters at its end, and leaves a name.\<close>

lemma dns_run_trim:
  assumes "dns_run Label_Start s = Some r" "s \<noteq> []"
  shows "strings_Trim s ''-.'' \<noteq> [] \<and> dns_run Label_Start (strings_Trim s ''-.'') = Some Label_Inner"
proof -
  let ?P = "\<lambda>c. c \<in> set ''-.''" and ?t = "strings_Trim s ''-.''"
  have hd: "\<not> ?P (hd s)" using dns_run_hd [OF assms] by auto
  then have "dropWhile ?P s = s" using assms(2) by (cases s) auto
  then have t: "rev ?t = dropWhile ?P (rev s)" by (simp add: strings_Trim_def)
  then have "s = ?t @ rev (takeWhile ?P (rev s))" by (metis rev_append rev_rev_ident takeWhile_dropWhile_id)
  then obtain z where z: "s = ?t @ z" by blast
  have ne: "?t \<noteq> []" using t hd assms(2) by (metis dropWhile_eq_Nil_conv hd_in_set rev.simps(1) set_rev)
  obtain p where p: "dns_run Label_Start ?t = Some p" using dns_run_take [OF assms(1), of "length ?t"] z by (metis append_eq_conv_conj)
  have "last ?t \<notin> set ''-.''" by (rule Trim_last [OF ne])
  then show ?thesis using dns_run_last [OF p ne] p ne by auto
qed

lemma dns_subdomain_plain:
  assumes "dns_subdomain s"
  shows "s \<noteq> []" "last s \<noteq> CHR ''.''" "strings_TrimSpace s = s"
proof -
  have r: "dns_run Label_Start s = Some Label_Inner" using assms by (simp add: dns_subdomain_def)
  show ne: "s \<noteq> []" using r by auto
  show "last s \<noteq> CHR ''.''" using dns_run_last [OF r ne] by auto
  have p: "label_char c \<Longrightarrow> plain c" for c by (auto simp: label_char_def in_range_def plain_def)
  obtain q where "dns_step q (last s) = Some Label_Inner"
    using r by (subst (asm) append_butlast_last_id [OF ne, symmetric], subst (asm) dns_run_append) (auto split: Option.bind_split_asm)
  then have "label_char (last s)" by (auto simp: dns_step_def split: if_splits)
  then show "strings_TrimSpace s = s" using p dns_run_hd [OF r ne] ne by (intro TrimSpace_plain) auto
qed

text \<open>The names of workspace roles and bindings.\<close>

lemma scopedWorkspaceRBACName_valid:
  assumes "dns_subdomain (strings_TrimSpace baseName)" "length suffix \<le> 200" "suffix = [] \<or> (\<exists>t. suffix = ''-'' @ t \<and> dns_chars t)"
  shows "\<exists>r. scopedWorkspaceRBACName baseName (hex8 v) suffix = Ok r \<and> dns_subdomain r"
proof -
  let ?s = "strings_TrimSpace baseName"
  note s = dns_subdomain_plain [OF assms(1)]
  have run: "dns_run Label_Start ?s = Some Label_Inner" using assms(1) by (simp add: dns_subdomain_def)
  have chars: "dns_chars (hex8 v @ suffix)" using assms(3) dns_chars_append [OF hex8_chars [of v]] hex8_chars [of v] by auto
  obtain r where r: "scopedWorkspaceRBACName baseName (hex8 v) suffix = Ok r" "length r \<le> 253"
    using scopedWorkspaceRBACName_total [OF s(1) assms(2)] by blast
  have "\<exists>p. r = p @ ''-'' @ hex8 v @ suffix \<and> p \<noteq> [] \<and> dns_run Label_Start p = Some Label_Inner"
  proof -
    define a where "a = nat (int kubernetesObjectNameMaxLength - int (length (hex8 v)) - int (length suffix) - 1)"
    define c where "c = (if length ?s > a then take a ?s else ?s)"
    have a: "0 < a" using assms(2) by (simp add: a_def hex8_def kubernetesObjectNameMaxLength_def)
    then have "c \<noteq> []" "\<exists>q. dns_run Label_Start c = Some q" using s(1) run dns_run_take [OF run, of a] by (auto simp: c_def)
    then have "strings_Trim c ''-.'' \<noteq> []" "dns_run Label_Start (strings_Trim c ''-.'') = Some Label_Inner"
      using dns_run_trim [of c] by auto
    moreover have "r = ?s @ ''-'' @ hex8 v @ suffix \<or> r = (if strings_Trim c ''-.'' = [] then ''workspace'' else strings_Trim c ''-.'') @ ''-'' @ hex8 v @ suffix"
      using r(1) s(1) a unfolding scopedWorkspaceRBACName_def Let_def c_def a_def by (auto split: if_splits)
    ultimately show ?thesis using run s(1) by auto
  qed
  then obtain p where p: "r = p @ ''-'' @ hex8 v @ suffix" "p \<noteq> []" "dns_run Label_Start p = Some Label_Inner" by blast
  moreover have "last p \<noteq> CHR ''.''" using dns_run_last [OF p(3,2)] by auto
  ultimately show ?thesis
    using r dns_run_suffix [OF p(3,2) chars] by (auto simp: dns_subdomain_def kubernetesObjectNameMaxLength_def)
qed

text \<open>The generated secret name, which is cut without trimming.\<close>

lemma generatedTokenSecretName_valid:
  assumes "dns_subdomain name"
  shows "dns_subdomain (generatedTokenSecretName name) \<longleftrightarrow> \<not> (48 < length name \<and> name ! 38 = CHR ''.'')"
proof -
  note n = dns_subdomain_plain [OF assms]
  have run: "dns_run Label_Start name = Some Label_Inner" using assms by (simp add: dns_subdomain_def)
  have len: "length (generatedTokenSecretName name) \<le> 253" using token_secret_name.name_bound [of name] by simp
  have tok: "dns_chars ''operator-token''" by code_simp
  show ?thesis
  proof (cases "length name \<le> 48")
    case True
    then have "generatedTokenSecretName name = name @ ''-'' @ ''operator-token''"
      by (simp add: generatedTokenSecretName_def operatorTokenSecretSuffix_def)
    then show ?thesis
      using dns_run_suffix [OF run n(1) tok] n(2) len True by (simp add: dns_subdomain_def kubernetesObjectNameMaxLength_def)
  next
    case False
    let ?c = "take 39 name" and ?t = "hash_suffix name @ ''-'' @ ''operator-token''"
    have eq: "generatedTokenSecretName name = ?c @ ''-'' @ ?t"
      using False by (simp add: generatedTokenSecretName_def operatorTokenSecretSuffix_def at_least_one_def Let_def)
    obtain q where q: "dns_run Label_Start ?c = Some q" using dns_run_take [OF run] by blast
    have "?c \<noteq> []" "last ?c = name ! 38" using False n(1) by (auto simp: last_conv_nth)
    then show ?thesis
      using dns_run_suffix [OF q _ dns_chars_append [OF hash_suffix_chars tok]] eq len False
      by (simp add: dns_subdomain_def kubernetesObjectNameMaxLength_def)
  qed
qed

end
