(* ===== verification/Control_Plane_RBAC.thy ===== *)
theory Control_Plane_RBAC
  imports Control_Plane_Names
begin

text \<open>
  Finalizer, service account and workspace RBAC of a control plane
  (internal/controller/codercontrolplane_controller.go). Roles and bindings in the namespace
  of the control plane are owned by it; in other namespaces, where an owner reference is not
  allowed, they are found again by labels and by the annotation with the owner's UID.
\<close>

section \<open>Definitions\<close>

subsection \<open>Loops and owner references\<close>

fun for_each :: "('a \<Rightarrow> ('w, unit) op) \<Rightarrow> 'a list \<Rightarrow> ('w, unit) op" where
  "for_each f [] = ret ()"
| "for_each f (x # xs) = bind (f x) (\<lambda>_. for_each f xs)"

text \<open>\<open>RemoveControllerReference\<close> (vendored controllerutil.go) for an owner of the given kind.\<close>

fun remove_owner_ref :: "OwnerReference \<Rightarrow> OwnerReference list \<Rightarrow> OwnerReference list" where
  "remove_owner_ref ref [] = []"
| "remove_owner_ref ref (r # refs) = (if referSameObject r ref then refs else r # remove_owner_ref ref refs)"

definition RemoveControllerReference :: "string \<Rightarrow> KMeta \<Rightarrow> KMeta \<Rightarrow> KMeta result" where
  "RemoveControllerReference kind owner object =
     (let refs = m_OwnerReferences object; ref = controller_ref kind owner in
      if \<not> list_ex (\<lambda>r. or_Controller r = Some True) refs
      then Err (ErrorString (Fmt ''%T does not have a owner reference with controller equals true'' []))
      else case find (\<lambda>r. referSameObject r ref) refs of
        None \<Rightarrow> Err (ErrorString (Fmt ''%T does not have an controller reference for %T'' []))
      | Some r \<Rightarrow>
          if or_Controller r \<noteq> Some True
          then Err (ErrorString (Fmt ''%T owner is not the controller reference for %T'' []))
          else Ok (object\<lparr>m_OwnerReferences := remove_owner_ref ref refs\<rparr>))"

subsection \<open>Service account\<close>

definition cp_service_account :: "ControlPlaneObject \<Rightarrow> ServiceAccount \<Rightarrow> ServiceAccount result" where
  "cp_service_account cp sa =
     (let spec = cs_ServiceAccount (co_Spec cp);
          labels = maps_Copy (controlPlaneLabels (m_Name (co_meta cp))) (sas_Labels spec) in
      rbind (set_controller ''CoderControlPlane'' (co_meta cp)
               ((sa_meta sa)\<lparr>m_Labels := labels, m_Annotations := sas_Annotations spec\<rparr>)) (\<lambda>meta.
      Ok (sa\<lparr>sa_meta := meta\<rparr>)))"

definition detach_service_account :: "'b cp_client \<Rightarrow> ControlPlaneObject \<Rightarrow> ServiceAccount \<Rightarrow> ('b, unit) op" where
  "detach_service_account c cp sa =
     (if \<not> isOwnedByCoderControlPlane (sa_meta sa) cp then ret ()
      else
        let key = [ArgS (m_Namespace (sa_meta sa)), ArgS (m_Name (sa_meta sa))] in
        bind (lift (rmap_err (WrapError ''remove controller reference from service account %s/%s: %w'' key)
                (RemoveControllerReference ''CoderControlPlane'' (co_meta cp) (sa_meta sa)))) (\<lambda>meta.
        if m_OwnerReferences meta = m_OwnerReferences (sa_meta sa) then ret ()
        else bind (map_err (WrapError ''patch detached service account %s/%s: %w'' key)
                     (call (xc_PatchServiceAccount c sa (sa\<lparr>sa_meta := meta\<rparr>)))) (\<lambda>_. ret ())))"

definition detachManagedServiceAccounts :: "'b cp_client \<Rightarrow> ControlPlaneObject \<Rightarrow> ('b, unit) op" where
  "detachManagedServiceAccounts c cp =
     bind (map_err (WrapError ''list service accounts for detachment: %w'' [])
             (call (xc_ListServiceAccounts c (m_Namespace (co_meta cp))))) (\<lambda>items.
     for_each (detach_service_account c cp) items)"

definition reconcileServiceAccount :: "'b cp_client \<Rightarrow> ControlPlaneObject \<Rightarrow> ('b, unit) op" where
  "reconcileServiceAccount c cp =
     (if sas_DisableCreate (cs_ServiceAccount (co_Spec cp)) then detachManagedServiceAccounts c cp
      else
        let serviceAccountName = resolveServiceAccountName cp in
        guard (strings_TrimSpace serviceAccountName \<noteq> []) (assertion ''service account name must not be empty'') (
        bind (map_err (WrapError ''reconcile control plane serviceaccount: %w'' [])
                (CreateOrUpdate sa_meta (cc_ServiceAccounts c)
                   (new_ServiceAccount serviceAccountName (m_Namespace (co_meta cp))) (cp_service_account cp))) (\<lambda>_.
        ret ())))"

subsection \<open>Workspace roles\<close>

definition all_verbs :: "string list" where
  "all_verbs = [''get'', ''list'', ''watch'', ''create'', ''update'', ''patch'', ''delete'', ''deletecollection'']"

definition workspace_rules :: "RBACSpec \<Rightarrow> PolicyRule list" where
  "workspace_rules rbac =
     [\<lparr>rule_APIGroups = [[]], rule_Resources = [''pods''], rule_Verbs = all_verbs, rule_Other = []\<rparr>,
      \<lparr>rule_APIGroups = [[]], rule_Resources = [''persistentvolumeclaims''], rule_Verbs = all_verbs, rule_Other = []\<rparr>]
     @ (if workspaceDeploymentsEnabled (rbs_EnableDeployments rbac)
        then [\<lparr>rule_APIGroups = [''apps''], rule_Resources = [''deployments''], rule_Verbs = all_verbs, rule_Other = []\<rparr>] else [])
     @ rbs_ExtraRules rbac"

text \<open>The owner of a role or binding: the control plane in its own namespace, nobody elsewhere.\<close>

definition scoped_owner :: "ControlPlaneObject \<Rightarrow> string \<Rightarrow> KMeta \<Rightarrow> KMeta result" where
  "scoped_owner cp namespace meta =
     (if namespace = m_Namespace (co_meta cp) then set_controller ''CoderControlPlane'' (co_meta cp) meta
      else Ok (meta\<lparr>m_OwnerReferences := []\<rparr>))"

definition workspace_role :: "ControlPlaneObject \<Rightarrow> string \<Rightarrow> string \<Rightarrow> Role \<Rightarrow> Role result" where
  "workspace_role cp ownerUID namespace role =
     rbind (scoped_owner cp namespace
              ((role_meta role)\<lparr>m_Labels := workspaceRBACLabels cp, m_Annotations := workspaceRBACAnnotations ownerUID\<rparr>)) (\<lambda>meta.
     Ok (role\<lparr>role_meta := meta, role_Rules := workspace_rules (cs_RBAC (co_Spec cp))\<rparr>))"

definition workspace_role_binding ::
    "ControlPlaneObject \<Rightarrow> string \<Rightarrow> string \<Rightarrow> string \<Rightarrow> string \<Rightarrow> RoleBinding \<Rightarrow> RoleBinding result" where
  "workspace_role_binding cp ownerUID serviceAccountName roleName namespace rb =
     rbind (scoped_owner cp namespace
              ((rb_meta rb)\<lparr>m_Labels := workspaceRBACLabels cp, m_Annotations := workspaceRBACAnnotations ownerUID\<rparr>)) (\<lambda>meta.
     Ok (rb\<lparr>rb_meta := meta, rb_RoleRef := (''rbac.authorization.k8s.io'', ''Role'', roleName),
            rb_Subjects := [\<lparr>sub_Kind = ''ServiceAccount'', sub_Name = serviceAccountName, sub_Namespace = m_Namespace (co_meta cp)\<rparr>]\<rparr>))"

text \<open>The deletion of objects found by their labels; \<open>None\<close> is the nil map of the keys to keep.\<close>

definition kept_key :: "string list option \<Rightarrow> KMeta \<Rightarrow> bool" where
  "kept_key keep meta =
     (case keep of None \<Rightarrow> False | Some keys \<Rightarrow> namespacedResourceKey (m_Namespace meta) (m_Name meta) \<in> set keys)"

definition delete_managed ::
    "('o \<Rightarrow> KMeta) \<Rightarrow> ('o \<Rightarrow> bool) \<Rightarrow> ('o \<Rightarrow> ('b, unit) call) \<Rightarrow> string \<Rightarrow> string list option \<Rightarrow> 'o \<Rightarrow> ('b, unit) op" where
  "delete_managed meta managed del what keep obj =
     (if kept_key keep (meta obj) then ret ()
      else if \<not> managed obj then ret ()
      else handle (call (del obj))
        (\<lambda>err. if IsNotFound err then ret ()
               else fail (WrapError what [ArgS (m_Namespace (meta obj)), ArgS (m_Name (meta obj))] err))
        ret)"

definition cleanupManagedWorkspaceRBAC ::
    "'b cp_client \<Rightarrow> ControlPlaneObject \<Rightarrow> string list option \<Rightarrow> string list option \<Rightarrow> ('b, unit) op" where
  "cleanupManagedWorkspaceRBAC c cp keepRoles keepRoleBindings =
     (let trimmed = strings_TrimSpace (resolveServiceAccountName cp);
          serviceAccountName = (if trimmed = [] then m_Name (co_meta cp) else trimmed) in
      bind (lift (workspaceRoleName cp serviceAccountName)) (\<lambda>expectedRoleName.
      bind (lift (workspaceRoleBindingName cp serviceAccountName)) (\<lambda>expectedRoleBindingName.
      bind (map_err (WrapError ''list managed workspace roles: %w'' []) (call (xc_ListRoles c (workspaceRBACLabels cp)))) (\<lambda>roles.
      bind (for_each (delete_managed role_meta (\<lambda>role. isManagedWorkspaceRole role cp expectedRoleName) (xc_DeleteRole c)
              ''delete managed workspace role %s/%s: %w'' keepRoles) roles) (\<lambda>_.
      bind (map_err (WrapError ''list managed workspace role bindings: %w'' [])
              (call (xc_ListRoleBindings c (workspaceRBACLabels cp)))) (\<lambda>roleBindings.
      for_each (delete_managed rb_meta
          (\<lambda>rb. isManagedWorkspaceRoleBinding rb cp expectedRoleName expectedRoleBindingName serviceAccountName)
          (xc_DeleteRoleBinding c) ''delete managed workspace role binding %s/%s: %w'' keepRoleBindings) roleBindings))))))"

text \<open>One target namespace, and the loop over them with \<open>seenNamespaces\<close> and the keys to keep.\<close>

definition ensure_namespace_rbac ::
    "'b cp_client \<Rightarrow> ControlPlaneObject \<Rightarrow> string \<Rightarrow> string \<Rightarrow> string \<Rightarrow> string \<Rightarrow> string \<Rightarrow> ('b, unit) op" where
  "ensure_namespace_rbac c cp ownerUID serviceAccountName roleName roleBindingName namespace =
     bind (map_err (WrapError ''reconcile workspace role %s/%s: %w'' [ArgS namespace, ArgS roleName])
             (CreateOrUpdate role_meta (cc_Roles c) (new_Role roleName namespace) (workspace_role cp ownerUID namespace))) (\<lambda>_.
     bind (map_err (WrapError ''reconcile workspace role binding %s/%s: %w'' [ArgS namespace, ArgS roleBindingName])
             (CreateOrUpdate rb_meta (cc_RoleBindings c) (new_RoleBinding roleBindingName namespace)
                (workspace_role_binding cp ownerUID serviceAccountName roleName namespace))) (\<lambda>_.
     ret ()))"

fun rbac_loop :: "(string \<Rightarrow> ('b, unit) op) \<Rightarrow> string list \<Rightarrow> string list \<Rightarrow> ('b, string list) op" where
  "rbac_loop ensure seen [] = ret seen"
| "rbac_loop ensure seen (namespace # namespaces) =
     (let namespace = strings_TrimSpace namespace in
      guard (namespace \<noteq> []) (assertion ''workspace namespace must not be empty'') (
      if namespace \<in> set seen then rbac_loop ensure seen namespaces
      else bind (ensure namespace) (\<lambda>_. rbac_loop ensure (namespace # seen) namespaces)))"

definition reconcileWorkspaceRBAC :: "'b cp_client \<Rightarrow> ControlPlaneObject \<Rightarrow> ('b, unit) op" where
  "reconcileWorkspaceRBAC c cp =
     (let serviceAccountName = resolveServiceAccountName cp;
          ownerUID = strings_TrimSpace (m_UID (co_meta cp)) in
      guard (strings_TrimSpace serviceAccountName \<noteq> []) (assertion ''service account name must not be empty'') (
      guard (ownerUID \<noteq> []) (assertion ''coder control plane UID must not be empty'') (
      bind (lift (workspaceRoleName cp serviceAccountName)) (\<lambda>roleName.
      bind (lift (workspaceRoleBindingName cp serviceAccountName)) (\<lambda>roleBindingName.
      if \<not> workspacePermsEnabled (rbs_WorkspacePerms (cs_RBAC (co_Spec cp)))
      then cleanupManagedWorkspaceRBAC c cp None None
      else
        bind (rbac_loop (ensure_namespace_rbac c cp ownerUID serviceAccountName roleName roleBindingName) []
                (m_Namespace (co_meta cp) # rbs_WorkspaceNamespaces (cs_RBAC (co_Spec cp)))) (\<lambda>namespaces.
        cleanupManagedWorkspaceRBAC c cp
          (Some (map (\<lambda>ns. namespacedResourceKey ns roleName) namespaces))
          (Some (map (\<lambda>ns. namespacedResourceKey ns roleBindingName) namespaces))))))))"

text \<open>With \<open>seenNamespaces\<close>, which holds every namespace that was not skipped, the two keep sets are determined.\<close>

subsection \<open>Finalizer\<close>

definition ensureWorkspaceRBACFinalizer ::
    "'b cp_client \<Rightarrow> string \<Rightarrow> string \<Rightarrow> ControlPlaneObject \<Rightarrow> ('b, ControlPlaneObject) op" where
  "ensureWorkspaceRBACFinalizer c ns name cp =
     guard (m_Name (co_meta cp) = name \<and> m_Namespace (co_meta cp) = ns)
       (ErrorString (Fmt ''assertion failed: finalizer target %s/%s does not match request %s''
          [ArgS (m_Namespace (co_meta cp)), ArgS (m_Name (co_meta cp)), ArgS (namespacedName ns name)])) (
     if ContainsFinalizer (co_meta cp) workspaceRBACFinalizer then ret cp
     else
       bind (map_err (WrapError ''add workspace RBAC finalizer: %w'' [])
               (call (xc_PatchControlPlane c cp (cp\<lparr>co_meta := AddFinalizer workspaceRBACFinalizer (co_meta cp)\<rparr>)))) (\<lambda>_.
       map_err (WrapError ''reload codercontrolplane %s after finalizer update: %w'' [ArgS (namespacedName ns name)])
         (call (k_Get (xc_ControlPlanes c) ns name))))"

definition finalizeWorkspaceRBAC :: "'b cp_client \<Rightarrow> ControlPlaneObject \<Rightarrow> ('b, duration) op" where
  "finalizeWorkspaceRBAC c cp =
     (if \<not> ContainsFinalizer (co_meta cp) workspaceRBACFinalizer then ret 0
      else
        bind (cleanupManagedWorkspaceRBAC c cp None None) (\<lambda>_.
        bind (map_err (WrapError ''remove workspace RBAC finalizer: %w'' [])
                (call (xc_PatchControlPlane c cp (cp\<lparr>co_meta := RemoveFinalizer workspaceRBACFinalizer (co_meta cp)\<rparr>)))) (\<lambda>_.
        ret 0)))"

section \<open>Lemmas\<close>

subsection \<open>Loops\<close>

lemma preserves_for_each: "(\<And>x. x \<in> set xs \<Longrightarrow> preserves I (f x)) \<Longrightarrow> preserves I (for_each f xs)"
  by (induction xs) (auto intro: pres_rules)

lemma preserves_call: "(\<And>w. I w \<Longrightarrow> I (snd (f w))) \<Longrightarrow> preserves I (call f)"
  by (auto simp: preserves_def call_def split: prod.split sum.split) (metis snd_conv)+

subsection \<open>Managed objects\<close>

interpretation cp_sa: owned_object sa_meta "cp_service_account cp" "''CoderControlPlane''" "co_meta cp" for cp
  by unfold_locales (auto simp: cp_service_account_def managed_simps intro: set_controller_foreign dest: managed_dests)

lemma scoped_owner_Ok:
  assumes "scoped_owner cp ns (m\<lparr>m_Labels := l, m_Annotations := a\<rparr>) = Ok m'"
  shows "m_Name m' = m_Name m" "m_Namespace m' = m_Namespace m"
    "scoped_owner cp ns (m'\<lparr>m_Labels := l, m_Annotations := a\<rparr>) = Ok m'"
  using assms by (auto simp: scoped_owner_def dest: managed_dests split: if_splits)

lemma scoped_owner_no_panic [simp]: "\<not> is_panic (scoped_owner cp ns m)"
  by (simp add: scoped_owner_def)

interpretation ws_role: managed_object role_meta "workspace_role cp uid ns" for cp uid ns
  by unfold_locales (auto simp: workspace_role_def managed_simps dest: scoped_owner_Ok)

interpretation ws_rb: managed_object rb_meta "workspace_role_binding cp uid sa role ns" for cp uid sa role ns
  by unfold_locales (auto simp: workspace_role_binding_def managed_simps dest: scoped_owner_Ok)

text \<open>In the control plane's own namespace they are owned.\<close>

interpretation own_role: owned_object role_meta "workspace_role cp uid (m_Namespace (co_meta cp))" "''CoderControlPlane''" "co_meta cp" for cp uid
  by unfold_locales (auto simp: workspace_role_def scoped_owner_def managed_simps intro: set_controller_foreign dest: managed_dests)

interpretation own_rb: owned_object rb_meta "workspace_role_binding cp uid sa role (m_Namespace (co_meta cp))" "''CoderControlPlane''" "co_meta cp"
    for cp uid sa role
  by unfold_locales (auto simp: workspace_role_binding_def scoped_owner_def managed_simps intro: set_controller_foreign dest: managed_dests)

subsection \<open>Cleanup\<close>

lemma preserves_delete_managed:
  assumes "managed obj \<Longrightarrow> \<not> kept_key keep (meta obj) \<Longrightarrow> preserves I (call (del obj))"
  shows "preserves I (delete_managed meta managed del what keep obj)"
  using assms unfolding delete_managed_def by (auto intro!: pres_rules)

text \<open>The two names are those of the reconciliation, whatever the blanks around the configured account.\<close>

lemma workspace_names_trim:
  shows "workspaceRoleName cp (strings_TrimSpace sa) = workspaceRoleName cp sa"
    and "workspaceRoleBindingName cp (strings_TrimSpace sa) = workspaceRoleBindingName cp sa"
  by (simp_all add: workspaceRoleName_def workspaceRoleBindingName_def scopedWorkspaceRBACName_def)

text \<open>What the deletion of the managed roles among those listed, and of bindings, preserves.\<close>

lemma cleanup_preserves:
  assumes roles: "\<And>roles v role n. xc_ListRoles c (workspaceRBACLabels cp) w = (Inr roles, v) \<Longrightarrow> role \<in> set roles \<Longrightarrow>
        isManagedWorkspaceRole role cp n \<Longrightarrow> \<not> kept_key kr (role_meta role) \<Longrightarrow> preserves I (call (xc_DeleteRole c role))"
    and bindings: "\<And>rb n m sa. isManagedWorkspaceRoleBinding rb cp n m sa \<Longrightarrow> \<not> kept_key kb (rb_meta rb) \<Longrightarrow>
        preserves I (call (xc_DeleteRoleBinding c rb))"
    and lists: "preserves I (call (xc_ListRoles c (workspaceRBACLabels cp)))"
        "preserves I (call (xc_ListRoleBindings c (workspaceRBACLabels cp)))"
    and "I w"
  shows "I (snd (cleanupManagedWorkspaceRBAC c cp kr kb w))"
proof -
  obtain r v where l: "call (xc_ListRoles c (workspaceRBACLabels cp)) w = (r, v)" by force
  have v: "I v" by (rule preservesD [OF lists(1) \<open>I w\<close> l])
  have rest: "preserves I (bind (for_each (delete_managed role_meta (\<lambda>role. isManagedWorkspaceRole role cp n) (xc_DeleteRole c) m kr) roles) (\<lambda>_.
      bind (map_err f (call (xc_ListRoleBindings c (workspaceRBACLabels cp)))) (\<lambda>rbs.
      for_each (delete_managed rb_meta (\<lambda>rb. isManagedWorkspaceRoleBinding rb cp n n' sa) (xc_DeleteRoleBinding c) m' kb) rbs)))"
    if "r = Ok roles" for roles n n' m m' f sa
  proof -
    have "xc_ListRoles c (workspaceRBACLabels cp) w = (Inr roles, v)"
      using l that by (auto simp: call_def split: prod.splits sum.splits)
    then show ?thesis
      by (intro preserves_bind preserves_map_err preserves_for_each preserves_delete_managed lists(2))
         (blast intro: roles bindings)+
  qed
  show ?thesis
    using l v \<open>I w\<close> rest unfolding cleanupManagedWorkspaceRBAC_def Let_def
    by (auto simp: bind_run lift_def map_err_run preserves_def split: res.splits)
qed

end
