(* ===== verification/Control_Plane_Workload.thy ===== *)
theory Control_Plane_Workload
  imports Control_Plane_RBAC
begin

text \<open>
  Deployment and service of a control plane
  (internal/controller/codercontrolplane_controller.go): the environment and its sources, the
  mounts of TLS and CA certificates, the probes, the pod template, the service ports. The
  mutate functions are interpretations of \<open>owned_object\<close>.
\<close>

section \<open>Definitions\<close>

subsection \<open>Environment sources\<close>

text \<open>One reference of an \<open>envFrom\<close> source: the keys of the object it names, read with \<open>get\<close>.\<close>

definition source_defines ::
    "(string \<Rightarrow> ('b, string_map) op) \<Rightarrow> string \<Rightarrow> nat \<Rightarrow> string \<Rightarrow> string \<Rightarrow> string \<Rightarrow> string option \<Rightarrow> ('b, bool) op" where
  "source_defines get namespace i emptyMessage getMessage lookupKey ref =
     (case ref of None \<Rightarrow> ret False
      | Some name \<Rightarrow>
          (let name = strings_TrimSpace name in
           guard (name \<noteq> []) (ErrorString (Fmt emptyMessage [ArgD (int i)])) (
           handle (get name)
             (\<lambda>err. if \<not> IsNotFound err then fail (WrapError getMessage [ArgD (int i), ArgS namespace, ArgS name] err) else ret False)
             (\<lambda>data. ret (map_of data lookupKey \<noteq> None)))))"

fun env_from_loop :: "'b api_reader \<Rightarrow> string \<Rightarrow> string \<Rightarrow> nat \<Rightarrow> EnvFromSource list \<Rightarrow> ('b, bool) op" where
  "env_from_loop rd namespace envVarName i [] = ret False"
| "env_from_loop rd namespace envVarName i (src # srcs) =
     (case envFromLookupKeyForEnvVar (ef_Prefix src) envVarName of
        None \<Rightarrow> env_from_loop rd namespace envVarName (Suc i) srcs
      | Some lookupKey \<Rightarrow>
          bind (source_defines (\<lambda>n. bind (call (rd_GetConfigMap rd namespace n)) (\<lambda>cm. ret (cm_Data cm))) namespace i
                  ''assertion failed: envFrom[%d].configMapRef.name must not be empty'' ''get envFrom[%d] configmap %s/%s: %w''
                  lookupKey (ef_ConfigMapRef src)) (\<lambda>found.
          if found then ret True
          else
            bind (source_defines (\<lambda>n. bind (call (rd_GetSecret rd namespace n)) (\<lambda>s. ret (sec_Data s))) namespace i
                    ''assertion failed: envFrom[%d].secretRef.name must not be empty'' ''get envFrom[%d] secret %s/%s: %w''
                    lookupKey (ef_SecretRef src)) (\<lambda>found.
            if found then ret True else env_from_loop rd namespace envVarName (Suc i) srcs)))"

definition envFromDefinesEnvVar ::
    "'b cp_client \<Rightarrow> 'b api_reader option \<Rightarrow> string \<Rightarrow> EnvFromSource list \<Rightarrow> string \<Rightarrow> ('b, bool) op" where
  "envFromDefinesEnvVar c apiReader namespace envFromSources envVarName =
     guard (strings_TrimSpace namespace \<noteq> []) (assertion ''namespace must not be empty'') (
     guard (strings_TrimSpace envVarName \<noteq> []) (assertion ''environment variable name must not be empty'') (
     env_from_loop (reader_of c apiReader) namespace envVarName 0 envFromSources))"

subsection \<open>Probes\<close>

definition probeEnabled :: "bool option \<Rightarrow> bool \<Rightarrow> bool" where
  "probeEnabled explicit defaultEnabled = boolOrDefault explicit defaultEnabled"

definition int_or :: "int \<Rightarrow> int option \<Rightarrow> int" where
  "int_or d x = (case x of None \<Rightarrow> d | Some v \<Rightarrow> v)"

definition buildProbe :: "ProbeSpec \<Rightarrow> string \<Rightarrow> string \<Rightarrow> Probe" where
  "buildProbe spec path portName =
     \<lparr>prb_HTTPGet = Some (path, portName, ''HTTP''),
      prb_InitialDelaySeconds = prs_InitialDelaySeconds spec,
      prb_PeriodSeconds = int_or 10 (prs_PeriodSeconds spec),
      prb_TimeoutSeconds = int_or 1 (prs_TimeoutSeconds spec),
      prb_SuccessThreshold = int_or 1 (prs_SuccessThreshold spec),
      prb_FailureThreshold = int_or 3 (prs_FailureThreshold spec), prb_Other = []\<rparr>"

subsection \<open>Environment, ports, volumes\<close>

definition plain_env :: "string \<Rightarrow> string \<Rightarrow> EnvVar" where
  "plain_env name value = \<lparr>env_Name = name, env_Value = value, env_ValueFrom = None\<rparr>"

definition base_env :: "EnvVar list" where
  "base_env = [\<lparr>env_Name = ''KUBE_POD_IP'', env_Value = [], env_ValueFrom = Some (FieldRef ''status.podIP'')\<rparr>,
     plain_env ''CODER_DERP_SERVER_RELAY_URL'' ''http://$(KUBE_POD_IP):8080'']"

definition cluster_access_url :: "ControlPlaneObject \<Rightarrow> string" where
  "cluster_access_url cp =
     (let scheme = (if controlPlaneTLSEnabled cp then ''https'' else ''http'');
          accessURLPort = (if controlPlaneTLSEnabled cp then 443 else service_port cp);
          accessURL = scheme @ ''://'' @ m_Name (co_meta cp) @ ''.'' @ m_Namespace (co_meta cp) @ ''.svc.cluster.local'' in
      if (scheme = ''http'' \<and> accessURLPort \<noteq> 80) \<or> (scheme = ''https'' \<and> accessURLPort \<noteq> 443)
      then accessURL @ '':'' @ strconv_FormatInt accessURLPort else accessURL)"

definition access_url_env :: "ControlPlaneObject \<Rightarrow> bool \<Rightarrow> bool \<Rightarrow> EnvVar list result" where
  "access_url_env cp injectClusterAccessURL configuredViaEnvFrom =
     (if \<not> injectClusterAccessURL then Ok []
      else rbind (findEnvVar (cs_ExtraEnv (co_Spec cp)) ''CODER_ACCESS_URL'') (\<lambda>configuredAccessURL.
        Ok (if configuredAccessURL = None \<and> \<not> configuredViaEnvFrom
            then [plain_env ''CODER_ACCESS_URL'' (cluster_access_url cp)] else [])))"

text \<open>The TLS secrets: trimmed, without repetitions, in the order of the spec.\<close>

fun tls_secret_loop :: "string list \<Rightarrow> string list \<Rightarrow> string list result" where
  "tls_secret_loop seen [] = Ok []"
| "tls_secret_loop seen (secretName # names) =
     (let secretName = strings_TrimSpace secretName in
      if secretName = [] then Err (assertion ''tls secret name must not be empty'')
      else if secretName \<in> set seen then tls_secret_loop seen names
      else rbind (tls_secret_loop (secretName # seen) names) (\<lambda>rest. Ok (secretName # rest)))"

definition tls_mount_path :: "string \<Rightarrow> string" where
  "tls_mount_path secretName = ''/etc/ssl/certs/coder/'' @ secretName"

definition secret_volume :: "string \<Rightarrow> string \<Rightarrow> Volume" where
  "secret_volume volumeName secretName = \<lparr>vol_Name = volumeName, vol_Source = SecretVolume secretName\<rparr>"

definition secret_mount :: "string \<Rightarrow> string \<Rightarrow> string \<Rightarrow> VolumeMount" where
  "secret_mount volumeName mountPath subPath =
     \<lparr>vm_Name = volumeName, vm_MountPath = mountPath, vm_SubPath = subPath, vm_ReadOnly = True, vm_Other = []\<rparr>"

definition tls_env :: "string list \<Rightarrow> EnvVar list" where
  "tls_env secrets =
     [plain_env ''CODER_TLS_ENABLE'' ''true'', plain_env ''CODER_TLS_ADDRESS'' ''0.0.0.0:8443'',
      plain_env ''CODER_TLS_CERT_FILE'' (strings_Join (map (\<lambda>s. tls_mount_path s @ ''/tls.crt'') secrets) CHR '',''),
      plain_env ''CODER_TLS_KEY_FILE'' (strings_Join (map (\<lambda>s. tls_mount_path s @ ''/tls.key'') secrets) CHR '','')]"

definition container_port :: "string \<Rightarrow> int \<Rightarrow> ContainerPort" where
  "container_port name n = \<lparr>port_Name = name, port_ContainerPort = n, port_Protocol = ''TCP''\<rparr>"

definition cp_container_ports :: "ControlPlaneObject \<Rightarrow> ContainerPort list" where
  "cp_container_ports cp =
     container_port ''http'' controlPlaneTargetPort
       # (if controlPlaneTLSEnabled cp then [container_port ''https'' controlPlaneTLSTargetPort] else [])"

text \<open>
  The CA certificates. \<open>certSecretNameCounts\<close> counts the selectors of a secret before the
  loop; the loop keeps the secrets that have a volume, the counts of file names and the
  selectors it has seen.
\<close>

definition certSecretNameCount :: "CertSecretSelector list \<Rightarrow> string \<Rightarrow> nat" where
  "certSecretNameCount secrets name = length (filter (\<lambda>s. strings_TrimSpace (cert_Name s) = name) secrets)"

definition mount_file_base :: "(string \<Rightarrow> nat) \<Rightarrow> string \<Rightarrow> string \<Rightarrow> string" where
  "mount_file_base counts name key =
     (let mountFileBase = (if counts name > 1 then name @ ''-'' @ key else name) in
      if strings_HasSuffix mountFileBase ''.crt'' then mountFileBase else mountFileBase @ ''.crt'')"

definition mount_file_name :: "string \<Rightarrow> nat \<Rightarrow> string" where
  "mount_file_name mountFileName mountFileCount =
     (if mountFileCount > 0
      then strings_TrimSuffix mountFileName ''.crt'' @ ''-'' @ strconv_FormatInt (int mountFileCount + 1) @ ''.crt''
      else mountFileName)"

fun cert_loop ::
    "(string \<Rightarrow> nat) \<Rightarrow> string list \<Rightarrow> (string \<Rightarrow> nat) \<Rightarrow> string list \<Rightarrow> CertSecretSelector list
      \<Rightarrow> (Volume list \<times> VolumeMount list) result" where
  "cert_loop counts withVolume fileCount seen [] = Ok ([], [])"
| "cert_loop counts withVolume fileCount seen (secret # secrets) =
     (let name = strings_TrimSpace (cert_Name secret); key = strings_TrimSpace (cert_Key secret) in
      if name = [] then Err (assertion ''cert secret name must not be empty'')
      else if key = [] then Err (assertion ''cert secret key must not be empty'')
      else
        let selectorKey = name @ [CHR 0x00] @ key in
        if selectorKey \<in> set seen then cert_loop counts withVolume fileCount seen secrets
        else
          let volumeName = volumeNameForSecret ''ca-cert'' name;
              newVolumes = (if name \<in> set withVolume then [] else [secret_volume volumeName name]);
              mountFileName = mount_file_base counts name key;
              mount = secret_mount volumeName (''/etc/ssl/certs/'' @ mount_file_name mountFileName (fileCount mountFileName)) key
          in rbind (cert_loop counts (name # withVolume) (fileCount(mountFileName := fileCount mountFileName + 1))
                      (selectorKey # seen) secrets) (\<lambda>(volumes, mounts).
             Ok (newVolumes @ volumes, mount # mounts)))"

definition cert_mounts :: "CertSecretSelector list \<Rightarrow> (Volume list \<times> VolumeMount list) result" where
  "cert_mounts secrets = cert_loop (certSecretNameCount secrets) [] (\<lambda>_. 0) [] secrets"

subsection \<open>Deployment\<close>

definition cp_container ::
    "ControlPlaneObject \<Rightarrow> EnvVar list \<Rightarrow> string list \<Rightarrow> VolumeMount list \<Rightarrow> Container" where
  "cp_container cp accessEnv tlsSecrets certMounts =
     (let spec = co_Spec cp in
      \<lparr>con_Name = ''coder'',
       con_Image = or_default defaultCoderImage (cs_Image spec),
       con_Command = [],
       con_Args = ''--http-address=0.0.0.0:8080'' # cs_ExtraArgs spec,
       con_Env = base_env @ accessEnv @ (if controlPlaneTLSEnabled cp then tls_env tlsSecrets else []) @ cs_ExtraEnv spec,
       con_Ports = cp_container_ports cp,
       con_Resources = (case cs_Resources spec of None \<Rightarrow> [] | Some r \<Rightarrow> r),
       con_EnvFrom = cs_EnvFrom spec,
       con_VolumeMounts =
         map (\<lambda>s. secret_mount (volumeNameForSecret ''tls'' s) (tls_mount_path s) []) tlsSecrets @ certMounts @ cs_VolumeMounts spec,
       con_SecurityContext = cs_SecurityContext spec,
       con_ReadinessProbe = (if probeEnabled (prs_Enabled (cs_ReadinessProbe spec)) True
                             then Some (buildProbe (cs_ReadinessProbe spec) ''/healthz'' ''http'') else None),
       con_LivenessProbe = (if probeEnabled (prs_Enabled (cs_LivenessProbe spec)) False
                            then Some (buildProbe (cs_LivenessProbe spec) ''/healthz'' ''http'') else None),
       con_Other = []\<rparr>)"

definition cp_template ::
    "ControlPlaneObject \<Rightarrow> EnvVar list \<Rightarrow> string list \<Rightarrow> Volume list \<times> VolumeMount list \<Rightarrow> PodTemplate" where
  "cp_template cp accessEnv tlsSecrets certs =
     (let spec = co_Spec cp in
      \<lparr>pod_Labels = controlPlaneLabels (m_Name (co_meta cp)), pod_Annotations = [],
       pod_ServiceAccountName = resolveServiceAccountName cp,
       pod_ImagePullSecrets = cs_ImagePullSecrets spec, pod_TerminationGracePeriodSeconds = None,
       pod_Containers = [cp_container cp accessEnv tlsSecrets (snd certs)],
       pod_Volumes = map (\<lambda>s. secret_volume (volumeNameForSecret ''tls'' s) s) tlsSecrets @ fst certs @ cs_Volumes spec,
       pod_NodeSelector = cs_NodeSelector spec, pod_Tolerations = cs_Tolerations spec,
       pod_TopologySpread = cs_TopologySpreadConstraints spec,
       pod_SecurityContext = cs_PodSecurityContext spec, pod_Affinity = cs_Affinity spec, pod_Other = []\<rparr>)"

definition cp_deployment :: "ControlPlaneObject \<Rightarrow> bool \<Rightarrow> bool \<Rightarrow> Deployment \<Rightarrow> Deployment result" where
  "cp_deployment cp injectClusterAccessURL configuredViaEnvFrom d =
     (let labels = controlPlaneLabels (m_Name (co_meta cp)); spec = co_Spec cp in
      rbind (set_controller ''CoderControlPlane'' (co_meta cp) ((dep_meta d)\<lparr>m_Labels := labels\<rparr>)) (\<lambda>meta.
      if strings_TrimSpace (resolveServiceAccountName cp) = [] then Err (assertion ''service account name must not be empty'')
      else
        rbind (access_url_env cp injectClusterAccessURL configuredViaEnvFrom) (\<lambda>accessEnv.
        rbind (tls_secret_loop [] (cs_TLS_SecretNames spec)) (\<lambda>tlsSecrets.
        rbind (cert_mounts (cs_Certs_Secrets spec)) (\<lambda>certs.
        Ok (d\<lparr>dep_meta := meta,
              dep_Replicas := Some (int_or 1 (cs_Replicas spec)),
              dep_Selector := labels,
              dep_Template := cp_template cp accessEnv tlsSecrets certs\<rparr>))))))"

definition cp_reconcileDeployment ::
    "'b cp_client \<Rightarrow> 'b api_reader option \<Rightarrow> ControlPlaneObject \<Rightarrow> ('b, Deployment) op" where
  "cp_reconcileDeployment c apiReader cp =
     (let injectClusterAccessURL = (case cs_EnvUseClusterAccessURL (co_Spec cp) of None \<Rightarrow> True | Some b \<Rightarrow> b) in
      bind (if injectClusterAccessURL
            then envFromDefinesEnvVar c apiReader (m_Namespace (co_meta cp)) (cs_EnvFrom (co_Spec cp)) ''CODER_ACCESS_URL''
            else ret False) (\<lambda>configuredViaEnvFrom.
      map_err (WrapError ''reconcile control plane deployment: %w'' [])
        (CreateOrUpdate dep_meta (cc_Deployments c) (new_Deployment (m_Name (co_meta cp)) (m_Namespace (co_meta cp)))
           (cp_deployment cp injectClusterAccessURL configuredViaEnvFrom))))"

subsection \<open>Service\<close>

definition service_port_entry :: "string \<Rightarrow> int \<Rightarrow> int \<Rightarrow> ServicePort" where
  "service_port_entry name port target =
     \<lparr>sp_Name = name, sp_Port = port, sp_Protocol = ''TCP'', sp_TargetPort = target, sp_Other = []\<rparr>"

definition cp_service_ports :: "ControlPlaneObject \<Rightarrow> ServicePort list" where
  "cp_service_ports cp =
     (let servicePort = service_port cp; tlsEnabled = controlPlaneTLSEnabled cp;
          primary = (if tlsEnabled \<and> servicePort = 443
                     then service_port_entry ''https'' servicePort controlPlaneTLSTargetPort
                     else service_port_entry ''http'' servicePort controlPlaneTargetPort)
      in [primary]
         @ (if tlsEnabled \<and> servicePort = 443 then [service_port_entry ''http'' defaultControlPlanePort controlPlaneTargetPort] else [])
         @ (if tlsEnabled \<and> servicePort \<noteq> 443 then [service_port_entry ''https'' 443 controlPlaneTLSTargetPort] else []))"

definition cp_service :: "ControlPlaneObject \<Rightarrow> Service \<Rightarrow> Service result" where
  "cp_service cp s =
     (let labels = controlPlaneLabels (m_Name (co_meta cp)); svc = cs_Service (co_Spec cp) in
      rbind (set_controller ''CoderControlPlane'' (co_meta cp)
               ((svc_meta s)\<lparr>m_Labels := labels, m_Annotations := ss_Annotations svc\<rparr>)) (\<lambda>meta.
      Ok (s\<lparr>svc_meta := meta, svc_Type := or_default ''ClusterIP'' (ss_Type svc), svc_Selector := labels,
            svc_Ports := cp_service_ports cp\<rparr>)))"

definition cp_reconcileService :: "'b cp_client \<Rightarrow> ControlPlaneObject \<Rightarrow> ('b, Service) op" where
  "cp_reconcileService c cp =
     map_err (WrapError ''reconcile control plane service: %w'' [])
       (CreateOrUpdate svc_meta (cc_Services c) (new_Service (m_Name (co_meta cp)) (m_Namespace (co_meta cp))) (cp_service cp))"

section \<open>Lemmas\<close>

subsection \<open>Panics\<close>

lemma find_env_loop_no_panic [simp]: "\<not> is_panic (find_env_loop n f es)"
  by (induction n f es rule: find_env_loop.induct) auto

lemma findEnvVar_no_panic [simp]: "\<not> is_panic (findEnvVar es n)"
  by (simp add: findEnvVar_def)

lemma access_url_env_no_panic [simp]: "\<not> is_panic (access_url_env cp b b')"
  by (simp add: access_url_env_def is_panic_rbind)

lemma tls_secret_loop_no_panic [simp]: "\<not> is_panic (tls_secret_loop seen ns)"
  by (induction seen ns rule: tls_secret_loop.induct) (auto simp: Let_def is_panic_rbind)

lemma cert_loop_no_panic [simp]: "\<not> is_panic (cert_loop counts wv fc seen ss)"
proof (induction ss arbitrary: wv fc seen)
  case (Cons s ss)
  then show ?case unfolding cert_loop.simps Let_def by (simp add: is_panic_rbind split: prod.split)
qed simp

lemma cert_mounts_no_panic [simp]: "\<not> is_panic (cert_mounts ss)"
  by (simp add: cert_mounts_def)

subsection \<open>Managed objects\<close>

interpretation cp_dep: owned_object dep_meta "cp_deployment cp inj via" "''CoderControlPlane''" "co_meta cp" for cp inj via
proof
  show "\<not> is_panic (cp_deployment cp inj via x)" for x
    unfolding cp_deployment_def Let_def by (auto simp: is_panic_rbind)
  show "foreign_controlled ''CoderControlPlane'' (co_meta cp) (dep_meta x) \<Longrightarrow> \<exists>err. cp_deployment cp inj via x = Err err" for x
    unfolding cp_deployment_def Let_def by (rule set_controller_foreign)
qed (auto simp: cp_deployment_def managed_simps dest: managed_dests split: if_splits)

interpretation cp_svc: owned_object svc_meta "cp_service cp" "''CoderControlPlane''" "co_meta cp" for cp
  by unfold_locales (auto simp: cp_service_def managed_simps intro: set_controller_foreign dest: managed_dests)

subsection \<open>Environment\<close>

lemma find_env_loop_Ok:
  "find_env_loop n found es = Ok r \<Longrightarrow>
     (found \<noteq> None \<longrightarrow> r = found \<and> filter (\<lambda>e. env_Name e = n) es = []) \<and>
     (found = None \<longrightarrow> filter (\<lambda>e. env_Name e = n) es = (case r of None \<Rightarrow> [] | Some e \<Rightarrow> [e]))"
proof (induction es arbitrary: found)
  case (Cons e es)
  then show ?case
  proof (cases "env_Name e = n")
    case True
    with Cons.prems have "found = None" "find_env_loop n (Some e) es = Ok r" by (auto split: if_splits)
    with True Cons.IH [of "Some e"] show ?thesis by simp
  qed (use Cons in simp)
next
  case Nil
  then show ?case by (cases found) auto
qed

lemma tls_secret_loop_Ok:
  "tls_secret_loop seen ns = Ok ss \<Longrightarrow>
     distinct ss \<and> set ss = strings_TrimSpace ` set ns - set seen \<and> [] \<notin> strings_TrimSpace ` set ns"
proof (induction ns arbitrary: seen ss)
  case (Cons n ns)
  define m where "m = strings_TrimSpace n"
  have ne: "m \<noteq> []" using Cons.prems by (auto simp: m_def [symmetric] Let_def)
  show ?case
  proof (cases "m \<in> set seen")
    case True
    then have "tls_secret_loop seen ns = Ok ss" using Cons.prems ne by (simp add: m_def [symmetric])
    then show ?thesis using Cons.IH [of seen ss] True ne by (auto simp: m_def [symmetric])
  next
    case False
    then obtain rest where r: "tls_secret_loop (m # seen) ns = Ok rest" "ss = m # rest"
      using Cons.prems ne by (auto simp: m_def [symmetric] rbind_eq_Ok)
    show ?thesis using Cons.IH [OF r(1)] False ne r(2) by (auto simp: m_def [symmetric])
  qed
qed simp

end
