(* ===== verification/Control_Plane_Exposure.thy ===== *)
theory Control_Plane_Exposure
  imports Control_Plane_Workload
begin

text \<open>
  Exposure of a control plane by an ingress or an HTTP route
  (internal/controller/codercontrolplane_controller.go): at most one of the two is
  configured, the other is removed if the control plane owns it. A cluster without the
  Gateway API answers with a no-match error, which is not a failure.
\<close>

section \<open>Definitions\<close>

definition IsNoMatchError :: "error \<Rightarrow> bool" where
  "IsNoMatchError err = errors_Is err NoMatchError"

subsection \<open>Ingress\<close>

definition ingress_rule :: "ControlPlaneObject \<Rightarrow> string \<Rightarrow> IngressRule" where
  "ingress_rule cp host = \<lparr>ir_Host = host,
     ir_Paths = [\<lparr>ip_Path = ''/'', ip_PathType = Some ''Prefix'', ip_ServiceName = m_Name (co_meta cp),
                  ip_ServicePort = httpRouteBackendServicePort cp, ip_Other = []\<rparr>]\<rparr>"

definition ingress_tls :: "IngressExposeSpec \<Rightarrow> string \<Rightarrow> string \<Rightarrow> IngressTLS list result" where
  "ingress_tls ix primaryHost wildcardHost =
     (case ix_TLS ix of None \<Rightarrow> Ok []
      | Some tls \<Rightarrow>
          (let secretName = strings_TrimSpace (itx_SecretName tls);
               wildcardSecretName = strings_TrimSpace (itx_WildcardSecretName tls);
               primary = (if secretName \<noteq> [] then [\<lparr>it_Hosts = [primaryHost], it_SecretName = secretName\<rparr>] else []) in
           if wildcardSecretName = [] then Ok primary
           else if wildcardHost = []
           then Err (assertion ''ingress wildcard host must not be empty when wildcard TLS secret is set'')
           else Ok (primary @ [\<lparr>it_Hosts = [wildcardHost], it_SecretName = wildcardSecretName\<rparr>])))"

definition cp_ingress :: "ControlPlaneObject \<Rightarrow> IngressExposeSpec \<Rightarrow> string \<Rightarrow> string \<Rightarrow> Ingress \<Rightarrow> Ingress result" where
  "cp_ingress cp ix primaryHost wildcardHost ing =
     rbind (ingress_tls ix primaryHost wildcardHost) (\<lambda>tls.
     rbind (set_controller ''CoderControlPlane'' (co_meta cp)
              ((ing_meta ing)\<lparr>m_Labels := controlPlaneLabels (m_Name (co_meta cp)), m_Annotations := ix_Annotations ix\<rparr>)) (\<lambda>meta.
     Ok (ing\<lparr>ing_meta := meta, ing_ClassName := ix_ClassName ix,
             ing_Rules := ingress_rule cp primaryHost # (if wildcardHost \<noteq> [] then [ingress_rule cp wildcardHost] else []),
             ing_TLS := tls, ing_OtherSpec := []\<rparr>)))"

definition reconcileIngress :: "'b cp_client \<Rightarrow> ControlPlaneObject \<Rightarrow> IngressExposeSpec \<Rightarrow> ('b, unit) op" where
  "reconcileIngress c cp ix =
     (let primaryHost = strings_TrimSpace (ix_Host ix); wildcardHost = strings_TrimSpace (ix_WildcardHost ix) in
      guard (primaryHost \<noteq> []) (assertion ''ingress host must not be empty'') (
      bind (map_err (WrapError ''reconcile control plane ingress: %w'' [])
              (CreateOrUpdate ing_meta (xc_Ingresses c) (new_Ingress (m_Name (co_meta cp)) (m_Namespace (co_meta cp)))
                 (cp_ingress cp ix primaryHost wildcardHost))) (\<lambda>_.
      ret ())))"

subsection \<open>HTTP route\<close>

definition trimmed_ref :: "string \<Rightarrow> nat \<Rightarrow> string option \<Rightarrow> string option result" where
  "trimmed_ref message i x =
     (case x of None \<Rightarrow> Ok None
      | Some v \<Rightarrow> if strings_TrimSpace v = [] then Err (ErrorString (Fmt message [ArgD (int i)]))
                  else Ok (Some (strings_TrimSpace v)))"

fun parent_refs_loop :: "nat \<Rightarrow> GatewayParentRef list \<Rightarrow> ParentReference list result" where
  "parent_refs_loop i [] = Ok []"
| "parent_refs_loop i (spec # specs) =
     (if strings_TrimSpace (gp_Name spec) = []
      then Err (ErrorString (Fmt ''assertion failed: gateway parentRef[%d] name must not be empty'' [ArgD (int i)]))
      else
        rbind (trimmed_ref ''assertion failed: gateway parentRef[%d] namespace must not be empty when set'' i (gp_Namespace spec)) (\<lambda>ns.
        rbind (trimmed_ref ''assertion failed: gateway parentRef[%d] sectionName must not be empty when set'' i (gp_SectionName spec)) (\<lambda>sec.
        rbind (parent_refs_loop (Suc i) specs) (\<lambda>refs.
        Ok (\<lparr>pf_Name = strings_TrimSpace (gp_Name spec), pf_Namespace = ns, pf_SectionName = sec, pf_Other = []\<rparr> # refs)))))"

definition route_rule :: "ControlPlaneObject \<Rightarrow> HTTPRouteRule" where
  "route_rule cp = \<lparr>hrr_Matches = [(Some ''PathPrefix'', Some ''/'')],
     hrr_BackendRefs = [\<lparr>hb_Group = Some [], hb_Kind = Some ''Service'', hb_Name = m_Name (co_meta cp),
       hb_Port = Some (httpRouteBackendServicePort cp), hb_Other = []\<rparr>], hrr_Other = []\<rparr>"

definition cp_http_route :: "ControlPlaneObject \<Rightarrow> GatewayExposeSpec \<Rightarrow> string \<Rightarrow> HTTPRoute \<Rightarrow> HTTPRoute result" where
  "cp_http_route cp gx primaryHost rt =
     rbind (parent_refs_loop 0 (gx_ParentRefs gx)) (\<lambda>parentRefs.
     let wildcardHost = strings_TrimSpace (gx_WildcardHost gx) in
     rbind (set_controller ''CoderControlPlane'' (co_meta cp)
              ((hr_meta rt)\<lparr>m_Labels := controlPlaneLabels (m_Name (co_meta cp))\<rparr>)) (\<lambda>meta.
     Ok (rt\<lparr>hr_meta := meta, hr_ParentRefs := parentRefs,
            hr_Hostnames := primaryHost # (if wildcardHost \<noteq> [] then [wildcardHost] else []),
            hr_Rules := [route_rule cp], hr_OtherSpec := []\<rparr>)))"

definition reconcileHTTPRoute :: "'b cp_client \<Rightarrow> ControlPlaneObject \<Rightarrow> GatewayExposeSpec \<Rightarrow> ('b, bool) op" where
  "reconcileHTTPRoute c cp gx =
     (let primaryHost = strings_TrimSpace (gx_Host gx) in
      guard (primaryHost \<noteq> []) (assertion ''gateway host must not be empty'') (
      guard (gx_ParentRefs gx \<noteq> []) (assertion ''gateway parentRefs must not be empty'') (
      handle (CreateOrUpdate hr_meta (xc_HTTPRoutes c) (new_HTTPRoute (m_Name (co_meta cp)) (m_Namespace (co_meta cp)))
                (cp_http_route cp gx primaryHost))
        (\<lambda>err. if IsNoMatchError err then ret True else fail (WrapError ''reconcile control plane httproute: %w'' [] err))
        (\<lambda>_. ret True))))"

subsection \<open>Cleanup and choice\<close>

text \<open>Deletion of an object of the control plane's name, if it is the control plane's; \<open>absent\<close> are the errors that mean there is none.\<close>

definition cleanup_owned ::
    "('o \<Rightarrow> KMeta) \<Rightarrow> ('b, 'o) kind_api \<Rightarrow> ('o \<Rightarrow> ('b, unit) call) \<Rightarrow> (error \<Rightarrow> bool) \<Rightarrow> string \<Rightarrow> string
      \<Rightarrow> ControlPlaneObject \<Rightarrow> ('b, unit) op" where
  "cleanup_owned meta api del absent getMessage deleteMessage cp =
     (let key = [ArgS (namespacedName (m_Namespace (co_meta cp)) (m_Name (co_meta cp)))] in
      handle (call (k_Get api (m_Namespace (co_meta cp)) (m_Name (co_meta cp))))
        (\<lambda>err. if absent err then ret () else fail (WrapError getMessage key err))
        (\<lambda>obj.
           if \<not> isOwnedByCoderControlPlane (meta obj) cp then ret ()
           else handle (call (del obj))
             (\<lambda>err. if absent err then ret () else fail (WrapError deleteMessage key err)) ret))"

definition cleanupOwnedIngress :: "'b cp_client \<Rightarrow> ControlPlaneObject \<Rightarrow> ('b, unit) op" where
  "cleanupOwnedIngress c cp =
     cleanup_owned ing_meta (xc_Ingresses c) (xc_DeleteIngress c) IsNotFound
       ''get control plane ingress %s: %w'' ''delete control plane ingress %s: %w'' cp"

definition cleanupOwnedHTTPRoute :: "'b cp_client \<Rightarrow> ControlPlaneObject \<Rightarrow> ('b, unit) op" where
  "cleanupOwnedHTTPRoute c cp =
     cleanup_owned hr_meta (xc_HTTPRoutes c) (xc_DeleteHTTPRoute c) (\<lambda>err. IsNotFound err \<or> IsNoMatchError err)
       ''get control plane httproute %s: %w'' ''delete control plane httproute %s: %w'' cp"

definition reconcileExposure :: "'b cp_client \<Rightarrow> ControlPlaneObject \<Rightarrow> ('b, bool) op" where
  "reconcileExposure c cp =
     (let ingress = Option.bind (cs_Expose (co_Spec cp)) xs_Ingress; gateway = Option.bind (cs_Expose (co_Spec cp)) xs_Gateway;
          dropIngress = map_err (WrapError ''cleanup managed ingress: %w'' []) (cleanupOwnedIngress c cp);
          dropHTTPRoute = map_err (WrapError ''cleanup managed httproute: %w'' []) (cleanupOwnedHTTPRoute c cp) in
      case (ingress, gateway) of
        (None, None) \<Rightarrow> bind dropIngress (\<lambda>_. bind dropHTTPRoute (\<lambda>_. ret False))
      | (Some _, Some _) \<Rightarrow> fail (assertion ''only one of ingress or gateway exposure may be configured'')
      | (Some ix, None) \<Rightarrow> bind (reconcileIngress c cp ix) (\<lambda>_. bind dropHTTPRoute (\<lambda>_. ret False))
      | (None, Some gx) \<Rightarrow>
          bind (reconcileHTTPRoute c cp gx) (\<lambda>httpRouteReconciled. bind dropIngress (\<lambda>_. ret httpRouteReconciled)))"

section \<open>Lemmas\<close>

lemma ingress_tls_no_panic [simp]: "\<not> is_panic (ingress_tls ix h w)"
  by (simp add: ingress_tls_def Let_def split: option.split)

lemma parent_refs_loop_no_panic [simp]: "\<not> is_panic (parent_refs_loop i specs)"
  by (induction specs arbitrary: i) (auto simp: is_panic_rbind trimmed_ref_def split: option.splits if_splits)

interpretation cp_ing: owned_object ing_meta "cp_ingress cp ix h w" "''CoderControlPlane''" "co_meta cp" for cp ix h w
proof
  show "foreign_controlled ''CoderControlPlane'' (co_meta cp) (ing_meta x) \<Longrightarrow> \<exists>err. cp_ingress cp ix h w x = Err err" for x
    using set_controller_foreign(2) [of "''CoderControlPlane''" "co_meta cp" "ing_meta x"] ingress_tls_no_panic [of ix h w]
    unfolding cp_ingress_def by (cases "ingress_tls ix h w") auto
qed (auto simp: cp_ingress_def managed_simps dest: managed_dests)

interpretation cp_route: owned_object hr_meta "cp_http_route cp gx h" "''CoderControlPlane''" "co_meta cp" for cp gx h
proof
  show "foreign_controlled ''CoderControlPlane'' (co_meta cp) (hr_meta x) \<Longrightarrow> \<exists>err. cp_http_route cp gx h x = Err err" for x
    using set_controller_foreign(1) [of "''CoderControlPlane''" "co_meta cp" "hr_meta x"]
      parent_refs_loop_no_panic [of 0 "gx_ParentRefs gx"]
    unfolding cp_http_route_def Let_def by (cases "parent_refs_loop 0 (gx_ParentRefs gx)") auto
qed (auto simp: cp_http_route_def managed_simps dest: managed_dests)

end
