(* ===== verification/Control_Plane_Status.thy ===== *)
theory Control_Plane_Status
  imports Control_Plane_Names
begin

text \<open>
  The status of a control plane and what decides when it is reconciled again
  (internal/controller/codercontrolplane_controller.go): the desired status, conditions,
  entitlement values, the three-way merge of a status, the merging of requeue intervals and
  of reconcile requests, and \<open>reconcileStatus\<close> with its retry on conflict
  (vendored client-go, retry/util.go).
  The locale \<open>merged_field\<close> is the law of a three-way merge on one field; every field of
  the status is an interpretation.
\<close>

section \<open>Definitions\<close>

subsection \<open>Desired status and conditions\<close>

definition desiredStatus :: "ControlPlaneObject \<Rightarrow> Deployment \<Rightarrow> Service \<Rightarrow> ControlPlaneStatus" where
  "desiredStatus cp deployment service =
     (let phase = (if dep_ReadyReplicas deployment > 0 then CoderControlPlanePhaseReady else CoderControlPlanePhasePending);
          scheme = (if controlPlaneTLSEnabled cp then ''https'' else ''http'');
          statusPort = (if controlPlaneTLSEnabled cp then 443 else service_port cp)
      in (co_Status cp)\<lparr>
           ct_ObservedGeneration := m_Generation (co_meta cp),
           ct_ReadyReplicas := dep_ReadyReplicas deployment,
           ct_URL := scheme @ ''://'' @ m_Name (svc_meta service) @ ''.'' @ m_Namespace (svc_meta service)
             @ ''.svc.cluster.local:'' @ strconv_FormatInt statusPort,
           ct_Phase := phase\<rparr>)"

definition controlPlaneSDKURL :: "ControlPlaneObject \<Rightarrow> string" where
  "controlPlaneSDKURL cp =
     ''http://'' @ m_Name (co_meta cp) @ ''.'' @ m_Namespace (co_meta cp) @ ''.svc.cluster.local:''
       @ strconv_FormatInt (httpRouteBackendServicePort cp)"

definition setControlPlaneCondition ::
    "'b clock \<Rightarrow> ControlPlaneStatus \<Rightarrow> int \<Rightarrow> string \<Rightarrow> string \<Rightarrow> string \<Rightarrow> string \<Rightarrow> ('b, ControlPlaneStatus) op" where
  "setControlPlaneCondition clk nextStatus generation conditionType status reason message =
     guard (strings_TrimSpace conditionType \<noteq> []) (assertion ''condition type must not be empty'') (
     guard (strings_TrimSpace reason \<noteq> []) (assertion ''condition reason must not be empty'') (
     bind (now_op clk) (\<lambda>now.
     ret (nextStatus\<lparr>ct_Conditions := SetStatusCondition now
        \<lparr>c_Type = conditionType, c_Status = status, c_ObservedGeneration = generation, c_LastTransitionTime = 0,
         c_Reason = reason, c_Message = Lit message\<rparr> (ct_Conditions nextStatus)\<rparr>))))"

definition hashLicenseJWT :: "string \<Rightarrow> string result" where
  "hashLicenseJWT licenseJWT =
     (if licenseJWT = [] then Err (assertion ''license JWT must not be empty'')
      else Ok (hex_EncodeToString (sha256_Sum256 licenseJWT)))"

subsection \<open>Entitlements and license errors\<close>

definition normalizedEntitlementValue :: "string \<Rightarrow> string" where
  "normalizedEntitlementValue entitlement =
     (if entitlement \<in> {''entitled'', ''grace_period'', ''not_entitled''} then entitlement
      else CoderControlPlaneEntitlementUnknown)"

definition feature_of :: "Entitlements \<Rightarrow> string \<Rightarrow> string option" where
  "feature_of entitlements name = (case ent_Features entitlements of None \<Rightarrow> None | Some fs \<Rightarrow> map_of fs name)"

definition externalProvisionerDaemonsEntitlement :: "Entitlements \<Rightarrow> string" where
  "externalProvisionerDaemonsEntitlement entitlements =
     (case feature_of entitlements ''external_provisioner_daemons'' of
        None \<Rightarrow> CoderControlPlaneEntitlementUnknown
      | Some feature \<Rightarrow> normalizedEntitlementValue feature)"

definition Entitlement_Entitled :: "string \<Rightarrow> bool" where
  "Entitlement_Entitled e = (e = ''entitled'' \<or> e = ''grace_period'')"

definition licenseTierFromEntitlements :: "Entitlements \<Rightarrow> string" where
  "licenseTierFromEntitlements entitlements =
     (if \<not> ent_HasLicense entitlements then CoderControlPlaneLicenseTierNone
      else if ent_Trial entitlements then CoderControlPlaneLicenseTierTrial
      else if list_ex (\<lambda>featureName. case feature_of entitlements featureName of
                 None \<Rightarrow> False | Some feature \<Rightarrow> Entitlement_Entitled feature)
               [''custom_roles'', ''multiple_organizations'']
      then CoderControlPlaneLicenseTierPremium
      else CoderControlPlaneLicenseTierEnterprise)"

definition isDuplicateLicenseUploadError :: "error \<Rightarrow> bool" where
  "isDuplicateLicenseUploadError err =
     (case as_coder_error err of None \<Rightarrow> False
      | Some (_, sdkMessage) \<Rightarrow>
          (let message = strings_ToLower (strings_TrimSpace (sdkMessage @ '' '' @ coder_error_detail err)) in
           if message = [] then False
           else strings_Contains message ''licenses_jwt_key'' \<or> strings_Contains message ''duplicate key''
             \<or> strings_Contains message ''already exists''))"

subsection \<open>Merging results and requests\<close>

text \<open>A \<open>ctrl.Result\<close> is its \<open>RequeueAfter\<close>; a request is a namespace and a name.\<close>

definition merge_step :: "duration \<Rightarrow> duration \<Rightarrow> duration" where
  "merge_step merged result = (if result > 0 \<and> (merged = 0 \<or> result < merged) then result else merged)"

definition mergeResults :: "duration list \<Rightarrow> duration" where
  "mergeResults results = foldl merge_step 0 results"

type_synonym request = "string \<times> string"

definition valid_request :: "request \<Rightarrow> bool" where
  "valid_request r = (strings_TrimSpace (snd r) \<noteq> [] \<and> strings_TrimSpace (fst r) \<noteq> [])"

fun merge_requests_loop :: "string list \<Rightarrow> request list \<Rightarrow> request list" where
  "merge_requests_loop seen [] = []"
| "merge_requests_loop seen (r # rs) =
     (if \<not> valid_request r then merge_requests_loop seen rs
      else
        let key = namespacedResourceKey (fst r) (snd r) in
        if key \<in> set seen then merge_requests_loop seen rs
        else r # merge_requests_loop (key # seen) rs)"

definition mergeReconcileRequests :: "request list list \<Rightarrow> request list" where
  "mergeReconcileRequests requestGroups = merge_requests_loop [] (concat requestGroups)"

subsection \<open>Indexes and watches\<close>

definition indexByLicenseSecretName :: "ControlPlaneObject \<Rightarrow> string list" where
  "indexByLicenseSecretName cp =
     (case cs_LicenseSecretRef (co_Spec cp) of None \<Rightarrow> []
      | Some ref \<Rightarrow> (let licenseSecretName = strings_TrimSpace (sks_Name ref) in
                     if licenseSecretName = [] then [] else [licenseSecretName]))"

text \<open>The names are collected in a Go map, whose order is not specified: here the order of first occurrence.\<close>

definition envFrom_names :: "string option list \<Rightarrow> string list" where
  "envFrom_names refs =
     rev (remdups (rev (filter (\<lambda>n. n \<noteq> []) (map strings_TrimSpace (List.map_filter id refs)))))"

definition indexByEnvFromConfigMapName :: "ControlPlaneObject \<Rightarrow> string list" where
  "indexByEnvFromConfigMapName cp = envFrom_names (map ef_ConfigMapRef (cs_EnvFrom (co_Spec cp)))"

definition indexByEnvFromSecretName :: "ControlPlaneObject \<Rightarrow> string list" where
  "indexByEnvFromSecretName cp = envFrom_names (map ef_SecretRef (cs_EnvFrom (co_Spec cp)))"

definition reconcileRequestsForIndexedControlPlanes ::
    "'b cp_client \<Rightarrow> string \<Rightarrow> string \<Rightarrow> string \<Rightarrow> ('b, request list) op" where
  "reconcileRequestsForIndexedControlPlanes c namespace indexField indexValue =
     (let namespace = strings_TrimSpace namespace; indexField = strings_TrimSpace indexField;
          indexValue = strings_TrimSpace indexValue in
      if namespace = [] \<or> indexField = [] \<or> indexValue = [] then ret []
      else handle (call (xc_ListControlPlanes c namespace indexField indexValue))
        (\<lambda>_. ret [])
        (\<lambda>items. ret (filter valid_request (map (\<lambda>cp. (m_Namespace (co_meta cp), m_Name (co_meta cp))) items))))"

definition reconcileRequestsForEnvFromConfigMap :: "'b cp_client \<Rightarrow> KMeta \<Rightarrow> ('b, request list) op" where
  "reconcileRequestsForEnvFromConfigMap c configMap =
     reconcileRequestsForIndexedControlPlanes c (m_Namespace configMap) envFromConfigMapNameFieldIndex (m_Name configMap)"

definition reconcileRequestsForEnvFromSecret :: "'b cp_client \<Rightarrow> KMeta \<Rightarrow> ('b, request list) op" where
  "reconcileRequestsForEnvFromSecret c secret =
     reconcileRequestsForIndexedControlPlanes c (m_Namespace secret) envFromSecretNameFieldIndex (m_Name secret)"

definition reconcileRequestsForLicenseSecret :: "'b cp_client \<Rightarrow> KMeta \<Rightarrow> ('b, request list) op" where
  "reconcileRequestsForLicenseSecret c secret =
     (if strings_TrimSpace (m_Name secret) = [] \<or> strings_TrimSpace (m_Namespace secret) = [] then ret []
      else
        bind (reconcileRequestsForIndexedControlPlanes c (m_Namespace secret) licenseSecretNameFieldIndex (m_Name secret))
          (\<lambda>licenseSecretRequests.
        bind (reconcileRequestsForEnvFromSecret c secret) (\<lambda>envFromSecretRequests.
        ret (mergeReconcileRequests [licenseSecretRequests, envFromSecretRequests]))))"

subsection \<open>Merging and writing the status\<close>

definition delta :: "'f \<Rightarrow> 'f \<Rightarrow> 'f \<Rightarrow> 'f" where
  "delta base new latest = (if base \<noteq> new then new else latest)"

definition mergeControlPlaneStatusDelta ::
    "ControlPlaneStatus \<Rightarrow> ControlPlaneStatus \<Rightarrow> ControlPlaneStatus \<Rightarrow> ControlPlaneStatus" where
  "mergeControlPlaneStatusDelta base new latest =
     latest\<lparr>
       ct_ObservedGeneration := delta (ct_ObservedGeneration base) (ct_ObservedGeneration new) (ct_ObservedGeneration latest),
       ct_ReadyReplicas := delta (ct_ReadyReplicas base) (ct_ReadyReplicas new) (ct_ReadyReplicas latest),
       ct_URL := delta (ct_URL base) (ct_URL new) (ct_URL latest),
       ct_OperatorTokenSecretRef :=
         delta (ct_OperatorTokenSecretRef base) (ct_OperatorTokenSecretRef new) (ct_OperatorTokenSecretRef latest),
       ct_OperatorAccessReady :=
         delta (ct_OperatorAccessReady base) (ct_OperatorAccessReady new) (ct_OperatorAccessReady latest),
       ct_LicenseLastApplied := delta (ct_LicenseLastApplied base) (ct_LicenseLastApplied new) (ct_LicenseLastApplied latest),
       ct_LicenseLastAppliedHash :=
         delta (ct_LicenseLastAppliedHash base) (ct_LicenseLastAppliedHash new) (ct_LicenseLastAppliedHash latest),
       ct_LicenseTier := delta (ct_LicenseTier base) (ct_LicenseTier new) (ct_LicenseTier latest),
       ct_EntitlementsLastChecked :=
         delta (ct_EntitlementsLastChecked base) (ct_EntitlementsLastChecked new) (ct_EntitlementsLastChecked latest),
       ct_ExternalProvisionerDaemonsEntitlement :=
         delta (ct_ExternalProvisionerDaemonsEntitlement base) (ct_ExternalProvisionerDaemonsEntitlement new)
           (ct_ExternalProvisionerDaemonsEntitlement latest),
       ct_Phase := delta (ct_Phase base) (ct_Phase new) (ct_Phase latest),
       ct_Conditions := delta (ct_Conditions base) (ct_Conditions new) (ct_Conditions latest)\<rparr>"

definition Interrupted :: "error \<Rightarrow> bool" where
  "Interrupted err = (errors_Is err WaitTimeoutExceeded \<or> errors_Is err ContextCanceled \<or> errors_Is err ContextDeadlineExceeded)"

text \<open>
  \<open>retry.OnError\<close> with \<open>IsConflict\<close>: the first argument is \<open>backoff.Steps\<close>, the second
  \<open>lastErr\<close>. When the steps are used up, or \<open>fn\<close> fails with an interruption, the error is
  \<open>lastErr\<close>, which is nil when no conflict was seen (then the value of \<open>fn\<close> is the given
  default: the closure has changed nothing).
\<close>

fun retry_loop :: "nat \<Rightarrow> error option \<Rightarrow> 'a \<Rightarrow> ('b, 'a) op \<Rightarrow> ('b, 'a) op" where
  "retry_loop 0 lastErr unset fn = (case lastErr of None \<Rightarrow> ret unset | Some err \<Rightarrow> fail err)"
| "retry_loop (Suc n) lastErr unset fn =
     handle fn
       (\<lambda>err. if IsConflict err then retry_loop n (Some err) unset fn
              else if Interrupted err then (case lastErr of None \<Rightarrow> ret unset | Some prev \<Rightarrow> fail prev)
              else fail err)
       ret"

definition RetryOnConflict :: "'a \<Rightarrow> ('b, 'a) op \<Rightarrow> ('b, 'a) op" where
  "RetryOnConflict unset fn = retry_loop 5 None unset fn"

text \<open>One attempt of \<open>reconcileStatus\<close>; the result is the status left in the reconciled object.\<close>

definition status_attempt ::
    "'b cp_client \<Rightarrow> 'b api_reader option \<Rightarrow> ControlPlaneObject \<Rightarrow> ControlPlaneStatus \<Rightarrow> ControlPlaneStatus
      \<Rightarrow> ('b, ControlPlaneStatus) op" where
  "status_attempt c apiReader cp baseStatus nextStatus =
     (let ns = m_Namespace (co_meta cp); name = m_Name (co_meta cp) in
      bind (call (rd_GetControlPlane (reader_of c apiReader) ns name)) (\<lambda>latest.
      guard (m_Name (co_meta latest) = name \<and> m_Namespace (co_meta latest) = ns)
        (ErrorString (Fmt ''assertion failed: fetched object %s/%s does not match expected %s/%s''
           [ArgS (m_Namespace (co_meta latest)), ArgS (m_Name (co_meta latest)), ArgS ns, ArgS name])) (
      if ct_ObservedGeneration nextStatus > 0 \<and> m_Generation (co_meta latest) \<noteq> ct_ObservedGeneration nextStatus
      then ret (co_Status latest)
      else
        let mergedStatus = mergeControlPlaneStatusDelta baseStatus nextStatus (co_Status latest) in
        if co_Status latest = mergedStatus then ret (co_Status latest)
        else bind (call (k_StatusUpdate (xc_ControlPlanes c) (latest\<lparr>co_Status := mergedStatus\<rparr>))) (\<lambda>_.
             ret mergedStatus))))"

definition reconcileStatus ::
    "'b cp_client \<Rightarrow> 'b api_reader option \<Rightarrow> ControlPlaneObject \<Rightarrow> ControlPlaneStatus \<Rightarrow> ControlPlaneStatus
      \<Rightarrow> ('b, ControlPlaneStatus) op" where
  "reconcileStatus c apiReader cp baseStatus nextStatus =
     (if baseStatus = nextStatus then ret (co_Status cp)
      else
        guard (strings_TrimSpace (m_Name (co_meta cp)) \<noteq> [] \<and> strings_TrimSpace (m_Namespace (co_meta cp)) \<noteq> [])
          (assertion ''coder control plane namespaced name must not be empty'') (
        map_err (WrapError ''update control plane status: %w'' [])
          (RetryOnConflict (co_Status cp) (status_attempt c apiReader cp baseStatus nextStatus))))"


section \<open>The law of a three-way merge\<close>

text \<open>
  A field of a merged value: where the new value differs from the base it is taken, where it
  does not, the field of the latest value stays.
\<close>

locale merged_field =
  fixes merge :: "'s \<Rightarrow> 's \<Rightarrow> 's \<Rightarrow> 's" and get :: "'s \<Rightarrow> 'f"
  assumes get_merge: "get (merge base new latest) = delta (get base) (get new) (get latest)"
begin

lemma kept: "get base = get new \<Longrightarrow> get (merge base new latest) = get latest"
  by (simp add: get_merge delta_def)

lemma taken: "get base \<noteq> get new \<Longrightarrow> get (merge base new latest) = get new"
  by (simp add: get_merge delta_def)

lemma no_concurrent: "get (merge base new base) = get new"
  by (simp add: get_merge delta_def)

lemma again: "get (merge base new (merge base new latest)) = get (merge base new latest)"
  by (simp add: get_merge delta_def)

text \<open>Two writers that start from the same base and change different fields do not disturb each other.\<close>

lemma independent:
  "get base = get new1 \<or> get base = get new2 \<Longrightarrow>
     get (merge base new2 (merge base new1 latest)) = get (merge base new1 (merge base new2 latest))"
  by (auto simp: get_merge delta_def)

end

interpretation f_gen: merged_field mergeControlPlaneStatusDelta ct_ObservedGeneration
  by unfold_locales (simp add: mergeControlPlaneStatusDelta_def)
interpretation f_ready: merged_field mergeControlPlaneStatusDelta ct_ReadyReplicas
  by unfold_locales (simp add: mergeControlPlaneStatusDelta_def)
interpretation f_url: merged_field mergeControlPlaneStatusDelta ct_URL
  by unfold_locales (simp add: mergeControlPlaneStatusDelta_def)
interpretation f_ref: merged_field mergeControlPlaneStatusDelta ct_OperatorTokenSecretRef
  by unfold_locales (simp add: mergeControlPlaneStatusDelta_def)
interpretation f_acc: merged_field mergeControlPlaneStatusDelta ct_OperatorAccessReady
  by unfold_locales (simp add: mergeControlPlaneStatusDelta_def)
interpretation f_lic: merged_field mergeControlPlaneStatusDelta ct_LicenseLastApplied
  by unfold_locales (simp add: mergeControlPlaneStatusDelta_def)
interpretation f_hash: merged_field mergeControlPlaneStatusDelta ct_LicenseLastAppliedHash
  by unfold_locales (simp add: mergeControlPlaneStatusDelta_def)
interpretation f_tier: merged_field mergeControlPlaneStatusDelta ct_LicenseTier
  by unfold_locales (simp add: mergeControlPlaneStatusDelta_def)
interpretation f_ent: merged_field mergeControlPlaneStatusDelta ct_EntitlementsLastChecked
  by unfold_locales (simp add: mergeControlPlaneStatusDelta_def)
interpretation f_ext: merged_field mergeControlPlaneStatusDelta ct_ExternalProvisionerDaemonsEntitlement
  by unfold_locales (simp add: mergeControlPlaneStatusDelta_def)
interpretation f_phase: merged_field mergeControlPlaneStatusDelta ct_Phase
  by unfold_locales (simp add: mergeControlPlaneStatusDelta_def)
interpretation f_cond: merged_field mergeControlPlaneStatusDelta ct_Conditions
  by unfold_locales (simp add: mergeControlPlaneStatusDelta_def)

lemma status_eqI:
  fixes s t :: ControlPlaneStatus
  assumes "ct_ObservedGeneration s = ct_ObservedGeneration t" "ct_ReadyReplicas s = ct_ReadyReplicas t" "ct_URL s = ct_URL t"
    "ct_OperatorTokenSecretRef s = ct_OperatorTokenSecretRef t" "ct_OperatorAccessReady s = ct_OperatorAccessReady t"
    "ct_LicenseLastApplied s = ct_LicenseLastApplied t" "ct_LicenseLastAppliedHash s = ct_LicenseLastAppliedHash t"
    "ct_LicenseTier s = ct_LicenseTier t" "ct_EntitlementsLastChecked s = ct_EntitlementsLastChecked t"
    "ct_ExternalProvisionerDaemonsEntitlement s = ct_ExternalProvisionerDaemonsEntitlement t"
    "ct_Phase s = ct_Phase t" "ct_Conditions s = ct_Conditions t"
  shows "s = t"
  using assms by (cases s, cases t) simp

lemmas merged_laws [simp] =
  f_gen.no_concurrent f_ready.no_concurrent f_url.no_concurrent f_ref.no_concurrent f_acc.no_concurrent f_lic.no_concurrent
  f_hash.no_concurrent f_tier.no_concurrent f_ent.no_concurrent f_ext.no_concurrent f_phase.no_concurrent f_cond.no_concurrent
  f_gen.again f_ready.again f_url.again f_ref.again f_acc.again f_lic.again
  f_hash.again f_tier.again f_ent.again f_ext.again f_phase.again f_cond.again

lemma merge_no_concurrent: "mergeControlPlaneStatusDelta base new base = new"
  by (rule status_eqI) simp_all

lemma merge_again:
  "mergeControlPlaneStatusDelta base new (mergeControlPlaneStatusDelta base new latest) = mergeControlPlaneStatusDelta base new latest"
  by (rule status_eqI) simp_all

lemma merge_unchanged: "mergeControlPlaneStatusDelta base base latest = latest"
  by (rule status_eqI) (simp_all add: mergeControlPlaneStatusDelta_def delta_def)

section \<open>Lemmas\<close>

subsection \<open>Results and requests\<close>

lemma merge_step_min:
  "foldl merge_step m rs =
     (if \<exists>r\<in>set rs. r > 0 then (if m > 0 then min m (Min {r \<in> set rs. r > 0}) else Min {r \<in> set rs. r > 0}) else m)"
  if "m \<ge> 0" using that
proof (induction rs arbitrary: m)
  case (Cons r rs)
  have fin: "finite {x \<in> set rs. x > 0}" for rs :: "int list" by simp
  have set: "{x. (x = r \<or> x \<in> set rs) \<and> 0 < x} =
      (if r > 0 then insert r {x \<in> set rs. x > 0} else {x \<in> set rs. x > 0})" by auto
  have m: "0 \<le> merge_step m r" using Cons.prems by (simp add: merge_step_def)
  have step: "merge_step m r = (if r > 0 then (if m > 0 then min m r else r) else m)"
    using Cons.prems by (auto simp: merge_step_def)
  show ?case
  proof (cases "\<exists>x\<in>set rs. x > 0")
    case True
    then have ne: "{x \<in> set rs. x > 0} \<noteq> {}" by auto
    have "Min {x \<in> set rs. 0 < x} > 0" using Min_in [OF fin ne] by simp
    with True show ?thesis
      using Cons.IH [OF m] Cons.prems ne step by (auto simp: set min.assoc min.commute)
  next
    case False
    then have e: "{x \<in> set rs. 0 < x} = {}" by auto
    with False show ?thesis using Cons.IH [OF m] Cons.prems step by (auto simp: set simp del: Collect_empty_eq)
  qed
qed simp

lemma mergeResults_min:
  "mergeResults rs = (if \<exists>r\<in>set rs. r > 0 then Min {r \<in> set rs. r > 0} else 0)"
  unfolding mergeResults_def by (simp add: merge_step_min)

definition request_key :: "request \<Rightarrow> string" where
  "request_key r = namespacedResourceKey (fst r) (snd r)"

lemma merge_requests_loop_keys:
  "distinct (map request_key (merge_requests_loop seen rs)) \<and>
   set (map request_key (merge_requests_loop seen rs)) = request_key ` {r \<in> set rs. valid_request r} - set seen"
proof (induction seen rs rule: merge_requests_loop.induct)
  case (2 seen r rs)
  then show ?case by (auto simp: Let_def request_key_def)
qed simp

lemma merge_requests_loop_sub: "set (merge_requests_loop seen rs) \<subseteq> {r \<in> set rs. valid_request r}"
  by (induction seen rs rule: merge_requests_loop.induct) (auto simp: Let_def)

subsection \<open>Writing the status\<close>

text \<open>
  What the controller relies on when it writes a status: reads do not change the stored
  object, an object read with the version of the stored one is the stored one (other reads
  may be stale), and an update is accepted only for the stored version.
\<close>

definition versioned_status ::
    "'b cp_client \<Rightarrow> 'b api_reader option \<Rightarrow> string \<Rightarrow> string \<Rightarrow> ('b \<Rightarrow> ControlPlaneObject) \<Rightarrow> bool" where
  "versioned_status c apiReader ns name stored \<longleftrightarrow>
     (\<forall>v x v'. rd_GetControlPlane (reader_of c apiReader) ns name v = (x, v') \<longrightarrow>
        stored v' = stored v \<and>
        (\<forall>latest. x = Inr latest \<longrightarrow>
           m_ResourceVersion (co_meta latest) = m_ResourceVersion (co_meta (stored v)) \<longrightarrow> latest = stored v)) \<and>
     (\<forall>obj v y v'. k_StatusUpdate (xc_ControlPlanes c) obj v = (y, v') \<longrightarrow>
        (case y of Inl _ \<Rightarrow> stored v' = stored v
         | Inr _ \<Rightarrow> m_ResourceVersion (co_meta obj) = m_ResourceVersion (co_meta (stored v)) \<and>
             co_Status (stored v') = co_Status obj))"

lemma versioned_statusD:
  assumes "versioned_status c apiReader ns name stored"
  shows "rd_GetControlPlane (reader_of c apiReader) ns name v = (x, v') \<Longrightarrow> stored v' = stored v"
    and "rd_GetControlPlane (reader_of c apiReader) ns name v = (Inr latest, v') \<Longrightarrow>
      m_ResourceVersion (co_meta latest) = m_ResourceVersion (co_meta (stored v)) \<Longrightarrow> latest = stored v"
    and "k_StatusUpdate (xc_ControlPlanes c) obj v = (Inr y, v') \<Longrightarrow>
      m_ResourceVersion (co_meta obj) = m_ResourceVersion (co_meta (stored v)) \<and> co_Status (stored v') = co_Status obj"
    and "k_StatusUpdate (xc_ControlPlanes c) obj v = (Inl err, v') \<Longrightarrow> stored v' = stored v"
  using assms unfolding versioned_status_def by (blast, blast, force+)

text \<open>An attempt leaves the status as it is, or merges its changes into the stored status.\<close>

lemma attempt_stored:
  assumes vs: "versioned_status c apiReader ns name stored"
    and "status_attempt c apiReader cp base new v = (r, v')" "m_Namespace (co_meta cp) = ns" "m_Name (co_meta cp) = name"
  shows "stored v' = stored v \<or>
     (\<exists>s. r = Ok s) \<and> co_Status (stored v') = mergeControlPlaneStatusDelta base new (co_Status (stored v)) \<and>
     (ct_ObservedGeneration new > 0 \<longrightarrow> m_Generation (co_meta (stored v)) = ct_ObservedGeneration new)"
proof -
  obtain x v1 where get: "rd_GetControlPlane (reader_of c apiReader) ns name v = (x, v1)" by force
  have keep: "stored v1 = stored v" using versioned_statusD(1) [OF vs get] .
  show ?thesis
  proof (cases x)
    case (Inl err)
    then show ?thesis using assms get keep by (auto simp: status_attempt_def Let_def bind_def call_def)
  next
    case (Inr latest)
    define merged where "merged = mergeControlPlaneStatusDelta base new (co_Status latest)"
    define written where "written = latest\<lparr>co_Status := merged\<rparr>"
    have run: "(r, v') = (if \<not> (m_Name (co_meta latest) = name \<and> m_Namespace (co_meta latest) = ns)
        then (Err (ErrorString (Fmt ''assertion failed: fetched object %s/%s does not match expected %s/%s''
           [ArgS (m_Namespace (co_meta latest)), ArgS (m_Name (co_meta latest)), ArgS ns, ArgS name])), v1)
        else if ct_ObservedGeneration new > 0 \<and> m_Generation (co_meta latest) \<noteq> ct_ObservedGeneration new
        then (Ok (co_Status latest), v1)
        else if co_Status latest = merged then (Ok (co_Status latest), v1)
        else bind (call (k_StatusUpdate (xc_ControlPlanes c) written)) (\<lambda>_. ret merged) v1)"
      using assms get Inr by (auto simp: status_attempt_def Let_def bind_def call_def guard_def merged_def written_def split: if_splits)
    obtain y v2 where upd: "k_StatusUpdate (xc_ControlPlanes c) written v1 = (y, v2)" by force
    show ?thesis
    proof (cases y)
      case (Inl err)
      then show ?thesis using run keep upd versioned_statusD(4) [OF vs, of written v1 err v2]
        by (auto simp: bind_def call_def split: if_splits)
    next
      case (Inr z)
      have "m_ResourceVersion (co_meta latest) = m_ResourceVersion (co_meta (stored v))" "co_Status (stored v2) = merged"
        using versioned_statusD(3) [OF vs, of written v1 z v2] upd Inr keep by (simp_all add: written_def)
      moreover from this have "latest = stored v" using versioned_statusD(2) [OF vs, of v latest v1] get \<open>x = Inr latest\<close> by simp
      ultimately show ?thesis using run keep upd Inr
        by (auto simp: bind_def call_def merged_def split: if_splits)
    qed
  qed
qed

lemma retry_stored:
  assumes vs: "versioned_status c apiReader ns name stored"
    and "retry_loop k lastErr unset (status_attempt c apiReader cp base new) v = (r, v')"
    and "m_Namespace (co_meta cp) = ns" "m_Name (co_meta cp) = name"
  shows "stored v' = stored v \<or>
     co_Status (stored v') = mergeControlPlaneStatusDelta base new (co_Status (stored v)) \<and>
     (ct_ObservedGeneration new > 0 \<longrightarrow> m_Generation (co_meta (stored v)) = ct_ObservedGeneration new)"
  using assms(2)
proof (induction k arbitrary: lastErr v)
  case 0
  then show ?case by (cases lastErr) auto
next
  case (Suc k)
  let ?f = "status_attempt c apiReader cp base new"
  obtain r1 v1 where att: "?f v = (r1, v1)" by force
  note step = attempt_stored [OF vs att assms(3,4)]
  show ?case
  proof (cases r1)
    case (Err err)
    then have "stored v1 = stored v" using step by auto
    then show ?thesis
      using Suc.prems Suc.IH [of "Some err" v1] att Err by (auto simp: handle_def split: if_splits option.splits)
  qed (use Suc.prems att step in \<open>auto simp: handle_def\<close>)
qed

end
