(* ===== verification/Control_Plane_Access.thy ===== *)
theory Control_Plane_Access
  imports Control_Plane_Exposure Control_Plane_Status
begin

text \<open>
  Operator access, license and entitlements of a control plane
  (internal/controller/codercontrolplane_controller.go), and the SDK-backed license client.
  Each of the three steps takes the next status and returns it updated, with the interval
  after which it asks to be run again (0 for none).
\<close>

section \<open>Definitions\<close>

subsection \<open>The license client\<close>

text \<open>What the client uses of the SDK, of \<open>url.Parse\<close> and of \<open>http.DefaultTransport\<close>.\<close>

record 'b license_env =
  le_url_Parse :: "string \<Rightarrow> error + string"
  le_DefaultTransport :: bool
  le_AddLicense :: "boot_client \<Rightarrow> string \<Rightarrow> ('b, unit) call"
  le_Licenses :: "boot_client \<Rightarrow> ('b, string list) call"
  le_Entitlements :: "boot_client \<Rightarrow> ('b, Entitlements) call"

definition newSDKLicenseClient :: "'b license_env \<Rightarrow> string \<Rightarrow> string \<Rightarrow> boot_client result" where
  "newSDKLicenseClient env coderURL sessionToken =
     (if strings_TrimSpace coderURL = [] then Err (assertion ''coder URL must not be empty'')
      else if sessionToken = [] then Err (assertion ''session token must not be empty'')
      else case le_url_Parse env coderURL of
        Inl err \<Rightarrow> Err (WrapError ''parse coder URL: %w'' [] err)
      | Inr parsedURL \<Rightarrow>
          if \<not> le_DefaultTransport env then Err (assertion ''http.DefaultTransport is not *http.Transport'')
          else Ok \<lparr>bcl_URL = parsedURL, bcl_Token = sessionToken, bcl_Timeout = licenseUploadRequestTimeout\<rparr>)"

definition sdk_AddLicense :: "'b license_env \<Rightarrow> string \<Rightarrow> string \<Rightarrow> string \<Rightarrow> ('b, unit) op" where
  "sdk_AddLicense env coderURL sessionToken licenseJWT =
     guard (licenseJWT \<noteq> []) (assertion ''license JWT must not be empty'') (
     bind (lift (newSDKLicenseClient env coderURL sessionToken)) (\<lambda>sdkClient.
     map_err (WrapError ''upload coder license: %w'' []) (call (le_AddLicense env sdkClient licenseJWT))))"

definition sdk_HasAnyLicense :: "'b license_env \<Rightarrow> string \<Rightarrow> string \<Rightarrow> ('b, bool) op" where
  "sdk_HasAnyLicense env coderURL sessionToken =
     bind (lift (newSDKLicenseClient env coderURL sessionToken)) (\<lambda>sdkClient.
     bind (map_err (WrapError ''list coder licenses: %w'' []) (call (le_Licenses env sdkClient))) (\<lambda>licenses.
     ret (licenses \<noteq> [])))"

definition sdk_Entitlements :: "'b license_env \<Rightarrow> string \<Rightarrow> string \<Rightarrow> ('b, Entitlements) op" where
  "sdk_Entitlements env coderURL sessionToken =
     bind (lift (newSDKLicenseClient env coderURL sessionToken)) (\<lambda>sdkClient.
     bind (map_err (WrapError ''query coder entitlements: %w'' []) (call (le_Entitlements env sdkClient))) (\<lambda>entitlements.
     guard (ent_Features entitlements \<noteq> None) (assertion ''entitlements features must not be nil'') (
     ret entitlements)))"

definition NewSDKLicenseUploader :: "'b license_env \<Rightarrow> 'b LicenseUploader" where
  "NewSDKLicenseUploader env = \<lparr>lu_AddLicense = sdk_AddLicense env, lu_HasAnyLicense = sdk_HasAnyLicense env\<rparr>"

definition NewSDKEntitlementsInspector :: "'b license_env \<Rightarrow> 'b EntitlementsInspector" where
  "NewSDKEntitlementsInspector env = sdk_Entitlements env"

subsection \<open>Secrets\<close>

definition cp_readSecretValue :: "'b cp_client \<Rightarrow> string \<Rightarrow> string \<Rightarrow> string \<Rightarrow> ('b, string) op" where
  "cp_readSecretValue c namespace name key =
     guard (strings_TrimSpace namespace \<noteq> []) (assertion ''secret namespace must not be empty'') (
     guard (strings_TrimSpace name \<noteq> []) (assertion ''secret name must not be empty'') (
     guard (strings_TrimSpace key \<noteq> []) (assertion ''secret key must not be empty'') (
     bind (call (k_Get (cc_Secrets c) namespace name)) (\<lambda>secret.
     case map_of (sec_Data secret) key of
       None \<Rightarrow> fail (WrapError ''%w: secret %q does not contain key %q'' [ArgS name, ArgS key] SecretValueMissing)
     | Some value \<Rightarrow>
         if value = [] then fail (WrapError ''%w: secret %q key %q is empty'' [ArgS name, ArgS key] SecretValueEmpty)
         else ret value))))"

definition secret_absent :: "error \<Rightarrow> bool" where
  "secret_absent err = (IsNotFound err \<or> errors_Is err SecretValueMissing \<or> errors_Is err SecretValueEmpty)"

definition operator_token_secret :: "ControlPlaneObject \<Rightarrow> string \<Rightarrow> string \<Rightarrow> Secret \<Rightarrow> Secret result" where
  "operator_token_secret cp key token s =
     rbind (set_controller ''CoderControlPlane'' (co_meta cp)
              ((sec_meta s)\<lparr>m_Labels := controlPlaneLabels (m_Name (co_meta cp))\<rparr>)) (\<lambda>meta.
     Ok (s\<lparr>sec_meta := meta, sec_Type := ''Opaque'', sec_Data := map_put key token (sec_Data s)\<rparr>))"

definition ensureOperatorTokenSecret ::
    "'b cp_client \<Rightarrow> ControlPlaneObject \<Rightarrow> string \<Rightarrow> string \<Rightarrow> string \<Rightarrow> ('b, unit) op" where
  "ensureOperatorTokenSecret c cp name key token =
     guard (strings_TrimSpace name \<noteq> []) (assertion ''secret name must not be empty'') (
     guard (strings_TrimSpace key \<noteq> []) (assertion ''secret key must not be empty'') (
     guard (token \<noteq> []) (assertion ''secret token must not be empty'') (
     bind (map_err (WrapError ''reconcile operator token secret %q: %w'' [ArgS name])
             (CreateOrUpdate sec_meta (cc_Secrets c) (new_Secret name (m_Namespace (co_meta cp))) (operator_token_secret cp key token))) (\<lambda>_.
     ret ()))))"

definition resolvePostgresURLFromExtraEnv :: "'b cp_client \<Rightarrow> ControlPlaneObject \<Rightarrow> ('b, string) op" where
  "resolvePostgresURLFromExtraEnv c cp =
     (let problem = (\<lambda>message. fail (ErrorString (Fmt message [ArgS postgresConnectionURLEnvVar]))) in
      bind (lift (findEnvVar (cs_ExtraEnv (co_Spec cp)) postgresConnectionURLEnvVar)) (\<lambda>pgEnvVar.
      case pgEnvVar of None \<Rightarrow> problem ''%s is not configured''
      | Some pg \<Rightarrow>
          if strings_TrimSpace (env_Value pg) \<noteq> [] then ret (strings_TrimSpace (env_Value pg))
          else case env_ValueFrom pg of
            None \<Rightarrow> problem ''%s must define either value or valueFrom.secretKeyRef''
          | Some (SecretKeyRef name key) \<Rightarrow>
              if strings_TrimSpace name = [] then problem ''%s secretKeyRef name must not be empty''
              else if strings_TrimSpace key = [] then problem ''%s secretKeyRef key must not be empty''
              else cp_readSecretValue c (m_Namespace (co_meta cp)) name key
          | Some _ \<Rightarrow> problem ''%s valueFrom must be a secretKeyRef''))"

subsection \<open>Operator access\<close>

definition isManagedOperatorTokenSecret :: "Secret \<Rightarrow> ControlPlaneObject \<Rightarrow> bool" where
  "isManagedOperatorTokenSecret secret cp = isOwnedByCoderControlPlane (sec_meta secret) cp"

definition revoke_access ::
    "'b cp_client \<Rightarrow> 'b OperatorAccessProvisioner option \<Rightarrow> ControlPlaneObject \<Rightarrow> bool \<Rightarrow> ('b, unit) op" where
  "revoke_access c provisioner cp cleanupRequired =
     handle (resolvePostgresURLFromExtraEnv c cp)
       (\<lambda>err. if cleanupRequired then fail (WrapError ''resolve postgres URL while disabling operator access: %w'' [] err) else ret ())
       (\<lambda>postgresURL.
          non_nil provisioner (assertion ''operator access provisioner must not be nil while disabling managed credentials'') (\<lambda>prov.
          map_err (WrapError ''revoke operator token while disabling operator access: %w'' [])
            (oap_RevokeOperatorToken prov \<lparr>rot_PostgresURL = postgresURL, rot_OperatorUsername = defaultOperatorAccessUsername,
               rot_TokenName = operatorAccessDatabaseTokenName cp\<rparr>)))"

definition cleanupDisabledOperatorAccess ::
    "'b cp_client \<Rightarrow> 'b OperatorAccessProvisioner option \<Rightarrow> ControlPlaneObject \<Rightarrow> ('b, unit) op" where
  "cleanupDisabledOperatorAccess c provisioner cp =
     (let secretName = operatorAccessTokenSecretName cp in
      guard (strings_TrimSpace secretName \<noteq> []) (assertion ''operator token secret name must not be empty'') (
      guard (strings_TrimSpace (operatorAccessDatabaseTokenName cp) \<noteq> []) (assertion ''operator token name must not be empty'') (
      bind (handle (call (k_Get (cc_Secrets c) (m_Namespace (co_meta cp)) secretName))
              (\<lambda>err. if IsNotFound err then ret None
                     else fail (WrapError ''get operator token secret %q while disabling operator access: %w'' [ArgS secretName] err))
              (\<lambda>secret. ret (Some secret))) (\<lambda>found.
      let managed = (case found of None \<Rightarrow> None
            | Some secret \<Rightarrow> if isManagedOperatorTokenSecret secret cp then Some secret else None);
          cleanupRequired = (managed \<noteq> None \<or> ct_OperatorTokenSecretRef (co_Status cp) \<noteq> None) in
      bind (case managed of None \<Rightarrow> ret ()
            | Some secret \<Rightarrow> handle (call (xc_DeleteSecret c secret))
                (\<lambda>err. if IsNotFound err then ret ()
                       else fail (WrapError ''delete operator token secret %q while disabling operator access: %w'' [ArgS secretName] err))
                ret) (\<lambda>_.
      revoke_access c provisioner cp cleanupRequired)))))"

definition no_access :: "ControlPlaneStatus \<Rightarrow> ControlPlaneStatus" where
  "no_access s = s\<lparr>ct_OperatorTokenSecretRef := None, ct_OperatorAccessReady := False\<rparr>"

definition token_ref :: "string \<Rightarrow> SecretKeySelector option" where
  "token_ref secretName = Some \<lparr>sks_Name = secretName, sks_Key = DefaultTokenSecretKey\<rparr>"

definition ensure_access ::
    "'b cp_client \<Rightarrow> 'b OperatorAccessProvisioner \<Rightarrow> ControlPlaneObject \<Rightarrow> ControlPlaneStatus \<Rightarrow> string \<Rightarrow> string
      \<Rightarrow> ('b, ControlPlaneStatus \<times> duration) op" where
  "ensure_access c prov cp nextStatus secretName existingToken =
     handle (resolvePostgresURLFromExtraEnv c cp)
       (\<lambda>_. ret (no_access nextStatus, operatorAccessRetryInterval))
       (\<lambda>postgresURL.
          handle (oap_EnsureOperatorToken prov
                    \<lparr>eot_PostgresURL = postgresURL, eot_OperatorUsername = defaultOperatorAccessUsername,
                     eot_OperatorEmail = defaultOperatorAccessEmail, eot_TokenName = operatorAccessDatabaseTokenName cp,
                     eot_TokenLifetime = defaultOperatorAccessTokenLifetime, eot_ExistingToken = existingToken\<rparr>)
            (\<lambda>_. ret (no_access nextStatus, operatorAccessRetryInterval))
            (\<lambda>token.
               guard (token \<noteq> []) (assertion ''operator access provisioner returned empty token'') (
               bind (ensureOperatorTokenSecret c cp secretName DefaultTokenSecretKey token) (\<lambda>_.
               ret (nextStatus\<lparr>ct_OperatorTokenSecretRef := token_ref secretName, ct_OperatorAccessReady := True\<rparr>, 0)))))"

definition reconcileOperatorAccess ::
    "'b cp_client \<Rightarrow> 'b OperatorAccessProvisioner option \<Rightarrow> ControlPlaneObject \<Rightarrow> ControlPlaneStatus
      \<Rightarrow> ('b, ControlPlaneStatus \<times> duration) op" where
  "reconcileOperatorAccess c provisioner cp nextStatus =
     (let secretName = operatorAccessTokenSecretName cp in
      if oas_Disabled (cs_OperatorAccess (co_Spec cp)) then
        handle (cleanupDisabledOperatorAccess c provisioner cp)
          (\<lambda>_. guard (strings_TrimSpace secretName \<noteq> []) (assertion ''operator token secret name must not be empty'') (
               ret (nextStatus\<lparr>ct_OperatorTokenSecretRef := token_ref secretName, ct_OperatorAccessReady := False\<rparr>, operatorAccessRetryInterval)))
          (\<lambda>_. ret (no_access nextStatus, 0))
      else case provisioner of None \<Rightarrow> ret (no_access nextStatus, 0)
      | Some prov \<Rightarrow>
          guard (strings_TrimSpace secretName \<noteq> []) (assertion ''operator token secret name must not be empty'') (
          guard (strings_TrimSpace (operatorAccessDatabaseTokenName cp) \<noteq> []) (assertion ''operator token name must not be empty'') (
          bind (handle (cp_readSecretValue c (m_Namespace (co_meta cp)) secretName DefaultTokenSecretKey)
                  (\<lambda>err. if secret_absent err then ret []
                         else fail (WrapError ''read operator token secret %q: %w'' [ArgS secretName] err))
                  ret) (\<lambda>existingToken.
          ensure_access c prov cp nextStatus secretName existingToken))))"

subsection \<open>License\<close>

definition license_condition ::
    "'b clock \<Rightarrow> ControlPlaneObject \<Rightarrow> ControlPlaneStatus \<Rightarrow> string \<Rightarrow> string \<Rightarrow> string \<Rightarrow> duration
      \<Rightarrow> ('b, ControlPlaneStatus \<times> duration) op" where
  "license_condition clk cp nextStatus status reason message requeue =
     bind (setControlPlaneCondition clk nextStatus (m_Generation (co_meta cp)) CoderControlPlaneConditionLicenseApplied
             status reason message) (\<lambda>s. ret (s, requeue))"

definition license_failure ::
    "'b clock \<Rightarrow> ControlPlaneObject \<Rightarrow> ControlPlaneStatus \<Rightarrow> error \<Rightarrow> string \<Rightarrow> string \<Rightarrow> ('b, ControlPlaneStatus \<times> duration) op" where
  "license_failure clk cp nextStatus err forbiddenMessage errorMessage =
     (let code = map_option fst (as_coder_error err) in
      if code = Some 404 then license_condition clk cp nextStatus ''False'' licenseConditionReasonNotSupported
        ''Control plane does not expose the Enterprise licenses API.'' 0
      else if code = Some 401 \<or> code = Some 403 then license_condition clk cp nextStatus ''False'' licenseConditionReasonForbidden
        forbiddenMessage operatorAccessRetryInterval
      else license_condition clk cp nextStatus ''False'' licenseConditionReasonError errorMessage operatorAccessRetryInterval)"

definition license_applied :: "gotime \<Rightarrow> string \<Rightarrow> ControlPlaneStatus \<Rightarrow> ControlPlaneStatus" where
  "license_applied now hash s = s\<lparr>ct_LicenseLastApplied := Some now, ct_LicenseLastAppliedHash := hash\<rparr>"

definition upload_license ::
    "'b clock \<Rightarrow> 'b LicenseUploader \<Rightarrow> ControlPlaneObject \<Rightarrow> ControlPlaneStatus \<Rightarrow> string \<Rightarrow> string \<Rightarrow> string \<Rightarrow> string
      \<Rightarrow> ('b, ControlPlaneStatus \<times> duration) op" where
  "upload_license clk uploader cp nextStatus url operatorToken licenseJWT licenseHash =
     handle (lu_AddLicense uploader url operatorToken licenseJWT)
       (\<lambda>err. if isDuplicateLicenseUploadError err
              then bind (now_op clk) (\<lambda>now.
                   license_condition clk cp (license_applied now licenseHash nextStatus) ''True'' licenseConditionReasonApplied
                     ''Configured license already exists in coderd.'' 0)
              else license_failure clk cp nextStatus err
                     ''Operator token is not authorized to upload the configured license.''
                     ''Failed to upload configured license; retrying.'')
       (\<lambda>_. bind (now_op clk) (\<lambda>now.
            license_condition clk cp (license_applied now licenseHash nextStatus) ''True'' licenseConditionReasonApplied
              ''Configured license uploaded successfully.'' 0))"

definition apply_license ::
    "'b clock \<Rightarrow> 'b LicenseUploader \<Rightarrow> ControlPlaneObject \<Rightarrow> ControlPlaneStatus \<Rightarrow> string \<Rightarrow> string \<Rightarrow> string
      \<Rightarrow> ('b, ControlPlaneStatus \<times> duration) op" where
  "apply_license clk uploader cp nextStatus url operatorToken licenseJWT =
     bind (lift (hashLicenseJWT licenseJWT)) (\<lambda>licenseHash.
     let upload = upload_license clk uploader cp nextStatus url operatorToken licenseJWT licenseHash in
     if ct_LicenseLastApplied nextStatus \<noteq> None \<and> ct_LicenseLastAppliedHash nextStatus = licenseHash then
       handle (lu_HasAnyLicense uploader url operatorToken)
         (\<lambda>err. license_failure clk cp nextStatus err
                  ''Operator token is not authorized to query configured licenses.'' ''Failed to query existing licenses; retrying.'')
         (\<lambda>hasAnyLicense.
            if hasAnyLicense then license_condition clk cp nextStatus ''True'' licenseConditionReasonApplied
              ''Configured license is already applied.'' 0
            else upload)
     else upload)"

text \<open>The two reads of secrets, with the conditions of their failures.\<close>

definition read_for_license ::
    "'b cp_client \<Rightarrow> 'b clock \<Rightarrow> ControlPlaneObject \<Rightarrow> ControlPlaneStatus \<Rightarrow> string \<Rightarrow> string \<Rightarrow> string \<Rightarrow> string
      \<Rightarrow> (string \<Rightarrow> ('b, ControlPlaneStatus \<times> duration) op) \<Rightarrow> ('b, ControlPlaneStatus \<times> duration) op" where
  "read_for_license c clk cp nextStatus name key missingMessage errorMessage cont =
     handle (cp_readSecretValue c (m_Namespace (co_meta cp)) name key)
       (\<lambda>err. if secret_absent err
              then license_condition clk cp nextStatus ''False'' licenseConditionReasonSecretMissing missingMessage operatorAccessRetryInterval
              else license_condition clk cp nextStatus ''False'' licenseConditionReasonError errorMessage operatorAccessRetryInterval)
       cont"

definition key_or :: "string \<Rightarrow> string \<Rightarrow> string" where
  "key_or d key = (if strings_TrimSpace key = [] then d else strings_TrimSpace key)"

definition reconcileLicense ::
    "'b cp_client \<Rightarrow> 'b clock \<Rightarrow> 'b LicenseUploader option \<Rightarrow> ControlPlaneObject \<Rightarrow> ControlPlaneStatus
      \<Rightarrow> ('b, ControlPlaneStatus \<times> duration) op" where
  "reconcileLicense c clk licenseUploader cp nextStatus =
     (case cs_LicenseSecretRef (co_Spec cp) of
        None \<Rightarrow> license_condition clk cp nextStatus ''Unknown'' licenseConditionReasonPending
                  ''License Secret reference is not configured.'' 0
      | Some licenseRef \<Rightarrow>
     non_nil licenseUploader (assertion ''license uploader must not be nil when licenseSecretRef is configured'') (\<lambda>uploader.
     if ct_Phase nextStatus \<noteq> CoderControlPlanePhaseReady then
       license_condition clk cp nextStatus ''False'' licenseConditionReasonPending
         ''Waiting for control plane readiness before applying license.'' 0
     else case (if ct_OperatorAccessReady nextStatus then ct_OperatorTokenSecretRef nextStatus else None) of
       None \<Rightarrow> license_condition clk cp nextStatus ''False'' licenseConditionReasonPending
                 ''Waiting for operator access credentials before applying license.'' 0
     | Some tokenRef \<Rightarrow>
     guard (strings_TrimSpace (controlPlaneSDKURL cp) \<noteq> [])
       (assertion ''control plane SDK URL must not be empty when licenseSecretRef is configured'') (
     guard (strings_TrimSpace (sks_Name tokenRef) \<noteq> [])
       (assertion ''operator token secret name must not be empty when operator access is ready'') (
     read_for_license c clk cp nextStatus (strings_TrimSpace (sks_Name tokenRef)) (key_or DefaultTokenSecretKey (sks_Key tokenRef))
       ''Operator token Secret is missing or incomplete; retrying license upload.''
       ''Failed to read operator token Secret; retrying license upload.'' (\<lambda>operatorToken.
     guard (strings_TrimSpace (sks_Name licenseRef) \<noteq> [])
       (assertion ''license secret name must not be empty when licenseSecretRef is configured'') (
     read_for_license c clk cp nextStatus (strings_TrimSpace (sks_Name licenseRef)) (key_or DefaultLicenseSecretKey (sks_Key licenseRef))
       ''License Secret is missing or incomplete; retrying upload.'' ''Failed to read license Secret; retrying upload.'' (\<lambda>secretValue.
     let licenseJWT = strings_TrimSpace secretValue in
     if licenseJWT = [] then license_condition clk cp nextStatus ''False'' licenseConditionReasonSecretMissing
       ''License Secret value is empty after trimming whitespace.'' operatorAccessRetryInterval
     else apply_license clk uploader cp nextStatus (controlPlaneSDKURL cp) operatorToken licenseJWT)))))))"

subsection \<open>Entitlements\<close>

text \<open>\<open>time.Since\<close>, which saturates.\<close>

definition time_Sub :: "gotime \<Rightarrow> gotime \<Rightarrow> duration" where
  "time_Sub t u = max (- (2 ^ 63)) (min (2 ^ 63 - 1) (t - u))"

definition time_Since :: "'b clock \<Rightarrow> gotime \<Rightarrow> ('b, duration) op" where
  "time_Since clk t = bind (now_op clk) (\<lambda>now. ret (time_Sub now t))"

definition default_entitlements :: "ControlPlaneStatus \<Rightarrow> ControlPlaneStatus" where
  "default_entitlements s =
     s\<lparr>ct_LicenseTier := (if strings_TrimSpace (ct_LicenseTier s) = [] then CoderControlPlaneLicenseTierUnknown else ct_LicenseTier s),
       ct_ExternalProvisionerDaemonsEntitlement :=
         (if strings_TrimSpace (ct_ExternalProvisionerDaemonsEntitlement s) = [] then CoderControlPlaneEntitlementUnknown
          else ct_ExternalProvisionerDaemonsEntitlement s)\<rparr>"

definition record_entitlements :: "'b clock \<Rightarrow> Entitlements \<Rightarrow> ControlPlaneStatus \<Rightarrow> ('b, ControlPlaneStatus \<times> duration) op" where
  "record_entitlements clk entitlements previous =
     (let s = previous\<lparr>ct_LicenseTier := licenseTierFromEntitlements entitlements,
                        ct_ExternalProvisionerDaemonsEntitlement := externalProvisionerDaemonsEntitlement entitlements\<rparr>;
          changed = (ct_LicenseTier previous \<noteq> ct_LicenseTier s \<or>
             ct_ExternalProvisionerDaemonsEntitlement previous \<noteq> ct_ExternalProvisionerDaemonsEntitlement s) in
      bind (case ct_EntitlementsLastChecked s of None \<Rightarrow> ret True
            | Some t \<Rightarrow> bind (time_Since clk t) (\<lambda>elapsed. ret (elapsed < 0 \<or> elapsed \<ge> entitlementsStatusRefreshInterval))) (\<lambda>due.
      bind (if due \<or> changed then bind (now_op clk) (\<lambda>now. ret (s\<lparr>ct_EntitlementsLastChecked := Some now\<rparr>)) else ret s) (\<lambda>s.
      bind (case ct_EntitlementsLastChecked s of None \<Rightarrow> ret entitlementsStatusRefreshInterval
            | Some t \<Rightarrow> bind (time_Since clk t) (\<lambda>elapsed.
                ret (if elapsed \<ge> 0 \<and> elapsed < entitlementsStatusRefreshInterval then entitlementsStatusRefreshInterval - elapsed
                     else entitlementsStatusRefreshInterval))) (\<lambda>requeueAfter.
      ret (s, requeueAfter)))))"

definition reconcileEntitlements ::
    "'b cp_client \<Rightarrow> 'b clock \<Rightarrow> 'b EntitlementsInspector option \<Rightarrow> ControlPlaneObject \<Rightarrow> ControlPlaneStatus
      \<Rightarrow> ('b, ControlPlaneStatus \<times> duration) op" where
  "reconcileEntitlements c clk entitlementsInspector cp nextStatus =
     (let s = default_entitlements nextStatus in
      if ct_Phase s \<noteq> CoderControlPlanePhaseReady \<or> \<not> ct_OperatorAccessReady s then ret (s, 0)
      else case ct_OperatorTokenSecretRef s of None \<Rightarrow> ret (s, 0)
      | Some tokenRef \<Rightarrow>
      guard (strings_TrimSpace (controlPlaneSDKURL cp) \<noteq> [])
        (assertion ''control plane SDK URL must not be empty when querying entitlements'') (
      case entitlementsInspector of None \<Rightarrow> ret (s, 0)
      | Some inspector \<Rightarrow>
      guard (strings_TrimSpace (sks_Name tokenRef) \<noteq> [])
        (assertion ''operator token secret name must not be empty when querying entitlements'') (
      handle (cp_readSecretValue c (m_Namespace (co_meta cp)) (strings_TrimSpace (sks_Name tokenRef))
                (key_or DefaultTokenSecretKey (sks_Key tokenRef)))
        (\<lambda>_. ret (s, operatorAccessRetryInterval))
        (\<lambda>operatorToken.
      handle (inspector (controlPlaneSDKURL cp) operatorToken)
        (\<lambda>_. ret (s, operatorAccessRetryInterval))
        (\<lambda>entitlements.
      guard (ent_Features entitlements \<noteq> None) (assertion ''entitlements features must not be nil'') (
      record_entitlements clk entitlements s))))))"

end
