(* ===== verification/Control_Plane_Reconcile.thy ===== *)
theory Control_Plane_Reconcile
  imports Control_Plane_Access
begin

text \<open>
  \<open>Reconcile\<close> of the control-plane controller
  (internal/controller/codercontrolplane_controller.go).
\<close>

section \<open>Definitions\<close>

text \<open>After the finalizer is in place: the managed objects, the three steps of the status, the status itself.\<close>

definition cp_reconcile_objects ::
    "'b cp_client \<Rightarrow> 'b api_reader option \<Rightarrow> ControlPlaneObject \<Rightarrow> ('b, Deployment \<times> Service \<times> bool) op" where
  "cp_reconcile_objects c apiReader cp =
     bind (reconcileServiceAccount c cp) (\<lambda>_.
     bind (reconcileWorkspaceRBAC c cp) (\<lambda>_.
     bind (cp_reconcileDeployment c apiReader cp) (\<lambda>deployment.
     bind (cp_reconcileService c cp) (\<lambda>service.
     bind (reconcileExposure c cp) (\<lambda>gatewayExposureNeedsRequeue.
     ret (deployment, service, gatewayExposureNeedsRequeue))))))"

definition cp_next_status ::
    "'b CoderControlPlaneReconciler \<Rightarrow> 'b clock \<Rightarrow> 'b cp_client \<Rightarrow> ControlPlaneObject \<Rightarrow> ControlPlaneStatus
      \<Rightarrow> ('b, ControlPlaneStatus \<times> duration list) op" where
  "cp_next_status r clk c cp s0 =
     bind (reconcileOperatorAccess c (xr_OperatorAccessProvisioner r) cp s0) (\<lambda>(s1, operatorResult).
     bind (reconcileLicense c clk (xr_LicenseUploader r) cp s1) (\<lambda>(s2, licenseResult).
     bind (reconcileEntitlements c clk (xr_EntitlementsInspector r) cp s2) (\<lambda>(s3, entitlementsResult).
     ret (s3, [operatorResult, licenseResult, entitlementsResult]))))"

definition ControlPlane_Reconcile ::
    "'b CoderControlPlaneReconciler \<Rightarrow> 'b clock \<Rightarrow> string \<Rightarrow> string \<Rightarrow> ('b, duration) op" where
  "ControlPlane_Reconcile r clk reqNamespace reqName =
     non_nil (xr_Client r) (assertion ''reconciler client must not be nil'') (\<lambda>c.
     non_nil (xr_Scheme r) (assertion ''reconciler scheme must not be nil'') (\<lambda>_.
     handle (call (k_Get (xc_ControlPlanes c) reqNamespace reqName))
       (\<lambda>err. if IsNotFound err then ret 0
              else fail (WrapError ''get codercontrolplane %s: %w'' [ArgS (namespacedName reqNamespace reqName)] err))
       (\<lambda>cp.
     guard (m_Name (co_meta cp) = reqName \<and> m_Namespace (co_meta cp) = reqNamespace)
       (ErrorString (Fmt ''assertion failed: fetched object %s/%s does not match request %s/%s''
          [ArgS (m_Namespace (co_meta cp)), ArgS (m_Name (co_meta cp)), ArgS reqNamespace, ArgS reqName])) (
     if m_DeletionTimestamp (co_meta cp) \<noteq> None then finalizeWorkspaceRBAC c cp
     else
       bind (ensureWorkspaceRBACFinalizer c reqNamespace reqName cp) (\<lambda>cp.
       bind (cp_reconcile_objects c (xr_APIReader r) cp) (\<lambda>(deployment, service, gatewayExposureNeedsRequeue).
       bind (cp_next_status r clk c cp (desiredStatus cp deployment service)) (\<lambda>(nextStatus, results).
       bind (reconcileStatus c (xr_APIReader r) cp (co_Status cp) nextStatus) (\<lambda>_.
       let result = mergeResults results;
           result = (if requiresWorkspaceRBACDriftRequeue cp then mergeResults [result, workspaceRBACDriftRequeueInterval] else result);
           result = (if gatewayExposureNeedsRequeue then mergeResults [result, gatewayExposureRequeueInterval] else result)
       in ret result))))))))"

section \<open>Lemmas\<close>

interpretation cp_sec: owned_object sec_meta "operator_token_secret cp key token" "''CoderControlPlane''" "co_meta cp" for cp key token
  by unfold_locales (auto simp: operator_token_secret_def managed_simps intro: set_controller_foreign dest: managed_dests)

end
