(* ===== verification/Operator_Access.thy ===== *)
theory Operator_Access
  imports Control_Plane_Types
begin

text \<open>
  Provisioning of the operator's API token in the database of a Coder deployment
  (internal/coderbootstrap/operator_access_postgres.go).
  The SQL statements of the source are functions on the four tables they touch. The engine
  that runs them is a parameter: \<open>pg_Begin\<close> gives a transaction its view of the tables,
  every statement can fail (\<open>pg_Exec\<close>, given a name of the statement), \<open>pg_Commit\<close>
  publishes the tables of the transaction or fails. Statements of other transactions do not
  interfere with the rows read here. The random source is a call for one byte.
  \<open>randomTokenPart\<close> reads bytes until enough are accepted: it takes fuel, and running out
  of fuel is \<open>Panic\<close>, a call that has not returned; \<open>randomTokenPart_total\<close> says how much
  is enough.
\<close>

section \<open>Definitions\<close>

subsection \<open>Tables\<close>

record db_user =
  u_id :: uuid
  u_email :: string
  u_username :: string
  u_name :: string
  u_hashed_password :: string
  u_created_at :: gotime
  u_updated_at :: gotime
  u_rbac_roles :: "string list"
  u_login_type :: string
  u_status :: string
  u_is_system :: bool
  u_deleted :: bool

record db_member =
  om_organization_id :: uuid
  om_user_id :: uuid
  om_created_at :: gotime
  om_updated_at :: gotime
  om_roles :: "string list"

record db_key =
  ak_id :: string
  ak_hashed_secret :: string
  ak_user_id :: uuid
  ak_last_used :: gotime
  ak_expires_at :: gotime
  ak_created_at :: gotime
  ak_updated_at :: gotime
  ak_login_type :: string
  ak_lifetime_seconds :: int
  ak_ip_address :: string
  ak_token_name :: string
  ak_scopes :: "string list"
  ak_allow_list :: "string list"

text \<open>An organization is its id and its \<open>deleted\<close> mark.\<close>

record op_db =
  db_users :: "db_user list"
  db_organizations :: "(uuid \<times> bool) list"
  db_members :: "db_member list"
  db_keys :: "db_key list"

subsection \<open>Engine, clock, randomness\<close>

record 'b pg_conn =
  pg_Ping :: "('b, unit) call"
  pg_Begin :: "('b, op_db) call"
  pg_Exec :: "string \<Rightarrow> ('b, unit) call"
  pg_Commit :: "op_db \<Rightarrow> ('b, unit) call"
  pg_Rollback :: "'b \<Rightarrow> 'b"
  pg_Close :: "'b \<Rightarrow> 'b"

record 'b pg_env =
  pv_lower :: "string \<Rightarrow> string"
  pv_NewUUID :: "'b \<Rightarrow> uuid \<times> 'b"
  pv_RandomByte :: "('b, nat) call"
  pv_Fuel :: nat

record 'b PostgresOperatorAccessProvisioner =
  pp_openDB :: "(string \<Rightarrow> ('b, 'b pg_conn option) op) option"
  pp_now :: "'b clock option"

definition openPostgresDatabase :: "(string \<Rightarrow> ('b, 'b pg_conn option) call) \<Rightarrow> string \<Rightarrow> ('b, 'b pg_conn option) op" where
  "openPostgresDatabase sql_Open postgresURL =
     guard (strings_TrimSpace postgresURL \<noteq> []) (assertion ''postgres URL must not be empty'') (
     bind (map_err (WrapError ''open postgres connection: %w'' []) (call (sql_Open postgresURL))) (\<lambda>db.
     guard (db \<noteq> None) (assertion ''sql.Open returned nil db and nil error'') (ret db)))"

definition NewPostgresOperatorAccessProvisioner ::
    "(string \<Rightarrow> ('b, 'b pg_conn option) call) \<Rightarrow> 'b clock \<Rightarrow> 'b PostgresOperatorAccessProvisioner" where
  "NewPostgresOperatorAccessProvisioner sql_Open time_Now =
     \<lparr>pp_openDB = Some (openPostgresDatabase sql_Open), pp_now = Some time_Now\<rparr>"

text \<open>A transaction: the world and the tables as the transaction sees them.\<close>

record 'b tx_state =
  tx_world :: 'b
  tx_db :: op_db

definition tx_call :: "('b, 'a) op \<Rightarrow> ('b tx_state, 'a) op" where
  "tx_call m = zoom tx_world (\<lambda>v s. s\<lparr>tx_world := v\<rparr>) m"

definition statement :: "'b pg_conn \<Rightarrow> string \<Rightarrow> (op_db \<Rightarrow> 'a \<times> op_db) \<Rightarrow> ('b tx_state, 'a) op" where
  "statement conn name f =
     bind (tx_call (call (pg_Exec conn name))) (\<lambda>_ s. case f (tx_db s) of (a, db) \<Rightarrow> (Ok a, s\<lparr>tx_db := db\<rparr>))"

definition in_transaction ::
    "'b pg_conn \<Rightarrow> string \<Rightarrow> string \<Rightarrow> ('b tx_state, 'a) op \<Rightarrow> ('b, 'a) op" where
  "in_transaction conn beginMessage commitMessage body =
     bind (map_err (WrapError beginMessage []) (call (pg_Begin conn))) (\<lambda>db0 w.
       case body \<lparr>tx_world = w, tx_db = db0\<rparr> of
         (Ok a, s) \<Rightarrow> (case pg_Commit conn (tx_db s) (tx_world s) of
             (Inr _, w') \<Rightarrow> (Ok a, w')
           | (Inl err, w') \<Rightarrow> (Err (WrapError commitMessage [] err), pg_Rollback conn w'))
       | (Err err, s) \<Rightarrow> (Err err, pg_Rollback conn (tx_world s))
       | (Panic p, s) \<Rightarrow> (Panic p, pg_Rollback conn (tx_world s)))"

text \<open>\<open>defer\<close> of a call without a result.\<close>

definition deferred :: "('b \<Rightarrow> 'b) \<Rightarrow> ('b, 'a) op \<Rightarrow> ('b, 'a) op" where
  "deferred f m = (\<lambda>w. case m w of (r, w') \<Rightarrow> (r, f w'))"

subsection \<open>Requests\<close>

definition ensure_validate :: "EnsureOperatorTokenRequest \<Rightarrow> unit result" where
  "ensure_validate r =
     (if strings_TrimSpace (eot_PostgresURL r) = [] then Err (errorf ''operator access postgres URL is required'')
      else if strings_TrimSpace (eot_OperatorUsername r) = [] then Err (errorf ''operator access username is required'')
      else if strings_TrimSpace (eot_OperatorEmail r) = [] then Err (errorf ''operator access email is required'')
      else if strings_TrimSpace (eot_TokenName r) = [] then Err (errorf ''operator access token name is required'')
      else if eot_TokenLifetime r \<le> 0 then Err (errorf ''operator access token lifetime must be positive'')
      else Ok ())"

definition revoke_validate :: "RevokeOperatorTokenRequest \<Rightarrow> unit result" where
  "revoke_validate r =
     (if strings_TrimSpace (rot_PostgresURL r) = [] then Err (errorf ''operator access postgres URL is required'')
      else if strings_TrimSpace (rot_OperatorUsername r) = [] then Err (errorf ''operator access username is required'')
      else if strings_TrimSpace (rot_TokenName r) = [] then Err (errorf ''operator access token name is required'')
      else Ok ())"

subsection \<open>Users and memberships\<close>

text \<open>
  The query has LIMIT 1 and no order; the first row of the table that matches stands for the one
  the engine returns. User names that are not deleted are unique in the Coder schema.
\<close>

definition lookupOperatorUser :: "(string \<Rightarrow> string) \<Rightarrow> string \<Rightarrow> op_db \<Rightarrow> uuid option" where
  "lookupOperatorUser lower username db =
     map_option u_id (find (\<lambda>u. \<not> u_deleted u \<and> lower (u_username u) = lower username) (db_users db))"

definition insertOperatorUser :: "uuid \<Rightarrow> string \<Rightarrow> string \<Rightarrow> gotime \<Rightarrow> op_db \<Rightarrow> op_db" where
  "insertOperatorUser userID email username now db =
     db\<lparr>db_users := db_users db @
        [\<lparr>u_id = userID, u_email = email, u_username = username, u_name = username, u_hashed_password = ''none'',
          u_created_at = now, u_updated_at = now, u_rbac_roles = [''owner''], u_login_type = ''none'', u_status = ''active'',
          u_is_system = True, u_deleted = False\<rparr>]\<rparr>"

definition enforced_user :: "string \<Rightarrow> string \<Rightarrow> gotime \<Rightarrow> db_user \<Rightarrow> db_user" where
  "enforced_user email username now u =
     u\<lparr>u_email := email, u_name := username, u_hashed_password := ''none'', u_updated_at := now, u_rbac_roles := [''owner''],
       u_login_type := ''none'', u_status := ''active'', u_is_system := True\<rparr>"

definition enforceOperatorUser :: "uuid \<Rightarrow> string \<Rightarrow> string \<Rightarrow> gotime \<Rightarrow> op_db \<Rightarrow> nat \<times> op_db" where
  "enforceOperatorUser userID email username now db =
     (length (filter (\<lambda>u. u_id u = userID) (db_users db)),
      db\<lparr>db_users := map (\<lambda>u. if u_id u = userID then enforced_user email username now u else u) (db_users db)\<rparr>)"

definition find_or_insert_user ::
    "'b pg_env \<Rightarrow> 'b pg_conn \<Rightarrow> gotime \<Rightarrow> EnsureOperatorTokenRequest \<Rightarrow> ('b tx_state, uuid) op" where
  "find_or_insert_user env conn now req =
     (let username = eot_OperatorUsername req in
      bind (map_err (WrapError ''query operator user %q: %w'' [ArgS username])
              (statement conn ''lookup user'' (\<lambda>db. (lookupOperatorUser (pv_lower env) username db, db)))) (\<lambda>found.
      case found of Some userID \<Rightarrow> ret userID
      | None \<Rightarrow>
          bind (tx_call (\<lambda>w. case pv_NewUUID env w of (u, w') \<Rightarrow> (Ok u, w'))) (\<lambda>userID.
          bind (map_err (WrapError ''insert operator user %q: %w'' [ArgS username])
                  (statement conn ''insert user'' (\<lambda>db. ((), insertOperatorUser userID (eot_OperatorEmail req) username now db)))) (\<lambda>_.
          ret userID))))"

definition ensureOperatorUser ::
    "'b pg_env \<Rightarrow> 'b pg_conn \<Rightarrow> gotime \<Rightarrow> EnsureOperatorTokenRequest \<Rightarrow> ('b tx_state, uuid) op" where
  "ensureOperatorUser env conn now req =
     (let username = eot_OperatorUsername req in
      bind (find_or_insert_user env conn now req) (\<lambda>userID.
      guard (userID \<noteq> uuid_Nil) (assertion ''operator user ID must not be nil'') (
      bind (map_err (WrapError ''enforce operator user %q attributes: %w'' [ArgS username])
              (statement conn ''enforce user'' (enforceOperatorUser userID (eot_OperatorEmail req) username now))) (\<lambda>rowsAffected.
      bind (map_err (WrapError ''get rows affected while enforcing operator user %q: %w'' [ArgS username])
              (statement conn ''rows affected'' (\<lambda>db. ((), db)))) (\<lambda>_.
      guard (rowsAffected = 1)
        (ErrorString (Fmt ''assertion failed: expected one operator user row updated, got %d'' [ArgD (int rowsAffected)]))
        (ret userID))))))"

definition organization_ids :: "op_db \<Rightarrow> uuid list" where
  "organization_ids db = map fst (filter (\<lambda>row. \<not> snd row) (db_organizations db))"

text \<open>The loop over the rows: each is scanned, then tested.\<close>

fun scan_organizations :: "'b pg_conn \<Rightarrow> uuid list \<Rightarrow> ('b tx_state, unit) op" where
  "scan_organizations conn [] = ret ()"
| "scan_organizations conn (organizationID # rows) =
     bind (map_err (WrapError ''scan organization ID: %w'' []) (statement conn ''scan organization'' (\<lambda>db. ((), db)))) (\<lambda>_.
     guard (organizationID \<noteq> uuid_Nil) (assertion ''organization ID must not be nil'') (
     scan_organizations conn rows))"

definition upsertOrganizationMember :: "gotime \<Rightarrow> uuid \<Rightarrow> uuid \<Rightarrow> op_db \<Rightarrow> op_db" where
  "upsertOrganizationMember now userID organizationID db =
     (let same = (\<lambda>m. om_organization_id m = organizationID \<and> om_user_id m = userID) in
      db\<lparr>db_members :=
        (if list_ex same (db_members db)
         then map (\<lambda>m. if same m then m\<lparr>om_updated_at := now, om_roles := [''organization-admin'']\<rparr> else m) (db_members db)
         else db_members db @ [\<lparr>om_organization_id = organizationID, om_user_id = userID, om_created_at = now,
                om_updated_at = now, om_roles = [''organization-admin'']\<rparr>])\<rparr>)"

fun upsert_loop :: "'b pg_conn \<Rightarrow> gotime \<Rightarrow> uuid \<Rightarrow> uuid list \<Rightarrow> ('b tx_state, unit) op" where
  "upsert_loop conn now userID [] = ret ()"
| "upsert_loop conn now userID (organizationID # ids) =
     bind (map_err (WrapError ''upsert operator organization membership for org %q: %w'' [ArgS (uuid_String organizationID)])
             (statement conn ''upsert member'' (\<lambda>db. ((), upsertOrganizationMember now userID organizationID db)))) (\<lambda>_.
     upsert_loop conn now userID ids)"

definition ensureOperatorMemberships :: "'b pg_conn \<Rightarrow> gotime \<Rightarrow> uuid \<Rightarrow> ('b tx_state, unit) op" where
  "ensureOperatorMemberships conn now userID =
     guard (userID \<noteq> uuid_Nil) (assertion ''operator user ID must not be nil'') (
     bind (map_err (WrapError ''list organizations: %w'' [])
             (statement conn ''list organizations'' (\<lambda>db. (organization_ids db, db)))) (\<lambda>organizationIDs.
     bind (scan_organizations conn organizationIDs) (\<lambda>_.
     bind (map_err (WrapError ''iterate organizations: %w'' []) (statement conn ''iterate organizations'' (\<lambda>db. ((), db)))) (\<lambda>_.
     bind (map_err (WrapError ''close organizations rows: %w'' []) (statement conn ''close organizations'' (\<lambda>db. ((), db)))) (\<lambda>_.
     guard (organizationIDs \<noteq> []) (assertion ''expected at least one organization'') (
     upsert_loop conn now userID organizationIDs))))))"

subsection \<open>Tokens\<close>

definition operatorTokenCharset :: string where
  "operatorTokenCharset = ''0123456789ABCDEFGHIJKLMNOPQRSTUVWXYZabcdefghijklmnopqrstuvwxyz''"

definition operatorTokenIDLength :: nat where "operatorTokenIDLength = 10"
definition operatorTokenSecretLength :: nat where "operatorTokenSecretLength = 22"

text \<open>The computation of the threshold in bytes: \<open>byte(255 - (256 % charsetLength))\<close>.\<close>

definition rejectionThreshold :: nat where
  "rejectionThreshold = (255 - 256 mod (length operatorTokenCharset mod 256)) mod 256"

fun random_loop :: "('b, nat) call \<Rightarrow> nat \<Rightarrow> nat \<Rightarrow> string \<Rightarrow> ('b, string) op" where
  "random_loop rand fuel 0 output = ret output"
| "random_loop rand 0 (Suc n) output = panic (Lit ''random source gave too few accepted bytes'')"
| "random_loop rand (Suc fuel) (Suc n) output =
     bind (map_err (WrapError ''read random byte: %w'' []) (call rand)) (\<lambda>randomByte.
     if randomByte > rejectionThreshold then random_loop rand fuel (Suc n) output
     else random_loop rand fuel n (output @ [operatorTokenCharset ! (randomByte mod length operatorTokenCharset)]))"

definition randomTokenPart :: "'b pg_env \<Rightarrow> nat \<Rightarrow> ('b, string) op" where
  "randomTokenPart env len =
     guard (len > 0) (assertion ''token part length must be positive'') (
     guard (operatorTokenCharset \<noteq> []) (assertion ''token charset must not be empty'') (
     random_loop (pv_RandomByte env) (pv_Fuel env) len []))"

fun strings_Cut :: "string \<Rightarrow> char \<Rightarrow> (string \<times> string) option" where
  "strings_Cut [] c = None"
| "strings_Cut (x # s) c = (if x = c then Some ([], s) else map_option (\<lambda>(a, b). (x # a, b)) (strings_Cut s c))"

definition splitOperatorToken :: "string \<Rightarrow> (string \<times> string) option" where
  "splitOperatorToken token =
     (let token = strings_TrimSpace token in
      if token = [] then None
      else case strings_Cut token CHR ''-'' of
        None \<Rightarrow> None
      | Some (tokenID, tokenSecret) \<Rightarrow> if tokenID = [] \<or> tokenSecret = [] then None else Some (tokenID, tokenSecret))"

definition lookupExistingToken :: "string \<Rightarrow> uuid \<Rightarrow> string \<Rightarrow> string \<Rightarrow> op_db \<Rightarrow> gotime option" where
  "lookupExistingToken tokenID userID tokenName hashedSecret db =
     map_option ak_expires_at (find (\<lambda>k. ak_id k = tokenID \<and> ak_user_id k = userID \<and> ak_login_type k = ''token''
        \<and> ak_token_name k = tokenName \<and> ak_hashed_secret k = hashedSecret) (db_keys db))"

definition existingOperatorTokenStillValid ::
    "'b pg_conn \<Rightarrow> gotime \<Rightarrow> uuid \<Rightarrow> string \<Rightarrow> string \<Rightarrow> ('b tx_state, bool) op" where
  "existingOperatorTokenStillValid conn now userID tokenName existingToken =
     guard (userID \<noteq> uuid_Nil) (assertion ''operator user ID must not be nil'') (
     guard (strings_TrimSpace tokenName \<noteq> []) (assertion ''token name must not be empty'') (
     guard (strings_TrimSpace existingToken \<noteq> []) (assertion ''existing token must not be empty'') (
     case splitOperatorToken existingToken of None \<Rightarrow> ret False
     | Some (tokenID, tokenSecret) \<Rightarrow>
         bind (map_err (WrapError ''query existing operator token %q: %w'' [ArgS tokenName])
                 (statement conn ''lookup token''
                    (\<lambda>db. (lookupExistingToken tokenID userID tokenName (sha256_Sum256 tokenSecret) db, db)))) (\<lambda>expiresAt.
         ret (case expiresAt of None \<Rightarrow> False | Some t \<Rightarrow> t > now)))))"

definition is_operator_key :: "uuid \<Rightarrow> string \<Rightarrow> db_key \<Rightarrow> bool" where
  "is_operator_key userID tokenName k = (ak_user_id k = userID \<and> ak_login_type k = ''token'' \<and> ak_token_name k = tokenName)"

definition deleteExistingToken :: "uuid \<Rightarrow> string \<Rightarrow> op_db \<Rightarrow> op_db" where
  "deleteExistingToken userID tokenName db = db\<lparr>db_keys := filter (\<lambda>k. \<not> is_operator_key userID tokenName k) (db_keys db)\<rparr>"

definition operator_key :: "string \<Rightarrow> string \<Rightarrow> uuid \<Rightarrow> gotime \<Rightarrow> gotime \<Rightarrow> int \<Rightarrow> string \<Rightarrow> db_key" where
  "operator_key tokenID hashedSecret userID now expiresAt lifetimeSeconds tokenName =
     \<lparr>ak_id = tokenID, ak_hashed_secret = hashedSecret, ak_user_id = userID, ak_last_used = now, ak_expires_at = expiresAt,
      ak_created_at = now, ak_updated_at = now, ak_login_type = ''token'', ak_lifetime_seconds = lifetimeSeconds,
      ak_ip_address = ''0.0.0.0'', ak_token_name = tokenName, ak_scopes = [''coder:all''], ak_allow_list = [''*:*'']\<rparr>"

text \<open>\<open>int64(lifetime.Seconds())\<close> is exact for whole seconds.\<close>

definition rotateOperatorToken ::
    "'b pg_env \<Rightarrow> 'b pg_conn \<Rightarrow> gotime \<Rightarrow> uuid \<Rightarrow> EnsureOperatorTokenRequest \<Rightarrow> ('b tx_state, string) op" where
  "rotateOperatorToken env conn now userID req =
     (let tokenName = eot_TokenName req; lifetimeSeconds = eot_TokenLifetime req div time_Second in
      guard (userID \<noteq> uuid_Nil) (assertion ''operator user ID must not be nil'') (
      bind (map_err (WrapError ''delete existing operator token %q: %w'' [ArgS tokenName])
              (statement conn ''delete token'' (\<lambda>db. ((), deleteExistingToken userID tokenName db)))) (\<lambda>_.
      bind (map_err (WrapError ''generate operator token ID: %w'' []) (tx_call (randomTokenPart env operatorTokenIDLength))) (\<lambda>tokenID.
      bind (map_err (WrapError ''generate operator token secret: %w'' []) (tx_call (randomTokenPart env operatorTokenSecretLength))) (\<lambda>tokenSecret.
      guard (lifetimeSeconds > 0) (assertion ''token lifetime seconds must be positive'') (
      bind (map_err (WrapError ''insert operator token %q: %w'' [ArgS tokenName])
              (statement conn ''insert token'' (\<lambda>db. ((), db\<lparr>db_keys := db_keys db @
                 [operator_key tokenID (sha256_Sum256 tokenSecret) userID now (now + eot_TokenLifetime req) lifetimeSeconds tokenName]\<rparr>)))) (\<lambda>_.
      ret (tokenID @ ''-'' @ tokenSecret))))))))"

definition ensureOperatorToken ::
    "'b pg_env \<Rightarrow> 'b pg_conn \<Rightarrow> gotime \<Rightarrow> uuid \<Rightarrow> EnsureOperatorTokenRequest \<Rightarrow> ('b tx_state, string) op" where
  "ensureOperatorToken env conn now userID req =
     (let existingToken = strings_TrimSpace (eot_ExistingToken req) in
      guard (userID \<noteq> uuid_Nil) (assertion ''operator user ID must not be nil'') (
      if existingToken \<noteq> [] then
        bind (existingOperatorTokenStillValid conn now userID (eot_TokenName req) existingToken) (\<lambda>tokenStillValid.
        if tokenStillValid then ret existingToken else rotateOperatorToken env conn now userID req)
      else rotateOperatorToken env conn now userID req))"

definition deleteOperatorTokenByName :: "(string \<Rightarrow> string) \<Rightarrow> string \<Rightarrow> string \<Rightarrow> op_db \<Rightarrow> op_db" where
  "deleteOperatorTokenByName lower username tokenName db =
     db\<lparr>db_keys := filter (\<lambda>k. \<not> (ak_login_type k = ''token'' \<and> ak_token_name k = tokenName \<and>
          list_ex (\<lambda>u. \<not> u_deleted u \<and> lower (u_username u) = lower username \<and> u_id u = ak_user_id k) (db_users db)))
        (db_keys db)\<rparr>"

definition revokeOperatorToken :: "'b pg_env \<Rightarrow> 'b pg_conn \<Rightarrow> RevokeOperatorTokenRequest \<Rightarrow> ('b tx_state, unit) op" where
  "revokeOperatorToken env conn req =
     bind (lift (revoke_validate req)) (\<lambda>_.
     map_err (WrapError ''delete operator token %q: %w'' [ArgS (rot_TokenName req)])
       (statement conn ''revoke token'' (\<lambda>db. ((), deleteOperatorTokenByName (pv_lower env) (rot_OperatorUsername req) (rot_TokenName req) db))))"

subsection \<open>The provisioner\<close>

definition with_database ::
    "(string \<Rightarrow> ('b, 'b pg_conn option) op) \<Rightarrow> string \<Rightarrow> ('b pg_conn \<Rightarrow> ('b, 'a) op) \<Rightarrow> ('b, 'a) op" where
  "with_database openDB postgresURL body =
     bind (map_err (WrapError ''open coderd postgres database: %w'' []) (openDB postgresURL)) (\<lambda>db.
     non_nil db (assertion ''openDB returned nil db and nil error'') (\<lambda>conn.
     deferred (pg_Close conn)
       (bind (map_err (WrapError ''ping coderd postgres database: %w'' []) (call (pg_Ping conn))) (\<lambda>_. body conn))))"

definition ensure_body ::
    "'b pg_env \<Rightarrow> 'b clock \<Rightarrow> EnsureOperatorTokenRequest \<Rightarrow> 'b pg_conn \<Rightarrow> ('b tx_state, string) op" where
  "ensure_body env clk req conn =
     bind (tx_call (now_op clk)) (\<lambda>now.
     guard (\<not> time_IsZero now) (assertion ''provisioner clock returned zero time'') (
     bind (ensureOperatorUser env conn now req) (\<lambda>userID.
     bind (ensureOperatorMemberships conn now userID) (\<lambda>_.
     bind (ensureOperatorToken env conn now userID req) (\<lambda>token.
     guard (token \<noteq> []) (assertion ''ensured operator token must not be empty'') (
     ret token))))))"

definition EnsureOperatorToken ::
    "'b pg_env \<Rightarrow> 'b PostgresOperatorAccessProvisioner option \<Rightarrow> bctx \<Rightarrow> EnsureOperatorTokenRequest \<Rightarrow> ('b, string) op" where
  "EnsureOperatorToken env p ctx req =
     non_nil ctx (assertion ''context must not be nil'') (\<lambda>_.
     bind (lift (ensure_validate req)) (\<lambda>_.
     non_nil p (assertion ''provisioner must not be nil'') (\<lambda>p.
     non_nil (pp_openDB p) (assertion ''provisioner openDB must not be nil'') (\<lambda>openDB.
     non_nil (pp_now p) (assertion ''provisioner now clock must not be nil'') (\<lambda>clk.
     with_database openDB (eot_PostgresURL req) (\<lambda>conn.
     in_transaction conn ''begin operator access transaction: %w'' ''commit operator access transaction: %w''
       (ensure_body env clk req conn)))))))"

definition RevokeOperatorToken ::
    "'b pg_env \<Rightarrow> 'b PostgresOperatorAccessProvisioner option \<Rightarrow> bctx \<Rightarrow> RevokeOperatorTokenRequest \<Rightarrow> ('b, unit) op" where
  "RevokeOperatorToken env p ctx req =
     non_nil ctx (assertion ''context must not be nil'') (\<lambda>_.
     bind (lift (revoke_validate req)) (\<lambda>_.
     non_nil p (assertion ''provisioner must not be nil'') (\<lambda>p.
     non_nil (pp_openDB p) (assertion ''provisioner openDB must not be nil'') (\<lambda>openDB.
     with_database openDB (rot_PostgresURL req) (\<lambda>conn.
     in_transaction conn ''begin operator access revoke transaction: %w'' ''commit operator access revoke transaction: %w''
       (revokeOperatorToken env conn req))))))"

definition postgres_access :: "'b pg_env \<Rightarrow> 'b PostgresOperatorAccessProvisioner \<Rightarrow> 'b OperatorAccessProvisioner" where
  "postgres_access env p =
     \<lparr>oap_EnsureOperatorToken = EnsureOperatorToken env (Some p) (Some False),
      oap_RevokeOperatorToken = RevokeOperatorToken env (Some p) (Some False)\<rparr>"

end
