(* ===== verification/Operator_Correct.thy ===== *)
theory Operator_Correct
  imports Operator_Access Control_Plane_Names
begin

text \<open>
  Lemmas on the provisioning of the operator token: the token format and its random parts,
  the effect of each statement on the tables, and transactions. \<open>transactional\<close> is what
  is relied on of the database engine: a transaction starts from the stored tables, and
  only a successful commit changes them.
\<close>

section \<open>Elimination of successful runs\<close>

lemma bind_okE: "bind m f w = (Ok b, w'') \<Longrightarrow> (\<And>a w'. m w = (Ok a, w') \<Longrightarrow> f a w' = (Ok b, w'') \<Longrightarrow> P) \<Longrightarrow> P"
  unfolding bind_eq_Ok by blast

lemma map_err_okE: "map_err g m w = (Ok a, w') \<Longrightarrow> (m w = (Ok a, w') \<Longrightarrow> P) \<Longrightarrow> P"
  unfolding map_err_eq_Ok by blast

lemma guard_okE: "guard b e m w = (Ok a, w') \<Longrightarrow> (b \<Longrightarrow> m w = (Ok a, w') \<Longrightarrow> P) \<Longrightarrow> P"
  unfolding guard_eq_Ok by blast

lemma ret_okE: "ret a w = (Ok b, w') \<Longrightarrow> (b = a \<Longrightarrow> w' = w \<Longrightarrow> P) \<Longrightarrow> P"
  by simp

lemmas okE = bind_okE map_err_okE guard_okE ret_okE

section \<open>Random parts\<close>

definition token_chars :: "string \<Rightarrow> bool" where
  "token_chars s \<longleftrightarrow> s \<noteq> [] \<and> set s \<subseteq> set operatorTokenCharset"

definition accepted :: "nat \<Rightarrow> bool" where
  "accepted b \<longleftrightarrow> b \<le> rejectionThreshold"

definition token_char :: "nat \<Rightarrow> char" where
  "token_char b = operatorTokenCharset ! (b mod length operatorTokenCharset)"

lemma length_charset [simp]: "length operatorTokenCharset = 62"
  by (simp add: operatorTokenCharset_def)

lemma threshold [simp]: "rejectionThreshold = 247"
  by (simp add: rejectionThreshold_def)

lemma charset_distinct: "distinct operatorTokenCharset"
  by code_simp

lemma charset_plain: "c \<in> set operatorTokenCharset \<Longrightarrow> plain c \<and> c \<noteq> CHR ''-''"
proof -
  have "list_all (\<lambda>c. plain c \<and> c \<noteq> CHR ''-'') operatorTokenCharset" by code_simp
  then show "c \<in> set operatorTokenCharset \<Longrightarrow> plain c \<and> c \<noteq> CHR ''-''" by (simp add: list_all_iff)
qed

lemma token_char_mem [simp]: "token_char b \<in> set operatorTokenCharset"
  unfolding token_char_def by (rule nth_mem) simp

lemma random_loop_step:
  "random_loop rand (Suc fuel) (Suc n) out =
     bind (map_err (WrapError ''read random byte: %w'' []) (call rand)) (\<lambda>b.
       if accepted b then random_loop rand fuel n (out @ [token_char b]) else random_loop rand fuel (Suc n) out)"
  unfolding random_loop.simps(3) accepted_def token_char_def by (intro arg_cong2 [where f = bind] refl ext) auto

lemma random_loop_chars:
  "random_loop rand fuel n out w = (Ok s, w') \<Longrightarrow> set out \<subseteq> set operatorTokenCharset \<Longrightarrow>
     length s = length out + n \<and> set s \<subseteq> set operatorTokenCharset"
proof (induction fuel arbitrary: n out w)
  case 0
  then show ?case by (cases n) auto
next
  case (Suc fuel)
  show ?case
  proof (cases n)
    case (Suc m)
    with Suc.prems(1) obtain b v where "call rand w = (Ok b, v)"
      and run: "(if accepted b then random_loop rand fuel m (out @ [token_char b]) else random_loop rand fuel n out) v = (Ok s, w')"
      unfolding Suc random_loop_step bind_eq_Ok map_err_eq_Ok by blast
    show ?thesis
    proof (cases "accepted b")
      case True
      with run Suc.IH [of m "out @ [token_char b]" v] Suc.prems(2) \<open>n = Suc m\<close> show ?thesis by simp
    next
      case False
      with run Suc.IH [of n out v] Suc.prems(2) show ?thesis by simp
    qed
  qed (use Suc.prems in simp)
qed

lemma randomTokenPart_chars:
  "randomTokenPart env n w = (Ok s, w') \<Longrightarrow> length s = n \<and> token_chars s"
  using random_loop_chars [of "pv_RandomByte env" "pv_Fuel env" n "[]" w s w']
  by (auto simp: randomTokenPart_def guard_eq_Ok token_chars_def)

text \<open>
  A source that delivers given bytes: the loop reads up to the last accepted byte it needs and
  no further, the result is the accepted ones among them, mapped to the alphabet, and as much
  fuel as there are bytes is enough.
\<close>

lemma random_loop_read:
  "rand w = (Inr b, v) \<Longrightarrow> random_loop rand (Suc fuel) (Suc n) out w =
     (if accepted b then random_loop rand fuel n (out @ [token_char b]) v else random_loop rand fuel (Suc n) out v)"
  unfolding random_loop_step by (simp add: bind_def map_err_def call_def)

lemma random_loop_total:
  assumes src: "\<And>v b bs. bytes v = b # bs \<Longrightarrow> \<exists>v'. rand v = (Inr b, v') \<and> bytes v' = bs"
    and "bytes w = bs" "n \<le> length (filter accepted bs)" "length bs \<le> fuel"
  shows "\<exists>k w'. random_loop rand fuel n out w = (Ok (out @ map token_char (filter accepted (take k bs))), w') \<and>
    k \<le> length bs \<and> length (filter accepted (take k bs)) = n \<and> (if n = 0 then k = 0 else k \<noteq> 0 \<and> accepted (bs ! (k - 1))) \<and> bytes w' = drop k bs"
  using assms(2-4)
proof (induction bs arbitrary: w n fuel out)
  case (Cons b bs)
  show ?case
  proof (cases n)
    case (Suc m)
    obtain v where v: "rand w = (Inr b, v)" "bytes v = bs" using src [OF Cons.prems(1)] by blast
    obtain f where f: "fuel = Suc f" "length bs \<le> f" using Cons.prems(3) by (cases fuel) auto
    have read: "random_loop rand fuel n out w =
        (if accepted b then random_loop rand f m (out @ [token_char b]) v else random_loop rand f n out v)"
      using random_loop_read [of rand w b v f m out, OF v(1)] by (simp add: f(1) Suc)
    define m' where "m' = (if accepted b then m else n)"
    define out' where "out' = (if accepted b then out @ [token_char b] else out)"
    have "m' \<le> length (filter accepted bs)" using Cons.prems(2) Suc by (auto simp: m'_def split: if_splits)
    from Cons.IH [OF v(2) this f(2), of out'] obtain k w' where k: "random_loop rand f m' out' v = (Ok (out' @ map token_char (filter accepted (take k bs))), w')"
      "k \<le> length bs" "length (filter accepted (take k bs)) = m'" "if m' = 0 then k = 0 else k \<noteq> 0 \<and> accepted (bs ! (k - 1))" "bytes w' = drop k bs" by blast
    have "random_loop rand fuel n out w = (Ok (out @ map token_char (filter accepted (take (Suc k) (b # bs)))), w')"
      using read k(1) by (cases "accepted b") (simp_all add: m'_def out'_def)
    then show ?thesis
      using k(2-) Suc by (intro exI [of _ "Suc k"] exI [of _ w']) (auto simp: m'_def nth_Cons' split: if_splits)
  qed (use Cons.prems(1) in auto)
qed simp

section \<open>Token format\<close>

lemma strings_Cut_mem: "CHR ''-'' \<notin> set a \<Longrightarrow> strings_Cut (a @ CHR ''-'' # b) CHR ''-'' = Some (a, b)"
  by (induction a) auto

lemma token_trim:
  assumes "token_chars a" "token_chars b"
  shows "strings_TrimSpace (a @ ''-'' @ b) = a @ ''-'' @ b"
proof (rule TrimSpace_plain)
  have "hd (a @ ''-'' @ b) \<in> set operatorTokenCharset" "last (a @ ''-'' @ b) \<in> set operatorTokenCharset"
    using assms by (auto simp: token_chars_def)
  then show "plain (hd (a @ ''-'' @ b))" "plain (last (a @ ''-'' @ b))" using charset_plain by blast+
qed simp

lemma split_token:
  assumes "token_chars a" "token_chars b"
  shows "splitOperatorToken (a @ ''-'' @ b) = Some (a, b)"
proof -
  have "CHR ''-'' \<notin> set a" using assms(1) charset_plain unfolding token_chars_def by blast
  then have "strings_Cut (a @ ''-'' @ b) CHR ''-'' = Some (a, b)" using strings_Cut_mem by simp
  then show ?thesis using assms token_trim [OF assms] by (simp add: splitOperatorToken_def token_chars_def)
qed

section \<open>Statements\<close>

lemma tx_call_Ok: "tx_call m s = (Ok a, s') \<Longrightarrow> tx_db s' = tx_db s"
  by (auto simp: tx_call_def zoom_eq_Ok)

lemma statement_Ok:
  assumes "statement conn name f s = (Ok a, s')"
  shows "a = fst (f (tx_db s))" "tx_db s' = snd (f (tx_db s))"
proof -
  obtain r s1 where r: "tx_call (call (pg_Exec conn name)) s = (r, s1)" by force
  obtain b db where f: "f (tx_db s1) = (b, db)" by force
  from assms r f obtain u where "r = Ok u" "a = b" "s' = s1\<lparr>tx_db := db\<rparr>"
    by (cases r) (auto simp: statement_def bind_def)
  moreover from this r have "tx_db s1 = tx_db s" by (simp add: tx_call_Ok)
  ultimately show "a = fst (f (tx_db s))" "tx_db s' = snd (f (tx_db s))" using f by simp_all
qed

lemma query_Ok: "statement conn name (\<lambda>db. (g db, db)) s = (Ok a, s') \<Longrightarrow> a = g (tx_db s) \<and> tx_db s' = tx_db s"
  using statement_Ok [of conn name "\<lambda>db. (g db, db)" s a s'] by simp

lemma exec_Ok: "statement conn name (\<lambda>db. ((), g db)) s = (Ok a, s') \<Longrightarrow> tx_db s' = g (tx_db s)"
  using statement_Ok [of conn name "\<lambda>db. ((), g db)" s a s'] by simp

subsection \<open>The operator user\<close>

lemma find_map_inv:
  assumes "\<And>x. P (f x) = P x" "\<And>x. g (f x) = g x"
  shows "map_option g (find P (map f xs)) = map_option g (find P xs)"
  by (induction xs) (auto simp: assms)

lemma lookup_enforced:
  "lookupOperatorUser lower n (snd (enforceOperatorUser uid e m now db)) = lookupOperatorUser lower n db"
  unfolding lookupOperatorUser_def enforceOperatorUser_def
  by (simp, rule find_map_inv) (auto simp: enforced_user_def)

lemma lookup_inserted:
  assumes "lookupOperatorUser lower n db = None"
  shows "lookupOperatorUser lower n (insertOperatorUser uid e n now db) = Some uid"
proof -
  have "find P (xs @ ys) = (case find P xs of None \<Rightarrow> find P ys | Some x \<Rightarrow> Some x)" for P and xs ys :: "db_user list"
    by (induction xs) auto
  with assms show ?thesis by (simp add: lookupOperatorUser_def insertOperatorUser_def)
qed

text \<open>The operator user: active owner without a password.\<close>

definition operator_user :: "db_user \<Rightarrow> bool" where
  "operator_user u \<longleftrightarrow> u_rbac_roles u = [''owner''] \<and> u_login_type u = ''none'' \<and> u_status u = ''active'' \<and> u_is_system u"

lemma operator_user_enforced: "operator_user (enforced_user e n now u)"
  by (simp add: operator_user_def enforced_user_def)

lemma u_id_enforced [simp]: "u_id (enforced_user e n now u) = u_id u"
  by (simp add: enforced_user_def)

lemma enforced_users:
  assumes "u \<in> set (db_users (snd (enforceOperatorUser uid e n now db)))" "u_id u = uid"
  shows "operator_user u"
proof -
  obtain v where "u = (if u_id v = uid then enforced_user e n now v else v)"
    using assms(1) by (auto simp: enforceOperatorUser_def simp del: if_image_distrib)
  then show ?thesis using assms(2) operator_user_enforced by (cases "u_id v = uid") auto
qed

lemma find_or_insert_Ok:
  assumes "find_or_insert_user env conn now req s = (Ok uid, s')"
  shows "lookupOperatorUser (pv_lower env) (eot_OperatorUsername req) (tx_db s') = Some uid \<and>
    db_keys (tx_db s') = db_keys (tx_db s) \<and> db_organizations (tx_db s') = db_organizations (tx_db s)"
proof -
  let ?n = "eot_OperatorUsername req" and ?l = "pv_lower env"
  from assms obtain found s1 where
    q: "statement conn ''lookup user'' (\<lambda>db. (lookupOperatorUser ?l ?n db, db)) s = (Ok found, s1)"
    and ins: "(case found of Some userID \<Rightarrow> ret userID
      | None \<Rightarrow>
          bind (tx_call (\<lambda>w. case pv_NewUUID env w of (u, w') \<Rightarrow> (Ok u, w'))) (\<lambda>userID.
          bind (map_err (WrapError ''insert operator user %q: %w'' [ArgS ?n])
                  (statement conn ''insert user'' (\<lambda>db. ((), insertOperatorUser userID (eot_OperatorEmail req) ?n now db)))) (\<lambda>_.
          ret userID))) s1 = (Ok uid, s')"
    unfolding find_or_insert_user_def Let_def by (elim bind_okE map_err_okE) (rule that)
  note q = query_Ok [OF q]
  show ?thesis
  proof (cases found)
    case None
    with ins q have "tx_db s' = insertOperatorUser uid (eot_OperatorEmail req) ?n now (tx_db s)"
      by (simp, elim okE) (auto dest!: tx_call_Ok exec_Ok)
    with q None show ?thesis using lookup_inserted [of ?l ?n "tx_db s" uid] by (simp add: insertOperatorUser_def)
  qed (use ins q in auto)
qed

lemma ensureOperatorUser_Ok:
  assumes "ensureOperatorUser env conn now req s = (Ok uid, s')"
  shows "uid \<noteq> uuid_Nil"
    and "lookupOperatorUser (pv_lower env) (eot_OperatorUsername req) (tx_db s') = Some uid"
    and "db_keys (tx_db s') = db_keys (tx_db s)" "db_organizations (tx_db s') = db_organizations (tx_db s)"
    and "\<And>u. u \<in> set (db_users (tx_db s')) \<Longrightarrow> u_id u = uid \<Longrightarrow> operator_user u"
proof -
  let ?n = "eot_OperatorUsername req" and ?e = "eot_OperatorEmail req" and ?l = "pv_lower env"
  from assms obtain s2 rows s3 where
    ins: "find_or_insert_user env conn now req s = (Ok uid, s2)" and nil: "uid \<noteq> uuid_Nil"
    and enf: "statement conn ''enforce user'' (enforceOperatorUser uid ?e ?n now) s2 = (Ok rows, s3)"
    and ra: "statement conn ''rows affected'' (\<lambda>db. ((), db)) s3 = (Ok (), s')"
    unfolding ensureOperatorUser_def Let_def by (elim okE) (rule that; simp)
  have db: "tx_db s' = snd (enforceOperatorUser uid ?e ?n now (tx_db s2))"
    using statement_Ok [OF enf] exec_Ok [OF ra] by simp
  from find_or_insert_Ok [OF ins]
  show "lookupOperatorUser ?l ?n (tx_db s') = Some uid" "db_keys (tx_db s') = db_keys (tx_db s)"
    "db_organizations (tx_db s') = db_organizations (tx_db s)"
    unfolding db lookup_enforced by (simp_all add: enforceOperatorUser_def)
  show "u \<in> set (db_users (tx_db s')) \<Longrightarrow> u_id u = uid \<Longrightarrow> operator_user u" for u
    unfolding db by (rule enforced_users)
  show "uid \<noteq> uuid_Nil" by (fact nil)
qed

subsection \<open>Memberships\<close>

definition admin_of :: "uuid \<Rightarrow> uuid \<Rightarrow> op_db \<Rightarrow> bool" where
  "admin_of uid org db \<longleftrightarrow>
     (\<exists>m\<in>set (db_members db). om_organization_id m = org \<and> om_user_id m = uid \<and> om_roles m = [''organization-admin''])"

lemma upsert_members:
  "set (db_members (upsertOrganizationMember now uid org db)) =
     (if \<exists>m\<in>set (db_members db). om_organization_id m = org \<and> om_user_id m = uid
      then (\<lambda>m. if om_organization_id m = org \<and> om_user_id m = uid
                 then m\<lparr>om_updated_at := now, om_roles := [''organization-admin'']\<rparr> else m) ` set (db_members db)
      else insert \<lparr>om_organization_id = org, om_user_id = uid, om_created_at = now, om_updated_at = now,
              om_roles = [''organization-admin'']\<rparr> (set (db_members db)))"
  by (auto simp: upsertOrganizationMember_def Let_def list_ex_iff)

lemma upsert_admin: "admin_of uid org (upsertOrganizationMember now uid org db)"
proof (cases "\<exists>m\<in>set (db_members db). om_organization_id m = org \<and> om_user_id m = uid")
  case True
  then obtain m where m: "m \<in> set (db_members db)" "om_organization_id m = org" "om_user_id m = uid" by blast
  then show ?thesis unfolding admin_of_def upsert_members if_P [OF True] by (intro bexI [OF _ imageI [OF m(1)]]) simp
next
  case False
  show ?thesis unfolding admin_of_def upsert_members if_not_P [OF False] by simp
qed

lemma upsert_admin_mono:
  assumes "admin_of uid org db"
  shows "admin_of uid org (upsertOrganizationMember now uid org' db)"
proof -
  obtain m where m: "m \<in> set (db_members db)" "om_organization_id m = org" "om_user_id m = uid" "om_roles m = [''organization-admin'']"
    using assms unfolding admin_of_def by blast
  show ?thesis
  proof (cases "\<exists>m\<in>set (db_members db). om_organization_id m = org' \<and> om_user_id m = uid")
    case True
    show ?thesis unfolding admin_of_def upsert_members if_P [OF True] by (intro bexI [OF _ imageI [OF m(1)]]) (use m in simp)
  next
    case False
    show ?thesis unfolding admin_of_def upsert_members if_not_P [OF False] using m by blast
  qed
qed

lemma upsert_frame [simp]:
  "db_keys (upsertOrganizationMember now uid org db) = db_keys db"
  "db_users (upsertOrganizationMember now uid org db) = db_users db"
  "db_organizations (upsertOrganizationMember now uid org db) = db_organizations db"
  by (simp_all add: upsertOrganizationMember_def Let_def)

lemma upsert_loop_Ok:
  assumes "upsert_loop conn now uid ids s = (Ok u, s')"
  shows "db_keys (tx_db s') = db_keys (tx_db s) \<and> db_users (tx_db s') = db_users (tx_db s) \<and>
    db_organizations (tx_db s') = db_organizations (tx_db s) \<and>
    (\<forall>org. org \<in> set ids \<or> admin_of uid org (tx_db s) \<longrightarrow> admin_of uid org (tx_db s'))"
  using assms
proof (induction ids arbitrary: s)
  case (Cons org ids)
  then obtain s1 where s1: "statement conn ''upsert member'' (\<lambda>db. ((), upsertOrganizationMember now uid org db)) s = (Ok (), s1)"
    and rest: "upsert_loop conn now uid ids s1 = (Ok u, s')"
    unfolding upsert_loop.simps by (elim okE) (rule that; simp)
  note s1 = exec_Ok [OF s1]
  from Cons.IH [OF rest] show ?case by (auto simp: s1 upsert_admin upsert_admin_mono)
qed auto

lemma scan_organizations_Ok: "scan_organizations conn ids s = (Ok u, s') \<Longrightarrow> tx_db s' = tx_db s"
proof (induction ids arbitrary: s)
  case (Cons org ids)
  from Cons.prems obtain s1 where "statement conn ''scan organization'' (\<lambda>db. ((), db)) s = (Ok (), s1)"
    "scan_organizations conn ids s1 = (Ok u, s')"
    unfolding scan_organizations.simps by (elim okE) (rule that; simp)
  with Cons.IH [of s1] show ?case by (auto dest: exec_Ok)
qed auto

lemma ensureOperatorMemberships_Ok:
  assumes "ensureOperatorMemberships conn now uid s = (Ok u, s')"
  shows "db_keys (tx_db s') = db_keys (tx_db s)" "db_users (tx_db s') = db_users (tx_db s)"
    "db_organizations (tx_db s') = db_organizations (tx_db s)"
    "org \<in> set (organization_ids (tx_db s)) \<Longrightarrow> admin_of uid org (tx_db s')"
proof -
  from assms obtain ids s1 s2 s3 s4 where
    l: "statement conn ''list organizations'' (\<lambda>db. (organization_ids db, db)) s = (Ok ids, s1)"
    and sc: "scan_organizations conn ids s1 = (Ok (), s2)"
    and i: "statement conn ''iterate organizations'' (\<lambda>db. ((), db)) s2 = (Ok (), s3)"
    and c: "statement conn ''close organizations'' (\<lambda>db. ((), db)) s3 = (Ok (), s4)"
    and up: "upsert_loop conn now uid ids s4 = (Ok u, s')"
    unfolding ensureOperatorMemberships_def by (elim okE) (rule that; simp)
  have db: "tx_db s4 = tx_db s" "ids = organization_ids (tx_db s)"
    using query_Ok [OF l] scan_organizations_Ok [OF sc] exec_Ok [OF i] exec_Ok [OF c] by simp_all
  from upsert_loop_Ok [OF up] db show "db_keys (tx_db s') = db_keys (tx_db s)" "db_users (tx_db s') = db_users (tx_db s)"
    "db_organizations (tx_db s') = db_organizations (tx_db s)"
    "org \<in> set (organization_ids (tx_db s)) \<Longrightarrow> admin_of uid org (tx_db s')" by auto
qed


subsection \<open>Tokens\<close>

lemma lookup_rotated:
  "lookupExistingToken a uid name h
     (db\<lparr>db_keys := filter (\<lambda>k. \<not> is_operator_key uid name k) ks @ [operator_key a h uid now expiry secs name]\<rparr>) = Some expiry"
proof -
  have "find P (filter (\<lambda>k. \<not> Q k) xs @ [y]) = Some y" if "\<And>x. P x \<Longrightarrow> Q x" "P y" for P Q and xs :: "db_key list" and y
    using that by (induction xs) auto
  from this [of "\<lambda>k. ak_id k = a \<and> ak_user_id k = uid \<and> ak_login_type k = ''token'' \<and> ak_token_name k = name \<and> ak_hashed_secret k = h"
      "is_operator_key uid name" "operator_key a h uid now expiry secs name" ks]
  show ?thesis unfolding lookupExistingToken_def by (simp add: is_operator_key_def operator_key_def)
qed

lemma rotate_Ok:
  assumes "rotateOperatorToken env conn now uid req s = (Ok tok, s')"
  obtains a b where "tok = a @ ''-'' @ b" "token_chars a" "token_chars b"
    "length a = operatorTokenIDLength" "length b = operatorTokenSecretLength"
    "tx_db s' = (tx_db s)\<lparr>db_keys := filter (\<lambda>k. \<not> is_operator_key uid (eot_TokenName req) k) (db_keys (tx_db s)) @
       [operator_key a (sha256_Sum256 b) uid now (now + eot_TokenLifetime req) (eot_TokenLifetime req div time_Second) (eot_TokenName req)]\<rparr>"
proof -
  from assms obtain s1 a s2 b s3 where
    d: "statement conn ''delete token'' (\<lambda>db. ((), deleteExistingToken uid (eot_TokenName req) db)) s = (Ok (), s1)"
    and a: "tx_call (randomTokenPart env operatorTokenIDLength) s1 = (Ok a, s2)"
    and b: "tx_call (randomTokenPart env operatorTokenSecretLength) s2 = (Ok b, s3)"
    and i: "statement conn ''insert token'' (\<lambda>db. ((), db\<lparr>db_keys := db_keys db @
        [operator_key a (sha256_Sum256 b) uid now (now + eot_TokenLifetime req) (eot_TokenLifetime req div time_Second) (eot_TokenName req)]\<rparr>)) s3
        = (Ok (), s')" and tok: "tok = a @ ''-'' @ b"
    unfolding rotateOperatorToken_def Let_def by (elim okE) (rule that; simp)
  have "length a = operatorTokenIDLength \<and> token_chars a" "length b = operatorTokenSecretLength \<and> token_chars b"
    using a b by (auto simp: tx_call_def zoom_eq_Ok dest: randomTokenPart_chars)
  moreover have "tx_db s3 = deleteExistingToken uid (eot_TokenName req) (tx_db s)"
    using exec_Ok [OF d] tx_call_Ok [OF a] tx_call_Ok [OF b] by simp
  ultimately show thesis using that [of a b] tok exec_Ok [OF i] by (simp add: deleteExistingToken_def)
qed

text \<open>A token the database accepts for the user until after \<open>now\<close>.\<close>

definition token_valid :: "uuid \<Rightarrow> string \<Rightarrow> gotime \<Rightarrow> string \<Rightarrow> op_db \<Rightarrow> bool" where
  "token_valid uid name now tok db \<longleftrightarrow> strings_TrimSpace tok = tok \<and>
     (\<exists>a b expiry. splitOperatorToken tok = Some (a, b) \<and>
        lookupExistingToken a uid name (sha256_Sum256 b) db = Some expiry \<and> now < expiry)"

lemma split_not_Nil: "splitOperatorToken tok = Some p \<Longrightarrow> tok \<noteq> []"
  by (auto simp: splitOperatorToken_def)

lemma stillValid_Ok:
  assumes "existingOperatorTokenStillValid conn now uid name tok s = (Ok v, s')" "strings_TrimSpace tok = tok"
  shows "tx_db s' = tx_db s \<and> (v \<longleftrightarrow> token_valid uid name now tok (tx_db s))"
proof (cases "splitOperatorToken tok")
  case None
  with assms show ?thesis
    unfolding existingOperatorTokenStillValid_def by (elim guard_okE) (simp add: token_valid_def)
next
  case (Some p)
  obtain a b where p: "p = (a, b)" by force
  from assms(1) Some obtain t where
    q: "statement conn ''lookup token'' (\<lambda>db. (lookupExistingToken a uid name (sha256_Sum256 b) db, db)) s = (Ok t, s')"
    and v: "v = (case t of None \<Rightarrow> False | Some t \<Rightarrow> t > now)"
    unfolding existingOperatorTokenStillValid_def by (elim guard_okE) (simp add: p, elim okE, rule that; simp)
  from query_Ok [OF q] v Some p assms(2) show ?thesis by (auto simp: token_valid_def split: option.splits)
qed

lemma ensureOperatorToken_Ok:
  assumes "ensureOperatorToken env conn now uid req s = (Ok tok, s')" "0 < eot_TokenLifetime req"
  shows "token_valid uid (eot_TokenName req) now tok (tx_db s')"
    and "db_users (tx_db s') = db_users (tx_db s)" "db_members (tx_db s') = db_members (tx_db s)"
    and "filter (\<lambda>k. \<not> is_operator_key uid (eot_TokenName req) k) (db_keys (tx_db s'))
       = filter (\<lambda>k. \<not> is_operator_key uid (eot_TokenName req) k) (db_keys (tx_db s))"
proof -
  let ?name = "eot_TokenName req" and ?e = "strings_TrimSpace (eot_ExistingToken req)"
  have rotated: "token_valid uid ?name now tok (tx_db s') \<and> db_users (tx_db s') = db_users (tx_db s1) \<and>
      db_members (tx_db s') = db_members (tx_db s1) \<and>
      filter (\<lambda>k. \<not> is_operator_key uid ?name k) (db_keys (tx_db s')) = filter (\<lambda>k. \<not> is_operator_key uid ?name k) (db_keys (tx_db s1))"
    if "rotateOperatorToken env conn now uid req s1 = (Ok tok, s')" for s1
    using that
  proof (rule rotate_Ok)
    fix a b
    let ?k = "operator_key a (sha256_Sum256 b) uid now (now + eot_TokenLifetime req) (eot_TokenLifetime req div time_Second) ?name"
    assume tok: "tok = a @ ''-'' @ b" and ab: "token_chars a" "token_chars b"
      and db: "tx_db s' = (tx_db s1)\<lparr>db_keys := filter (\<lambda>k. \<not> is_operator_key uid ?name k) (db_keys (tx_db s1)) @ [?k]\<rparr>"
    have "is_operator_key uid ?name ?k" by (simp add: is_operator_key_def operator_key_def)
    then show ?thesis using split_token [OF ab] token_trim [OF ab] assms(2) db
      by (simp add: token_valid_def tok db lookup_rotated)
  qed
  have "token_valid uid ?name now tok (tx_db s') \<and> db_users (tx_db s') = db_users (tx_db s) \<and>
      db_members (tx_db s') = db_members (tx_db s) \<and>
      filter (\<lambda>k. \<not> is_operator_key uid ?name k) (db_keys (tx_db s')) = filter (\<lambda>k. \<not> is_operator_key uid ?name k) (db_keys (tx_db s))"
  proof (cases "?e = []")
    case True
    with assms(1) show ?thesis unfolding ensureOperatorToken_def Let_def by (elim guard_okE) (simp add: rotated)
  next
    case False
    with assms(1) obtain v s1 where v: "existingOperatorTokenStillValid conn now uid ?name ?e s = (Ok v, s1)"
      and run: "(if v then ret ?e else rotateOperatorToken env conn now uid req) s1 = (Ok tok, s')"
      unfolding ensureOperatorToken_def Let_def by (elim guard_okE) (simp, elim bind_okE, rule that)
    from stillValid_Ok [OF v] run rotated [of s1] show ?thesis by (cases v) auto
  qed
  then show "token_valid uid ?name now tok (tx_db s')" "db_users (tx_db s') = db_users (tx_db s)"
    "db_members (tx_db s') = db_members (tx_db s)"
    "filter (\<lambda>k. \<not> is_operator_key uid ?name k) (db_keys (tx_db s')) = filter (\<lambda>k. \<not> is_operator_key uid ?name k) (db_keys (tx_db s))"
    by simp_all
qed

lemma ensureOperatorToken_stable:
  assumes "ensureOperatorToken env conn now uid req s = (Ok tok, s')"
    and "token_valid uid (eot_TokenName req) now (eot_ExistingToken req) (tx_db s)"
  shows "tok = eot_ExistingToken req \<and> tx_db s' = tx_db s"
proof -
  let ?e = "eot_ExistingToken req"
  have e: "strings_TrimSpace ?e = ?e" "?e \<noteq> []" using assms(2) by (auto simp: token_valid_def dest: split_not_Nil)
  with assms(1) obtain v s1 where v: "existingOperatorTokenStillValid conn now uid (eot_TokenName req) ?e s = (Ok v, s1)"
    and run: "(if v then ret ?e else rotateOperatorToken env conn now uid req) s1 = (Ok tok, s')"
    unfolding ensureOperatorToken_def Let_def e(1) by (elim guard_okE) (simp, elim bind_okE, rule that)
  from stillValid_Ok [OF v e(1)] assms(2) run show ?thesis by auto
qed

lemma token_valid_keys: "db_keys db' = db_keys db \<Longrightarrow> token_valid uid n now tok db' = token_valid uid n now tok db"
  by (simp add: token_valid_def lookupExistingToken_def)

end
