(* ===== verification/Operator_Transaction.thy ===== *)
theory Operator_Transaction
  imports Operator_Correct
begin

text \<open>
  The operator token provisioner as a whole: its transactions against a stored database, and
  what it leaves there. The locale \<open>operator_provisioner\<close> is what the control-plane
  controller relies on; the PostgreSQL provisioner is an interpretation.
\<close>

section \<open>Transactions\<close>

definition keeps :: "('b \<Rightarrow> op_db) \<Rightarrow> ('b, 'a) call \<Rightarrow> bool" where
  "keeps stored c \<longleftrightarrow> (\<forall>v. stored (snd (c v)) = stored v)"

definition conn_laws :: "('b \<Rightarrow> op_db) \<Rightarrow> 'b pg_conn \<Rightarrow> bool" where
  "conn_laws stored conn \<longleftrightarrow>
     keeps stored (pg_Ping conn) \<and> keeps stored (pg_Begin conn) \<and> (\<forall>name. keeps stored (pg_Exec conn name)) \<and>
     (\<forall>v db v'. pg_Begin conn v = (Inr db, v') \<longrightarrow> db = stored v) \<and>
     (\<forall>db v x v'. pg_Commit conn db v = (x, v') \<longrightarrow> stored v' = (case x of Inr _ \<Rightarrow> db | Inl _ \<Rightarrow> stored v)) \<and>
     (\<forall>v. stored (pg_Rollback conn v) = stored v) \<and> (\<forall>v. stored (pg_Close conn v) = stored v)"

definition transactional :: "'b pg_env \<Rightarrow> (string \<Rightarrow> ('b, 'b pg_conn option) op) \<Rightarrow> 'b clock \<Rightarrow> ('b \<Rightarrow> op_db) \<Rightarrow> bool" where
  "transactional env openDB clk stored \<longleftrightarrow>
     (\<forall>url v r v'. openDB url v = (r, v') \<longrightarrow> stored v' = stored v \<and> (\<forall>conn. r = Ok (Some conn) \<longrightarrow> conn_laws stored conn)) \<and>
     (\<forall>v. stored (snd (clk v)) = stored v) \<and> (\<forall>v. stored (snd (pv_NewUUID env v)) = stored v) \<and> keeps stored (pv_RandomByte env)"

definition same_store :: "('b \<Rightarrow> op_db) \<Rightarrow> op_db \<Rightarrow> 'b \<Rightarrow> bool" where
  "same_store stored db v \<longleftrightarrow> stored v = db"

abbreviation tx_store :: "('b \<Rightarrow> op_db) \<Rightarrow> op_db \<Rightarrow> 'b tx_state \<Rightarrow> bool" where
  "tx_store stored db s \<equiv> same_store stored db (tx_world s)"

lemma keeps_pres: "keeps stored c \<Longrightarrow> preserves (same_store stored db) (call c)"
  by (auto simp: keeps_def preserves_def same_store_def call_def split: prod.split sum.split) (metis snd_conv)+

lemma pres_tx_call: "preserves (same_store stored db) m \<Longrightarrow> preserves (tx_store stored db) (tx_call m)"
  by (auto simp: preserves_def tx_call_def zoom_def split: prod.split)

lemma pres_statement:
  assumes "conn_laws stored conn"
  shows "preserves (tx_store stored db) (statement conn name f)"
proof -
  have "preserves (tx_store stored db) (\<lambda>s. case f (tx_db s) of (a, d) \<Rightarrow> (Ok a, s\<lparr>tx_db := d\<rparr>))"
    by (simp add: preserves_def split: prod.split)
  moreover have "preserves (tx_store stored db) (tx_call (call (pg_Exec conn name)))"
    using assms by (intro pres_tx_call keeps_pres) (simp add: conn_laws_def)
  ultimately show ?thesis unfolding statement_def by (intro preserves_bind)
qed

lemma pres_now: "(\<And>v. stored (snd (clk v)) = stored v) \<Longrightarrow> preserves (same_store stored db) (now_op clk)"
  by (auto simp: preserves_def now_op_def same_store_def split: prod.split) (metis snd_conv)

lemma pres_uuid:
  assumes "\<And>v. stored (snd (pv_NewUUID env v)) = stored v"
  shows "preserves (same_store stored db) (\<lambda>w. case pv_NewUUID env w of (u, w') \<Rightarrow> (Ok u, w'))"
proof -
  have "stored v' = stored w" if "pv_NewUUID env w = (u, v')" for u w v' using assms [of w] that by simp
  then show ?thesis by (auto simp: preserves_def same_store_def split: prod.split)
qed

lemma pres_random_loop:
  assumes "keeps stored rand"
  shows "preserves (same_store stored db) (random_loop rand fuel n out)"
proof (induction fuel arbitrary: n out)
  case 0
  then show ?case by (cases n) (simp_all only: random_loop.simps preserves_basic)
next
  case (Suc fuel)
  show ?case
  proof (cases n)
    case (Suc m)
    show ?thesis unfolding Suc random_loop_step using Suc.IH assms by (intro pres_rules keeps_pres) auto
  qed (simp only: random_loop.simps preserves_basic)
qed

lemma pres_randomTokenPart: "keeps stored (pv_RandomByte env) \<Longrightarrow> preserves (same_store stored db) (randomTokenPart env n)"
  unfolding randomTokenPart_def by (intro pres_rules pres_random_loop)

lemma pres_scan: "conn_laws stored conn \<Longrightarrow> preserves (tx_store stored db) (scan_organizations conn ids)"
proof (induction ids)
  case (Cons org ids)
  then show ?case unfolding scan_organizations.simps by (intro pres_rules pres_statement)
qed (simp only: scan_organizations.simps preserves_basic)

lemma pres_upsert: "conn_laws stored conn \<Longrightarrow> preserves (tx_store stored db) (upsert_loop conn now u ids)"
proof (induction ids)
  case (Cons org ids)
  then show ?case unfolding upsert_loop.simps by (intro pres_rules pres_statement)
qed (simp only: upsert_loop.simps preserves_basic)

lemma pres_ensure_body:
  assumes "conn_laws stored conn" "transactional env openDB clk stored"
  shows "preserves (tx_store stored db) (ensure_body env clk req conn)"
proof -
  have env: "\<And>v. stored (snd (pv_NewUUID env v)) = stored v" "keeps stored (pv_RandomByte env)" "\<And>v. stored (snd (clk v)) = stored v"
    using assms(2) by (auto simp: transactional_def)
  show ?thesis
    unfolding ensure_body_def ensureOperatorUser_def find_or_insert_user_def ensureOperatorMemberships_def
      ensureOperatorToken_def existingOperatorTokenStillValid_def rotateOperatorToken_def Let_def
    by (intro preserves_bind preserves_map_err preserves_guard preserves_if preserves_case_option preserves_case_prod
        pres_statement pres_scan pres_upsert preserves_basic assms pres_tx_call pres_now pres_uuid pres_randomTokenPart env)
qed

text \<open>Only a successful run changes the stored database, and it stores what the body computed from it.\<close>

lemma in_transaction_stored:
  assumes laws: "conn_laws stored conn" and pres: "\<And>db. preserves (tx_store stored db) body"
    and run: "in_transaction conn m1 m2 body v = (r, v')"
  shows "case r of Ok a \<Rightarrow> \<exists>s0 s1. tx_db s0 = stored v \<and> body s0 = (Ok a, s1) \<and> stored v' = tx_db s1
    | _ \<Rightarrow> stored v' = stored v"
proof -
  obtain x v1 where beg: "pg_Begin conn v = (x, v1)" by force
  have v1: "stored v1 = stored v" using laws beg unfolding conn_laws_def keeps_def by (metis snd_conv)
  show ?thesis
  proof (cases x)
    case (Inl e)
    with run beg v1 show ?thesis by (auto simp: in_transaction_def bind_def call_def map_err_def)
  next
    case (Inr db0)
    have db0: "db0 = stored v" using laws beg Inr unfolding conn_laws_def by blast
    let ?s = "\<lparr>tx_world = v1, tx_db = db0\<rparr>"
    obtain r1 s1 where b: "body ?s = (r1, s1)" by force
    have s1: "stored (tx_world s1) = stored v"
      using preservesD [OF pres [of "stored v"] _ b] v1 by (simp add: same_store_def)
    obtain y v2 where c: "pg_Commit conn (tx_db s1) (tx_world s1) = (y, v2)" by force
    have v2: "stored v2 = (case y of Inr _ \<Rightarrow> tx_db s1 | Inl _ \<Rightarrow> stored v)"
      using laws c s1 unfolding conn_laws_def by metis
    have rb: "stored (pg_Rollback conn z) = stored z" for z using laws unfolding conn_laws_def by blast
    have run': "(r, v') = (case r1 of Ok a \<Rightarrow> (case y of Inr _ \<Rightarrow> (Ok a, v2) | Inl err \<Rightarrow> (Err (WrapError m2 [] err), pg_Rollback conn v2))
        | Err e \<Rightarrow> (Err e, pg_Rollback conn (tx_world s1)) | Panic p \<Rightarrow> (Panic p, pg_Rollback conn (tx_world s1)))"
      using run beg Inr b c by (cases r1; cases y) (auto simp: in_transaction_def bind_def call_def map_err_def)
    show ?thesis
    proof (cases r1)
      case (Ok a)
      show ?thesis
      proof (cases y)
        case (Inr u)
        with Ok run' v2 have "r = Ok a" "tx_db ?s = stored v \<and> body ?s = (Ok a, s1) \<and> stored v' = tx_db s1"
          using b db0 by auto
        then show ?thesis by (simp only: res.case) blast
      qed (use Ok run' v2 rb in auto)
    qed (use run' s1 rb in auto)
  qed
qed

lemma with_database_stored:
  assumes tr: "transactional env openDB clk stored"
    and body: "\<And>conn v r v'. conn_laws stored conn \<Longrightarrow> body conn v = (r, v') \<Longrightarrow> P r (stored v) (stored v')"
    and fails: "\<And>e db. P (Err e) db db" "\<And>p db. P (Panic p) db db"
    and run: "with_database openDB url body w = (r, w')"
  shows "P r (stored w) (stored w')"
proof -
  obtain x v where op: "openDB url w = (x, v)" by force
  have v: "stored v = stored w" "\<And>conn. x = Ok (Some conn) \<Longrightarrow> conn_laws stored conn"
    using tr op unfolding transactional_def by blast+
  show ?thesis
  proof (cases "\<exists>conn. x = Ok (Some conn)")
    case False
    with run op v fails show ?thesis
      by (auto simp: with_database_def bind_def map_err_def non_nil_def split: res.splits option.splits)
  next
    case True
    then obtain conn where x: "x = Ok (Some conn)" by blast
    obtain y v1 where ping: "pg_Ping conn v = (y, v1)" by force
    have laws: "conn_laws stored conn" using v(2) x by blast
    have v1: "stored v1 = stored v" using laws ping unfolding conn_laws_def keeps_def by (metis snd_conv)
    obtain r2 v2 where b: "body conn v1 = (r2, v2)" by force
    have cl: "stored (pg_Close conn z) = stored z" for z using laws unfolding conn_laws_def by blast
    show ?thesis using run op x ping b body [OF laws b] v v1 cl fails
      by (cases y) (auto simp: with_database_def bind_def map_err_def non_nil_def deferred_def call_def)
  qed
qed

section \<open>The provisioner\<close>

lemma EnsureOperatorToken_stored:
  assumes "transactional env openDB clk stored"
    and "EnsureOperatorToken env (Some \<lparr>pp_openDB = Some openDB, pp_now = Some clk\<rparr>) ctx req w = (r, w')"
  shows "case r of Ok tok \<Rightarrow> \<exists>conn s0 s1. tx_db s0 = stored w \<and> ensure_body env clk req conn s0 = (Ok tok, s1) \<and> stored w' = tx_db s1
    | _ \<Rightarrow> stored w' = stored w"
proof -
  let ?P = "\<lambda>r db db'. case r of Ok tok \<Rightarrow> \<exists>conn s0 s1. tx_db s0 = db \<and> ensure_body env clk req conn s0 = (Ok tok, s1) \<and> db' = tx_db s1
    | _ \<Rightarrow> db' = db"
  have run: "?P r2 (stored v) (stored v')" if laws: "conn_laws stored conn"
      and r: "in_transaction conn m1 m2 (ensure_body env clk req conn) v = (r2, v')" for conn m1 m2 v r2 v'
  proof -
    have "preserves (tx_store stored db) (ensure_body env clk req conn)" for db
      using laws assms(1) by (rule pres_ensure_body)
    from in_transaction_stored [OF laws this r] show ?thesis by (cases r2) auto
  qed
  show ?thesis
  proof (cases "ctx = None \<or> ensure_validate req \<noteq> Ok ()")
    case True
    then show ?thesis using assms(2)
      by (cases ctx; cases "ensure_validate req") (auto simp: EnsureOperatorToken_def bind_def)
  next
    case False
    with assms(2) have "with_database openDB (eot_PostgresURL req) (\<lambda>conn.
       in_transaction conn ''begin operator access transaction: %w'' ''commit operator access transaction: %w''
         (ensure_body env clk req conn)) w = (r, w')"
      by (auto simp: EnsureOperatorToken_def bind_def)
    from with_database_stored [OF assms(1) _ _ _ this, of ?P] run show ?thesis by (cases r) auto
  qed
qed


lemma ensure_body_Ok:
  assumes "ensure_body env clk req conn s0 = (Ok tok, s1)" "0 < eot_TokenLifetime req"
  obtains now v v' uid where "clk v = (now, v')" "lookupOperatorUser (pv_lower env) (eot_OperatorUsername req) (tx_db s1) = Some uid"
    "token_valid uid (eot_TokenName req) now tok (tx_db s1)"
    "\<And>u. u \<in> set (db_users (tx_db s1)) \<Longrightarrow> u_id u = uid \<Longrightarrow> operator_user u"
    "\<And>org. org \<in> set (organization_ids (tx_db s0)) \<Longrightarrow> admin_of uid org (tx_db s1)"
    "filter (\<lambda>k. \<not> is_operator_key uid (eot_TokenName req) k) (db_keys (tx_db s1))
       = filter (\<lambda>k. \<not> is_operator_key uid (eot_TokenName req) k) (db_keys (tx_db s0))"
    "token_valid uid (eot_TokenName req) now (eot_ExistingToken req) (tx_db s0) \<Longrightarrow>
       tok = eot_ExistingToken req \<and> db_keys (tx_db s1) = db_keys (tx_db s0)"
proof -
  from assms(1) obtain now a uid b c where
    clk: "tx_call (now_op clk) s0 = (Ok now, a)" and user: "ensureOperatorUser env conn now req a = (Ok uid, b)"
    and mem: "ensureOperatorMemberships conn now uid b = (Ok (), c)" and tok: "ensureOperatorToken env conn now uid req c = (Ok tok, s1)"
    unfolding ensure_body_def by (elim okE) (rule that; simp)
  have a: "tx_db a = tx_db s0" using clk by (rule tx_call_Ok)
  have "\<exists>v'. clk (tx_world s0) = (now, v')"
    using clk by (cases "clk (tx_world s0)") (simp add: tx_call_def zoom_def now_op_def)
  then obtain v' where v': "clk (tx_world s0) = (now, v')" by blast
  note u = ensureOperatorUser_Ok [OF user] and m = ensureOperatorMemberships_Ok [OF mem] and t = ensureOperatorToken_Ok [OF tok assms(2)]
  show thesis
  proof (rule that [where uid = uid, OF v'])
    show "lookupOperatorUser (pv_lower env) (eot_OperatorUsername req) (tx_db s1) = Some uid"
      using u(2) m(2) t(2) by (simp add: lookupOperatorUser_def)
    show "token_valid uid (eot_TokenName req) now tok (tx_db s1)" by (rule t(1))
    show "x \<in> set (db_users (tx_db s1)) \<Longrightarrow> u_id x = uid \<Longrightarrow> operator_user x" for x using u(5) m(2) t(2) by simp
    show "org \<in> set (organization_ids (tx_db s0)) \<Longrightarrow> admin_of uid org (tx_db s1)" for org
    proof -
      assume "org \<in> set (organization_ids (tx_db s0))"
      then have "admin_of uid org (tx_db c)" using m(4) [of org] u(4) a by (simp add: organization_ids_def)
      then show ?thesis using t(3) unfolding admin_of_def by simp
    qed
    show "filter (\<lambda>k. \<not> is_operator_key uid (eot_TokenName req) k) (db_keys (tx_db s1))
       = filter (\<lambda>k. \<not> is_operator_key uid (eot_TokenName req) k) (db_keys (tx_db s0))"
      using t(4) m(1) u(3) a by simp
    assume "token_valid uid (eot_TokenName req) now (eot_ExistingToken req) (tx_db s0)"
    then have "token_valid uid (eot_TokenName req) now (eot_ExistingToken req) (tx_db c)"
      using token_valid_keys [of "tx_db c" "tx_db s0"] m(1) u(3) a by simp
    from ensureOperatorToken_stable [OF tok this] m(1) u(3) a
    show "tok = eot_ExistingToken req \<and> db_keys (tx_db s1) = db_keys (tx_db s0)" by simp
  qed
qed

lemma RevokeOperatorToken_stored:
  assumes tr: "transactional env openDB clk stored"
    and run: "RevokeOperatorToken env (Some \<lparr>pp_openDB = Some openDB, pp_now = now\<rparr>) ctx req w = (r, w')"
  shows "stored w' = (case r of Ok _ \<Rightarrow> deleteOperatorTokenByName (pv_lower env) (rot_OperatorUsername req) (rot_TokenName req) (stored w)
    | _ \<Rightarrow> stored w)"
proof -
  let ?d = "deleteOperatorTokenByName (pv_lower env) (rot_OperatorUsername req) (rot_TokenName req)"
  let ?P = "\<lambda>r db db'. db' = (case r of Ok _ \<Rightarrow> ?d db | _ \<Rightarrow> db)"
  have run': "?P r2 (stored v) (stored v')" if laws: "conn_laws stored conn"
      and r: "in_transaction conn m1 m2 (revokeOperatorToken env conn req) v = (r2, v')" for conn m1 m2 v r2 v'
  proof -
    have "preserves (tx_store stored db) (revokeOperatorToken env conn req)" for db
      unfolding revokeOperatorToken_def by (intro preserves_bind preserves_map_err preserves_basic pres_statement laws)
    note st = in_transaction_stored [OF laws this r]
    have "tx_db s1 = ?d (tx_db s0)" if "revokeOperatorToken env conn req s0 = (Ok u, s1)" for s0 s1 u
      using that unfolding revokeOperatorToken_def by (elim okE) (auto dest: exec_Ok)
    with st show ?thesis by (cases r2) auto
  qed
  show ?thesis
  proof (cases "ctx = None \<or> revoke_validate req \<noteq> Ok ()")
    case True
    then show ?thesis using run
      by (cases ctx; cases "revoke_validate req") (auto simp: RevokeOperatorToken_def bind_def split: res.splits)
  next
    case False
    with run have "with_database openDB (rot_PostgresURL req) (\<lambda>conn.
       in_transaction conn ''begin operator access revoke transaction: %w'' ''commit operator access revoke transaction: %w''
         (revokeOperatorToken env conn req)) w = (r, w')"
      by (auto simp: RevokeOperatorToken_def bind_def)
    from with_database_stored [OF tr _ _ _ this, of ?P] run' show ?thesis by simp
  qed
qed

section \<open>The contract with the control-plane controller\<close>

text \<open>A token the controller stores in a secret and gives back later: not empty, and not changed by trimming.\<close>

locale operator_provisioner =
  fixes prov :: "'b OperatorAccessProvisioner"
  assumes ensure_token: "oap_EnsureOperatorToken prov req w = (Ok tok, w') \<Longrightarrow> tok \<noteq> [] \<and> strings_TrimSpace tok = tok"

lemma deferred_eq_Ok: "deferred f m w = (Ok a, w') \<longleftrightarrow> (\<exists>v. m w = (Ok a, v) \<and> w' = f v)"
  by (auto simp: deferred_def split: prod.splits)

lemma in_transaction_Ok:
  assumes "in_transaction conn m1 m2 body v = (Ok a, v')"
  obtains s0 s1 where "body s0 = (Ok a, s1)"
proof -
  obtain x v1 where beg: "pg_Begin conn v = (x, v1)" by force
  with assms obtain db0 where x: "x = Inr db0" by (cases x) (auto simp: in_transaction_def bind_def call_def map_err_def)
  obtain r1 s1 where b: "body \<lparr>tx_world = v1, tx_db = db0\<rparr> = (r1, s1)" by force
  obtain y v2 where c: "pg_Commit conn (tx_db s1) (tx_world s1) = (y, v2)" by force
  have "r1 = Ok a" using assms beg x b c
    by (cases r1; cases y) (auto simp: in_transaction_def bind_def call_def map_err_def)
  with b that show thesis by blast
qed

interpretation pg_access: operator_provisioner "postgres_access env p" for env p
proof
  fix req w tok w'
  assume "oap_EnsureOperatorToken (postgres_access env p) req w = (Ok tok, w')"
  then have run: "EnsureOperatorToken env (Some p) (Some False) req w = (Ok tok, w')" by (simp add: postgres_access_def)
  then have valid: "0 < eot_TokenLifetime req"
    by (auto simp: EnsureOperatorToken_def bind_eq_Ok ensure_validate_def split: if_splits)
  from run obtain clk conn v v' where "in_transaction conn ''begin operator access transaction: %w''
      ''commit operator access transaction: %w'' (ensure_body env clk req conn) v = (Ok tok, v')"
    unfolding EnsureOperatorToken_def with_database_def
    by (auto simp: bind_eq_Ok map_err_eq_Ok non_nil_eq_Ok deferred_eq_Ok)
  then obtain s0 s1 where body: "ensure_body env clk req conn s0 = (Ok tok, s1)" by (rule in_transaction_Ok)
  then show "tok \<noteq> [] \<and> strings_TrimSpace tok = tok"
    by (rule ensure_body_Ok [OF _ valid]) (auto simp: token_valid_def dest: split_not_Nil)
qed

end
