(* ===== verification/Control_Plane_Correct.thy ===== *)
theory Control_Plane_Correct
  imports Control_Plane_Reconcile Operator_Transaction
begin

text \<open>
  Lemmas on the control-plane controller that its properties rest on: deletion of everything
  managed, objects of other controllers, the environment of the container, license uploads, the requeue interval of the
  entitlements, and what the controller gets from the operator-access provisioner.
\<close>

section \<open>Deletion of managed roles\<close>

text \<open>An object of the API is identified by its namespace and name; that is what a delete call carries.\<close>

definition object_key :: "KMeta \<Rightarrow> string \<times> string" where
  "object_key m = (m_Namespace m, m_Name m)"

lemma delete_managed_gone:
  assumes "delete_managed meta managed del what keep x v = (Ok u, v')" "managed x" "\<not> kept_key keep (meta x)"
    and "\<And>y v'. del x v = (y, v') \<Longrightarrow> (\<forall>e. y = Inl e \<longrightarrow> IsNotFound e) \<Longrightarrow> gone x v'"
  shows "gone x v'"
  using assms by (cases "del x v") (auto simp: delete_managed_def handle_def call_def split: sum.splits if_splits)

lemma for_each_gone:
  assumes "for_each f xs v = (Ok u, v')"
    and step: "\<And>x v u v'. x \<in> set xs \<Longrightarrow> f x v = (Ok u, v') \<Longrightarrow> P x \<Longrightarrow> gone x v'"
    and mono: "\<And>x y. preserves (gone y) (f x)"
  shows "\<forall>x\<in>set xs. P x \<longrightarrow> gone x v'"
  using assms(1) step
proof (induction xs arbitrary: v)
  case (Cons x xs)
  from Cons.prems(1) obtain a w where x: "f x v = (Ok a, w)" and rest: "for_each f xs w = (Ok u, v')"
    by (auto simp: bind_eq_Ok)
  have "gone x v'" if "P x"
  proof -
    have "preserves (gone x) (for_each f xs)" by (intro preserves_for_each mono)
    moreover have "gone x w" using Cons.prems(2) [OF _ x that] by simp
    ultimately show ?thesis using rest by (metis preservesD)
  qed
  moreover have "\<forall>y\<in>set xs. P y \<longrightarrow> gone y v'" using Cons.IH [OF rest] Cons.prems(2) by auto
  ultimately show ?case by simp
qed simp

lemma resolved_account: "strings_TrimSpace (m_Name (co_meta cp)) \<noteq> [] \<Longrightarrow>
  (if strings_TrimSpace (resolveServiceAccountName cp) = [] then m_Name (co_meta cp) else strings_TrimSpace (resolveServiceAccountName cp)) \<noteq> []"
  by auto

lemma lift_okE: "lift r w = (Ok a, w') \<Longrightarrow> (r = Ok a \<Longrightarrow> w' = w \<Longrightarrow> P) \<Longrightarrow> P"
  by (simp add: lift_def)

text \<open>A cleanup that returns has removed every managed role it listed and did not have to keep.\<close>

lemma cleanup_complete:
  assumes run: "cleanupManagedWorkspaceRBAC c cp kr kb v = (Ok u, v')"
    and list: "xc_ListRoles c (workspaceRBACLabels cp) v = (Inr roles, v1)"
    and del: "\<And>role v y v'. xc_DeleteRole c role v = (y, v') \<Longrightarrow> (\<forall>e. y = Inl e \<longrightarrow> IsNotFound e) \<Longrightarrow> gone role v'"
    and mono: "\<And>role role'. preserves (gone role) (call (xc_DeleteRole c role'))"
      "\<And>role rb. preserves (gone role) (call (xc_DeleteRoleBinding c rb))"
      "\<And>role l. preserves (gone role) (call (xc_ListRoleBindings c l))"
  obtains n where "\<And>role. role \<in> set roles \<Longrightarrow> isManagedWorkspaceRole role cp n \<Longrightarrow> \<not> kept_key kr (role_meta role) \<Longrightarrow> gone role v'"
    "workspaceRoleName cp (if strings_TrimSpace (resolveServiceAccountName cp) = [] then m_Name (co_meta cp)
       else strings_TrimSpace (resolveServiceAccountName cp)) = Ok n"
proof -
  let ?sa = "if strings_TrimSpace (resolveServiceAccountName cp) = [] then m_Name (co_meta cp) else strings_TrimSpace (resolveServiceAccountName cp)"
  from run obtain n m roles' a b bs d and z :: unit where n: "workspaceRoleName cp ?sa = Ok n"
    and l: "call (xc_ListRoles c (workspaceRBACLabels cp)) v = (Ok roles', a)"
    and f: "for_each (delete_managed role_meta (\<lambda>role. isManagedWorkspaceRole role cp n) (xc_DeleteRole c)
              ''delete managed workspace role %s/%s: %w'' kr) roles' a = (Ok z, b)"
    and lb: "call (xc_ListRoleBindings c (workspaceRBACLabels cp)) b = (Ok bs, d)"
    and fb: "for_each (delete_managed rb_meta (\<lambda>rb. isManagedWorkspaceRoleBinding rb cp n m ?sa) (xc_DeleteRoleBinding c)
              ''delete managed workspace role binding %s/%s: %w'' kb) bs d = (Ok u, v')"
    unfolding cleanupManagedWorkspaceRBAC_def Let_def by (elim okE lift_okE, hypsubst) (rule that)
  have roles: "roles' = roles" using l list by (simp add: call_def)
  let ?P = "\<lambda>role. isManagedWorkspaceRole role cp n \<and> \<not> kept_key kr (role_meta role)"
  have gone: "\<forall>role\<in>set roles. ?P role \<longrightarrow> gone role b"
    using f unfolding roles
  proof (rule for_each_gone)
    show "preserves (gone y) (delete_managed role_meta (\<lambda>role. isManagedWorkspaceRole role cp n) (xc_DeleteRole c)
              ''delete managed workspace role %s/%s: %w'' kr x)" for x y
      by (intro preserves_delete_managed mono)
  next
    fix x v u v'
    assume run: "delete_managed role_meta (\<lambda>role. isManagedWorkspaceRole role cp n) (xc_DeleteRole c)
              ''delete managed workspace role %s/%s: %w'' kr x v = (Ok u, v')" and P: "?P x"
    show "gone x v'" by (rule delete_managed_gone [OF run P [THEN conjunct1] P [THEN conjunct2] del])
  qed
  have all: "gone role v'" if "role \<in> set roles" "?P role" for role
  proof -
    have keep: "preserves (gone role) (for_each (delete_managed rb_meta (\<lambda>rb. isManagedWorkspaceRoleBinding rb cp n m ?sa)
            (xc_DeleteRoleBinding c) ''delete managed workspace role binding %s/%s: %w'' kb) bs)"
      by (intro preserves_for_each preserves_delete_managed mono)
    have "gone role b" by (rule gone [rule_format, OF that])
    then have "gone role d" by (rule preservesD [where w = b, OF mono(3) _ lb])
    then show ?thesis by (rule preservesD [where w = d, OF keep _ fb])
  qed
  show thesis by (rule that [OF _ n], rule all) simp_all
qed

section \<open>Objects of other controllers\<close>

lemmas cp_foreign_rules = cp_sa.foreign_untouched cp_svc.foreign_untouched cp_dep.foreign_untouched cp_ing.foreign_untouched
  cp_sec.foreign_untouched own_role.foreign_untouched own_rb.foreign_untouched

lemma passed_checks: "guard True e m = m" "(if True then a else b) = a" "(if False then a else b) = b" "(\<not> False) = True" "(\<not> True) = False"
  by (simp_all add: guard_def)

lemma bind_then_failed: "m w = (Ok a, v) \<Longrightarrow> \<exists>e. f a v = (Err e, w') \<Longrightarrow> \<exists>e. bind m f w = (Err e, w')"
  by (simp add: bind_def)

lemma deployment_foreign:
  assumes "inject = (case cs_EnvUseClusterAccessURL (co_Spec cp) of None \<Rightarrow> True | Some b \<Rightarrow> b)"
    and "(if inject then envFromDefinesEnvVar c apiReader (m_Namespace (co_meta cp)) (cs_EnvFrom (co_Spec cp)) ''CODER_ACCESS_URL''
          else ret False) w0 = (Ok via, w)"
    and "k_Get (cc_Deployments c) (m_Namespace (co_meta cp)) (m_Name (co_meta cp)) w = (Inr dep, w')"
    and "foreign_controlled ''CoderControlPlane'' (co_meta cp) (dep_meta dep)"
  shows "\<exists>e. cp_reconcileDeployment c apiReader cp w0 = (Err e, w')"
  unfolding cp_reconcileDeployment_def Let_def assms(1) [symmetric]
  by (rule bind_then_failed, rule assms(2), rule cp_dep.foreign_untouched [OF assms(3,4)]) simp_all

text \<open>The refusal of an HTTP route is not mistaken for a cluster without the Gateway API.\<close>

lemma SetControllerReference_no_match: "SetControllerReference kind owner m = Err e \<Longrightarrow> \<not> errors_Is e NoMatchError"
  by (auto simp: SetControllerReference_def validateOwner_def Let_def rbind_def split: if_splits option.splits)

lemma parent_refs_no_match: "parent_refs_loop i specs = Err e \<Longrightarrow> \<not> errors_Is e NoMatchError"
  by (induction specs arbitrary: i e)
     (auto simp: rbind_def trimmed_ref_def split: if_splits res.splits option.splits)

lemma cp_http_route_no_match: "cp_http_route cp gx h rt = Err e \<Longrightarrow> \<not> IsNoMatchError e"
  using parent_refs_no_match [of 0 "gx_ParentRefs gx"]
  by (auto simp: cp_http_route_def IsNoMatchError_def rbind_def rmap_err_def Let_def dest: SetControllerReference_no_match split: res.splits)

lemma http_route_foreign:
  assumes "k_Get (xc_HTTPRoutes c) (m_Namespace (co_meta cp)) (m_Name (co_meta cp)) w = (Inr rt, w')"
    and "foreign_controlled ''CoderControlPlane'' (co_meta cp) (hr_meta rt)"
    and "strings_TrimSpace (gx_Host gx) \<noteq> []" "gx_ParentRefs gx \<noteq> []"
  shows "\<exists>e. reconcileHTTPRoute c cp gx w = (Err e, w')"
proof -
  obtain e where e: "cp_http_route cp gx (strings_TrimSpace (gx_Host gx)) rt = Err e" using cp_route.desire_foreign [OF assms(2)] by blast
  then have "\<not> IsNoMatchError e" by (rule cp_http_route_no_match)
  with e assms show ?thesis
    by (simp add: reconcileHTTPRoute_def Let_def guard_def CreateOrUpdate_def handle_def call_run bind_def mutate_def)
qed

text \<open>A role in another namespace is taken over: its owner references are dropped.\<close>

lemma scoped_role_overwritten:
  assumes "k_Get (cc_Roles c) ns n w = (Inr role, w')" "m_Namespace (role_meta role) = ns" "m_Name (role_meta role) = n"
    and "ns \<noteq> m_Namespace (co_meta cp)"
  shows "\<exists>new. m_OwnerReferences (role_meta new) = [] \<and> role_Rules new = workspace_rules (cs_RBAC (co_Spec cp)) \<and>
    CreateOrUpdate role_meta (cc_Roles c) (new_Role n ns) (workspace_role cp uid ns) w =
      (if role = new then ret new else call (k_Update (cc_Roles c) new)) w'"
  using assms
  by (intro exI [of _ "role\<lparr>role_meta := (role_meta role)\<lparr>m_Labels := workspaceRBACLabels cp,
        m_Annotations := workspaceRBACAnnotations uid, m_OwnerReferences := []\<rparr>, role_Rules := workspace_rules (cs_RBAC (co_Spec cp))\<rparr>"])
     (auto simp: CreateOrUpdate_def Let_def handle_def call_run bind_def mutate_def workspace_role_def scoped_owner_def)

section \<open>Environment\<close>

definition named :: "string \<Rightarrow> EnvVar list \<Rightarrow> EnvVar list" where
  "named n es = filter (\<lambda>e. env_Name e = n) es"

lemma named_append [simp]: "named n (xs @ ys) = named n xs @ named n ys"
  by (simp add: named_def)

lemma named_fixed [simp]:
  "named ''CODER_ACCESS_URL'' base_env = []" "named ''CODER_ACCESS_URL'' (tls_env ss) = []"
  "named n [] = []" "named n [plain_env n v] = [plain_env n v]"
  by (simp_all add: named_def base_env_def tls_env_def plain_env_def)

lemma cp_deployment_env:
  assumes "cp_deployment cp inject via d = Ok d'"
  obtains con acc where "pod_Containers (dep_Template d') = [con]" "access_url_env cp inject via = Ok acc"
    "named ''CODER_ACCESS_URL'' (con_Env con) = named ''CODER_ACCESS_URL'' acc @ named ''CODER_ACCESS_URL'' (cs_ExtraEnv (co_Spec cp))"
proof -
  from assms obtain m acc ts certs where acc: "access_url_env cp inject via = Ok acc"
    and "d' = d\<lparr>dep_meta := m, dep_Replicas := Some (int_or 1 (cs_Replicas (co_Spec cp))),
            dep_Selector := controlPlaneLabels (m_Name (co_meta cp)), dep_Template := cp_template cp acc ts certs\<rparr>"
    by (auto simp: cp_deployment_def Let_def rbind_eq_Ok split: if_splits)
  then show thesis
    by (intro that [of "cp_container cp acc ts (snd certs)" acc]) (simp_all add: cp_template_def cp_container_def Let_def)
qed

section \<open>License and entitlements\<close>

lemma license_condition_run:
  assumes "strings_TrimSpace reason \<noteq> []"
  shows "\<exists>s' w'. license_condition clk cp s st reason m q w = (Ok (s', q), w') \<and>
    ct_LicenseLastAppliedHash s' = ct_LicenseLastAppliedHash s \<and> ct_LicenseLastApplied s' = ct_LicenseLastApplied s"
proof -
  obtain t w' where t: "clk w = (t, w')" by force
  have ty: "strings_TrimSpace CoderControlPlaneConditionLicenseApplied \<noteq> []"
    by (subst TrimSpace_plain) (simp_all add: CoderControlPlaneConditionLicenseApplied_def plain_def byte_def)
  from assms ty t show ?thesis
    by (simp add: license_condition_def setControlPlaneCondition_def guard_def bind_def now_op_def)
qed

lemma reason_not_blank [simp]: "strings_TrimSpace licenseConditionReasonApplied \<noteq> []"
  by (subst TrimSpace_plain) (simp_all add: licenseConditionReasonApplied_def plain_def byte_def)

text \<open>A successful upload records the hash; a deployment that has a license is then left alone.\<close>

lemma upload_recorded:
  assumes "lu_AddLicense u url tok jwt w = (Ok (), v)"
  shows "\<exists>s' w'. upload_license clk u cp s url tok jwt h w = (Ok (s', 0), w') \<and>
    ct_LicenseLastAppliedHash s' = h \<and> ct_LicenseLastApplied s' \<noteq> None"
proof -
  obtain t v1 where t: "clk v = (t, v1)" by force
  then have "upload_license clk u cp s url tok jwt h w = license_condition clk cp (license_applied t h s) ''True''
      licenseConditionReasonApplied ''Configured license uploaded successfully.'' 0 v1"
    using assms by (simp add: upload_license_def handle_def bind_def now_op_def)
  moreover obtain s' w' where "license_condition clk cp (license_applied t h s) ''True'' licenseConditionReasonApplied
      ''Configured license uploaded successfully.'' 0 v1 = (Ok (s', 0), w')"
    "ct_LicenseLastAppliedHash s' = h" "ct_LicenseLastApplied s' = Some t"
    using license_condition_run [OF reason_not_blank, of clk cp "license_applied t h s" "''True''"
        "''Configured license uploaded successfully.''" 0 v1] by (auto simp: license_applied_def)
  ultimately show ?thesis by auto
qed

lemma duplicate_recorded:
  assumes "lu_AddLicense u url tok jwt w = (Err e, v)" "isDuplicateLicenseUploadError e"
  shows "\<exists>s' w'. upload_license clk u cp s url tok jwt h w = (Ok (s', 0), w') \<and>
    ct_LicenseLastAppliedHash s' = h \<and> ct_LicenseLastApplied s' \<noteq> None"
proof -
  obtain t v1 where t: "clk v = (t, v1)" by force
  then have "upload_license clk u cp s url tok jwt h w = license_condition clk cp (license_applied t h s) ''True''
      licenseConditionReasonApplied ''Configured license already exists in coderd.'' 0 v1"
    using assms by (simp add: upload_license_def handle_def bind_def now_op_def)
  then show ?thesis
    using license_condition_run [OF reason_not_blank, of clk cp "license_applied t h s" "''True''"
        "''Configured license already exists in coderd.''" 0 v1] by (auto simp: license_applied_def)
qed

lemma license_settled:
  assumes "jwt \<noteq> []" "ct_LicenseLastApplied s \<noteq> None" "ct_LicenseLastAppliedHash s = hex_EncodeToString (sha256_Sum256 jwt)"
    and "lu_HasAnyLicense u url tok w = (Ok True, v)"
  shows "\<exists>s' w'. apply_license clk u cp s url tok jwt w = (Ok (s', 0), w') \<and>
    ct_LicenseLastAppliedHash s' = ct_LicenseLastAppliedHash s \<and> ct_LicenseLastApplied s' = ct_LicenseLastApplied s"
proof -
  have "apply_license clk u cp s url tok jwt w = license_condition clk cp s ''True'' licenseConditionReasonApplied
      ''Configured license is already applied.'' 0 v"
    using assms by (simp add: apply_license_def hashLicenseJWT_def handle_def bind_def)
  then show ?thesis
    using license_condition_run [OF reason_not_blank, of clk cp s "''True''" "''Configured license is already applied.''" 0 v] by simp
qed

lemma record_entitlements_requeue:
  assumes "record_entitlements clk e s w = (Ok (s', q), w')"
  shows "0 < q \<and> q \<le> entitlementsStatusRefreshInterval \<and> ct_EntitlementsLastChecked s' \<noteq> None"
  using assms unfolding record_entitlements_def Let_def time_Since_def
  by (elim okE; cases "ct_EntitlementsLastChecked s")
     (auto simp: bind_eq_Ok entitlementsStatusRefreshInterval_def time_Minute_def time_Second_def split: if_splits option.splits)

section \<open>The controller and the operator-access provisioner\<close>

context operator_provisioner
begin

text \<open>With a provisioner that keeps its contract, operator access fails only where the secret cannot be written.\<close>

lemma ensure_access_error:
  assumes "ensure_access c prov cp s secretName existing w = (Err err, w')"
  shows "\<exists>tok v. tok \<noteq> [] \<and> strings_TrimSpace tok = tok \<and>
    ensureOperatorTokenSecret c cp secretName DefaultTokenSecretKey tok v = (Err err, w')"
proof -
  obtain r1 v1 where r1: "resolvePostgresURLFromExtraEnv c cp w = (r1, v1)" by force
  with assms obtain url where url: "r1 = Ok url" by (cases r1) (auto simp: ensure_access_def handle_def)
  define req where "req = \<lparr>eot_PostgresURL = url, eot_OperatorUsername = defaultOperatorAccessUsername,
       eot_OperatorEmail = defaultOperatorAccessEmail, eot_TokenName = operatorAccessDatabaseTokenName cp,
       eot_TokenLifetime = defaultOperatorAccessTokenLifetime, eot_ExistingToken = existing\<rparr>"
  obtain r2 v2 where r2: "oap_EnsureOperatorToken prov req v1 = (r2, v2)" by force
  with assms r1 url obtain tok where tok: "r2 = Ok tok"
    by (cases r2) (auto simp: ensure_access_def handle_def req_def [symmetric])
  have t: "tok \<noteq> []" "strings_TrimSpace tok = tok" using ensure_token r2 tok by blast+
  obtain r3 v3 where r3: "ensureOperatorTokenSecret c cp secretName DefaultTokenSecretKey tok v2 = (r3, v3)" by force
  with assms r1 url r2 tok t(1) have "r3 = Err err" "v3 = w'"
    by (cases r3; auto simp: ensure_access_def handle_def req_def [symmetric] bind_def)+
  with r3 t show ?thesis by blast
qed

end

end
