(* ===== verification/Demo_Control_Plane.thy ===== *)
theory Demo_Control_Plane
  imports Control_Plane_Correct Demo_Cluster
begin

text \<open>
  Concrete services for evaluating the control-plane controller and the operator-access
  provisioner: a cluster with one control plane, a Coder deployment with licenses, and a
  database with a source of random bytes. The witnesses of the properties run on them; no
  property assumes anything about them.
\<close>

section \<open>A control plane\<close>

definition zero_probe :: ProbeSpec where
  "zero_probe = \<lparr>prs_Enabled = None, prs_InitialDelaySeconds = 0, prs_PeriodSeconds = None, prs_TimeoutSeconds = None,
     prs_SuccessThreshold = None, prs_FailureThreshold = None\<rparr>"

definition zero_plane_spec :: ControlPlaneSpec where
  "zero_plane_spec =
     \<lparr>cs_Image = [], cs_Replicas = None, cs_Service = \<lparr>ss_Type = [], ss_Port = 0, ss_Annotations = []\<rparr>, cs_ExtraArgs = [], cs_ExtraEnv = [],
      cs_ImagePullSecrets = [], cs_OperatorAccess = \<lparr>oas_Disabled = False, oas_GeneratedTokenSecretName = []\<rparr>, cs_LicenseSecretRef = None,
      cs_ServiceAccount = \<lparr>sas_DisableCreate = False, sas_Name = [], sas_Annotations = [], sas_Labels = []\<rparr>,
      cs_RBAC = \<lparr>rbs_WorkspacePerms = None, rbs_EnableDeployments = None, rbs_ExtraRules = [], rbs_WorkspaceNamespaces = []\<rparr>,
      cs_Resources = None, cs_SecurityContext = None, cs_PodSecurityContext = None, cs_TLS_SecretNames = [],
      cs_ReadinessProbe = zero_probe, cs_LivenessProbe = zero_probe, cs_EnvUseClusterAccessURL = None, cs_Expose = None, cs_EnvFrom = [],
      cs_Volumes = [], cs_VolumeMounts = [], cs_Certs_Secrets = [], cs_NodeSelector = [], cs_Tolerations = [], cs_Affinity = None,
      cs_TopologySpreadConstraints = []\<rparr>"

definition zero_plane_status :: ControlPlaneStatus where
  "zero_plane_status =
     \<lparr>ct_ObservedGeneration = 0, ct_ReadyReplicas = 0, ct_URL = [], ct_OperatorTokenSecretRef = None, ct_OperatorAccessReady = False,
      ct_LicenseLastApplied = None, ct_LicenseLastAppliedHash = [], ct_LicenseTier = [], ct_EntitlementsLastChecked = None,
      ct_ExternalProvisionerDaemonsEntitlement = [], ct_Phase = [], ct_Conditions = []\<rparr>"

definition dp_plane :: ControlPlaneObject where
  "dp_plane = \<lparr>co_meta = (new_meta ''main'' ''coder'')\<lparr>m_UID := ''u1'', m_Generation := 1, m_ResourceVersion := ''7''\<rparr>,
     co_Spec = zero_plane_spec, co_Status = zero_plane_status\<rparr>"

section \<open>A cluster that holds one control plane and some roles\<close>

record plane_world =
  dp_Plane :: ControlPlaneObject
  dp_Roles :: "Role list"
  dp_Licenses :: "string list"

definition dp_unused :: "('b, 'o) kind_api" where
  "dp_unused = \<lparr>k_Get = (\<lambda>_ _ w. (Inl missing, w)), k_Create = (\<lambda>x w. (Inr x, w)), k_Update = (\<lambda>x w. (Inr x, w)),
     k_StatusUpdate = (\<lambda>x w. (Inr x, w))\<rparr>"

text \<open>A status update is accepted for the stored version only; it gives the object a new version.\<close>

definition dp_status_update :: "ControlPlaneObject \<Rightarrow> (plane_world, ControlPlaneObject) call" where
  "dp_status_update obj w =
     (if m_ResourceVersion (co_meta obj) = m_ResourceVersion (co_meta (dp_Plane w))
      then (Inr obj, w\<lparr>dp_Plane := obj\<lparr>co_meta := (co_meta obj)\<lparr>m_ResourceVersion := CHR ''1'' # m_ResourceVersion (co_meta obj)\<rparr>\<rparr>\<rparr>)
      else (Inl (StatusError (NewConflict \<lparr>gr_group = [], gr_resource = []\<rparr> [] (ErrorString (Lit ''conflict'')))), w))"

definition dp_delete_role :: "Role \<Rightarrow> (plane_world, unit) call" where
  "dp_delete_role role w =
     (Inr (), w\<lparr>dp_Roles := filter (\<lambda>r. object_key (role_meta r) \<noteq> object_key (role_meta role)) (dp_Roles w)\<rparr>)"

text \<open>The role stored under a namespace and name.\<close>

definition dp_stored :: "plane_world \<Rightarrow> string \<times> string \<Rightarrow> Role option" where
  "dp_stored w k = find (\<lambda>r. object_key (role_meta r) = k) (dp_Roles w)"

definition dp_client :: "plane_world cp_client" where
  "dp_client = core_client.extend
     \<lparr>cc_Deployments = dp_unused, cc_Services = dp_unused, cc_Secrets = dp_unused, cc_ServiceAccounts = dp_unused,
      cc_Roles = dp_unused, cc_RoleBindings = dp_unused\<rparr>
     \<lparr>xc_ControlPlanes = dp_unused\<lparr>k_Get := (\<lambda>_ _ w. (Inr (dp_Plane w), w)), k_StatusUpdate := dp_status_update\<rparr>,
      xc_Ingresses = dp_unused, xc_HTTPRoutes = dp_unused, xc_GetConfigMap = (\<lambda>_ _ w. (Inl missing, w)),
      xc_PatchControlPlane = (\<lambda>_ x w. (Inr x, w\<lparr>dp_Plane := x\<rparr>)), xc_PatchServiceAccount = (\<lambda>_ x w. (Inr x, w)),
      xc_ListServiceAccounts = (\<lambda>_ w. (Inr [], w)), xc_ListRoles = (\<lambda>_ w. (Inr (dp_Roles w), w)),
      xc_ListRoleBindings = (\<lambda>_ w. (Inr [], w)), xc_ListControlPlanes = (\<lambda>_ _ _ w. (Inr [dp_Plane w], w)),
      xc_DeleteRole = dp_delete_role, xc_DeleteRoleBinding = (\<lambda>_ w. (Inr (), w)), xc_DeleteSecret = (\<lambda>_ w. (Inr (), w)),
      xc_DeleteIngress = (\<lambda>_ w. (Inr (), w)), xc_DeleteHTTPRoute = (\<lambda>_ w. (Inr (), w))\<rparr>"

definition dp_world :: plane_world where
  "dp_world = \<lparr>dp_Plane = dp_plane, dp_Roles = [], dp_Licenses = []\<rparr>"

lemma dp_client_simps [simp]:
  "xc_ControlPlanes dp_client = dp_unused\<lparr>k_Get := (\<lambda>_ _ w. (Inr (dp_Plane w), w)), k_StatusUpdate := dp_status_update\<rparr>"
  "xc_ListRoles dp_client = (\<lambda>_ w. (Inr (dp_Roles w), w))" "xc_ListRoleBindings dp_client = (\<lambda>_ w. (Inr [], w))"
  "xc_DeleteRole dp_client = dp_delete_role" "xc_DeleteRoleBinding dp_client = (\<lambda>_ w. (Inr (), w))"
  "xc_PatchControlPlane dp_client = (\<lambda>_ x w. (Inr x, w\<lparr>dp_Plane := x\<rparr>))"
  by (simp_all add: dp_client_def core_client.defs)

lemma dp_stored_delete: "k \<noteq> object_key (role_meta x) \<Longrightarrow> dp_stored (snd (dp_delete_role x v)) k = dp_stored v k"
proof -
  assume k: "k \<noteq> object_key (role_meta x)"
  have "find (\<lambda>r. object_key (role_meta r) = k) (filter (\<lambda>r. object_key (role_meta r) \<noteq> object_key (role_meta x)) rs) =
      find (\<lambda>r. object_key (role_meta r) = k) rs" for rs using k by (induction rs) auto
  then show ?thesis by (simp add: dp_stored_def dp_delete_role_def)
qed

lemma dp_versioned: "versioned_status dp_client None ns name dp_Plane"
  by (auto simp: versioned_status_def reader_of_def client_reader_def dp_unused_def dp_status_update_def split: if_splits)

text \<open>The licenses API of the deployment.\<close>

definition dp_licenses :: "plane_world license_env" where
  "dp_licenses = \<lparr>le_url_Parse = Inr, le_DefaultTransport = True,
     le_AddLicense = (\<lambda>_ jwt w. (Inr (), w\<lparr>dp_Licenses := jwt # dp_Licenses w\<rparr>)),
     le_Licenses = (\<lambda>_ w. (Inr (dp_Licenses w), w)),
     le_Entitlements = (\<lambda>_ w. (Inr \<lparr>ent_Features = Some [], ent_HasLicense = dp_Licenses w \<noteq> [], ent_Trial = False\<rparr>, w))\<rparr>"

definition dp_clock :: "'b clock" where
  "dp_clock w = (500, w)"

section \<open>A database\<close>

record op_world =
  ow_Db :: op_db
  ow_Bytes :: "nat list"

definition ow_conn :: "op_world pg_conn" where
  "ow_conn = \<lparr>pg_Ping = (\<lambda>w. (Inr (), w)), pg_Begin = (\<lambda>w. (Inr (ow_Db w), w)), pg_Exec = (\<lambda>_ w. (Inr (), w)),
     pg_Commit = (\<lambda>db w. (Inr (), w\<lparr>ow_Db := db\<rparr>)), pg_Rollback = (\<lambda>w. w), pg_Close = (\<lambda>w. w)\<rparr>"

definition ow_random :: "(op_world, nat) call" where
  "ow_random w = (case ow_Bytes w of [] \<Rightarrow> (Inl (ErrorString (Lit ''no entropy'')), w) | b # bs \<Rightarrow> (Inr b, w\<lparr>ow_Bytes := bs\<rparr>))"

definition ow_env :: "op_world pg_env" where
  "ow_env = \<lparr>pv_lower = (\<lambda>s. s), pv_NewUUID = (\<lambda>w. (9, w)), pv_RandomByte = ow_random, pv_Fuel = 40\<rparr>"

definition ow_open :: "string \<Rightarrow> (op_world, op_world pg_conn option) op" where
  "ow_open = openPostgresDatabase (\<lambda>_ w. (Inr (Some ow_conn), w))"

definition ow_start :: op_world where
  "ow_start = \<lparr>ow_Db = \<lparr>db_users = [], db_organizations = [(4, False)], db_members = [], db_keys = []\<rparr>, ow_Bytes = replicate 35 61\<rparr>"

definition ow_request :: "string \<Rightarrow> EnsureOperatorTokenRequest" where
  "ow_request existing = \<lparr>eot_PostgresURL = ''postgres'', eot_OperatorUsername = ''op'', eot_OperatorEmail = ''op@x'',
     eot_TokenName = ''tok'', eot_TokenLifetime = defaultOperatorAccessTokenLifetime, eot_ExistingToken = existing\<rparr>"

lemma ow_conn_laws: "conn_laws ow_Db ow_conn"
  by (auto simp: conn_laws_def keeps_def ow_conn_def)

lemma ow_transactional: "transactional ow_env ow_open dp_clock ow_Db"
  using ow_conn_laws
  by (auto simp: transactional_def ow_open_def openPostgresDatabase_def ow_env_def ow_random_def keeps_def dp_clock_def
      guard_def bind_def map_err_def call_def split: list.split if_splits)

end
