(* ===== verification/Control_Plane_Properties.thy ===== *)
theory Control_Plane_Properties
  imports Demo_Control_Plane
begin

text \<open>
  Properties of the control-plane controller: the status under concurrent writers, managed
  roles, names, ports and environment, licenses, deletion, objects of other controllers.
\<close>

section \<open>Status\<close>

definition disjoint_changes :: "ControlPlaneStatus \<Rightarrow> ControlPlaneStatus \<Rightarrow> ControlPlaneStatus \<Rightarrow> bool" where
  "disjoint_changes base s t \<longleftrightarrow>
     (ct_ObservedGeneration base = ct_ObservedGeneration s \<or> ct_ObservedGeneration base = ct_ObservedGeneration t) \<and>
     (ct_ReadyReplicas base = ct_ReadyReplicas s \<or> ct_ReadyReplicas base = ct_ReadyReplicas t) \<and>
     (ct_URL base = ct_URL s \<or> ct_URL base = ct_URL t) \<and>
     (ct_OperatorTokenSecretRef base = ct_OperatorTokenSecretRef s \<or> ct_OperatorTokenSecretRef base = ct_OperatorTokenSecretRef t) \<and>
     (ct_OperatorAccessReady base = ct_OperatorAccessReady s \<or> ct_OperatorAccessReady base = ct_OperatorAccessReady t) \<and>
     (ct_LicenseLastApplied base = ct_LicenseLastApplied s \<or> ct_LicenseLastApplied base = ct_LicenseLastApplied t) \<and>
     (ct_LicenseLastAppliedHash base = ct_LicenseLastAppliedHash s \<or> ct_LicenseLastAppliedHash base = ct_LicenseLastAppliedHash t) \<and>
     (ct_LicenseTier base = ct_LicenseTier s \<or> ct_LicenseTier base = ct_LicenseTier t) \<and>
     (ct_EntitlementsLastChecked base = ct_EntitlementsLastChecked s \<or> ct_EntitlementsLastChecked base = ct_EntitlementsLastChecked t) \<and>
     (ct_ExternalProvisionerDaemonsEntitlement base = ct_ExternalProvisionerDaemonsEntitlement s \<or>
        ct_ExternalProvisionerDaemonsEntitlement base = ct_ExternalProvisionerDaemonsEntitlement t) \<and>
     (ct_Phase base = ct_Phase s \<or> ct_Phase base = ct_Phase t) \<and>
     (ct_Conditions base = ct_Conditions s \<or> ct_Conditions base = ct_Conditions t)"

text \<open>
  C3: The status write of the control-plane controller loses no update. Against an API server
  that accepts a status update only for the stored version, and with reads that may be stale,
  reconcileStatus leaves the stored object as it is, or leaves in it the three-way merge of its
  own changes into the status that was stored, and then only when the stored generation is the
  one the status was computed for (if that is recorded, as an observed generation above 0).
\<close>

theorem status_no_lost_update:
  assumes "versioned_status c apiReader (m_Namespace (co_meta cp)) (m_Name (co_meta cp)) stored"
    and "reconcileStatus c apiReader cp base new w = (r, w')"
  shows "stored w' = stored w \<or>
     co_Status (stored w') = mergeControlPlaneStatusDelta base new (co_Status (stored w)) \<and>
     (ct_ObservedGeneration new > 0 \<longrightarrow> m_Generation (co_meta (stored w)) = ct_ObservedGeneration new)"
proof (cases "base = new \<or> strings_TrimSpace (m_Name (co_meta cp)) = [] \<or> strings_TrimSpace (m_Namespace (co_meta cp)) = []")
  case True
  then show ?thesis using assms(2) by (auto simp: reconcileStatus_def guard_def split: if_splits)
next
  case False
  let ?loop = "retry_loop 5 None (co_Status cp) (status_attempt c apiReader cp base new)"
  obtain x where "?loop w = (x, w')"
    using assms(2) False by (cases "?loop w") (auto simp: reconcileStatus_def guard_def RetryOnConflict_def map_err_def split: res.splits)
  then show ?thesis by (rule retry_stored [OF assms(1) _ refl refl])
qed

definition dp_ready :: ControlPlaneStatus where
  "dp_ready = zero_plane_status\<lparr>ct_ObservedGeneration := 1, ct_Phase := CoderControlPlanePhaseReady\<rparr>"

theorem status_no_lost_update_witness:
  "versioned_status dp_client None ''coder'' ''main'' dp_Plane \<and>
   (let w' = snd (reconcileStatus dp_client None dp_plane zero_plane_status dp_ready dp_world) in
    dp_Plane w' = dp_Plane dp_world \<or>
    co_Status (dp_Plane w') = mergeControlPlaneStatusDelta zero_plane_status dp_ready (co_Status (dp_Plane dp_world)) \<and>
    (\<not> ct_ObservedGeneration dp_ready > 0 \<or> m_Generation (co_meta (dp_Plane dp_world)) = ct_ObservedGeneration dp_ready))"
proof -
  have ns: "m_Namespace (co_meta dp_plane) = ''coder''" "m_Name (co_meta dp_plane) = ''main''"
    by (simp_all add: dp_plane_def new_meta_def)
  show ?thesis
    using dp_versioned [of "''coder''" "''main''"] status_no_lost_update [of dp_client None dp_plane dp_Plane zero_plane_status dp_ready dp_world] ns
    by (cases "reconcileStatus dp_client None dp_plane zero_plane_status dp_ready dp_world") (auto simp: Let_def)
qed

text \<open>
  A status computed for the stored generation is written. When the read returns the stored
  object, its generation is the observed one and the server accepts an update of the stored
  version, reconcileStatus returns the merged status and the server holds it.
\<close>

lemma status_written:
  assumes "versioned_status c apiReader (m_Namespace (co_meta cp)) (m_Name (co_meta cp)) stored"
    and "base \<noteq> new" "strings_TrimSpace (m_Name (co_meta cp)) \<noteq> []" "strings_TrimSpace (m_Namespace (co_meta cp)) \<noteq> []"
    and "rd_GetControlPlane (reader_of c apiReader) (m_Namespace (co_meta cp)) (m_Name (co_meta cp)) w = (Inr (stored w), v)"
    and "m_Name (co_meta (stored w)) = m_Name (co_meta cp)" "m_Namespace (co_meta (stored w)) = m_Namespace (co_meta cp)"
    and "m_Generation (co_meta (stored w)) = ct_ObservedGeneration new"
    and "\<And>obj v. m_ResourceVersion (co_meta obj) = m_ResourceVersion (co_meta (stored v)) \<Longrightarrow>
      \<exists>z v'. k_StatusUpdate (xc_ControlPlanes c) obj v = (Inr z, v')"
  shows "\<exists>w'. reconcileStatus c apiReader cp base new w = (Ok (mergeControlPlaneStatusDelta base new (co_Status (stored w))), w') \<and>
    co_Status (stored w') = mergeControlPlaneStatusDelta base new (co_Status (stored w))"
proof -
  let ?m = "mergeControlPlaneStatusDelta base new (co_Status (stored w))"
  have v: "stored v = stored w" by (rule versioned_statusD(1) [OF assms(1,5)])
  let ?o = "(stored w)\<lparr>co_Status := ?m\<rparr>"
  obtain z v' where upd: "k_StatusUpdate (xc_ControlPlanes c) ?o v = (Inr z, v')" using assms(9) [of ?o v] v by auto
  have v': "co_Status (stored v') = ?m" using versioned_statusD(3) [OF assms(1) upd] by simp
  have attempt: "status_attempt c apiReader cp base new w = (if co_Status (stored w) = ?m then (Ok ?m, v) else (Ok ?m, v'))"
    using assms(5-8) upd by (simp add: status_attempt_def Let_def bind_def call_def guard_def)
  then have "reconcileStatus c apiReader cp base new w = (if co_Status (stored w) = ?m then (Ok ?m, v) else (Ok ?m, v'))"
    using assms(2-4) by (simp add: reconcileStatus_def guard_def RetryOnConflict_def eval_nat_numeral handle_def map_err_def)
  then show ?thesis using v v' by (cases "co_Status (stored w) = ?m") auto
qed

text \<open>
  C17: Writers that start from the same status and change different fields do not depend on the
  order in which they are merged: mergeControlPlaneStatusDelta commutes.
\<close>

theorem status_merge_commutes:
  assumes "disjoint_changes base s t"
  shows "mergeControlPlaneStatusDelta base t (mergeControlPlaneStatusDelta base s latest) =
     mergeControlPlaneStatusDelta base s (mergeControlPlaneStatusDelta base t latest)"
  using assms unfolding disjoint_changes_def
  by (intro status_eqI f_gen.independent f_ready.independent f_url.independent f_ref.independent f_acc.independent f_lic.independent
      f_hash.independent f_tier.independent f_ent.independent f_ext.independent f_phase.independent f_cond.independent) simp_all

theorem status_merge_commutes_witness:
  "let s = zero_plane_status\<lparr>ct_URL := ''http://c''\<rparr>; t = zero_plane_status\<lparr>ct_LicenseTier := ''trial''\<rparr> in
   disjoint_changes zero_plane_status s t \<and>
   mergeControlPlaneStatusDelta zero_plane_status t (mergeControlPlaneStatusDelta zero_plane_status s dp_ready) =
   mergeControlPlaneStatusDelta zero_plane_status s (mergeControlPlaneStatusDelta zero_plane_status t dp_ready)"
  using status_merge_commutes [of zero_plane_status "zero_plane_status\<lparr>ct_URL := ''http://c''\<rparr>"
      "zero_plane_status\<lparr>ct_LicenseTier := ''trial''\<rparr>" dp_ready]
  by (simp add: Let_def disjoint_changes_def)

text \<open>
  C18: A status update that is interrupted is reported as a success. When the read of the
  current object fails because the context was cancelled or timed out, and no conflict was seen
  before, reconcileStatus returns without an error and nothing has been written:
  RetryOnConflict replaces the interruption by the last conflict, of which there is none.
\<close>

theorem status_update_interrupted:
  assumes "base \<noteq> new" "strings_TrimSpace (m_Name (co_meta cp)) \<noteq> []" "strings_TrimSpace (m_Namespace (co_meta cp)) \<noteq> []"
    and "rd_GetControlPlane (reader_of c apiReader) (m_Namespace (co_meta cp)) (m_Name (co_meta cp)) w = (Inl err, w')"
    and "Interrupted err" "\<not> IsConflict err"
  shows "reconcileStatus c apiReader cp base new w = (Ok (co_Status cp), w')"
  using assms by (simp add: reconcileStatus_def guard_def RetryOnConflict_def eval_nat_numeral handle_def map_err_def
      status_attempt_def Let_def bind_def call_def)

definition dp_canceled :: "plane_world api_reader" where
  "dp_canceled = (client_reader dp_client)\<lparr>rd_GetControlPlane := (\<lambda>_ _ w. (Inl (WrapError ''Get: %w'' [] ContextCanceled), w))\<rparr>"

theorem status_update_interrupted_witness:
  "reconcileStatus dp_client (Some dp_canceled) dp_plane zero_plane_status dp_ready dp_world = (Ok zero_plane_status, dp_world)"
proof -
  have "zero_plane_status \<noteq> dp_ready" by (simp add: dp_ready_def zero_plane_status_def)
  moreover have "strings_TrimSpace (m_Name (co_meta dp_plane)) \<noteq> []" "strings_TrimSpace (m_Namespace (co_meta dp_plane)) \<noteq> []"
    by code_simp+
  moreover have "Interrupted (WrapError ''Get: %w'' [] ContextCanceled)" "\<not> IsConflict (WrapError ''Get: %w'' [] ContextCanceled)"
    by (simp_all add: Interrupted_def IsConflict_def)
  ultimately show ?thesis
    using status_update_interrupted [of zero_plane_status dp_ready dp_plane dp_client "Some dp_canceled" dp_world
        "WrapError ''Get: %w'' [] ContextCanceled" dp_world]
    by (simp add: reader_of_def dp_canceled_def) (simp add: dp_plane_def)
qed

section \<open>Names, ports, environment\<close>

text \<open>
  C19: Which names derived for a control plane are valid. For a control plane and a service
  account whose names are DNS subdomains (the syntax of object names), the workspace role and
  role binding names exist and are DNS subdomains, also where they are cut to the limit; the
  volume of any TLS or certificate secret is named by a DNS label. The generated name of the
  token secret has at most 63 characters and is a DNS subdomain exactly when the cut does not
  fall behind a dot: a name of more than 48 characters with a dot as its 39th gives an invalid
  secret name, because the cut is not trimmed.
\<close>

theorem control_plane_names_valid:
  assumes "dns_subdomain (m_Name (co_meta cp))" "strings_TrimSpace (m_Namespace (co_meta cp)) \<noteq> []"
    and "dns_subdomain (strings_TrimSpace sa)"
  shows "(\<exists>roleName bindingName. workspaceRoleName cp sa = Ok roleName \<and> dns_subdomain roleName \<and>
            workspaceRoleBindingName cp sa = Ok bindingName \<and> dns_subdomain bindingName) \<and>
     dns_label (volumeNameForSecret ''tls'' secretName) \<and> dns_label (volumeNameForSecret ''ca-cert'' secretName) \<and>
     length (generatedTokenSecretName (m_Name (co_meta cp))) \<le> 63 \<and>
     (dns_subdomain (generatedTokenSecretName (m_Name (co_meta cp))) \<longleftrightarrow>
        \<not> (48 < length (m_Name (co_meta cp)) \<and> m_Name (co_meta cp) ! 38 = CHR ''.''))"
proof (intro conjI)
  have name: "strings_TrimSpace (m_Name (co_meta cp)) \<noteq> []" using dns_subdomain_plain [OF assms(1)] by simp
  have "dns_chars ''workspace-perms''" by code_simp
  then have "\<exists>n. workspaceRoleName cp sa = Ok n \<and> dns_subdomain n"
    using scopedWorkspaceRBACName_valid [OF assms(3), of workspaceRoleNameSuffix] name assms(2)
    by (simp add: workspaceRoleName_def workspaceRBACScopeHash_def workspaceRoleNameSuffix_def)
  moreover have "\<exists>n. workspaceRoleBindingName cp sa = Ok n \<and> dns_subdomain n"
    using scopedWorkspaceRBACName_valid [OF assms(3), of "[]"] name assms(2)
    by (simp add: workspaceRoleBindingName_def workspaceRBACScopeHash_def)
  ultimately show "\<exists>roleName bindingName. workspaceRoleName cp sa = Ok roleName \<and> dns_subdomain roleName \<and>
            workspaceRoleBindingName cp sa = Ok bindingName \<and> dns_subdomain bindingName" by blast
  have "dns_chars ''tls''" "dns_chars ''ca-cert''" by code_simp+
  then show "dns_label (volumeNameForSecret ''tls'' secretName)" "dns_label (volumeNameForSecret ''ca-cert'' secretName)"
    by (auto intro: volumeNameForSecret_label)
  show "length (generatedTokenSecretName (m_Name (co_meta cp))) \<le> 63" by (rule token_secret_name.name_bound)
qed (rule generatedTokenSecretName_valid [OF assms(1)])

text \<open>A control plane with a name that is cut behind a dot: its role names are valid, its token secret name is not.\<close>

definition dp_dotted :: ControlPlaneObject where
  "dp_dotted = dp_plane\<lparr>co_meta := (co_meta dp_plane)\<lparr>m_Name := replicate 38 (CHR ''a'') @ ''.'' @ replicate 10 (CHR ''b'')\<rparr>\<rparr>"

theorem control_plane_names_valid_witness:
  "(\<exists>roleName bindingName. workspaceRoleName dp_dotted ''main'' = Ok roleName \<and> dns_subdomain roleName \<and>
      workspaceRoleBindingName dp_dotted ''main'' = Ok bindingName \<and> dns_subdomain bindingName) \<and>
   dns_subdomain (m_Name (co_meta dp_dotted)) \<and> \<not> dns_subdomain (generatedTokenSecretName (m_Name (co_meta dp_dotted)))"
proof -
  have name: "dns_subdomain (m_Name (co_meta dp_dotted))" "strings_TrimSpace (m_Namespace (co_meta dp_dotted)) \<noteq> []"
    "dns_subdomain (strings_TrimSpace ''main'')" by code_simp+
  have "48 < length (m_Name (co_meta dp_dotted))" "m_Name (co_meta dp_dotted) ! 38 = CHR ''.''" by code_simp+
  then show ?thesis using control_plane_names_valid [OF name] name(1) by blast
qed

text \<open>
  Ports of a control plane fit together. The service has a port for every port of the
  container, under the same name and with the container's port as its target, and no others;
  its port numbers are distinct; HTTPS is served on 443 exactly when TLS is configured; and
  ingresses and HTTP routes refer to the port of the service that reaches plain HTTP.
\<close>

lemma control_plane_ports_coherent:
  "(\<lambda>p. (sp_Name p, sp_TargetPort p)) ` set (cp_service_ports cp) = (\<lambda>q. (port_Name q, port_ContainerPort q)) ` set (cp_container_ports cp) \<and>
   distinct (map sp_Port (cp_service_ports cp)) \<and>
   (controlPlaneTLSEnabled cp \<longleftrightarrow> service_port_entry ''https'' 443 controlPlaneTLSTargetPort \<in> set (cp_service_ports cp)) \<and>
   service_port_entry ''http'' (httpRouteBackendServicePort cp) controlPlaneTargetPort \<in> set (cp_service_ports cp) \<and>
   map ip_ServicePort (ir_Paths (ingress_rule cp host)) = [httpRouteBackendServicePort cp] \<and>
   map hb_Port (hrr_BackendRefs (route_rule cp)) = [Some (httpRouteBackendServicePort cp)]"
  by (auto simp: cp_service_ports_def cp_container_ports_def container_port_def service_port_entry_def httpRouteBackendServicePort_def
      Let_def defaultControlPlanePort_def controlPlaneTargetPort_def controlPlaneTLSTargetPort_def ingress_rule_def route_rule_def)

text \<open>
  C20: The access URL is set once. In the container of the deployment the variable
  CODER_ACCESS_URL is the configured one when the spec or an environment source defines it; it
  is the URL of the service in the cluster when it is to be injected and is not defined; and
  when it is to be injected it is never there twice.
\<close>

theorem access_url_env_once:
  assumes "cp_deployment cp inject viaEnvFrom d = Ok d'"
  shows "\<exists>con. pod_Containers (dep_Template d') = [con] \<and>
     named ''CODER_ACCESS_URL'' (con_Env con) =
       (if inject \<and> \<not> viaEnvFrom \<and> named ''CODER_ACCESS_URL'' (cs_ExtraEnv (co_Spec cp)) = []
        then [plain_env ''CODER_ACCESS_URL'' (cluster_access_url cp)]
        else named ''CODER_ACCESS_URL'' (cs_ExtraEnv (co_Spec cp))) \<and>
     (inject \<longrightarrow> length (named ''CODER_ACCESS_URL'' (con_Env con)) \<le> 1)"
proof -
  let ?extra = "named ''CODER_ACCESS_URL'' (cs_ExtraEnv (co_Spec cp))"
  obtain con acc where con: "pod_Containers (dep_Template d') = [con]" and acc: "access_url_env cp inject viaEnvFrom = Ok acc"
    and env: "named ''CODER_ACCESS_URL'' (con_Env con) = named ''CODER_ACCESS_URL'' acc @ ?extra"
    by (rule cp_deployment_env [OF assms])
  show ?thesis
  proof (cases inject)
    case False
    with acc con env show ?thesis by (simp add: access_url_env_def)
  next
    case True
    with acc obtain r where r: "find_env_loop ''CODER_ACCESS_URL'' None (cs_ExtraEnv (co_Spec cp)) = Ok r"
      and "acc = (if r = None \<and> \<not> viaEnvFrom then [plain_env ''CODER_ACCESS_URL'' (cluster_access_url cp)] else [])"
      by (auto simp: access_url_env_def findEnvVar_def rbind_eq_Ok split: if_splits)
    moreover have "?extra = (case r of None \<Rightarrow> [] | Some e \<Rightarrow> [e])"
      using find_env_loop_Ok [OF r] by (simp add: named_def)
    ultimately show ?thesis using con env True by (cases r) auto
  qed
qed

theorem access_url_env_once_witness:
  "\<exists>d' con. cp_deployment dp_plane True False (new_Deployment ''main'' ''coder'') = Ok d' \<and> pod_Containers (dep_Template d') = [con] \<and>
     named ''CODER_ACCESS_URL'' (con_Env con) = [plain_env ''CODER_ACCESS_URL'' (cluster_access_url dp_plane)]"
proof -
  have "case cp_deployment dp_plane True False (new_Deployment ''main'' ''coder'') of Ok _ \<Rightarrow> True | _ \<Rightarrow> False" by code_simp
  then obtain d' where d': "cp_deployment dp_plane True False (new_Deployment ''main'' ''coder'') = Ok d'"
    by (auto split: res.splits)
  have "named ''CODER_ACCESS_URL'' (cs_ExtraEnv (co_Spec dp_plane)) = []" by (simp add: dp_plane_def zero_plane_spec_def)
  with access_url_env_once [OF d'] d' show ?thesis by auto
qed

text \<open>
  Certificates of different secrets can be mounted on the same file. The name of the mount
  file is made unique by a counter per file name, but the name with the counter is not itself
  counted: for the secrets a.crt, a and a-2 the mounts of a and of a-2 have the same path,
  which Kubernetes rejects.
\<close>

lemma cert_mount_collision:
  "\<exists>volumes mounts. cert_mounts [\<lparr>cert_Name = ''a.crt'', cert_Key = ''k''\<rparr>, \<lparr>cert_Name = ''a'', cert_Key = ''k''\<rparr>,
        \<lparr>cert_Name = ''a-2'', cert_Key = ''k''\<rparr>] = Ok (volumes, mounts) \<and>
     map vm_MountPath mounts = [''/etc/ssl/certs/a.crt'', ''/etc/ssl/certs/a-2.crt'', ''/etc/ssl/certs/a-2.crt'']"
proof -
  have "case cert_mounts [\<lparr>cert_Name = ''a.crt'', cert_Key = ''k''\<rparr>, \<lparr>cert_Name = ''a'', cert_Key = ''k''\<rparr>,
        \<lparr>cert_Name = ''a-2'', cert_Key = ''k''\<rparr>] of
      Ok (volumes, mounts) \<Rightarrow> map vm_MountPath mounts = [''/etc/ssl/certs/a.crt'', ''/etc/ssl/certs/a-2.crt'', ''/etc/ssl/certs/a-2.crt'']
    | _ \<Rightarrow> False" by code_simp
  then show ?thesis by (auto split: res.splits)
qed

section \<open>Workspace roles\<close>


definition dp_foreign :: Role where
  "dp_foreign = new_Role ''other'' ''coder''"

definition dp_managed :: Role where
  "dp_managed = (new_Role ''old-workspace-perms'' ''team'')\<lparr>role_meta := (new_meta ''old-workspace-perms'' ''team'')
     \<lparr>m_Labels := workspaceRBACLabels dp_plane, m_Annotations := workspaceRBACAnnotations ''u1''\<rparr>\<rparr>"


text \<open>
  C14: The finalizer is removed last. When the reconciliation of a control plane that is being
  deleted succeeds, every role that was listed and that belongs to the control plane is gone
  before the finalizer is removed, and nothing is requeued. A delete call is assumed to remove
  its object when it returns no error or NotFound, and other calls not to bring it back.
\<close>

theorem control_plane_deletion:
  assumes "xr_Client r = Some c" "k_Get (xc_ControlPlanes c) ns name w = (Inr cp, v)"
    and "m_DeletionTimestamp (co_meta cp) \<noteq> None" "ContainsFinalizer (co_meta cp) workspaceRBACFinalizer"
    and "xc_ListRoles c (workspaceRBACLabels cp) v = (Inr roles, v1)" "role \<in> set roles"
    and "isOwnedByCoderControlPlane (role_meta role) cp \<or>
      hasWorkspaceRBACIdentityLabels (role_meta role) cp \<and> hasWorkspaceRBACOwnerUID (role_meta role) cp"
    and "\<And>role v y v'. xc_DeleteRole c role v = (y, v') \<Longrightarrow> (\<forall>e. y = Inl e \<longrightarrow> IsNotFound e) \<Longrightarrow> gone role v'"
    and "\<And>role role'. preserves (gone role) (call (xc_DeleteRole c role'))"
    and "\<And>role rb. preserves (gone role) (call (xc_DeleteRoleBinding c rb))"
    and "\<And>role l. preserves (gone role) (call (xc_ListRoleBindings c l))"
    and "ControlPlane_Reconcile r clk ns name w = (Ok q, w')"
  shows "q = 0 \<and> (\<exists>u x. gone role u \<and>
    xc_PatchControlPlane c cp (cp\<lparr>co_meta := RemoveFinalizer workspaceRBACFinalizer (co_meta cp)\<rparr>) u = (Inr x, w'))"
proof -
  have "finalizeWorkspaceRBAC c cp v = (Ok q, w')"
    using assms(12) assms(1-3) unfolding ControlPlane_Reconcile_def
    by (auto simp: non_nil_eq_Ok handle_def call_def guard_def split: if_splits)
  then obtain a u x where clean: "cleanupManagedWorkspaceRBAC c cp None None v = (Ok a, u)" and q: "q = 0"
    and patch: "call (xc_PatchControlPlane c cp (cp\<lparr>co_meta := RemoveFinalizer workspaceRBACFinalizer (co_meta cp)\<rparr>)) u = (Ok x, w')"
    unfolding finalizeWorkspaceRBAC_def using assms(4) by (auto simp: ok_simps)
  have "gone role u"
  proof (rule cleanup_complete [OF clean assms(5) assms(8) assms(9-11)])
    fix n
    assume all: "\<And>role. role \<in> set roles \<Longrightarrow> isManagedWorkspaceRole role cp n \<Longrightarrow> \<not> kept_key None (role_meta role) \<Longrightarrow> gone role u"
    show "gone role u"
      by (rule all [OF assms(6)]) (use assms(7) in \<open>auto simp: isManagedWorkspaceRole_def kept_key_def\<close>)
  qed
  moreover have "xc_PatchControlPlane c cp (cp\<lparr>co_meta := RemoveFinalizer workspaceRBACFinalizer (co_meta cp)\<rparr>) u = (Inr x, w')"
    using patch by (auto simp: call_def split: prod.splits sum.splits)
  ultimately show ?thesis using q by blast
qed

definition dp_deleting :: ControlPlaneObject where
  "dp_deleting = dp_plane\<lparr>co_meta := (co_meta dp_plane)\<lparr>m_DeletionTimestamp := Some 400, m_Finalizers := [workspaceRBACFinalizer]\<rparr>\<rparr>"

definition dp_reconciler :: "plane_world CoderControlPlaneReconciler" where
  "dp_reconciler = \<lparr>xr_Client = Some dp_client, xr_APIReader = None, xr_Scheme = Some (), xr_OperatorAccessProvisioner = None,
     xr_LicenseUploader = Some (NewSDKLicenseUploader dp_licenses), xr_EntitlementsInspector = Some (NewSDKEntitlementsInspector dp_licenses)\<rparr>"

definition dp_deletion :: plane_world where
  "dp_deletion = dp_world\<lparr>dp_Plane := dp_deleting, dp_Roles := [dp_managed, dp_foreign]\<rparr>"

theorem control_plane_deletion_witness:
  "\<exists>q w'. ControlPlane_Reconcile dp_reconciler dp_clock ''coder'' ''main'' dp_deletion = (Ok q, w') \<and> q = 0 \<and>
     (\<exists>u x. dp_managed \<notin> set (dp_Roles u) \<and>
       xc_PatchControlPlane dp_client dp_deleting (dp_deleting\<lparr>co_meta := RemoveFinalizer workspaceRBACFinalizer (co_meta dp_deleting)\<rparr>) u = (Inr x, w'))"
proof -
  have "case fst (ControlPlane_Reconcile dp_reconciler dp_clock ''coder'' ''main'' dp_deletion) of Ok _ \<Rightarrow> True | _ \<Rightarrow> False" by code_simp
  then obtain q w' where run: "ControlPlane_Reconcile dp_reconciler dp_clock ''coder'' ''main'' dp_deletion = (Ok q, w')"
    by (cases "ControlPlane_Reconcile dp_reconciler dp_clock ''coder'' ''main'' dp_deletion") (auto split: res.splits)
  have "hasWorkspaceRBACIdentityLabels (role_meta dp_managed) dp_deleting \<and> hasWorkspaceRBACOwnerUID (role_meta dp_managed) dp_deleting"
    "ContainsFinalizer (co_meta dp_deleting) workspaceRBACFinalizer" by code_simp+
  then have "q = 0 \<and> (\<exists>u x. dp_managed \<notin> set (dp_Roles u) \<and>
       xc_PatchControlPlane dp_client dp_deleting (dp_deleting\<lparr>co_meta := RemoveFinalizer workspaceRBACFinalizer (co_meta dp_deleting)\<rparr>) u = (Inr x, w'))"
    by (intro control_plane_deletion [where gone = "\<lambda>role w. role \<notin> set (dp_Roles w)" and role = dp_managed, OF _ _ _ _ _ _ _ _ _ _ _ run])
       (auto simp: dp_reconciler_def dp_deletion_def dp_deleting_def dp_delete_role_def dp_unused_def preserves_def call_def)
  with run show ?thesis by blast
qed

section \<open>Licenses\<close>




section \<open>Objects of other controllers\<close>

text \<open>
  C21: The steps of the control-plane controller that create or update objects in its own
  namespace take over nothing that another owner controls. When the service account, service,
  deployment, ingress, HTTP route, workspace role, role binding or token secret found under the
  name they use is controlled by another owner, the step fails and writes nothing after that
  read (the world is the one the read left); the cleanup of exposure does not remove an ingress
  or HTTP route that is not controlled by the control plane. In another workspace namespace,
  where no owner reference to the control plane is possible, a role found under the name is
  overwritten and its owner references are dropped.
\<close>

theorem control_plane_foreign_untouched:
  shows "(\<not> sas_DisableCreate (cs_ServiceAccount (co_Spec cp)) \<and> strings_TrimSpace (resolveServiceAccountName cp) \<noteq> [] \<and>
      k_Get (cc_ServiceAccounts c) (m_Namespace (co_meta cp)) (resolveServiceAccountName cp) w = (Inr sa, w') \<and> foreign_controlled ''CoderControlPlane'' (co_meta cp) (sa_meta sa) \<longrightarrow>
      (\<exists>e. reconcileServiceAccount c cp w = (Err e, w'))) \<and>
    (k_Get (cc_Services c) (m_Namespace (co_meta cp)) (m_Name (co_meta cp)) w = (Inr svc, w') \<and> foreign_controlled ''CoderControlPlane'' (co_meta cp) (svc_meta svc) \<longrightarrow>
      (\<exists>e. cp_reconcileService c cp w = (Err e, w'))) \<and>
    (cs_EnvUseClusterAccessURL (co_Spec cp) = Some False \<and>
      k_Get (cc_Deployments c) (m_Namespace (co_meta cp)) (m_Name (co_meta cp)) w = (Inr dep, w') \<and> foreign_controlled ''CoderControlPlane'' (co_meta cp) (dep_meta dep) \<longrightarrow>
      (\<exists>e. cp_reconcileDeployment c apiReader cp w = (Err e, w'))) \<and>
    (cs_EnvUseClusterAccessURL (co_Spec cp) \<noteq> Some False \<and>
      envFromDefinesEnvVar c apiReader (m_Namespace (co_meta cp)) (cs_EnvFrom (co_Spec cp)) ''CODER_ACCESS_URL'' w0 = (Ok via, w) \<and>
      k_Get (cc_Deployments c) (m_Namespace (co_meta cp)) (m_Name (co_meta cp)) w = (Inr dep, w') \<and> foreign_controlled ''CoderControlPlane'' (co_meta cp) (dep_meta dep) \<longrightarrow>
      (\<exists>e. cp_reconcileDeployment c apiReader cp w0 = (Err e, w'))) \<and>
    (strings_TrimSpace (ix_Host ix) \<noteq> [] \<and> k_Get (xc_Ingresses c) (m_Namespace (co_meta cp)) (m_Name (co_meta cp)) w = (Inr ing, w') \<and> foreign_controlled ''CoderControlPlane'' (co_meta cp) (ing_meta ing) \<longrightarrow>
      (\<exists>e. reconcileIngress c cp ix w = (Err e, w'))) \<and>
    (strings_TrimSpace (gx_Host gx) \<noteq> [] \<and> gx_ParentRefs gx \<noteq> [] \<and>
      k_Get (xc_HTTPRoutes c) (m_Namespace (co_meta cp)) (m_Name (co_meta cp)) w = (Inr rt, w') \<and> foreign_controlled ''CoderControlPlane'' (co_meta cp) (hr_meta rt) \<longrightarrow>
      (\<exists>e. reconcileHTTPRoute c cp gx w = (Err e, w'))) \<and>
    (k_Get (cc_Roles c) (m_Namespace (co_meta cp)) n w = (Inr role, w') \<and> foreign_controlled ''CoderControlPlane'' (co_meta cp) (role_meta role) \<longrightarrow>
      (\<exists>e. ensure_namespace_rbac c cp uid account n bindingName (m_Namespace (co_meta cp)) w = (Err e, w'))) \<and>
    (CreateOrUpdate role_meta (cc_Roles c) (new_Role n (m_Namespace (co_meta cp))) (workspace_role cp uid (m_Namespace (co_meta cp))) w0 = (Ok r, w) \<and>
      k_Get (cc_RoleBindings c) (m_Namespace (co_meta cp)) bindingName w = (Inr rb, w') \<and>
      foreign_controlled ''CoderControlPlane'' (co_meta cp) (rb_meta rb) \<longrightarrow>
      (\<exists>e. ensure_namespace_rbac c cp uid account n bindingName (m_Namespace (co_meta cp)) w0 = (Err e, w'))) \<and>
    (strings_TrimSpace n \<noteq> [] \<and> strings_TrimSpace key \<noteq> [] \<and> token \<noteq> [] \<and>
      k_Get (cc_Secrets c) (m_Namespace (co_meta cp)) n w = (Inr sec, w') \<and> foreign_controlled ''CoderControlPlane'' (co_meta cp) (sec_meta sec) \<longrightarrow>
      (\<exists>e. ensureOperatorTokenSecret c cp n key token w = (Err e, w'))) \<and>
    (k_Get (xc_Ingresses c) (m_Namespace (co_meta cp)) (m_Name (co_meta cp)) w = (Inr ing, w') \<and> \<not> isOwnedByCoderControlPlane (ing_meta ing) cp \<longrightarrow>
      cleanupOwnedIngress c cp w = (Ok (), w')) \<and>
    (k_Get (xc_HTTPRoutes c) (m_Namespace (co_meta cp)) (m_Name (co_meta cp)) w = (Inr rt, w') \<and> \<not> isOwnedByCoderControlPlane (hr_meta rt) cp \<longrightarrow>
      cleanupOwnedHTTPRoute c cp w = (Ok (), w')) \<and>
    (elsewhere \<noteq> m_Namespace (co_meta cp) \<and> k_Get (cc_Roles c) elsewhere n w = (Inr role, w') \<and> object_key (role_meta role) = (elsewhere, n) \<longrightarrow>
      (\<exists>new. m_OwnerReferences (role_meta new) = [] \<and> role_Rules new = workspace_rules (cs_RBAC (co_Spec cp)) \<and>
        CreateOrUpdate role_meta (cc_Roles c) (new_Role n elsewhere) (workspace_role cp uid elsewhere) w =
          (if role = new then ret new else call (k_Update (cc_Roles c) new)) w'))"
  (is "?sa \<and> ?svc \<and> ?dep \<and> ?dep2 \<and> ?ing \<and> ?rt \<and> ?role \<and> ?rb \<and> ?sec \<and> ?cing \<and> ?crt \<and> ?elsewhere")
proof (intro conjI)
  show ?sa unfolding reconcileServiceAccount_def Let_def
    by (intro impI; elim conjE; simp only: passed_checks; rule bind_failed; rule cp_foreign_rules, assumption+, simp+)
  show ?ing unfolding reconcileIngress_def Let_def
    by (intro impI; elim conjE; simp only: passed_checks; rule bind_failed; rule cp_foreign_rules, assumption+, simp+)
  show ?sec unfolding ensureOperatorTokenSecret_def
    by (intro impI; elim conjE; simp only: passed_checks; rule bind_failed; rule cp_foreign_rules, assumption+, simp+)
  show ?role unfolding ensure_namespace_rbac_def
    by (intro impI; elim conjE; rule bind_failed; rule cp_foreign_rules, assumption+, simp+)
  show ?svc unfolding cp_reconcileService_def by (intro impI; elim conjE; rule cp_foreign_rules, assumption+, simp+)
  show ?dep using deployment_foreign [of False cp c apiReader w False w dep w'] by auto
  show ?dep2 using deployment_foreign [of True cp c apiReader w0 via w dep w'] by (cases "cs_EnvUseClusterAccessURL (co_Spec cp)") auto
  show ?rb unfolding ensure_namespace_rbac_def
    by (intro impI; elim conjE) (rule bind_then_failed, simp add: map_err_eq_Ok, rule bind_failed, rule cp_foreign_rules, assumption+, simp+)
  show ?rt by (intro impI; elim conjE; rule http_route_foreign)
  show ?cing ?crt by (auto simp: cleanupOwnedIngress_def cleanupOwnedHTTPRoute_def cleanup_owned_def Let_def handle_def call_run)
  show ?elsewhere by (intro impI; elim conjE; rule scoped_role_overwritten; simp add: object_key_def)
qed

definition dp_taken :: Service where
  "dp_taken = (new_Service ''main'' ''coder'')\<lparr>svc_meta := (new_meta ''main'' ''coder'')\<lparr>m_OwnerReferences :=
     [\<lparr>or_APIVersion = ''apps/v1'', or_Kind = ''StatefulSet'', or_Name = ''x'', or_UID = ''u9'', or_BlockOwnerDeletion = None,
       or_Controller = Some True\<rparr>]\<rparr>\<rparr>"

definition dp_taken_client :: "plane_world cp_client" where
  "dp_taken_client = dp_client\<lparr>cc_Services := dp_unused\<lparr>k_Get := (\<lambda>_ _ w. (Inr dp_taken, w))\<rparr>\<rparr>"

theorem control_plane_foreign_untouched_witness:
  "\<exists>e. cp_reconcileService dp_taken_client dp_plane dp_world = (Err e, dp_world)"
proof -
  have "foreign_controlled ''CoderControlPlane'' (co_meta dp_plane) (svc_meta dp_taken)" by code_simp
  moreover have "k_Get (cc_Services dp_taken_client) (m_Namespace (co_meta dp_plane)) (m_Name (co_meta dp_plane)) dp_world
      = (Inr dp_taken, dp_world)" by (simp add: dp_taken_client_def)
  ultimately show ?thesis
    by (intro control_plane_foreign_untouched [THEN conjunct2, THEN conjunct1, THEN mp] conjI)
qed

end
