(* ===== verification/Operator_Properties.thy ===== *)
theory Operator_Properties
  imports Demo_Control_Plane
begin

text \<open>
  Properties of the operator-access provisioner: what a run of EnsureOperatorToken leaves in
  the database, stability and revocation of tokens, and the random parts of a token.
\<close>

section \<open>Lemmas\<close>

abbreviation provisioner :: "(string \<Rightarrow> ('b, 'b pg_conn option) op) \<Rightarrow> 'b clock \<Rightarrow> 'b PostgresOperatorAccessProvisioner" where
  "provisioner openDB clk \<equiv> \<lparr>pp_openDB = Some openDB, pp_now = Some clk\<rparr>"

lemma ensure_lifetime:
  assumes "EnsureOperatorToken env (Some p) ctx req w = (Ok tok, w')"
  shows "0 < eot_TokenLifetime req"
  using assms by (auto simp: EnsureOperatorToken_def bind_eq_Ok non_nil_eq_Ok ensure_validate_def split: if_splits)

lemma ensure_run:
  assumes "transactional env openDB clk stored"
    and "EnsureOperatorToken env (Some (provisioner openDB clk)) ctx req w = (Ok tok, w')"
  obtains conn s0 s1 where "tx_db s0 = stored w" "ensure_body env clk req conn s0 = (Ok tok, s1)" "stored w' = tx_db s1"
  using EnsureOperatorToken_stored [OF assms] by auto

text \<open>The key of a token is found under the token's own two parts, so it is a key of the operator.\<close>

lemma token_valid_key:
  assumes "token_valid uid name now tok db"
  obtains k where "k \<in> set (db_keys db)" "is_operator_key uid name k"
proof -
  from assms obtain a b e where "lookupExistingToken a uid name (sha256_Sum256 b) db = Some e" unfolding token_valid_def by blast
  then obtain k where "find (\<lambda>k. ak_id k = a \<and> ak_user_id k = uid \<and> ak_login_type k = ''token'' \<and> ak_token_name k = name
      \<and> ak_hashed_secret k = sha256_Sum256 b) (db_keys db) = Some k"
    unfolding lookupExistingToken_def by auto
  then show thesis using that [of k] unfolding find_Some_iff is_operator_key_def by auto
qed

text \<open>A user that exists is the one that is found.\<close>

lemma find_or_insert_found:
  assumes "find_or_insert_user env conn now req s = (Ok uid, s')"
    and "lookupOperatorUser (pv_lower env) (eot_OperatorUsername req) (tx_db s) = Some u"
  shows "uid = u"
proof -
  from assms(1) obtain found s1 where look: "statement conn ''lookup user''
      (\<lambda>db. (lookupOperatorUser (pv_lower env) (eot_OperatorUsername req) db, db)) s = (Ok found, s1)"
    and rest: "(case found of Some userID \<Rightarrow> ret userID
      | None \<Rightarrow>
          bind (tx_call (\<lambda>w. case pv_NewUUID env w of (u, w') \<Rightarrow> (Ok u, w'))) (\<lambda>userID.
          bind (map_err (WrapError ''insert operator user %q: %w'' [ArgS (eot_OperatorUsername req)])
                  (statement conn ''insert user'' (\<lambda>db. ((), insertOperatorUser userID (eot_OperatorEmail req) (eot_OperatorUsername req) now db)))) (\<lambda>_.
          ret userID))) s1 = (Ok uid, s')"
    unfolding find_or_insert_user_def Let_def by (elim bind_okE map_err_okE) (rule that)
  have "found = Some u" using query_Ok [OF look] assms(2) by simp
  with rest show ?thesis by simp
qed

lemma ensure_body_user:
  assumes "ensure_body env clk req conn s0 = (Ok tok, s1)"
    and "lookupOperatorUser (pv_lower env) (eot_OperatorUsername req) (tx_db s0) = Some u"
  shows "\<exists>now v v' s2 s3. clk v = (now, v') \<and> ensureOperatorToken env conn now u req s2 = (Ok tok, s3) \<and>
    db_keys (tx_db s2) = db_keys (tx_db s0) \<and> tx_db s1 = tx_db s3"
proof -
  from assms(1) obtain now a uid b c where
    clk: "tx_call (now_op clk) s0 = (Ok now, a)" and user: "ensureOperatorUser env conn now req a = (Ok uid, b)"
    and mem: "ensureOperatorMemberships conn now uid b = (Ok (), c)" and tok: "ensureOperatorToken env conn now uid req c = (Ok tok, s1)"
    unfolding ensure_body_def by (elim okE) (rule that; simp)
  have a: "tx_db a = tx_db s0" using clk by (rule tx_call_Ok)
  obtain v' where v': "clk (tx_world s0) = (now, v')"
    using clk by (cases "clk (tx_world s0)") (simp add: tx_call_def zoom_def now_op_def)
  from user obtain s2 where "find_or_insert_user env conn now req a = (Ok uid, s2)"
    unfolding ensureOperatorUser_def Let_def by (elim okE) (rule that; simp)
  then have "uid = u" using find_or_insert_found assms(2) a by metis
  moreover have "db_keys (tx_db c) = db_keys (tx_db s0)"
    using ensureOperatorUser_Ok(3) [OF user] ensureOperatorMemberships_Ok(1) [OF mem] a by simp
  ultimately show ?thesis using v' tok by blast
qed

section \<open>Provisioning\<close>

text \<open>
  C5: EnsureOperatorToken is a transaction with the promised result. On a database whose
  transactions start from the stored tables and change them only by a successful commit: when
  it returns a token, the operator user exists, is an active system user with the owner role,
  is an admin of every organization that is not deleted, the token is valid for it, and keys
  other than the operator's are unchanged; when it fails, nothing is stored.
\<close>

theorem operator_token_transaction:
  assumes "transactional env openDB clk stored"
    and "EnsureOperatorToken env (Some (provisioner openDB clk)) ctx req w = (r, w')"
  shows "case r of
      Ok tok \<Rightarrow> \<exists>uid now. now \<in> range (\<lambda>v. fst (clk v)) \<and>
        lookupOperatorUser (pv_lower env) (eot_OperatorUsername req) (stored w') = Some uid \<and>
        (\<forall>u. u \<in> set (db_users (stored w')) \<longrightarrow> u_id u = uid \<longrightarrow> operator_user u) \<and>
        (\<forall>org. org \<in> set (organization_ids (stored w)) \<longrightarrow> admin_of uid org (stored w')) \<and>
        token_valid uid (eot_TokenName req) now tok (stored w') \<and>
        filter (\<lambda>k. \<not> is_operator_key uid (eot_TokenName req) k) (db_keys (stored w')) =
          filter (\<lambda>k. \<not> is_operator_key uid (eot_TokenName req) k) (db_keys (stored w))
    | _ \<Rightarrow> stored w' = stored w"
proof (cases r)
  case (Ok tok)
  with assms(2) have run: "EnsureOperatorToken env (Some (provisioner openDB clk)) ctx req w = (Ok tok, w')" by simp
  obtain conn s0 s1 where s0: "tx_db s0 = stored w" and body: "ensure_body env clk req conn s0 = (Ok tok, s1)"
    and s1: "stored w' = tx_db s1" by (rule ensure_run [OF assms(1) run])
  obtain now v v' uid where
    clk: "clk v = (now, v')" and
    facts: "lookupOperatorUser (pv_lower env) (eot_OperatorUsername req) (tx_db s1) = Some uid"
      "token_valid uid (eot_TokenName req) now tok (tx_db s1)"
      "\<And>u. u \<in> set (db_users (tx_db s1)) \<Longrightarrow> u_id u = uid \<Longrightarrow> operator_user u"
      "\<And>org. org \<in> set (organization_ids (tx_db s0)) \<Longrightarrow> admin_of uid org (tx_db s1)"
      "filter (\<lambda>k. \<not> is_operator_key uid (eot_TokenName req) k) (db_keys (tx_db s1)) =
         filter (\<lambda>k. \<not> is_operator_key uid (eot_TokenName req) k) (db_keys (tx_db s0))"
    by (rule ensure_body_Ok [OF body ensure_lifetime [OF run]], rule that)
  have "now \<in> range (\<lambda>v. fst (clk v))" by (rule range_eqI [of _ _ v]) (simp add: clk)
  then show ?thesis unfolding Ok res.case s1 s0 [symmetric] using facts by blast
qed (use EnsureOperatorToken_stored [OF assms] in auto)

text \<open>
  C22: A stored token is stable. When EnsureOperatorToken has returned a token and is given it
  back before it expires, a run that succeeds returns the same token and changes no key.
\<close>

theorem operator_token_stable:
  assumes "transactional env openDB clk1 stored" "transactional env openDB clk2 stored"
    and "EnsureOperatorToken env (Some (provisioner openDB clk1)) ctx req w = (Ok tok, w1)"
    and "EnsureOperatorToken env (Some (provisioner openDB clk2)) ctx (req\<lparr>eot_ExistingToken := tok\<rparr>) w1 = (Ok tok2, w2)"
    and "\<And>uid now v. token_valid uid (eot_TokenName req) now tok (stored w1) \<Longrightarrow> token_valid uid (eot_TokenName req) (fst (clk2 v)) tok (stored w1)"
  shows "tok2 = tok \<and> db_keys (stored w2) = db_keys (stored w1)"
proof -
  obtain conn s0 s1 where "tx_db s0 = stored w" "ensure_body env clk1 req conn s0 = (Ok tok, s1)" and s1: "stored w1 = tx_db s1"
    by (rule ensure_run [OF assms(1,3)])
  from ensure_body_Ok [OF this(2) ensure_lifetime [OF assms(3)]] obtain now uid where
    "lookupOperatorUser (pv_lower env) (eot_OperatorUsername req) (tx_db s1) = Some uid"
    "token_valid uid (eot_TokenName req) now tok (tx_db s1)" by metis
  then have uid: "lookupOperatorUser (pv_lower env) (eot_OperatorUsername req) (stored w1) = Some uid"
    and valid: "token_valid uid (eot_TokenName req) now tok (stored w1)" by (simp_all add: s1)
  obtain conn2 t0 t1 where t0: "tx_db t0 = stored w1" and body: "ensure_body env clk2 (req\<lparr>eot_ExistingToken := tok\<rparr>) conn2 t0 = (Ok tok2, t1)"
    and t1: "stored w2 = tx_db t1" by (rule ensure_run [OF assms(2,4)])
  obtain now2 v v' t2 t3 where clk: "clk2 v = (now2, v')"
    and tok: "ensureOperatorToken env conn2 now2 uid (req\<lparr>eot_ExistingToken := tok\<rparr>) t2 = (Ok tok2, t3)"
    and keys: "db_keys (tx_db t2) = db_keys (tx_db t0)" and t3: "tx_db t1 = tx_db t3"
    using ensure_body_user [OF body, of uid] uid t0 by auto
  have "token_valid uid (eot_TokenName req) now2 tok (tx_db t2)"
    using assms(5) [OF valid, of v] clk token_valid_keys [OF keys, of uid _ now2 tok] t0 by simp
  then have "tok2 = tok \<and> tx_db t3 = tx_db t2" using ensureOperatorToken_stable [OF tok] by simp
  then show ?thesis using keys t0 t1 t3 by simp
qed

text \<open>
  C23: A revoked token is gone. When RevokeOperatorToken succeeds, no token of the managed name
  is valid for any user with the operator's name that is not deleted, now or later; keys of other names and the
  other tables are unchanged. When it fails, nothing is stored.
\<close>

theorem operator_token_revoked:
  assumes "transactional env openDB clk stored"
    and "RevokeOperatorToken env (Some (provisioner openDB clk)) ctx req w = (r, w')"
  shows "case r of
      Ok _ \<Rightarrow> (\<forall>u tok now. u \<in> set (db_users (stored w')) \<longrightarrow> \<not> u_deleted u \<longrightarrow>
            pv_lower env (u_username u) = pv_lower env (rot_OperatorUsername req) \<longrightarrow>
            \<not> token_valid (u_id u) (rot_TokenName req) now tok (stored w')) \<and>
        filter (\<lambda>k. ak_token_name k \<noteq> rot_TokenName req) (db_keys (stored w')) =
          filter (\<lambda>k. ak_token_name k \<noteq> rot_TokenName req) (db_keys (stored w)) \<and>
        (stored w')\<lparr>db_keys := []\<rparr> = (stored w)\<lparr>db_keys := []\<rparr>
    | _ \<Rightarrow> stored w' = stored w"
proof (cases r)
  case (Ok x)
  let ?d = "deleteOperatorTokenByName (pv_lower env) (rot_OperatorUsername req) (rot_TokenName req) (stored w)"
  have d: "stored w' = ?d" using RevokeOperatorToken_stored [OF assms] Ok by simp
  have "\<not> token_valid (u_id u) (rot_TokenName req) now tok ?d"
    if "u \<in> set (db_users ?d)" "\<not> u_deleted u" "pv_lower env (u_username u) = pv_lower env (rot_OperatorUsername req)" for u tok now
  proof
    assume "token_valid (u_id u) (rot_TokenName req) now tok ?d"
    then obtain k where "k \<in> set (db_keys ?d)" "is_operator_key (u_id u) (rot_TokenName req) k" by (rule token_valid_key)
    with that show False by (auto simp: deleteOperatorTokenByName_def is_operator_key_def list_ex_iff)
  qed
  moreover have "filter (\<lambda>k. ak_token_name k \<noteq> rot_TokenName req) (db_keys ?d) =
      filter (\<lambda>k. ak_token_name k \<noteq> rot_TokenName req) (db_keys (stored w))"
    unfolding deleteOperatorTokenByName_def by (auto intro!: filter_cong)
  moreover have "?d\<lparr>db_keys := []\<rparr> = (stored w)\<lparr>db_keys := []\<rparr>" by (simp add: deleteOperatorTokenByName_def)
  ultimately show ?thesis unfolding Ok res.case d by blast
qed (use RevokeOperatorToken_stored [OF assms] in auto)

section \<open>Random parts\<close>

text \<open>Every character is the image of four accepted bytes.\<close>

lemma accepted_bytes:
  assumes "c \<in> set operatorTokenCharset"
  shows "card {b. accepted b \<and> token_char b = c} = 4"
proof -
  from assms obtain i where i: "i < 62" "c = operatorTokenCharset ! i" by (auto simp: in_set_conv_nth)
  have "token_char b = c \<longleftrightarrow> b mod 62 = i" for b
    using i charset_distinct by (simp add: token_char_def nth_eq_iff_index_eq)
  moreover have "{b. b \<le> 247 \<and> b mod 62 = i} = {i, i + 62, i + 124, i + 186}"
  proof (intro equalityI subsetI)
    fix b
    assume "b \<in> {b. b \<le> 247 \<and> b mod 62 = i}"
    then have b: "b = 62 * (b div 62) + i" "b div 62 \<le> 247 div 62" by (auto simp: div_le_mono simp del: div_less)
    from b(2) have "b div 62 = 0 \<or> b div 62 = 1 \<or> b div 62 = 2 \<or> b div 62 = 3" by auto
    then show "b \<in> {i, i + 62, i + 124, i + 186}" using b(1) by auto
  next
    have "(i + 62 * k) mod 62 = i" for k using i(1) by (simp only: mod_mult_self2 mod_less)
    from this [of 0] this [of 1] this [of 2] this [of 3] show "b \<in> {b. b \<le> 247 \<and> b mod 62 = i}"
      if "b \<in> {i, i + 62, i + 124, i + 186}" for b using that i(1) by auto
  qed
  ultimately show ?thesis by (simp add: accepted_def)
qed

text \<open>
  C24: The generation of a random token part ends and is unbiased. On a source that delivers
  its bytes one by one, enough of them accepted, randomTokenPart reads some k bytes and leaves
  the rest unread: k is the position of the accepted byte that completes the part, the result
  is the image of the accepted bytes among the k, and every character of the alphabet is the
  image of the same number of accepted bytes.
\<close>

theorem random_token_part:
  assumes "\<And>v b bs. bytes v = b # bs \<Longrightarrow> \<exists>v'. pv_RandomByte env v = (Inr b, v') \<and> bytes v' = bs"
    and "0 < n" "n \<le> length (filter accepted (bytes w))" "length (bytes w) \<le> pv_Fuel env"
  shows "(\<exists>k w'. randomTokenPart env n w = (Ok (map token_char (filter accepted (take k (bytes w)))), w') \<and>
       0 < k \<and> k \<le> length (bytes w) \<and> bytes w' = drop k (bytes w) \<and>
       length (filter accepted (take k (bytes w))) = n \<and> accepted (bytes w ! (k - 1))) \<and>
     (\<forall>c. c \<in> set operatorTokenCharset \<longrightarrow> card {b. accepted b \<and> token_char b = c} = 4)"
proof (intro conjI allI impI accepted_bytes)
  have "operatorTokenCharset \<noteq> []" using length_charset by force
  then show "\<exists>k w'. randomTokenPart env n w = (Ok (map token_char (filter accepted (take k (bytes w)))), w') \<and>
       0 < k \<and> k \<le> length (bytes w) \<and> bytes w' = drop k (bytes w) \<and>
       length (filter accepted (take k (bytes w))) = n \<and> accepted (bytes w ! (k - 1))"
    using random_loop_total [where rand = "pv_RandomByte env" and bytes = bytes and out = "[]", OF assms(1) refl assms(3,4)] assms(2)
    by (auto simp: randomTokenPart_def guard_def)
qed

section \<open>Witnesses\<close>

lemma ow_source: "ow_Bytes v = b # bs \<Longrightarrow> \<exists>v'. pv_RandomByte ow_env v = (Inr b, v') \<and> ow_Bytes v' = bs"
  by (simp add: ow_env_def ow_random_def)

text \<open>Of 250, ten times 61 and 7, the first is rejected and the last is not read.\<close>

theorem random_token_part_witness:
  "\<exists>w'. randomTokenPart ow_env 10 (ow_start\<lparr>ow_Bytes := 250 # replicate 10 61 @ [7]\<rparr>) = (Ok ''zzzzzzzzzz'', w') \<and> ow_Bytes w' = [7]"
proof -
  let ?bs = "250 # replicate 10 61 @ [7]" and ?w = "ow_start\<lparr>ow_Bytes := 250 # replicate 10 61 @ [7]\<rparr>"
  have z: "token_char 61 = CHR ''z''" by code_simp
  obtain k w' where k: "randomTokenPart ow_env 10 ?w = (Ok (map token_char (filter accepted (take k ?bs))), w')"
    "0 < k" "k \<le> 12" "ow_Bytes w' = drop k ?bs" "length (filter accepted (take k ?bs)) = 10"
    using random_token_part [of ow_Bytes ow_env 10 ?w] ow_source by (auto simp: ow_env_def accepted_def)
  have "k = 11"
  proof -
    have "k \<in> {1, 2, 3, 4, 5, 6, 7, 8, 9, 10, 11, 12}" using k(2,3) unfolding insert_iff empty_iff by presburger
    then show ?thesis using k(5) by (auto simp: accepted_def eval_nat_numeral)
  qed
  then show ?thesis using k(1,4) z by (simp add: accepted_def eval_nat_numeral)
qed

lemma ow_statement: "statement ow_conn name f s = (case f (tx_db s) of (a, db) \<Rightarrow> (Ok a, s\<lparr>tx_db := db\<rparr>))"
  by (simp add: statement_def bind_def tx_call_def zoom_def call_def ow_conn_def)

lemma ow_conn_simps: "pg_Ping ow_conn = (\<lambda>w. (Inr (), w))" "pg_Begin ow_conn = (\<lambda>w. (Inr (ow_Db w), w))"
  "pg_Commit ow_conn = (\<lambda>db w. (Inr (), w\<lparr>ow_Db := db\<rparr>))" "pg_Close ow_conn = (\<lambda>w. w)"
  by (simp_all add: ow_conn_def)

lemma ow_part:
  assumes "ow_Bytes w = replicate (n + k) 61" "0 < n" "n \<le> 40"
  shows "randomTokenPart ow_env n w = (Ok (replicate n (CHR ''z'')), w\<lparr>ow_Bytes := replicate k 61\<rparr>)"
proof -
  have z: "operatorTokenCharset ! (61 mod length operatorTokenCharset) = CHR ''z''" by code_simp
  have "random_loop ow_random fuel n out w = (Ok (out @ replicate n (CHR ''z'')), w\<lparr>ow_Bytes := replicate k 61\<rparr>)"
    if "ow_Bytes w = replicate (n + k) 61" "n \<le> fuel" for fuel n w out using that
  proof (induction n arbitrary: fuel out w)
    case 0
    then show ?case by simp
  next
    case (Suc n)
    then obtain f where f: "fuel = Suc f" by (cases fuel) auto
    have r: "ow_random w = (Inr 61, w\<lparr>ow_Bytes := replicate (n + k) 61\<rparr>)" using Suc.prems by (simp add: ow_random_def)
    show ?case unfolding f random_loop.simps using r z Suc.IH [of "w\<lparr>ow_Bytes := replicate (n + k) 61\<rparr>" f "out @ ''z''"] Suc.prems f
      by (simp add: bind_def map_err_def call_def)
  qed
  from this [OF assms(1), of 40 "[]"] assms(2,3) show ?thesis
    by (simp add: randomTokenPart_def guard_def ow_env_def operatorTokenCharset_def)
qed

lemma ow_env_simps: "pv_lower ow_env = (\<lambda>s. s)" "pv_NewUUID ow_env = (\<lambda>w. (9, w))"
  by (simp_all add: ow_env_def)

lemma ow_parts:
  "randomTokenPart ow_env operatorTokenIDLength \<lparr>ow_Db = db, ow_Bytes = replicate 35 61\<rparr>
     = (Ok (replicate 10 (CHR ''z'')), \<lparr>ow_Db = db, ow_Bytes = replicate 25 61\<rparr>)"
  "randomTokenPart ow_env operatorTokenSecretLength \<lparr>ow_Db = db, ow_Bytes = replicate 25 61\<rparr>
     = (Ok (replicate 22 (CHR ''z'')), \<lparr>ow_Db = db, ow_Bytes = replicate 3 61\<rparr>)"
  using ow_part [of "\<lparr>ow_Db = db, ow_Bytes = replicate 35 61\<rparr>" 10 25] ow_part [of "\<lparr>ow_Db = db, ow_Bytes = replicate 25 61\<rparr>" 22 3]
  by (simp_all add: operatorTokenIDLength_def operatorTokenSecretLength_def)

definition ow_token :: string where
  "ow_token = replicate 10 (CHR ''z'') @ ''-'' @ replicate 22 (CHR ''z'')"

definition ow_key :: db_key where
  "ow_key = operator_key (replicate 10 (CHR ''z'')) (sha256_Sum256 (replicate 22 (CHR ''z''))) 9 500
     (500 + defaultOperatorAccessTokenLifetime) (defaultOperatorAccessTokenLifetime div time_Second) ''tok''"

text \<open>The database after the first run.\<close>

definition ow_provisioned :: op_db where
  "ow_provisioned =
     \<lparr>db_users = [\<lparr>u_id = 9, u_email = ''op@x'', u_username = ''op'', u_name = ''op'', u_hashed_password = ''none'',
        u_created_at = 500, u_updated_at = 500, u_rbac_roles = [''owner''], u_login_type = ''none'', u_status = ''active'',
        u_is_system = True, u_deleted = False\<rparr>],
      db_organizations = [(4, False)],
      db_members = [\<lparr>om_organization_id = 4, om_user_id = 9, om_created_at = 500, om_updated_at = 500, om_roles = [''organization-admin'']\<rparr>],
      db_keys = [ow_key]\<rparr>"

lemma ow_lifetime: "0 < defaultOperatorAccessTokenLifetime" "0 < defaultOperatorAccessTokenLifetime div time_Second"
  by (simp_all add: defaultOperatorAccessTokenLifetime_def time_Minute_def time_Second_def)

lemmas ow_run_simps = bind_def map_err_def guard_def ow_statement tx_call_def zoom_def now_op_def dp_clock_def ow_request_def ow_env_simps
  time_IsZero_def lookupOperatorUser_def insertOperatorUser_def enforceOperatorUser_def enforced_user_def uuid_Nil_def organization_ids_def
  upsertOrganizationMember_def ow_start_def deleteExistingToken_def ow_parts ow_lifetime

lemma ow_first_body:
  "ensure_body ow_env dp_clock (ow_request []) ow_conn \<lparr>tx_world = ow_start, tx_db = ow_Db ow_start\<rparr> =
     (Ok ow_token, \<lparr>tx_world = ow_start\<lparr>ow_Bytes := replicate 3 61\<rparr>, tx_db = ow_provisioned\<rparr>)"
  unfolding ensure_body_def ensureOperatorUser_def find_or_insert_user_def ensureOperatorMemberships_def ensureOperatorToken_def
    rotateOperatorToken_def Let_def ow_token_def ow_provisioned_def ow_key_def
  by (simp add: ow_run_simps del: replicate.simps)

definition ow_after :: op_world where
  "ow_after = \<lparr>ow_Db = ow_provisioned, ow_Bytes = replicate 3 61\<rparr>"

lemma ow_token_split: "splitOperatorToken ow_token = Some (replicate 10 (CHR ''z''), replicate 22 (CHR ''z''))"
  "strings_TrimSpace ow_token = ow_token" "ow_token \<noteq> []"
proof -
  have "token_chars (replicate 10 (CHR ''z''))" "token_chars (replicate 22 (CHR ''z''))"
    by (auto simp: token_chars_def operatorTokenCharset_def)
  then show "splitOperatorToken ow_token = Some (replicate 10 (CHR ''z''), replicate 22 (CHR ''z''))" "strings_TrimSpace ow_token = ow_token"
    unfolding ow_token_def by (rule split_token, rule token_trim)
  show "ow_token \<noteq> []" by (simp add: ow_token_def)
qed

lemma ow_second_body:
  "ensure_body ow_env dp_clock (ow_request ow_token) ow_conn \<lparr>tx_world = ow_after, tx_db = ow_provisioned\<rparr> =
     (Ok ow_token, \<lparr>tx_world = ow_after, tx_db = ow_provisioned\<rparr>)"
proof -
  have t: "strings_TrimSpace ''tok'' \<noteq> []" by code_simp
  show ?thesis
    unfolding ensure_body_def ensureOperatorUser_def find_or_insert_user_def ensureOperatorMemberships_def ensureOperatorToken_def
      existingOperatorTokenStillValid_def Let_def
    by (simp add: ow_run_simps ow_token_split t ow_provisioned_def lookupExistingToken_def ow_key_def operator_key_def del: replicate.simps)
qed

lemma ow_runs:
  "EnsureOperatorToken ow_env (Some (provisioner ow_open dp_clock)) (Some False) (ow_request []) ow_start = (Ok ow_token, ow_after)"
  "EnsureOperatorToken ow_env (Some (provisioner ow_open dp_clock)) (Some False) (ow_request ow_token) ow_after = (Ok ow_token, ow_after)"
proof -
  have v: "ensure_validate (ow_request e) = Ok ()" for e
  proof -
    have "strings_TrimSpace ''postgres'' \<noteq> []" "strings_TrimSpace ''op'' \<noteq> []" "strings_TrimSpace ''op@x'' \<noteq> []" "strings_TrimSpace ''tok'' \<noteq> []"
      by code_simp+
    then show ?thesis using ow_lifetime by (simp add: ensure_validate_def ow_request_def)
  qed
  have o: "ow_open (eot_PostgresURL (ow_request e)) w = (Ok (Some ow_conn), w)" for e w
  proof -
    have "strings_TrimSpace ''postgres'' \<noteq> []" by code_simp
    then show ?thesis by (simp add: ow_open_def openPostgresDatabase_def ow_request_def guard_def bind_def map_err_def call_def)
  qed
  show "EnsureOperatorToken ow_env (Some (provisioner ow_open dp_clock)) (Some False) (ow_request []) ow_start = (Ok ow_token, ow_after)"
    using ow_first_body by (simp add: EnsureOperatorToken_def bind_def v with_database_def o map_err_def call_def ow_conn_simps deferred_def in_transaction_def
        ow_after_def ow_start_def)
  show "EnsureOperatorToken ow_env (Some (provisioner ow_open dp_clock)) (Some False) (ow_request ow_token) ow_after = (Ok ow_token, ow_after)"
    using ow_second_body by (simp add: EnsureOperatorToken_def bind_def v with_database_def o map_err_def call_def ow_conn_simps deferred_def in_transaction_def
        ow_after_def)
qed

theorem operator_token_transaction_witness:
  "transactional ow_env ow_open dp_clock ow_Db \<and>
   EnsureOperatorToken ow_env (Some (provisioner ow_open dp_clock)) (Some False) (ow_request []) ow_start = (Ok ow_token, ow_after) \<and>
   (\<exists>uid now. lookupOperatorUser (pv_lower ow_env) ''op'' (ow_Db ow_after) = Some uid \<and> admin_of uid 4 (ow_Db ow_after) \<and>
      token_valid uid ''tok'' now ow_token (ow_Db ow_after))"
proof -
  have "4 \<in> set (organization_ids (ow_Db ow_start))" by (simp add: organization_ids_def ow_start_def)
  moreover have "eot_OperatorUsername (ow_request []) = ''op''" "eot_TokenName (ow_request []) = ''tok''" by (simp_all add: ow_request_def)
  ultimately show ?thesis
    using operator_token_transaction [OF ow_transactional ow_runs(1)] ow_transactional ow_runs(1) unfolding res.case by metis
qed

theorem operator_token_stable_witness:
  "\<exists>tok2 w2. EnsureOperatorToken ow_env (Some (provisioner ow_open dp_clock)) (Some False) (ow_request ow_token) ow_after = (Ok tok2, w2) \<and>
     tok2 = ow_token \<and> db_keys (ow_Db w2) = db_keys (ow_Db ow_after)"
proof -
  have req: "(ow_request [])\<lparr>eot_ExistingToken := ow_token\<rparr> = ow_request ow_token" by (simp add: ow_request_def)
  have valid: "token_valid uid (eot_TokenName (ow_request [])) (fst (dp_clock v)) ow_token (ow_Db ow_after)"
    if "token_valid uid (eot_TokenName (ow_request [])) now ow_token (ow_Db ow_after)" for uid now and v :: op_world
    using that ow_lifetime
    by (auto simp: token_valid_def ow_token_split dp_clock_def ow_after_def ow_provisioned_def lookupExistingToken_def ow_key_def operator_key_def
        simp del: replicate.simps split: if_splits)
  from operator_token_stable [OF ow_transactional ow_transactional ow_runs(1) _ valid, unfolded req, OF ow_runs(2)] ow_runs(2)
  show ?thesis by blast
qed

definition ow_revocation :: RevokeOperatorTokenRequest where
  "ow_revocation = \<lparr>rot_PostgresURL = ''postgres'', rot_OperatorUsername = ''op'', rot_TokenName = ''tok''\<rparr>"

theorem operator_token_revoked_witness:
  "fst (RevokeOperatorToken ow_env (Some (provisioner ow_open dp_clock)) (Some False) ow_revocation ow_after) = Ok () \<and>
   \<not> token_valid 9 ''tok'' 500 ow_token (ow_Db (snd (RevokeOperatorToken ow_env (Some (provisioner ow_open dp_clock)) (Some False) ow_revocation ow_after)))"
proof -
  let ?run = "RevokeOperatorToken ow_env (Some (provisioner ow_open dp_clock)) (Some False) ow_revocation ow_after"
  have t: "strings_TrimSpace ''postgres'' \<noteq> []" "strings_TrimSpace ''op'' \<noteq> []" "strings_TrimSpace ''tok'' \<noteq> []" by code_simp+
  have run: "?run = (Ok (), ow_after\<lparr>ow_Db := ow_provisioned\<lparr>db_keys := []\<rparr>\<rparr>)"
    unfolding RevokeOperatorToken_def with_database_def in_transaction_def revokeOperatorToken_def ow_open_def openPostgresDatabase_def
    by (simp add: t bind_def revoke_validate_def ow_revocation_def guard_def map_err_def call_def deferred_def ow_statement ow_conn_simps)
       (simp add: ow_after_def ow_provisioned_def deleteOperatorTokenByName_def ow_key_def operator_key_def ow_env_simps)
  have "\<not> token_valid 9 ''tok'' 500 ow_token (ow_Db (ow_after\<lparr>ow_Db := ow_provisioned\<lparr>db_keys := []\<rparr>\<rparr>))"
    using operator_token_revoked [OF ow_transactional run] by (auto simp: ow_provisioned_def ow_revocation_def ow_env_simps)
  then show ?thesis by (simp add: run)
qed

end
