(* ===== verification/Go_Time.thy ===== *)
theory Go_Time
  imports Go_Std
begin

text \<open>
  Formatting of times as in package time, for the layouts RFC3339 and RFC3339Nano in UTC. A
  \<open>gotime\<close> counts nanoseconds from January 1, year 1; \<open>civil\<close> is the proleptic Gregorian
  calendar by cycles of 400, 100, 4 and 1 years. The lemmas show that the calendar is
  inverted by counting days, so that a formatted date determines the day.
\<close>

section \<open>Definitions\<close>

definition is_leap :: "int \<Rightarrow> bool" where
  "is_leap y = (4 dvd y \<and> (\<not> 100 dvd y \<or> 400 dvd y))"

text \<open>The year and the day of the year, both counted as in Go: day 0 is January 1, year 1.\<close>

definition year_of :: "int \<Rightarrow> int \<times> int" where
  "year_of days =
     (let n400 = days div 146097; d400 = days mod 146097;
          n100 = min 3 (d400 div 36524); d100 = d400 - n100 * 36524;
          n4 = d100 div 1461; d4 = d100 mod 1461;
          n1 = min 3 (d4 div 365)
      in (400 * n400 + 100 * n100 + 4 * n4 + n1 + 1, d4 - n1 * 365))"

definition month_lengths :: "int \<Rightarrow> int list" where
  "month_lengths y = [31, if is_leap y then 29 else 28, 31, 30, 31, 30, 31, 31, 30, 31, 30, 31]"

fun month_of :: "int list \<Rightarrow> int \<Rightarrow> int \<Rightarrow> int \<times> int" where
  "month_of [] m d = (m, d)"
| "month_of (l # ls) m d = (if d < l then (m, d) else month_of ls (m + 1) (d - l))"

definition civil :: "int \<Rightarrow> int \<times> int \<times> int" where
  "civil days =
     (case year_of days of (y, yd) \<Rightarrow> case month_of (month_lengths y) 1 yd of (m, d) \<Rightarrow> (y, m, d + 1))"

text \<open>\<open>appendInt\<close>: at least \<open>w\<close> digits, with leading zeros.\<close>

definition append_int :: "int \<Rightarrow> nat \<Rightarrow> string" where
  "append_int x w =
     (let ds = format_nat (nat \<bar>x\<bar>) in
      (if x < 0 then ''-'' else []) @ replicate (w - length ds) (CHR ''0'') @ ds)"

definition format_seconds :: "gotime \<Rightarrow> string" where
  "format_seconds t =
     (let secs = t div time_Second; days = secs div 86400; s = secs mod 86400 in
      case civil days of (y, m, d) \<Rightarrow>
        append_int y 4 @ ''-'' @ append_int m 2 @ ''-'' @ append_int d 2 @ ''T'' @
        append_int (s div 3600) 2 @ '':'' @ append_int (s div 60 mod 60) 2 @ '':'' @ append_int (s mod 60) 2)"

definition format_RFC3339 :: "gotime \<Rightarrow> string" where
  "format_RFC3339 t = format_seconds t @ ''Z''"

text \<open>The fraction of a second in nine digits, without trailing zeros, and nothing when it is zero.\<close>

definition format_RFC3339Nano :: "gotime \<Rightarrow> string" where
  "format_RFC3339Nano t =
     (let frac = rev (dropWhile (\<lambda>c. c = CHR ''0'') (rev (append_int (t mod time_Second) 9))) in
      format_seconds t @ (if frac = [] then [] else CHR ''.'' # frac) @ ''Z'')"

section \<open>Lemmas\<close>

text \<open>The days before a year and before a month: the inverse of \<open>civil\<close>.\<close>

definition days_before_year :: "int \<Rightarrow> int" where
  "days_before_year y = 365 * (y - 1) + (y - 1) div 4 - (y - 1) div 100 + (y - 1) div 400"

definition days_of :: "int \<Rightarrow> int \<Rightarrow> int \<Rightarrow> int" where
  "days_of y m d = days_before_year y + sum_list (take (nat (m - 1)) (month_lengths y)) + (d - 1)"

lemma century_bounds:
  fixes d :: int
  assumes "0 \<le> d" "d < 146097"
  shows "0 \<le> min 3 (d div 36524)" "min 3 (d div 36524) \<le> 3" "0 \<le> d - min 3 (d div 36524) * 36524"
    "d - min 3 (d div 36524) * 36524 < (if min 3 (d div 36524) = 3 then 36525 else 36524)"
  using assms by (auto simp: min_def pos_imp_zdiv_nonneg_iff)

lemma year_in_cycle_bounds:
  fixes d :: int
  assumes "0 \<le> d" "d < 1461"
  shows "0 \<le> min 3 (d div 365)" "min 3 (d div 365) \<le> 3" "0 \<le> d - min 3 (d div 365) * 365"
    "d - min 3 (d div 365) * 365 < (if min 3 (d div 365) = 3 then 366 else 365)"
  using assms by (auto simp: min_def pos_imp_zdiv_nonneg_iff)

lemma year_quotients:
  fixes n400 n100 n4 n1 :: int
  assumes "0 \<le> n100" "n100 \<le> 3" "0 \<le> n4" "n4 \<le> 24" "0 \<le> n1" "n1 \<le> 3"
    and "x = 400 * n400 + 100 * n100 + 4 * n4 + n1"
  shows "x div 400 = n400" "x div 100 = 4 * n400 + n100" "x div 4 = 100 * n400 + 25 * n100 + n4"
  using assms int_div_pos_eq [of x 400 n400 "100 * n100 + 4 * n4 + n1"]
    int_div_pos_eq [of x 100 "4 * n400 + n100" "4 * n4 + n1"]
    int_div_pos_eq [of x 4 "100 * n400 + 25 * n100 + n4" n1] by simp_all

lemma year_of_bounds:
  assumes "year_of days = (y, yd)"
  shows "days_before_year y + yd = days" "0 \<le> yd" "yd < (if is_leap y then 366 else 365)"
proof -
  define n400 where "n400 = days div 146097"
  define d400 where "d400 = days mod 146097"
  define n100 where "n100 = min 3 (d400 div 36524)"
  define d100 where "d100 = d400 - n100 * 36524"
  define n4 where "n4 = d100 div 1461"
  define d4 where "d4 = d100 mod 1461"
  define n1 where "n1 = min 3 (d4 div 365)"
  have y: "y = 400 * n400 + 100 * n100 + 4 * n4 + n1 + 1" and yd: "yd = d4 - n1 * 365"
    using assms unfolding year_of_def Let_def n1_def n4_def d4_def d100_def n100_def n400_def d400_def
    by (simp_all only: prod.inject)
  have d400: "0 \<le> d400" "d400 < 146097" "days = 146097 * n400 + d400" by (simp_all add: d400_def n400_def)
  have n100: "0 \<le> n100" "n100 \<le> 3" using century_bounds(1,2) [OF d400(1,2)] by (simp_all add: n100_def)
  have d100: "0 \<le> d100" "d100 < (if n100 = 3 then 36525 else 36524)" "d400 = 36524 * n100 + d100"
    using century_bounds(3,4) [OF d400(1,2)] by (simp_all add: d100_def n100_def)
  have d4: "0 \<le> d4" "d4 < 1461" "d100 = 1461 * n4 + d4" by (simp_all add: d4_def n4_def)
  have n4: "0 \<le> n4" "n4 \<le> 24"
  proof -
    have "d100 < 36525" using d100(2) by (cases "n100 = 3") simp_all
    then show "0 \<le> n4" "n4 \<le> 24" using d100(1) d4 by linarith+
  qed
  have n1: "0 \<le> n1" "n1 \<le> 3" "0 \<le> yd" "yd < (if n1 = 3 then 366 else 365)"
    unfolding yd n1_def by (rule year_in_cycle_bounds [OF d4(1,2)])+
  have "y - 1 = 400 * n400 + 100 * n100 + 4 * n4 + n1" using y by simp
  note div = year_quotients [OF n100 n4 n1(1,2) this]
  show "days_before_year y + yd = days" unfolding days_before_year_def div unfolding d400(3) d100(3) d4(3) y yd by (simp add: algebra_simps)
  show "0 \<le> yd" by (rule n1)
  show "yd < (if is_leap y then 366 else 365)"
  proof (cases "n1 = 3 \<and> yd = 365")
    case True
    then have y4: "y = 4 * (100 * n400 + 25 * n100 + n4 + 1)" using y by simp
    have "n100 = 3" if "n4 = 24"
    proof (rule ccontr)
      assume "n100 \<noteq> 3"
      then have "d100 < 36524" using d100(2) by simp
      moreover have "d4 = 1460" using True yd by simp
      ultimately show False using that d4(3) by simp
    qed
    moreover have "400 dvd y" if "n4 = 24" "n100 = 3" using that y4 by (intro dvdI [of _ _ "n400 + 1"]) simp
    moreover have "\<not> 100 dvd y" if "n4 \<noteq> 24"
    proof -
      have "y mod 100 = 4 * (n4 + 1)"
        by (rule int_mod_pos_eq [where q = "4 * n400 + n100"]) (use that n4 y4 in simp_all)
      then show ?thesis using n4 by (simp add: dvd_eq_mod_eq_0)
    qed
    moreover have "4 dvd y" unfolding y4 by (rule dvd_triv_left)
    ultimately have "is_leap y" unfolding is_leap_def by blast
    with True show ?thesis by simp
  next
    case False
    then show ?thesis using n1 by (auto split: if_splits)
  qed
qed

lemma month_of_bounds:
  assumes "month_of ls m d = (m', d')" "0 \<le> d" "d < sum_list ls"
  shows "m \<le> m'" "m' < m + int (length ls)" "0 \<le> d'" "d' < ls ! nat (m' - m)"
    "sum_list (take (nat (m' - m)) ls) + d' = d"
  using assms
proof (induction ls arbitrary: m d)
  case (Cons l ls)
  have step: "nat (m' - k) = Suc (nat (m' - (k + 1)))" if "k + 1 \<le> m'" for k using that by simp
  { case 1 then show ?case using Cons.IH(1) [of "m + 1" "d - l"] by (fastforce split: if_splits) }
  { case 2 then show ?case using Cons.IH(2) [of "m + 1" "d - l"] by (fastforce split: if_splits) }
  { case 3 then show ?case using Cons.IH(3) [of "m + 1" "d - l"] by (fastforce split: if_splits) }
  { case 4 show ?case
    proof (cases "d < l")
      case False
      then have run: "month_of ls (m + 1) (d - l) = (m', d')" "0 \<le> d - l" "d - l < sum_list ls" using 4 by auto
      show ?thesis using Cons.IH(4) [OF run] step [OF Cons.IH(1) [OF run]] by simp
    qed (use 4 in auto) }
  { case 5 show ?case
    proof (cases "d < l")
      case False
      then have run: "month_of ls (m + 1) (d - l) = (m', d')" "0 \<le> d - l" "d - l < sum_list ls" using 5 by auto
      show ?thesis using Cons.IH(5) [OF run] step [OF Cons.IH(1) [OF run]] by simp
    qed (use 5 in auto) }
qed auto

lemma month_lengths_sum: "sum_list (month_lengths y) = (if is_leap y then 366 else 365)"
  by (simp add: month_lengths_def)

text \<open>\<open>civil\<close> gives a month of the year and a day of that month, and loses nothing.\<close>

lemma civil_valid:
  assumes "civil days = (y, m, d)"
  shows "1 \<le> m" "m \<le> 12" "1 \<le> d" "d \<le> month_lengths y ! nat (m - 1)" "days_of y m d = days"
proof -
  obtain yd d0 where yr: "year_of days = (y, yd)" and mo: "month_of (month_lengths y) 1 yd = (m, d0)" and d: "d = d0 + 1"
    using assms by (auto simp: civil_def split: prod.splits)
  have yd: "days_before_year y + yd = days" "0 \<le> yd" "yd < sum_list (month_lengths y)"
    unfolding month_lengths_sum by (rule year_of_bounds [OF yr])+
  from month_of_bounds [OF mo yd(2,3)]
  show "1 \<le> m" "m \<le> 12" "1 \<le> d" "d \<le> month_lengths y ! nat (m - 1)" "days_of y m d = days"
    using yd(1) by (simp_all add: d month_lengths_def days_of_def)
qed

lemma digit_chars:
  "char_of (48 :: nat) = CHR ''0''" "char_of (49 :: nat) = CHR ''1''" "char_of (50 :: nat) = CHR ''2''"
  "char_of (51 :: nat) = CHR ''3''" "char_of (52 :: nat) = CHR ''4''" "char_of (53 :: nat) = CHR ''5''"
  "char_of (54 :: nat) = CHR ''6''" "char_of (55 :: nat) = CHR ''7''" "char_of (56 :: nat) = CHR ''8''"
  "char_of (57 :: nat) = CHR ''9''"
  by (simp_all add: char_of_def bit_0)

lemmas digits = append_int_def Let_def format_nat.simps [of "numeral n" for n] format_nat.simps [of 0]
  format_nat.simps [of "Suc 0"] digit_chars

lemma civil_dates: "civil 719162 = (1970, 1, 1)" "civil 730178 = (2000, 2, 29)"
  by (simp_all add: civil_def year_of_def month_lengths_def is_leap_def)

lemma format_unix_epoch: "format_RFC3339 unix_epoch = ''1970-01-01T00:00:00Z''"
  by (simp add: format_RFC3339_def format_seconds_def unix_epoch_def time_Second_def civil_dates digits)

lemma format_leap_day:
  "format_RFC3339Nano (unix_epoch + 951827696 * time_Second + 120000000) = ''2000-02-29T12:34:56.12Z''"
  by (simp add: format_RFC3339Nano_def format_seconds_def unix_epoch_def time_Second_def civil_dates digits)

end
