(* ===== verification/Mcp_Tools.thy ===== *)
theory Mcp_Tools
  imports Control_Plane_Names Go_Time
begin

text \<open>
  The tools of the MCP server (internal/app/mcpapp/tools.go and server.go): inputs, outputs,
  helpers, one definition per tool, and \<open>call_tool\<close> for the registered handlers. The
  controller-runtime client and the clientset are records of calls over an arbitrary world;
  \<open>Update\<close> answers with the object the API server returns, which the client decodes into its
  argument. \<open>sort.Slice\<close> is modelled by a stable sort: the orders are total on distinct pod
  names of a namespace and on distinct condition types.
\<close>

section \<open>Definitions\<close>

subsection \<open>Constants\<close>

definition defaultPodLogTailLines :: int where "defaultPodLogTailLines = 2000"
definition maxPodLogBytes :: int where "maxPodLogBytes = 2 ^ 20"
definition podLogTruncatedSuffix :: string where "podLogTruncatedSuffix = [CHR 0x0A] @ ''(truncated)''"
definition defaultEventListLimit :: int where "defaultEventListLimit = 200"
definition maxEventListLimit :: int where "maxEventListLimit = 1000"
definition defaultControlPlanePodListLimit :: int where "defaultControlPlanePodListLimit = 100"
definition maxControlPlanePodListLimit :: int where "maxControlPlanePodListLimit = 500"
definition serverImplementationVersion :: string where "serverImplementationVersion = ''dev''"

subsection \<open>Objects the tools read\<close>

record ContainerStatus =
  cst_Name :: string
  cst_Ready :: bool

record Pod =
  pd_meta :: KMeta
  pd_Containers :: "Container list"
  pd_NodeName :: string
  pd_Phase :: string
  pd_StartTime :: "gotime option"
  pd_ContainerStatuses :: "ContainerStatus list"

record DeploymentCondition =
  dc_Type :: string
  dc_Status :: string
  dc_LastUpdateTime :: gotime
  dc_LastTransitionTime :: gotime
  dc_Reason :: string
  dc_Message :: string

text \<open>A deployment with the status the controllers do not read.\<close>

record ObservedDeployment = Deployment +
  dep_UpdatedReplicas :: int
  dep_AvailableReplicas :: int
  dep_UnavailableReplicas :: int
  dep_ObservedGeneration :: int
  dep_Conditions :: "DeploymentCondition list"

datatype int_or_string = IntVal int | StrVal string

definition int_or_string_String :: "int_or_string \<Rightarrow> string" where
  "int_or_string_String v = (case v of IntVal i \<Rightarrow> strconv_FormatInt i | StrVal s \<Rightarrow> s)"

record ObservedPort =
  op_Name :: string
  op_Port :: int
  op_TargetPort :: int_or_string
  op_NodePort :: int
  op_Protocol :: string

record ObservedService =
  os_meta :: KMeta
  os_Type :: string
  os_ClusterIP :: string
  os_Ports :: "ObservedPort list"

record KEvent =
  evt_Type :: string
  evt_Reason :: string
  evt_Message :: string
  evt_Count :: int
  evt_EventTime :: gotime
  evt_LastTimestamp :: gotime
  evt_FirstTimestamp :: gotime

record EventList =
  evl_Items :: "KEvent list"
  evl_Continue :: string

record EventListOptions =
  elo_Limit :: int
  elo_Continue :: string
  elo_FieldSelector :: string

record PodLogOptions =
  plo_Container :: string
  plo_TailLines :: int

text \<open>A log stream: the chunks its reads return, then the end of the file (\<open>None\<close>) or an error.\<close>

record 'b log_stream =
  ls_Chunks :: "string list"
  ls_End :: "error option"
  ls_Close :: "('b, unit) call"

subsection \<open>Clients\<close>

text \<open>The namespace of a list call is \<open>None\<close> for all namespaces.\<close>

record 'b mcp_client =
  mc_ListControlPlanes :: "string option \<Rightarrow> ('b, ControlPlaneObject list) call"
  mc_GetControlPlane :: "string \<Rightarrow> string \<Rightarrow> ('b, ControlPlaneObject) call"
  mc_ListPods :: "string \<Rightarrow> string_map \<Rightarrow> ('b, Pod list) call"
  mc_GetDeployment :: "string \<Rightarrow> string \<Rightarrow> ('b, ObservedDeployment) call"
  mc_GetService :: "string \<Rightarrow> string \<Rightarrow> ('b, ObservedService) call"
  mc_ListWorkspaces :: "string option \<Rightarrow> ('b, CoderWorkspace list) call"
  mc_GetWorkspace :: "string \<Rightarrow> string \<Rightarrow> ('b, CoderWorkspace) call"
  mc_UpdateWorkspace :: "CoderWorkspace \<Rightarrow> ('b, CoderWorkspace) call"
  mc_ListTemplates :: "string option \<Rightarrow> ('b, CoderTemplate list) call"
  mc_GetTemplate :: "string \<Rightarrow> string \<Rightarrow> ('b, CoderTemplate) call"
  mc_UpdateTemplate :: "CoderTemplate \<Rightarrow> ('b, CoderTemplate) call"

record 'b clientset =
  ks_ListEvents :: "string \<Rightarrow> EventListOptions \<Rightarrow> ('b, EventList) call"
  ks_StreamLogs :: "string \<Rightarrow> string \<Rightarrow> PodLogOptions \<Rightarrow> ('b, 'b log_stream) call"
  ks_ListNamespaces :: "int \<Rightarrow> ('b, unit) call"

subsection \<open>Inputs and outputs\<close>

text \<open>
  The three list inputs have one field, the inputs that name an object two: one record each.
  An output with a single list or string is that list or string.
\<close>

record listInput =
  li_Namespace :: string

record getInput =
  gi_Namespace :: string
  gi_Name :: string

record controlPlaneSummary =
  cps_Name :: string
  cps_Namespace :: string
  cps_Phase :: string
  cps_ReadyReplicas :: int
  cps_URL :: string

record controlPlaneConditionSummary =
  ccs_Type :: string
  ccs_Status :: string
  ccs_Reason :: string
  ccs_Message :: msg
  ccs_ObservedGeneration :: int
  ccs_LastTransitionTime :: string

record getControlPlaneStatusOutput =
  gcs_ObservedGeneration :: int
  gcs_ReadyReplicas :: int
  gcs_URL :: string
  gcs_Phase :: string
  gcs_Conditions :: "controlPlaneConditionSummary list"

record listControlPlanePodsInput =
  lpi_Namespace :: string
  lpi_Name :: string
  lpi_Limit :: int

record controlPlanePodSummary =
  pps_Name :: string
  pps_Namespace :: string
  pps_Phase :: string
  pps_NodeName :: string
  pps_ReadyContainers :: int
  pps_TotalContainers :: int
  pps_StartTime :: string

record listControlPlanePodsOutput =
  lpo_Items :: "controlPlanePodSummary list"
  lpo_Truncated :: bool

record deploymentConditionSummary =
  dcs_Type :: string
  dcs_Status :: string
  dcs_Reason :: string
  dcs_Message :: string
  dcs_LastUpdateTime :: string
  dcs_LastTransitionTime :: string

record getControlPlaneDeploymentStatusOutput =
  gdo_Name :: string
  gdo_Namespace :: string
  gdo_Replicas :: int
  gdo_ReadyReplicas :: int
  gdo_UpdatedReplicas :: int
  gdo_AvailableReplicas :: int
  gdo_UnavailableReplicas :: int
  gdo_ObservedGeneration :: int
  gdo_Conditions :: "deploymentConditionSummary list"

record servicePortSummary =
  sps_Name :: string
  sps_Port :: int
  sps_TargetPort :: string
  sps_NodePort :: int
  sps_Protocol :: string

record getServiceStatusOutput =
  gso_Name :: string
  gso_Namespace :: string
  gso_Type :: string
  gso_ClusterIP :: string
  gso_Ports :: "servicePortSummary list"
  gso_Annotations :: "string_map option"

text \<open>\<open>workspaceSummary\<close> and \<open>templateSummary\<close> have the same fields, as have their inputs and outputs.\<close>

record resourceSummary =
  rs_Name :: string
  rs_Namespace :: string
  rs_Running :: bool
  rs_AutoShutdown :: string

record setRunningInput =
  sri_Namespace :: string
  sri_Name :: string
  sri_Running :: bool

record setRunningOutput =
  sro_Summary :: resourceSummary
  sro_Updated :: bool

record getEventsInput =
  gei_Namespace :: string
  gei_Name :: string
  gei_Kind :: string
  gei_Limit :: int
  gei_Continue :: string

record eventSummary =
  evs_Type :: string
  evs_Reason :: string
  evs_Message :: string
  evs_Count :: int
  evs_LastTimestamp :: string

record getEventsOutput =
  geo_Items :: "eventSummary list"
  geo_Continue :: string

record getPodLogsInput =
  gpi_Namespace :: string
  gpi_Name :: string
  gpi_TailLines :: "int option"
  gpi_LimitBytes :: "int option"
  gpi_Container :: string

record checkHealthOutput =
  cho_Status :: string
  cho_Version :: string

subsection \<open>Helpers\<close>

definition controlPlaneWorkloadLabels :: "string \<Rightarrow> string_map" where
  "controlPlaneWorkloadLabels name =
     [(''app.kubernetes.io/instance'', name), (''app.kubernetes.io/managed-by'', ''coder-k8s''),
      (''app.kubernetes.io/name'', ''coder-control-plane'')]"

definition formatTime :: "gotime \<Rightarrow> string" where
  "formatTime value = (if time_IsZero value then [] else format_RFC3339 value)"

definition formatOptionalTime :: "gotime option \<Rightarrow> string" where
  "formatOptionalTime value =
     (case value of None \<Rightarrow> [] | Some t \<Rightarrow> if time_IsZero t then [] else format_RFC3339 t)"

definition eventTimestamp :: "KEvent \<Rightarrow> string" where
  "eventTimestamp event =
     (if \<not> time_IsZero (evt_EventTime event) then format_RFC3339 (evt_EventTime event)
      else if \<not> time_IsZero (evt_LastTimestamp event) then format_RFC3339 (evt_LastTimestamp event)
      else if \<not> time_IsZero (evt_FirstTimestamp event) then format_RFC3339 (evt_FirstTimestamp event)
      else [])"

definition workspaceToSummary :: "CoderWorkspace option \<Rightarrow> resourceSummary result" where
  "workspaceToSummary workspace =
     (case workspace of None \<Rightarrow> Panic (Lit ''assertion failed: workspace must not be nil'')
      | Some ws \<Rightarrow> Ok \<lparr>rs_Name = Name (cw_meta ws), rs_Namespace = Namespace (cw_meta ws),
          rs_Running = wsp_Running (cw_spec ws), rs_AutoShutdown = formatOptionalTime (wst_AutoShutdown (cw_status ws))\<rparr>)"

definition templateToSummary :: "CoderTemplate option \<Rightarrow> resourceSummary result" where
  "templateToSummary template =
     (case template of None \<Rightarrow> Panic (Lit ''assertion failed: template must not be nil'')
      | Some tm \<Rightarrow> Ok \<lparr>rs_Name = Name (ct_meta tm), rs_Namespace = Namespace (ct_meta tm),
          rs_Running = tsp_Running (ct_spec tm), rs_AutoShutdown = formatOptionalTime (tst_AutoShutdown (ct_status tm))\<rparr>)"

definition desiredReplicas :: "int option \<Rightarrow> int" where
  "desiredReplicas replicas = (case replicas of None \<Rightarrow> 0 | Some n \<Rightarrow> n)"

definition summarizeMetav1Conditions :: "Condition list \<Rightarrow> controlPlaneConditionSummary list" where
  "summarizeMetav1Conditions cs =
     map (\<lambda>c. \<lparr>ccs_Type = c_Type c, ccs_Status = c_Status c, ccs_Reason = c_Reason c, ccs_Message = c_Message c,
        ccs_ObservedGeneration = c_ObservedGeneration c,
        ccs_LastTransitionTime =
          (if time_IsZero (c_LastTransitionTime c) then [] else format_RFC3339Nano (c_LastTransitionTime c))\<rparr>) cs"

definition sanitizeControlPlanePodListLimit :: "int \<Rightarrow> int" where
  "sanitizeControlPlanePodListLimit limit =
     (if limit \<le> 0 then defaultControlPlanePodListLimit
      else if limit > maxControlPlanePodListLimit then maxControlPlanePodListLimit else limit)"

definition safeInt32Count :: "int \<Rightarrow> int result" where
  "safeInt32Count v =
     (if v < 0 then Err (assertion ''count must not be negative'')
      else if v > 2 ^ 31 - 1
      then Err (ErrorString (Fmt ''assertion failed: count %d exceeds int32 max %d'' [ArgD v, ArgD (2 ^ 31 - 1)]))
      else Ok v)"

definition cloneStringMap :: "string_map \<Rightarrow> string_map option" where
  "cloneStringMap source = (if source = [] then None else Some source)"

text \<open>\<open>int32\<close> arithmetic wraps.\<close>

definition wrap32 :: "int \<Rightarrow> int" where
  "wrap32 x = (x + 2 ^ 31) mod 2 ^ 32 - 2 ^ 31"

definition required :: "string \<Rightarrow> string \<Rightarrow> ('b, 'a) op \<Rightarrow> ('b, 'a) op" where
  "required ns name m =
     guard (ns \<noteq> []) (ErrorString (Lit ''namespace is required'')) (
     guard (name \<noteq> []) (ErrorString (Lit ''name is required'')) m)"

definition object_err :: "string \<Rightarrow> string \<Rightarrow> string \<Rightarrow> error \<Rightarrow> error" where
  "object_err what ns name = WrapError what [ArgS ns, ArgS name]"

subsection \<open>Control planes\<close>

definition in_namespace :: "string \<Rightarrow> string option" where
  "in_namespace ns = (if ns \<noteq> [] then Some ns else None)"

definition list_control_planes :: "'b mcp_client \<Rightarrow> listInput \<Rightarrow> ('b, controlPlaneSummary list) op" where
  "list_control_planes c input =
     bind (map_err (WrapError ''list CoderControlPlane resources: %w'' [])
             (call (mc_ListControlPlanes c (in_namespace (li_Namespace input))))) (\<lambda>items.
     ret (map (\<lambda>cp. \<lparr>cps_Name = m_Name (co_meta cp), cps_Namespace = m_Namespace (co_meta cp),
        cps_Phase = ct_Phase (co_Status cp), cps_ReadyReplicas = ct_ReadyReplicas (co_Status cp),
        cps_URL = ct_URL (co_Status cp)\<rparr>) items))"

definition get_control_plane_status :: "'b mcp_client \<Rightarrow> getInput \<Rightarrow> ('b, getControlPlaneStatusOutput) op" where
  "get_control_plane_status c input =
     required (gi_Namespace input) (gi_Name input) (
     bind (map_err (object_err ''get CoderControlPlane %s/%s: %w'' (gi_Namespace input) (gi_Name input))
             (call (mc_GetControlPlane c (gi_Namespace input) (gi_Name input)))) (\<lambda>cp.
     ret \<lparr>gcs_ObservedGeneration = ct_ObservedGeneration (co_Status cp), gcs_ReadyReplicas = ct_ReadyReplicas (co_Status cp),
        gcs_URL = ct_URL (co_Status cp), gcs_Phase = ct_Phase (co_Status cp),
        gcs_Conditions = summarizeMetav1Conditions (ct_Conditions (co_Status cp))\<rparr>))"

definition pod_summary :: "Pod \<Rightarrow> controlPlanePodSummary result" where
  "pod_summary pod =
     (let readyContainers = wrap32 (int (length (filter cst_Ready (pd_ContainerStatuses pod)))) in
      rbind (safeInt32Count (int (length (pd_Containers pod)))) (\<lambda>specContainers.
      rbind (if specContainers = 0 then safeInt32Count (int (length (pd_ContainerStatuses pod))) else Ok specContainers)
        (\<lambda>totalContainers.
      Ok \<lparr>pps_Name = m_Name (pd_meta pod), pps_Namespace = m_Namespace (pd_meta pod), pps_Phase = pd_Phase pod,
          pps_NodeName = pd_NodeName pod, pps_ReadyContainers = readyContainers, pps_TotalContainers = totalContainers,
          pps_StartTime = formatOptionalTime (pd_StartTime pod)\<rparr>)))"

fun pod_loop :: "int \<Rightarrow> int \<Rightarrow> Pod list \<Rightarrow> controlPlanePodSummary list \<Rightarrow> listControlPlanePodsOutput result" where
  "pod_loop limit i [] items = Ok \<lparr>lpo_Items = items, lpo_Truncated = False\<rparr>"
| "pod_loop limit i (pod # pods) items =
     (if i \<ge> limit then Ok \<lparr>lpo_Items = items, lpo_Truncated = True\<rparr>
      else rbind (pod_summary pod) (\<lambda>s. pod_loop limit (i + 1) pods (items @ [s])))"

definition listControlPlanePods ::
    "'b mcp_client option \<Rightarrow> listControlPlanePodsInput \<Rightarrow> ('b, listControlPlanePodsOutput) op" where
  "listControlPlanePods k8sClient input =
     non_nil k8sClient (assertion ''Kubernetes client must not be nil'') (\<lambda>c.
     required (lpi_Namespace input) (lpi_Name input) (
     let labels = controlPlaneWorkloadLabels (lpi_Name input) in
     guard (labels \<noteq> []) (assertion ''control plane workload labels must not be empty'') (
     bind (map_err (object_err ''list control plane pods for %s/%s: %w'' (lpi_Namespace input) (lpi_Name input))
             (call (mc_ListPods c (lpi_Namespace input) labels))) (\<lambda>pods.
     let items = sort_key (\<lambda>p. (m_Name (pd_meta p), m_Namespace (pd_meta p))) pods;
         limit = sanitizeControlPlanePodListLimit (lpi_Limit input) in
     guard (limit > 0) (assertion ''pod list limit must be positive'') (
     lift (pod_loop limit 0 items []))))))"

definition getControlPlaneDeploymentStatus ::
    "'b mcp_client option \<Rightarrow> getInput \<Rightarrow> ('b, getControlPlaneDeploymentStatusOutput) op" where
  "getControlPlaneDeploymentStatus k8sClient input =
     non_nil k8sClient (assertion ''Kubernetes client must not be nil'') (\<lambda>c.
     required (gi_Namespace input) (gi_Name input) (
     bind (map_err (object_err ''get deployment %s/%s: %w'' (gi_Namespace input) (gi_Name input))
             (call (mc_GetDeployment c (gi_Namespace input) (gi_Name input)))) (\<lambda>deployment.
     let conditions = map (\<lambda>cond. \<lparr>dcs_Type = dc_Type cond, dcs_Status = dc_Status cond, dcs_Reason = dc_Reason cond,
            dcs_Message = dc_Message cond, dcs_LastUpdateTime = formatTime (dc_LastUpdateTime cond),
            dcs_LastTransitionTime = formatTime (dc_LastTransitionTime cond)\<rparr>) (dep_Conditions deployment) in
     ret \<lparr>gdo_Name = m_Name (dep_meta deployment), gdo_Namespace = m_Namespace (dep_meta deployment),
        gdo_Replicas = desiredReplicas (dep_Replicas deployment), gdo_ReadyReplicas = dep_ReadyReplicas deployment,
        gdo_UpdatedReplicas = dep_UpdatedReplicas deployment, gdo_AvailableReplicas = dep_AvailableReplicas deployment,
        gdo_UnavailableReplicas = dep_UnavailableReplicas deployment,
        gdo_ObservedGeneration = dep_ObservedGeneration deployment,
        gdo_Conditions = sort_key dcs_Type conditions\<rparr>)))"

definition getServiceStatus :: "'b mcp_client option \<Rightarrow> getInput \<Rightarrow> ('b, getServiceStatusOutput) op" where
  "getServiceStatus k8sClient input =
     non_nil k8sClient (assertion ''Kubernetes client must not be nil'') (\<lambda>c.
     required (gi_Namespace input) (gi_Name input) (
     bind (map_err (object_err ''get service %s/%s: %w'' (gi_Namespace input) (gi_Name input))
             (call (mc_GetService c (gi_Namespace input) (gi_Name input)))) (\<lambda>service.
     ret \<lparr>gso_Name = m_Name (os_meta service), gso_Namespace = m_Namespace (os_meta service), gso_Type = os_Type service,
        gso_ClusterIP = os_ClusterIP service,
        gso_Ports = map (\<lambda>port. \<lparr>sps_Name = op_Name port, sps_Port = op_Port port,
            sps_TargetPort = int_or_string_String (op_TargetPort port), sps_NodePort = op_NodePort port,
            sps_Protocol = op_Protocol port\<rparr>) (os_Ports service),
        gso_Annotations = cloneStringMap (m_Annotations (os_meta service))\<rparr>)))"

subsection \<open>Workspaces and templates\<close>

definition mismatch :: "string \<Rightarrow> ObjectMeta \<Rightarrow> string \<Rightarrow> string \<Rightarrow> error" where
  "mismatch format meta ns name =
     ErrorString (Fmt format [ArgS (Namespace meta), ArgS (Name meta), ArgS ns, ArgS name])"

definition list_workspaces :: "'b mcp_client \<Rightarrow> listInput \<Rightarrow> ('b, resourceSummary list) op" where
  "list_workspaces c input =
     bind (map_err (WrapError ''list CoderWorkspace resources: %w'' [])
             (call (mc_ListWorkspaces c (in_namespace (li_Namespace input))))) (\<lambda>items.
     lift (foldr (\<lambda>ws acc. rbind (workspaceToSummary (Some ws)) (\<lambda>s. rbind acc (\<lambda>ss. Ok (s # ss)))) items (Ok [])))"

definition getWorkspaceDetail :: "'b mcp_client option \<Rightarrow> getInput \<Rightarrow> ('b, resourceSummary) op" where
  "getWorkspaceDetail k8sClient input =
     non_nil k8sClient (assertion ''Kubernetes client must not be nil'') (\<lambda>c.
     let ns = gi_Namespace input; name = gi_Name input in
     required ns name (
     bind (map_err (object_err ''get CoderWorkspace %s/%s: %w'' ns name) (call (mc_GetWorkspace c ns name))) (\<lambda>workspace.
     guard (Namespace (cw_meta workspace) = ns \<and> Name (cw_meta workspace) = name)
       (mismatch ''assertion failed: fetched workspace %s/%s does not match request %s/%s'' (cw_meta workspace) ns name) (
     lift (workspaceToSummary (Some workspace))))))"

definition setWorkspaceRunning :: "'b mcp_client option \<Rightarrow> setRunningInput \<Rightarrow> ('b, setRunningOutput) op" where
  "setWorkspaceRunning k8sClient input =
     non_nil k8sClient (assertion ''Kubernetes client must not be nil'') (\<lambda>c.
     let ns = sri_Namespace input; name = sri_Name input in
     required ns name (
     bind (map_err (object_err ''get CoderWorkspace %s/%s: %w'' ns name) (call (mc_GetWorkspace c ns name))) (\<lambda>workspace.
     guard (Namespace (cw_meta workspace) = ns \<and> Name (cw_meta workspace) = name)
       (mismatch ''assertion failed: fetched workspace %s/%s does not match request %s/%s'' (cw_meta workspace) ns name) (
     let updated = (wsp_Running (cw_spec workspace) \<noteq> sri_Running input);
         desired = workspace\<lparr>cw_spec := (cw_spec workspace)\<lparr>wsp_Running := sri_Running input\<rparr>\<rparr> in
     bind (if updated
           then map_err (object_err ''update CoderWorkspace %s/%s: %w'' ns name) (call (mc_UpdateWorkspace c desired))
           else ret desired) (\<lambda>stored.
     bind (lift (workspaceToSummary (Some stored))) (\<lambda>summary.
     ret \<lparr>sro_Summary = summary, sro_Updated = updated\<rparr>))))))"

definition list_templates :: "'b mcp_client \<Rightarrow> listInput \<Rightarrow> ('b, resourceSummary list) op" where
  "list_templates c input =
     bind (map_err (WrapError ''list CoderTemplate resources: %w'' [])
             (call (mc_ListTemplates c (in_namespace (li_Namespace input))))) (\<lambda>items.
     lift (foldr (\<lambda>tm acc. rbind (templateToSummary (Some tm)) (\<lambda>s. rbind acc (\<lambda>ss. Ok (s # ss)))) items (Ok [])))"

definition getTemplateDetail :: "'b mcp_client option \<Rightarrow> getInput \<Rightarrow> ('b, resourceSummary) op" where
  "getTemplateDetail k8sClient input =
     non_nil k8sClient (assertion ''Kubernetes client must not be nil'') (\<lambda>c.
     let ns = gi_Namespace input; name = gi_Name input in
     required ns name (
     bind (map_err (object_err ''get CoderTemplate %s/%s: %w'' ns name) (call (mc_GetTemplate c ns name))) (\<lambda>template.
     guard (Namespace (ct_meta template) = ns \<and> Name (ct_meta template) = name)
       (mismatch ''assertion failed: fetched template %s/%s does not match request %s/%s'' (ct_meta template) ns name) (
     lift (templateToSummary (Some template))))))"

definition setTemplateRunning :: "'b mcp_client option \<Rightarrow> setRunningInput \<Rightarrow> ('b, setRunningOutput) op" where
  "setTemplateRunning k8sClient input =
     non_nil k8sClient (assertion ''Kubernetes client must not be nil'') (\<lambda>c.
     let ns = sri_Namespace input; name = sri_Name input in
     required ns name (
     bind (map_err (object_err ''get CoderTemplate %s/%s: %w'' ns name) (call (mc_GetTemplate c ns name))) (\<lambda>template.
     guard (Namespace (ct_meta template) = ns \<and> Name (ct_meta template) = name)
       (mismatch ''assertion failed: fetched template %s/%s does not match request %s/%s'' (ct_meta template) ns name) (
     let updated = (tsp_Running (ct_spec template) \<noteq> sri_Running input);
         desired = template\<lparr>ct_spec := (ct_spec template)\<lparr>tsp_Running := sri_Running input\<rparr>\<rparr> in
     bind (if updated
           then map_err (object_err ''update CoderTemplate %s/%s: %w'' ns name) (call (mc_UpdateTemplate c desired))
           else ret desired) (\<lambda>stored.
     bind (lift (templateToSummary (Some stored))) (\<lambda>summary.
     ret \<lparr>sro_Summary = summary, sro_Updated = updated\<rparr>))))))"

subsection \<open>Events, logs, health\<close>

text \<open>\<open>fields.Set.String\<close>: the pairs key=value, sorted, joined by commas.\<close>

definition field_set_String :: "string_map \<Rightarrow> string" where
  "field_set_String s = strings_Join (sort (map (\<lambda>(k, v). k @ ''='' @ v) s)) (CHR '','')"

definition event_limit :: "int \<Rightarrow> int" where
  "event_limit n =
     (let limit = (if n \<le> 0 then defaultEventListLimit else n) in
      if limit > maxEventListLimit then maxEventListLimit else limit)"

definition get_events :: "'b clientset \<Rightarrow> getEventsInput \<Rightarrow> ('b, getEventsOutput) op" where
  "get_events ks input =
     guard (gei_Namespace input \<noteq> []) (ErrorString (Lit ''namespace is required'')) (
     let selector = (if gei_Name input \<noteq> [] then [(''involvedObject.name'', gei_Name input)] else [])
                  @ (if gei_Kind input \<noteq> [] then [(''involvedObject.kind'', gei_Kind input)] else []);
         opts = \<lparr>elo_Limit = event_limit (gei_Limit input), elo_Continue = gei_Continue input,
                 elo_FieldSelector = (if selector \<noteq> [] then field_set_String selector else [])\<rparr> in
     bind (map_err (WrapError ''list events in namespace %q: %w'' [ArgS (gei_Namespace input)])
             (call (ks_ListEvents ks (gei_Namespace input) opts))) (\<lambda>events.
     ret \<lparr>geo_Items = map (\<lambda>e. \<lparr>evs_Type = evt_Type e, evs_Reason = evt_Reason e, evs_Message = evt_Message e,
            evs_Count = evt_Count e, evs_LastTimestamp = eventTimestamp e\<rparr>) (evl_Items events),
          geo_Continue = evl_Continue events\<rparr>))"

text \<open>
  \<open>io.ReadAll(io.LimitReader(stream, n))\<close>: reads until \<open>n\<close> bytes are there, the stream ends, or
  a read fails. At the limit the reader reports the end without reading the stream again.
\<close>

fun read_log :: "nat \<Rightarrow> string list \<Rightarrow> error option \<Rightarrow> string result" where
  "read_log 0 parts end = Ok []"
| "read_log (Suc n) [] end = (case end of None \<Rightarrow> Ok [] | Some e \<Rightarrow> Err e)"
| "read_log (Suc n) (chunk # parts) end =
     rbind (read_log (Suc n - length chunk) parts end) (\<lambda>rest. Ok (take (Suc n) chunk @ rest))"

definition log_limit :: "int option \<Rightarrow> int" where
  "log_limit limitBytes =
     (case limitBytes of None \<Rightarrow> maxPodLogBytes
      | Some n \<Rightarrow> if n > 0 \<and> n < maxPodLogBytes then n else maxPodLogBytes)"

definition cut_logs :: "int \<Rightarrow> string \<Rightarrow> string" where
  "cut_logs limitBytes logs =
     (if int (length logs) > limitBytes then take (nat limitBytes) logs @ podLogTruncatedSuffix else logs)"

text \<open>\<open>defer stream.Close()\<close>: the stream is closed on both paths, its error is dropped.\<close>

definition close_after :: "('b, unit) call \<Rightarrow> 'a result \<Rightarrow> ('b, 'a) op" where
  "close_after close r = handle (call close) (\<lambda>_. lift r) (\<lambda>_. lift r)"

definition get_pod_logs :: "'b clientset \<Rightarrow> getPodLogsInput \<Rightarrow> ('b, string) op" where
  "get_pod_logs ks input =
     (let ns = gpi_Namespace input; name = gpi_Name input in
      required ns name (
      let tailLines = (case gpi_TailLines input of None \<Rightarrow> defaultPodLogTailLines | Some n \<Rightarrow> n);
          limitBytes = log_limit (gpi_LimitBytes input) in
      bind (map_err (object_err ''stream logs for pod %s/%s: %w'' ns name)
              (call (ks_StreamLogs ks ns name \<lparr>plo_Container = gpi_Container input, plo_TailLines = tailLines\<rparr>))) (\<lambda>stream.
      close_after (ls_Close stream)
        (rbind (rmap_err (object_err ''read logs for pod %s/%s: %w'' ns name)
                  (read_log (nat (limitBytes + 1)) (ls_Chunks stream) (ls_End stream)))
               (\<lambda>logs. Ok (cut_logs limitBytes logs))))))"

definition check_health :: "'b clientset \<Rightarrow> ('b, checkHealthOutput) op" where
  "check_health ks =
     bind (map_err (WrapError ''list namespaces for connectivity check: %w'' []) (call (ks_ListNamespaces ks 1))) (\<lambda>_.
     ret \<lparr>cho_Status = ''ok'', cho_Version = serverImplementationVersion\<rparr>)"

subsection \<open>The server\<close>

datatype tool_call =
    ListControlPlanes listInput | GetControlPlaneStatus getInput | ListControlPlanePods listControlPlanePodsInput
  | GetControlPlaneDeploymentStatus getInput | GetServiceStatus getInput | ListWorkspaces listInput
  | GetWorkspace getInput | SetWorkspaceRunning setRunningInput | ListTemplates listInput
  | GetTemplate getInput | SetTemplateRunning setRunningInput | GetEvents getEventsInput
  | GetPodLogs getPodLogsInput | CheckHealth

datatype tool_output =
    ControlPlanes "controlPlaneSummary list" | ControlPlaneStatusOut getControlPlaneStatusOutput
  | ControlPlanePods listControlPlanePodsOutput | DeploymentStatusOut getControlPlaneDeploymentStatusOutput
  | ServiceStatusOut getServiceStatusOutput | Resources "resourceSummary list" | Resource resourceSummary
  | RunningSet setRunningOutput | EventsOut getEventsOutput | LogsOut string | HealthOut checkHealthOutput

definition out :: "('a \<Rightarrow> tool_output) \<Rightarrow> ('b, 'a) op \<Rightarrow> ('b, tool_output) op" where
  "out f m = bind m (\<lambda>a. ret (f a))"

fun call_tool :: "'b mcp_client \<Rightarrow> 'b clientset \<Rightarrow> tool_call \<Rightarrow> ('b, tool_output) op" where
  "call_tool c ks (ListControlPlanes i) = out ControlPlanes (list_control_planes c i)"
| "call_tool c ks (GetControlPlaneStatus i) = out ControlPlaneStatusOut (get_control_plane_status c i)"
| "call_tool c ks (ListControlPlanePods i) = out ControlPlanePods (listControlPlanePods (Some c) i)"
| "call_tool c ks (GetControlPlaneDeploymentStatus i) = out DeploymentStatusOut (getControlPlaneDeploymentStatus (Some c) i)"
| "call_tool c ks (GetServiceStatus i) = out ServiceStatusOut (getServiceStatus (Some c) i)"
| "call_tool c ks (ListWorkspaces i) = out Resources (list_workspaces c i)"
| "call_tool c ks (GetWorkspace i) = out Resource (getWorkspaceDetail (Some c) i)"
| "call_tool c ks (SetWorkspaceRunning i) = out RunningSet (setWorkspaceRunning (Some c) i)"
| "call_tool c ks (ListTemplates i) = out Resources (list_templates c i)"
| "call_tool c ks (GetTemplate i) = out Resource (getTemplateDetail (Some c) i)"
| "call_tool c ks (SetTemplateRunning i) = out RunningSet (setTemplateRunning (Some c) i)"
| "call_tool c ks (GetEvents i) = out EventsOut (get_events ks i)"
| "call_tool c ks (GetPodLogs i) = out LogsOut (get_pod_logs ks i)"
| "call_tool c ks CheckHealth = out HealthOut (check_health ks)"

text \<open>\<open>NewServer\<close>: a server is the function from tool calls to their handlers.\<close>

definition NewServer :: "'b mcp_client option \<Rightarrow> 'b clientset option \<Rightarrow> (tool_call \<Rightarrow> ('b, tool_output) op) result" where
  "NewServer k8sClient clientset =
     (case k8sClient of None \<Rightarrow> Panic (Lit ''assertion failed: Kubernetes client must not be nil'')
      | Some c \<Rightarrow> case clientset of None \<Rightarrow> Panic (Lit ''assertion failed: Kubernetes clientset must not be nil'')
        | Some ks \<Rightarrow> Ok (call_tool c ks))"

section \<open>Lemmas\<close>

subsection \<open>Pods\<close>

lemma safeInt32Count_Ok: "safeInt32Count v = Ok n \<longleftrightarrow> n = v \<and> 0 \<le> v \<and> v < 2 ^ 31"
  by (auto simp: safeInt32Count_def)

lemma limit_bounds:
  "0 < sanitizeControlPlanePodListLimit n" "sanitizeControlPlanePodListLimit n \<le> 500"
  "0 < event_limit n" "event_limit n \<le> 1000"
  "0 < log_limit l" "log_limit l \<le> 2 ^ 20"
  by (auto simp: sanitizeControlPlanePodListLimit_def defaultControlPlanePodListLimit_def maxControlPlanePodListLimit_def
      event_limit_def Let_def defaultEventListLimit_def maxEventListLimit_def log_limit_def maxPodLogBytes_def split: option.split)

text \<open>The loop appends the summaries of the first pods up to the limit, in order.\<close>

lemma pod_loop_Ok:
  assumes "pod_loop limit i pods items = Ok output" "i \<le> limit"
  shows "lpo_Truncated output = (i + int (length pods) > limit)"
    "\<exists>ss. lpo_Items output = items @ ss \<and> list_all2 (\<lambda>p s. pod_summary p = Ok s) (take (nat (limit - i)) pods) ss"
  using assms
proof (induction limit i pods items rule: pod_loop.induct)
  case (2 limit i pod pods items)
  have suc: "nat (limit - i) = Suc (nat (limit - (i + 1)))" if "i < limit" using that by simp
  { case 1
    show ?case
    proof (cases "limit \<le> i")
      case False
      with 1 obtain s where "pod_loop limit (i + 1) pods (items @ [s]) = Ok output" by (auto simp: rbind_eq_Ok)
      with "2.IH"(1) [of s] False show ?thesis by (simp add: algebra_simps)
    qed (use 1 in auto) }
  { case 2
    show ?case
    proof (cases "limit \<le> i")
      case False
      with 2 obtain s where s: "pod_summary pod = Ok s" "pod_loop limit (i + 1) pods (items @ [s]) = Ok output"
        by (auto simp: rbind_eq_Ok)
      with "2.IH"(2) [of s] False obtain ss where "lpo_Items output = items @ s # ss"
        "list_all2 (\<lambda>p s. pod_summary p = Ok s) (take (nat (limit - (i + 1))) pods) ss" by auto
      then show ?thesis using s(1) suc False by (intro exI [of _ "s # ss"]) simp
    qed (use 2 in auto) }
qed auto

lemma pod_summary_fields:
  assumes "pod_summary pod = Ok s"
  shows "pps_Name s = m_Name (pd_meta pod)" "pps_Namespace s = m_Namespace (pd_meta pod)"
    "pps_TotalContainers s =
       int (if pd_Containers pod = [] then length (pd_ContainerStatuses pod) else length (pd_Containers pod))"
  using assms by (auto simp: pod_summary_def Let_def rbind_eq_Ok safeInt32Count_Ok split: if_splits)

subsection \<open>Logs\<close>

text \<open>A limited read returns the first bytes of the stream; it fails only when the stream fails before the limit.\<close>

lemma read_log_eq:
  "read_log n parts end =
     (if n \<le> length (concat parts) \<or> end = None then Ok (take n (concat parts)) else Err (the end))"
proof (induction n parts "end" rule: read_log.induct)
  case (3 n chunk parts "end")
  then show ?case by (auto simp: take_append)
qed (auto split: option.split)

lemma close_after_run: "close_after close r w = (r, snd (close w))"
  by (auto simp: close_after_def handle_def call_def split: prod.split sum.split)

lemma cut_logs_length: "0 \<le> limit \<Longrightarrow> length (cut_logs limit logs) \<le> nat limit + length podLogTruncatedSuffix"
  by (auto simp: cut_logs_def)

subsection \<open>Panics\<close>

lemma summaries_Ok:
  "\<exists>ss. foldr (\<lambda>ws acc. rbind (workspaceToSummary (Some ws)) (\<lambda>s. rbind acc (\<lambda>ss. Ok (s # ss)))) wss (Ok []) = Ok ss"
  "\<exists>ss. foldr (\<lambda>tm acc. rbind (templateToSummary (Some tm)) (\<lambda>s. rbind acc (\<lambda>ss. Ok (s # ss)))) tms (Ok []) = Ok ss"
proof -
  show "\<exists>ss. foldr (\<lambda>ws acc. rbind (workspaceToSummary (Some ws)) (\<lambda>s. rbind acc (\<lambda>ss. Ok (s # ss)))) wss (Ok []) = Ok ss"
    by (induction wss) (auto simp: workspaceToSummary_def)
  show "\<exists>ss. foldr (\<lambda>tm acc. rbind (templateToSummary (Some tm)) (\<lambda>s. rbind acc (\<lambda>ss. Ok (s # ss)))) tms (Ok []) = Ok ss"
    by (induction tms) (auto simp: templateToSummary_def)
qed

end
