(* ===== verification/Mcp_Api.thy ===== *)
theory Mcp_Api
  imports Mcp_Tools Template_Correct
begin

text \<open>
  The MCP tools on top of the aggregated API server. The requests of the tools' client for
  workspaces and templates are answered by the storage handlers: \<open>served_workspaces\<close> and
  \<open>served_templates\<close> build such a client, as in the mode mcp-http, whose client reads without a
  cache. The API server passes its admission checks as
  \<open>cv\<close> and \<open>uv\<close>, and turns a panic of a handler into an error. The locales state what the tools
  rely on.
\<close>

section \<open>Definitions\<close>

definition handler_call :: "('w, 'a) op \<Rightarrow> ('w, 'a) call" where
  "handler_call m w = (case m w of (Ok a, w') \<Rightarrow> (Inr a, w') | (Err e, w') \<Rightarrow> (Inl e, w')
     | (Panic p, w') \<Rightarrow> (Inl (ErrorString p), w'))"

definition request :: "string \<Rightarrow> Context" where
  "request ns = \<lparr>ctx_Namespace = ns, ctx_Deadline = None\<rparr>"

definition put_object :: "runtime_Object \<Rightarrow> 'b updated_object_info" where
  "put_object obj _ b = (Inr (Some obj), b)"

definition put_workspace ::
    "(SDKClient \<Rightarrow> 'b codersdk) \<Rightarrow> 'b Storage \<Rightarrow> 'b validate \<Rightarrow> 'b validate_update \<Rightarrow> CoderWorkspace
       \<Rightarrow> ('b storage_state, CoderWorkspace \<times> bool) op" where
  "put_workspace api s cv uv obj =
     WorkspaceStorage_Update api (Some s) (Some (request (Namespace (cw_meta obj)))) (Name (cw_meta obj))
       (Some (put_object (ObjWorkspace obj))) cv uv False"

definition put_template ::
    "'b runtime_env \<Rightarrow> (SDKClient \<Rightarrow> 'b codersdk) \<Rightarrow> 'b Storage \<Rightarrow> 'b validate \<Rightarrow> 'b validate_update \<Rightarrow> CoderTemplate
       \<Rightarrow> ('b storage_state, CoderTemplate \<times> bool) op" where
  "put_template rt api s cv uv obj =
     TemplateStorage_Update rt api (Some s) (Some (request (Namespace (ct_meta obj)))) (Name (ct_meta obj))
       (Some (put_object (ObjTemplate obj))) cv uv False"

definition served_workspaces ::
    "(SDKClient \<Rightarrow> 'b codersdk) \<Rightarrow> 'b Storage \<Rightarrow> 'b validate \<Rightarrow> 'b validate_update
       \<Rightarrow> 'b storage_state mcp_client \<Rightarrow> 'b storage_state mcp_client" where
  "served_workspaces api s cv uv c = c\<lparr>
     mc_GetWorkspace := (\<lambda>ns name. handler_call (WorkspaceStorage_Get api (Some s) (Some (request ns)) name)),
     mc_UpdateWorkspace := (\<lambda>obj. handler_call (bind (put_workspace api s cv uv obj) (\<lambda>r. ret (fst r))))\<rparr>"

definition served_templates ::
    "'b runtime_env \<Rightarrow> (SDKClient \<Rightarrow> 'b codersdk) \<Rightarrow> 'b Storage \<Rightarrow> 'b validate \<Rightarrow> 'b validate_update
       \<Rightarrow> 'b storage_state mcp_client \<Rightarrow> 'b storage_state mcp_client" where
  "served_templates rt api s cv uv c = c\<lparr>
     mc_GetTemplate := (\<lambda>ns name. handler_call (TemplateStorage_Get rt api (Some s) (Some (request ns)) name)),
     mc_UpdateTemplate := (\<lambda>obj. handler_call (bind (put_template rt api s cv uv obj) (\<lambda>r. ret (fst r))))\<rparr>"

section \<open>Interfaces\<close>

lemma handler_call_Inr: "handler_call m w = (Inr a, w') \<longleftrightarrow> m w = (Ok a, w')"
  by (auto simp: handler_call_def split: prod.splits res.splits)

lemma required_eq_Ok: "required ns name m w = (Ok a, w') \<longleftrightarrow> ns \<noteq> [] \<and> name \<noteq> [] \<and> m w = (Ok a, w')"
  by (auto simp: required_def guard_eq_Ok)

lemma update_if_Ok:
  "(if b then map_err e (call f) else ret d) w = (Ok a, w') \<longleftrightarrow> (if b then f w = (Inr a, w') else a = d \<and> w' = w)"
  by (auto simp: map_err_eq_Ok call_eq_Ok)

lemmas mcp_ok_simps = update_if_Ok ok_simps call_eq_Ok required_eq_Ok non_nil_def Let_def

text \<open>What the workspace tools rely on: a successful read and a successful write are the handlers'.\<close>

locale workspace_api =
  fixes c :: "'b storage_state mcp_client" and api :: "SDKClient \<Rightarrow> 'b codersdk" and s :: "'b Storage"
    and uv :: "'b validate_update"
  assumes get_workspace: "mc_GetWorkspace c ns name w = (Inr obj, w') \<Longrightarrow>
      WorkspaceStorage_Get api (Some s) (Some (request ns)) name w = (Ok obj, w')"
    and update_workspace: "mc_UpdateWorkspace c obj w = (Inr obj', w') \<Longrightarrow>
      \<exists>cv created. put_workspace api s cv uv obj w = (Ok (obj', created), w')"
begin

text \<open>Without \<open>forceAllowCreate\<close> an update never creates.\<close>

lemma update_not_created:
  assumes "mc_UpdateWorkspace c obj w = (Inr obj', w')"
  shows "\<exists>cv. put_workspace api s cv uv obj w = (Ok (obj', False), w')"
proof -
  obtain cv created where run: "put_workspace api s cv uv obj w = (Ok (obj', created), w')"
    using update_workspace [OF assms] by blast
  have "\<not> created"
    using run unfolding put_workspace_def WorkspaceStorage_Update_def Let_def
    by (auto simp: handler_ok_simps dest: applyUpdate_Ok)
  with run show ?thesis by auto
qed

lemma set_running:
  assumes "setWorkspaceRunning (Some c) i w = (Ok result, w')"
  obtains org user wsn sdk ws obj b0 where
    "ParseWorkspaceName (sri_Name i) = Ok (org, user, wsn)" "client_of s (request (sri_Namespace i)) (backend w) sdk"
    "sdk_WorkspaceByOwnerAndName (api sdk) user wsn (backend w) = (Inr ws, b0)"
    "WorkspaceToK8s (sri_Namespace i) ws = Ok obj" "sro_Updated result \<longleftrightarrow> workspaceRunning ws \<noteq> sri_Running i"
    "\<not> sro_Updated result \<Longrightarrow> rs_Running (sro_Summary result) = sri_Running i \<and> w' = w\<lparr>backend := b0\<rparr>"
    "sro_Updated result \<Longrightarrow> \<exists>cv stored. rs_Running (sro_Summary result) = wsp_Running (cw_spec stored) \<and>
       WorkspaceStorage_Update api (Some s) (Some (request (sri_Namespace i))) (sri_Name i)
         (Some (put_object (ObjWorkspace (obj\<lparr>cw_spec := (cw_spec obj)\<lparr>wsp_Running := sri_Running i\<rparr>\<rparr>)))) cv uv False
         (w\<lparr>backend := b0\<rparr>) = (Ok (stored, False), w')"
proof -
  let ?desired = "\<lambda>obj. obj\<lparr>cw_spec := (cw_spec obj)\<lparr>wsp_Running := sri_Running i\<rparr>\<rparr>"
  obtain obj w1 stored where
    get: "mc_GetWorkspace c (sri_Namespace i) (sri_Name i) w = (Inr obj, w1)"
      "Namespace (cw_meta obj) = sri_Namespace i" "Name (cw_meta obj) = sri_Name i" and
    upd: "(if wsp_Running (cw_spec obj) \<noteq> sri_Running i then mc_UpdateWorkspace c (?desired obj) w1 = (Inr stored, w')
           else stored = ?desired obj \<and> w' = w1)" and
    res: "sro_Updated result = (wsp_Running (cw_spec obj) \<noteq> sri_Running i)"
      "rs_Running (sro_Summary result) = wsp_Running (cw_spec stored)"
    using assms by (auto simp: setWorkspaceRunning_def mcp_ok_simps workspaceToSummary_def split del: if_split)
  from WorkspaceStorage_Get_Ok [OF get_workspace [OF get(1)]] obtain org user wsn sdk ws b0 where
    r: "ParseWorkspaceName (sri_Name i) = Ok (org, user, wsn)" "client_of s (request (sri_Namespace i)) (backend w) sdk"
      "sdk_WorkspaceByOwnerAndName (api sdk) user wsn (backend w) = (Inr ws, b0)"
      "WorkspaceToK8s (sri_Namespace i) ws = Ok obj" "w1 = w\<lparr>backend := b0\<rparr>" by (auto simp: request_def)
  show thesis
  proof (rule that [OF r(1-4)])
    show "sro_Updated result \<longleftrightarrow> workspaceRunning ws \<noteq> sri_Running i" using res(1) WorkspaceToK8s_Ok(6) [OF r(4)] by simp
    show "rs_Running (sro_Summary result) = sri_Running i \<and> w' = w\<lparr>backend := b0\<rparr>" if "\<not> sro_Updated result"
      using that upd res r(5) by simp
    show "\<exists>cv stored. rs_Running (sro_Summary result) = wsp_Running (cw_spec stored) \<and>
       WorkspaceStorage_Update api (Some s) (Some (request (sri_Namespace i))) (sri_Name i)
         (Some (put_object (ObjWorkspace (?desired obj)))) cv uv False (w\<lparr>backend := b0\<rparr>) = (Ok (stored, False), w')"
      if "sro_Updated result"
      using that upd res r(5) get(2,3) update_not_created [of "?desired obj" w1 stored w'] by (auto simp: put_workspace_def)
  qed
qed

end

text \<open>What the template tools rely on.\<close>

locale template_api =
  fixes c :: "'b storage_state mcp_client" and rt :: "'b runtime_env" and api :: "SDKClient \<Rightarrow> 'b codersdk"
    and s :: "'b Storage" and uv :: "'b validate_update"
  assumes get_template: "mc_GetTemplate c ns name w = (Inr obj, w') \<Longrightarrow>
      TemplateStorage_Get rt api (Some s) (Some (request ns)) name w = (Ok obj, w')"
    and update_template: "mc_UpdateTemplate c obj w = (Inr obj', w') \<Longrightarrow>
      \<exists>cv created. put_template rt api s cv uv obj w = (Ok (obj', created), w')"
begin

text \<open>No template that the API server returns is running.\<close>

lemma get_not_running:
  assumes "TemplateStorage_Get rt api (Some s) (Some ctx) name w = (Ok obj, w')"
  shows "\<not> tsp_Running (ct_spec obj)"
  using TemplateStorage_Get_Ok [OF assms] by (auto simp: TemplateToK8s_def rbind_eq_Ok split: if_splits)

lemma update_not_running:
  assumes "mc_UpdateTemplate c obj w = (Inr obj', w')"
  shows "\<not> tsp_Running (ct_spec obj')"
proof -
  obtain cv created where "put_template rt api s cv uv obj w = (Ok (obj', created), w')"
    using update_template [OF assms] by blast
  then obtain cur w1 where "TemplateStorage_applyUpdate rt api (Some s) s (Some (request (Namespace (ct_meta obj))))
      (Name (ct_meta obj)) (put_object (ObjTemplate obj)) uv cur w1 = (Ok (obj', created), w')"
    unfolding put_template_def TemplateStorage_Update_def by (auto simp: handler_ok_simps)
  then obtain upd w2 where "TemplateStorage_applyChecked rt api (Some s) s (Some (request (Namespace (ct_meta obj))))
      (Name (ct_meta obj)) (ctx_Namespace (request (Namespace (ct_meta obj)))) upd cur w2 = (Ok (obj', created), w')"
    unfolding TemplateStorage_applyUpdate_def by (auto simp: handler_ok_simps)
  from applyChecked_Ok [OF this] show ?thesis using get_not_running by blast
qed

lemma set_running:
  assumes "setTemplateRunning (Some c) i w = (Ok result, w')"
  shows "sro_Updated result = sri_Running i" "\<not> rs_Running (sro_Summary result)"
proof -
  let ?desired = "\<lambda>obj. obj\<lparr>ct_spec := (ct_spec obj)\<lparr>tsp_Running := sri_Running i\<rparr>\<rparr>"
  obtain obj w1 stored where
    get: "mc_GetTemplate c (sri_Namespace i) (sri_Name i) w = (Inr obj, w1)" and
    upd: "(if tsp_Running (ct_spec obj) \<noteq> sri_Running i then mc_UpdateTemplate c (?desired obj) w1 = (Inr stored, w')
           else stored = ?desired obj \<and> w' = w1)" and
    res: "sro_Updated result = (tsp_Running (ct_spec obj) \<noteq> sri_Running i)"
      "rs_Running (sro_Summary result) = tsp_Running (ct_spec stored)"
    using assms by (auto simp: setTemplateRunning_def mcp_ok_simps templateToSummary_def split del: if_split)
  have "\<not> tsp_Running (ct_spec obj)" using get_not_running [OF get_template [OF get]] .
  then show "sro_Updated result = sri_Running i" "\<not> rs_Running (sro_Summary result)"
    using res upd update_not_running by (auto split: if_splits)
qed

end

interpretation served_ws: workspace_api "served_workspaces api s cv uv c" api s uv
  by unfold_locales (auto simp: served_workspaces_def handler_call_Inr ok_simps)

interpretation served_tm: template_api "served_templates rt api s cv uv c" rt api s uv
  by unfold_locales (auto simp: served_templates_def handler_call_Inr ok_simps)

end
