(* ===== verification/Mcp_Properties.thy ===== *)
theory Mcp_Properties
  imports Mcp_Api Demo_Templates
begin

text \<open>
  Properties of the MCP tools: pods and logs are bounded and complete, no tool panics, and what
  the two tools that write do to the Coder deployment through the aggregated API server.
\<close>

section \<open>Reading tools\<close>

text \<open>The pods are looked up by the labels that the controller gives to the pods of the control plane.\<close>

lemma workload_labels: "controlPlaneWorkloadLabels name = controlPlaneLabels name"
  by (simp add: controlPlaneWorkloadLabels_def controlPlaneLabels_def)

text \<open>
  The pods of a control plane are listed in the order of their names, at most 500 of them; the
  output is marked as truncated exactly when a pod is left out.
\<close>

lemma control_plane_pods_listed:
  assumes "listControlPlanePods (Some c) i w = (Ok result, w')"
  shows "\<exists>pods limit. mc_ListPods c (lpi_Namespace i) (controlPlaneLabels (lpi_Name i)) w = (Inr pods, w') \<and>
    0 < limit \<and> limit \<le> 500 \<and> lpo_Truncated result = (limit < length pods) \<and>
    list_all2 (\<lambda>p s. pod_summary p = Ok s)
      (take limit (sort_key (\<lambda>p. (m_Name (pd_meta p), m_Namespace (pd_meta p))) pods)) (lpo_Items result)"
proof -
  let ?limit = "sanitizeControlPlanePodListLimit (lpi_Limit i)"
  from assms obtain pods where pods: "mc_ListPods c (lpi_Namespace i) (controlPlaneLabels (lpi_Name i)) w = (Inr pods, w')"
    and loop: "pod_loop ?limit 0 (sort_key (\<lambda>p. (m_Name (pd_meta p), m_Namespace (pd_meta p))) pods) [] = Ok result"
    by (auto simp: listControlPlanePods_def mcp_ok_simps workload_labels)
  have l: "0 < ?limit" "?limit \<le> 500" by (rule limit_bounds)+
  from pod_loop_Ok [OF loop] pods l show ?thesis by (intro exI [of _ pods] exI [of _ "nat ?limit"]) auto
qed

text \<open>
  C27: Pod logs are bounded and honest. When get_pod_logs succeeds, the output is the content of
  the log stream if that fits in the limit, and otherwise its first bytes up to the limit with
  the mark that it is truncated; the limit is the requested one when that is between 1 and 1
  MiB and 1 MiB otherwise, and the stream has been closed.
\<close>

theorem mcp_pod_logs_bounded:
  assumes "get_pod_logs ks i w = (Ok logs, w')"
  shows "\<exists>opts stream w1 limit content. ks_StreamLogs ks (gpi_Namespace i) (gpi_Name i) opts w = (Inr stream, w1) \<and>
    w' = snd (ls_Close stream w1) \<and> content = concat (ls_Chunks stream) \<and>
    (case gpi_LimitBytes i of None \<Rightarrow> limit = 2 ^ 20
     | Some n \<Rightarrow> int limit = (if 0 < n \<and> n \<le> 2 ^ 20 then n else 2 ^ 20)) \<and>
    logs = (if length content \<le> limit then content else take limit content @ podLogTruncatedSuffix) \<and>
    length logs \<le> 2 ^ 20 + 12"
proof -
  let ?limit = "log_limit (gpi_LimitBytes i)"
  have l: "0 < ?limit" "?limit \<le> 2 ^ 20" by (rule limit_bounds)+
  from assms obtain opts stream w1 where
    s: "ks_StreamLogs ks (gpi_Namespace i) (gpi_Name i) opts w = (Inr stream, w1)" "w' = snd (ls_Close stream w1)" and
    r: "read_log (nat (?limit + 1)) (ls_Chunks stream) (ls_End stream) = Ok (take (nat (?limit + 1)) (concat (ls_Chunks stream)))"
      "logs = cut_logs ?limit (take (nat (?limit + 1)) (concat (ls_Chunks stream)))"
    by (auto simp: get_pod_logs_def mcp_ok_simps close_after_run rbind_eq_Ok read_log_eq split: if_splits)
  have "logs = (if length (concat (ls_Chunks stream)) \<le> nat ?limit then concat (ls_Chunks stream)
      else take (nat ?limit) (concat (ls_Chunks stream)) @ podLogTruncatedSuffix)"
    using l r(2) by (auto simp: cut_logs_def min_def nat_add_distrib)
  moreover have "case gpi_LimitBytes i of None \<Rightarrow> nat ?limit = 2 ^ 20
     | Some n \<Rightarrow> int (nat ?limit) = (if 0 < n \<and> n \<le> 2 ^ 20 then n else 2 ^ 20)"
    by (auto simp: log_limit_def maxPodLogBytes_def split: option.split)
  moreover have "length logs \<le> 2 ^ 20 + 12"
    using cut_logs_length [of ?limit "take (nat (?limit + 1)) (concat (ls_Chunks stream))"] l
    by (simp add: r(2) podLogTruncatedSuffix_def)
  ultimately show ?thesis using s by blast
qed

definition demo_clientset :: "demo clientset" where
  "demo_clientset = \<lparr>ks_ListEvents = (\<lambda>_ _ w. (Inl not_found, w)),
     ks_StreamLogs = (\<lambda>_ _ _ w. (Inr \<lparr>ls_Chunks = [''ready'', ''', done''], ls_End = None, ls_Close = (\<lambda>v. (Inr (), v @ [''close'']))\<rparr>, w)),
     ks_ListNamespaces = (\<lambda>_ w. (Inr (), w))\<rparr>"

theorem mcp_pod_logs_bounded_witness:
  "\<exists>logs. get_pod_logs demo_clientset \<lparr>gpi_Namespace = ''coder'', gpi_Name = ''main-0'', gpi_TailLines = None,
      gpi_LimitBytes = Some 5, gpi_Container = []\<rparr> [] = (Ok logs, [''close'']) \<and>
    logs = ''ready'' @ podLogTruncatedSuffix \<and> length logs \<le> 2 ^ 20 + 12"
proof -
  let ?i = "\<lparr>gpi_Namespace = ''coder'', gpi_Name = ''main-0'', gpi_TailLines = None,
      gpi_LimitBytes = Some 5, gpi_Container = []\<rparr>"
  have "is_ok (fst (get_pod_logs demo_clientset ?i []))" by code_simp
  then obtain logs w' where run: "get_pod_logs demo_clientset ?i [] = (Ok logs, w')"
    by (cases "get_pod_logs demo_clientset ?i []") (auto simp: is_ok_iff)
  from mcp_pod_logs_bounded [OF run] run show ?thesis by (auto simp: demo_clientset_def)
qed

section \<open>Panics\<close>

text \<open>No tool of a server panics, whatever the clients answer.\<close>

lemma pod_loop_no_panic: "\<not> is_panic (pod_loop limit i pods items)"
  by (induction limit i pods items rule: pod_loop.induct)
     (auto simp: is_panic_rbind pod_summary_def Let_def safeInt32Count_def)

lemma summary_no_panic: "\<not> is_panic (workspaceToSummary (Some ws))" "\<not> is_panic (templateToSummary (Some tm))"
  by (simp_all add: workspaceToSummary_def templateToSummary_def)

lemma summaries_no_panic:
  "\<not> is_panic (foldr (\<lambda>ws acc. rbind (workspaceToSummary (Some ws)) (\<lambda>s. rbind acc (\<lambda>ss. Ok (s # ss)))) wss (Ok []))"
  "\<not> is_panic (foldr (\<lambda>tm acc. rbind (templateToSummary (Some tm)) (\<lambda>s. rbind acc (\<lambda>ss. Ok (s # ss)))) tms (Ok []))"
  using summaries_Ok(1) [of wss] summaries_Ok(2) [of tms] by auto

lemma safe_close_after: "\<not> is_panic r \<Longrightarrow> safe (\<lambda>_. True) (close_after close r)"
  by (simp add: safe_def close_after_run)

lemma logs_no_panic: "\<not> is_panic (rbind (rmap_err e (read_log n parts end)) (\<lambda>logs. Ok (cut_logs limit logs)))"
  by (simp add: read_log_eq)

lemmas tool_defs = list_control_planes_def get_control_plane_status_def listControlPlanePods_def
  getControlPlaneDeploymentStatus_def getServiceStatus_def list_workspaces_def getWorkspaceDetail_def
  setWorkspaceRunning_def list_templates_def getTemplateDetail_def setTemplateRunning_def get_events_def
  get_pod_logs_def check_health_def required_def Let_def non_nil_def option.case

lemma tools_without_conversion:
  "safe (\<lambda>_. True) (list_control_planes c li)" "safe (\<lambda>_. True) (get_control_plane_status c gi)"
  "safe (\<lambda>_. True) (getControlPlaneDeploymentStatus (Some c) gi)" "safe (\<lambda>_. True) (getServiceStatus (Some c) gi)"
  "safe (\<lambda>_. True) (get_events ks ei)" "safe (\<lambda>_. True) (check_health ks)"
  unfolding tool_defs by (intro safe_rules safe_call)+

lemma tools_with_conversion:
  "safe (\<lambda>_. True) (listControlPlanePods (Some c) pi)" "safe (\<lambda>_. True) (list_workspaces c li)"
  "safe (\<lambda>_. True) (getWorkspaceDetail (Some c) gi)" "safe (\<lambda>_. True) (setWorkspaceRunning (Some c) ri)"
  "safe (\<lambda>_. True) (list_templates c li)" "safe (\<lambda>_. True) (getTemplateDetail (Some c) gi)"
  "safe (\<lambda>_. True) (setTemplateRunning (Some c) ri)" "safe (\<lambda>_. True) (get_pod_logs ks lo)"
  unfolding tool_defs
  by (intro safe_rules safe_call safe_close_after summary_no_panic summaries_no_panic pod_loop_no_panic logs_no_panic)+

lemma safe_out: "safe P m \<Longrightarrow> safe P (out f m)"
  unfolding out_def by (intro safe_rules)

lemma tools_no_panic: "safe (\<lambda>_. True) (call_tool c ks t)"
  by (induction c ks t rule: call_tool.induct; unfold call_tool.simps; rule safe_out;
      rule tools_without_conversion tools_with_conversion)

section \<open>Writing tools\<close>

text \<open>
  C25: set_workspace_running starts exactly the build that is asked for. On the aggregated API
  server, with admission and reads that do not change the deployment: a successful call reports
  an update exactly when the workspace was not in the asked state, and then the deployment has
  seen exactly one new build of this workspace, a start or a stop as asked; otherwise nothing.
\<close>

theorem mcp_set_workspace_running:
  assumes run: "setWorkspaceRunning (Some (served_workspaces api s cv uv c)) i w = (Ok result, w')"
    and reads: "\<And>sdk u n b. snd (sdk_WorkspaceByOwnerAndName (api sdk) u n b) = b"
    and admission: "\<And>f x y b. uv = Some f \<Longrightarrow> snd (f x y b) = b"
  shows "\<exists>org user wsn sdk ws. ParseWorkspaceName (sri_Name i) = Ok (org, user, wsn) \<and>
    client_of s (request (sri_Namespace i)) (backend w) sdk \<and>
    fst (sdk_WorkspaceByOwnerAndName (api sdk) user wsn (backend w)) = Inr ws \<and>
    sro_Updated result = (workspaceRunning ws \<noteq> sri_Running i) \<and>
    backend w' = (if workspaceRunning ws = sri_Running i then backend w
      else snd (sdk_CreateWorkspaceBuild (api sdk) (w_ID ws)
             (if sri_Running i then WorkspaceTransitionStart else WorkspaceTransitionStop) (backend w)))"
proof -
  obtain org user wsn sdk ws obj b0 where
    r: "ParseWorkspaceName (sri_Name i) = Ok (org, user, wsn)" "client_of s (request (sri_Namespace i)) (backend w) sdk"
      "sdk_WorkspaceByOwnerAndName (api sdk) user wsn (backend w) = (Inr ws, b0)"
      "sro_Updated result = (workspaceRunning ws \<noteq> sri_Running i)" and
    no: "\<not> sro_Updated result \<Longrightarrow> w' = w\<lparr>backend := b0\<rparr>" and
    yes: "sro_Updated result \<Longrightarrow> \<exists>cv stored. WorkspaceStorage_Update api (Some s) (Some (request (sri_Namespace i))) (sri_Name i)
       (Some (put_object (ObjWorkspace (obj\<lparr>cw_spec := (cw_spec obj)\<lparr>wsp_Running := sri_Running i\<rparr>\<rparr>)))) cv uv False
       (w\<lparr>backend := b0\<rparr>) = (Ok (stored, False), w')"
    by (rule served_ws.set_running [OF run], rule that) (assumption | blast)+
  have b0: "b0 = backend w" using reads [of sdk user wsn "backend w"] r(3) by simp
  have "backend w' = snd (sdk_CreateWorkspaceBuild (api sdk) (w_ID ws)
             (if sri_Running i then WorkspaceTransitionStart else WorkspaceTransitionStop) (backend w))"
    if upd: "sro_Updated result"
  proof -
    obtain cv' stored where put: "WorkspaceStorage_Update api (Some s) (Some (request (sri_Namespace i))) (sri_Name i)
       (Some (put_object (ObjWorkspace (obj\<lparr>cw_spec := (cw_spec obj)\<lparr>wsp_Running := sri_Running i\<rparr>\<rparr>)))) cv' uv False w
       = (Ok (stored, False), w')" using yes [OF upd] b0 by auto
    from workspace_update_Ok [OF put] obtain org' user' wsn' sdk' cur b1 where
      q: "client_of s (request (sri_Namespace i)) (backend w) sdk'" "ParseWorkspaceName (sri_Name i) = Ok (org', user', wsn')"
      "sdk_WorkspaceByOwnerAndName (api sdk') user' wsn' (backend w) = (Inr cur, b1)" and
      ap: "WorkspaceStorage_applyUpdate api (Some s) sdk' (sri_Name i) org' (ctx_Namespace (request (sri_Namespace i)))
        (put_object (ObjWorkspace (obj\<lparr>cw_spec := (cw_spec obj)\<lparr>wsp_Running := sri_Running i\<rparr>\<rparr>))) uv cur
        (w\<lparr>backend := b1\<rparr>) = (Ok (stored, False), w')" by blast
    have "sdk' = sdk" using q(1) r(2) by (simp add: client_of_def split: option.splits)
    with q(2,3) r(1,3) b0 have same: "sdk' = sdk" "cur = ws" "b1 = backend w" by auto
    from applyUpdate_Ok [OF ap] have "backend w' = after_build (api sdk) (w_ID ws)
        (transition_for (workspaceRunning ws) (sri_Running i)) (backend w)"
      using admission by (auto simp: same Let_def put_object_def split: option.splits)
    then show ?thesis using upd r(4) by (auto simp: transition_for_def after_build_def)
  qed
  then show ?thesis using r no b0 by (intro exI [of _ org] exI [of _ user] exI [of _ wsn] exI [of _ sdk] exI [of _ ws]) auto
qed
text \<open>A client none of whose requests succeed, to be served by the storages of the demonstration.\<close>

definition no_client :: "'w mcp_client" where
  "no_client = \<lparr>mc_ListControlPlanes = (\<lambda>_ w. (Inl not_found, w)), mc_GetControlPlane = (\<lambda>_ _ w. (Inl not_found, w)),
     mc_ListPods = (\<lambda>_ _ w. (Inl not_found, w)), mc_GetDeployment = (\<lambda>_ _ w. (Inl not_found, w)),
     mc_GetService = (\<lambda>_ _ w. (Inl not_found, w)), mc_ListWorkspaces = (\<lambda>_ w. (Inl not_found, w)),
     mc_GetWorkspace = (\<lambda>_ _ w. (Inl not_found, w)), mc_UpdateWorkspace = (\<lambda>_ w. (Inl not_found, w)),
     mc_ListTemplates = (\<lambda>_ w. (Inl not_found, w)), mc_GetTemplate = (\<lambda>_ _ w. (Inl not_found, w)),
     mc_UpdateTemplate = (\<lambda>_ w. (Inl not_found, w))\<rparr>"

theorem mcp_set_workspace_running_witness:
  "\<exists>result w'. setWorkspaceRunning (Some (served_workspaces demo_api demo_storage None None no_client))
      \<lparr>sri_Namespace = ''coder'', sri_Name = ''acme.alice.dev'', sri_Running = False\<rparr> demo_state = (Ok result, w') \<and>
    sro_Updated result \<and> backend w' = [WorkspaceTransitionStop]"
proof -
  let ?i = "\<lparr>sri_Namespace = ''coder'', sri_Name = ''acme.alice.dev'', sri_Running = False\<rparr>"
  let ?run = "setWorkspaceRunning (Some (served_workspaces demo_api demo_storage None None no_client)) ?i demo_state"
  have "is_ok (fst ?run)" by code_simp
  then obtain result w' where run: "?run = (Ok result, w')" by (cases ?run) (auto simp: is_ok_iff)
  have "ParseWorkspaceName ''acme.alice.dev'' = Ok (''acme'', ''alice'', ''dev'')" by code_simp
  with mcp_set_workspace_running [OF run] run show ?thesis
    by (auto simp: demo_sdk_def demo_state_def demo_ws_def workspaceRunning_def WorkspaceTransitionStart_def demo_build_def)
qed

text \<open>
  C26: set_template_running has no effect on what is reported. The aggregated API server never
  returns a template as running: a successful call that asks for a running template reports an
  update, and in the same output that the template is not running, so that every repetition
  reports an update again; a call that asks for a stopped template reports none.
\<close>

theorem mcp_template_running_ineffective:
  assumes "setTemplateRunning (Some (served_templates rt api s cv uv c)) i w = (Ok result, w')"
  shows "sro_Updated result = sri_Running i \<and> \<not> rs_Running (sro_Summary result)"
  using served_tm.set_running [OF assms] by simp

theorem mcp_template_running_ineffective_witness:
  "\<exists>result w'. setTemplateRunning (Some (served_templates small_rt demo_tapi demo_storage None None no_client))
      \<lparr>sri_Namespace = ''coder'', sri_Name = ''acme.go'', sri_Running = True\<rparr> demo_state = (Ok result, w') \<and>
    sro_Updated result \<and> \<not> rs_Running (sro_Summary result)"
proof -
  let ?i = "\<lparr>sri_Namespace = ''coder'', sri_Name = ''acme.go'', sri_Running = True\<rparr>"
  let ?run = "setTemplateRunning (Some (served_templates small_rt demo_tapi demo_storage None None no_client)) ?i demo_state"
  have "is_ok (fst ?run)" by code_simp
  then obtain result w' where run: "?run = (Ok result, w')" by (cases ?run) (auto simp: is_ok_iff)
  from mcp_template_running_ineffective [OF run] run show ?thesis by simp
qed

end
