(* ===== verification/App_Config.thy ===== *)
theory App_Config
  imports Template_Correct
begin

text \<open>
  Configuration of the applications: the choice of the application mode from the flags
  (app_dispatch.go), the client provider, request timeout and port of the aggregated API server
  and its storages (internal/app/apiserverapp/apiserverapp.go), and the namespace of the leader
  election (internal/app/controllerapp/controllerapp.go). The parsed flags, \<open>url.Parse\<close>, the
  environment and the namespace file are arguments.
\<close>

section \<open>Definitions\<close>

subsection \<open>Options and providers\<close>

record Options =
  opt_SecureServingPort :: int
  opt_Listener :: "unit option"
  opt_CoderURL :: string
  opt_CoderSessionToken :: string
  opt_CoderNamespace :: string
  opt_CoderRequestTimeout :: duration

definition DefaultSecureServingPort :: int where "DefaultSecureServingPort = 6443"

definition errClient_ClientForNamespace :: "string option \<Rightarrow> Context option \<Rightarrow> string \<Rightarrow> SDKClient option result" where
  "errClient_ClientForNamespace p ctx ns =
     (case p of None \<Rightarrow> Err (assertion ''err client provider must not be nil'')
      | Some serviceUnavailableMessage \<Rightarrow>
        if ctx = None then Err (assertion ''context must not be nil'')
        else if serviceUnavailableMessage = [] then Err (assertion ''service unavailable message must not be empty'')
        else Err (StatusError (NewServiceUnavailable (Lit serviceUnavailableMessage))))"

datatype built_provider = ErrClientProvider string | StaticProvider StaticClientProvider

text \<open>\<open>ErrClientProvider\<close> implements neither of the optional interfaces.\<close>

definition provider_of :: "built_provider \<Rightarrow> 'w ClientProvider" where
  "provider_of p = (case p of
      ErrClientProvider message \<Rightarrow>
        \<lparr>prov_ClientForNamespace = (\<lambda>ctx ns w. errClient_ClientForNamespace (Some message) ctx ns),
         prov_NamespaceResolver = None, prov_NamespaceLister = None\<rparr>
    | StaticProvider sp \<Rightarrow> static_provider (Some sp))"

definition not_configured :: "string list \<Rightarrow> string" where
  "not_configured missing =
     ''coder client provider is not configured: missing '' @
     (case missing of [a, b] \<Rightarrow> a @ '' and '' @ b | [a] \<Rightarrow> a | _ \<Rightarrow> []) @
     ''; configure --coder-url and --coder-session-token''"

definition buildClientProvider ::
    "(string \<Rightarrow> error + string) \<Rightarrow> Options \<Rightarrow> duration \<Rightarrow> built_provider result" where
  "buildClientProvider url_Parse opts requestTimeout =
     (if requestTimeout \<le> 0 then Err (assertion ''request timeout must be positive'')
      else
        let coderURL = strings_TrimSpace (opt_CoderURL opts);
            sessionToken = strings_TrimSpace (opt_CoderSessionToken opts);
            missing = (if coderURL = [] then [''coder URL''] else []) @
                      (if sessionToken = [] then [''coder session token''] else []) in
        if missing \<noteq> [] then
          (if length missing = 2 then Ok (ErrClientProvider (not_configured missing))
           else Err (ErrorString (Fmt ''coder client provider is partially configured: %s'' [ArgS (not_configured missing)])))
        else
          let coderNamespace = strings_TrimSpace (opt_CoderNamespace opts) in
          if coderNamespace = []
          then Err (ErrorString (Lit ''coder client provider namespace is not configured: configure --coder-namespace''))
          else case url_Parse coderURL of
            Inl err \<Rightarrow> Err (WrapError ''parse coder URL %q: %w'' [ArgS coderURL] err)
          | Inr parsedCoderURL \<Rightarrow>
            rbind (NewStaticClientProvider \<lparr>cfg_CoderURL = Some parsedCoderURL, cfg_SessionToken = sessionToken,
                     cfg_RequestTimeout = requestTimeout\<rparr> coderNamespace) (\<lambda>provider. Ok (StaticProvider provider)))"

text \<open>The first part of \<open>RunWithOptions\<close>: the provider (given, or built from the options) and the port to bind.\<close>

definition server_setup ::
    "(string \<Rightarrow> error + string) \<Rightarrow> Context option \<Rightarrow> 'w ClientProvider option \<Rightarrow> Options \<Rightarrow> ('w ClientProvider \<times> int) result" where
  "server_setup url_Parse ctx clientProvider opts =
     (if ctx = None then Err (assertion ''context must not be nil'')
      else if opt_CoderRequestTimeout opts < 0 then Err (assertion ''coder request timeout must not be negative'')
      else
        let requestTimeout = (if opt_CoderRequestTimeout opts = 0 then 30 * time_Second else opt_CoderRequestTimeout opts) in
        rbind (case clientProvider of Some p \<Rightarrow> Ok p
               | None \<Rightarrow> rbind (rmap_err (WrapError ''build coder client provider: %w'' [])
                           (buildClientProvider url_Parse opts requestTimeout)) (\<lambda>b. Ok (provider_of b))) (\<lambda>provider.
        let secureServingPort = (if opt_SecureServingPort opts = 0 then DefaultSecureServingPort else opt_SecureServingPort opts) in
        if secureServingPort < 0 then Err (assertion ''secure serving port must not be negative'')
        else Ok (provider, if opt_Listener opts \<noteq> None then 0 else secureServingPort)))"

definition NewAPIGroupInfo :: "unit option \<Rightarrow> 'b ClientProvider option \<Rightarrow> ('b Storage \<times> 'b Storage) result" where
  "NewAPIGroupInfo scheme provider =
     (if scheme = None then Err (assertion ''scheme must not be nil'')
      else if provider = None then Err (assertion ''coder client provider must not be nil'')
      else rbind (NewWorkspaceStorage provider) (\<lambda>ws. rbind (NewTemplateStorage provider) (\<lambda>tm. Ok (ws, tm))))"

subsection \<open>Application modes\<close>

record Flags =
  fl_app :: string
  fl_coderURL :: string
  fl_coderSessionToken :: string
  fl_coderNamespace :: string
  fl_coderRequestTimeout :: duration

datatype app = AllApp duration | ControllerApp | AggregatedAPIServerApp Options | MCPHTTPApp

definition supportedAppModes :: string where
  "supportedAppModes = ''all, controller, aggregated-apiserver, mcp-http''"

text \<open>\<open>url.Parse\<close> gives the scheme and the host.\<close>

definition check_coder_url :: "(string \<Rightarrow> error + string \<times> string) \<Rightarrow> string \<Rightarrow> unit result" where
  "check_coder_url parse coderURL =
     (if coderURL = [] then Ok ()
      else case parse coderURL of
        Inl err \<Rightarrow> Err (WrapError ''assertion failed: invalid --coder-url %q: %w'' [ArgS coderURL] err)
      | Inr (scheme, host) \<Rightarrow>
        if scheme = [] \<or> host = []
        then Err (ErrorString (Fmt (''assertion failed: invalid --coder-url %q: must include scheme and host'' @
               '' (for example, https://coder.example.com)'') [ArgS coderURL]))
        else if strings_ToLower scheme \<noteq> ''http'' \<and> strings_ToLower scheme \<noteq> ''https''
        then Err (ErrorString (Fmt ''assertion failed: invalid --coder-url %q: scheme must be http or https'' [ArgS coderURL]))
        else Ok ())"

definition run :: "(string \<Rightarrow> error + string \<times> string) \<Rightarrow> Flags \<Rightarrow> app result" where
  "run parse f =
     rbind (check_coder_url parse (fl_coderURL f)) (\<lambda>_.
     if fl_app f = ''all'' then Ok (AllApp (fl_coderRequestTimeout f))
     else if fl_app f = ''controller'' then Ok ControllerApp
     else if fl_app f = ''aggregated-apiserver''
     then Ok (AggregatedAPIServerApp \<lparr>opt_SecureServingPort = 0, opt_Listener = None, opt_CoderURL = fl_coderURL f,
            opt_CoderSessionToken = fl_coderSessionToken f, opt_CoderNamespace = fl_coderNamespace f,
            opt_CoderRequestTimeout = fl_coderRequestTimeout f\<rparr>)
     else if fl_app f = ''mcp-http'' then Ok MCPHTTPApp
     else Err (ErrorString (Fmt ''assertion failed: unsupported --app value %q; must be one of: %s''
            [ArgS (fl_app f), ArgS supportedAppModes])))"

definition defaultLeaderElectionNamespace :: string where "defaultLeaderElectionNamespace = ''kube-system''"

definition detectLeaderElectionNamespace :: "(string \<Rightarrow> string) \<Rightarrow> (error + string) \<Rightarrow> string" where
  "detectLeaderElectionNamespace getenv namespaceFile =
     (let ns = strings_TrimSpace (getenv ''POD_NAMESPACE'') in
      if ns \<noteq> [] then ns
      else case namespaceFile of
        Inr data \<Rightarrow> (if strings_TrimSpace data \<noteq> [] then strings_TrimSpace data else defaultLeaderElectionNamespace)
      | Inl _ \<Rightarrow> defaultLeaderElectionNamespace)"

section \<open>Lemmas\<close>

text \<open>A static provider that is built is pinned to a namespace and has a client with the token and the timeout.\<close>

lemma build_static_pinned:
  assumes "buildClientProvider parse opts t = Ok (StaticProvider p)"
  shows "scp_Namespace p = strings_TrimSpace (opt_CoderNamespace opts)" "scp_Namespace p \<noteq> []"
    "\<exists>url. parse (strings_TrimSpace (opt_CoderURL opts)) = Inr url \<and>
       scp_Client p = Some \<lparr>cl_URL = url, cl_SessionToken = strings_TrimSpace (opt_CoderSessionToken opts), cl_Timeout = t\<rparr>"
  using assms
  by (auto simp: buildClientProvider_def Let_def rbind_eq_Ok NewStaticClientProvider_def NewSDKClient_def split: if_splits sum.splits)

lemma build_unconfigured:
  "buildClientProvider parse opts t = Ok (ErrClientProvider m) \<Longrightarrow>
     strings_TrimSpace (opt_CoderURL opts) = [] \<and> strings_TrimSpace (opt_CoderSessionToken opts) = [] \<and> m \<noteq> []"
  by (auto simp: buildClientProvider_def Let_def rbind_eq_Ok not_configured_def split: if_splits sum.splits)

text \<open>
  A server without configuration starts, and answers a request with the status Service
  Unavailable (503) before it calls any deployment.
\<close>

lemma unconfigured_unavailable:
  assumes "buildClientProvider parse opts t = Ok (ErrClientProvider m)"
    and "NewAPIGroupInfo (Some ()) (Some (provider_of (ErrClientProvider m))) = Ok (ws, tm)"
    and "ParseWorkspaceName name = Ok (org, user, wsn)" "name \<noteq> []" "ctx_Namespace ctx \<noteq> []"
  shows "WorkspaceStorage_Get api (Some ws) (Some ctx) name w = (Err (StatusError (NewServiceUnavailable (Lit m))), w)"
    "status_code (NewServiceUnavailable (Lit m)) = 503"
proof -
  have "st_provider ws = Some (provider_of (ErrClientProvider m))"
    using assms(2) by (auto simp: NewAPIGroupInfo_def rbind_eq_Ok NewWorkspaceStorage_def)
  moreover have "m \<noteq> []" using build_unconfigured [OF assms(1)] by simp
  ultimately show "WorkspaceStorage_Get api (Some ws) (Some ctx) name w = (Err (StatusError (NewServiceUnavailable (Lit m))), w)"
    using assms(3-5)
    by (simp add: WorkspaceStorage_Get_def requiredNamespaceFromRequestContext_def namespaceFromRequestContext_def bind_run map_err_run
        clientForNamespace_def provider_of_def read_backend_def errClient_ClientForNamespace_def wrapClientError_def)
qed simp

text \<open>The server of the flags binds the default port; with a listener it binds none.\<close>

lemma server_setup_port:
  assumes "server_setup parse ctx p opts = Ok (prov, port)"
  shows "0 \<le> port" "opt_Listener opts = None \<Longrightarrow> opt_SecureServingPort opts = 0 \<Longrightarrow> port = DefaultSecureServingPort"
  using assms by (auto simp: server_setup_def Let_def rbind_eq_Ok DefaultSecureServingPort_def split: if_splits)

text \<open>A run that starts has one of the four modes, and its URL is empty or an HTTP URL with a host.\<close>

lemma run_Ok:
  assumes "run parse f = Ok a"
  shows "fl_app f \<in> {''all'', ''controller'', ''aggregated-apiserver'', ''mcp-http''}"
    "fl_coderURL f \<noteq> [] \<Longrightarrow> \<exists>scheme host. parse (fl_coderURL f) = Inr (scheme, host) \<and> host \<noteq> [] \<and>
       strings_ToLower scheme \<in> {''http'', ''https''}"
  using assms by (auto simp: run_def rbind_eq_Ok check_coder_url_def split: if_splits sum.splits prod.splits)

lemma leader_namespace_not_empty: "detectLeaderElectionNamespace getenv f \<noteq> []"
  by (auto simp: detectLeaderElectionNamespace_def Let_def defaultLeaderElectionNamespace_def split: sum.splits)

end
