(* ===== verification/Spec2Isabelle.thy ===== *)
theory Spec2Isabelle
  imports Base_Properties Workspace_Properties Template_Properties Controller_Properties
    Control_Plane_Properties Operator_Properties Mcp_Properties App_Config
begin

text \<open>
  A model of coder-k8s, the Kubernetes operator and aggregated API server for Coder, with the
  theorems that make it correct. All paths below are under \<open>src/\<close>.

  \<^bold>\<open>The program.\<close> Three parts share the API types. The aggregated API server
  (internal/aggregated) answers Kubernetes requests for workspaces and templates by calling
  the Coder deployment that belongs to the namespace of the request. The controllers
  (internal/controller) reconcile the custom resources CoderControlPlane, CoderProvisioner and
  CoderWorkspaceProxy into Kubernetes objects and into keys, tokens, licenses and registrations
  in the Coder deployment, through the bootstrap client and the PostgreSQL provisioner
  (internal/coderbootstrap). A control plane's status (URL, operator token, entitlement) is what
  the API server's provider and the provisioner controller read. The MCP tools
  (internal/app/mcpapp) are a client of both: they read control planes, pods and events, and
  start and stop workspaces through the aggregated API.

  \<^bold>\<open>How code is modelled.\<close> A Go function that returns an error is a value of the result type of
  \<open>Prelude\<close> (\<open>Ok\<close>, \<open>Err\<close>, \<open>Panic\<close>); a function with effects passes a world, whose type is
  a variable: the Coder SDK, the Kubernetes client, the SQL engine, the clock, the random source
  and the zip format are records of calls and arguments of the definitions, and nothing is
  assumed of them except the hypotheses a theorem names. Errors keep their wrapping structure,
  formatted messages their format and arguments. An object that the code mutates in place is a
  component of an explicit state. A SQL statement is a function on the tables it reads and
  writes.

  \<^bold>\<open>Theories.\<close>
  \<^item> \<open>Prelude\<close>, \<open>Go_Std\<close>, \<open>Go_Time\<close>, \<open>Sha256\<close>: results, computations, preserved predicates, panic
    freedom; strings, UTF-8, uuids, durations, formatted times and SHA-256 as in the Go library.
  \<^item> \<open>Api_Errors\<close>, \<open>Names\<close>, \<open>Api_Types\<close>, \<open>Convert\<close>: internal/aggregated/coder/errors.go and
    names.go, storage/errors.go, api/aggregation/v1alpha1/types.go, internal/aggregated/convert.
  \<^item> \<open>Provider\<close>: coder/config.go, provider.go, controlplane_provider.go (locales for the
    interfaces ClientProvider and NamespaceLister, interpreted for both providers).
  \<^item> \<open>Watch\<close>: storage/watch.go and the event queue of both storages, also as an inductive step
    relation for concurrent producers.
  \<^item> \<open>Workspace_Storage\<close>, \<open>Workspace_Correct\<close>: storage/workspace.go.
  \<^item> \<open>Template_Files\<close>, \<open>Template_Files_Correct\<close>: storage/template_files.go.
  \<^item> \<open>Template_Build_Wait\<close>, \<open>Template_Storage\<close>, \<open>Template_Correct\<close>: storage/template.go.
  \<^item> \<open>Kube\<close>: object metadata, owner references, finalizers, conditions and \<open>CreateOrUpdate\<close> of
    the vendored controller-runtime; the locales \<open>managed_object\<close> and \<open>owned_object\<close> are the
    contract of a mutate function.
  \<^item> \<open>Resource_Names\<close>: derived names and hashes (locale \<open>bounded_name\<close>).
  \<^item> \<open>Bootstrap\<close>: internal/coderbootstrap/client.go and provisionerkeys.go (locale \<open>key_client\<close>).
  \<^item> \<open>Workspace_Proxy\<close>: coderworkspaceproxy_controller.go.
  \<^item> \<open>Provisioner\<close>, \<open>Provisioner_Reconcile\<close>, \<open>Provisioner_Correct\<close>, \<open>Provisioner_Settled\<close>:
    coderprovisioner_controller.go.
  \<^item> \<open>Control_Plane_Types\<close>, \<open>Control_Plane_Names\<close>, \<open>Control_Plane_Status\<close>, \<open>Control_Plane_RBAC\<close>,
    \<open>Control_Plane_Workload\<close>, \<open>Control_Plane_Exposure\<close>, \<open>Control_Plane_Access\<close>,
    \<open>Control_Plane_Reconcile\<close>, \<open>Control_Plane_Correct\<close>: codercontrolplane_controller.go, by
    groups of its functions, and its API types; the retry of client-go is in
    \<open>Control_Plane_Status\<close>, with the locale \<open>merged_field\<close> for the three-way merge. In these
    theories a cut of a string and the read of a pointer field are total functions of the model.
  \<^item> \<open>Operator_Access\<close>, \<open>Operator_Correct\<close>, \<open>Operator_Transaction\<close>: the provisioner of operator
    tokens on PostgreSQL (internal/coderbootstrap/operator_access_postgres.go); the locale
    \<open>operator_provisioner\<close> is what the controller relies on.
  \<^item> \<open>Mcp_Tools\<close>: internal/app/mcpapp/tools.go and server.go. \<open>Mcp_Api\<close> puts the tools on the
    handlers of the aggregated API (locales \<open>workspace_api\<close> and \<open>template_api\<close>, interpreted on
    clients that are served by the storages).
  \<^item> \<open>App_Config\<close>: the configuration of the applications (app_dispatch.go, apiserverapp.go,
    controllerapp.go).
  \<^item> \<open>Base_Properties\<close>, \<open>Workspace_Properties\<close>, \<open>Template_Properties\<close>, \<open>Controller_Properties\<close>,
    \<open>Control_Plane_Properties\<close>, \<open>Operator_Properties\<close>, \<open>Mcp_Properties\<close>: the properties;
    \<open>Demo_Backend\<close>, \<open>Demo_Templates\<close>, \<open>Demo_Cluster\<close>, \<open>Demo_Control_Plane\<close>: concrete services
    their witnesses run on.

  \<^bold>\<open>What is shown.\<close> For the API server: round trips of names and archives, the exact effects and
  error status of the handlers, safety of archive paths, that a template is promoted only
  after its version was built, freedom from panics (with the one exception that is a finding),
  and the bounded event queue under interleaving. For the provisioner and proxy controllers:
  managed objects are fixed points of their mutate functions and objects of other controllers
  are never written; the provisioner key converges and is created only under a stored finalizer; deletion
  is best effort; rate limits become bounded back-off; a settled provisioner is only read; a
  proxy is registered once. For the control plane: the status write is a three-way merge that
  loses no update and commutes with a concurrent writer of other fields; the names of roles,
  bindings and volumes are valid, and for which control planes the name of the token secret is;
  the access URL is set once; only managed roles are deleted, and a deleted control plane
  releases its finalizer; a license is not uploaded again while the deployment has one; objects
  of other controllers in the control plane's namespace are not written.
  For operator access: a token is issued in one transaction with the user and memberships it
  needs, stays the same while it is valid, is gone after revocation, and its random parts are
  found with enough fuel. For the MCP tools: logs are bounded, no tool panics, starting and
  stopping a workspace makes exactly one build, and the tool for templates has no effect.

  \<^bold>\<open>Fuel.\<close> The wait for a template version build is a loop on fuel; \<open>wait_returns\<close> shows that
  fuel above the number of nanoseconds of MaxTemplateVersionBuildWaitTimeout always gives a
  result. The rejection sampling of random token parts is a loop on fuel, which counts the bytes
  that are read; \<open>random_token_part\<close> shows that it reads exactly up to the last byte below the
  threshold that it needs. Running out of it stands for a source that never does. All
  other loops are structural.

  \<^bold>\<open>Not modelled.\<close> Process wiring (main.go, allapp.go, mcpapp/http.go and the parts of
  apiserverapp.go and controllerapp.go that only build library objects, with the OpenAPI table);
  SetupWithManager of the controllers; ConvertToTable; logging; generated deep copies and scheme
  registration; the sleep between two attempts of a status update; the tools under hack/.
\<close>

end
